(* ===== verification/Prelude.thy ===== *)
theory Prelude
  imports Main "HOL-Library.Multiset" "HOL-Library.Char_ord" "HOL-Library.List_Lexorder"
begin

text \<open>
  What every theory of the development shares: Rust's \<^verbatim>\<open>Result\<close> and its question mark,
  \<^verbatim>\<open>std::cmp::Ordering\<close> with \<^verbatim>\<open>then_with\<close>, the stable \<^verbatim>\<open>slice::sort_by\<close>, the iterator
  searches \<^verbatim>\<open>find\<close> and \<^verbatim>\<open>position\<close> with the update of the element they select, and
  \<^verbatim>\<open>BTreeMap\<close> as a key-sorted association list. Two locales state what a comparison
  function and a keyed record have to satisfy; the stores interpret them.
\<close>

section \<open>Collections of facts\<close>

named_theorems result_simps
named_theorems list_search

section \<open>Result\<close>

text \<open>\<^verbatim>\<open>Result<T, E>\<close> is the sum type, with \<^verbatim>\<open>Err\<close> on the left. \<open>and_then\<close> is the question mark.\<close>

type_synonym ('e, 'a) result = "'e + 'a"

abbreviation Ok :: "'a \<Rightarrow> 'e + 'a" where "Ok \<equiv> Inr"
abbreviation Err :: "'e \<Rightarrow> 'e + 'a" where "Err \<equiv> Inl"

definition and_then :: "'e + 'a \<Rightarrow> ('a \<Rightarrow> 'e + 'b) \<Rightarrow> 'e + 'b" where
  "and_then r f = (case r of Inl e \<Rightarrow> Err e | Inr a \<Rightarrow> f a)"

definition map_err :: "('e \<Rightarrow> 'f) \<Rightarrow> 'e + 'a \<Rightarrow> 'f + 'a" where
  "map_err f r = (case r of Inl e \<Rightarrow> Err (f e) | Inr a \<Rightarrow> Ok a)"

definition map_ok :: "('a \<Rightarrow> 'b) \<Rightarrow> 'e + 'a \<Rightarrow> 'e + 'b" where
  "map_ok f r = (case r of Inl e \<Rightarrow> Err e | Inr a \<Rightarrow> Ok (f a))"

definition ok_or :: "'e \<Rightarrow> 'a option \<Rightarrow> 'e + 'a" where
  "ok_or e x = (case x of None \<Rightarrow> Err e | Some a \<Rightarrow> Ok a)"

definition result_ok :: "'e + 'a \<Rightarrow> 'a option" where
  "result_ok r = (case r of Inl e \<Rightarrow> None | Inr a \<Rightarrow> Some a)"

definition is_ok :: "'e + 'a \<Rightarrow> bool" where
  "is_ok r = (case r of Inl e \<Rightarrow> False | Inr a \<Rightarrow> True)"

lemma and_then_simps [simp]:
  "and_then (Err e) f = Err e" "and_then (Ok a) f = f a"
  by (simp_all add: and_then_def)

lemma map_err_simps [simp]:
  "map_err f (Err e) = Err (f e)" "map_err f (Ok a) = Ok a"
  by (simp_all add: map_err_def)

lemma map_ok_simps [simp]:
  "map_ok g (Err e) = Err e" "map_ok g (Ok a) = Ok (g a)"
  by (simp_all add: map_ok_def)

lemma ok_or_simps [simp]: "ok_or e None = Err e" "ok_or e (Some a) = Ok a"
  by (simp_all add: ok_or_def)

lemma result_ok_simps [simp]: "result_ok (Err e) = None" "result_ok (Ok a) = Some a"
  by (simp_all add: result_ok_def)

lemma is_ok_simps [simp]: "\<not> is_ok (Err e)" "is_ok (Ok a)"
  by (simp_all add: is_ok_def)

lemma and_then_Ok_iff [result_simps]: "and_then r f = Ok b \<longleftrightarrow> (\<exists>a. r = Ok a \<and> f a = Ok b)"
  by (cases r) auto

lemma and_then_Err_iff:
  "and_then r f = Err e \<longleftrightarrow> r = Err e \<or> (\<exists>a. r = Ok a \<and> f a = Err e)"
  by (cases r) auto

lemma map_err_Ok_iff [result_simps]: "map_err f r = Ok a \<longleftrightarrow> r = Ok a"
  by (cases r) auto

lemma map_ok_Ok_iff [result_simps]: "map_ok f r = Ok b \<longleftrightarrow> (\<exists>a. r = Ok a \<and> b = f a)"
  by (cases r) auto

lemma ok_or_Ok_iff [result_simps]: "ok_or e x = Ok a \<longleftrightarrow> x = Some a"
  by (cases x) auto

lemma result_ok_Some_iff [result_simps]: "result_ok r = Some a \<longleftrightarrow> r = Ok a"
  by (cases r) auto

lemma if_Err_Ok_iff [result_simps]:
  "(if b then Err e else r) = Ok a \<longleftrightarrow> \<not> b \<and> r = Ok a"
  "(if b then r else Err e) = Ok a \<longleftrightarrow> b \<and> r = Ok a"
  by simp_all

text \<open>\<^verbatim>\<open>iter().map(f).collect::<Result<Vec<_>>>()\<close>: the first error wins.\<close>

fun collect_results :: "('e + 'a) list \<Rightarrow> 'e + 'a list" where
  "collect_results [] = Ok []"
| "collect_results (r # rs) =
     and_then r (\<lambda>a. and_then (collect_results rs) (\<lambda>as. Ok (a # as)))"

lemma collect_results_Ok: "collect_results (map Ok xs) = Ok xs"
  by (induction xs) simp_all

section \<open>Ordering and sorting\<close>

datatype ordering = Less | Equal | Greater

definition cmp :: "'a::linorder \<Rightarrow> 'a \<Rightarrow> ordering" where
  "cmp a b = (if a < b then Less else if a = b then Equal else Greater)"

definition then_with :: "ordering \<Rightarrow> ordering \<Rightarrow> ordering" where
  "then_with a b = (case a of Equal \<Rightarrow> b | _ \<Rightarrow> a)"

lemma then_with_simps [simp]:
  "then_with Less b = Less" "then_with Equal b = b" "then_with Greater b = Greater"
  by (simp_all add: then_with_def)

lemma cmp_iffs [simp]:
  "cmp a b = Less \<longleftrightarrow> a < b" "cmp a b = Equal \<longleftrightarrow> a = b" "cmp a b = Greater \<longleftrightarrow> b < a"
  by (auto simp: cmp_def)

lemma then_with_iffs [simp]:
  "then_with a b = Less \<longleftrightarrow> a = Less \<or> a = Equal \<and> b = Less"
  "then_with a b = Equal \<longleftrightarrow> a = Equal \<and> b = Equal"
  "then_with a b = Greater \<longleftrightarrow> a = Greater \<or> a = Equal \<and> b = Greater"
  by (cases a; simp)+

text \<open>
  \<^verbatim>\<open>slice::sort_by\<close> is a stable sort, so its result is fixed by the comparison: it is the
  result of stable insertion, which is what is written here.
\<close>

fun insert_by :: "('a \<Rightarrow> 'a \<Rightarrow> ordering) \<Rightarrow> 'a \<Rightarrow> 'a list \<Rightarrow> 'a list" where
  "insert_by c x [] = [x]"
| "insert_by c x (y # ys) = (if c x y = Greater then y # insert_by c x ys else x # y # ys)"

fun sort_by :: "('a \<Rightarrow> 'a \<Rightarrow> ordering) \<Rightarrow> 'a list \<Rightarrow> 'a list" where
  "sort_by c [] = []"
| "sort_by c (x # xs) = insert_by c x (sort_by c xs)"

lemma mset_insert_by [simp]: "mset (insert_by c x xs) = add_mset x (mset xs)"
  by (induction xs) auto

lemma mset_sort_by [simp]: "mset (sort_by c xs) = mset xs"
  by (induction xs) auto

lemma set_insert_by [simp]: "set (insert_by c x xs) = insert x (set xs)"
  by (induction xs) auto

lemma set_sort_by [simp]: "set (sort_by c xs) = set xs"
  by (induction xs) auto

lemma length_insert_by [simp]: "length (insert_by c x xs) = Suc (length xs)"
  by (induction xs) auto

lemma length_sort_by [simp]: "length (sort_by c xs) = length xs"
  by (induction xs) auto

lemma mset_map_sort_by: "mset (map f (sort_by c xs)) = mset (map f xs)"
  by simp

lemma distinct_map_sort_by [simp]: "distinct (map f (sort_by c xs)) \<longleftrightarrow> distinct (map f xs)"
  by (metis mset_map_sort_by mset_eq_imp_distinct_iff)

text \<open>What the sorting client asks of a comparison function.\<close>

locale comparison =
  fixes c :: "'a \<Rightarrow> 'a \<Rightarrow> ordering"
  assumes flip: "c x y = Greater \<longleftrightarrow> c y x = Less"
    and trans_le: "c x y \<noteq> Greater \<Longrightarrow> c y z \<noteq> Greater \<Longrightarrow> c x z \<noteq> Greater"
begin

definition le :: "'a \<Rightarrow> 'a \<Rightarrow> bool" where
  "le x y \<longleftrightarrow> c x y \<noteq> Greater"

lemma le_total: "le x y \<or> le y x"
  using flip [of x y] by (auto simp: le_def)

lemma le_trans: "le x y \<Longrightarrow> le y z \<Longrightarrow> le x z"
  unfolding le_def by (rule trans_le)

lemma sorted_insert_by: "sorted_wrt le xs \<Longrightarrow> sorted_wrt le (insert_by c x xs)"
proof (induction xs)
  case Nil
  then show ?case by simp
next
  case (Cons y ys)
  show ?case
  proof (cases "c x y = Greater")
    case True
    then have "le y x" using le_total [of x y] by (auto simp: le_def)
    with Cons True show ?thesis by auto
  next
    case False
    then have "le x y" by (simp add: le_def)
    with Cons.prems False show ?thesis by (auto intro: le_trans)
  qed
qed

lemma sorted_sort_by: "sorted_wrt le (sort_by c xs)"
  by (induction xs) (auto intro: sorted_insert_by)

lemma insert_by_min: "(\<forall>y \<in> set xs. le x y) \<Longrightarrow> insert_by c x xs = x # xs"
  by (cases xs) (auto simp: le_def)

lemma sort_by_sorted: "sorted_wrt le xs \<Longrightarrow> sort_by c xs = xs"
  by (induction xs) (auto simp: insert_by_min)

lemma sort_by_idem: "sort_by c (sort_by c xs) = sort_by c xs"
  by (rule sort_by_sorted) (rule sorted_sort_by)

end

text \<open>
  A comparison that never calls two entries with different keys equal: sorting entries with
  distinct keys gives one result, whatever order they come in.
\<close>

locale keyed_comparison = comparison c for c :: "'a \<Rightarrow> 'a \<Rightarrow> ordering" +
  fixes key :: "'a \<Rightarrow> 'k"
  assumes equal_key: "c x y = Equal \<Longrightarrow> key x = key y"
begin

lemma le_antisym: "le x y \<Longrightarrow> le y x \<Longrightarrow> key x = key y"
  unfolding le_def using flip equal_key by (metis ordering.exhaust)

definition less :: "'a \<Rightarrow> 'a \<Rightarrow> bool" where
  "less x y \<longleftrightarrow> c x y = Less"

lemma sorted_less:
  assumes "sorted_wrt le xs" and "distinct (map key xs)"
  shows "sorted_wrt less xs"
  using assms
proof (induction xs)
  case Nil
  then show ?case by simp
next
  case (Cons x xs)
  have "less x y" if y: "y \<in> set xs" for y
  proof -
    from y Cons.prems have "le x y" and "key x \<noteq> key y" by auto
    then show ?thesis
      unfolding less_def le_def using equal_key by (metis ordering.exhaust)
  qed
  with Cons show ?case by auto
qed

lemma sort_by_unique:
  assumes "mset xs = mset ys" and "distinct (map key xs)"
    and "sorted_wrt le xs" and "sorted_wrt le ys"
  shows "xs = ys"
  using assms
proof (induction xs arbitrary: ys)
  case Nil
  then show ?case by simp
next
  case (Cons x xs)
  then obtain y zs where ys: "ys = y # zs" by (cases ys) auto
  have x_in: "x \<in> set ys" and y_in: "y \<in> set (x # xs)"
    using Cons.prems(1) ys by (metis list.set_intros(1) set_mset_mset)+
  have "x = y"
  proof (rule ccontr)
    assume "x \<noteq> y"
    with x_in y_in ys have xz: "x \<in> set zs" and yx: "y \<in> set xs" by auto
    with Cons.prems(3,4) ys have "le x y" "le y x" by auto
    then have "key x = key y" by (rule le_antisym)
    with yx Cons.prems(2) show False by auto
  qed
  with Cons ys show ?case by simp
qed

lemma sort_by_mset:
  assumes "mset xs = mset ys" and "distinct (map key xs)"
  shows "sort_by c xs = sort_by c ys"
proof (rule sort_by_unique)
  show "mset (sort_by c xs) = mset (sort_by c ys)" using assms(1) by simp
  show "distinct (map key (sort_by c xs))" using assms(2) by simp
qed (rule sorted_sort_by)+

end

section \<open>Searching and updating lists\<close>

text \<open>\<^verbatim>\<open>iter().position(p)\<close>.\<close>

fun position :: "('a \<Rightarrow> bool) \<Rightarrow> 'a list \<Rightarrow> nat option" where
  "position p [] = None"
| "position p (x # xs) = (if p x then Some 0 else map_option Suc (position p xs))"

lemma position_Some:
  "position p xs = Some i \<Longrightarrow> i < length xs \<and> p (xs ! i) \<and> (\<forall>j < i. \<not> p (xs ! j))"
proof (induction xs arbitrary: i)
  case Nil
  then show ?case by simp
next
  case (Cons x xs)
  then show ?case
    by (cases i) (auto split: if_splits simp: less_Suc_eq_0_disj)
qed

lemma position_None [list_search]: "position p xs = None \<longleftrightarrow> (\<forall>x \<in> set xs. \<not> p x)"
  by (induction xs) auto

lemma position_find: "find p xs = map_option ((!) xs) (position p xs)"
  by (induction xs) (auto simp: option.map_comp comp_def)

lemma find_Some_mem [list_search]: "find p xs = Some x \<Longrightarrow> x \<in> set xs \<and> p x"
  by (induction xs) (auto split: if_splits)

text \<open>\<^verbatim>\<open>iter_mut().find(p)\<close> followed by a write through the reference it returns.\<close>

fun update_first :: "('a \<Rightarrow> bool) \<Rightarrow> ('a \<Rightarrow> 'a) \<Rightarrow> 'a list \<Rightarrow> 'a list" where
  "update_first p f [] = []"
| "update_first p f (x # xs) = (if p x then f x # xs else x # update_first p f xs)"

lemma length_update_first [simp]: "length (update_first p f xs) = length xs"
  by (induction xs) auto

lemma update_first_none: "find p xs = None \<Longrightarrow> update_first p f xs = xs"
  by (induction xs) (auto split: if_splits)

lemma map_update_first: "(\<And>x. p x \<Longrightarrow> g (f x) = g x) \<Longrightarrow> map g (update_first p f xs) = map g xs"
  by (induction xs) auto

lemma set_update_first:
  "x \<in> set (update_first p f xs) \<Longrightarrow> x \<in> set xs \<or> (\<exists>y \<in> set xs. p y \<and> x = f y)"
  by (induction xs) (auto split: if_splits)

lemma update_first_cong:
  "(\<And>x. x \<in> set xs \<Longrightarrow> p x \<Longrightarrow> f x = g x) \<Longrightarrow> update_first p f xs = update_first p g xs"
  by (induction xs) auto

lemma find_update_first:
  assumes "\<And>x. p x \<Longrightarrow> p (f x)"
  shows "find p (update_first p f xs) = map_option f (find p xs)"
  using assms by (induction xs) auto

lemma find_update_first_other:
  assumes "\<And>x. p x \<Longrightarrow> \<not> q x" and "\<And>x. p x \<Longrightarrow> \<not> q (f x)"
  shows "find q (update_first p f xs) = find q xs"
  using assms by (induction xs) auto

lemma position_update:
  "position p xs = Some i \<Longrightarrow> xs[i := f (xs ! i)] = update_first p f xs"
  by (induction xs arbitrary: i) (auto split: if_splits nat.splits)

lemma find_filter: "find q (filter p xs) = find (\<lambda>x. p x \<and> q x) xs"
  by (induction xs) auto

lemma find_append: "find p (xs @ ys) = (case find p xs of None \<Rightarrow> find p ys | Some x \<Rightarrow> Some x)"
  by (induction xs) auto

lemma find_congI: "(\<And>x. x \<in> set xs \<Longrightarrow> p x = q x) \<Longrightarrow> find p xs = find q xs"
  by (induction xs) auto

text \<open>Lists of records with a key no two of them share: what the stores keep.\<close>

lemma distinct_keys_find:
  assumes "distinct (map key xs)" and "x \<in> set xs"
  shows "find (\<lambda>y. key y = key x) xs = Some x"
  using assms by (induction xs) (auto simp: image_iff)

lemma find_key_Some_iff:
  assumes "distinct (map key xs)"
  shows "find (\<lambda>y. key y = k) xs = Some x \<longleftrightarrow> x \<in> set xs \<and> key x = k"
  using distinct_keys_find [OF assms] by (auto dest: find_Some_mem)

lemma find_key_None_iff: "find (\<lambda>y. key y = k) xs = None \<longleftrightarrow> k \<notin> key ` set xs"
  by (induction xs) auto

lemma distinct_update_first:
  "(\<And>x. p x \<Longrightarrow> key (f x) = key x) \<Longrightarrow> distinct (map key (update_first p f xs)) = distinct (map key xs)"
  by (simp add: map_update_first)

section \<open>Reading lists\<close>

text \<open>\<^verbatim>\<open>iter().max_by(c)\<close>: of several maxima the last one.\<close>

definition max_by :: "('a \<Rightarrow> 'a \<Rightarrow> ordering) \<Rightarrow> 'a list \<Rightarrow> 'a option" where
  "max_by c xs =
     (case xs of [] \<Rightarrow> None
      | y # ys \<Rightarrow> Some (foldl (\<lambda>m z. if c m z = Greater then m else z) y ys))"

text \<open>\<^verbatim>\<open>Vec::dedup\<close>: consecutive equal elements collapse.\<close>

definition dedup :: "'a list \<Rightarrow> 'a list" where
  "dedup = remdups_adj"

lemma take_filter_prefix: "take n xs @ drop n xs = xs"
  by simp

lemma last_take: "0 < n \<Longrightarrow> n \<le> length xs \<Longrightarrow> last (take n xs) = xs ! (n - 1)"
  by (metis diff_less last_conv_nth length_greater_0_conv length_take less_numeral_extra(1)
      min.absorb2 nth_take)

section \<open>BTreeMap\<close>

text \<open>
  \<^verbatim>\<open>BTreeMap<K, V>\<close> iterates in key order: an association list kept sorted by key, one entry
  per key.
\<close>

type_synonym ('k, 'v) btree = "('k \<times> 'v) list"

fun bt_insert :: "'k::linorder \<Rightarrow> 'v \<Rightarrow> ('k, 'v) btree \<Rightarrow> ('k, 'v) btree" where
  "bt_insert k v [] = [(k, v)]"
| "bt_insert k v (e # m) =
     (case cmp k (fst e) of Less \<Rightarrow> (k, v) # e # m | Equal \<Rightarrow> (k, v) # m
      | Greater \<Rightarrow> e # bt_insert k v m)"

definition bt_get :: "('k, 'v) btree \<Rightarrow> 'k \<Rightarrow> 'v option" where
  "bt_get m k = map_of m k"

definition bt_collect :: "('k::linorder \<times> 'v) list \<Rightarrow> ('k, 'v) btree" where
  "bt_collect kvs = foldl (\<lambda>m (k, v). bt_insert k v m) [] kvs"

definition bt_ok :: "('k::linorder, 'v) btree \<Rightarrow> bool" where
  "bt_ok m \<longleftrightarrow> sorted_wrt (<) (map fst m)"

lemma map_of_bt_insert: "map_of (bt_insert k v m) = (map_of m)(k \<mapsto> v)"
  by (induction m) (auto split: ordering.splits simp: fun_eq_iff)

lemma bt_get_insert [simp]: "bt_get (bt_insert k v m) k' = (if k' = k then Some v else bt_get m k')"
  by (simp add: bt_get_def map_of_bt_insert)

lemma bt_get_Nil [simp]: "bt_get [] k = None"
  by (simp add: bt_get_def)

lemma set_bt_insert: "fst ` set (bt_insert k v m) = insert k (fst ` set m)"
  by (induction m) (auto split: ordering.splits)

lemma bt_ok_insert: "bt_ok m \<Longrightarrow> bt_ok (bt_insert k v m)"
  unfolding bt_ok_def
proof (induction m)
  case Nil
  then show ?case by simp
next
  case (Cons e m)
  show ?case
  proof (cases "cmp k (fst e)")
    case Less
    then have "k < fst e" by simp
    with Cons.prems show ?thesis by (auto simp: cmp_def intro: less_trans)
  next
    case Equal
    then have "k = fst e" by simp
    with Cons.prems show ?thesis by (auto simp: cmp_def)
  next
    case Greater
    then have lt: "fst e < k" by simp
    have "\<forall>a \<in> fst ` set (bt_insert k v m). fst e < a"
      using lt Cons.prems by (simp add: set_bt_insert)
    with Cons lt show ?thesis by (auto simp: cmp_def)
  qed
qed

lemma bt_ok_collect: "bt_ok (bt_collect kvs)"
proof -
  have "bt_ok m \<Longrightarrow> bt_ok (foldl (\<lambda>m (k, v). bt_insert k v m) m kvs)" for m
    by (induction kvs arbitrary: m) (auto intro: bt_ok_insert)
  then show ?thesis by (simp add: bt_collect_def bt_ok_def)
qed

lemma bt_ok_distinct: "bt_ok m \<Longrightarrow> distinct (map fst m)"
  by (simp add: bt_ok_def strict_sorted_iff)

lemma bt_get_collect: "bt_get (bt_collect kvs) k = map_of (rev kvs) k"
proof -
  have "map_of (foldl (\<lambda>m (k, v). bt_insert k v m) m kvs) = map_of m ++ map_of (rev kvs)" for m
    by (induction kvs arbitrary: m) (auto simp: map_of_bt_insert)
  from this [of "[]"] show ?thesis by (simp add: bt_get_def bt_collect_def)
qed

end
