(* ===== verification/Steps.thy ===== *)
theory Steps
  imports Prelude
begin

text \<open>
  Rust functions that may fail and that change the state they work on: a function from the state to a
  result and the state it leaves, and the question mark for such functions.
\<close>

type_synonym ('s, 'a) step = "'s \<Rightarrow> (string + 'a) \<times> 's"

definition then_do :: "('s, 'a) step \<Rightarrow> ('a \<Rightarrow> ('s, 'b) step) \<Rightarrow> ('s, 'b) step" where
  "then_do m f s = (case m s of (Inl e, s') \<Rightarrow> (Err e, s') | (Inr a, s') \<Rightarrow> f a s')"

definition give :: "'a \<Rightarrow> ('s, 'a) step" where
  "give a s = (Ok a, s)"

definition fail :: "string \<Rightarrow> ('s, 'a) step" where
  "fail e s = (Err e, s)"

definition check :: "string + 'a \<Rightarrow> ('s, 'a) step" where
  "check r s = (r, s)"

lemma then_do_Ok: "then_do m f s = (Ok b, s') \<longleftrightarrow> (\<exists>a s1. m s = (Ok a, s1) \<and> f a s1 = (Ok b, s'))"
  by (auto simp: then_do_def split: prod.splits sum.splits)

lemma step_simps [simp]:
  "then_do (give a) f = f a" "then_do (fail e) f = fail e"
  "then_do (check (Ok a)) f = f a" "then_do (check (Err e)) f = fail e"
  by (simp_all add: then_do_def give_def fail_def check_def fun_eq_iff)

lemma give_Ok [simp]: "give a s = (r, s') \<longleftrightarrow> r = Ok a \<and> s' = s"
  by (auto simp: give_def)

lemma fail_Ok [simp]: "fail e s = (r, s') \<longleftrightarrow> r = Err e \<and> s' = s"
  by (auto simp: fail_def)

lemma try_eq [simp]: "check r0 s = (r, s') \<longleftrightarrow> r = r0 \<and> s' = s"
  by (auto simp: check_def)

end
