(* ===== verification/Text.thy ===== *)
theory Text
  imports Prelude
begin

text \<open>
  Rust's \<^verbatim>\<open>str\<close> and \<^verbatim>\<open>String\<close> as the bytes of their UTF-8 encoding (a \<open>char\<close> of HOL is one
  byte, so \<open>length\<close> is \<^verbatim>\<open>str::len\<close> and the order of lists is the order of \<^verbatim>\<open>str\<close>), with the
  standard-library methods the program calls, and the program's own text codecs:
  \<^verbatim>\<open>percent_decode\<close>, \<^verbatim>\<open>percent_encode_path_segment\<close>, \<^verbatim>\<open>parse_query\<close> and \<^verbatim>\<open>normalize_header_name\<close>
  of the server and \<^verbatim>\<open>query_escape\<close> of the command line client. The decoder inverts both
  encoders, stated once in the locale \<open>text_codec\<close>.
\<close>

section \<open>Bytes\<close>

abbreviation byte :: "char \<Rightarrow> nat" where "byte c \<equiv> of_char c"

lemma byte_inject [simp]: "byte c = byte d \<longleftrightarrow> c = d"
  by (rule of_char_eq_iff)

definition in_range :: "nat \<Rightarrow> nat \<Rightarrow> char \<Rightarrow> bool" where
  "in_range lo hi c \<longleftrightarrow> lo \<le> byte c \<and> byte c \<le> hi"

definition is_digit :: "char \<Rightarrow> bool" where
  "is_digit c = in_range 48 57 c"

definition is_ascii_upper :: "char \<Rightarrow> bool" where
  "is_ascii_upper c = in_range 65 90 c"

definition is_ascii_lower :: "char \<Rightarrow> bool" where
  "is_ascii_lower c = in_range 97 122 c"

definition is_ascii_hexdigit :: "char \<Rightarrow> bool" where
  "is_ascii_hexdigit c \<longleftrightarrow> is_digit c \<or> in_range 65 70 c \<or> in_range 97 102 c"

definition ascii_lower :: "char \<Rightarrow> char" where
  "ascii_lower c = (if is_ascii_upper c then char_of (byte c + 32) else c)"

definition ascii_upper :: "char \<Rightarrow> char" where
  "ascii_upper c = (if is_ascii_lower c then char_of (byte c - 32) else c)"

definition to_ascii_lowercase :: "string \<Rightarrow> string" where
  "to_ascii_lowercase s = map ascii_lower s"

definition to_ascii_uppercase :: "string \<Rightarrow> string" where
  "to_ascii_uppercase s = map ascii_upper s"

lemma ascii_lower_idem [simp]: "ascii_lower (ascii_lower c) = ascii_lower c"
  by (auto simp: ascii_lower_def is_ascii_upper_def in_range_def)

lemma to_ascii_lowercase_idem [simp]:
  "to_ascii_lowercase (to_ascii_lowercase s) = to_ascii_lowercase s"
  by (simp add: to_ascii_lowercase_def)

lemma length_to_ascii_lowercase [simp]: "length (to_ascii_lowercase s) = length s"
  by (simp add: to_ascii_lowercase_def)

section \<open>UTF-8\<close>

definition is_cont :: "char \<Rightarrow> bool" where
  "is_cont c = in_range 128 191 c"

text \<open>\<^verbatim>\<open>chars().take(n)\<close> of a text in UTF-8.\<close>

fun take_chars :: "nat \<Rightarrow> string \<Rightarrow> string" where
  "take_chars n [] = []"
| "take_chars 0 (c # r) = (if is_cont c then c # take_chars 0 r else [])"
| "take_chars (Suc n) (c # r) = c # (if is_cont c then take_chars (Suc n) r else take_chars n r)"

text \<open>\<^verbatim>\<open>std::str::from_utf8\<close>: the well-formed byte sequences of the Unicode standard.\<close>

fun utf8_valid :: "string \<Rightarrow> bool" where
  "utf8_valid [] = True"
| "utf8_valid (a # r) =
     (if byte a < 128 then utf8_valid r
      else case r of [] \<Rightarrow> False
      | b # r2 \<Rightarrow>
        if in_range 194 223 a then is_cont b \<and> utf8_valid r2
        else case r2 of [] \<Rightarrow> False
        | c # r3 \<Rightarrow>
          if in_range 224 239 a
          then (if byte a = 224 then in_range 160 191 b
                else if byte a = 237 then in_range 128 159 b else is_cont b)
               \<and> is_cont c \<and> utf8_valid r3
          else case r3 of [] \<Rightarrow> False
          | d # r4 \<Rightarrow>
            in_range 240 244 a
            \<and> (if byte a = 240 then in_range 144 191 b
               else if byte a = 244 then in_range 128 143 b else is_cont b)
            \<and> is_cont c \<and> is_cont d \<and> utf8_valid r4)"

declare utf8_valid.simps(2) [simp del]

lemma utf8_valid_ascii: "list_all (\<lambda>c. byte c < 128) s \<Longrightarrow> utf8_valid s"
  by (induction s) (simp_all add: utf8_valid.simps(2))

section \<open>Prefixes, suffixes and splitting\<close>

definition starts_with :: "string \<Rightarrow> string \<Rightarrow> bool" where
  "starts_with s p \<longleftrightarrow> take (length p) s = p"

definition ends_with :: "string \<Rightarrow> string \<Rightarrow> bool" where
  "ends_with s p \<longleftrightarrow> starts_with (rev s) (rev p)"

definition strip_prefix :: "string \<Rightarrow> string \<Rightarrow> string option" where
  "strip_prefix s p = (if starts_with s p then Some (drop (length p) s) else None)"

definition strip_suffix :: "string \<Rightarrow> string \<Rightarrow> string option" where
  "strip_suffix s p = (if ends_with s p then Some (take (length s - length p) s) else None)"

lemma starts_with_append [simp]: "starts_with (p @ s) p"
  by (simp add: starts_with_def)

lemma starts_with_simps [simp]:
  "starts_with s []" "\<not> starts_with [] (c # p)"
  "starts_with (d # s) (c # p) \<longleftrightarrow> d = c \<and> starts_with s p"
  by (auto simp: starts_with_def)

lemma strip_prefix_simps [simp]:
  "strip_prefix s [] = Some s" "strip_prefix [] (c # p) = None"
  "strip_prefix (d # s) (c # p) = (if d = c then strip_prefix s p else None)"
  by (simp_all add: strip_prefix_def)

lemma starts_with_iff: "starts_with s p \<longleftrightarrow> (\<exists>t. s = p @ t)"
  by (metis append_take_drop_id starts_with_append starts_with_def)

lemma ends_with_iff: "ends_with s p \<longleftrightarrow> (\<exists>t. s = t @ p)"
  unfolding ends_with_def starts_with_iff by (metis rev_append rev_rev_ident)

lemma strip_prefix_Some [result_simps]: "strip_prefix s p = Some t \<longleftrightarrow> s = p @ t"
  by (auto simp: strip_prefix_def starts_with_iff)

lemma strip_prefix_None: "strip_prefix s p = None \<longleftrightarrow> (\<forall>t. s \<noteq> p @ t)"
  by (auto simp: strip_prefix_def starts_with_iff)

lemma strip_prefix_append [simp]: "strip_prefix (p @ t) p = Some t"
  by (simp add: strip_prefix_Some)

lemma strip_suffix_Some [result_simps]: "strip_suffix s p = Some t \<longleftrightarrow> s = t @ p"
  by (auto simp: strip_suffix_def ends_with_iff)

fun split_once :: "char \<Rightarrow> string \<Rightarrow> (string \<times> string) option" where
  "split_once c [] = None"
| "split_once c (x # xs) =
     (if x = c then Some ([], xs) else map_option (\<lambda>(a, b). (x # a, b)) (split_once c xs))"

lemma split_once_Some [result_simps]:
  "split_once c s = Some (a, b) \<longleftrightarrow> s = a @ c # b \<and> c \<notin> set a"
proof (induction s arbitrary: a)
  case Nil
  then show ?case by simp
next
  case (Cons x xs)
  then show ?case by (cases a) auto
qed

lemma split_once_None: "split_once c s = None \<longleftrightarrow> c \<notin> set s"
  by (induction s) auto

lemma split_once_append [simp]: "c \<notin> set a \<Longrightarrow> split_once c (a @ c # b) = Some (a, b)"
  by (simp add: split_once_Some)

text \<open>\<^verbatim>\<open>str::split\<close> on one character: always at least one piece.\<close>

fun split_on :: "char \<Rightarrow> string \<Rightarrow> string list" where
  "split_on c [] = [[]]"
| "split_on c (x # xs) =
     (if x = c then [] # split_on c xs
      else case split_on c xs of [] \<Rightarrow> [[x]] | p # ps \<Rightarrow> (x # p) # ps)"

lemma split_on_nonempty [simp]: "split_on c s \<noteq> []"
  by (induction s) (auto split: list.splits)

lemma split_on_none: "c \<notin> set s \<Longrightarrow> split_on c s = [s]"
  by (induction s) auto

lemma split_on_append [simp]: "c \<notin> set a \<Longrightarrow> split_on c (a @ c # b) = a # split_on c b"
  by (induction a) auto

text \<open>\<^verbatim>\<open>[..].join(sep)\<close> for a one-character separator.\<close>

fun join_on :: "char \<Rightarrow> string list \<Rightarrow> string" where
  "join_on c [] = []"
| "join_on c [s] = s"
| "join_on c (s # t # ss) = s @ c # join_on c (t # ss)"

lemma split_on_join_on:
  "ss \<noteq> [] \<Longrightarrow> \<forall>s \<in> set ss. c \<notin> set s \<Longrightarrow> split_on c (join_on c ss) = ss"
  by (induction c ss rule: join_on.induct) (auto simp: split_on_none)

lemma join_on_inject:
  assumes "ss \<noteq> []" "ts \<noteq> []" "\<forall>s \<in> set ss. c \<notin> set s" "\<forall>t \<in> set ts. c \<notin> set t"
    and "join_on c ss = join_on c ts"
  shows "ss = ts"
  using assms by (metis split_on_join_on)

fun trim_start_matches_char :: "char \<Rightarrow> string \<Rightarrow> string" where
  "trim_start_matches_char c [] = []"
| "trim_start_matches_char c (x # xs) = (if x = c then trim_start_matches_char c xs else x # xs)"

definition trim_end_matches_char :: "char \<Rightarrow> string \<Rightarrow> string" where
  "trim_end_matches_char c s = rev (trim_start_matches_char c (rev s))"

text \<open>\<^verbatim>\<open>trim_start_matches\<close> with a string pattern removes it as often as it occurs in front.\<close>

function trim_start_matches :: "string \<Rightarrow> string \<Rightarrow> string" where
  "trim_start_matches p s =
     (if p \<noteq> [] \<and> starts_with s p then trim_start_matches p (drop (length p) s) else s)"
  by pat_completeness auto
termination
proof (relation "measure (\<lambda>(p, s). length s)")
  fix p s :: string
  assume "p \<noteq> [] \<and> starts_with s p"
  then obtain t where "s = p @ t" and "p \<noteq> []" by (auto simp: starts_with_iff)
  then show "((p, drop (length p) s), (p, s)) \<in> measure (\<lambda>(p, s). length s)" by simp
qed simp

declare trim_start_matches.simps [simp del]

lemma trim_start_matches_once:
  "p \<noteq> [] \<Longrightarrow> \<not> starts_with t p \<Longrightarrow> trim_start_matches p (p @ t) = t"
  by (simp add: trim_start_matches.simps [of p "p @ t"] trim_start_matches.simps [of p t])

text \<open>\<^verbatim>\<open>str::find\<close> with a string pattern: the byte index of the first occurrence.\<close>

fun find_sub :: "string \<Rightarrow> string \<Rightarrow> nat option" where
  "find_sub p [] = (if p = [] then Some 0 else None)"
| "find_sub p (x # xs) =
     (if starts_with (x # xs) p then Some 0 else map_option Suc (find_sub p xs))"

lemma find_sub_Some:
  "find_sub p s = Some i \<Longrightarrow> i \<le> length s \<and> starts_with (drop i s) p"
proof (induction s arbitrary: i)
  case Nil
  then show ?case by (auto split: if_splits simp: starts_with_def)
next
  case (Cons x xs)
  then show ?case by (auto split: if_splits)
qed

lemma find_sub_None:
  "find_sub p s = None \<longleftrightarrow> (\<forall>a b. s \<noteq> a @ p @ b)"
proof (induction s)
  case Nil
  then show ?case by auto
next
  case (Cons x xs)
  show ?case
  proof (cases "starts_with (x # xs) p")
    case True
    then show ?thesis by (auto simp: starts_with_iff) (metis append_Nil)
  next
    case False
    then have "\<And>b. x # xs \<noteq> p @ b" by (simp add: starts_with_iff)
    with False Cons show ?thesis
      by (auto simp: Cons_eq_append_conv)
  qed
qed

section \<open>White space\<close>

text \<open>
  \<^verbatim>\<open>char::is_whitespace\<close> on UTF-8: one white-space character is removed from the front,
  or from the back of the string given in reverse.
\<close>

definition is_ascii_space :: "char \<Rightarrow> bool" where
  "is_ascii_space c \<longleftrightarrow> byte c = 32 \<or> in_range 9 13 c"

definition wide_space3 :: "nat \<Rightarrow> nat \<Rightarrow> nat \<Rightarrow> bool" where
  "wide_space3 a b c \<longleftrightarrow>
     a = 225 \<and> b = 154 \<and> c = 128 \<or>
     a = 226 \<and> b = 128 \<and> (128 \<le> c \<and> c \<le> 138 \<or> c = 168 \<or> c = 169 \<or> c = 175) \<or>
     a = 226 \<and> b = 129 \<and> c = 159 \<or>
     a = 227 \<and> b = 128 \<and> c = 128"

definition wide_space2 :: "nat \<Rightarrow> nat \<Rightarrow> bool" where
  "wide_space2 a b \<longleftrightarrow> a = 194 \<and> (b = 133 \<or> b = 160)"

definition strip_space :: "string \<Rightarrow> string option" where
  "strip_space s =
     (case s of
        [] \<Rightarrow> None
      | a # r \<Rightarrow>
        if is_ascii_space a then Some r
        else case r of
          [] \<Rightarrow> None
        | b # r2 \<Rightarrow>
          if wide_space2 (byte a) (byte b) then Some r2
          else case r2 of
            [] \<Rightarrow> None
          | c # r3 \<Rightarrow> if wide_space3 (byte a) (byte b) (byte c) then Some r3 else None)"

definition strip_space_rev :: "string \<Rightarrow> string option" where
  "strip_space_rev s =
     (case s of
        [] \<Rightarrow> None
      | a # r \<Rightarrow>
        if is_ascii_space a then Some r
        else case r of
          [] \<Rightarrow> None
        | b # r2 \<Rightarrow>
          if wide_space2 (byte b) (byte a) then Some r2
          else case r2 of
            [] \<Rightarrow> None
          | c # r3 \<Rightarrow> if wide_space3 (byte c) (byte b) (byte a) then Some r3 else None)"

lemma strip_space_shorter: "strip_space s = Some r \<Longrightarrow> length r < length s"
  by (auto simp: strip_space_def split: list.splits if_splits)

lemma strip_space_rev_shorter: "strip_space_rev s = Some r \<Longrightarrow> length r < length s"
  by (auto simp: strip_space_rev_def split: list.splits if_splits)

function trim_start :: "string \<Rightarrow> string" where
  "trim_start s = (case strip_space s of None \<Rightarrow> s | Some r \<Rightarrow> trim_start r)"
  by pat_completeness auto
termination
  by (relation "measure length") (auto dest: strip_space_shorter)

function trim_start_rev :: "string \<Rightarrow> string" where
  "trim_start_rev s = (case strip_space_rev s of None \<Rightarrow> s | Some r \<Rightarrow> trim_start_rev r)"
  by pat_completeness auto
termination
  by (relation "measure length") (auto dest: strip_space_rev_shorter)

declare trim_start.simps [simp del] trim_start_rev.simps [simp del]

definition trim_end :: "string \<Rightarrow> string" where
  "trim_end s = rev (trim_start_rev (rev s))"

definition trim :: "string \<Rightarrow> string" where
  "trim s = trim_end (trim_start s)"

lemma length_trim_start: "length (trim_start s) \<le> length s"
proof (induction s rule: trim_start.induct)
  case (1 s)
  then show ?case
    by (subst trim_start.simps) (force split: option.splits dest: strip_space_shorter)
qed

lemma length_trim_start_rev: "length (trim_start_rev s) \<le> length s"
proof (induction s rule: trim_start_rev.induct)
  case (1 s)
  then show ?case
    by (subst trim_start_rev.simps) (force split: option.splits dest: strip_space_rev_shorter)
qed

lemma length_trim: "length (trim s) \<le> length s"
  unfolding trim_def trim_end_def
  using length_trim_start [of s] length_trim_start_rev [of "rev (trim_start s)"] by simp

lemma trim_Nil [simp]: "trim [] = []"
  using length_trim [of "[]"] by simp

lemma trim_id: "strip_space s = None \<Longrightarrow> strip_space_rev (rev s) = None \<Longrightarrow> trim s = s"
  by (simp add: trim_def trim_end_def trim_start.simps trim_start_rev.simps)

lemma strip_space_graphic:
  "in_range 33 126 c \<Longrightarrow> strip_space (c # s) = None"
  "in_range 33 126 c \<Longrightarrow> strip_space_rev (c # s) = None"
  by (auto simp: strip_space_def strip_space_rev_def is_ascii_space_def in_range_def
      wide_space2_def wide_space3_def split: list.splits)

lemma trim_graphic: "list_all (in_range 33 126) s \<Longrightarrow> trim s = s"
proof (cases s)
  case Nil
  then show ?thesis by simp
next
  case (Cons c r)
  assume all: "list_all (in_range 33 126) s"
  obtain d t where rev: "rev s = d # t" using Cons by (cases "rev s") auto
  with all have "in_range 33 126 d"
    by (metis list.set_intros(1) list_all_iff set_rev)
  with rev all Cons show ?thesis
    by (intro trim_id) (auto simp: strip_space_graphic)
qed

text \<open>\<^verbatim>\<open>str::lines\<close>: split at line feeds, one trailing carriage return dropped per line.\<close>

definition drop_cr :: "string \<Rightarrow> string" where
  "drop_cr l = (if l \<noteq> [] \<and> last l = CHR 0x0D then butlast l else l)"

definition lines :: "string \<Rightarrow> string list" where
  "lines s = (let ps = split_on (CHR 0x0A) s in
     (if last ps = [] then map drop_cr (butlast ps) else map drop_cr (butlast ps) @ [last ps]))"

text \<open>\<^verbatim>\<open>str::split_whitespace\<close>: the maximal runs of other characters.\<close>

function split_ws_aux :: "string \<Rightarrow> string \<Rightarrow> string list" where
  "split_ws_aux acc s =
     (case strip_space s of
        Some r \<Rightarrow> (if acc = [] then split_ws_aux [] r else rev acc # split_ws_aux [] r)
      | None \<Rightarrow> (case s of [] \<Rightarrow> (if acc = [] then [] else [rev acc])
                 | c # r \<Rightarrow> split_ws_aux (c # acc) r))"
  by pat_completeness auto
termination
  by (relation "measure (\<lambda>(acc, s). length s)") (auto dest: strip_space_shorter)

declare split_ws_aux.simps [simp del]

definition split_whitespace :: "string \<Rightarrow> string list" where
  "split_whitespace s = split_ws_aux [] s"

section \<open>Numbers\<close>

definition digit_char :: "nat \<Rightarrow> char" where
  "digit_char d = char_of (48 + d)"

definition digit_val :: "char \<Rightarrow> nat" where
  "digit_val c = byte c - 48"

text \<open>\<^verbatim>\<open>Display\<close> of an unsigned and of a signed integer.\<close>

fun show_nat :: "nat \<Rightarrow> string" where
  "show_nat n = (if n < 10 then [digit_char n] else show_nat (n div 10) @ [digit_char (n mod 10)])"

declare show_nat.simps [simp del]

definition show_int :: "int \<Rightarrow> string" where
  "show_int i = (if i < 0 then CHR ''-'' # show_nat (nat (- i)) else show_nat (nat i))"

definition digits_val :: "string \<Rightarrow> nat" where
  "digits_val s = foldl (\<lambda>a c. 10 * a + digit_val c) 0 s"

text \<open>
  \<^verbatim>\<open>str::parse\<close> for an unsigned type with largest value \<open>m\<close>: one plus sign may lead, at least
  one digit follows, nothing else; a value above \<open>m\<close> is an error.
\<close>

definition parse_uint :: "nat \<Rightarrow> string \<Rightarrow> nat option" where
  "parse_uint m s =
     (let ds = (case s of [] \<Rightarrow> [] | c # r \<Rightarrow> if c = CHR ''+'' then r else s) in
      if ds = [] \<or> \<not> list_all is_digit ds \<or> m < digits_val ds then None
      else Some (digits_val ds))"

definition usize_max :: nat where "usize_max = 2 ^ 64 - 1"
definition u32_max :: nat where "u32_max = 2 ^ 32 - 1"

abbreviation parse_usize :: "string \<Rightarrow> nat option" where "parse_usize \<equiv> parse_uint usize_max"

lemma digit_char_facts:
  assumes "d < 10"
  shows "is_digit (digit_char d)" and "digit_val (digit_char d) = d"
    and "digit_char d \<noteq> CHR ''+''" and "digit_char d \<noteq> CHR ''-''"
proof -
  have b: "byte (digit_char d) = 48 + d" using assms by (simp add: digit_char_def)
  show "is_digit (digit_char d)" "digit_val (digit_char d) = d"
    using assms b by (simp_all add: is_digit_def in_range_def digit_val_def)
  show "digit_char d \<noteq> CHR ''+''" "digit_char d \<noteq> CHR ''-''" using b by auto
qed

lemma show_nat_facts:
  "list_all is_digit (show_nat n) \<and> show_nat n \<noteq> [] \<and> digits_val (show_nat n) = n"
proof (induction n rule: show_nat.induct)
  case (1 n)
  show ?case
  proof (cases "n < 10")
    case True
    then show ?thesis
      by (simp add: show_nat.simps [of n] digit_char_facts digits_val_def)
  next
    case False
    with 1 show ?thesis
      by (simp add: show_nat.simps [of n] digit_char_facts digits_val_def)
  qed
qed

lemma show_nat_head: "\<exists>c r. show_nat n = c # r \<and> is_digit c"
  using show_nat_facts [of n] by (cases "show_nat n") auto

lemma hd_show_nat: "hd (show_nat n) \<noteq> CHR ''+''"
proof -
  have "is_digit (hd (show_nat n))"
    using show_nat_facts [of n] by (cases "show_nat n") auto
  then show ?thesis by (auto simp: is_digit_def in_range_def)
qed

lemma parse_show_nat: "n \<le> m \<Longrightarrow> parse_uint m (show_nat n) = Some n"
proof -
  assume le: "n \<le> m"
  obtain c r where s: "show_nat n = c # r" using show_nat_facts [of n] by (cases "show_nat n") auto
  have "c \<noteq> CHR ''+''" using hd_show_nat [of n] s by simp
  then show ?thesis
    using show_nat_facts [of n] s le by (simp add: parse_uint_def Let_def)
qed

lemma parse_uint_le: "parse_uint m s = Some n \<Longrightarrow> n \<le> m"
  by (auto simp: parse_uint_def Let_def split: if_splits)

section \<open>Percent coding\<close>

definition hex_upper :: "nat \<Rightarrow> char" where
  "hex_upper n = (if n < 10 then char_of (48 + n) else char_of (55 + n))"

definition hex_lower :: "nat \<Rightarrow> char" where
  "hex_lower n = (if n < 10 then char_of (48 + n) else char_of (87 + n))"

definition hex_val :: "char \<Rightarrow> nat option" where
  "hex_val c =
     (if is_digit c then Some (byte c - 48)
      else if in_range 65 70 c then Some (byte c - 55)
      else if in_range 97 102 c then Some (byte c - 87) else None)"

lemma byte_hex_upper: "n < 16 \<Longrightarrow> byte (hex_upper n) = (if n < 10 then 48 + n else 55 + n)"
  by (simp add: hex_upper_def)

lemma hex_val_upper [simp]: "n < 16 \<Longrightarrow> hex_val (hex_upper n) = Some n"
  by (auto simp: hex_val_def is_digit_def in_range_def byte_hex_upper)

lemma hex_upper_not_plus: "n < 16 \<Longrightarrow> hex_upper n \<noteq> CHR ''+''"
  using byte_hex_upper [of n] by (auto split: if_splits)

text \<open>\<^verbatim>\<open>format!("{byte:02X}")\<close> and \<^verbatim>\<open>format!("{byte:02x}")\<close>.\<close>

definition hex2_upper :: "char \<Rightarrow> string" where
  "hex2_upper c = [hex_upper (byte c div 16), hex_upper (byte c mod 16)]"

definition hex2_lower :: "char \<Rightarrow> string" where
  "hex2_lower c = [hex_lower (byte c div 16), hex_lower (byte c mod 16)]"

text \<open>
  \<^verbatim>\<open>u8::from_str_radix(text, 16)\<close> on two bytes that are UTF-8: the standard library lets a
  plus sign stand in front of the digits.
\<close>

definition u8_from_hex2 :: "char \<Rightarrow> char \<Rightarrow> char option" where
  "u8_from_hex2 h l =
     (if \<not> utf8_valid [h, l] then None
      else if h = CHR ''+'' then map_option char_of (hex_val l)
      else case (hex_val h, hex_val l) of
        (Some a, Some b) \<Rightarrow> Some (char_of (16 * a + b))
      | _ \<Rightarrow> None)"

text \<open>\<^verbatim>\<open>percent_decode\<close>: the loop over the bytes, then the UTF-8 check of the output.\<close>

fun percent_decode_bytes :: "string \<Rightarrow> string option" where
  "percent_decode_bytes [] = Some []"
| "percent_decode_bytes (b # bs) =
     (if b = CHR ''+'' then map_option ((#) (CHR '' '')) (percent_decode_bytes bs)
      else if b = CHR ''%'' then
        (case bs of
           h # l # bs' \<Rightarrow>
             (case u8_from_hex2 h l of
                None \<Rightarrow> None
              | Some c \<Rightarrow> map_option ((#) c) (percent_decode_bytes bs'))
         | _ \<Rightarrow> None)
      else map_option ((#) b) (percent_decode_bytes bs))"

definition percent_decode :: "string \<Rightarrow> string option" where
  "percent_decode value =
     (case percent_decode_bytes value of
        None \<Rightarrow> None
      | Some output \<Rightarrow> if utf8_valid output then Some output else None)"

definition is_unreserved :: "char \<Rightarrow> bool" where
  "is_unreserved c \<longleftrightarrow>
     is_ascii_upper c \<or> is_ascii_lower c \<or> is_digit c \<or> c \<in> {CHR ''-'', CHR ''.'', CHR ''_'', CHR ''~''}"

definition percent_encode_path_segment :: "string \<Rightarrow> string" where
  "percent_encode_path_segment value =
     concat (map (\<lambda>b. if is_unreserved b then [b] else CHR ''%'' # hex2_upper b) value)"

definition query_escape :: "string \<Rightarrow> string" where
  "query_escape value =
     concat (map (\<lambda>b. if is_unreserved b then [b]
                       else if b = CHR '' '' then ''+'' else CHR ''%'' # hex2_upper b) value)"

lemma byte_nibbles [simp]: "byte c div 16 < 16" "byte c mod 16 < 16"
  using less_mult_imp_div_less [of "byte c" 16 16] by simp_all

lemma u8_from_hex2_upper [simp]:
  "u8_from_hex2 (hex_upper (byte c div 16)) (hex_upper (byte c mod 16)) = Some c"
proof -
  note lt = byte_nibbles [of c]
  have "byte (hex_upper n) < 128" if "n < 16" for n
    using that by (simp add: byte_hex_upper)
  with lt have "utf8_valid [hex_upper (byte c div 16), hex_upper (byte c mod 16)]"
    by (intro utf8_valid_ascii) simp
  with lt show ?thesis by (simp add: u8_from_hex2_def hex_upper_not_plus)
qed

lemma unreserved_plain: "is_unreserved c \<Longrightarrow> c \<noteq> CHR ''+'' \<and> c \<noteq> CHR ''%''"
  by (auto simp: is_unreserved_def is_ascii_upper_def is_ascii_lower_def is_digit_def in_range_def)

lemma percent_decode_bytes_steps:
  "percent_decode_bytes (CHR ''%'' # hex2_upper c @ s) = map_option ((#) c) (percent_decode_bytes s)"
  "is_unreserved c \<Longrightarrow> percent_decode_bytes (c # s) = map_option ((#) c) (percent_decode_bytes s)"
  "percent_decode_bytes (CHR ''+'' # s) = map_option ((#) (CHR '' '')) (percent_decode_bytes s)"
  by (simp_all add: hex2_upper_def) (auto dest: unreserved_plain)

declare percent_decode_bytes.simps(2) [simp del]

lemma percent_decode_bytes_path: "percent_decode_bytes (percent_encode_path_segment s) = Some s"
  unfolding percent_encode_path_segment_def
  by (induction s) (simp_all add: percent_decode_bytes_steps)

lemma percent_decode_bytes_query: "percent_decode_bytes (query_escape s) = Some s"
  unfolding query_escape_def
  by (induction s) (simp_all add: percent_decode_bytes_steps)

text \<open>The characters that delimit the parts of a path and of a query string.\<close>

definition url_delims :: "char list" where
  "url_delims = ''&=/?,''"

lemma hex_upper_delims: "n < 16 \<Longrightarrow> hex_upper n \<notin> set url_delims"
  using byte_hex_upper [of n] by (auto simp: url_delims_def split: if_splits)

lemma unreserved_delims: "is_unreserved c \<Longrightarrow> c \<notin> set url_delims"
  by (auto simp: is_unreserved_def is_ascii_upper_def is_ascii_lower_def is_digit_def in_range_def
      url_delims_def)

lemma escape_delims: "set (CHR ''%'' # hex2_upper c) \<inter> set url_delims = {}"
  using hex_upper_delims [OF byte_nibbles(1)] hex_upper_delims [OF byte_nibbles(2)]
  by (auto simp: hex2_upper_def) (auto simp: url_delims_def)

lemma path_segment_delims: "set (percent_encode_path_segment s) \<inter> set url_delims = {}"
proof (induction s)
  case Nil
  then show ?case by (simp add: percent_encode_path_segment_def)
next
  case (Cons c s)
  then show ?case
    using unreserved_delims [of c] escape_delims [of c]
    by (cases "is_unreserved c") (simp_all add: percent_encode_path_segment_def Int_Un_distrib2)
qed

lemma query_escape_delims: "set (query_escape s) \<inter> set url_delims = {}"
proof (induction s)
  case Nil
  then show ?case by (simp add: query_escape_def)
next
  case (Cons c s)
  have "CHR ''+'' \<notin> set url_delims" by (simp add: url_delims_def)
  with Cons show ?case
    using unreserved_delims [of c] escape_delims [of c]
    by (cases "is_unreserved c"; cases "c = CHR '' ''")
      (simp_all add: query_escape_def Int_Un_distrib2)
qed

text \<open>
  An encoder into text and its decoder. What its users need: the decoder undoes the encoder on
  every UTF-8 string, so no two strings share an encoding; and no delimiter of a path or of a
  query string occurs in an encoding.
\<close>

locale text_codec =
  fixes enc :: "string \<Rightarrow> string" and dec :: "string \<Rightarrow> string option"
  assumes dec_enc: "utf8_valid s \<Longrightarrow> dec (enc s) = Some s"
    and enc_delims: "set (enc s) \<inter> set url_delims = {}"
begin

lemma enc_inject: "utf8_valid s \<Longrightarrow> utf8_valid t \<Longrightarrow> enc s = enc t \<Longrightarrow> s = t"
  by (metis dec_enc option.inject)

lemma segment_inject:
  assumes "utf8_valid s" "utf8_valid t" and "root @ enc s = root @ enc t"
  shows "s = t"
  using assms by (auto intro: enc_inject)

lemma delim_free: "d \<in> set url_delims \<Longrightarrow> d \<notin> set (enc s)"
  using enc_delims [of s] by blast

lemma no_amp: "CHR ''&'' \<notin> set (enc s)" and no_eq: "CHR ''='' \<notin> set (enc s)"
  and no_slash: "CHR ''/'' \<notin> set (enc s)" and no_comma: "CHR '','' \<notin> set (enc s)"
  and no_question: "CHR ''?'' \<notin> set (enc s)"
  by (rule delim_free, simp add: url_delims_def)+

end

interpretation path_codec: text_codec percent_encode_path_segment percent_decode
  by unfold_locales
    (simp_all add: percent_decode_def percent_decode_bytes_path path_segment_delims)

interpretation query_codec: text_codec query_escape percent_decode
  by unfold_locales
    (simp_all add: percent_decode_def percent_decode_bytes_query query_escape_delims)

section \<open>Query strings and header names\<close>

definition parse_query :: "string \<Rightarrow> (string, string) btree" where
  "parse_query query =
     bt_collect (List.map_filter
       (\<lambda>part. let (key, value) = (case split_once (CHR ''='') part of
                                     Some kv \<Rightarrow> kv | None \<Rightarrow> (part, [])) in
          (case (percent_decode key, percent_decode value) of
             (Some k, Some v) \<Rightarrow> Some (k, v) | _ \<Rightarrow> None))
       (filter (\<lambda>part. part \<noteq> []) (split_on (CHR ''&'') query)))"

definition normalize_header_name :: "string \<Rightarrow> string" where
  "normalize_header_name name = to_ascii_lowercase name"

text \<open>A query string put together from escaped keys and values, the way the client does.\<close>

definition build_query :: "(string \<times> string) list \<Rightarrow> string" where
  "build_query kvs =
     join_on (CHR ''&'') (map (\<lambda>(k, v). query_escape k @ CHR ''='' # query_escape v) kvs)"

lemma parse_build_query:
  assumes "kvs \<noteq> []" and "\<forall>(k, v) \<in> set kvs. utf8_valid k \<and> utf8_valid v"
  shows "parse_query (build_query kvs) = bt_collect kvs"
proof -
  let ?part = "\<lambda>(k, v). query_escape k @ CHR ''='' # query_escape v"
  let ?f = "\<lambda>part. let (key, value) = (case split_once (CHR ''='') part of
                                     Some kv \<Rightarrow> kv | None \<Rightarrow> (part, [])) in
          (case (percent_decode key, percent_decode value) of
             (Some k, Some v) \<Rightarrow> Some (k, v) | _ \<Rightarrow> None)"
  have "split_on (CHR ''&'') (build_query kvs) = map ?part kvs"
    unfolding build_query_def
    using assms(1) query_codec.no_amp
    by (intro split_on_join_on) auto
  moreover have "filter (\<lambda>part. part \<noteq> []) (map ?part kvs) = map ?part kvs"
    by (intro filter_True) auto
  moreover have "List.map_filter ?f (map ?part kvs) = kvs"
    using assms(2) query_codec.no_eq query_codec.dec_enc
    by (induction kvs) (auto simp: List.map_filter_def)
  ultimately show ?thesis by (simp add: parse_query_def)
qed

end
