(* ===== verification/Crates.thy ===== *)
theory Crates
  imports Text "HOL-Library.Signed_Division" "HOL-Library.Word" "HOL-Library.Countable"
begin

text \<open>
  The boundary of the model. The crates the program links (base64, sha2, blake3, hkdf,
  ed25519-dalek, x25519-dalek, chacha20poly1305, chrono's text formats, serde_json's text
  format) are not under \<^verbatim>\<open>src/\<close>: they are the fields of the record \<open>crates\<close>, an argument of
  every definition that calls them. What the code relies on is stated as the laws below, each
  the documented behaviour of one crate, and \<open>toy\<close> is an instance for which all of them hold.
  JSON values are serde_json's \<^verbatim>\<open>Value\<close> (objects are \<^verbatim>\<open>BTreeMap\<close>s, in key order), a chrono
  \<^verbatim>\<open>DateTime<Utc>\<close> is its count of nanoseconds since 1970, and \<open>aichan_error\<close> is the error
  type of \<^verbatim>\<open>crates/aichan-core/src/error.rs\<close>.
  A JSON value keeps the entries of an object in the order of the document, so that \<open>json_text\<close>
  can write a struct in the order of its fields; \<open>value_of\<close> in the theory \<open>Serde\<close> is the
  conversion to \<^verbatim>\<open>Value\<close>.
\<close>

section \<open>Time\<close>

type_synonym bytes = string
type_synonym datetime = int
type_synonym duration = int

definition seconds :: "int \<Rightarrow> duration" where
  "seconds n = n * 1000000000"

definition timestamp :: "datetime \<Rightarrow> int" where
  "timestamp t = t div 1000000000"

definition timestamp_millis :: "datetime \<Rightarrow> int" where
  "timestamp_millis t = t div 1000000"

lemma seconds_mono [simp]: "seconds a \<le> seconds b \<longleftrightarrow> a \<le> b" "seconds a < seconds b \<longleftrightarrow> a < b"
  by (simp_all add: seconds_def)

lemma seconds_zero [simp]: "seconds 0 = 0"
  by (simp add: seconds_def)

lemma seconds_pos: "0 < n \<Longrightarrow> 0 < seconds n"
  by (simp add: seconds_def)

section \<open>JSON values\<close>

datatype json_number = PosInt nat | NegInt int | Float "64 word"

datatype json =
  JNull | JBool bool | JNum json_number | JStr string | JArr "json list" | JObj "(string \<times> json) list"

text \<open>The object literals of the \<^verbatim>\<open>json!\<close> macro and the accessors of \<^verbatim>\<open>Value\<close>.\<close>

definition obj :: "(string \<times> json) list \<Rightarrow> json" where
  "obj kvs = JObj (bt_collect kvs)"

abbreviation jnat :: "nat \<Rightarrow> json" where "jnat n \<equiv> JNum (PosInt n)"

definition jopt :: "('a \<Rightarrow> json) \<Rightarrow> 'a option \<Rightarrow> json" where
  "jopt f v = (case v of None \<Rightarrow> JNull | Some a \<Rightarrow> f a)"

definition jget :: "json \<Rightarrow> string \<Rightarrow> json option" where
  "jget v k = (case v of JObj m \<Rightarrow> bt_get m k | _ \<Rightarrow> None)"

definition as_str :: "json \<Rightarrow> string option" where
  "as_str v = (case v of JStr s \<Rightarrow> Some s | _ \<Rightarrow> None)"

definition as_bool :: "json \<Rightarrow> bool option" where
  "as_bool v = (case v of JBool b \<Rightarrow> Some b | _ \<Rightarrow> None)"

definition as_array :: "json \<Rightarrow> json list option" where
  "as_array v = (case v of JArr vs \<Rightarrow> Some vs | _ \<Rightarrow> None)"

definition as_object :: "json \<Rightarrow> (string, json) btree option" where
  "as_object v = (case v of JObj m \<Rightarrow> Some m | _ \<Rightarrow> None)"

definition as_i64 :: "json \<Rightarrow> int option" where
  "as_i64 v = (case v of JNum (PosInt n) \<Rightarrow> if n < 2 ^ 63 then Some (int n) else None
     | JNum (NegInt i) \<Rightarrow> Some i | _ \<Rightarrow> None)"

lemma json_accessors [simp]:
  "as_str (JStr s) = Some s" "as_bool (JBool b) = Some b" "as_array (JArr vs) = Some vs"
  "as_object (JObj m) = Some m" "jget (JObj m) k = bt_get m k"
  by (simp_all add: as_str_def as_bool_def as_array_def as_object_def jget_def)

lemma jget_obj: "jget (obj kvs) k = map_of (rev kvs) k"
  by (simp add: obj_def bt_get_collect)

section \<open>The crates\<close>

record crates =
  b64_encode :: "bytes \<Rightarrow> string"
  b64_decode :: "string \<Rightarrow> string + bytes"
  sha256 :: "bytes \<Rightarrow> bytes"
  blake3 :: "bytes \<Rightarrow> bytes"
  hkdf_expand :: "bytes \<Rightarrow> bytes \<Rightarrow> bytes \<Rightarrow> nat \<Rightarrow> bytes option"
  ed_public :: "bytes \<Rightarrow> bytes"
  ed_sign :: "bytes \<Rightarrow> bytes \<Rightarrow> bytes"
  ed_point :: "bytes \<Rightarrow> string + unit"
  ed_verify :: "bytes \<Rightarrow> bytes \<Rightarrow> bytes \<Rightarrow> string + unit"
  x_public :: "bytes \<Rightarrow> bytes"
  x_shared :: "bytes \<Rightarrow> bytes \<Rightarrow> bytes"
  aead_seal :: "bytes \<Rightarrow> bytes \<Rightarrow> bytes \<Rightarrow> bytes \<Rightarrow> bytes option"
  aead_open :: "bytes \<Rightarrow> bytes \<Rightarrow> bytes \<Rightarrow> bytes \<Rightarrow> bytes option"
  rfc3339 :: "datetime \<Rightarrow> string"
  rfc3339_secs :: "datetime \<Rightarrow> string"
  rfc3339_millis :: "datetime \<Rightarrow> string"
  datetime_json :: "datetime \<Rightarrow> string"
  rfc3339_parse :: "string \<Rightarrow> string + datetime"
  datetime_read :: "string \<Rightarrow> datetime option"
  json_text :: "json \<Rightarrow> string"
  json_read :: "string \<Rightarrow> string + json"
  serde_error :: "string \<Rightarrow> string"

text \<open>
  The laws, one per crate: what its documentation promises. RFC 3339 has four-digit years; a JSON
  text keeps integers of 64 bits, and serde_json reads 128 levels of nesting.
\<close>

definition four_digit_year :: "datetime \<Rightarrow> bool" where
  "four_digit_year t \<longleftrightarrow> seconds (- 62167219200) \<le> t \<and> t < seconds 253402300800"

fun json_plain :: "nat \<Rightarrow> json \<Rightarrow> bool" where
  "json_plain d JNull = True"
| "json_plain d (JBool b) = True"
| "json_plain d (JNum (PosInt n)) = (n < 2 ^ 64)"
| "json_plain d (JNum (NegInt i)) = (- (2 ^ 63) \<le> i \<and> i < 0)"
| "json_plain d (JNum (Float w)) = False"
| "json_plain d (JStr s) = True"
| "json_plain 0 (JArr vs) = False"
| "json_plain (Suc d) (JArr vs) = list_all (json_plain d) vs"
| "json_plain 0 (JObj m) = False"
| "json_plain (Suc d) (JObj m) = list_all (\<lambda>(k, v). json_plain d v) m"

definition b64_alphabet :: "char \<Rightarrow> bool" where
  "b64_alphabet c \<longleftrightarrow> is_ascii_upper c \<or> is_ascii_lower c \<or> is_digit c \<or> c \<in> {CHR ''-'', CHR ''_''}"

definition base64_law :: "crates \<Rightarrow> bool" where
  "base64_law x \<longleftrightarrow>
     (\<forall>b. b64_decode x (b64_encode x b) = Ok b \<and> list_all b64_alphabet (b64_encode x b))"

text \<open>Four characters per three bytes, a rest in two or three.\<close>

definition base64_size_law :: "crates \<Rightarrow> bool" where
  "base64_size_law x \<longleftrightarrow> (\<forall>b. length b \<le> length (b64_encode x b) \<and> length (b64_encode x b) \<le> 2 * length b)"

definition digest_law :: "crates \<Rightarrow> bool" where
  "digest_law x \<longleftrightarrow> (\<forall>b. length (sha256 x b) = 32) \<and> (\<forall>b. length (blake3 x b) = 32)"

definition hkdf_law :: "crates \<Rightarrow> bool" where
  "hkdf_law x \<longleftrightarrow> (\<forall>s k i n. n \<le> 255 * 32 \<longrightarrow> (\<exists>okm. hkdf_expand x s k i n = Some okm \<and> length okm = n))"

definition ed25519_law :: "crates \<Rightarrow> bool" where
  "ed25519_law x \<longleftrightarrow> (\<forall>sk. length sk = 32 \<longrightarrow>
     length (ed_public x sk) = 32 \<and> ed_point x (ed_public x sk) = Ok () \<and>
     (\<forall>m. length (ed_sign x sk m) = 64 \<and> ed_verify x (ed_public x sk) m (ed_sign x sk m) = Ok ()))"

definition x25519_law :: "crates \<Rightarrow> bool" where
  "x25519_law x \<longleftrightarrow> (\<forall>a b. length a = 32 \<longrightarrow> length b = 32 \<longrightarrow>
     length (x_public x a) = 32 \<and> x_shared x a (x_public x b) = x_shared x b (x_public x a))"

definition aead_law :: "crates \<Rightarrow> bool" where
  "aead_law x \<longleftrightarrow> (\<forall>k n a m. \<exists>ct. aead_seal x k n a m = Some ct \<and> aead_open x k n a ct = Some m)"

definition rfc3339_law :: "crates \<Rightarrow> bool" where
  "rfc3339_law x \<longleftrightarrow> (\<forall>t. four_digit_year t \<longrightarrow>
     rfc3339_parse x (rfc3339 x t) = Ok t \<and>
     rfc3339_parse x (rfc3339_secs x t) = Ok (seconds (timestamp t)) \<and>
     rfc3339_parse x (rfc3339_millis x t) = Ok (timestamp_millis t * 1000000) \<and>
     rfc3339_parse x (datetime_json x t) = Ok t \<and>
     datetime_read x (datetime_json x t) = Some t \<and>
     list_all (in_range 33 126) (rfc3339 x t) \<and> list_all (in_range 33 126) (rfc3339_secs x t))"

definition json_law :: "crates \<Rightarrow> bool" where
  "json_law x \<longleftrightarrow> (\<forall>v. json_plain 127 v \<longrightarrow> json_read x (json_text x v) = Ok v)"

lemma base64_roundtrip: "base64_law x \<Longrightarrow> b64_decode x (b64_encode x b) = Ok b"
  by (simp add: base64_law_def)

lemma base64_inject: "base64_law x \<Longrightarrow> b64_encode x a = b64_encode x b \<Longrightarrow> a = b"
  by (metis base64_law_def sum.inject(2))

lemma b64_alphabet_newline: "\<not> b64_alphabet (CHR 0x0A)"
  by (simp add: b64_alphabet_def is_ascii_upper_def is_ascii_lower_def is_digit_def in_range_def)

lemma b64_newline: "base64_law x \<Longrightarrow> CHR 0x0A \<notin> set (b64_encode x b)"
  using b64_alphabet_newline by (metis base64_law_def list_all_iff)

lemma datetime_read_json: "rfc3339_law x \<Longrightarrow> four_digit_year t \<Longrightarrow> datetime_read x (datetime_json x t) = Some t"
  by (simp add: rfc3339_law_def)

lemma json_read_text: "json_law x \<Longrightarrow> json_plain 127 v \<Longrightarrow> json_read x (json_text x v) = Ok v"
  by (simp add: json_law_def)

lemma json_text_inject:
  assumes "json_law x" "json_plain 127 v" "json_plain 127 w" "json_text x v = json_text x w"
  shows "v = w"
  using assms by (metis json_read_text sum.inject(2))

lemma hkdf_expand_ok:
  "hkdf_law x \<Longrightarrow> n \<le> 8160 \<Longrightarrow> \<exists>okm. hkdf_expand x s k i n = Some okm \<and> length okm = n"
  by (auto simp: hkdf_law_def)

section \<open>Shared helpers of the code\<close>

text \<open>\<^verbatim>\<open>sha256_hex\<close>: the same function in the server and in the client.\<close>

definition sha256_hex :: "crates \<Rightarrow> bytes \<Rightarrow> string" where
  "sha256_hex x b = concat (map hex2_lower (sha256 x b))"

definition trim_end_slash :: "string \<Rightarrow> string" where
  "trim_end_slash s = trim_end_matches_char (CHR ''/'') s"

lemma length_hex2_lower [simp]: "length (hex2_lower c) = 2"
  by (simp add: hex2_lower_def)

lemma length_sha256_hex: "digest_law x \<Longrightarrow> length (sha256_hex x b) = 64"
proof -
  assume "digest_law x"
  then have "length (sha256 x b) = 32" by (simp add: digest_law_def)
  moreover have "length (concat (map hex2_lower bs)) = 2 * length bs" for bs
    by (induction bs) simp_all
  ultimately show ?thesis by (simp add: sha256_hex_def)
qed

section \<open>AichanError\<close>

datatype io_kind = AlreadyExists | NotFoundKind | OtherKind

datatype aichan_error =
    Io string io_kind string
  | Json string string
  | InvalidIdentity string
  | InvalidDevice string
  | InvalidMemory string
  | InvalidProtocol string

fun error_text :: "aichan_error \<Rightarrow> string" where
  "error_text (Io path kind source) = ''I/O error at '' @ path @ '': '' @ source"
| "error_text (Json path source) = ''JSON error at '' @ path @ '': '' @ source"
| "error_text (InvalidIdentity m) = ''invalid identity file: '' @ m"
| "error_text (InvalidDevice m) = ''invalid device file: '' @ m"
| "error_text (InvalidMemory m) = ''invalid memory file: '' @ m"
| "error_text (InvalidProtocol m) = ''invalid protocol object: '' @ m"

text \<open>
  \<^verbatim>\<open>decode_base64url_array::<N>\<close>; the modules of the core crate have a copy each, which differ in
  the constructor of the error only.
\<close>

definition decode_array ::
  "(string \<Rightarrow> aichan_error) \<Rightarrow> crates \<Rightarrow> nat \<Rightarrow> string \<Rightarrow> string \<Rightarrow> aichan_error + bytes" where
  "decode_array mk x n encoded field =
     and_then (map_err (\<lambda>source. mk (''invalid '' @ field @ '' encoding: '' @ source)) (b64_decode x encoded))
       (\<lambda>bs. if length bs = n then Ok bs
              else Err (mk (field @ '' must be '' @ show_nat n @ '' bytes, got '' @ show_nat (length bs))))"

abbreviation decode_base64url_array ::
  "crates \<Rightarrow> nat \<Rightarrow> string \<Rightarrow> string \<Rightarrow> aichan_error + bytes" where
  "decode_base64url_array \<equiv> decode_array InvalidProtocol"

abbreviation decode_key :: "crates \<Rightarrow> nat \<Rightarrow> string \<Rightarrow> string \<Rightarrow> aichan_error + bytes" where
  "decode_key \<equiv> decode_array InvalidIdentity"

lemma decode_array_Ok [result_simps]:
  "decode_array mk x n s f = Ok b \<longleftrightarrow> b64_decode x s = Ok b \<and> length b = n"
  by (auto simp: decode_array_def and_then_Ok_iff map_err_Ok_iff)

lemma decode_array_encode:
  "base64_law x \<Longrightarrow> length b = n \<Longrightarrow> decode_array mk x n (b64_encode x b) f = Ok b"
  by (simp add: decode_array_Ok base64_roundtrip)

section \<open>An instance of the crates\<close>

text \<open>
  A small instance that satisfies every law, for the witnesses: codes are the identity, digests
  cut or pad to their length, the cipher marks its text, and a JSON value is written as its
  number in an enumeration of all values.
\<close>

definition pad :: "nat \<Rightarrow> bytes \<Rightarrow> bytes" where
  "pad n b = take n (b @ replicate n (CHR 0x00))"

instance json_number :: countable
  by countable_datatype

instance json :: countable
  by countable_datatype

definition show_time :: "int \<Rightarrow> string" where
  "show_time t = show_int t"

definition parse_time :: "string \<Rightarrow> string + int" where
  "parse_time s =
     (case s of c # r \<Rightarrow> if c = CHR ''-'' then Ok (- int (digits_val r)) else Ok (int (digits_val s))
      | [] \<Rightarrow> Err ''premature end of input'')"

fun unhex :: "string \<Rightarrow> string + bytes" where
  "unhex [] = Ok []"
| "unhex (h # l # s) =
     (case (hex_val h, hex_val l) of
        (Some a, Some b) \<Rightarrow> and_then (unhex s) (\<lambda>bs. Ok (char_of (16 * a + b) # bs))
      | _ \<Rightarrow> Err ''Invalid symbol'')"
| "unhex [c] = Err ''Invalid input length''"

definition hex_text :: "bytes \<Rightarrow> string" where
  "hex_text b = concat (map hex2_upper b)"

definition toy :: crates where
  "toy = \<lparr> b64_encode = hex_text, b64_decode = unhex, sha256 = pad 32, blake3 = pad 32,
     hkdf_expand = (\<lambda>s k i n. Some (pad n (k @ s @ i))),
     ed_public = (\<lambda>sk. sk), ed_sign = (\<lambda>sk m. pad 64 (sk @ m)), ed_point = (\<lambda>p. Ok ()),
     ed_verify = (\<lambda>p m s. if s = pad 64 (p @ m) then Ok () else Err ''signature error''),
     x_public = (\<lambda>sk. sk), x_shared = (\<lambda>sk p. pad 32 []),
     aead_seal = (\<lambda>k n a m. Some (CHR ''#'' # m)),
     aead_open = (\<lambda>k n a ct. case ct of [] \<Rightarrow> None | c # m \<Rightarrow> Some m),
     rfc3339 = show_time, rfc3339_secs = (\<lambda>t. show_time (seconds (timestamp t))),
     rfc3339_millis = (\<lambda>t. show_time (timestamp_millis t * 1000000)), datetime_json = show_time,
     rfc3339_parse = parse_time, datetime_read = (\<lambda>s. result_ok (parse_time s)),
     json_text = (\<lambda>v. show_nat (to_nat v)), json_read = (\<lambda>s. Ok (from_nat (digits_val s))),
     serde_error = (\<lambda>s. ''unexpected value'') \<rparr>"

lemma toy_selectors [simp]:
  "b64_encode toy = hex_text" "b64_decode toy = unhex" "sha256 toy = pad 32" "blake3 toy = pad 32"
  "hkdf_expand toy s k i n = Some (pad n (k @ s @ i))" "ed_public toy sk = sk"
  "ed_sign toy sk m = pad 64 (sk @ m)" "x_public toy sk = sk" "rfc3339 toy = show_time"
  "datetime_json toy = show_time" "rfc3339_parse toy = parse_time"
  by (simp_all add: toy_def)

lemma length_pad [simp]: "length (pad n b) = n"
  by (simp add: pad_def)

lemma unhex_text: "unhex (hex_text b) = Ok b"
  by (induction b) (simp_all add: hex_text_def hex2_upper_def)

lemma hex_text_alphabet: "list_all b64_alphabet (hex_text b)"
proof -
  have "b64_alphabet (hex_upper n)" if "n < 16" for n
    using byte_hex_upper [OF that] that
    by (auto simp: b64_alphabet_def is_ascii_upper_def is_digit_def in_range_def split: if_splits)
  then show ?thesis
    by (induction b) (simp_all add: hex_text_def hex2_upper_def)
qed

lemma parse_show_time: "parse_time (show_time t) = Ok t"
proof (cases "t < 0")
  case True
  then show ?thesis
    using show_nat_facts [of "nat (- t)"] by (simp add: show_time_def show_int_def parse_time_def)
next
  case False
  obtain c r where s: "show_nat (nat t) = c # r" and "is_digit c"
    using show_nat_head by blast
  then have "c \<noteq> CHR ''-''" by (auto simp: is_digit_def in_range_def)
  then show ?thesis
    using show_nat_facts [of "nat t"] s False
    by (simp add: show_time_def show_int_def parse_time_def)
qed

lemma show_time_graphic: "list_all (in_range 33 126) (show_time t)"
proof -
  have "list_all (in_range 33 126) (show_nat n)" for n
    using show_nat_facts [of n] by (auto simp: list_all_iff is_digit_def in_range_def)
  then show ?thesis by (simp add: show_time_def show_int_def in_range_def)
qed

lemma toy_laws:
  "base64_law toy" "digest_law toy" "hkdf_law toy" "ed25519_law toy" "x25519_law toy"
  "aead_law toy" "rfc3339_law toy" "json_law toy"
  using show_nat_facts
  by (simp_all add: toy_def json_law_def base64_law_def digest_law_def hkdf_law_def ed25519_law_def
      x25519_law_def aead_law_def rfc3339_law_def parse_show_time unhex_text hex_text_alphabet
      show_time_graphic)

lemma toy_base64_size: "base64_size_law toy"
proof -
  have "length (hex_text b) = 2 * length b" for b
    by (induction b) (simp_all add: hex_text_def hex2_upper_def)
  then show ?thesis by (simp add: base64_size_law_def toy_def)
qed

text \<open>The key and the time of the examples.\<close>

definition sample_key :: bytes where
  "sample_key = replicate 32 (CHR ''k'')"

definition sample_now :: datetime where
  "sample_now = seconds 1700000000"

lemma length_sample_key [simp]: "length sample_key = 32"
  by (simp add: sample_key_def)

lemma four_digit_sample_now [simp]: "four_digit_year sample_now"
  by (simp add: four_digit_year_def sample_now_def)

end
