(* ===== verification/Http.thy ===== *)
theory Http
  imports Crates
begin

text \<open>
  HTTP as the server reads and writes it (\<^verbatim>\<open>crates/aichan-server/src/lib.rs\<close>): \<^verbatim>\<open>HttpRequest\<close> and its
  accessors, \<^verbatim>\<open>read_http_request\<close> and \<^verbatim>\<open>write_http_response\<close> on the bytes of a connection, and the
  constructors of responses. The lemmas say which text can reach a handler: the method, the path
  and every header of a request that was read hold no line feed.
\<close>

section \<open>Requests\<close>

record http_request =
  rq_method :: string
  rq_path_and_query :: string
  rq_headers :: "(string, string) btree"
  rq_body :: bytes

definition http_request_new :: "string \<Rightarrow> string \<Rightarrow> http_request" where
  "http_request_new m path_and_query =
     \<lparr>rq_method = to_ascii_uppercase m, rq_path_and_query = path_and_query, rq_headers = [], rq_body = []\<rparr>"

definition with_header :: "string \<Rightarrow> string \<Rightarrow> http_request \<Rightarrow> http_request" where
  "with_header name value r = r\<lparr>rq_headers := bt_insert (normalize_header_name name) value (rq_headers r)\<rparr>"

definition with_json_body :: "bytes \<Rightarrow> http_request \<Rightarrow> http_request" where
  "with_json_body body r =
     r\<lparr>rq_headers := bt_insert ''content-length'' (show_nat (length body))
         (bt_insert ''content-type'' ''application/json'' (rq_headers r)),
       rq_body := body\<rparr>"

definition header :: "http_request \<Rightarrow> string \<Rightarrow> string option" where
  "header r name = bt_get (rq_headers r) (normalize_header_name name)"

definition path :: "http_request \<Rightarrow> string" where
  "path r = (case split_once (CHR ''?'') (rq_path_and_query r) of Some (p, q) \<Rightarrow> p | None \<Rightarrow> rq_path_and_query r)"

definition query :: "http_request \<Rightarrow> string option" where
  "query r = map_option snd (split_once (CHR ''?'') (rq_path_and_query r))"

definition client_key :: "http_request \<Rightarrow> string" where
  "client_key r =
     (let forwarded = (case header r ''X-Forwarded-For'' of None \<Rightarrow> None
        | Some value \<Rightarrow> (let first = trim (hd (split_on (CHR '','') value)) in
                        if first = [] then None else Some first))
      in case forwarded of Some k \<Rightarrow> k
         | None \<Rightarrow> (case header r ''X-Real-IP'' of Some k \<Rightarrow> k | None \<Rightarrow> ''unknown''))"

definition bearer_token :: "http_request \<Rightarrow> string option" where
  "bearer_token r =
     (case header r ''Authorization'' of
        None \<Rightarrow> None
      | Some h \<Rightarrow>
        (case split_once (CHR '' '') (trim h) of
           None \<Rightarrow> None
         | Some (scheme, token) \<Rightarrow>
           if to_ascii_lowercase scheme \<noteq> ''bearer'' then None
           else let token = trim token in if token = [] then None else Some token))"

section \<open>Responses\<close>

record http_response =
  rs_status :: nat
  rs_headers :: "(string, string) btree"
  rs_body :: bytes

definition response :: "nat \<Rightarrow> string \<Rightarrow> bytes \<Rightarrow> http_response" where
  "response status content_type body =
     \<lparr>rs_status = status, rs_headers = bt_insert ''Content-Type'' content_type [], rs_body = body\<rparr>"

text \<open>\<^verbatim>\<open>json_response\<close>: \<^verbatim>\<open>serde_json::to_vec\<close> does not fail on a \<^verbatim>\<open>Value\<close>.\<close>

definition json_response :: "crates \<Rightarrow> nat \<Rightarrow> json \<Rightarrow> http_response" where
  "json_response x status value = response status ''application/json; charset=utf-8'' (json_text x value)"

definition error_json :: "string \<Rightarrow> string \<Rightarrow> bool \<Rightarrow> json" where
  "error_json code message retryable =
     obj [(''error'', obj [(''code'', JStr code), (''message'', JStr message), (''retryable'', JBool retryable)])]"

definition error_response :: "crates \<Rightarrow> nat \<Rightarrow> string \<Rightarrow> string \<Rightarrow> bool \<Rightarrow> http_response" where
  "error_response x status code message retryable =
     json_response x status (error_json code message retryable)"

definition rate_limited_response :: "crates \<Rightarrow> nat \<Rightarrow> http_response" where
  "rate_limited_response x retry_after_seconds =
     (let r = error_response x 429 ''rate_limited''
                ''Too many requests. Please retry after the indicated delay.'' True
      in r\<lparr>rs_headers := bt_insert ''Retry-After'' (show_nat retry_after_seconds) (rs_headers r)\<rparr>)"

lemma response_status [simp]:
  "rs_status (response s c b) = s" "rs_status (json_response x s v) = s"
  "rs_status (error_response x s c m retry) = s" "rs_status (rate_limited_response x n) = 429"
  by (simp_all add: response_def json_response_def error_response_def rate_limited_response_def Let_def)

lemma response_body [simp]:
  "rs_body (json_response x s v) = json_text x v"
  "rs_body (error_response x s c m retry) = json_text x (error_json c m retry)"
  "rs_body (rate_limited_response x n) = json_text x (error_json ''rate_limited''
     ''Too many requests. Please retry after the indicated delay.'' True)"
  by (simp_all add: response_def json_response_def error_response_def rate_limited_response_def Let_def)

section \<open>Reading a connection\<close>

text \<open>
  What a connection delivers: its bytes, and then the end of the stream or an I/O error such as
  the ten-second read timeout.
\<close>

record wire =
  wire_bytes :: bytes
  wire_error :: "string option"

text \<open>\<^verbatim>\<open>BufRead::read_line\<close>: up to and including the next line feed.\<close>

fun span_line :: "bytes \<Rightarrow> bytes \<times> bytes \<times> bool" where
  "span_line [] = ([], [], False)"
| "span_line (c # cs) =
     (if c = CHR 0x0A then ([c], cs, True)
      else let (l, r, found) = span_line cs in (c # l, r, found))"

definition read_line :: "wire \<Rightarrow> string + string \<times> wire" where
  "read_line w =
     (let (l, r, found) = span_line (wire_bytes w) in
      case (found, wire_error w) of
        (False, Some e) \<Rightarrow> Err e
      | _ \<Rightarrow> if utf8_valid l then Ok (l, w\<lparr>wire_bytes := r\<rparr>)
             else Err ''stream did not contain valid UTF-8'')"

definition trim_crlf :: "string \<Rightarrow> string" where
  "trim_crlf s = rev (dropWhile (\<lambda>c. c = CHR 0x0D \<or> c = CHR 0x0A) (rev s))"

lemma span_line_shorter: "span_line bs = (l, r, b) \<Longrightarrow> length bs = length l + length r \<and> (bs \<noteq> [] \<longrightarrow> l \<noteq> [])"
  by (induction bs arbitrary: l r) (auto split: if_splits prod.splits)

lemma trim_crlf_nonempty: "trim_crlf l \<noteq> [] \<Longrightarrow> l \<noteq> []"
  by (auto simp: trim_crlf_def)

lemma read_line_shorter:
  "read_line w = Ok (l, w') \<Longrightarrow> trim_crlf l \<noteq> [] \<Longrightarrow> length (wire_bytes w') < length (wire_bytes w)"
  using span_line_shorter [of "wire_bytes w"]
  by (auto simp: read_line_def Let_def split: prod.splits bool.splits option.splits if_splits
      dest!: trim_crlf_nonempty)

definition add_header_line :: "string \<Rightarrow> http_request \<Rightarrow> http_request" where
  "add_header_line line r =
     (case split_once (CHR '':'') line of
        Some (name, value) \<Rightarrow> with_header name (trim value) r
      | None \<Rightarrow> r)"

text \<open>The loop over the header lines ends at the first empty line, or at the end of the stream.\<close>

function read_headers :: "http_request \<Rightarrow> wire \<Rightarrow> string + http_request \<times> wire" where
  "read_headers r w =
     (case read_line w of
        Inl e \<Rightarrow> Err e
      | Inr (l, w') \<Rightarrow>
        let line = trim_crlf l in
        if line = [] then Ok (r, w') else read_headers (add_header_line line r) w')"
  by pat_completeness auto
termination
  by (relation "measure (\<lambda>(r, w). length (wire_bytes w))") (auto dest: read_line_shorter)

declare read_headers.simps [simp del]

datatype read_result = Request http_request | PayloadTooLarge

definition read_exact :: "nat \<Rightarrow> wire \<Rightarrow> string + bytes" where
  "read_exact n w =
     (if n \<le> length (wire_bytes w) then Ok (take n (wire_bytes w))
      else Err (case wire_error w of Some e \<Rightarrow> e | None \<Rightarrow> ''failed to fill whole buffer''))"

definition content_length :: "http_request \<Rightarrow> nat" where
  "content_length r =
     (case header r ''Content-Length'' of
        None \<Rightarrow> 0
      | Some value \<Rightarrow> (case parse_usize value of None \<Rightarrow> 0 | Some n \<Rightarrow> n))"

definition read_body :: "nat \<Rightarrow> http_request \<Rightarrow> wire \<Rightarrow> string + read_result" where
  "read_body max_body_bytes request w =
     (let n = content_length request in
      if n > max_body_bytes then Ok PayloadTooLarge
      else if n > 0 then and_then (read_exact n w) (\<lambda>body. Ok (Request (request\<lparr>rq_body := body\<rparr>)))
      else Ok (Request request))"

definition read_http_request :: "wire \<Rightarrow> nat \<Rightarrow> string + read_result" where
  "read_http_request stream max_body_bytes =
     and_then (read_line stream) (\<lambda>(request_line, w).
       (case split_whitespace request_line of
          [] \<Rightarrow> Err ''missing method''
        | [m] \<Rightarrow> Err ''missing path''
        | m # path_and_query # _ \<Rightarrow>
          and_then (read_headers (http_request_new m path_and_query) w) (\<lambda>(request, w).
            read_body max_body_bytes request w)))"

section \<open>Writing a response\<close>

definition reason_phrase :: "nat \<Rightarrow> string" where
  "reason_phrase status =
     (if status = 200 then ''OK'' else if status = 201 then ''Created''
      else if status = 400 then ''Bad Request'' else if status = 401 then ''Unauthorized''
      else if status = 403 then ''Forbidden'' else if status = 404 then ''Not Found''
      else if status = 409 then ''Conflict'' else if status = 503 then ''Service Unavailable''
      else if status = 413 then ''Payload Too Large'' else if status = 429 then ''Too Many Requests''
      else if status = 500 then ''Internal Server Error'' else ''OK'')"

definition crlf :: string where
  "crlf = [CHR 0x0D, CHR 0x0A]"

text \<open>\<^verbatim>\<open>write_http_response\<close>: the bytes it sends when no write fails.\<close>

definition write_http_response :: "http_response \<Rightarrow> bytes" where
  "write_http_response r =
     ''HTTP/1.1 '' @ show_nat (rs_status r) @ '' '' @ reason_phrase (rs_status r) @ crlf
     @ concat (map (\<lambda>(name, value). name @ '': '' @ value @ crlf) (rs_headers r))
     @ ''Content-Length: '' @ show_nat (length (rs_body r)) @ crlf @ ''Connection: close'' @ crlf @ crlf
     @ rs_body r"

section \<open>What reaches a handler\<close>

definition no_newline :: "string \<Rightarrow> bool" where
  "no_newline s \<longleftrightarrow> CHR 0x0A \<notin> set s"

definition request_clean :: "http_request \<Rightarrow> bool" where
  "request_clean r \<longleftrightarrow> no_newline (rq_method r) \<and> no_newline (rq_path_and_query r) \<and>
     (\<forall>(k, v) \<in> set (rq_headers r). no_newline v) \<and> bt_ok (rq_headers r)"

lemma span_line_no_newline: "span_line bs = (l, r, b) \<Longrightarrow> CHR 0x0A \<notin> set (butlast l)"
proof (induction bs arbitrary: l)
  case Nil
  then show ?case by simp
next
  case (Cons c cs)
  show ?case
  proof (cases "c = CHR 0x0A")
    case True
    with Cons.prems show ?thesis by auto
  next
    case False
    with Cons.prems obtain l' where "span_line cs = (l', r, b)" "l = c # l'"
      by (auto split: prod.splits)
    with Cons.IH False show ?thesis by auto
  qed
qed

lemma read_line_newline: "read_line w = Ok (l, w') \<Longrightarrow> CHR 0x0A \<notin> set (butlast l)"
  using span_line_no_newline [of "wire_bytes w"]
  by (auto simp: read_line_def Let_def split: prod.splits bool.splits option.splits if_splits)

lemma set_trim_crlf: "CHR 0x0A \<notin> set (butlast l) \<Longrightarrow> no_newline (trim_crlf l)"
proof (cases l rule: rev_cases)
  case Nil
  then show ?thesis by (simp add: trim_crlf_def no_newline_def)
next
  case (snoc bs c)
  assume "CHR 0x0A \<notin> set (butlast l)"
  with snoc have bs: "CHR 0x0A \<notin> set bs" by simp
  have "set (dropWhile P (rev bs)) \<subseteq> set bs" for P
    using set_dropWhileD [of _ P "rev bs"] by auto
  with bs snoc show ?thesis by (auto simp: trim_crlf_def no_newline_def)
qed

lemma set_strip_space: "strip_space s = Some r \<Longrightarrow> set r \<subseteq> set s"
  by (auto simp: strip_space_def split: list.splits if_splits)

lemma set_strip_space_rev: "strip_space_rev s = Some r \<Longrightarrow> set r \<subseteq> set s"
  by (auto simp: strip_space_rev_def split: list.splits if_splits)

lemma set_trim_start: "set (trim_start s) \<subseteq> set s"
proof (induction s rule: trim_start.induct)
  case (1 s)
  then show ?case
    by (subst trim_start.simps) (force split: option.splits dest: set_strip_space)
qed

lemma set_trim_start_rev: "set (trim_start_rev s) \<subseteq> set s"
proof (induction s rule: trim_start_rev.induct)
  case (1 s)
  then show ?case
    by (subst trim_start_rev.simps) (force split: option.splits dest: set_strip_space_rev)
qed

lemma set_trim: "set (trim s) \<subseteq> set s"
  using set_trim_start [of s] set_trim_start_rev [of "rev (trim_start s)"]
  by (auto simp: trim_def trim_end_def)

lemma strip_space_not_newline: "strip_space (CHR 0x0A # s) = Some s"
  by (simp add: strip_space_def is_ascii_space_def in_range_def)

lemma set_split_ws_aux:
  "t \<in> set (split_ws_aux acc s) \<Longrightarrow> CHR 0x0A \<notin> set acc \<Longrightarrow> CHR 0x0A \<notin> set t"
proof (induction acc s rule: split_ws_aux.induct)
  case (1 acc s)
  show ?case
  proof (cases "strip_space s")
    case (Some r)
    with 1 show ?thesis
      by (auto simp: split_ws_aux.simps [of acc s] split: if_splits)
  next
    case None
    show ?thesis
    proof (cases s)
      case Nil
      with None have "split_ws_aux acc s = (if acc = [] then [] else [rev acc])"
        by (subst split_ws_aux.simps) simp
      with "1.prems" show ?thesis by (auto split: if_splits)
    next
      case (Cons c r)
      with None have "c \<noteq> CHR 0x0A" using strip_space_not_newline by force
      moreover have "split_ws_aux acc s = split_ws_aux (c # acc) r"
        using None Cons by (subst split_ws_aux.simps) simp
      ultimately show ?thesis using "1.IH"(1) [OF None Cons] "1.prems" by auto
    qed
  qed
qed

lemma split_whitespace_no_newline: "t \<in> set (split_whitespace s) \<Longrightarrow> no_newline t"
  using set_split_ws_aux [of t "[]" s] by (simp add: split_whitespace_def no_newline_def)

lemma ascii_upper_newline: "ascii_upper c = CHR 0x0A \<Longrightarrow> c = CHR 0x0A"
proof (cases "is_ascii_lower c")
  case True
  assume "ascii_upper c = CHR 0x0A"
  moreover have "byte (ascii_upper c) = byte c - 32" "97 \<le> byte c"
    using True by (auto simp: ascii_upper_def is_ascii_lower_def in_range_def)
  ultimately show ?thesis by auto
qed (simp add: ascii_upper_def)

lemma no_newline_upper: "no_newline s \<Longrightarrow> no_newline (to_ascii_uppercase s)"
  unfolding no_newline_def to_ascii_uppercase_def set_map using ascii_upper_newline by (metis imageE)

lemma bt_insert_clean:
  "\<forall>(k, v) \<in> set m. P v \<Longrightarrow> P v' \<Longrightarrow> \<forall>(k, v) \<in> set (bt_insert k' v' m). P v"
  by (induction m) (auto split: ordering.splits)

lemma add_header_line_clean:
  assumes "request_clean r" "no_newline line"
  shows "request_clean (add_header_line line r)"
proof (cases "split_once (CHR '':'') line")
  case None
  with assms show ?thesis by (simp add: add_header_line_def)
next
  case (Some p)
  obtain name v where p: "p = (name, v)" by (cases p)
  with Some have "set v \<subseteq> set line" by (auto simp: split_once_Some)
  with assms(2) have "no_newline (trim v)"
    using set_trim [of v] by (auto simp: no_newline_def)
  with assms(1) Some p show ?thesis
    using bt_insert_clean [of "rq_headers r" no_newline "trim v"]
    by (simp add: add_header_line_def with_header_def request_clean_def bt_ok_insert)
qed

lemma read_headers_clean:
  "read_headers r w = Ok (r', w') \<Longrightarrow> request_clean r \<Longrightarrow> request_clean r'"
proof (induction r w rule: read_headers.induct)
  case (1 r w)
  from 1(2) obtain l u where l: "read_line w = Ok (l, u)"
    by (auto simp: read_headers.simps [of r w] split: sum.splits)
  have clean: "no_newline (trim_crlf l)"
    using set_trim_crlf read_line_newline [OF l] by blast
  show ?case
  proof (cases "trim_crlf l = []")
    case True
    with 1(2,3) l show ?thesis by (simp add: read_headers.simps [of r w])
  next
    case False
    with 1(2) l have "read_headers (add_header_line (trim_crlf l) r) u = Ok (r', w')"
      by (simp add: read_headers.simps [of r w] Let_def)
    with 1(1) [OF l refl refl False] show ?thesis
      using add_header_line_clean [OF 1(3) clean] by blast
  qed
qed

text \<open>
  C33. What a connection can put into a request: whatever bytes arrive, a request that is read has
  no line feed in its method, its path and query, or the value of a header, and a body no longer than
  the configured maximum.
\<close>

theorem read_http_request_clean:
  assumes "read_http_request stream max_body = Ok (Request r)"
  shows "request_clean r \<and> length (rq_body r) \<le> max_body"
proof -
  obtain l w where l1: "read_line stream = Ok (l, w)"
    using assms by (cases "read_line stream") (auto simp: read_http_request_def)
  obtain m p ps where l2: "split_whitespace l = m # p # ps"
    using assms l1 by (cases "split_whitespace l" rule: remdups_adj.cases) (auto simp: read_http_request_def)
  obtain r0 w0 where h: "read_headers (http_request_new m p) w = Ok (r0, w0)"
      and body: "read_body max_body r0 w0 = Ok (Request r)"
    using assms l1 l2 by (auto simp: read_http_request_def result_simps)
  note l = l1 l2
  have r: "r = r0 \<or> (\<exists>n b. read_exact n w0 = Ok b \<and> n \<le> max_body \<and> r = r0\<lparr>rq_body := b\<rparr>)"
    using body by (fastforce simp: read_body_def Let_def result_simps not_less split: if_splits)
  have "no_newline m" "no_newline p"
    using split_whitespace_no_newline [of _ l] l(2) by auto
  then have "request_clean (http_request_new m p)"
    by (simp add: request_clean_def http_request_new_def no_newline_upper bt_ok_def)
  from read_headers_clean [OF h this] have c: "request_clean r0" .
  have "rq_body r0 = []"
  proof -
    have "rq_body (add_header_line l q) = rq_body q" for l q
      by (auto simp: add_header_line_def with_header_def split: option.splits)
    then have "read_headers q v = Ok (q', v') \<Longrightarrow> rq_body q' = rq_body q" for q v q' v'
    proof (induction q v rule: read_headers.induct)
      case (1 r w)
      then show ?case
        by (auto simp: read_headers.simps [of r w] Let_def split: sum.splits prod.splits if_splits)
    qed
    from this [OF h] show ?thesis by (simp add: http_request_new_def)
  qed
  with c r show ?thesis
    by (auto simp: request_clean_def read_exact_def split: if_splits)
qed

definition sample_wire :: wire where
  "sample_wire = \<lparr>wire_bytes = ''get /v1/stats HTTP/1.1'' @ crlf @ ''Host: h'' @ crlf @ crlf, wire_error = None\<rparr>"

theorem read_http_request_clean_witness:
  "\<exists>r. read_http_request sample_wire 100 = Ok (Request r) \<and> rq_method r = ''GET'' \<and>
     request_clean r \<and> length (rq_body r) \<le> 100"
proof -
  let ?r = "\<lparr>rq_method = ''GET'', rq_path_and_query = ''/v1/stats'', rq_headers = [(''host'', ''h'')], rq_body = []\<rparr>"
  have "read_http_request sample_wire 100 = Ok (Request ?r)"
    by code_simp
  then show ?thesis using read_http_request_clean [of sample_wire 100 ?r] by auto
qed

end
