(* ===== verification/Files.thy ===== *)
theory Files
  imports Crates
begin

text \<open>
  Files that hold one JSON document of a known type, as the client keeps its state
  (\<^verbatim>\<open>crates/aichan-core/src\<close>) and the server's file stores keep theirs
  (\<^verbatim>\<open>crates/aichan-server/src/lib.rs\<close>): what a read finds, what a write leaves behind, and the
  write-to-a-temporary-then-rename \<^verbatim>\<open>save\<close> of the server, which a reader never sees half done.
  A write takes its outcome as an argument, so that every failure the operating system may
  report is a branch of the operations above.
\<close>

section \<open>A file\<close>

text \<open>
  \<open>Garbled e\<close> is a file whose bytes serde_json rejects with text \<open>e\<close>, \<open>Unreadable\<close> one that
  cannot be read.
\<close>

datatype 'a json_file = Missing | Unreadable io_kind string | Garbled string | Content 'a

definition file_exists :: "'a json_file \<Rightarrow> bool" where
  "file_exists f \<longleftrightarrow> f \<noteq> Missing"

lemma file_exists_simps [simp]:
  "\<not> file_exists Missing" "file_exists (Unreadable k e)" "file_exists (Garbled e)"
  "file_exists (Content a)"
  by (simp_all add: file_exists_def)

text \<open>\<^verbatim>\<open>std::fs::read\<close> and \<^verbatim>\<open>serde_json::from_slice\<close>, with the error each is mapped to.\<close>

definition read_json :: "string \<Rightarrow> 'a json_file \<Rightarrow> aichan_error + 'a" where
  "read_json path f =
     (case f of
        Missing \<Rightarrow> Err (Io path NotFoundKind ''No such file or directory (os error 2)'')
      | Unreadable k e \<Rightarrow> Err (Io path k e)
      | Garbled e \<Rightarrow> Err (Json path e)
      | Content a \<Rightarrow> Ok a)"

lemma read_json_Ok [result_simps]: "read_json path f = Ok a \<longleftrightarrow> f = Content a"
  by (auto simp: read_json_def split: json_file.splits)

text \<open>
  How a write ends: complete, refused when the file is opened, or cut off after the file has been
  truncated, which leaves bytes that are not a document.
\<close>

datatype write_outcome = Written | Refused io_kind string | Torn io_kind string

definition write_json :: "string \<Rightarrow> write_outcome \<Rightarrow> 'a \<Rightarrow> 'a json_file \<Rightarrow> (aichan_error + unit) \<times> 'a json_file" where
  "write_json path w a f =
     (case w of
        Written \<Rightarrow> (Ok (), Content a)
      | Refused k e \<Rightarrow> (Err (Io path k e), f)
      | Torn k e \<Rightarrow> (Err (Io path k e), Garbled ''EOF while parsing a value''))"

lemma write_json_simps [simp]:
  "write_json path Written a f = (Ok (), Content a)"
  "write_json path (Refused k e) a f = (Err (Io path k e), f)"
  by (simp_all add: write_json_def)

lemma write_json_Ok: "write_json path w a f = (Ok (), f') \<Longrightarrow> f' = Content a"
  by (auto simp: write_json_def split: write_outcome.splits)

section \<open>The server's store files\<close>

record 'a disk =
  disk_path :: string
  main_file :: "'a list json_file"
  temp_file :: "'a list json_file"

record io_plan =
  plan_write :: write_outcome
  plan_rename :: "string option"

definition io_ok :: io_plan where
  "io_ok = \<lparr>plan_write = Written, plan_rename = None\<rparr>"

lemma io_ok_simps [simp]: "plan_write io_ok = Written" "plan_rename io_ok = None"
  by (simp_all add: io_ok_def)

definition empty_disk :: "string \<Rightarrow> 'a disk" where
  "empty_disk path = \<lparr>disk_path = path, main_file = Missing, temp_file = Missing\<rparr>"

text \<open>
  \<^verbatim>\<open>load\<close>: no file is an empty store. Errors are anyhow's, whose text is that of the outermost
  context.
\<close>

definition load :: "'a disk \<Rightarrow> string + 'a list" where
  "load d =
     (case main_file d of
        Missing \<Rightarrow> Ok []
      | Unreadable k e \<Rightarrow> Err (''read '' @ disk_path d)
      | Garbled e \<Rightarrow> Err (''parse '' @ disk_path d)
      | Content rs \<Rightarrow> Ok rs)"

definition temp_path :: "'a disk \<Rightarrow> string" where
  "temp_path d = disk_path d @ ''.tmp''"

text \<open>\<^verbatim>\<open>save\<close>: write the temporary file, then rename it over the store.\<close>

definition save :: "io_plan \<Rightarrow> 'a list \<Rightarrow> 'a disk \<Rightarrow> (string + unit) \<times> 'a disk" where
  "save io records d =
     (case write_json (temp_path d) (plan_write io) records (temp_file d) of
        (Inl e, f) \<Rightarrow> (Err (''write '' @ temp_path d), d\<lparr>temp_file := f\<rparr>)
      | (Inr _, f) \<Rightarrow>
        (case plan_rename io of
           Some e \<Rightarrow> (Err (''rename '' @ temp_path d @ '' to '' @ disk_path d), d\<lparr>temp_file := f\<rparr>)
         | None \<Rightarrow> (Ok (), d\<lparr>main_file := f, temp_file := Missing\<rparr>)))"

lemma load_empty_disk [simp]: "load (empty_disk p) = Ok []"
  by (simp add: load_def empty_disk_def)

lemma save_cases:
  "(\<exists>e d'. save io rs d = (Err e, d') \<and> main_file d' = main_file d \<and> disk_path d' = disk_path d) \<or>
   (\<exists>d'. save io rs d = (Ok (), d') \<and> main_file d' = Content rs \<and> disk_path d' = disk_path d)"
  by (auto simp: save_def write_json_def split: write_outcome.splits option.splits)

lemma save_Ok_load: "save io rs d = (Ok u, d') \<Longrightarrow> load d' = Ok rs"
  using save_cases [of io rs d] by (auto simp: load_def)

lemma load_cong: "main_file d' = main_file d \<Longrightarrow> disk_path d' = disk_path d \<Longrightarrow> load d' = load d"
  by (simp add: load_def split: json_file.split)

lemma save_Err_load: "save io rs d = (Err e, d') \<Longrightarrow> load d' = load d"
  using save_cases [of io rs d] by (auto intro: load_cong)

lemma save_io_ok:
  "save io_ok rs d = (Ok (), d\<lparr>main_file := Content rs, temp_file := Missing\<rparr>)"
  by (simp add: save_def)

text \<open>
  Whatever the outcome, a reader finds the old store or the new one: the stores' operations are
  all or nothing.
\<close>

lemma save_atomic: "load (snd (save io rs d)) \<in> {load d, Ok rs}"
  using save_Ok_load [of io rs d] save_Err_load [of io rs d]
  by (cases "save io rs d"; cases "fst (save io rs d)") auto

text \<open>
  The shape of every update of a store, under its mutex: load, compute a status and perhaps new
  records from the records found, save the new records if there are any.
\<close>

definition store_update ::
  "io_plan \<Rightarrow> ('a list \<Rightarrow> 'st \<times> 'a list option) \<Rightarrow> 'a disk \<Rightarrow> (string + 'st) \<times> 'a disk" where
  "store_update io f d =
     (case load d of
        Inl e \<Rightarrow> (Err e, d)
      | Inr rs \<Rightarrow>
        (case f rs of
           (st, None) \<Rightarrow> (Ok st, d)
         | (st, Some rs') \<Rightarrow>
           (case save io rs' d of (Inl e, d') \<Rightarrow> (Err e, d') | (Inr _, d') \<Rightarrow> (Ok st, d'))))"

text \<open>What an update may leave: the records before, or the new ones.\<close>

lemma store_update_result:
  assumes "store_update io f d = (r, d')"
  shows "load d' = load d \<and> (\<forall>st. r = Ok st \<longrightarrow> (\<exists>rs. load d = Ok rs \<and> f rs = (st, None)))
    \<or> (\<exists>rs st rs'. load d = Ok rs \<and> f rs = (st, Some rs') \<and> r = Ok st \<and> load d' = Ok rs')"
  using assms
  by (auto simp: store_update_def split: sum.splits prod.splits option.splits
      dest: save_Ok_load save_Err_load)

lemma store_update_ok:
  assumes "load d = Ok rs"
  shows "f rs = (st, None) \<Longrightarrow> store_update io f d = (Ok st, d)"
    and "f rs = (st, Some rs') \<Longrightarrow> \<exists>d'. store_update io_ok f d = (Ok st, d') \<and> load d' = Ok rs'"
  using assms by (auto simp: store_update_def save_io_ok load_def)

lemma store_update_forget:
  "snd (store_update io f d) = snd (store_update io (\<lambda>rs. ((), snd (f rs))) d)"
  by (auto simp: store_update_def split: sum.split prod.split option.split)

text \<open>An invariant of the stored records that the computation keeps is kept by the update.\<close>

definition disk_inv :: "('a list \<Rightarrow> bool) \<Rightarrow> 'a disk \<Rightarrow> bool" where
  "disk_inv P d \<longleftrightarrow> (\<forall>rs. load d = Ok rs \<longrightarrow> P rs)"

lemma disk_inv_update:
  assumes "disk_inv P d" and "\<And>rs st rs'. P rs \<Longrightarrow> f rs = (st, Some rs') \<Longrightarrow> P rs'"
  shows "disk_inv P (snd (store_update io f d))"
proof -
  obtain r d' where u: "store_update io f d = (r, d')" by (cases "store_update io f d")
  from store_update_result [OF u] show ?thesis
    using assms u by (auto simp: disk_inv_def)
qed

lemma disk_inv_empty [simp]: "P [] \<Longrightarrow> disk_inv P (empty_disk p)"
  by (simp add: disk_inv_def)

text \<open>\<^verbatim>\<open>new\<close>: the data directory is made, the file is not touched.\<close>

definition file_store_new :: "string \<Rightarrow> string \<Rightarrow> string option \<Rightarrow> 'a disk \<Rightarrow> string + 'a disk" where
  "file_store_new data_dir name failure d =
     (case failure of
        Some e \<Rightarrow> Err (''create data dir '' @ data_dir)
      | None \<Rightarrow> Ok (d\<lparr>disk_path := data_dir @ ''/'' @ name\<rparr>))"

end
