(* ===== verification/Serde.thy ===== *)
theory Serde
  imports Crates "HOL-Library.Monad_Syntax"
begin

text \<open>
  What \<^verbatim>\<open>#[derive(Serialize, Deserialize)]\<close> generates, as combinators: each record of the
  program has an encoder into the JSON tree, with its fields in the order of the declaration, and
  a decoder from it. A decoder takes an object with every required field once, unknown fields
  ignored, or an array of the fields in order. \<open>value_of\<close> is \<^verbatim>\<open>serde_json::to_value\<close> after the
  encoder and the reading of a text into a \<^verbatim>\<open>Value\<close>: objects become \<^verbatim>\<open>BTreeMap\<close>s.
\<close>

section \<open>Value\<close>

function value_of :: "json \<Rightarrow> json" where
  "value_of JNull = JNull"
| "value_of (JBool b) = JBool b"
| "value_of (JNum n) = JNum n"
| "value_of (JStr s) = JStr s"
| "value_of (JArr vs) = JArr (map value_of vs)"
| "value_of (JObj m) = obj (map (\<lambda>(k, v). (k, value_of v)) m)"
  by pat_completeness auto
termination
proof (relation "measure size")
  fix vs :: "json list" and v assume "v \<in> set vs"
  then show "(v, JArr vs) \<in> measure size"
    by (simp add: size_list_estimation' less_Suc_eq_le)
next
  fix m :: "(string \<times> json) list" and e k v assume "e \<in> set m" "(k, v) = e"
  then have "size v \<le> size_list (size_prod (\<lambda>_. 0) size) m"
    by (auto intro!: size_list_estimation')
  then show "(v, JObj m) \<in> measure size"
    by simp
qed simp

section \<open>Decoders\<close>

definition dec_str :: "json \<Rightarrow> string option" where
  "dec_str v = as_str v"

definition dec_bool :: "json \<Rightarrow> bool option" where
  "dec_bool v = as_bool v"

definition dec_uint :: "nat \<Rightarrow> json \<Rightarrow> nat option" where
  "dec_uint m v = (case v of JNum (PosInt n) \<Rightarrow> if n \<le> m then Some n else None | _ \<Rightarrow> None)"

definition u8_max :: nat where "u8_max = 255"
definition u64_max :: nat where "u64_max = 2 ^ 64 - 1"

definition dec_time :: "crates \<Rightarrow> json \<Rightarrow> datetime option" where
  "dec_time x v = (case v of JStr s \<Rightarrow> datetime_read x s | _ \<Rightarrow> None)"

definition dec_opt :: "(json \<Rightarrow> 'a option) \<Rightarrow> json \<Rightarrow> 'a option option" where
  "dec_opt d v = (case v of JNull \<Rightarrow> Some None | _ \<Rightarrow> map_option Some (d v))"

fun dec_all :: "(json \<Rightarrow> 'a option) \<Rightarrow> json list \<Rightarrow> 'a list option" where
  "dec_all d [] = Some []"
| "dec_all d (v # vs) =
     (case d v of None \<Rightarrow> None | Some a \<Rightarrow> map_option ((#) a) (dec_all d vs))"

definition dec_list :: "(json \<Rightarrow> 'a option) \<Rightarrow> json \<Rightarrow> 'a list option" where
  "dec_list d v = (case v of JArr vs \<Rightarrow> dec_all d vs | _ \<Rightarrow> None)"

text \<open>
  The fields of a struct named \<open>names\<close>, of which the first \<open>needed\<close> cannot be left out of the
  array form.
\<close>

definition struct_fields :: "nat \<Rightarrow> string list \<Rightarrow> json \<Rightarrow> (string \<Rightarrow> json option) option" where
  "struct_fields needed names v =
     (case v of
        JObj m \<Rightarrow>
          (if list_all (\<lambda>n. length (filter (\<lambda>(k, _). k = n) m) \<le> 1) names then Some (map_of m) else None)
      | JArr vs \<Rightarrow>
          (if needed \<le> length vs \<and> length vs \<le> length names then Some (map_of (zip names vs)) else None)
      | _ \<Rightarrow> None)"

definition req :: "(string \<Rightarrow> json option) \<Rightarrow> string \<Rightarrow> (json \<Rightarrow> 'a option) \<Rightarrow> 'a option" where
  "req f k d = (case f k of None \<Rightarrow> None | Some v \<Rightarrow> d v)"

definition opt_field :: "(string \<Rightarrow> json option) \<Rightarrow> string \<Rightarrow> (json \<Rightarrow> 'a option) \<Rightarrow> 'a option option" where
  "opt_field f k d = (case f k of None \<Rightarrow> Some None | Some v \<Rightarrow> dec_opt d v)"

definition default_field :: "'a \<Rightarrow> (string \<Rightarrow> json option) \<Rightarrow> string \<Rightarrow> (json \<Rightarrow> 'a option) \<Rightarrow> 'a option" where
  "default_field a f k d = (case f k of None \<Rightarrow> Some a | Some v \<Rightarrow> d v)"

text \<open>\<^verbatim>\<open>serde_json::from_slice\<close>, with the text of its error.\<close>

definition from_json :: "crates \<Rightarrow> (json \<Rightarrow> 'a option) \<Rightarrow> bytes \<Rightarrow> string + 'a" where
  "from_json x d body =
     and_then (json_read x body) (\<lambda>v. ok_or (serde_error x body) (d v))"

section \<open>Encoders\<close>

definition enc_time :: "crates \<Rightarrow> datetime \<Rightarrow> json" where
  "enc_time x t = JStr (datetime_json x t)"

definition enc_strs :: "string list \<Rightarrow> json" where
  "enc_strs ss = JArr (map JStr ss)"

text \<open>\<^verbatim>\<open>skip_serializing_if = "Option::is_none"\<close>.\<close>

definition skip_none :: "string \<Rightarrow> ('a \<Rightarrow> json) \<Rightarrow> 'a option \<Rightarrow> (string \<times> json) list" where
  "skip_none k f v = (case v of None \<Rightarrow> [] | Some a \<Rightarrow> [(k, f a)])"

section \<open>Round trips\<close>

named_theorems serde

lemma decoders [serde]:
  "dec_str (JStr s) = Some s" "dec_bool (JBool b) = Some b"
  "n \<le> m \<Longrightarrow> dec_uint m (jnat n) = Some n"
  "rfc3339_law x \<Longrightarrow> four_digit_year t \<Longrightarrow> dec_time x (enc_time x t) = Some t"
  "dec_list d (JArr vs) = dec_all d vs"
  by (simp_all add: dec_str_def dec_bool_def dec_uint_def dec_time_def enc_time_def
      datetime_read_json dec_list_def)

lemma value_of_enc_time [simp]: "value_of (enc_time x t) = enc_time x t"
  by (simp add: enc_time_def)

lemma value_of_enc_strs [simp]: "value_of (enc_strs ss) = enc_strs ss"
  by (simp add: enc_strs_def)

lemma value_of_jopt: "value_of (jopt f v) = jopt (\<lambda>a. value_of (f a)) v"
  by (cases v) (simp_all add: jopt_def)

lemma dec_all_map [serde]: "(\<And>a. a \<in> set as \<Longrightarrow> d (f a) = Some a) \<Longrightarrow> dec_all d (map f as) = Some as"
  by (induction as) auto

lemma dec_enc_strs [serde]: "dec_list dec_str (enc_strs ss) = Some ss"
  by (simp add: enc_strs_def serde)

lemma dec_opt_jopt [serde]:
  assumes "\<And>a. v = Some a \<Longrightarrow> d (f a) = Some a \<and> f a \<noteq> JNull"
  shows "dec_opt d (jopt f v) = Some v"
  using assms by (cases v) (auto simp: dec_opt_def jopt_def split: json.splits)

lemma struct_fields_obj:
  "struct_fields n names (obj kvs) = Some (map_of (rev kvs))"
proof -
  have d: "distinct (map fst (bt_collect kvs))"
    using bt_ok_distinct [OF bt_ok_collect] .
  have "length (filter (\<lambda>(k', _). k' = k) m) \<le> 1" if "distinct (map fst m)"
    for k and m :: "(string \<times> json) list"
    using that by (induction m) (auto simp: filter_empty_conv image_iff)
  with d have "list_all (\<lambda>n. length (filter (\<lambda>(k, _). k = n) (bt_collect kvs)) \<le> 1) names"
    by (simp add: list_all_iff)
  then show ?thesis
    by (simp add: struct_fields_def obj_def fun_eq_iff bt_get_collect [symmetric] bt_get_def)
qed

lemma struct_fields_JObj:
  "distinct (map fst kvs) \<Longrightarrow> struct_fields n names (JObj kvs) = Some (map_of kvs)"
proof -
  assume d: "distinct (map fst kvs)"
  have "length (filter (\<lambda>(k', _). k' = k) m) \<le> 1" if "distinct (map fst m)"
    for k and m :: "(string \<times> json) list"
    using that by (induction m) (auto simp: filter_empty_conv image_iff)
  with d show ?thesis by (simp add: struct_fields_def list_all_iff)
qed

lemma from_json_text:
  "json_law x \<Longrightarrow> json_plain 127 v \<Longrightarrow> d v = Some a \<Longrightarrow> from_json x d (json_text x v) = Ok a"
  by (simp add: from_json_def json_read_text)

lemma json_plain_mono: "json_plain d v \<Longrightarrow> d \<le> e \<Longrightarrow> json_plain e v"
proof (induction d v arbitrary: e rule: json_plain.induct)
  case (8 d vs)
  then show ?case by (cases e) (auto simp: list_all_iff)
next
  case (10 d m)
  then show ?case by (cases e) (fastforce simp: list_all_iff)+
qed auto

lemma json_plain_JObj: "(\<And>k v. (k, v) \<in> set m \<Longrightarrow> json_plain d v) \<Longrightarrow> json_plain (Suc d) (JObj m)"
  by (auto simp: list_all_iff)

lemma set_bt_collect_subset: "set (bt_collect kvs) \<subseteq> set kvs"
proof -
  have ins: "set (bt_insert k v m) \<subseteq> insert (k, v) (set m)" for k :: 'a and v :: 'b and m
    by (induction m) (auto split: ordering.splits)
  have "set (foldl (\<lambda>m (k, v). bt_insert k v m) m kvs) \<subseteq> set m \<union> set kvs" for m
  proof (induction kvs arbitrary: m)
    case Nil
    then show ?case by simp
  next
    case (Cons e kvs)
    obtain k v where e: "e = (k, v)" by (cases e)
    show ?case using Cons [of "bt_insert k v m"] ins [of k v m] e by auto
  qed
  from this [of "[]"] show ?thesis by (simp add: bt_collect_def)
qed

lemma json_plain_obj: "(\<And>k v. (k, v) \<in> set kvs \<Longrightarrow> json_plain d v) \<Longrightarrow> json_plain (Suc d) (obj kvs)"
  unfolding obj_def by (rule json_plain_JObj) (use set_bt_collect_subset in blast)

lemma json_plain_leaves [simp]:
  "json_plain d (enc_time x t)" "json_plain (Suc d) (enc_strs ss)"
  by (simp_all add: enc_time_def enc_strs_def list_all_iff)

lemma json_plain_jopt: "(\<And>a. v = Some a \<Longrightarrow> json_plain d (f a)) \<Longrightarrow> json_plain d (jopt f v)"
  by (cases v) (simp_all add: jopt_def)

lemma value_of_JObj: "value_of (JObj m) = obj (map (\<lambda>(k, v). (k, value_of v)) m)"
  by simp

end
