(* ===== verification/Local_State.thy ===== *)
theory Local_State
  imports Files Serde
begin

text \<open>
  The client's local state: the paths of \<^verbatim>\<open>state.rs\<close>, the device file of \<^verbatim>\<open>device.rs\<close>, the memory
  file of \<^verbatim>\<open>memory.rs\<close> with its JSON form, and the configuration of \<^verbatim>\<open>config.rs\<close>, all in
  \<^verbatim>\<open>crates/aichan-core/src\<close>. A file is a \<open>json_file\<close>; an operation takes the file it finds and
  the outcome of the writes it makes and returns the file it leaves.
\<close>

section \<open>state.rs\<close>

text \<open>\<^verbatim>\<open>Path::join\<close> on Unix.\<close>

definition join_path :: "string \<Rightarrow> string \<Rightarrow> string" where
  "join_path p q =
     (if starts_with q ''/'' then q else if p = [] \<or> ends_with p ''/'' then p @ q else p @ ''/'' @ q)"

type_synonym local_state_dir = string

definition state_root :: "local_state_dir \<Rightarrow> string" where
  "state_root project_root = join_path project_root ''.aichan''"

definition identity_path :: "local_state_dir \<Rightarrow> string" where
  "identity_path s = join_path (state_root s) ''identity.json''"

definition device_path :: "local_state_dir \<Rightarrow> string" where
  "device_path s = join_path (state_root s) ''device.json''"

definition memory_path :: "local_state_dir \<Rightarrow> string" where
  "memory_path s = join_path (state_root s) ''memory.json''"

definition config_path :: "local_state_dir \<Rightarrow> string" where
  "config_path s = join_path (state_root s) ''config.json''"

definition backup_metadata_path :: "local_state_dir \<Rightarrow> string" where
  "backup_metadata_path s = join_path (state_root s) ''backup.json''"

definition recipient_key_cache_path :: "local_state_dir \<Rightarrow> string" where
  "recipient_key_cache_path s = join_path (state_root s) ''recipient-key-cache.json''"

definition inbox_cache_dir :: "local_state_dir \<Rightarrow> string" where
  "inbox_cache_dir s = join_path (state_root s) ''inbox-cache''"

definition peer_messages_dir :: "local_state_dir \<Rightarrow> string" where
  "peer_messages_dir s = join_path (state_root s) ''peer-messages''"

definition peer_messages_path :: "local_state_dir \<Rightarrow> string \<Rightarrow> string" where
  "peer_messages_path s peer_id = join_path (peer_messages_dir s) (peer_id @ ''.jsonl'')"

definition transcripts_dir :: "local_state_dir \<Rightarrow> string" where
  "transcripts_dir s = join_path (state_root s) ''transcripts''"

text \<open>\<^verbatim>\<open>ensure_dirs\<close>: what the two calls of \<^verbatim>\<open>create_dir_all\<close> report is an argument.\<close>

record dir_outcome =
  mk_inbox_cache :: "(io_kind \<times> string) option"
  mk_peer_messages :: "(io_kind \<times> string) option"

definition dirs_made :: dir_outcome where
  "dirs_made = \<lparr>mk_inbox_cache = None, mk_peer_messages = None\<rparr>"

definition ensure_dirs :: "local_state_dir \<Rightarrow> dir_outcome \<Rightarrow> aichan_error + unit" where
  "ensure_dirs s mk =
     (case mk_inbox_cache mk of
        Some (k, e) \<Rightarrow> Err (Io (inbox_cache_dir s) k e)
      | None \<Rightarrow>
        (case mk_peer_messages mk of
           Some (k, e) \<Rightarrow> Err (Io (peer_messages_dir s) k e)
         | None \<Rightarrow> Ok ()))"

lemma ensure_dirs_made [simp]: "ensure_dirs s dirs_made = Ok ()"
  by (simp add: ensure_dirs_def dirs_made_def)

section \<open>device.rs\<close>

datatype device_id = DeviceId string

fun device_str :: "device_id \<Rightarrow> string" where
  "device_str (DeviceId s) = s"

text \<open>\<^verbatim>\<open>DeviceId::new\<close>; \<open>uuid\<close> is the simple form of a fresh version 4 UUID.\<close>

definition device_id_new :: "string \<Rightarrow> device_id" where
  "device_id_new uuid = DeviceId (''device_'' @ uuid)"

definition validate_device_id :: "device_id \<Rightarrow> aichan_error + unit" where
  "validate_device_id d =
     (case strip_prefix (device_str d) ''device_'' of
        None \<Rightarrow> Err (InvalidDevice ''device_id must start with device_'')
      | Some suffix \<Rightarrow>
        if length suffix \<noteq> 32 \<or> \<not> list_all is_ascii_hexdigit suffix
        then Err (InvalidDevice ''device_id must be device_ followed by 32 hex characters'')
        else Ok ())"

record device_file =
  dev_version :: nat
  dev_device_id :: device_id
  dev_created_at :: datetime

definition validate_device :: "device_file \<Rightarrow> aichan_error + unit" where
  "validate_device d =
     (if dev_version d \<noteq> 1
      then Err (InvalidDevice (''unsupported version '' @ show_nat (dev_version d)))
      else validate_device_id (dev_device_id d))"

definition read_device :: "string \<Rightarrow> device_file json_file \<Rightarrow> aichan_error + device_file" where
  "read_device path f =
     and_then (read_json path f) (\<lambda>device. and_then (validate_device device) (\<lambda>_. Ok device))"

definition fresh_device :: "string \<Rightarrow> datetime \<Rightarrow> device_file" where
  "fresh_device uuid now = \<lparr>dev_version = 1, dev_device_id = device_id_new uuid, dev_created_at = now\<rparr>"

definition device_create_fresh ::
  "local_state_dir \<Rightarrow> dir_outcome \<Rightarrow> write_outcome \<Rightarrow> string \<Rightarrow> datetime \<Rightarrow> device_file json_file \<Rightarrow>
   (aichan_error + device_file) \<times> device_file json_file" where
  "device_create_fresh s mk w uuid now f =
     (case ensure_dirs s mk of
        Inl e \<Rightarrow> (Err e, f)
      | Inr _ \<Rightarrow>
        (let device = fresh_device uuid now;
             (r, f') = write_json (device_path s) w device f
         in (map_ok (\<lambda>_. device) r, f')))"

definition device_create_or_load ::
  "local_state_dir \<Rightarrow> dir_outcome \<Rightarrow> write_outcome \<Rightarrow> string \<Rightarrow> datetime \<Rightarrow> device_file json_file \<Rightarrow>
   (aichan_error + device_file) \<times> device_file json_file" where
  "device_create_or_load s mk w uuid now f =
     (if file_exists f then (read_device (device_path s) f, f)
      else device_create_fresh s mk w uuid now f)"

lemma validate_device_id_Ok [result_simps]:
  "validate_device_id d = Ok u \<longleftrightarrow>
     (\<exists>suffix. device_str d = ''device_'' @ suffix \<and> length suffix = 32 \<and> list_all is_ascii_hexdigit suffix)"
proof (cases "strip_prefix (device_str d) ''device_''")
  case None
  then show ?thesis
    using None [unfolded strip_prefix_None] by (auto simp: validate_device_id_def)
next
  case (Some suffix)
  then have "device_str d = ''device_'' @ suffix" by (simp only: strip_prefix_Some)
  then show ?thesis by (auto simp: validate_device_id_def)
qed

lemma validate_device_Ok [result_simps]:
  "validate_device d = Ok u \<longleftrightarrow> dev_version d = 1 \<and> validate_device_id (dev_device_id d) = Ok ()"
  by (simp add: validate_device_def)

lemma fresh_device_valid:
  "length uuid = 32 \<Longrightarrow> list_all is_ascii_hexdigit uuid \<Longrightarrow> validate_device (fresh_device uuid now) = Ok ()"
  by (simp add: fresh_device_def validate_device_Ok validate_device_id_Ok device_id_new_def)

text \<open>The first call makes the device; every later one finds the same device.\<close>

lemma device_create_then_load:
  assumes "length uuid = 32" "list_all is_ascii_hexdigit uuid"
    and "device_create_or_load s mk w uuid now Missing = (Ok d, f)"
  shows "validate_device d = Ok () \<and>
    device_create_or_load s mk' w' uuid' now' f = (Ok d, f)"
proof -
  have "d = fresh_device uuid now \<and> f = Content d"
    using assms(3) by (auto simp: device_create_or_load_def device_create_fresh_def Let_def write_json_def
        split: sum.splits write_outcome.splits)
  then show ?thesis
    using fresh_device_valid [OF assms(1,2)]
    by (simp add: device_create_or_load_def read_device_def read_json_def)
qed

section \<open>memory.rs\<close>

record agent_profile =
  prof_nickname :: "string option"
  prof_self_description :: "string option"
  prof_preferences :: "string list"

record peer_summary =
  peer_peer_id :: string
  peer_tags :: "string list"
  peer_body_preview :: "string option"
  peer_last_seen_at :: datetime

record interaction_summary =
  inter_peer_id :: string
  inter_summary :: string
  inter_updated_at :: datetime

record sync_state =
  sync_last_sync_at :: "datetime option"
  sync_inbox_cursor :: "string option"
  sync_activity_cursor :: "string option"

record memory_file =
  mem_version :: nat
  mem_profile :: agent_profile
  mem_common_tags :: "string list"
  mem_discovered_peers :: "peer_summary list"
  mem_interactions :: "interaction_summary list"
  mem_sync :: sync_state
  mem_updated_at :: datetime

definition default_profile :: agent_profile where
  "default_profile = \<lparr>prof_nickname = None, prof_self_description = None, prof_preferences = []\<rparr>"

definition default_sync :: sync_state where
  "default_sync = \<lparr>sync_last_sync_at = None, sync_inbox_cursor = None, sync_activity_cursor = None\<rparr>"

definition default_memory :: "datetime \<Rightarrow> memory_file" where
  "default_memory now =
     \<lparr>mem_version = 1, mem_profile = default_profile, mem_common_tags = [], mem_discovered_peers = [],
      mem_interactions = [], mem_sync = default_sync, mem_updated_at = now\<rparr>"

definition validate_memory :: "memory_file \<Rightarrow> aichan_error + unit" where
  "validate_memory m =
     (if mem_version m \<noteq> 1
      then Err (InvalidMemory (''unsupported version '' @ show_nat (mem_version m))) else Ok ())"

definition read_memory :: "string \<Rightarrow> memory_file json_file \<Rightarrow> aichan_error + memory_file" where
  "read_memory path f =
     and_then (read_json path f) (\<lambda>memory. and_then (validate_memory memory) (\<lambda>_. Ok memory))"

definition memory_create_or_load ::
  "local_state_dir \<Rightarrow> dir_outcome \<Rightarrow> write_outcome \<Rightarrow> datetime \<Rightarrow> memory_file json_file \<Rightarrow>
   (aichan_error + memory_file) \<times> memory_file json_file" where
  "memory_create_or_load s mk w now f =
     (if file_exists f then (read_memory (memory_path s) f, f)
      else case ensure_dirs s mk of
        Inl e \<Rightarrow> (Err e, f)
      | Inr _ \<Rightarrow>
        (let memory = default_memory now;
             (r, f') = write_json (memory_path s) w memory f
         in (map_ok (\<lambda>_. memory) r, f')))"

lemma validate_memory_Ok [result_simps]: "validate_memory m = Ok u \<longleftrightarrow> mem_version m = 1"
  by (simp add: validate_memory_def)

lemma memory_create_then_load:
  assumes "memory_create_or_load s mk w now Missing = (Ok m, f)"
  shows "validate_memory m = Ok () \<and> memory_create_or_load s mk' w' now' f = (Ok m, f)"
proof -
  have "m = default_memory now \<and> f = Content m"
    using assms by (auto simp: memory_create_or_load_def Let_def write_json_def
        split: sum.splits write_outcome.splits)
  then show ?thesis
    by (simp add: memory_create_or_load_def read_memory_def read_json_def validate_memory_def default_memory_def)
qed

subsection \<open>The JSON form\<close>

definition enc_profile :: "agent_profile \<Rightarrow> json" where
  "enc_profile p = JObj [
     (''nickname'', jopt JStr (prof_nickname p)),
     (''self_description'', jopt JStr (prof_self_description p)),
     (''preferences'', enc_strs (prof_preferences p))]"

definition dec_profile :: "json \<Rightarrow> agent_profile option" where
  "dec_profile v = do {
     f \<leftarrow> struct_fields 3 [''nickname'', ''self_description'', ''preferences''] v;
     nickname \<leftarrow> opt_field f ''nickname'' dec_str;
     self_description \<leftarrow> opt_field f ''self_description'' dec_str;
     preferences \<leftarrow> req f ''preferences'' (dec_list dec_str);
     Some \<lparr>prof_nickname = nickname, prof_self_description = self_description,
           prof_preferences = preferences\<rparr> }"

definition enc_peer_summary :: "crates \<Rightarrow> peer_summary \<Rightarrow> json" where
  "enc_peer_summary x p = JObj [
     (''peer_id'', JStr (peer_peer_id p)),
     (''tags'', enc_strs (peer_tags p)),
     (''body_preview'', jopt JStr (peer_body_preview p)),
     (''last_seen_at'', enc_time x (peer_last_seen_at p))]"

definition dec_peer_summary :: "crates \<Rightarrow> json \<Rightarrow> peer_summary option" where
  "dec_peer_summary x v = do {
     f \<leftarrow> struct_fields 4 [''peer_id'', ''tags'', ''body_preview'', ''last_seen_at''] v;
     peer_id \<leftarrow> req f ''peer_id'' dec_str;
     tags \<leftarrow> req f ''tags'' (dec_list dec_str);
     body_preview \<leftarrow> opt_field f ''body_preview'' dec_str;
     last_seen_at \<leftarrow> req f ''last_seen_at'' (dec_time x);
     Some \<lparr>peer_peer_id = peer_id, peer_tags = tags, peer_body_preview = body_preview,
           peer_last_seen_at = last_seen_at\<rparr> }"

definition enc_interaction :: "crates \<Rightarrow> interaction_summary \<Rightarrow> json" where
  "enc_interaction x i = JObj [
     (''peer_id'', JStr (inter_peer_id i)),
     (''summary'', JStr (inter_summary i)),
     (''updated_at'', enc_time x (inter_updated_at i))]"

definition dec_interaction :: "crates \<Rightarrow> json \<Rightarrow> interaction_summary option" where
  "dec_interaction x v = do {
     f \<leftarrow> struct_fields 3 [''peer_id'', ''summary'', ''updated_at''] v;
     peer_id \<leftarrow> req f ''peer_id'' dec_str;
     summary \<leftarrow> req f ''summary'' dec_str;
     updated_at \<leftarrow> req f ''updated_at'' (dec_time x);
     Some \<lparr>inter_peer_id = peer_id, inter_summary = summary, inter_updated_at = updated_at\<rparr> }"

definition enc_sync :: "crates \<Rightarrow> sync_state \<Rightarrow> json" where
  "enc_sync x s = JObj [
     (''last_sync_at'', jopt (enc_time x) (sync_last_sync_at s)),
     (''inbox_cursor'', jopt JStr (sync_inbox_cursor s)),
     (''activity_cursor'', jopt JStr (sync_activity_cursor s))]"

definition dec_sync :: "crates \<Rightarrow> json \<Rightarrow> sync_state option" where
  "dec_sync x v = do {
     f \<leftarrow> struct_fields 3 [''last_sync_at'', ''inbox_cursor'', ''activity_cursor''] v;
     last_sync_at \<leftarrow> opt_field f ''last_sync_at'' (dec_time x);
     inbox_cursor \<leftarrow> opt_field f ''inbox_cursor'' dec_str;
     activity_cursor \<leftarrow> opt_field f ''activity_cursor'' dec_str;
     Some \<lparr>sync_last_sync_at = last_sync_at, sync_inbox_cursor = inbox_cursor,
           sync_activity_cursor = activity_cursor\<rparr> }"

definition enc_memory :: "crates \<Rightarrow> memory_file \<Rightarrow> json" where
  "enc_memory x m = JObj [
     (''version'', jnat (mem_version m)),
     (''profile'', enc_profile (mem_profile m)),
     (''common_tags'', enc_strs (mem_common_tags m)),
     (''discovered_peers'', JArr (map (enc_peer_summary x) (mem_discovered_peers m))),
     (''interactions'', JArr (map (enc_interaction x) (mem_interactions m))),
     (''sync'', enc_sync x (mem_sync m)),
     (''updated_at'', enc_time x (mem_updated_at m))]"

definition dec_memory :: "crates \<Rightarrow> json \<Rightarrow> memory_file option" where
  "dec_memory x v = do {
     f \<leftarrow> struct_fields 7 [''version'', ''profile'', ''common_tags'', ''discovered_peers'',
            ''interactions'', ''sync'', ''updated_at''] v;
     version \<leftarrow> req f ''version'' (dec_uint u8_max);
     profile \<leftarrow> req f ''profile'' dec_profile;
     common_tags \<leftarrow> req f ''common_tags'' (dec_list dec_str);
     discovered_peers \<leftarrow> req f ''discovered_peers'' (dec_list (dec_peer_summary x));
     interactions \<leftarrow> req f ''interactions'' (dec_list (dec_interaction x));
     sync \<leftarrow> req f ''sync'' (dec_sync x);
     updated_at \<leftarrow> req f ''updated_at'' (dec_time x);
     Some \<lparr>mem_version = version, mem_profile = profile, mem_common_tags = common_tags,
           mem_discovered_peers = discovered_peers, mem_interactions = interactions, mem_sync = sync,
           mem_updated_at = updated_at\<rparr> }"

text \<open>A memory whose numbers and dates the JSON form can hold.\<close>

definition memory_storable :: "memory_file \<Rightarrow> bool" where
  "memory_storable m \<longleftrightarrow>
     mem_version m \<le> u8_max \<and> four_digit_year (mem_updated_at m) \<and>
     (\<forall>p \<in> set (mem_discovered_peers m). four_digit_year (peer_last_seen_at p)) \<and>
     (\<forall>i \<in> set (mem_interactions m). four_digit_year (inter_updated_at i)) \<and>
     (\<forall>t. sync_last_sync_at (mem_sync m) = Some t \<longrightarrow> four_digit_year t)"

lemma enc_time_not_null [simp]: "enc_time x t \<noteq> JNull"
  by (simp add: enc_time_def)

lemmas field_defs = req_def opt_field_def default_field_def struct_fields_JObj

lemma dec_enc_profile [serde]: "dec_profile (enc_profile p) = Some p"
  by (simp add: dec_profile_def enc_profile_def field_defs serde)

lemma dec_enc_peer_summary [serde]:
  "rfc3339_law x \<Longrightarrow> four_digit_year (peer_last_seen_at p) \<Longrightarrow> dec_peer_summary x (enc_peer_summary x p) = Some p"
  by (simp add: dec_peer_summary_def enc_peer_summary_def field_defs serde)

lemma dec_enc_interaction [serde]:
  "rfc3339_law x \<Longrightarrow> four_digit_year (inter_updated_at i) \<Longrightarrow> dec_interaction x (enc_interaction x i) = Some i"
  by (simp add: dec_interaction_def enc_interaction_def field_defs serde)

lemma dec_enc_sync [serde]:
  "rfc3339_law x \<Longrightarrow> (\<And>t. sync_last_sync_at s = Some t \<Longrightarrow> four_digit_year t) \<Longrightarrow> dec_sync x (enc_sync x s) = Some s"
  by (simp add: dec_sync_def enc_sync_def field_defs serde)

lemma dec_enc_memory [serde]:
  "rfc3339_law x \<Longrightarrow> memory_storable m \<Longrightarrow> dec_memory x (enc_memory x m) = Some m"
  by (simp add: dec_memory_def enc_memory_def field_defs serde memory_storable_def)

lemma memory_plain: "mem_version m \<le> u8_max \<Longrightarrow> json_plain (Suc (Suc (Suc (Suc d)))) (enc_memory x m)"
  by (auto simp: enc_memory_def enc_profile_def enc_peer_summary_def enc_interaction_def enc_sync_def
      u8_max_def list_all_iff intro!: json_plain_jopt)

section \<open>config.rs\<close>

definition DEFAULT_BASE_URL :: string where
  "DEFAULT_BASE_URL = ''https://aichan-server-474569752665.us-central1.run.app''"

record aichan_config =
  cfg_base_url :: "string option"

definition config_load_or_default :: "local_state_dir \<Rightarrow> aichan_config json_file \<Rightarrow> aichan_error + aichan_config" where
  "config_load_or_default s f =
     (if \<not> file_exists f then Ok \<lparr>cfg_base_url = None\<rparr> else read_json (config_path s) f)"

definition effective_base_url :: "aichan_config \<Rightarrow> string option \<Rightarrow> string" where
  "effective_base_url c override_url =
     (case override_url of Some u \<Rightarrow> u
      | None \<Rightarrow> (case cfg_base_url c of Some u \<Rightarrow> u | None \<Rightarrow> DEFAULT_BASE_URL))"

definition enc_config :: "aichan_config \<Rightarrow> json" where
  "enc_config c = JObj [(''base_url'', jopt JStr (cfg_base_url c))]"

definition dec_config :: "json \<Rightarrow> aichan_config option" where
  "dec_config v = do {
     f \<leftarrow> struct_fields 1 [''base_url''] v;
     base_url \<leftarrow> opt_field f ''base_url'' dec_str;
     Some \<lparr>cfg_base_url = base_url\<rparr> }"

lemma dec_enc_config [serde]: "dec_config (enc_config c) = Some c"
  by (simp add: dec_config_def enc_config_def field_defs serde)

end
