(* ===== verification/Message_Crypto.thy ===== *)
theory Message_Crypto
  imports Files
begin

text \<open>
  \<^verbatim>\<open>crates/aichan-core/src/message_crypto.rs\<close>: X25519 message key pairs and the sealed private
  message. Randomness (\<^verbatim>\<open>OsRng\<close>) is an argument. The round trip says that what is sealed for a
  valid key pair opens again under the same associated data.
\<close>

definition MESSAGE_ENCRYPTION_SUITE :: string where
  "MESSAGE_ENCRYPTION_SUITE = ''aichan.x25519.chacha20poly1305.v1''"

record message_key_pair =
  kp_key_id :: string
  kp_public_key :: string
  kp_private_key :: string

record sealed_private_message =
  sm_suite :: string
  sm_recipient_key_id :: string
  sm_ephemeral_public_key :: string
  sm_nonce :: string
  sm_ciphertext :: string

text \<open>\<^verbatim>\<open>MessageKeyPair::generate\<close>; \<open>secret\<close> is what \<^verbatim>\<open>StaticSecret::random_from_rng\<close> drew.\<close>

definition generate_message_keys :: "crates \<Rightarrow> string \<Rightarrow> bytes \<Rightarrow> message_key_pair" where
  "generate_message_keys x key_id secret =
     \<lparr>kp_key_id = key_id, kp_public_key = b64_encode x (x_public x secret),
      kp_private_key = b64_encode x secret\<rparr>"

definition validate_key_pair :: "crates \<Rightarrow> message_key_pair \<Rightarrow> aichan_error + unit" where
  "validate_key_pair x kp =
     and_then (decode_base64url_array x 32 (kp_private_key kp) ''message_private_key'') (\<lambda>secret.
     and_then (decode_base64url_array x 32 (kp_public_key kp) ''message_public_key'') (\<lambda>public.
       if x_public x secret \<noteq> public
       then Err (InvalidIdentity ''message_private_key does not match message_public_key'')
       else if trim (kp_key_id kp) = []
       then Err (InvalidIdentity ''message_key_id must not be empty'')
       else Ok ()))"

definition key_pair_from_parts ::
  "crates \<Rightarrow> string \<Rightarrow> string \<Rightarrow> string \<Rightarrow> aichan_error + message_key_pair" where
  "key_pair_from_parts x key_id public_key private_key =
     (let key_pair = \<lparr>kp_key_id = key_id, kp_public_key = public_key, kp_private_key = private_key\<rparr>
      in and_then (validate_key_pair x key_pair) (\<lambda>_. Ok key_pair))"

definition derive_message_key :: "crates \<Rightarrow> bytes \<Rightarrow> bytes \<Rightarrow> aichan_error + bytes" where
  "derive_message_key x shared_secret aad =
     ok_or (InvalidProtocol ''message key derivation failed'')
       (hkdf_expand x ''aichan message encryption v1'' shared_secret aad 32)"

definition encrypt_private_message ::
  "crates \<Rightarrow> bytes \<Rightarrow> bytes \<Rightarrow> string \<Rightarrow> string \<Rightarrow> bytes \<Rightarrow> bytes \<Rightarrow> aichan_error + sealed_private_message"
  where
  "encrypt_private_message x ephemeral_private nonce recipient_public_key recipient_key_id plaintext aad =
     and_then (decode_base64url_array x 32 recipient_public_key ''recipient_public_key'') (\<lambda>recipient_public.
     (let ephemeral_public = x_public x ephemeral_private;
          shared_secret = x_shared x ephemeral_private recipient_public
      in and_then (derive_message_key x shared_secret aad) (\<lambda>key.
         and_then (ok_or (InvalidProtocol ''message encryption failed'')
                    (aead_seal x key nonce [] plaintext)) (\<lambda>ciphertext.
         Ok \<lparr>sm_suite = MESSAGE_ENCRYPTION_SUITE,
             sm_recipient_key_id = recipient_key_id,
             sm_ephemeral_public_key = b64_encode x ephemeral_public,
             sm_nonce = b64_encode x nonce,
             sm_ciphertext = b64_encode x ciphertext\<rparr>))))"

definition decrypt_private_message ::
  "crates \<Rightarrow> message_key_pair \<Rightarrow> sealed_private_message \<Rightarrow> bytes \<Rightarrow> aichan_error + bytes" where
  "decrypt_private_message x recipient_keys sealed aad =
     (if sm_suite sealed \<noteq> MESSAGE_ENCRYPTION_SUITE
      then Err (InvalidProtocol (''unsupported message encryption suite '' @ sm_suite sealed))
      else if sm_recipient_key_id sealed \<noteq> kp_key_id recipient_keys
      then Err (InvalidProtocol ''message recipient key id does not match local key'')
      else
        and_then (decode_base64url_array x 32 (kp_private_key recipient_keys) ''message_private_key'') (\<lambda>secret.
        and_then (decode_base64url_array x 32 (sm_ephemeral_public_key sealed) ''ephemeral_public_key'')
          (\<lambda>ephemeral_public.
        and_then (decode_base64url_array x 12 (sm_nonce sealed) ''message_nonce'') (\<lambda>nonce.
        and_then (map_err (\<lambda>source. InvalidProtocol (''invalid message ciphertext encoding: '' @ source))
                    (b64_decode x (sm_ciphertext sealed))) (\<lambda>ciphertext.
        (let shared_secret = x_shared x secret ephemeral_public
         in and_then (derive_message_key x shared_secret aad) (\<lambda>key.
            ok_or (InvalidProtocol ''message decryption failed'')
              (aead_open x key nonce [] ciphertext))))))))"

definition message_encryption_aad :: "string \<Rightarrow> string \<Rightarrow> string \<Rightarrow> string \<Rightarrow> bytes" where
  "message_encryption_aad message_id sender recipient created_at =
     ''aichan.message.v1'' @ CHR 0x0A # message_id @ CHR 0x0A # sender @ CHR 0x0A # recipient
       @ CHR 0x0A # created_at"

section \<open>Lemmas\<close>

lemma validate_key_pair_Ok [result_simps]:
  "validate_key_pair x kp = Ok u \<longleftrightarrow>
     (\<exists>secret. b64_decode x (kp_private_key kp) = Ok secret \<and> length secret = 32 \<and>
        length (x_public x secret) = 32 \<and>
        b64_decode x (kp_public_key kp) = Ok (x_public x secret)) \<and> trim (kp_key_id kp) \<noteq> []"
  by (auto simp: validate_key_pair_def result_simps)

lemma key_pair_from_parts_Ok [result_simps]:
  "key_pair_from_parts x i p s = Ok kp \<longleftrightarrow>
     kp = \<lparr>kp_key_id = i, kp_public_key = p, kp_private_key = s\<rparr> \<and> is_ok (validate_key_pair x kp)"
  by (cases "validate_key_pair x \<lparr>kp_key_id = i, kp_public_key = p, kp_private_key = s\<rparr>")
    (auto simp: key_pair_from_parts_def Let_def)

text \<open>A fresh key pair passes its own validation.\<close>

lemma generate_message_keys_valid:
  assumes "base64_law x" "x25519_law x" "length secret = 32" "trim key_id \<noteq> []"
  shows "validate_key_pair x (generate_message_keys x key_id secret) = Ok ()"
  using assms by (simp add: validate_key_pair_Ok generate_message_keys_def base64_roundtrip x25519_law_def)

lemma message_aad_inject:
  assumes "\<forall>s \<in> {i, s, r, i', s', r'}. CHR 0x0A \<notin> set s"
    and "message_encryption_aad i s r c = message_encryption_aad i' s' r' c'"
  shows "i = i' \<and> s = s' \<and> r = r' \<and> c = c'"
proof -
  have split: "split_once (CHR 0x0A) (a @ CHR 0x0A # b) = Some (a, b)" if "CHR 0x0A \<notin> set a" for a b
    using that by simp
  have "i @ CHR 0x0A # s @ CHR 0x0A # r @ CHR 0x0A # c
      = i' @ CHR 0x0A # s' @ CHR 0x0A # r' @ CHR 0x0A # c'"
    using assms(2) by (simp add: message_encryption_aad_def)
  with assms(1) show ?thesis
    by (metis insertI1 insertI2 option.inject prod.inject split)
qed

lemma sealed_message_opens:
  assumes laws: "base64_law x" "x25519_law x" "hkdf_law x" "aead_law x"
    and keys: "validate_key_pair x keys = Ok ()"
    and rnd: "length ephemeral = 32" "length nonce = 12"
  shows "\<exists>sealed.
     encrypt_private_message x ephemeral nonce (kp_public_key keys) (kp_key_id keys) plaintext aad = Ok sealed
     \<and> decrypt_private_message x keys sealed aad = Ok plaintext"
proof -
  obtain secret where p: "b64_decode x (kp_private_key keys) = Ok secret" "length secret = 32"
      "length (x_public x secret) = 32" "b64_decode x (kp_public_key keys) = Ok (x_public x secret)"
    using keys by (auto simp: validate_key_pair_Ok)
  let ?secret = "x_shared x ephemeral (x_public x secret)"
  have same: "x_shared x secret (x_public x ephemeral) = ?secret"
      and eph: "length (x_public x ephemeral) = 32"
    using laws(2) p(2) rnd(1) by (auto simp: x25519_law_def)
  obtain key where key: "hkdf_expand x ''aichan message encryption v1'' ?secret aad 32 = Some key"
    using hkdf_expand_ok [OF laws(3), of 32] by force
  obtain ct where ct: "aead_seal x key nonce [] plaintext = Some ct" "aead_open x key nonce [] ct = Some plaintext"
    using laws(4) unfolding aead_law_def by blast
  show ?thesis
    using p rnd same eph key ct laws(1)
    by (simp add: encrypt_private_message_def decrypt_private_message_def derive_message_key_def
        decode_array_def Let_def base64_roundtrip)
qed

lemma sealed_message_opened:
  assumes "base64_law x" "x25519_law x" "hkdf_law x" "aead_law x" "validate_key_pair x keys = Ok ()"
    and "length ephemeral = 32" "length nonce = 12"
    and "encrypt_private_message x ephemeral nonce (kp_public_key keys) (kp_key_id keys) plaintext aad = Ok sealed"
  shows "decrypt_private_message x keys sealed aad = Ok plaintext"
  using sealed_message_opens [OF assms(1-7), of plaintext aad] assms(8) by auto

text \<open>
  Sealing and opening a private message: a message sealed for the public key and key id of
  a valid key pair is opened by that key pair, under the same associated data, to the same bytes.
\<close>

theorem private_message_roundtrip:
  assumes laws: "base64_law x" "x25519_law x" "hkdf_law x" "aead_law x"
    and keys: "validate_key_pair x keys = Ok ()"
    and rnd: "length ephemeral = 32" "length nonce = 12"
  shows "\<exists>sealed.
     encrypt_private_message x ephemeral nonce (kp_public_key keys) (kp_key_id keys) plaintext aad = Ok sealed
     \<and> decrypt_private_message x keys sealed aad = Ok plaintext"
  by (rule sealed_message_opens [OF assms])

theorem private_message_roundtrip_witness:
  "\<exists>sealed.
     encrypt_private_message toy (replicate 32 CHR ''e'') (replicate 12 CHR ''n'') (hex_text (replicate 32 CHR ''k''))
       ''key_1'' ''hello'' (message_encryption_aad ''msg_1'' ''peer_a'' ''peer_b'' ''t'') = Ok sealed
     \<and> decrypt_private_message toy (generate_message_keys toy ''key_1'' (replicate 32 CHR ''k'')) sealed
         (message_encryption_aad ''msg_1'' ''peer_a'' ''peer_b'' ''t'') = Ok ''hello''"
proof -
  let ?keys = "generate_message_keys toy ''key_1'' (replicate 32 CHR ''k'')"
  have "trim ''key_1'' = ''key_1''" by (rule trim_graphic) (simp add: in_range_def)
  then have "validate_key_pair toy ?keys = Ok ()"
    by (intro generate_message_keys_valid) (simp_all add: toy_laws)
  then show ?thesis
    using private_message_roundtrip [OF toy_laws(1) toy_laws(5) toy_laws(3) toy_laws(6),
        of ?keys "replicate 32 CHR ''e''" "replicate 12 CHR ''n''"]
    by (simp add: generate_message_keys_def)
qed

end
