(* ===== verification/Identity.thy ===== *)
theory Identity
  imports Local_State Message_Crypto
begin

text \<open>
  \<^verbatim>\<open>crates/aichan-core/src/identity.rs\<close>: peer ids, the identity file with its Ed25519 and X25519
  keys, its validation, and \<^verbatim>\<open>create_or_load\<close>. The keys drawn from \<^verbatim>\<open>OsRng\<close>, the fresh UUID and the
  clock are the fields of \<open>entropy\<close>.
\<close>

section \<open>PeerId\<close>

datatype peer_id = PeerId string

fun peer_str :: "peer_id \<Rightarrow> string" where
  "peer_str (PeerId s) = s"

lemma peer_str_inject [simp]: "peer_str p = peer_str q \<longleftrightarrow> p = q"
  by (cases p; cases q) simp

definition peer_id_parse :: "string \<Rightarrow> aichan_error + peer_id" where
  "peer_id_parse value =
     (if \<not> starts_with value ''peer_'' then Err (InvalidIdentity ''peer_id must start with peer_'')
      else Ok (PeerId value))"

definition derive_peer_id :: "crates \<Rightarrow> bytes \<Rightarrow> peer_id" where
  "derive_peer_id x public_key = PeerId (''peer_'' @ b64_encode x (take 18 (blake3 x public_key)))"

lemma derive_peer_id_prefix [simp]: "starts_with (peer_str (derive_peer_id x pk)) ''peer_''"
  unfolding derive_peer_id_def peer_str.simps by (rule starts_with_append)

section \<open>IdentityFile\<close>

record identity_file =
  idf_version :: nat
  idf_peer_id :: peer_id
  idf_public_key :: string
  idf_private_key :: string
  idf_private_key_encrypted :: bool
  idf_message_key_id :: "string option"
  idf_message_public_key :: "string option"
  idf_message_private_key :: "string option"
  idf_created_at :: datetime

record entropy =
  ent_signing_key :: bytes
  ent_message_key :: bytes
  ent_uuid :: string
  ent_now :: datetime

text \<open>The \<^verbatim>\<open>match\<close> on the three message key fields at the end of \<^verbatim>\<open>validate\<close>.\<close>

definition validate_message_fields :: "crates \<Rightarrow> identity_file \<Rightarrow> aichan_error + unit" where
  "validate_message_fields x i =
     (case (idf_message_key_id i, idf_message_public_key i, idf_message_private_key i) of
        (None, None, None) \<Rightarrow> Ok ()
      | (Some key_id, Some public_key, Some private_key) \<Rightarrow>
          map_ok (\<lambda>_. ()) (key_pair_from_parts x key_id public_key private_key)
      | _ \<Rightarrow> Err (InvalidIdentity ''message key fields must be all present or all absent''))"

definition validate_identity :: "crates \<Rightarrow> identity_file \<Rightarrow> aichan_error + unit" where
  "validate_identity x i =
     (if idf_version i \<noteq> 1
      then Err (InvalidIdentity (''unsupported version '' @ show_nat (idf_version i)))
      else if \<not> starts_with (peer_str (idf_peer_id i)) ''peer_''
      then Err (InvalidIdentity ''peer_id must start with peer_'')
      else
        and_then (decode_key x 32 (idf_public_key i) ''public_key'') (\<lambda>public_key.
        and_then (decode_key x 32 (idf_private_key i) ''private_key'') (\<lambda>signing_key.
        and_then (map_err (\<lambda>source. InvalidIdentity (''invalid public_key: '' @ source))
                    (ed_point x public_key)) (\<lambda>_.
          if idf_peer_id i \<noteq> derive_peer_id x public_key
          then Err (InvalidIdentity ''peer_id does not match public_key'')
          else if \<not> idf_private_key_encrypted i \<and> ed_public x signing_key \<noteq> public_key
          then Err (InvalidIdentity ''private_key does not match public_key'')
          else validate_message_fields x i))))"

definition identity_signing_key :: "crates \<Rightarrow> identity_file \<Rightarrow> aichan_error + bytes" where
  "identity_signing_key x i =
     (if idf_private_key_encrypted i
      then Err (InvalidIdentity ''encrypted private keys are not supported by this CLI yet'')
      else
        and_then (decode_key x 32 (idf_private_key i) ''private_key'') (\<lambda>signing_key.
        and_then (decode_key x 32 (idf_public_key i) ''public_key'') (\<lambda>public_key.
          if ed_public x signing_key \<noteq> public_key
          then Err (InvalidIdentity ''private_key does not match public_key'')
          else Ok signing_key)))"

definition identity_message_key_pair :: "crates \<Rightarrow> identity_file \<Rightarrow> aichan_error + message_key_pair" where
  "identity_message_key_pair x i =
     and_then (ok_or (InvalidIdentity ''missing message_key_id'') (idf_message_key_id i)) (\<lambda>key_id.
     and_then (ok_or (InvalidIdentity ''missing message_public_key'') (idf_message_public_key i)) (\<lambda>public_key.
     and_then (ok_or (InvalidIdentity ''missing message_private_key'') (idf_message_private_key i)) (\<lambda>private_key.
       key_pair_from_parts x key_id public_key private_key)))"

definition set_message_keys :: "message_key_pair \<Rightarrow> identity_file \<Rightarrow> identity_file" where
  "set_message_keys kp i =
     i\<lparr>idf_message_key_id := Some (kp_key_id kp), idf_message_public_key := Some (kp_public_key kp),
       idf_message_private_key := Some (kp_private_key kp)\<rparr>"

text \<open>\<^verbatim>\<open>ensure_message_key_pair\<close>: whether it changed the identity, and the identity.\<close>

definition ensure_message_key_pair :: "crates \<Rightarrow> entropy \<Rightarrow> identity_file \<Rightarrow> bool \<times> identity_file" where
  "ensure_message_key_pair x ent i =
     (if is_ok (identity_message_key_pair x i) then (False, i)
      else (True, set_message_keys
              (generate_message_keys x (''key_'' @ ent_uuid ent) (ent_message_key ent)) i))"

definition read_identity :: "crates \<Rightarrow> string \<Rightarrow> identity_file json_file \<Rightarrow> aichan_error + identity_file" where
  "read_identity x path f =
     and_then (read_json path f) (\<lambda>identity. and_then (validate_identity x identity) (\<lambda>_. Ok identity))"

definition new_identity :: "crates \<Rightarrow> entropy \<Rightarrow> identity_file" where
  "new_identity x ent =
     (let public_bytes = ed_public x (ent_signing_key ent);
          message_keys = generate_message_keys x (''key_'' @ ent_uuid ent) (ent_message_key ent)
      in \<lparr>idf_version = 1,
          idf_peer_id = derive_peer_id x public_bytes,
          idf_public_key = b64_encode x public_bytes,
          idf_private_key = b64_encode x (ent_signing_key ent),
          idf_private_key_encrypted = False,
          idf_message_key_id = Some (kp_key_id message_keys),
          idf_message_public_key = Some (kp_public_key message_keys),
          idf_message_private_key = Some (kp_private_key message_keys),
          idf_created_at = ent_now ent\<rparr>)"

text \<open>
  \<^verbatim>\<open>write_new_identity_file\<close> opens with \<^verbatim>\<open>create_new\<close>: if another process has made the file in the
  meantime (\<open>raced\<close>, the file it left), the open fails with \<^verbatim>\<open>AlreadyExists\<close>.
\<close>

definition write_new_identity ::
  "string \<Rightarrow> write_outcome \<Rightarrow> identity_file \<Rightarrow> identity_file json_file \<Rightarrow>
   (aichan_error + unit) \<times> identity_file json_file" where
  "write_new_identity path w i f =
     (if file_exists f then (Err (Io path AlreadyExists ''File exists (os error 17)''), f)
      else write_json path w i f)"

definition identity_create_or_load ::
  "crates \<Rightarrow> local_state_dir \<Rightarrow> dir_outcome \<Rightarrow> write_outcome \<Rightarrow> entropy \<Rightarrow>
   identity_file json_file \<Rightarrow> identity_file json_file \<Rightarrow>
   (aichan_error + identity_file) \<times> identity_file json_file" where
  "identity_create_or_load x s mk w ent raced f =
     (let path = identity_path s in
      if file_exists f then
        (case read_identity x path f of
           Inl e \<Rightarrow> (Err e, f)
         | Inr identity \<Rightarrow>
           (case ensure_message_key_pair x ent identity of
              (False, i) \<Rightarrow> (Ok i, f)
            | (True, i) \<Rightarrow> (let (r, f') = write_json path w i f in (map_ok (\<lambda>_. i) r, f'))))
      else
        (case ensure_dirs s mk of
           Inl e \<Rightarrow> (Err e, f)
         | Inr _ \<Rightarrow>
           (let identity = new_identity x ent in
            case write_new_identity path w identity raced of
              (Inr _, f') \<Rightarrow> (Ok identity, f')
            | (Inl (Io p AlreadyExists m), f') \<Rightarrow> (read_identity x path f', f')
            | (Inl e, f') \<Rightarrow> (Err e, f'))))"

definition identity_write_replace_to ::
  "crates \<Rightarrow> string \<Rightarrow> write_outcome \<Rightarrow> identity_file \<Rightarrow> identity_file json_file \<Rightarrow>
   (aichan_error + unit) \<times> identity_file json_file" where
  "identity_write_replace_to x path w i f =
     (case validate_identity x i of Inl e \<Rightarrow> (Err e, f) | Inr _ \<Rightarrow> write_json path w i f)"

subsection \<open>The JSON form\<close>

definition enc_peer_id :: "peer_id \<Rightarrow> json" where
  "enc_peer_id p = JStr (peer_str p)"

definition dec_peer_id :: "json \<Rightarrow> peer_id option" where
  "dec_peer_id v = map_option PeerId (dec_str v)"

definition enc_identity :: "crates \<Rightarrow> identity_file \<Rightarrow> json" where
  "enc_identity x i = JObj ([
     (''version'', jnat (idf_version i)),
     (''peer_id'', enc_peer_id (idf_peer_id i)),
     (''public_key'', JStr (idf_public_key i)),
     (''private_key'', JStr (idf_private_key i)),
     (''private_key_encrypted'', JBool (idf_private_key_encrypted i))]
     @ skip_none ''message_key_id'' JStr (idf_message_key_id i)
     @ skip_none ''message_public_key'' JStr (idf_message_public_key i)
     @ skip_none ''message_private_key'' JStr (idf_message_private_key i)
     @ [(''created_at'', enc_time x (idf_created_at i))])"

definition dec_identity :: "crates \<Rightarrow> json \<Rightarrow> identity_file option" where
  "dec_identity x v = do {
     f \<leftarrow> struct_fields 9 [''version'', ''peer_id'', ''public_key'', ''private_key'',
            ''private_key_encrypted'', ''message_key_id'', ''message_public_key'',
            ''message_private_key'', ''created_at''] v;
     version \<leftarrow> req f ''version'' (dec_uint u8_max);
     peer_id \<leftarrow> req f ''peer_id'' dec_peer_id;
     public_key \<leftarrow> req f ''public_key'' dec_str;
     private_key \<leftarrow> req f ''private_key'' dec_str;
     private_key_encrypted \<leftarrow> req f ''private_key_encrypted'' dec_bool;
     message_key_id \<leftarrow> opt_field f ''message_key_id'' dec_str;
     message_public_key \<leftarrow> opt_field f ''message_public_key'' dec_str;
     message_private_key \<leftarrow> opt_field f ''message_private_key'' dec_str;
     created_at \<leftarrow> req f ''created_at'' (dec_time x);
     Some \<lparr>idf_version = version, idf_peer_id = peer_id, idf_public_key = public_key,
           idf_private_key = private_key, idf_private_key_encrypted = private_key_encrypted,
           idf_message_key_id = message_key_id, idf_message_public_key = message_public_key,
           idf_message_private_key = message_private_key, idf_created_at = created_at\<rparr> }"

lemma dec_enc_peer_id [serde]: "dec_peer_id (enc_peer_id p) = Some p"
  by (cases p) (simp add: dec_peer_id_def enc_peer_id_def serde)

lemma value_of_enc_peer_id [simp]: "value_of (enc_peer_id p) = enc_peer_id p"
  by (simp add: enc_peer_id_def)

lemma enc_peer_id_not_null [simp]: "enc_peer_id p \<noteq> JNull"
  by (simp add: enc_peer_id_def)

lemma dec_enc_identity [serde]:
  assumes "rfc3339_law x" "idf_version i \<le> u8_max" "four_digit_year (idf_created_at i)"
  shows "dec_identity x (enc_identity x i) = Some i"
proof -
  obtain m where m: "enc_identity x i = JObj m" and d: "distinct (map fst m)"
    by (cases "idf_message_key_id i"; cases "idf_message_public_key i"; cases "idf_message_private_key i")
      (auto simp: enc_identity_def skip_none_def)
  show ?thesis
    using assms d m [symmetric]
    by (cases "idf_message_key_id i"; cases "idf_message_public_key i"; cases "idf_message_private_key i")
      (auto simp: dec_identity_def enc_identity_def skip_none_def field_defs serde dec_opt_def)
qed

lemma identity_plain: "idf_version i \<le> u8_max \<Longrightarrow> json_plain (Suc d) (enc_identity x i)"
  by (auto simp: enc_identity_def enc_peer_id_def skip_none_def u8_max_def split: option.splits)

section \<open>Lemmas\<close>

text \<open>Exactly when a file is a valid identity.\<close>

definition message_keys_ok :: "crates \<Rightarrow> identity_file \<Rightarrow> bool" where
  "message_keys_ok x i \<longleftrightarrow> is_ok (identity_message_key_pair x i)"

lemma identity_message_key_pair_Ok [result_simps]:
  "identity_message_key_pair x i = Ok kp \<longleftrightarrow>
     idf_message_key_id i = Some (kp_key_id kp) \<and> idf_message_public_key i = Some (kp_public_key kp) \<and>
     idf_message_private_key i = Some (kp_private_key kp) \<and> validate_key_pair x kp = Ok ()"
  by (cases kp) (auto simp: identity_message_key_pair_def result_simps key_pair_from_parts_def Let_def)

lemma validate_identity_Ok:
  "validate_identity x i = Ok () \<longleftrightarrow>
     idf_version i = 1 \<and>
     (\<exists>public_key signing_key.
        b64_decode x (idf_public_key i) = Ok public_key \<and> length public_key = 32 \<and>
        b64_decode x (idf_private_key i) = Ok signing_key \<and> length signing_key = 32 \<and>
        ed_point x public_key = Ok () \<and> idf_peer_id i = derive_peer_id x public_key \<and>
        (idf_private_key_encrypted i \<or> ed_public x signing_key = public_key)) \<and>
     (idf_message_key_id i = None \<and> idf_message_public_key i = None \<and> idf_message_private_key i = None
      \<or> message_keys_ok x i)"
proof -
  have keys: "validate_message_fields x i = Ok ()
     \<longleftrightarrow> idf_message_key_id i = None \<and> idf_message_public_key i = None \<and> idf_message_private_key i = None
      \<or> message_keys_ok x i"
    unfolding message_keys_ok_def identity_message_key_pair_def validate_message_fields_def
    by (auto simp: is_ok_def map_ok_def split: option.splits sum.splits)
  show ?thesis
    unfolding validate_identity_def
    by (simp add: result_simps keys conj_ac) auto
qed

lemma identity_signing_key_Ok [result_simps]:
  "identity_signing_key x i = Ok sk \<longleftrightarrow>
     \<not> idf_private_key_encrypted i \<and> b64_decode x (idf_private_key i) = Ok sk \<and> length sk = 32 \<and>
     length (ed_public x sk) = 32 \<and> b64_decode x (idf_public_key i) = Ok (ed_public x sk)"
  by (auto simp: identity_signing_key_def result_simps)

lemma valid_identity_signs:
  assumes "validate_identity x i = Ok ()" and "\<not> idf_private_key_encrypted i"
  shows "\<exists>sk. identity_signing_key x i = Ok sk \<and> idf_peer_id i = derive_peer_id x (ed_public x sk)"
  using assms by (auto simp: validate_identity_Ok identity_signing_key_Ok)

definition entropy_ok :: "entropy \<Rightarrow> bool" where
  "entropy_ok ent \<longleftrightarrow> length (ent_signing_key ent) = 32 \<and> length (ent_message_key ent) = 32 \<and>
     list_all is_ascii_hexdigit (ent_uuid ent) \<and> four_digit_year (ent_now ent)"

lemma generated_keys_valid:
  assumes "base64_law x" "x25519_law x" "entropy_ok ent"
  shows "validate_key_pair x
     (generate_message_keys x (''key_'' @ ent_uuid ent) (ent_message_key ent)) = Ok ()"
proof -
  have "list_all (in_range 33 126) (''key_'' @ ent_uuid ent)"
    using assms(3) by (auto simp: entropy_ok_def list_all_iff is_ascii_hexdigit_def is_digit_def in_range_def)
  then have "trim (''key_'' @ ent_uuid ent) = ''key_'' @ ent_uuid ent"
    by (rule trim_graphic)
  then show ?thesis
    using assms by (intro generate_message_keys_valid) (simp_all add: entropy_ok_def)
qed

lemma set_message_keys_ok:
  "validate_key_pair x kp = Ok () \<Longrightarrow> message_keys_ok x (set_message_keys kp i)"
proof -
  assume "validate_key_pair x kp = Ok ()"
  then have "identity_message_key_pair x (set_message_keys kp i) = Ok kp"
    by (simp add: identity_message_key_pair_Ok set_message_keys_def)
  then show ?thesis by (simp add: message_keys_ok_def)
qed

lemma new_identity_message_keys:
  "new_identity x ent =
     set_message_keys (generate_message_keys x (''key_'' @ ent_uuid ent) (ent_message_key ent))
       (new_identity x ent)"
  by (simp add: new_identity_def set_message_keys_def Let_def)

lemma new_identity_valid:
  assumes laws: "base64_law x" "x25519_law x" "ed25519_law x" and ent: "entropy_ok ent"
  shows "validate_identity x (new_identity x ent) = Ok () \<and> message_keys_ok x (new_identity x ent)"
proof -
  have keys: "message_keys_ok x (new_identity x ent)"
    using set_message_keys_ok [OF generated_keys_valid [OF laws(1,2) ent]] new_identity_message_keys
    by metis
  have "length (ent_signing_key ent) = 32" using ent by (simp add: entropy_ok_def)
  then have "length (ed_public x (ent_signing_key ent)) = 32"
      "ed_point x (ed_public x (ent_signing_key ent)) = Ok ()"
    using laws(3) by (auto simp: ed25519_law_def)
  then show ?thesis
    using keys ent laws(1)
    by (simp add: validate_identity_Ok entropy_ok_def) (simp add: new_identity_def Let_def base64_roundtrip)
qed

lemma validate_message_keys:
  assumes "validate_identity x i = Ok ()" "message_keys_ok x j"
    and "j = set_message_keys kp i"
  shows "validate_identity x j = Ok ()"
  using assms by (auto simp: validate_identity_Ok set_message_keys_def)

end
