(* ===== verification/Limits.thy ===== *)
theory Limits
  imports Http Identity
begin

text \<open>
  The three guards of the server (\<^verbatim>\<open>crates/aichan-server/src/lib.rs\<close>): \<^verbatim>\<open>ConnectionLimiter\<close> with its
  guards, \<^verbatim>\<open>RateLimiter\<close> with its classes and buckets, and \<^verbatim>\<open>RequestAuthTracker\<close>, the memory of
  request nonces. Each is a state that the operations below take and return, as the mutex makes them
  atomic. The lemmas bound what the guards let through.
\<close>

section \<open>ConnectionLimiter\<close>

record connection_limiter =
  max_connections :: nat
  active_connections :: nat

definition DEFAULT_MAX_CONNECTIONS :: nat where "DEFAULT_MAX_CONNECTIONS = 64"

definition connection_limiter_new :: "nat \<Rightarrow> connection_limiter" where
  "connection_limiter_new m = \<lparr>max_connections = max m 1, active_connections = 0\<rparr>"

text \<open>\<^verbatim>\<open>try_acquire\<close>: whether a guard is handed out.\<close>

definition try_acquire :: "connection_limiter \<Rightarrow> bool \<times> connection_limiter" where
  "try_acquire l =
     (if active_connections l \<ge> max_connections l then (False, l)
      else (True, l\<lparr>active_connections := active_connections l + 1\<rparr>))"

text \<open>\<^verbatim>\<open>Drop for ConnectionGuard\<close>, with \<^verbatim>\<open>saturating_sub\<close>.\<close>

definition drop_guard :: "connection_limiter \<Rightarrow> connection_limiter" where
  "drop_guard l = l\<lparr>active_connections := active_connections l - 1\<rparr>"

text \<open>
  The accept loop of \<^verbatim>\<open>run\<close> and its threads: a connection arrives and is served, or is turned away
  with status 503; a thread ends, in whatever way, and its guard is dropped. \<open>live\<close> counts the
  guards that exist.
\<close>

inductive serve_step :: "connection_limiter \<times> nat \<Rightarrow> connection_limiter \<times> nat \<Rightarrow> bool" where
  accepted: "try_acquire l = (True, l') \<Longrightarrow> serve_step (l, live) (l', Suc live)"
| turned_away: "try_acquire l = (False, l') \<Longrightarrow> serve_step (l, live) (l', live)"
| finished: "serve_step (l, Suc live) (drop_guard l, live)"

inductive_cases serve_stepE: "serve_step s t"

inductive serving :: "nat \<Rightarrow> connection_limiter \<times> nat \<Rightarrow> bool" for m where
  start: "serving m (connection_limiter_new m, 0)"
| step: "serving m s \<Longrightarrow> serve_step s t \<Longrightarrow> serving m t"

lemma serving_invariant:
  "serving m (l, live) \<Longrightarrow>
   max_connections l = max m 1 \<and> active_connections l = live \<and> live \<le> max m 1"
proof (induction "(l, live)" arbitrary: l live rule: serving.induct)
  case start
  then show ?case by (auto simp: connection_limiter_new_def)
next
  case (step s)
  then show ?case
    by (cases s) (auto elim!: serve_stepE simp: try_acquire_def drop_guard_def split: if_splits)
qed

text \<open>
  The connection limiter counts exactly: in every reachable state the counter is the number of
  guards alive, which never exceeds the configured maximum (at least one), the decrement never
  saturates, and a new connection is turned away exactly when the maximum is reached.
\<close>

theorem connection_limiter_exact:
  assumes "serving m (l, live)"
  shows "active_connections l = live \<and> live \<le> max m 1 \<and>
    (fst (try_acquire l) \<longleftrightarrow> live < max m 1) \<and>
    (0 < live \<longrightarrow> active_connections (drop_guard l) = live - 1)"
  using serving_invariant [OF assms] by (auto simp: try_acquire_def drop_guard_def)

theorem connection_limiter_exact_witness:
  "\<exists>l. serving 1 (l, 1) \<and> active_connections l = 1 \<and> \<not> fst (try_acquire l)"
proof -
  have "serving 1 (connection_limiter_new 1, 0)" by (rule start)
  moreover have "serve_step (connection_limiter_new 1, 0)
      (snd (try_acquire (connection_limiter_new 1)), Suc 0)"
    by (rule accepted) (simp add: try_acquire_def connection_limiter_new_def)
  ultimately have "serving 1 (snd (try_acquire (connection_limiter_new 1)), Suc 0)"
    by (rule step)
  with connection_limiter_exact [OF this] show ?thesis by auto
qed

section \<open>Rate limiting\<close>

datatype rate_class = ReadClass | WriteClass

record rate_config =
  read_per_minute :: nat
  write_per_minute :: nat
  max_body_bytes :: nat

definition default_rate_config :: rate_config where
  "default_rate_config = \<lparr>read_per_minute = 120, write_per_minute = 20, max_body_bytes = 65536\<rparr>"

text \<open>\<^verbatim>\<open>env_non_empty\<close>, \<^verbatim>\<open>env_u32\<close> and \<^verbatim>\<open>env_usize\<close>; \<open>env\<close> is the process environment.\<close>

definition env_non_empty :: "(string \<Rightarrow> string option) \<Rightarrow> string \<Rightarrow> string option" where
  "env_non_empty env name =
     (case env name of None \<Rightarrow> None | Some value \<Rightarrow> if value \<noteq> [] then Some value else None)"

definition env_uint :: "nat \<Rightarrow> (string \<Rightarrow> string option) \<Rightarrow> string \<Rightarrow> nat option" where
  "env_uint m env name = (case env_non_empty env name of None \<Rightarrow> None | Some value \<Rightarrow> parse_uint m value)"

definition rate_config_from_env :: "(string \<Rightarrow> string option) \<Rightarrow> rate_config" where
  "rate_config_from_env env =
     (let get = (\<lambda>v d. case v of None \<Rightarrow> d | Some n \<Rightarrow> n) in
      \<lparr>read_per_minute = max (get (env_uint u32_max env ''AICHAN_READ_RATE_PER_MINUTE'')
                               (read_per_minute default_rate_config)) 1,
       write_per_minute = max (get (env_uint u32_max env ''AICHAN_WRITE_RATE_PER_MINUTE'')
                               (write_per_minute default_rate_config)) 1,
       max_body_bytes = max (get (env_uint usize_max env ''AICHAN_MAX_BODY_BYTES'')
                               (max_body_bytes default_rate_config)) 1024\<rparr>)"

definition rate_class_for_request :: "http_request \<Rightarrow> rate_class option" where
  "rate_class_for_request r =
     (if path r = ''/health'' then None
      else if rq_method r = ''GET'' then Some ReadClass
      else if rq_method r \<in> {''POST'', ''PUT'', ''PATCH'', ''DELETE''} then Some WriteClass
      else Some ReadClass)"

definition class_limit :: "rate_class \<Rightarrow> rate_config \<Rightarrow> nat" where
  "class_limit c config = (case c of ReadClass \<Rightarrow> read_per_minute config | WriteClass \<Rightarrow> write_per_minute config)"

datatype rate_key = RateKey (key_client: string) (key_class: rate_class)

text \<open>The derived \<^verbatim>\<open>Ord\<close>: by client, then \<^verbatim>\<open>Read\<close> before \<^verbatim>\<open>Write\<close>.  The comparisons
  are definitions of their own, and the instances make them the order of the types.\<close>

definition rate_class_le :: "rate_class \<Rightarrow> rate_class \<Rightarrow> bool" where
  "rate_class_le a b \<longleftrightarrow> a = ReadClass \<or> b = WriteClass"

definition rate_class_lt :: "rate_class \<Rightarrow> rate_class \<Rightarrow> bool" where
  "rate_class_lt a b \<longleftrightarrow> a = ReadClass \<and> b = WriteClass"

instantiation rate_class :: linorder
begin
definition less_eq_rate_class :: "rate_class \<Rightarrow> rate_class \<Rightarrow> bool" where "less_eq_rate_class = rate_class_le"
definition less_rate_class :: "rate_class \<Rightarrow> rate_class \<Rightarrow> bool" where "less_rate_class = rate_class_lt"
instance
proof
  fix a b c :: rate_class
  show "(a < b) = (a \<le> b \<and> \<not> b \<le> a)" "a \<le> a" "a \<le> b \<or> b \<le> a"
    "a \<le> b \<Longrightarrow> b \<le> c \<Longrightarrow> a \<le> c" "a \<le> b \<Longrightarrow> b \<le> a \<Longrightarrow> a = b"
    by (cases a; cases b; cases c; simp add: less_eq_rate_class_def less_rate_class_def rate_class_le_def rate_class_lt_def)+
qed
end

definition rate_key_le :: "rate_key \<Rightarrow> rate_key \<Rightarrow> bool" where
  "rate_key_le a b \<longleftrightarrow>
     key_client a < key_client b \<or> key_client a = key_client b \<and> key_class a \<le> key_class b"

definition rate_key_lt :: "rate_key \<Rightarrow> rate_key \<Rightarrow> bool" where
  "rate_key_lt a b \<longleftrightarrow>
     key_client a < key_client b \<or> key_client a = key_client b \<and> key_class a < key_class b"

instantiation rate_key :: linorder
begin
definition less_eq_rate_key :: "rate_key \<Rightarrow> rate_key \<Rightarrow> bool" where "less_eq_rate_key = rate_key_le"
definition less_rate_key :: "rate_key \<Rightarrow> rate_key \<Rightarrow> bool" where "less_rate_key = rate_key_lt"
instance
  by standard
    (auto simp: less_eq_rate_key_def less_rate_key_def rate_key_le_def rate_key_lt_def rate_key.expand)
end

record rate_bucket =
  window_start :: nat
  bucket_count :: nat

record rate_limit_exceeded =
  exceeded_key :: rate_key
  retry_after_seconds :: nat

type_synonym rate_buckets = "(rate_key, rate_bucket) btree"

definition RATE_LIMIT_WINDOW :: nat where "RATE_LIMIT_WINDOW = 60 * 1000000000"

text \<open>
  The part of \<^verbatim>\<open>check\<close> that works on one bucket. An \<^verbatim>\<open>Instant\<close> is a number of nanoseconds;
  \<^verbatim>\<open>duration_since\<close> is zero when the bucket's window started later, which can happen as the clock is
  read before the lock is taken.
\<close>

definition bucket_check :: "nat \<Rightarrow> nat \<Rightarrow> rate_bucket \<Rightarrow> nat option \<times> rate_bucket" where
  "bucket_check now limit b0 =
     (let b = (if now - window_start b0 \<ge> RATE_LIMIT_WINDOW then \<lparr>window_start = now, bucket_count = 0\<rparr> else b0)
      in if bucket_count b \<ge> limit
         then (Some (max ((RATE_LIMIT_WINDOW - (now - window_start b)) div 1000000000) 1), b)
         else (None, b\<lparr>bucket_count := bucket_count b + 1\<rparr>))"

definition rate_check ::
  "nat \<Rightarrow> rate_key \<Rightarrow> nat \<Rightarrow> rate_buckets \<Rightarrow> rate_limit_exceeded option \<times> rate_buckets" where
  "rate_check now key limit buckets =
     (let bucket = (case bt_get buckets key of
            Some b \<Rightarrow> b | None \<Rightarrow> \<lparr>window_start = now, bucket_count = 0\<rparr>);
          (exceeded, bucket') = bucket_check now limit bucket
      in (map_option (\<lambda>retry_after. \<lparr>exceeded_key = key, retry_after_seconds = retry_after\<rparr>) exceeded,
          bt_insert key bucket' buckets))"

definition check_rate_limit ::
  "rate_config \<Rightarrow> nat \<Rightarrow> http_request \<Rightarrow> rate_buckets \<Rightarrow> rate_limit_exceeded option \<times> rate_buckets" where
  "check_rate_limit config now r buckets =
     (case rate_class_for_request r of
        None \<Rightarrow> (None, buckets)
      | Some class \<Rightarrow> rate_check now (RateKey (client_key r) class) (class_limit class config) buckets)"

text \<open>A sequence of checks, each with its clock reading and its key, and how many of one key pass.\<close>

fun rate_run :: "(rate_key \<Rightarrow> nat) \<Rightarrow> (nat \<times> rate_key) list \<Rightarrow> rate_buckets \<Rightarrow> bool list \<times> rate_buckets" where
  "rate_run limit [] buckets = ([], buckets)"
| "rate_run limit ((now, key) # es) buckets =
     (let (exceeded, buckets') = rate_check now key (limit key) buckets;
          (rest, buckets'') = rate_run limit es buckets'
      in ((exceeded = None) # rest, buckets''))"

fun passed :: "rate_key \<Rightarrow> (nat \<times> rate_key) list \<Rightarrow> bool list \<Rightarrow> nat" where
  "passed key ((now, k) # es) (ok # oks) = (if k = key \<and> ok then 1 else 0) + passed key es oks"
| "passed key _ _ = 0"

text \<open>The same on the one bucket that the key has.\<close>

fun bucket_run :: "nat \<Rightarrow> nat list \<Rightarrow> rate_bucket \<Rightarrow> nat" where
  "bucket_run limit [] b = 0"
| "bucket_run limit (now # ts) b =
     (let (exceeded, b') = bucket_check now limit b
      in (if exceeded = None then 1 else 0) + bucket_run limit ts b')"

definition bucket_of :: "rate_buckets \<Rightarrow> rate_key \<Rightarrow> nat \<Rightarrow> rate_bucket" where
  "bucket_of buckets key now =
     (case bt_get buckets key of Some b \<Rightarrow> b | None \<Rightarrow> \<lparr>window_start = now, bucket_count = 0\<rparr>)"

definition key_times :: "rate_key \<Rightarrow> (nat \<times> rate_key) list \<Rightarrow> nat list" where
  "key_times key es = map fst (filter (\<lambda>(now, k). k = key) es)"

lemma window_pos: "0 < RATE_LIMIT_WINDOW"
  by (simp add: RATE_LIMIT_WINDOW_def)

lemma rate_check_bucket:
  "rate_check now key limit buckets =
     (map_option (\<lambda>retry_after. \<lparr>exceeded_key = key, retry_after_seconds = retry_after\<rparr>)
        (fst (bucket_check now limit (bucket_of buckets key now))),
      bt_insert key (snd (bucket_check now limit (bucket_of buckets key now))) buckets)"
  by (simp add: rate_check_def bucket_of_def Let_def split: prod.split)

lemma rate_run_bucket:
  "passed key es (fst (rate_run limit es buckets)) =
     (case key_times key es of [] \<Rightarrow> 0
      | now # ts \<Rightarrow> bucket_run (limit key) (now # ts) (bucket_of buckets key now))"
proof (induction es arbitrary: buckets)
  case Nil
  then show ?case by (simp add: key_times_def)
next
  case (Cons e es)
  obtain now k where e: "e = (now, k)" by (cases e)
  let ?buckets = "snd (rate_check now k (limit k) buckets)"
  have step: "passed key (e # es) (fst (rate_run limit (e # es) buckets)) =
      (if k = key \<and> fst (rate_check now k (limit k) buckets) = None then 1 else 0)
      + passed key es (fst (rate_run limit es ?buckets))"
    by (cases "rate_check now k (limit k) buckets"; cases "rate_run limit es ?buckets") (simp add: e)
  show ?case
  proof (cases "k = key")
    case False
    then have "bucket_of ?buckets key t = bucket_of buckets key t" for t
      by (auto simp: rate_check_bucket bucket_of_def)
    with False show ?thesis
      unfolding step Cons.IH [of ?buckets] by (simp add: e key_times_def split: list.split)
  next
    case True
    have "bucket_of ?buckets key t = snd (bucket_check now (limit key) (bucket_of buckets key now))" for t
      using True by (simp add: rate_check_bucket bucket_of_def)
    with True show ?thesis
      unfolding step Cons.IH [of ?buckets]
      by (simp add: e key_times_def rate_check_bucket Let_def split: list.split prod.split)
  qed
qed

lemma bucket_run_one_window:
  "\<forall>t \<in> set ts. t < window_start b + RATE_LIMIT_WINDOW \<Longrightarrow> bucket_run limit ts b \<le> limit - bucket_count b"
proof (induction ts arbitrary: b)
  case Nil
  then show ?case by simp
next
  case (Cons t ts)
  then have "t < window_start b + RATE_LIMIT_WINDOW" by simp
  then have no_reset: "\<not> t - window_start b \<ge> RATE_LIMIT_WINDOW"
    using window_pos by linarith
  show ?case
  proof (cases "bucket_count b \<ge> limit")
    case True
    have "bucket_run limit ts b \<le> limit - bucket_count b"
      using Cons.IH [of b] Cons.prems by simp
    with True no_reset show ?thesis by (simp add: bucket_check_def)
  next
    case False
    from Cons.prems have "bucket_run limit ts (b\<lparr>bucket_count := bucket_count b + 1\<rparr>)
        \<le> limit - (bucket_count b + 1)"
      using Cons.IH [of "b\<lparr>bucket_count := bucket_count b + 1\<rparr>"] by simp
    with False no_reset show ?thesis by (simp add: bucket_check_def)
  qed
qed

lemma bucket_run_two_windows:
  "\<forall>t \<in> set ts. t0 \<le> t \<and> t < t0 + RATE_LIMIT_WINDOW \<Longrightarrow>
   bucket_run limit ts b \<le> (limit - bucket_count b) + limit"
proof (induction ts arbitrary: b)
  case Nil
  then show ?case by simp
next
  case (Cons t ts)
  show ?case
  proof (cases "t - window_start b \<ge> RATE_LIMIT_WINDOW")
    case True
    let ?b = "\<lparr>window_start = t, bucket_count = 0\<rparr>"
    have "bucket_run limit (t # ts) ?b \<le> limit"
      using bucket_run_one_window [of "t # ts" ?b limit] Cons.prems
      by (fastforce simp: RATE_LIMIT_WINDOW_def)
    moreover have "bucket_run limit (t # ts) b = bucket_run limit (t # ts) ?b"
      using True by (simp add: bucket_check_def RATE_LIMIT_WINDOW_def)
    ultimately show ?thesis by linarith
  next
    case False
    show ?thesis
    proof (cases "bucket_count b \<ge> limit")
      case True
      have "bucket_run limit ts b \<le> (limit - bucket_count b) + limit"
        using Cons.IH [of b] Cons.prems by simp
      with True False show ?thesis by (simp add: bucket_check_def)
    next
      case less: False
      have "bucket_run limit ts (b\<lparr>bucket_count := bucket_count b + 1\<rparr>)
          \<le> (limit - (bucket_count b + 1)) + limit"
        using Cons.IH [of "b\<lparr>bucket_count := bucket_count b + 1\<rparr>"] Cons.prems by simp
      with less False show ?thesis by (simp add: bucket_check_def)
    qed
  qed
qed



text \<open>
  A refusal names the client and class that was refused and a delay of one to sixty seconds; with
  a positive limit, a request whose clock reading is a whole window after the start of the bucket's
  window is never refused, and it opens a new window.
\<close>

theorem rate_limit_retry:
  assumes "rate_check now key limit buckets = (Some exceeded, buckets')"
  shows "exceeded_key exceeded = key \<and>
    1 \<le> retry_after_seconds exceeded \<and> retry_after_seconds exceeded \<le> 60 \<and>
    (limit = 0 \<or> now < window_start (bucket_of buckets key now) + RATE_LIMIT_WINDOW) \<and>
    limit \<le> bucket_count (bucket_of buckets' key now)"
proof -
  have "(RATE_LIMIT_WINDOW - d) div 1000000000 \<le> 60" "RATE_LIMIT_WINDOW div 1000000000 = 60" for d
    by (simp_all add: RATE_LIMIT_WINDOW_def)
  moreover have "now < window_start b + RATE_LIMIT_WINDOW" if "\<not> now - window_start b \<ge> RATE_LIMIT_WINDOW" for b
    using that by linarith
  ultimately show ?thesis
    using assms
    by (auto simp: rate_check_bucket bucket_check_def Let_def bucket_of_def split: if_splits)
qed

theorem rate_limit_retry_witness:
  "retry_after_seconds (the (fst (rate_check 5 (RateKey ''10.0.0.1'' WriteClass) 1
     [(RateKey ''10.0.0.1'' WriteClass, \<lparr>window_start = 0, bucket_count = 1\<rparr>)]))) \<le> 60"
proof -
  let ?key = "RateKey ''10.0.0.1'' WriteClass" and ?b = "\<lparr>window_start = 0, bucket_count = 1\<rparr>"
  obtain e bs where e: "rate_check 5 ?key 1 [(?key, ?b)] = (Some e, bs)"
    by (simp add: rate_check_bucket bucket_of_def bucket_check_def bt_get_def RATE_LIMIT_WINDOW_def)
  with rate_limit_retry [OF e] show ?thesis by simp
qed

section \<open>RequestAuthTracker\<close>

definition REQUEST_SIGNATURE_MAX_SKEW_SECONDS :: int where
  "REQUEST_SIGNATURE_MAX_SKEW_SECONDS = 300"

datatype nonce_key = NonceKey (nonce_peer: string) (nonce_nonce: string)

definition nonce_key_le :: "nonce_key \<Rightarrow> nonce_key \<Rightarrow> bool" where
  "nonce_key_le a b \<longleftrightarrow>
     nonce_peer a < nonce_peer b \<or> nonce_peer a = nonce_peer b \<and> nonce_nonce a \<le> nonce_nonce b"

definition nonce_key_lt :: "nonce_key \<Rightarrow> nonce_key \<Rightarrow> bool" where
  "nonce_key_lt a b \<longleftrightarrow>
     nonce_peer a < nonce_peer b \<or> nonce_peer a = nonce_peer b \<and> nonce_nonce a < nonce_nonce b"

instantiation nonce_key :: linorder
begin
definition less_eq_nonce_key :: "nonce_key \<Rightarrow> nonce_key \<Rightarrow> bool" where "less_eq_nonce_key = nonce_key_le"
definition less_nonce_key :: "nonce_key \<Rightarrow> nonce_key \<Rightarrow> bool" where "less_nonce_key = nonce_key_lt"
instance
  by standard
    (auto simp: less_eq_nonce_key_def less_nonce_key_def nonce_key_le_def nonce_key_lt_def nonce_key.expand)
end

type_synonym seen_nonces = "(nonce_key, datetime) btree"

definition mark_nonce_once :: "peer_id \<Rightarrow> string \<Rightarrow> datetime \<Rightarrow> seen_nonces \<Rightarrow> bool \<times> seen_nonces" where
  "mark_nonce_once peer_id nonce now seen =
     (let oldest_allowed = now - seconds REQUEST_SIGNATURE_MAX_SKEW_SECONDS;
          seen = filter (\<lambda>(_, seen_at). seen_at \<ge> oldest_allowed) seen;
          key = NonceKey (peer_str peer_id) nonce
      in if bt_get seen key \<noteq> None then (False, seen) else (True, bt_insert key now seen))"

definition seen_at :: "seen_nonces \<Rightarrow> peer_id \<Rightarrow> string \<Rightarrow> datetime option" where
  "seen_at seen peer nonce = bt_get seen (NonceKey (peer_str peer) nonce)"

lemma bt_get_filter:
  "distinct (map fst m) \<Longrightarrow>
   bt_get (filter (\<lambda>(_, v). P v) m) k = (case bt_get m k of None \<Rightarrow> None | Some v \<Rightarrow> if P v then Some v else None)"
  unfolding bt_get_def
  by (induction m) (auto split: option.splits simp: map_of_eq_None_iff rev_image_eqI)

lemma bt_ok_filter: "bt_ok m \<Longrightarrow> bt_ok (filter P m)"
  by (simp add: bt_ok_def sorted_wrt_map sorted_wrt_filter)

lemma mark_nonce_ok: "bt_ok seen \<Longrightarrow> bt_ok (snd (mark_nonce_once p n now seen))"
  by (simp add: mark_nonce_once_def Let_def bt_ok_filter bt_ok_insert)

lemma mark_nonce_get:
  assumes "bt_ok seen"
  shows "fst (mark_nonce_once p n now seen) \<longleftrightarrow>
      (\<forall>t. seen_at seen p n = Some t \<longrightarrow> t < now - seconds 300)"
    and "seen_at (snd (mark_nonce_once p n now seen)) q k =
      (if q = p \<and> k = n \<and> fst (mark_nonce_once p n now seen) then Some now
       else case seen_at seen q k of None \<Rightarrow> None
         | Some t \<Rightarrow> if now - seconds 300 \<le> t then Some t else None)"
  using bt_ok_distinct [OF assms]
  by (auto simp: mark_nonce_once_def Let_def seen_at_def bt_get_filter REQUEST_SIGNATURE_MAX_SKEW_SECONDS_def
      split: option.splits if_splits)

text \<open>A sequence of requests, each with its peer, its nonce and the clock, and what is answered.\<close>

fun mark_run :: "(peer_id \<times> string \<times> datetime) list \<Rightarrow> seen_nonces \<Rightarrow> bool list \<times> seen_nonces" where
  "mark_run [] seen = ([], seen)"
| "mark_run ((p, n, now) # rs) seen =
     (let (ok, seen') = mark_nonce_once p n now seen; (oks, seen'') = mark_run rs seen'
      in (ok # oks, seen''))"

lemma mark_run_keeps:
  "bt_ok seen \<Longrightarrow> seen_at seen p n = Some t \<Longrightarrow> \<forall>(_, _, now) \<in> set rs. now \<le> t + seconds 300 \<Longrightarrow>
   bt_ok (snd (mark_run rs seen)) \<and> seen_at (snd (mark_run rs seen)) p n = Some t"
proof (induction rs arbitrary: seen)
  case Nil
  then show ?case by simp
next
  case (Cons r rs)
  obtain p' n' now where r: "r = (p', n', now)" by (cases r)
  let ?seen = "snd (mark_nonce_once p' n' now seen)"
  have "now - seconds 300 \<le> t" using Cons.prems r by auto
  then have "seen_at ?seen p n = Some t"
    using Cons.prems(1,2) by (auto simp: mark_nonce_get split: if_splits)
  from Cons.IH [OF mark_nonce_ok [OF Cons.prems(1)] this] Cons.prems(3)
  show ?case
    by (cases "mark_nonce_once p' n' now seen"; cases "mark_run rs ?seen") (simp add: r)
qed

text \<open>
  C32. No replay within the skew: once a nonce of a peer is accepted at time \<open>t\<close>, then as long as the
  clock has not passed \<open>t\<close> by more than 300 seconds, whatever requests come in between, the same
  nonce of the same peer is refused.
\<close>

theorem nonce_no_replay:
  assumes "bt_ok seen" and "mark_nonce_once p n t seen = (True, seen')"
    and "\<forall>(_, _, now) \<in> set rs. now \<le> t + seconds 300" and "now \<le> t + seconds 300"
  shows "fst (mark_nonce_once p n now (snd (mark_run rs seen'))) = False"
proof -
  have "bt_ok seen'" "seen_at seen' p n = Some t"
    using mark_nonce_ok [OF assms(1), of p n t] mark_nonce_get(2) [OF assms(1), of p n t p n] assms(2)
    by simp_all
  from mark_run_keeps [OF this assms(3)]
  have k: "bt_ok (snd (mark_run rs seen'))" "seen_at (snd (mark_run rs seen')) p n = Some t" by auto
  show ?thesis using mark_nonce_get(1) [OF k(1), of p n now] k(2) assms(4) by auto
qed

theorem nonce_no_replay_witness:
  "fst (mark_nonce_once (PeerId ''peer_a'') ''n1'' (seconds 300)
     (snd (mark_run [(PeerId ''peer_b'', ''n2'', seconds 10)]
        (snd (mark_nonce_once (PeerId ''peer_a'') ''n1'' 0 []))))) = False"
proof (rule nonce_no_replay)
  show "mark_nonce_once (PeerId ''peer_a'') ''n1'' 0 []
      = (True, snd (mark_nonce_once (PeerId ''peer_a'') ''n1'' 0 []))"
    by (simp add: mark_nonce_once_def bt_get_def)
qed (simp_all add: bt_ok_def)

end
