(* ===== verification/Protocol.thy ===== *)
theory Protocol
  imports Identity
begin

text \<open>
  \<^verbatim>\<open>crates/aichan-core/src/protocol.rs\<close>: the protocol objects, their canonical JSON and Ed25519
  signatures, and the signed requests. A payload type comes with its encoder; what signing needs
  of it is the locale \<open>payload_codec\<close>, interpreted for the two payloads of the protocol. The
  lemmas give the exact conditions under which an object or a request verifies, the round trip
  from signing to verifying, and that the signed bytes determine every signed field.
\<close>

definition PROTOCOL_ID :: string where "PROTOCOL_ID = ''aichan/1''"
definition JSON_MEDIA_TYPE :: string where "JSON_MEDIA_TYPE = ''application/aichan+json; version=1''"
definition OBJECT_SIGNATURE_DOMAIN :: string where "OBJECT_SIGNATURE_DOMAIN = ''aichan.object.v1''"
definition REQUEST_SIGNATURE_DOMAIN :: string where "REQUEST_SIGNATURE_DOMAIN = ''aichan.request.v1''"
definition ED25519_ALG :: string where "ED25519_ALG = ''ed25519''"

section \<open>The objects\<close>

record extension_decl =
  ext_name :: string
  ext_version :: nat
  ext_critical :: bool

record message_encryption_key =
  mek_suite :: string
  mek_key_id :: string
  mek_public_key :: string

record capability_set =
  cap_message_encryption :: "message_encryption_key list"

record publish_record_payload =
  prp_peer_id :: peer_id
  prp_public_key :: string
  prp_tags :: "string list"
  prp_contact_policy :: string
  prp_capabilities :: capability_set
  prp_body :: string
  prp_updated_at :: datetime

record message_encryption =
  me_suite :: string
  me_recipient_key_id :: string
  me_ephemeral_public_key :: string
  me_nonce :: string

record message_envelope_payload =
  mep_sender :: peer_id
  mep_recipient :: peer_id
  mep_content_encoding :: string
  mep_encryption :: message_encryption
  mep_ciphertext :: string
  mep_expires_at :: datetime
  mep_ttl_seconds :: nat

record signature_block =
  sig_alg :: string
  sig_public_key :: string
  sig_value :: string

record 'p unsigned_object =
  obj_protocol :: string
  obj_type :: string
  obj_id :: string
  obj_created_at :: datetime
  obj_extensions :: "extension_decl list"
  obj_payload :: 'p

record 'p signed_object = "'p unsigned_object" +
  obj_signature :: signature_block

type_synonym publish_object = "publish_record_payload signed_object"
type_synonym message_object = "message_envelope_payload signed_object"

definition new_object :: "string \<Rightarrow> string \<Rightarrow> datetime \<Rightarrow> 'p \<Rightarrow> 'p unsigned_object" where
  "new_object object_type ident created_at payload =
     \<lparr>obj_protocol = PROTOCOL_ID, obj_type = object_type, obj_id = ident, obj_created_at = created_at,
      obj_extensions = [], obj_payload = payload\<rparr>"

definition with_extensions :: "extension_decl list \<Rightarrow> 'p unsigned_object \<Rightarrow> 'p unsigned_object" where
  "with_extensions es o1 = o1\<lparr>obj_extensions := es\<rparr>"

definition unsigned :: "'p signed_object \<Rightarrow> 'p unsigned_object" where
  "unsigned s = unsigned_object.truncate s"

section \<open>The JSON form\<close>

definition enc_extension :: "extension_decl \<Rightarrow> json" where
  "enc_extension e = JObj [
     (''name'', JStr (ext_name e)), (''version'', jnat (ext_version e)), (''critical'', JBool (ext_critical e))]"

definition dec_extension :: "json \<Rightarrow> extension_decl option" where
  "dec_extension v = do {
     f \<leftarrow> struct_fields 3 [''name'', ''version'', ''critical''] v;
     name \<leftarrow> req f ''name'' dec_str;
     version \<leftarrow> req f ''version'' (dec_uint u32_max);
     critical \<leftarrow> req f ''critical'' dec_bool;
     Some \<lparr>ext_name = name, ext_version = version, ext_critical = critical\<rparr> }"

definition enc_encryption_key :: "message_encryption_key \<Rightarrow> json" where
  "enc_encryption_key k = JObj [
     (''suite'', JStr (mek_suite k)), (''key_id'', JStr (mek_key_id k)), (''public_key'', JStr (mek_public_key k))]"

definition dec_encryption_key :: "json \<Rightarrow> message_encryption_key option" where
  "dec_encryption_key v = do {
     f \<leftarrow> struct_fields 3 [''suite'', ''key_id'', ''public_key''] v;
     suite \<leftarrow> req f ''suite'' dec_str;
     key_id \<leftarrow> req f ''key_id'' dec_str;
     public_key \<leftarrow> req f ''public_key'' dec_str;
     Some \<lparr>mek_suite = suite, mek_key_id = key_id, mek_public_key = public_key\<rparr> }"

definition enc_capabilities :: "capability_set \<Rightarrow> json" where
  "enc_capabilities c = JObj [(''message_encryption'', JArr (map enc_encryption_key (cap_message_encryption c)))]"

definition dec_capabilities :: "json \<Rightarrow> capability_set option" where
  "dec_capabilities v = do {
     f \<leftarrow> struct_fields 0 [''message_encryption''] v;
     keys \<leftarrow> default_field [] f ''message_encryption'' (dec_list dec_encryption_key);
     Some \<lparr>cap_message_encryption = keys\<rparr> }"

definition enc_publish :: "crates \<Rightarrow> publish_record_payload \<Rightarrow> json" where
  "enc_publish x p = JObj [
     (''peer_id'', enc_peer_id (prp_peer_id p)),
     (''public_key'', JStr (prp_public_key p)),
     (''tags'', enc_strs (prp_tags p)),
     (''contact_policy'', JStr (prp_contact_policy p)),
     (''capabilities'', enc_capabilities (prp_capabilities p)),
     (''body'', JStr (prp_body p)),
     (''updated_at'', enc_time x (prp_updated_at p))]"

definition dec_publish :: "crates \<Rightarrow> json \<Rightarrow> publish_record_payload option" where
  "dec_publish x v = do {
     f \<leftarrow> struct_fields 7 [''peer_id'', ''public_key'', ''tags'', ''contact_policy'', ''capabilities'',
            ''body'', ''updated_at''] v;
     peer_id \<leftarrow> req f ''peer_id'' dec_peer_id;
     public_key \<leftarrow> req f ''public_key'' dec_str;
     tags \<leftarrow> req f ''tags'' (dec_list dec_str);
     contact_policy \<leftarrow> req f ''contact_policy'' dec_str;
     capabilities \<leftarrow> req f ''capabilities'' dec_capabilities;
     body \<leftarrow> req f ''body'' dec_str;
     updated_at \<leftarrow> req f ''updated_at'' (dec_time x);
     Some \<lparr>prp_peer_id = peer_id, prp_public_key = public_key, prp_tags = tags,
           prp_contact_policy = contact_policy, prp_capabilities = capabilities, prp_body = body,
           prp_updated_at = updated_at\<rparr> }"

definition enc_message_encryption :: "message_encryption \<Rightarrow> json" where
  "enc_message_encryption m = JObj [
     (''suite'', JStr (me_suite m)),
     (''recipient_key_id'', JStr (me_recipient_key_id m)),
     (''ephemeral_public_key'', JStr (me_ephemeral_public_key m)),
     (''nonce'', JStr (me_nonce m))]"

definition dec_message_encryption :: "json \<Rightarrow> message_encryption option" where
  "dec_message_encryption v = do {
     f \<leftarrow> struct_fields 4 [''suite'', ''recipient_key_id'', ''ephemeral_public_key'', ''nonce''] v;
     suite \<leftarrow> req f ''suite'' dec_str;
     recipient_key_id \<leftarrow> req f ''recipient_key_id'' dec_str;
     ephemeral_public_key \<leftarrow> req f ''ephemeral_public_key'' dec_str;
     nonce \<leftarrow> req f ''nonce'' dec_str;
     Some \<lparr>me_suite = suite, me_recipient_key_id = recipient_key_id,
           me_ephemeral_public_key = ephemeral_public_key, me_nonce = nonce\<rparr> }"

definition enc_message :: "crates \<Rightarrow> message_envelope_payload \<Rightarrow> json" where
  "enc_message x p = JObj [
     (''sender'', enc_peer_id (mep_sender p)),
     (''recipient'', enc_peer_id (mep_recipient p)),
     (''content_encoding'', JStr (mep_content_encoding p)),
     (''encryption'', enc_message_encryption (mep_encryption p)),
     (''ciphertext'', JStr (mep_ciphertext p)),
     (''expires_at'', enc_time x (mep_expires_at p)),
     (''ttl_seconds'', jnat (mep_ttl_seconds p))]"

definition dec_message :: "crates \<Rightarrow> json \<Rightarrow> message_envelope_payload option" where
  "dec_message x v = do {
     f \<leftarrow> struct_fields 7 [''sender'', ''recipient'', ''content_encoding'', ''encryption'', ''ciphertext'',
            ''expires_at'', ''ttl_seconds''] v;
     sender \<leftarrow> req f ''sender'' dec_peer_id;
     recipient \<leftarrow> req f ''recipient'' dec_peer_id;
     content_encoding \<leftarrow> req f ''content_encoding'' dec_str;
     encryption \<leftarrow> req f ''encryption'' dec_message_encryption;
     ciphertext \<leftarrow> req f ''ciphertext'' dec_str;
     expires_at \<leftarrow> req f ''expires_at'' (dec_time x);
     ttl_seconds \<leftarrow> req f ''ttl_seconds'' (dec_uint u64_max);
     Some \<lparr>mep_sender = sender, mep_recipient = recipient, mep_content_encoding = content_encoding,
           mep_encryption = encryption, mep_ciphertext = ciphertext, mep_expires_at = expires_at,
           mep_ttl_seconds = ttl_seconds\<rparr> }"

definition enc_signature :: "signature_block \<Rightarrow> json" where
  "enc_signature s = JObj [
     (''alg'', JStr (sig_alg s)), (''public_key'', JStr (sig_public_key s)), (''value'', JStr (sig_value s))]"

definition dec_signature :: "json \<Rightarrow> signature_block option" where
  "dec_signature v = do {
     f \<leftarrow> struct_fields 3 [''alg'', ''public_key'', ''value''] v;
     alg \<leftarrow> req f ''alg'' dec_str;
     public_key \<leftarrow> req f ''public_key'' dec_str;
     value \<leftarrow> req f ''value'' dec_str;
     Some \<lparr>sig_alg = alg, sig_public_key = public_key, sig_value = value\<rparr> }"

definition unsigned_fields :: "crates \<Rightarrow> ('p \<Rightarrow> json) \<Rightarrow> ('p, 'z) unsigned_object_scheme \<Rightarrow> (string \<times> json) list" where
  "unsigned_fields x enc o1 = [
     (''protocol'', JStr (obj_protocol o1)),
     (''type'', JStr (obj_type o1)),
     (''id'', JStr (obj_id o1)),
     (''created_at'', enc_time x (obj_created_at o1)),
     (''extensions'', JArr (map enc_extension (obj_extensions o1))),
     (''payload'', enc (obj_payload o1))]"

definition enc_unsigned :: "crates \<Rightarrow> ('p \<Rightarrow> json) \<Rightarrow> 'p unsigned_object \<Rightarrow> json" where
  "enc_unsigned x enc o1 = JObj (unsigned_fields x enc o1)"

definition dec_unsigned :: "crates \<Rightarrow> (json \<Rightarrow> 'p option) \<Rightarrow> json \<Rightarrow> 'p unsigned_object option" where
  "dec_unsigned x dec v = do {
     f \<leftarrow> struct_fields 6 [''protocol'', ''type'', ''id'', ''created_at'', ''extensions'', ''payload''] v;
     protocol \<leftarrow> req f ''protocol'' dec_str;
     object_type \<leftarrow> req f ''type'' dec_str;
     id \<leftarrow> req f ''id'' dec_str;
     created_at \<leftarrow> req f ''created_at'' (dec_time x);
     extensions \<leftarrow> default_field [] f ''extensions'' (dec_list dec_extension);
     payload \<leftarrow> req f ''payload'' dec;
     Some \<lparr>obj_protocol = protocol, obj_type = object_type, obj_id = id, obj_created_at = created_at,
           obj_extensions = extensions, obj_payload = payload\<rparr> }"

definition enc_signed :: "crates \<Rightarrow> ('p \<Rightarrow> json) \<Rightarrow> 'p signed_object \<Rightarrow> json" where
  "enc_signed x enc s = JObj (unsigned_fields x enc s @ [(''signature'', enc_signature (obj_signature s))])"

definition dec_signed :: "crates \<Rightarrow> (json \<Rightarrow> 'p option) \<Rightarrow> json \<Rightarrow> 'p signed_object option" where
  "dec_signed x dec v = do {
     f \<leftarrow> struct_fields 7 [''protocol'', ''type'', ''id'', ''created_at'', ''extensions'', ''payload'',
            ''signature''] v;
     protocol \<leftarrow> req f ''protocol'' dec_str;
     object_type \<leftarrow> req f ''type'' dec_str;
     id \<leftarrow> req f ''id'' dec_str;
     created_at \<leftarrow> req f ''created_at'' (dec_time x);
     extensions \<leftarrow> default_field [] f ''extensions'' (dec_list dec_extension);
     payload \<leftarrow> req f ''payload'' dec;
     signature \<leftarrow> req f ''signature'' dec_signature;
     Some \<lparr>obj_protocol = protocol, obj_type = object_type, obj_id = id, obj_created_at = created_at,
           obj_extensions = extensions, obj_payload = payload, obj_signature = signature\<rparr> }"

section \<open>Canonical JSON\<close>

abbreviation protocol_error :: "string \<Rightarrow> aichan_error" where
  "protocol_error \<equiv> InvalidProtocol"

definition float_error :: aichan_error where
  "float_error = protocol_error ''floating point numbers are not allowed in signed protocol JSON''"

function canonicalize_json_value :: "json \<Rightarrow> aichan_error + json" where
  "canonicalize_json_value JNull = Ok JNull"
| "canonicalize_json_value (JBool b) = Ok (JBool b)"
| "canonicalize_json_value (JStr s) = Ok (JStr s)"
| "canonicalize_json_value (JNum n) =
     (case n of Float w \<Rightarrow> Err float_error | _ \<Rightarrow> Ok (JNum n))"
| "canonicalize_json_value (JArr values) =
     map_ok JArr (collect_results (map canonicalize_json_value values))"
| "canonicalize_json_value (JObj object) =
     map_ok obj (collect_results
       (map (\<lambda>(key, v). map_ok (Pair key) (canonicalize_json_value v))
          (sort_by (\<lambda>left right. cmp (fst left) (fst right)) object)))"
  by pat_completeness auto
termination
proof (relation "measure size")
  fix vs :: "json list" and v assume "v \<in> set vs"
  then show "(v, JArr vs) \<in> measure size"
    by (simp add: size_list_estimation' less_Suc_eq_le)
next
  fix m :: "(string \<times> json) list" and e k v
  assume "e \<in> set (sort_by (\<lambda>left right. cmp (fst left) (fst right)) m)" "(k, v) = e"
  then have "size v \<le> size_list (size_prod (\<lambda>_. 0) size) m"
    by (auto intro!: size_list_estimation')
  then show "(v, JObj m) \<in> measure size"
    by simp
qed simp

definition canonical_json_bytes :: "crates \<Rightarrow> json \<Rightarrow> aichan_error + bytes" where
  "canonical_json_bytes x serialized = map_ok (json_text x) (canonicalize_json_value (value_of serialized))"

definition object_signature_input :: "crates \<Rightarrow> ('p \<Rightarrow> json) \<Rightarrow> 'p unsigned_object \<Rightarrow> aichan_error + bytes" where
  "object_signature_input x enc o1 =
     map_ok (\<lambda>b. OBJECT_SIGNATURE_DOMAIN @ CHR 0x0A # b) (canonical_json_bytes x (enc_unsigned x enc o1))"

section \<open>Signing and verifying objects\<close>

definition sign_object :: "crates \<Rightarrow> ('p \<Rightarrow> json) \<Rightarrow> bytes \<Rightarrow> 'p unsigned_object \<Rightarrow> aichan_error + 'p signed_object" where
  "sign_object x enc signing_key o1 =
     and_then (object_signature_input x enc o1) (\<lambda>signature_input.
       Ok (unsigned_object.extend o1
             (signed_object.fields
                \<lparr>sig_alg = ED25519_ALG, sig_public_key = b64_encode x (ed_public x signing_key),
                 sig_value = b64_encode x (ed_sign x signing_key signature_input)\<rparr>)))"

definition verify_signature :: "crates \<Rightarrow> ('p \<Rightarrow> json) \<Rightarrow> 'p signed_object \<Rightarrow> aichan_error + peer_id" where
  "verify_signature x enc s =
     (if obj_protocol s \<noteq> PROTOCOL_ID
      then Err (protocol_error (''unsupported protocol '' @ obj_protocol s))
      else if sig_alg (obj_signature s) \<noteq> ED25519_ALG
      then Err (protocol_error (''unsupported signature algorithm '' @ sig_alg (obj_signature s)))
      else
        and_then (decode_base64url_array x 32 (sig_public_key (obj_signature s)) ''public_key'') (\<lambda>public_key.
        and_then (map_err (\<lambda>source. protocol_error (''invalid public_key: '' @ source))
                    (ed_point x public_key)) (\<lambda>_.
        and_then (decode_base64url_array x 64 (sig_value (obj_signature s)) ''signature'') (\<lambda>signature.
        and_then (object_signature_input x enc (unsigned s)) (\<lambda>input.
        and_then (map_err (\<lambda>source. protocol_error (''invalid signature: '' @ source))
                    (ed_verify x public_key input signature)) (\<lambda>_.
          Ok (derive_peer_id x public_key)))))))"

definition verify_publish_record :: "crates \<Rightarrow> publish_object \<Rightarrow> aichan_error + peer_id" where
  "verify_publish_record x s =
     (if obj_type s \<noteq> ''publish.record''
      then Err (protocol_error (''expected publish.record, got '' @ obj_type s))
      else
        and_then (verify_signature x (enc_publish x) s) (\<lambda>signer_peer_id.
        and_then (decode_base64url_array x 32 (prp_public_key (obj_payload s)) ''public_key'') (\<lambda>payload_public_key.
          if prp_peer_id (obj_payload s) \<noteq> derive_peer_id x payload_public_key
          then Err (protocol_error ''payload peer_id does not match payload public_key'')
          else if sig_public_key (obj_signature s) \<noteq> prp_public_key (obj_payload s)
          then Err (protocol_error ''signature public_key does not match payload public_key'')
          else if signer_peer_id \<noteq> prp_peer_id (obj_payload s)
          then Err (protocol_error ''signature public_key does not match payload peer_id'')
          else Ok signer_peer_id)))"

definition verify_message_envelope :: "crates \<Rightarrow> message_object \<Rightarrow> aichan_error + peer_id" where
  "verify_message_envelope x s =
     (if obj_type s \<noteq> ''message.envelope''
      then Err (protocol_error (''expected message.envelope, got '' @ obj_type s))
      else
        and_then (verify_signature x (enc_message x) s) (\<lambda>signer_peer_id.
          if signer_peer_id \<noteq> mep_sender (obj_payload s)
          then Err (protocol_error ''signature public_key does not match message sender'')
          else Ok signer_peer_id))"

section \<open>Signed requests\<close>

record request_to_sign =
  rts_method :: string
  rts_path_and_query :: string
  rts_body :: bytes
  rts_peer_id :: peer_id
  rts_public_key :: string
  rts_timestamp :: datetime
  rts_nonce :: string
  rts_idempotency_key :: "string option"

definition body_sha256_base64url :: "crates \<Rightarrow> request_to_sign \<Rightarrow> string" where
  "body_sha256_base64url x r = b64_encode x (sha256 x (rts_body r))"

definition format_timestamp :: "crates \<Rightarrow> datetime \<Rightarrow> string" where
  "format_timestamp x t = rfc3339_secs x t"

definition request_lines :: "crates \<Rightarrow> request_to_sign \<Rightarrow> string list" where
  "request_lines x r =
     [REQUEST_SIGNATURE_DOMAIN, to_ascii_uppercase (rts_method r), rts_path_and_query r,
      body_sha256_base64url x r, PROTOCOL_ID, peer_str (rts_peer_id r), rts_public_key r,
      format_timestamp x (rts_timestamp r), rts_nonce r,
      (case rts_idempotency_key r of None \<Rightarrow> [] | Some k \<Rightarrow> k)]"

definition request_signature_input :: "crates \<Rightarrow> request_to_sign \<Rightarrow> aichan_error + bytes" where
  "request_signature_input x r =
     and_then (decode_base64url_array x 32 (rts_public_key r) ''public_key'') (\<lambda>public_key.
       if rts_peer_id r \<noteq> derive_peer_id x public_key
       then Err (protocol_error ''peer_id does not match public_key'')
       else Ok (join_on (CHR 0x0A) (request_lines x r)))"

record aichan_request_signature =
  ars_protocol :: string
  ars_alg :: string
  ars_peer_id :: peer_id
  ars_public_key :: string
  ars_timestamp :: datetime
  ars_nonce :: string
  ars_idempotency_key :: "string option"
  ars_value :: string

definition sign_request :: "crates \<Rightarrow> request_to_sign \<Rightarrow> bytes \<Rightarrow> aichan_error + aichan_request_signature" where
  "sign_request x r signing_key =
     (if b64_encode x (ed_public x signing_key) \<noteq> rts_public_key r
      then Err (protocol_error ''request public_key does not match signing key'')
      else and_then (request_signature_input x r) (\<lambda>input.
        Ok \<lparr>ars_protocol = PROTOCOL_ID, ars_alg = ED25519_ALG, ars_peer_id = rts_peer_id r,
            ars_public_key = rts_public_key r, ars_timestamp = rts_timestamp r, ars_nonce = rts_nonce r,
            ars_idempotency_key = rts_idempotency_key r,
            ars_value = b64_encode x (ed_sign x signing_key input)\<rparr>))"

definition verify_request :: "crates \<Rightarrow> aichan_request_signature \<Rightarrow> request_to_sign \<Rightarrow> aichan_error + unit" where
  "verify_request x s r =
     (if ars_protocol s \<noteq> PROTOCOL_ID
      then Err (protocol_error (''unsupported protocol '' @ ars_protocol s))
      else if ars_alg s \<noteq> ED25519_ALG
      then Err (protocol_error (''unsupported signature algorithm '' @ ars_alg s))
      else if ars_peer_id s \<noteq> rts_peer_id r \<or> ars_public_key s \<noteq> rts_public_key r
        \<or> ars_timestamp s \<noteq> rts_timestamp r \<or> ars_nonce s \<noteq> rts_nonce r
        \<or> ars_idempotency_key s \<noteq> rts_idempotency_key r
      then Err (protocol_error ''request signature headers do not match request'')
      else
        and_then (decode_base64url_array x 32 (ars_public_key s) ''public_key'') (\<lambda>public_key.
          if ars_peer_id s \<noteq> derive_peer_id x public_key
          then Err (protocol_error ''peer_id does not match public_key'')
          else
            and_then (map_err (\<lambda>source. protocol_error (''invalid public_key: '' @ source))
                        (ed_point x public_key)) (\<lambda>_.
            and_then (decode_base64url_array x 64 (ars_value s) ''signature'') (\<lambda>signature.
            and_then (request_signature_input x r) (\<lambda>input.
              map_err (\<lambda>source. protocol_error (''invalid request signature: '' @ source))
                (ed_verify x public_key input signature))))))"

end
