(* ===== verification/Publish_Store.thy ===== *)
theory Publish_Store
  imports Limits Protocol
begin

text \<open>
  The publish store of the server (\<^verbatim>\<open>FilePublishStore\<close> and the helpers it shares with the Firestore
  store, \<^verbatim>\<open>crates/aichan-server/src/lib.rs\<close>): stored records, upsert, author deletion, the hide and
  restore of moderation, search with cursors, discovery. The state is the file of the store. The
  laws are in \<open>Publish_Laws\<close>.
\<close>

section \<open>Stored records\<close>

record admin_principal =
  adm_principal :: string
  adm_principal_hash :: string
  adm_auth_provider :: string

record stored_publish =
  sp_object :: publish_object
  sp_deleted :: bool
  sp_hidden :: bool
  sp_deleted_at :: "datetime option"
  sp_hidden_at :: "datetime option"
  sp_hide_reason :: "string option"
  sp_hidden_by_principal :: "string option"
  sp_hidden_by_hash :: "string option"
  sp_restored_at :: "datetime option"
  sp_restore_reason :: "string option"
  sp_restored_by_principal :: "string option"
  sp_restored_by_hash :: "string option"

definition stored_visible :: "publish_object \<Rightarrow> stored_publish" where
  "stored_visible object =
     \<lparr>sp_object = object, sp_deleted = False, sp_hidden = False, sp_deleted_at = None,
      sp_hidden_at = None, sp_hide_reason = None, sp_hidden_by_principal = None,
      sp_hidden_by_hash = None, sp_restored_at = None, sp_restore_reason = None,
      sp_restored_by_principal = None, sp_restored_by_hash = None\<rparr>"

definition preserve_admin_state :: "publish_object \<Rightarrow> stored_publish \<Rightarrow> stored_publish" where
  "preserve_admin_state object previous =
     \<lparr>sp_object = object, sp_deleted = False, sp_hidden = sp_hidden previous, sp_deleted_at = None,
      sp_hidden_at = sp_hidden_at previous, sp_hide_reason = sp_hide_reason previous,
      sp_hidden_by_principal = sp_hidden_by_principal previous,
      sp_hidden_by_hash = sp_hidden_by_hash previous, sp_restored_at = sp_restored_at previous,
      sp_restore_reason = sp_restore_reason previous,
      sp_restored_by_principal = sp_restored_by_principal previous,
      sp_restored_by_hash = sp_restored_by_hash previous\<rparr>"

abbreviation sp_id :: "stored_publish \<Rightarrow> string" where "sp_id e \<equiv> obj_id (sp_object e)"
abbreviation sp_created :: "stored_publish \<Rightarrow> datetime" where "sp_created e \<equiv> obj_created_at (sp_object e)"
abbreviation sp_peer :: "stored_publish \<Rightarrow> peer_id" where "sp_peer e \<equiv> prp_peer_id (obj_payload (sp_object e))"
abbreviation sp_tags :: "stored_publish \<Rightarrow> string list" where "sp_tags e \<equiv> prp_tags (obj_payload (sp_object e))"

definition sp_listed :: "stored_publish \<Rightarrow> bool" where
  "sp_listed e \<longleftrightarrow> \<not> sp_deleted e \<and> \<not> sp_hidden e"

record public_stats =
  agents_alive :: nat
  public_messages_sent :: nat

datatype publish_upsert_status = PublishStored | PeerConflict | UpsertAuthorDeleted
datatype publish_delete_status = PublishDeleted | DeleteNotFound | WrongPeer
datatype publish_moderation_status = Updated publish_object | ModerationNotFound | ModerationAuthorDeleted

section \<open>Updates\<close>

definition publish_upsert_records ::
  "publish_object \<Rightarrow> peer_id \<Rightarrow> stored_publish list \<Rightarrow> publish_upsert_status \<times> stored_publish list option" where
  "publish_upsert_records object peer_id records =
     (case find (\<lambda>entry. sp_id entry = obj_id object) records of
        Some existing \<Rightarrow>
          (if sp_peer existing \<noteq> peer_id then (PeerConflict, None)
           else if sp_deleted existing then (UpsertAuthorDeleted, None)
           else (PublishStored, Some (update_first (\<lambda>entry. sp_id entry = obj_id object)
                                        (\<lambda>existing. preserve_admin_state object existing) records)))
      | None \<Rightarrow> (PublishStored, Some (records @ [stored_visible object])))"

definition publish_upsert ::
  "io_plan \<Rightarrow> publish_object \<Rightarrow> peer_id \<Rightarrow> stored_publish disk \<Rightarrow> (string + publish_upsert_status) \<times> stored_publish disk"
  where
  "publish_upsert io object peer_id = store_update io (publish_upsert_records object peer_id)"

definition author_delete :: "datetime \<Rightarrow> stored_publish \<Rightarrow> stored_publish" where
  "author_delete now e = e\<lparr>sp_deleted := True, sp_deleted_at := Some now\<rparr>"

definition mark_author_deleted_records ::
  "datetime \<Rightarrow> string \<Rightarrow> peer_id \<Rightarrow> stored_publish list \<Rightarrow> publish_delete_status \<times> stored_publish list option" where
  "mark_author_deleted_records now publish_id peer_id records =
     (case position (\<lambda>entry. sp_id entry = publish_id \<and> \<not> sp_deleted entry) records of
        None \<Rightarrow> (DeleteNotFound, None)
      | Some index \<Rightarrow>
          if sp_peer (records ! index) \<noteq> peer_id then (WrongPeer, None)
          else (PublishDeleted, Some (records[index := author_delete now (records ! index)])))"

definition mark_author_deleted ::
  "io_plan \<Rightarrow> datetime \<Rightarrow> string \<Rightarrow> peer_id \<Rightarrow> stored_publish disk \<Rightarrow>
   (string + publish_delete_status) \<times> stored_publish disk" where
  "mark_author_deleted io now publish_id peer_id =
     store_update io (mark_author_deleted_records now publish_id peer_id)"

definition hide_record :: "datetime \<Rightarrow> string \<Rightarrow> admin_principal \<Rightarrow> stored_publish \<Rightarrow> stored_publish" where
  "hide_record now reason admin e =
     e\<lparr>sp_hidden := True, sp_hidden_at := Some now, sp_hide_reason := Some reason,
       sp_hidden_by_principal := Some (adm_principal admin),
       sp_hidden_by_hash := Some (adm_principal_hash admin),
       sp_restored_at := None, sp_restore_reason := None, sp_restored_by_principal := None,
       sp_restored_by_hash := None\<rparr>"

definition restore_record :: "datetime \<Rightarrow> string \<Rightarrow> admin_principal \<Rightarrow> stored_publish \<Rightarrow> stored_publish" where
  "restore_record now reason admin e =
     e\<lparr>sp_hidden := False, sp_hidden_at := None, sp_hide_reason := None,
       sp_hidden_by_principal := None, sp_hidden_by_hash := None,
       sp_restored_at := Some now, sp_restore_reason := Some reason,
       sp_restored_by_principal := Some (adm_principal admin),
       sp_restored_by_hash := Some (adm_principal_hash admin)\<rparr>"

definition moderate_records ::
  "(stored_publish \<Rightarrow> stored_publish) \<Rightarrow> string \<Rightarrow> stored_publish list \<Rightarrow>
   publish_moderation_status \<times> stored_publish list option" where
  "moderate_records change publish_id records =
     (case find (\<lambda>entry. sp_id entry = publish_id) records of
        None \<Rightarrow> (ModerationNotFound, None)
      | Some record1 \<Rightarrow>
          if sp_deleted record1 then (ModerationAuthorDeleted, None)
          else (Updated (sp_object record1),
                Some (update_first (\<lambda>entry. sp_id entry = publish_id) change records)))"

definition admin_hide ::
  "io_plan \<Rightarrow> datetime \<Rightarrow> string \<Rightarrow> string \<Rightarrow> admin_principal \<Rightarrow> stored_publish disk \<Rightarrow>
   (string + publish_moderation_status) \<times> stored_publish disk" where
  "admin_hide io now publish_id reason admin =
     store_update io (moderate_records (hide_record now reason admin) publish_id)"

definition admin_restore ::
  "io_plan \<Rightarrow> datetime \<Rightarrow> string \<Rightarrow> string \<Rightarrow> admin_principal \<Rightarrow> stored_publish disk \<Rightarrow>
   (string + publish_moderation_status) \<times> stored_publish disk" where
  "admin_restore io now publish_id reason admin =
     store_update io (moderate_records (restore_record now reason admin) publish_id)"

definition publish_stats :: "stored_publish disk \<Rightarrow> string + public_stats" where
  "publish_stats d =
     map_ok (\<lambda>records.
       let visible = filter sp_listed records;
           peer_ids = bt_collect (map (\<lambda>entry. (peer_str (sp_peer entry), ())) visible)
       in \<lparr>agents_alive = length peer_ids, public_messages_sent = length visible\<rparr>) (load d)"

section \<open>Search\<close>

record publish_search_cursor =
  psc_created_at :: datetime
  psc_id :: string
  psc_seen :: nat

definition enc_search_cursor :: "crates \<Rightarrow> publish_search_cursor \<Rightarrow> json" where
  "enc_search_cursor x c = JObj [
     (''created_at'', enc_time x (psc_created_at c)), (''id'', JStr (psc_id c)), (''seen'', jnat (psc_seen c))]"

definition dec_search_cursor :: "crates \<Rightarrow> json \<Rightarrow> publish_search_cursor option" where
  "dec_search_cursor x v = do {
     f \<leftarrow> struct_fields 3 [''created_at'', ''id'', ''seen''] v;
     created_at \<leftarrow> req f ''created_at'' (dec_time x);
     id \<leftarrow> req f ''id'' dec_str;
     seen \<leftarrow> req f ''seen'' (dec_uint usize_max);
     Some \<lparr>psc_created_at = created_at, psc_id = id, psc_seen = seen\<rparr> }"

definition search_cursor_encode :: "crates \<Rightarrow> publish_search_cursor \<Rightarrow> string" where
  "search_cursor_encode x c = b64_encode x (json_text x (enc_search_cursor x c))"

definition search_cursor_decode :: "crates \<Rightarrow> string \<Rightarrow> string + publish_search_cursor" where
  "search_cursor_decode x value =
     and_then (map_err (\<lambda>_. ''cursor is not base64url'') (b64_decode x value)) (\<lambda>bytes.
       map_err (\<lambda>_. ''cursor is not valid JSON'') (from_json x (dec_search_cursor x) bytes))"

definition publish_record_is_older_than_cursor :: "stored_publish \<Rightarrow> publish_search_cursor \<Rightarrow> bool" where
  "publish_record_is_older_than_cursor entry cursor \<longleftrightarrow>
     sp_created entry < psc_created_at cursor
     \<or> (sp_created entry = psc_created_at cursor \<and> sp_id entry < psc_id cursor)"

definition compare_publish_records_newest_first :: "stored_publish \<Rightarrow> stored_publish \<Rightarrow> ordering" where
  "compare_publish_records_newest_first l r =
     then_with (cmp (sp_created r) (sp_created l)) (cmp (sp_id r) (sp_id l))"

definition publish_record_matches_tag :: "string option \<Rightarrow> stored_publish \<Rightarrow> bool" where
  "publish_record_matches_tag tag entry = (case tag of None \<Rightarrow> True | Some t \<Rightarrow> t \<in> set (sp_tags entry))"

definition PUBLISH_SEARCH_WINDOW_LIMIT :: nat where "PUBLISH_SEARCH_WINDOW_LIMIT = 10000"

record publish_search_request =
  psr_tag :: "string option"
  psr_limit :: nat
  psr_cursor :: "publish_search_cursor option"

record publish_search_page =
  page_records :: "publish_object list"
  page_next_cursor :: "string option"
  page_has_more :: bool

definition page_from_ordered_tail :: "crates \<Rightarrow> stored_publish list \<Rightarrow> nat \<Rightarrow> nat \<Rightarrow> publish_search_page" where
  "page_from_ordered_tail x records limit seen_before =
     (let seen_before = min seen_before PUBLISH_SEARCH_WINDOW_LIMIT;
          remaining_window = PUBLISH_SEARCH_WINDOW_LIMIT - seen_before;
          page_limit = min limit remaining_window;
          candidates = take (page_limit + 1) records;
          has_extra = length candidates > page_limit;
          candidates = (if has_extra then take page_limit candidates else candidates);
          new_seen = seen_before + length candidates;
          has_more = (has_extra \<and> new_seen < PUBLISH_SEARCH_WINDOW_LIMIT);
          next_cursor = (if has_more \<and> candidates \<noteq> []
            then Some (search_cursor_encode x \<lparr>psc_created_at = sp_created (last candidates),
                         psc_id = sp_id (last candidates), psc_seen = new_seen\<rparr>)
            else None)
      in \<lparr>page_records = map sp_object candidates, page_next_cursor = next_cursor, page_has_more = has_more\<rparr>)"

definition paginate_ordered_publish_records ::
  "crates \<Rightarrow> stored_publish list \<Rightarrow> nat \<Rightarrow> publish_search_cursor option \<Rightarrow> publish_search_page" where
  "paginate_ordered_publish_records x ordered limit cursor =
     (let start_index = (case cursor of
            None \<Rightarrow> 0
          | Some c \<Rightarrow> (case position (\<lambda>entry. publish_record_is_older_than_cursor entry c) ordered of
                        Some i \<Rightarrow> i | None \<Rightarrow> length ordered))
      in page_from_ordered_tail x (drop start_index ordered) limit
           (case cursor of None \<Rightarrow> 0 | Some c \<Rightarrow> psc_seen c))"

text \<open>What a search walks through: the listed records that carry the tag, newest first.\<close>

definition search_order :: "string option \<Rightarrow> stored_publish list \<Rightarrow> stored_publish list" where
  "search_order tag records =
     sort_by compare_publish_records_newest_first
       (filter (publish_record_matches_tag tag) (filter sp_listed records))"

definition publish_search :: "crates \<Rightarrow> publish_search_request \<Rightarrow> stored_publish disk \<Rightarrow> string + publish_search_page" where
  "publish_search x q d =
     map_ok (\<lambda>records. paginate_ordered_publish_records x (search_order (psr_tag q) records)
                          (psr_limit q) (psr_cursor q)) (load d)"

section \<open>Discovery\<close>

definition DISCOVER_CANDIDATE_LIMIT :: nat where "DISCOVER_CANDIDATE_LIMIT = 200"
definition DISCOVER_MAX_TAGS :: nat where "DISCOVER_MAX_TAGS = 5"
definition DISCOVER_ROTATION_SECONDS :: int where "DISCOVER_ROTATION_SECONDS = 300"

record publish_discover_request =
  pdr_tags :: "string list"
  pdr_limit :: nat
  pdr_seed :: string

definition discover_tag_overlap :: "publish_object \<Rightarrow> string list \<Rightarrow> nat" where
  "discover_tag_overlap object tags = length (filter (\<lambda>tag. tag \<in> set (prp_tags (obj_payload object))) tags)"

definition discover_record_matches_tags :: "publish_object \<Rightarrow> string list \<Rightarrow> bool" where
  "discover_record_matches_tags object tags \<longleftrightarrow> tags = [] \<or> discover_tag_overlap object tags > 0"

text \<open>The loop of \<^verbatim>\<open>normalize_discover_tags\<close>, with the tags collected so far.\<close>

fun normalize_discover_tags_loop :: "string list \<Rightarrow> string list \<Rightarrow> string list" where
  "normalize_discover_tags_loop normalized [] = normalized"
| "normalize_discover_tags_loop normalized (tag # tags) =
     (let tag = to_ascii_lowercase (trim tag) in
      if tag = [] \<or> tag \<in> set normalized then normalize_discover_tags_loop normalized tags
      else let normalized = normalized @ [tag] in
        if length normalized \<ge> DISCOVER_MAX_TAGS then normalized
        else normalize_discover_tags_loop normalized tags)"

definition normalize_discover_tags :: "string list \<Rightarrow> string list" where
  "normalize_discover_tags tags = normalize_discover_tags_loop [] tags"

definition discover_candidate_limit :: "publish_discover_request \<Rightarrow> nat" where
  "discover_candidate_limit q = min (DISCOVER_CANDIDATE_LIMIT * max (length (pdr_tags q)) 1) usize_max"

text \<open>\<^verbatim>\<open>u64::from_be_bytes\<close> of the first eight bytes of the digest.\<close>

definition u64_from_be_bytes :: "bytes \<Rightarrow> nat" where
  "u64_from_be_bytes bs = foldl (\<lambda>a b. 256 * a + byte b) 0 (take 8 bs)"

definition discover_score :: "crates \<Rightarrow> string \<Rightarrow> string \<Rightarrow> nat" where
  "discover_score x seed publish_id = u64_from_be_bytes (sha256 x (seed @ CHR 0x00 # publish_id))"

text \<open>Signed division truncates toward zero.\<close>

definition current_discover_seed :: "datetime \<Rightarrow> string" where
  "current_discover_seed now =
     (let bucket = timestamp now sdiv DISCOVER_ROTATION_SECONDS in ''time:'' @ show_int bucket)"

definition compare_discover :: "crates \<Rightarrow> publish_discover_request \<Rightarrow> publish_object \<Rightarrow> publish_object \<Rightarrow> ordering" where
  "compare_discover x q l r =
     then_with (cmp (discover_tag_overlap r (pdr_tags q)) (discover_tag_overlap l (pdr_tags q)))
     (then_with (cmp (discover_score x (pdr_seed q) (obj_id r)) (discover_score x (pdr_seed q) (obj_id l)))
     (then_with (cmp (obj_created_at r) (obj_created_at l))
        (cmp (obj_id l) (obj_id r))))"

definition rank_discover_records :: "crates \<Rightarrow> publish_object list \<Rightarrow> publish_discover_request \<Rightarrow> publish_object list" where
  "rank_discover_records x candidates q =
     take (pdr_limit q) (sort_by (compare_discover x q)
       (filter (\<lambda>r. discover_record_matches_tags r (pdr_tags q)) candidates))"

definition discover_candidates :: "publish_discover_request \<Rightarrow> stored_publish list \<Rightarrow> publish_object list" where
  "discover_candidates q records =
     map sp_object (take (discover_candidate_limit q)
       (sort_by compare_publish_records_newest_first
         (filter (\<lambda>entry. discover_record_matches_tags (sp_object entry) (pdr_tags q)) (filter sp_listed records))))"

definition publish_discover :: "crates \<Rightarrow> publish_discover_request \<Rightarrow> stored_publish disk \<Rightarrow> string + publish_object list" where
  "publish_discover x q d = map_ok (\<lambda>records. rank_discover_records x (discover_candidates q records) q) (load d)"

end
