(* ===== verification/Message_Store.thy ===== *)
theory Message_Store
  imports Files Protocol
begin

text \<open>
  \<^verbatim>\<open>FileMessageStore\<close> of the server: message envelopes kept by id, the inbox of a recipient, the
  count. An envelope once stored stays as it is; an inbox is the oldest unexpired envelopes of the
  recipient, up to the limit.
\<close>

record stored_message =
  sm_object :: message_object
  sm_stored_at :: datetime

abbreviation sm_id :: "stored_message \<Rightarrow> string" where "sm_id e \<equiv> obj_id (sm_object e)"
abbreviation sm_created :: "stored_message \<Rightarrow> datetime" where "sm_created e \<equiv> obj_created_at (sm_object e)"
abbreviation sm_payload :: "stored_message \<Rightarrow> message_envelope_payload" where
  "sm_payload e \<equiv> obj_payload (sm_object e)"

definition message_insert_records ::
  "datetime \<Rightarrow> message_object \<Rightarrow> stored_message list \<Rightarrow> unit \<times> stored_message list option" where
  "message_insert_records now object records =
     (if \<exists>entry \<in> set records. sm_id entry = obj_id object then ((), None)
      else ((), Some (records @ [\<lparr>sm_object = object, sm_stored_at = now\<rparr>])))"

definition message_insert ::
  "io_plan \<Rightarrow> datetime \<Rightarrow> message_object \<Rightarrow> stored_message disk \<Rightarrow> (string + unit) \<times> stored_message disk" where
  "message_insert io now object = store_update io (message_insert_records now object)"

definition compare_messages :: "stored_message \<Rightarrow> stored_message \<Rightarrow> ordering" where
  "compare_messages l r = then_with (cmp (sm_created l) (sm_created r)) (cmp (sm_id l) (sm_id r))"

text \<open>What an inbox is cut from.\<close>

definition inbox_order :: "peer_id \<Rightarrow> datetime \<Rightarrow> stored_message list \<Rightarrow> stored_message list" where
  "inbox_order recipient now records =
     sort_by compare_messages
       (filter (\<lambda>entry. mep_expires_at (sm_payload entry) > now)
         (filter (\<lambda>entry. mep_recipient (sm_payload entry) = recipient) records))"

definition message_inbox ::
  "peer_id \<Rightarrow> nat \<Rightarrow> datetime \<Rightarrow> stored_message disk \<Rightarrow> string + message_object list" where
  "message_inbox recipient limit now d =
     map_ok (\<lambda>records. map sm_object (take limit (inbox_order recipient now records))) (load d)"

definition message_count :: "stored_message disk \<Rightarrow> string + nat" where
  "message_count d = map_ok length (load d)"

section \<open>Lemmas\<close>

interpretation message_order: keyed_comparison compare_messages sm_id
  by unfold_locales (auto simp: compare_messages_def)

definition messages_ok :: "stored_message list \<Rightarrow> bool" where
  "messages_ok rs \<longleftrightarrow> distinct (map sm_id rs)"

lemma message_insert_keeps_ok:
  "messages_ok rs \<Longrightarrow> message_insert_records now m rs = (st, Some rs') \<Longrightarrow> messages_ok rs'"
  by (fastforce simp: message_insert_records_def messages_ok_def image_iff split: if_splits)

lemma messages_ok_unique:
  "messages_ok rs \<Longrightarrow> e \<in> set rs \<Longrightarrow> e' \<in> set rs \<Longrightarrow> sm_id e' = sm_id e \<Longrightarrow> e' = e"
  unfolding messages_ok_def distinct_map by (meson inj_onD)

fun message_run :: "(io_plan \<times> datetime \<times> message_object) list \<Rightarrow> stored_message disk \<Rightarrow> stored_message disk" where
  "message_run [] d = d"
| "message_run ((io, now, m) # ms) d = message_run ms (snd (message_insert io now m d))"

lemma message_insert_inv: "disk_inv messages_ok d \<Longrightarrow> disk_inv messages_ok (snd (message_insert io now m d))"
  unfolding message_insert_def by (rule disk_inv_update) (auto intro: message_insert_keeps_ok)

lemma message_insert_load:
  "load (snd (message_insert io now m d)) = load d \<or>
   (\<exists>rs. load d = Ok rs \<and> (\<forall>e \<in> set rs. sm_id e \<noteq> obj_id m) \<and>
      load (snd (message_insert io now m d)) = Ok (rs @ [\<lparr>sm_object = m, sm_stored_at = now\<rparr>]))"
proof -
  obtain r d' where u: "store_update io (message_insert_records now m) d = (r, d')"
    by (cases "store_update io (message_insert_records now m) d")
  from store_update_result [OF u] u show ?thesis
    by (auto simp: message_insert_def message_insert_records_def split: if_splits)
qed

lemma message_insert_grows:
  "load d = Ok rs \<Longrightarrow> \<exists>new. load (snd (message_insert io now m d)) = Ok (rs @ new)"
  using message_insert_load [of io now m d] by auto

lemma message_run_grows:
  "load d = Ok rs \<Longrightarrow> \<exists>new. load (message_run ms d) = Ok (rs @ new)"
proof (induction ms arbitrary: d rs)
  case Nil
  then show ?case by simp
next
  case (Cons a ms)
  obtain io now m where a: "a = (io, now, m)" by (cases a)
  obtain new where n: "load (snd (message_insert io now m d)) = Ok (rs @ new)"
    using message_insert_grows [OF Cons.prems] by blast
  from Cons.IH [OF n] show ?case by (auto simp: a)
qed

text \<open>
  Messages are kept as they were first stored: ids stay distinct, and whatever is inserted
  afterwards, with whatever I/O errors, an envelope in the store stays in it unchanged. Inserting an
  envelope that is there changes nothing and reports success, even if another envelope has its id.
\<close>

theorem message_store_keeps:
  assumes "disk_inv messages_ok d" and "load d = Ok rs" and "e \<in> set rs"
  shows "disk_inv messages_ok (message_run ms d) \<and>
    (\<exists>rs'. load (message_run ms d) = Ok rs' \<and> e \<in> set rs' \<and>
       (\<forall>e' \<in> set rs'. sm_id e' = sm_id e \<longrightarrow> e' = e)) \<and>
    (\<forall>io now m. obj_id m = sm_id e \<longrightarrow> message_insert io now m d = (Ok (), d))"
proof -
  have inv: "disk_inv messages_ok (message_run ms d)"
    using assms(1) by (induction ms d rule: message_run.induct) (auto intro: message_insert_inv)
  obtain new where l: "load (message_run ms d) = Ok (rs @ new)"
    using message_run_grows [OF assms(2)] by blast
  with inv have "messages_ok (rs @ new)" by (simp add: disk_inv_def)
  then have "\<forall>e' \<in> set (rs @ new). sm_id e' = sm_id e \<longrightarrow> e' = e"
    using messages_ok_unique [of "rs @ new" e] assms(3) by auto
  moreover have "message_insert io now m d = (Ok (), d)" if "obj_id m = sm_id e" for io now m
    using that assms(2,3) by (auto simp: message_insert_def store_update_def message_insert_records_def)
  ultimately show ?thesis using inv l assms(3) by auto
qed

definition sample_envelope :: "string \<Rightarrow> string \<Rightarrow> datetime \<Rightarrow> datetime \<Rightarrow> message_object" where
  "sample_envelope i recipient created expires =
     \<lparr>obj_protocol = PROTOCOL_ID, obj_type = ''message.envelope'', obj_id = i, obj_created_at = created,
      obj_extensions = [],
      obj_payload = \<lparr>mep_sender = PeerId ''peer_a'', mep_recipient = PeerId recipient,
        mep_content_encoding = ''text/plain'',
        mep_encryption = \<lparr>me_suite = MESSAGE_ENCRYPTION_SUITE, me_recipient_key_id = ''key_1'',
          me_ephemeral_public_key = [], me_nonce = []\<rparr>,
        mep_ciphertext = ''ct'', mep_expires_at = expires, mep_ttl_seconds = 604800\<rparr>,
      obj_signature = \<lparr>sig_alg = ED25519_ALG, sig_public_key = ''pk'', sig_value = ''s''\<rparr>\<rparr>"

definition message_disk :: "stored_message list \<Rightarrow> stored_message disk" where
  "message_disk rs = \<lparr>disk_path = ''m'', main_file = Content rs, temp_file = Missing\<rparr>"

lemma message_disk_load [simp]: "load (message_disk rs) = Ok rs"
  by (simp add: message_disk_def load_def)

theorem message_store_keeps_witness:
  "let e = \<lparr>sm_object = sample_envelope ''msg_1'' ''peer_b'' 0 9, sm_stored_at = 0\<rparr>;
       m = sample_envelope ''msg_1'' ''peer_c'' 1 9
   in message_insert io_ok 5 m (message_disk [e]) = (Ok (), message_disk [e])"
proof -
  let ?e = "\<lparr>sm_object = sample_envelope ''msg_1'' ''peer_b'' 0 9, sm_stored_at = 0\<rparr>"
  have "disk_inv messages_ok (message_disk [?e])" by (simp add: disk_inv_def messages_ok_def)
  from message_store_keeps [OF this message_disk_load, of ?e]
  show ?thesis by (simp add: Let_def sample_envelope_def)
qed

text \<open>
  An inbox shows the recipient's own unexpired envelopes and nothing else, oldest first, at most
  \<open>limit\<close> of them, and all of them when they are no more than the limit.
\<close>

theorem message_inbox_exact:
  assumes "load d = Ok rs" and "message_inbox recipient limit now d = Ok ms"
  shows "set ms \<subseteq> sm_object ` {e \<in> set rs. mep_recipient (sm_payload e) = recipient \<and> now < mep_expires_at (sm_payload e)} \<and>
    length ms \<le> limit \<and>
    sorted_wrt (\<lambda>a b. obj_created_at a < obj_created_at b \<or>
      obj_created_at a = obj_created_at b \<and> obj_id a \<le> obj_id b) ms \<and>
    (length ms < limit \<longrightarrow> set ms = sm_object ` {e \<in> set rs. mep_recipient (sm_payload e) = recipient \<and> now < mep_expires_at (sm_payload e)})"
proof -
  let ?xs = "inbox_order recipient now rs"
  have ms: "ms = map sm_object (take limit ?xs)"
    using assms by (simp add: message_inbox_def)
  have set_xs: "set ?xs = {e \<in> set rs. mep_recipient (sm_payload e) = recipient \<and> now < mep_expires_at (sm_payload e)}"
    by (auto simp: inbox_order_def)
  have "sorted_wrt message_order.le (take limit ?xs)"
    unfolding inbox_order_def by (rule sorted_wrt_take) (rule message_order.sorted_sort_by)
  then have "sorted_wrt (\<lambda>a b. obj_created_at a < obj_created_at b \<or>
      obj_created_at a = obj_created_at b \<and> obj_id a \<le> obj_id b) ms"
    unfolding ms sorted_wrt_map
    by (rule sorted_wrt_mono_rel [rotated])
      (auto simp: message_order.le_def compare_messages_def not_less)
  moreover have "set ms = sm_object ` set ?xs" if "length ms < limit"
    using that by (simp add: ms)
  moreover have "set ms \<subseteq> sm_object ` set ?xs"
    unfolding ms using set_take_subset by (metis image_mono set_map)
  ultimately show ?thesis by (simp add: set_xs ms)
qed

theorem message_inbox_exact_witness:
  "\<exists>ms. message_inbox (PeerId ''peer_b'') 2 5
     (message_disk [\<lparr>sm_object = sample_envelope ''msg_1'' ''peer_b'' 0 9, sm_stored_at = 0\<rparr>]) = Ok ms \<and> length ms \<le> 2"
proof -
  let ?rs = "[\<lparr>sm_object = sample_envelope ''msg_1'' ''peer_b'' 0 9, sm_stored_at = 0\<rparr>]"
  obtain ms where ms: "message_inbox (PeerId ''peer_b'') 2 5 (message_disk ?rs) = Ok ms"
    by (simp add: message_inbox_def)
  from message_inbox_exact [OF message_disk_load ms] ms show ?thesis by auto
qed

text \<open>
  An inbox has no second page: while as many older unexpired envelopes as the limit are stored
  for the recipient, a later envelope is in no inbox of that limit, whatever else arrives.
\<close>

theorem message_inbox_starves:
  assumes "disk_inv messages_ok d" "load d = Ok rs" "e \<in> set rs"
    and "limit \<le> card {e' \<in> set rs. mep_recipient (sm_payload e') = recipient \<and>
       now < mep_expires_at (sm_payload e') \<and> sm_created e' < sm_created e}"
    and "message_inbox recipient limit now (message_run ms d) = Ok box"
  shows "obj_id (sm_object e) \<notin> obj_id ` set box"
proof
  assume shown: "obj_id (sm_object e) \<in> obj_id ` set box"
  obtain new where l: "load (message_run ms d) = Ok (rs @ new)"
    using message_run_grows [OF assms(2)] by blast
  have inv: "disk_inv messages_ok (message_run ms d)"
    using assms(1) by (induction ms d rule: message_run.induct) (auto intro: message_insert_inv)
  then have ok: "messages_ok (rs @ new)" using l by (simp add: disk_inv_def)
  let ?xs = "inbox_order recipient now (rs @ new)"
  have box: "box = map sm_object (take limit ?xs)"
    using assms(5) l by (simp add: message_inbox_def)
  have set_xs: "set ?xs = {e \<in> set (rs @ new). mep_recipient (sm_payload e) = recipient \<and> now < mep_expires_at (sm_payload e)}"
    by (auto simp: inbox_order_def)
  have dist: "distinct (map sm_id ?xs)"
    using ok unfolding inbox_order_def messages_ok_def distinct_map_sort_by by (intro distinct_map_filter)
  obtain i where i: "i < length ?xs" "i < limit" "sm_id (?xs ! i) = sm_id e"
    using shown by (auto simp: box in_set_conv_nth)
  have "?xs ! i \<in> set (rs @ new)" using i(1) set_xs nth_mem by blast
  then have xi: "?xs ! i = e"
    using i(3) assms(3) messages_ok_unique [OF ok, of e "?xs ! i"] by simp
  let ?older = "{e' \<in> set rs. mep_recipient (sm_payload e') = recipient \<and>
       now < mep_expires_at (sm_payload e') \<and> sm_created e' < sm_created e}"
  have sorted: "sorted_wrt message_order.less ?xs"
    by (rule message_order.sorted_less [OF _ dist]) (simp add: inbox_order_def message_order.sorted_sort_by)
  have "?older \<subseteq> (\<lambda>j. ?xs ! j) ` {..<i}"
  proof
    fix f assume f: "f \<in> ?older"
    then have "f \<in> set ?xs" by (auto simp: set_xs)
    then obtain j where j: "j < length ?xs" "?xs ! j = f" by (metis in_set_conv_nth)
    have "\<not> i \<le> j"
    proof
      assume "i \<le> j"
      with j f xi have "i < j" by (cases "i = j") auto
      with sorted j xi have "message_order.less e f" by (auto simp: sorted_wrt_iff_nth_less)
      with f show False by (auto simp: message_order.less_def compare_messages_def)
    qed
    with j show "f \<in> (\<lambda>j. ?xs ! j) ` {..<i}" by auto
  qed
  then have "card ?older \<le> i" using surj_card_le [of "{..<i}" ?older "\<lambda>j. ?xs ! j"] by simp
  with assms(4) i(2) show False by simp
qed

theorem message_inbox_starves_witness:
  "let old = \<lparr>sm_object = sample_envelope ''msg_1'' ''peer_b'' 0 9, sm_stored_at = 0\<rparr>;
       e = \<lparr>sm_object = sample_envelope ''msg_2'' ''peer_b'' 1 9, sm_stored_at = 1\<rparr>
   in \<forall>ms box. message_inbox (PeerId ''peer_b'') 1 5 (message_run ms (message_disk [old, e])) = Ok box
        \<longrightarrow> ''msg_2'' \<notin> obj_id ` set box"
proof -
  let ?old = "\<lparr>sm_object = sample_envelope ''msg_1'' ''peer_b'' 0 9, sm_stored_at = 0\<rparr>"
    and ?e = "\<lparr>sm_object = sample_envelope ''msg_2'' ''peer_b'' 1 9, sm_stored_at = 1\<rparr>"
  have "{e' \<in> set [?old, ?e]. mep_recipient (sm_payload e') = PeerId ''peer_b'' \<and>
       5 < mep_expires_at (sm_payload e') \<and> sm_created e' < sm_created ?e} = {?old}"
    by (auto simp: sample_envelope_def)
  then have card: "1 \<le> card {e' \<in> set [?old, ?e]. mep_recipient (sm_payload e') = PeerId ''peer_b'' \<and>
       5 < mep_expires_at (sm_payload e') \<and> sm_created e' < sm_created ?e}" by simp
  have inv: "disk_inv messages_ok (message_disk [?old, ?e])"
    by (simp add: disk_inv_def messages_ok_def sample_envelope_def)
  have mem: "?e \<in> set [?old, ?e]" by simp
  have "obj_id (sm_object ?e) = ''msg_2''" by (simp add: sample_envelope_def)
  then show ?thesis
    unfolding Let_def using message_inbox_starves [OF inv message_disk_load mem card] by simp
qed

end
