(* ===== verification/Buckets.thy ===== *)
theory Buckets
  imports Files Serde
begin

text \<open>
  What the two bearer-token stores of the server share, hosted backups and activity: a file of
  buckets, each with an id and the hash of the token that opened it. The locale states what a bucket
  promises; what follows is that a bucket belongs to its token for good, and that without the token
  nothing in it can be changed.
\<close>

definition bucket_update ::
  "('b \<Rightarrow> string) \<Rightarrow> ('b \<Rightarrow> 'st \<times> 'b) \<Rightarrow> 'b \<Rightarrow> ('st \<Rightarrow> bool) \<Rightarrow> string \<Rightarrow> 'b list \<Rightarrow> 'st \<times> 'b list option" where
  "bucket_update bucket_id put fresh stored i buckets =
     (let (status, buckets') =
        (case find (\<lambda>b. bucket_id b = i) buckets of
           Some b \<Rightarrow> (fst (put b), update_first (\<lambda>b. bucket_id b = i) (\<lambda>b. snd (put b)) buckets)
         | None \<Rightarrow> (fst (put fresh), buckets @ [snd (put fresh)]))
      in (status, if stored status then Some buckets' else None))"

locale auth_bucket =
  fixes bucket_id :: "'b \<Rightarrow> string" and auth_hash :: "'b \<Rightarrow> string"
    and hash :: "string \<Rightarrow> string"
    and put :: "string \<Rightarrow> 'v \<Rightarrow> datetime \<Rightarrow> 'b \<Rightarrow> 'st \<times> 'b" and stored :: "'st \<Rightarrow> bool"
    and fresh :: "string \<Rightarrow> string \<Rightarrow> datetime \<Rightarrow> 'b"
  assumes put_id: "bucket_id (snd (put t v now b)) = bucket_id b"
    and put_auth: "auth_hash (snd (put t v now b)) = auth_hash b"
    and put_stored: "stored (fst (put t v now b)) \<longleftrightarrow> auth_hash b = hash t"
    and fresh_id: "bucket_id (fresh i h now) = i"
    and fresh_auth: "auth_hash (fresh i h now) = h"
begin

definition put_records :: "string \<Rightarrow> string \<Rightarrow> 'v \<Rightarrow> datetime \<Rightarrow> 'b list \<Rightarrow> 'st \<times> 'b list option" where
  "put_records i t v now = bucket_update bucket_id (put t v now) (fresh i (hash t) now) stored i"

definition ok :: "'b list \<Rightarrow> bool" where
  "ok bs \<longleftrightarrow> distinct (map bucket_id bs)"

definition bucket :: "'b list \<Rightarrow> string \<Rightarrow> 'b option" where
  "bucket bs i = find (\<lambda>b. bucket_id b = i) bs"

lemma put_records_Some:
  assumes "put_records i t v now bs = (st, Some bs')"
  shows "stored st \<and>
    (case bucket bs i of
       Some b \<Rightarrow> auth_hash b = hash t \<and> bs' = update_first (\<lambda>b. bucket_id b = i) (\<lambda>b. snd (put t v now b)) bs
     | None \<Rightarrow> bs' = bs @ [snd (put t v now (fresh i (hash t) now))])"
proof (cases "bucket bs i")
  case None
  then show ?thesis
    using assms by (auto simp: put_records_def bucket_update_def bucket_def split: if_splits)
next
  case (Some b)
  then show ?thesis
    using assms put_stored [of t v now b]
    by (auto simp: put_records_def bucket_update_def bucket_def split: if_splits)
qed

lemma put_records_unauthorized:
  "bucket bs i = Some b \<Longrightarrow> auth_hash b \<noteq> hash t \<Longrightarrow> snd (put_records i t v now bs) = None"
  using put_stored [of t v now b] by (simp add: put_records_def bucket_update_def bucket_def)

lemma put_keeps_ok:
  assumes "ok bs" "put_records i t v now bs = (st, Some bs')"
  shows "ok bs'"
proof (cases "bucket bs i")
  case None
  then have "i \<notin> bucket_id ` set bs" by (simp add: bucket_def find_key_None_iff)
  with None show ?thesis
    using put_records_Some [OF assms(2)] assms(1) by (auto simp: ok_def put_id fresh_id)
next
  case (Some b)
  then show ?thesis
    using put_records_Some [OF assms(2)] assms(1)
    by (simp add: ok_def distinct_update_first put_id)
qed

lemma put_bucket:
  assumes "put_records i t v now bs = (st, Some bs')"
  shows "bucket bs' j =
    (if j = i then Some (snd (put t v now (case bucket bs i of Some b \<Rightarrow> b | None \<Rightarrow> fresh i (hash t) now)))
     else bucket bs j)"
proof (cases "bucket bs i")
  case None
  then show ?thesis
    using put_records_Some [OF assms] put_id [of t v now "fresh i (hash t) now"]
    by (auto simp: bucket_def find_append fresh_id split: option.splits)
next
  case (Some b)
  have upd: "bs' = update_first (\<lambda>b. bucket_id b = i) (\<lambda>b. snd (put t v now b)) bs"
    using put_records_Some [OF assms] Some by simp
  show ?thesis
  proof (cases "j = i")
    case True
    with Some upd show ?thesis
      using find_update_first [of "\<lambda>b. bucket_id b = i" "\<lambda>b. snd (put t v now b)" bs]
      by (simp add: bucket_def put_id)
  next
    case False
    with upd show ?thesis
      using find_update_first_other [of "\<lambda>b. bucket_id b = i" "\<lambda>b. bucket_id b = j" "\<lambda>b. snd (put t v now b)" bs]
      by (simp add: bucket_def put_id)
  qed
qed

lemma put_keeps_buckets:
  assumes "put_records i t v now bs = (st, Some bs')" "bucket bs j = Some b"
  shows "\<exists>b'. bucket bs' j = Some b' \<and> auth_hash b' = auth_hash b \<and> bucket_id b' = bucket_id b \<and>
    (j = i \<and> hash t = auth_hash b \<or> b' = b)"
  using put_bucket [OF assms(1), of j] assms(2) put_records_Some [OF assms(1)]
  by (cases "j = i") (auto simp: put_auth put_id)

text \<open>A run of puts on the file: id, token, value, clock and I/O of each.\<close>

fun run :: "(string \<times> string \<times> 'v \<times> datetime \<times> io_plan) list \<Rightarrow> 'b disk \<Rightarrow> 'b disk" where
  "run [] d = d"
| "run ((i, t, v, now, io) # ps) d = run ps (snd (store_update io (put_records i t v now) d))"

lemma run_inv: "disk_inv ok d \<Longrightarrow> disk_inv ok (run ps d)"
proof (induction ps d rule: run.induct)
  case (2 i t v now io ps d)
  then show ?case by (simp add: disk_inv_update put_keeps_ok)
qed simp

lemma step_load:
  "load (snd (store_update io (put_records i t v now) d)) = load d \<or>
   (\<exists>bs st bs'. load d = Ok bs \<and> put_records i t v now bs = (st, Some bs') \<and>
      load (snd (store_update io (put_records i t v now) d)) = Ok bs')"
proof -
  obtain r d' where u: "store_update io (put_records i t v now) d = (r, d')"
    by (cases "store_update io (put_records i t v now) d")
  from store_update_result [OF u] u show ?thesis by auto
qed

text \<open>A bucket keeps its token, and a run without the token leaves it as it is.\<close>

lemma run_owner:
  "load d = Ok bs \<Longrightarrow> bucket bs j = Some b \<Longrightarrow>
   \<exists>bs' b'. load (run ps d) = Ok bs' \<and> bucket bs' j = Some b' \<and> auth_hash b' = auth_hash b \<and>
     ((\<forall>(i, t, _) \<in> set ps. i = j \<longrightarrow> hash t \<noteq> auth_hash b) \<longrightarrow> b' = b)"
proof (induction ps arbitrary: d bs b)
  case Nil
  then show ?case by simp
next
  case (Cons p ps)
  obtain i t v now io where p: "p = (i, t, v, now, io)" by (cases p)
  let ?d = "snd (store_update io (put_records i t v now) d)"
  obtain bs1 b1 where s: "load ?d = Ok bs1" "bucket bs1 j = Some b1" "auth_hash b1 = auth_hash b"
      "(j = i \<and> hash t = auth_hash b) \<or> b1 = b"
    using step_load [of io i t v now d] Cons.prems put_keeps_buckets [of i t v now bs _ _ j b] by fastforce
  from Cons.IH [OF s(1,2)] s(3,4) show ?case by (fastforce simp: p)
qed

end

end
