(* ===== verification/Backup_Store.thy ===== *)
theory Backup_Store
  imports Buckets
begin

text \<open>
  Hosted backups on the server (\<^verbatim>\<open>StoredHostedBackupBucket\<close>, \<^verbatim>\<open>FileBackupStore\<close>): a bucket per lookup
  id holds the newest ten generations of an encrypted backup, open to the holder of the token it was
  made with. A backup is any JSON value; the handler checks it before.
\<close>

definition MAX_BACKUP_GENERATIONS :: nat where "MAX_BACKUP_GENERATIONS = 10"

record hosted_generation =
  hg_generation_id :: string
  hg_created_at :: datetime
  hg_size_bytes :: nat
  hg_content_sha256 :: string
  hg_backup :: json
  hg_deleted :: bool

record hosted_bucket =
  hb_lookup_id :: string
  hb_auth_hash :: string
  hb_generations :: "hosted_generation list"
  hb_created_at :: datetime
  hb_updated_at :: datetime

datatype backup_put_status = BackupStored hosted_generation | PutUnauthorized
datatype backup_read_status = BackupFound hosted_generation | BackupNotFound | ReadUnauthorized
datatype backup_list_status = GenerationsFound "hosted_generation list" | GenerationsNotFound | ListUnauthorized

definition backup_auth_hash :: "crates \<Rightarrow> string \<Rightarrow> string" where
  "backup_auth_hash x auth_token = ''sha256:'' @ sha256_hex x auth_token"

definition backup_generation_id :: "crates \<Rightarrow> datetime \<Rightarrow> bytes \<Rightarrow> string" where
  "backup_generation_id x created_at bs =
     (let digest_prefix = take 16 (sha256_hex x bs)
      in ''gen_'' @ show_int (timestamp_millis created_at) @ ''_'' @ digest_prefix)"

definition compare_generations_oldest_first :: "hosted_generation \<Rightarrow> hosted_generation \<Rightarrow> ordering" where
  "compare_generations_oldest_first l r =
     then_with (cmp (hg_created_at l) (hg_created_at r)) (cmp (hg_generation_id l) (hg_generation_id r))"

definition compare_generations_newest_first :: "hosted_generation \<Rightarrow> hosted_generation \<Rightarrow> ordering" where
  "compare_generations_newest_first l r = compare_generations_oldest_first r l"

definition hosted_bucket_new :: "string \<Rightarrow> string \<Rightarrow> datetime \<Rightarrow> hosted_bucket" where
  "hosted_bucket_new lookup_id auth_hash now =
     \<lparr>hb_lookup_id = lookup_id, hb_auth_hash = auth_hash, hb_generations = [], hb_created_at = now,
      hb_updated_at = now\<rparr>"

definition backup_authorize :: "crates \<Rightarrow> string \<Rightarrow> hosted_bucket \<Rightarrow> bool" where
  "backup_authorize x auth_token b \<longleftrightarrow> hb_auth_hash b = backup_auth_hash x auth_token"

definition new_generation :: "crates \<Rightarrow> json \<Rightarrow> datetime \<Rightarrow> hosted_generation" where
  "new_generation x backup now =
     (let bs = json_text x backup
      in \<lparr>hg_generation_id = backup_generation_id x now bs, hg_created_at = now, hg_size_bytes = length bs,
          hg_content_sha256 = ''sha256:'' @ sha256_hex x bs, hg_backup = backup, hg_deleted = False\<rparr>)"

definition hosted_bucket_put ::
  "crates \<Rightarrow> string \<Rightarrow> json \<Rightarrow> datetime \<Rightarrow> hosted_bucket \<Rightarrow> backup_put_status \<times> hosted_bucket" where
  "hosted_bucket_put x auth_token backup now b =
     (if \<not> backup_authorize x auth_token b then (PutUnauthorized, b)
      else
        let generation = new_generation x backup now;
            generations = sort_by compare_generations_newest_first (hb_generations b @ [generation]);
            generations = filter (\<lambda>g. \<not> hg_deleted g) generations;
            generations = (if length generations > MAX_BACKUP_GENERATIONS
                           then take MAX_BACKUP_GENERATIONS generations else generations)
        in (BackupStored generation, b\<lparr>hb_generations := generations, hb_updated_at := now\<rparr>))"

definition hosted_bucket_latest :: "crates \<Rightarrow> string \<Rightarrow> hosted_bucket \<Rightarrow> backup_read_status" where
  "hosted_bucket_latest x auth_token b =
     (if \<not> backup_authorize x auth_token b then ReadUnauthorized
      else case max_by compare_generations_oldest_first (filter (\<lambda>g. \<not> hg_deleted g) (hb_generations b)) of
        Some g \<Rightarrow> BackupFound g | None \<Rightarrow> BackupNotFound)"

definition hosted_bucket_list :: "crates \<Rightarrow> string \<Rightarrow> hosted_bucket \<Rightarrow> backup_list_status" where
  "hosted_bucket_list x auth_token b =
     (if \<not> backup_authorize x auth_token b then ListUnauthorized
      else GenerationsFound (sort_by compare_generations_newest_first
             (filter (\<lambda>g. \<not> hg_deleted g) (hb_generations b))))"

definition backup_is_stored :: "backup_put_status \<Rightarrow> bool" where
  "backup_is_stored st = (case st of BackupStored g \<Rightarrow> True | PutUnauthorized \<Rightarrow> False)"

definition backup_put_records ::
  "crates \<Rightarrow> string \<Rightarrow> string \<Rightarrow> json \<Rightarrow> datetime \<Rightarrow> hosted_bucket list \<Rightarrow>
   backup_put_status \<times> hosted_bucket list option" where
  "backup_put_records x lookup_id auth_token backup now =
     bucket_update hb_lookup_id (hosted_bucket_put x auth_token backup now)
       (hosted_bucket_new lookup_id (backup_auth_hash x auth_token) now) backup_is_stored lookup_id"

definition backup_put ::
  "crates \<Rightarrow> io_plan \<Rightarrow> datetime \<Rightarrow> string \<Rightarrow> string \<Rightarrow> json \<Rightarrow> hosted_bucket disk \<Rightarrow>
   (string + backup_put_status) \<times> hosted_bucket disk" where
  "backup_put x io now lookup_id auth_token backup =
     store_update io (backup_put_records x lookup_id auth_token backup now)"

definition backup_latest :: "crates \<Rightarrow> string \<Rightarrow> string \<Rightarrow> hosted_bucket disk \<Rightarrow> string + backup_read_status" where
  "backup_latest x lookup_id auth_token d =
     map_ok (\<lambda>buckets. case find (\<lambda>b. hb_lookup_id b = lookup_id) buckets of
               None \<Rightarrow> BackupNotFound | Some b \<Rightarrow> hosted_bucket_latest x auth_token b) (load d)"

definition backup_list :: "crates \<Rightarrow> string \<Rightarrow> string \<Rightarrow> hosted_bucket disk \<Rightarrow> string + backup_list_status" where
  "backup_list x lookup_id auth_token d =
     map_ok (\<lambda>buckets. case find (\<lambda>b. hb_lookup_id b = lookup_id) buckets of
               None \<Rightarrow> GenerationsNotFound | Some b \<Rightarrow> hosted_bucket_list x auth_token b) (load d)"

section \<open>Lemmas\<close>

interpretation generations_oldest: keyed_comparison compare_generations_oldest_first hg_generation_id
  by unfold_locales (auto simp: compare_generations_oldest_first_def)

interpretation generations_newest: keyed_comparison compare_generations_newest_first hg_generation_id
  by unfold_locales
    (auto simp: compare_generations_newest_first_def compare_generations_oldest_first_def)

lemma bucket_put_keeps [simp]:
  "hb_lookup_id (snd (hosted_bucket_put x t v now b)) = hb_lookup_id b"
  "hb_auth_hash (snd (hosted_bucket_put x t v now b)) = hb_auth_hash b"
  "backup_is_stored (fst (hosted_bucket_put x t v now b)) \<longleftrightarrow> hb_auth_hash b = backup_auth_hash x t"
  by (auto simp: hosted_bucket_put_def backup_authorize_def Let_def backup_is_stored_def)

interpretation backups: auth_bucket hb_lookup_id hb_auth_hash "backup_auth_hash x" "hosted_bucket_put x"
  backup_is_stored hosted_bucket_new for x
  by unfold_locales (simp_all add: hosted_bucket_new_def)

lemma backup_put_records_eq: "backup_put_records x i t v now = backups.put_records x i t v now"
  by (simp add: backup_put_records_def backups.put_records_def)

text \<open>A bucket as the operations leave it: newest first, at most ten generations, none marked deleted.\<close>

definition bucket_ok :: "hosted_bucket \<Rightarrow> bool" where
  "bucket_ok b \<longleftrightarrow> length (hb_generations b) \<le> MAX_BACKUP_GENERATIONS \<and>
     sorted_wrt generations_newest.le (hb_generations b) \<and> (\<forall>g \<in> set (hb_generations b). \<not> hg_deleted g)"

definition backups_ok :: "hosted_bucket list \<Rightarrow> bool" where
  "backups_ok bs \<longleftrightarrow> distinct (map hb_lookup_id bs) \<and> (\<forall>b \<in> set bs. bucket_ok b)"

lemma bucket_put_ok: "bucket_ok b \<Longrightarrow> bucket_ok (snd (hosted_bucket_put x t v now b))"
  using generations_newest.sorted_sort_by
  by (auto simp: bucket_ok_def hosted_bucket_put_def Let_def sorted_wrt_filter sorted_wrt_take
      dest!: in_set_takeD)

lemma bucket_new_ok: "bucket_ok (hosted_bucket_new i h now)"
  by (simp add: bucket_ok_def hosted_bucket_new_def)

lemma backup_put_keeps_ok:
  assumes "backups_ok bs" "backup_put_records x i t v now bs = (st, Some bs')"
  shows "backups_ok bs'"
proof -
  have put: "backups.put_records x i t v now bs = (st, Some bs')"
    using assms(2) by (simp add: backup_put_records_eq)
  have "distinct (map hb_lookup_id bs')"
    using backups.put_keeps_ok [OF _ put] assms(1) by (simp add: backups_ok_def backups.ok_def)
  moreover have "\<forall>b \<in> set bs'. bucket_ok b"
    using backups.put_records_Some [OF put] assms(1) bucket_put_ok [OF bucket_new_ok]
    by (auto simp: backups_ok_def split: option.splits intro: bucket_put_ok dest!: set_update_first)
  ultimately show ?thesis by (simp add: backups_ok_def)
qed

lemma max_by_mem: "max_by c xs = Some m \<Longrightarrow> m \<in> set xs"
proof -
  have "foldl (\<lambda>m z. if c m z = Greater then m else z) y ys \<in> insert y (set ys)" for y and ys :: "'a list"
    by (induction ys arbitrary: y) auto
  then show "max_by c xs = Some m \<Longrightarrow> m \<in> set xs"
    by (cases xs) (auto simp: max_by_def)
qed

lemma max_by_max:
  assumes "max_by compare_generations_oldest_first xs = Some m" "g \<in> set xs"
  shows "hg_created_at g \<le> hg_created_at m"
proof -
  have f: "\<forall>g \<in> insert y (set ys). generations_oldest.le g
      (foldl (\<lambda>m z. if compare_generations_oldest_first m z = Greater then m else z) y ys)" for y ys
  proof (induction ys arbitrary: y)
    case Nil
    then show ?case using generations_oldest.le_total by auto
  next
    case (Cons z ys)
    let ?y = "if compare_generations_oldest_first y z = Greater then y else z"
    have "generations_oldest.le y ?y" "generations_oldest.le z ?y"
      using generations_oldest.le_total generations_oldest.flip [of y z] generations_oldest.flip [of z y]
      by (auto simp: generations_oldest.le_def)
    with Cons.IH [of ?y] show ?case
      by (auto intro: generations_oldest.le_trans)
  qed
  obtain y ys where xs: "xs = y # ys" using assms(2) by (cases xs) auto
  with assms f [of y ys] have "generations_oldest.le g m" by (auto simp: max_by_def)
  then show ?thesis by (auto simp: generations_oldest.le_def compare_generations_oldest_first_def)
qed

fun backup_run ::
  "crates \<Rightarrow> (string \<times> string \<times> json \<times> datetime \<times> io_plan) list \<Rightarrow> hosted_bucket disk \<Rightarrow> hosted_bucket disk" where
  "backup_run x [] d = d"
| "backup_run x ((i, t, v, now, io) # ps) d = backup_run x ps (snd (backup_put x io now i t v d))"

lemma backup_run_eq: "backup_run x ps d = backups.run x ps d"
  by (induction x ps d rule: backup_run.induct) (simp_all add: backup_put_def backup_put_records_eq)

text \<open>
  C29. Every file of hosted backups that the server's operations can leave is well formed: lookup ids
  are distinct, and each bucket holds at most ten generations, newest first, none marked deleted.
\<close>

theorem backup_store_wellformed:
  assumes "load (backup_run x ps (empty_disk p)) = Ok bs"
  shows "distinct (map hb_lookup_id bs) \<and>
     (\<forall>b \<in> set bs. length (hb_generations b) \<le> 10 \<and> (\<forall>g \<in> set (hb_generations b). \<not> hg_deleted g) \<and>
        sorted_wrt (\<lambda>g h. hg_created_at h \<le> hg_created_at g) (hb_generations b))"
proof -
  have inv: "disk_inv backups_ok d \<Longrightarrow> disk_inv backups_ok (backup_run x ps d)" for d
  proof (induction x ps d rule: backup_run.induct)
    case (2 x i t v now io ps d)
    then show ?case by (auto simp: backup_put_def intro!: disk_inv_update backup_put_keeps_ok)
  qed simp
  have "disk_inv backups_ok (empty_disk p)" by (simp add: backups_ok_def)
  from inv [OF this]
  have ok: "backups_ok bs" using assms by (simp add: disk_inv_def)
  have "sorted_wrt (\<lambda>g h. hg_created_at h \<le> hg_created_at g) gs" if "sorted_wrt generations_newest.le gs" for gs
    using that by (rule sorted_wrt_mono_rel [rotated])
      (auto simp: generations_newest.le_def compare_generations_newest_first_def compare_generations_oldest_first_def)
  with ok show ?thesis by (auto simp: backups_ok_def bucket_ok_def MAX_BACKUP_GENERATIONS_def)
qed

theorem backup_store_wellformed_witness:
  "\<exists>b. load (backup_run toy [(''look_1'', ''auth_1'', JNull, 7, io_ok)] (empty_disk ''b'')) = Ok [b] \<and>
     length (hb_generations b) \<le> 10"
proof -
  let ?p = "hosted_bucket_put toy ''auth_1'' JNull 7 (hosted_bucket_new ''look_1'' (backup_auth_hash toy ''auth_1'') 7)"
  have "backup_put_records toy ''look_1'' ''auth_1'' JNull 7 [] = (fst ?p, Some [snd ?p])"
    by (simp add: backup_put_records_def bucket_update_def hosted_bucket_new_def)
  from store_update_ok(2) [OF load_empty_disk [of "''b''"], of "backup_put_records toy ''look_1'' ''auth_1'' JNull 7", OF this]
  have b: "load (backup_run toy [(''look_1'', ''auth_1'', JNull, 7, io_ok)] (empty_disk ''b'')) = Ok [snd ?p]"
    by (auto simp: backup_put_def)
  from backup_store_wellformed [OF b] b show ?thesis by auto
qed

definition backup_disk :: "hosted_bucket list \<Rightarrow> hosted_bucket disk" where
  "backup_disk bs = \<lparr>disk_path = ''b'', main_file = Content bs, temp_file = Missing\<rparr>"

lemma backup_disk_load [simp]: "load (backup_disk bs) = Ok bs"
  by (simp add: backup_disk_def load_def)

text \<open>
  Hosted backups are the token holder's: after any run of puts a bucket is still there with the
  same token hash, and if none of the puts to its id came with a token of that hash it is unchanged; a
  read or a list with another token is refused.
\<close>

theorem backup_bucket_owner:
  assumes "load d = Ok bs" and "find (\<lambda>b. hb_lookup_id b = j) bs = Some b"
  shows "\<exists>bs' b'. load (backup_run x ps d) = Ok bs' \<and> find (\<lambda>b. hb_lookup_id b = j) bs' = Some b' \<and>
    hb_auth_hash b' = hb_auth_hash b \<and>
    ((\<forall>(i, t, _) \<in> set ps. i = j \<longrightarrow> backup_auth_hash x t \<noteq> hb_auth_hash b) \<longrightarrow> b' = b) \<and>
    (\<forall>t. backup_auth_hash x t \<noteq> hb_auth_hash b \<longrightarrow>
       backup_latest x j t (backup_run x ps d) = Ok ReadUnauthorized \<and>
       backup_list x j t (backup_run x ps d) = Ok ListUnauthorized)"
proof -
  obtain bs' b' where b': "load (backup_run x ps d) = Ok bs'" "find (\<lambda>b. hb_lookup_id b = j) bs' = Some b'"
      "hb_auth_hash b' = hb_auth_hash b"
      "(\<forall>(i, t, _) \<in> set ps. i = j \<longrightarrow> backup_auth_hash x t \<noteq> hb_auth_hash b) \<longrightarrow> b' = b"
    using backups.run_owner [OF assms(1), of j b x ps] assms(2)
    unfolding backup_run_eq backups.bucket_def by blast
  then show ?thesis
    by (auto simp: backup_latest_def backup_list_def hosted_bucket_latest_def hosted_bucket_list_def
        backup_authorize_def)
qed

theorem backup_bucket_owner_witness:
  "let b = hosted_bucket_new ''bak_1'' (backup_auth_hash toy ''auth_1'') 0 in
   load (backup_run toy [(''bak_1'', ''auth_2'', JNull, 5, io_ok)] (backup_disk [b])) = Ok [b]"
proof -
  let ?b = "hosted_bucket_new ''bak_1'' (backup_auth_hash toy ''auth_1'') 0"
  have ne: "backup_auth_hash toy ''auth_2'' \<noteq> backup_auth_hash toy ''auth_1''"
    by (simp add: backup_auth_hash_def sha256_hex_def pad_def hex2_lower_def hex_lower_def)
  have "find (\<lambda>b. hb_lookup_id b = ''bak_1'') [?b] = Some ?b" by (simp add: hosted_bucket_new_def)
  from backup_bucket_owner [OF backup_disk_load this, of toy "[(''bak_1'', ''auth_2'', JNull, 5, io_ok)]"] ne
  show ?thesis
    by (simp add: Let_def backup_put_def store_update_def backup_put_records_def bucket_update_def
        hosted_bucket_new_def hosted_bucket_put_def backup_authorize_def backup_is_stored_def)
qed

lemma newest_to_front:
  assumes "sorted_wrt generations_newest.le gs" and "\<forall>g \<in> set gs. hg_created_at g < hg_created_at n"
  shows "sort_by compare_generations_newest_first (gs @ [n]) = n # gs"
proof -
  have ins: "insert_by compare_generations_newest_first h (n # hs) = n # insert_by compare_generations_newest_first h hs"
    if "h \<in> set gs" for h hs
    using that assms(2) generations_newest.flip [of h n]
    by (auto simp: compare_generations_newest_first_def compare_generations_oldest_first_def)
  have "sort_by compare_generations_newest_first (hs @ [n]) = n # sort_by compare_generations_newest_first hs"
    if "set hs \<subseteq> set gs" for hs
    using that ins by (induction hs) auto
  then show ?thesis using generations_newest.sort_by_sorted assms(1) by simp
qed

lemma new_generation_simps [simp]:
  "hg_created_at (new_generation x v now) = now" "\<not> hg_deleted (new_generation x v now)"
  "hg_backup (new_generation x v now) = v"
  by (simp_all add: new_generation_def Let_def)

lemma bucket_put_latest:
  assumes ok: "bucket_ok b" and auth: "hb_auth_hash b = backup_auth_hash x t"
    and old: "\<forall>g \<in> set (hb_generations b). hg_created_at g < now"
  shows "fst (hosted_bucket_put x t v now b) = BackupStored (new_generation x v now)"
    "hosted_bucket_latest x t (snd (hosted_bucket_put x t v now b)) = BackupFound (new_generation x v now)"
proof -
  let ?g = "new_generation x v now"
  define gs where "gs = take 10 (?g # hb_generations b)"
  have sorted: "sort_by compare_generations_newest_first (hb_generations b @ [?g]) = ?g # hb_generations b"
    using ok old by (intro newest_to_front) (simp_all add: bucket_ok_def)
  have keep: "filter (\<lambda>g. \<not> hg_deleted g) (hb_generations b) = hb_generations b"
    using ok by (simp add: bucket_ok_def filter_id_conv)
  have put: "hosted_bucket_put x t v now b = (BackupStored ?g, b\<lparr>hb_generations := gs, hb_updated_at := now\<rparr>)"
    using auth by (simp add: hosted_bucket_put_def backup_authorize_def Let_def MAX_BACKUP_GENERATIONS_def sorted keep gs_def)
  then show "fst (hosted_bucket_put x t v now b) = BackupStored ?g" by simp
  have kept: "filter (\<lambda>g. \<not> hg_deleted g) gs = gs"
    using ok by (auto simp: gs_def bucket_ok_def filter_id_conv dest!: in_set_takeD)
  obtain m where m: "max_by compare_generations_oldest_first gs = Some m"
    by (cases "max_by compare_generations_oldest_first gs") (auto simp: max_by_def gs_def)
  have "?g \<in> set gs" by (simp add: gs_def numeral_eq_Suc)
  from max_by_max [OF m this] have "now \<le> hg_created_at m" by simp
  with max_by_mem [OF m] old have "m = ?g" by (auto simp: gs_def dest!: in_set_takeD)
  with m kept put auth show "hosted_bucket_latest x t (snd (hosted_bucket_put x t v now b)) = BackupFound ?g"
    by (simp add: hosted_bucket_latest_def backup_authorize_def)
qed

text \<open>At the store: the bucket that is there, or the one the put opens.\<close>

lemma stored_then_latest:
  assumes ok: "backups_ok bs" and rs: "load d = Ok bs"
    and old: "\<forall>b \<in> set bs. hb_lookup_id b = i \<longrightarrow> (\<forall>g \<in> set (hb_generations b). hg_created_at g < now)"
    and put: "backup_put x io now i t backup d = (Ok (BackupStored g), d')"
  shows "g = new_generation x backup now \<and> backup_latest x i t d' = Ok (BackupFound g)"
proof -
  have u: "store_update io (backup_put_records x i t backup now) d = (Ok (BackupStored g), d')"
    using put by (simp add: backup_put_def)
  have "\<not> backup_is_stored (BackupStored g)" if "backup_put_records x i t backup now bs = (BackupStored g, None)"
    using that unfolding backup_put_records_def bucket_update_def Let_def by (auto split: prod.splits if_splits)
  then have n: "backup_put_records x i t backup now bs \<noteq> (BackupStored g, None)"
    by (auto simp: backup_is_stored_def)
  obtain bs' where p0: "backup_put_records x i t backup now bs = (BackupStored g, Some bs')" and d': "load d' = Ok bs'"
    using store_update_result [OF u] rs n by force
  have p: "backups.put_records x i t backup now bs = (BackupStored g, Some bs')"
    using p0 unfolding backup_put_records_eq .
  define b where "b = (case backups.bucket bs i of Some b \<Rightarrow> b | None \<Rightarrow> hosted_bucket_new i (backup_auth_hash x t) now)"
  have b': "find (\<lambda>b. hb_lookup_id b = i) bs' = Some (snd (hosted_bucket_put x t backup now b))"
    using backups.put_bucket [OF p, of i] by (simp add: backups.bucket_def b_def)
  have auth: "hb_auth_hash b = backup_auth_hash x t"
    using backups.put_records_Some [OF p] by (auto simp: b_def hosted_bucket_new_def split: option.splits)
  have "bucket_ok b \<and> (\<forall>g \<in> set (hb_generations b). hg_created_at g < now)"
  proof (cases "backups.bucket bs i")
    case None
    then show ?thesis by (simp add: b_def bucket_new_ok) (simp add: hosted_bucket_new_def)
  next
    case (Some b0)
    then have "b0 \<in> set bs \<and> hb_lookup_id b0 = i" unfolding backups.bucket_def by (rule find_Some_mem)
    then have "bucket_ok b0" "\<forall>g \<in> set (hb_generations b0). hg_created_at g < now"
      using ok old by (auto simp: backups_ok_def)
    with Some show ?thesis by (simp add: b_def)
  qed
  then have "bucket_ok b" "\<forall>g \<in> set (hb_generations b). hg_created_at g < now" by blast+
  note latest = bucket_put_latest [OF this(1) auth this(2), of backup]
  have "fst (backups.put_records x i t backup now bs) = fst (hosted_bucket_put x t backup now b)"
    by (simp add: backups.put_records_def bucket_update_def backups.bucket_def [symmetric] b_def split: option.split)
  with p latest(1) have "g = new_generation x backup now" by simp
  with d' b' latest(2) show ?thesis by (simp add: backup_latest_def)
qed

lemma backup_put_stores:
  assumes "load d = Ok bs" "backups_ok bs"
    and "\<forall>b \<in> set bs. hb_lookup_id b = i \<longrightarrow> hb_auth_hash b = backup_auth_hash x t \<and>
      (\<forall>g \<in> set (hb_generations b). hg_created_at g < now)"
  shows "\<exists>d'. backup_put x io_ok now i t v d = (Ok (BackupStored (new_generation x v now)), d')"
proof -
  let ?b = "case backups.bucket bs i of Some b \<Rightarrow> b | None \<Rightarrow> hosted_bucket_new i (backup_auth_hash x t) now"
  have b: "bucket_ok ?b \<and> hb_auth_hash ?b = backup_auth_hash x t \<and>
      (\<forall>g \<in> set (hb_generations ?b). hg_created_at g < now)"
  proof (cases "backups.bucket bs i")
    case None
    then show ?thesis by (simp add: bucket_new_ok) (simp add: hosted_bucket_new_def)
  next
    case (Some b0)
    then have "b0 \<in> set bs \<and> hb_lookup_id b0 = i" unfolding backups.bucket_def by (rule find_Some_mem)
    then have "bucket_ok b0" "hb_auth_hash b0 = backup_auth_hash x t" "\<forall>g \<in> set (hb_generations b0). hg_created_at g < now"
      using assms(2,3) by (auto simp: backups_ok_def)
    with Some show ?thesis by simp
  qed
  have f: "fst (backups.put_records x i t v now bs) = fst (hosted_bucket_put x t v now ?b)"
    by (simp add: backups.put_records_def bucket_update_def backups.bucket_def [symmetric] split: option.split)
  also have "\<dots> = BackupStored (new_generation x v now)"
    using b by (intro bucket_put_latest(1)) simp_all
  finally have st: "fst (backups.put_records x i t v now bs) = BackupStored (new_generation x v now)" .
  then have "snd (backups.put_records x i t v now bs) \<noteq> None"
    unfolding backups.put_records_def bucket_update_def Let_def
    by (auto simp: backup_is_stored_def split: prod.splits if_splits)
  then obtain bs' where "backup_put_records x i t v now bs = (BackupStored (new_generation x v now), Some bs')"
    using st unfolding backup_put_records_eq by (metis not_None_eq prod.collapse)
  from store_update_ok(2) [where f = "backup_put_records x i t v now", OF assms(1) this] show ?thesis
    unfolding backup_put_def by blast
qed

text \<open>
  The backup that was put last is the one that is read: when the clock has not gone back behind
  the generations kept, a put with the bucket's token, or a put that opens the bucket, that reports success
  makes that generation the latest, with the backup that was sent.
\<close>

theorem backup_put_then_latest:
  assumes "disk_inv backups_ok d" and "load d = Ok bs"
    and "\<forall>b \<in> set bs. hb_lookup_id b = i \<longrightarrow> (\<forall>g \<in> set (hb_generations b). hg_created_at g < now)"
    and "backup_put x io now i t backup d = (Ok (BackupStored g), d')"
  shows "backup_latest x i t d' = Ok (BackupFound g) \<and> hg_backup g = backup \<and> hg_created_at g = now"
  using stored_then_latest [OF _ assms(2-4)] assms(1,2) by (simp add: disk_inv_def)

theorem backup_put_then_latest_witness:
  "\<exists>g d'. backup_put toy io_ok 5 ''bak_1'' ''auth_1'' (JStr ''b'') (empty_disk ''p'') = (Ok (BackupStored g), d') \<and>
    backup_latest toy ''bak_1'' ''auth_1'' d' = Ok (BackupFound g)"
proof -
  obtain g d' where p: "backup_put toy io_ok 5 ''bak_1'' ''auth_1'' (JStr ''b'') (empty_disk ''p'') = (Ok (BackupStored g), d')"
    by (simp add: backup_put_def store_update_def backup_put_records_def bucket_update_def hosted_bucket_put_def
        backup_authorize_def hosted_bucket_new_def Let_def backup_is_stored_def save_io_ok)
  have "disk_inv backups_ok (empty_disk ''p'')" by (simp add: backups_ok_def)
  from backup_put_then_latest [OF this load_empty_disk _ p] p show ?thesis by auto
qed

end
