(* ===== verification/Paging.thy ===== *)
theory Paging
  imports Prelude
begin

text \<open>
  The interface behind the paged lists of the server: entries in the order of a comparison that
  tells different keys apart, and cursors, each made from the last entry of a page, that say which
  entries come after. What a client gets by following the cursors is stated once, here, for the two
  ways the code finds the start of a page: the position of the first entry after the cursor
  (publish search) and the filter of the entries after it (activity).
\<close>

locale cursor_paging = keyed_comparison c key
  for c :: "'a \<Rightarrow> 'a \<Rightarrow> ordering" and key :: "'a \<Rightarrow> 'k" +
  fixes after :: "'a \<Rightarrow> 'cur \<Rightarrow> bool" and cursor_of :: "'a \<Rightarrow> 'cur"
  assumes after_cursor: "after e (cursor_of f) \<longleftrightarrow> c f e = Less"
begin

definition ordered :: "'a list \<Rightarrow> bool" where
  "ordered xs \<longleftrightarrow> sorted_wrt le xs \<and> distinct (map key xs)"

lemma ordered_sort_by: "distinct (map key xs) \<Longrightarrow> ordered (sort_by c xs)"
  by (simp add: ordered_def sorted_sort_by)

lemma ordered_less: "ordered xs \<Longrightarrow> sorted_wrt less xs"
  unfolding ordered_def using sorted_less by blast

lemma not_after:
  assumes "ordered xs" "j \<le> i" "i < length xs"
  shows "\<not> after (xs ! j) (cursor_of (xs ! i))"
proof (cases "j = i")
  case True
  show ?thesis
    using flip [of "xs ! i" "xs ! i"] by (auto simp: True after_cursor)
next
  case False
  then have "c (xs ! j) (xs ! i) = Less"
    using ordered_less [OF assms(1)] assms(2,3) by (simp add: sorted_wrt_nth_less less_def [symmetric])
  then show ?thesis using flip [of "xs ! i" "xs ! j"] by (auto simp: after_cursor)
qed

lemma is_after:
  assumes "ordered xs" "i < j" "j < length xs"
  shows "after (xs ! j) (cursor_of (xs ! i))"
  using ordered_less [OF assms(1)] assms(2,3)
  by (simp add: after_cursor sorted_wrt_nth_less less_def [symmetric])

text \<open>Both ways of resuming give the list after the entry that the cursor was made from.\<close>

lemma filter_resume:
  assumes "ordered xs" "i < length xs"
  shows "filter (\<lambda>e. after e (cursor_of (xs ! i))) xs = drop (Suc i) xs"
proof -
  have "xs = take (Suc i) xs @ drop (Suc i) xs" by simp
  moreover have "filter (\<lambda>e. after e (cursor_of (xs ! i))) (take (Suc i) xs) = []"
    using not_after [OF assms(1) _ assms(2)] by (auto simp: filter_empty_conv in_set_conv_nth)
  moreover have "filter (\<lambda>e. after e (cursor_of (xs ! i))) (drop (Suc i) xs) = drop (Suc i) xs"
  proof (rule filter_True, rule ballI)
    fix e assume "e \<in> set (drop (Suc i) xs)"
    then obtain k where k: "k < length (drop (Suc i) xs)" "drop (Suc i) xs ! k = e"
      by (metis in_set_conv_nth)
    then have "e = xs ! (Suc i + k)" "Suc i + k < length xs" by auto
    with is_after [OF assms(1), of i "Suc i + k"] show "after e (cursor_of (xs ! i))" by simp
  qed
  ultimately show ?thesis by (metis append_Nil filter_append)
qed

lemma position_resume:
  assumes "ordered xs" "i < length xs"
  shows "drop (case position (\<lambda>e. after e (cursor_of (xs ! i))) xs of Some j \<Rightarrow> j | None \<Rightarrow> length xs) xs
    = drop (Suc i) xs"
proof (cases "position (\<lambda>e. after e (cursor_of (xs ! i))) xs")
  case None
  then have "filter (\<lambda>e. after e (cursor_of (xs ! i))) xs = []"
    by (simp add: position_None filter_empty_conv)
  with filter_resume [OF assms] None show ?thesis by simp
next
  case (Some j)
  from position_Some [OF Some] have j: "j < length xs" "after (xs ! j) (cursor_of (xs ! i))"
      "\<forall>k < j. \<not> after (xs ! k) (cursor_of (xs ! i))" by auto
  have "i < j" using j(1,2) not_after [OF assms(1), of j i] assms(2) by (meson not_le)
  moreover have "\<not> Suc i < j" using j(1,3) is_after [OF assms(1), of i "Suc i"] by auto
  ultimately have "j = Suc i" by simp
  with Some show ?thesis by simp
qed

end

end
