(* ===== verification/Core_Activity.thy ===== *)
theory Core_Activity
  imports Identity
begin

text \<open>
  \<^verbatim>\<open>crates/aichan-core/src/activity.rs\<close>: encrypted snapshots of the memory that the devices of one
  identity exchange, the locator derived from the identity's key, and their validation. The random
  salt and nonce, the fresh UUID and the clock are arguments.
\<close>

definition ACTIVITY_ENCRYPTION_SUITE :: string where
  "ACTIVITY_ENCRYPTION_SUITE = ''aichan.activity.chacha20poly1305.hkdf-sha256.v1''"
definition ACTIVITY_CONTENT_ENCODING :: string where
  "ACTIVITY_CONTENT_ENCODING = ''application/aichan+json; version=1''"
definition ACTIVITY_KDF :: string where "ACTIVITY_KDF = ''hkdf-sha256''"
definition ACTIVITY_TTL_SECONDS :: int where "ACTIVITY_TTL_SECONDS = 604800"

record activity_locator =
  act_bucket_id :: string
  act_auth_token :: string

record activity_encryption =
  aen_suite :: string
  aen_kdf :: string
  aen_salt :: string
  aen_nonce :: string

record activity_event =
  ae_version :: nat
  ae_event_id :: string
  ae_source_device_id :: device_id
  ae_created_at :: datetime
  ae_expires_at :: datetime
  ae_content_encoding :: string
  ae_encryption :: activity_encryption
  ae_ciphertext :: string

record activity_payload =
  ap_version :: nat
  ap_memory :: memory_file
  ap_created_at :: datetime

definition derive_activity_locator :: "crates \<Rightarrow> identity_file \<Rightarrow> aichan_error + activity_locator" where
  "derive_activity_locator x identity =
     and_then (identity_signing_key x identity) (\<lambda>seed.
     and_then (ok_or (InvalidProtocol ''activity bucket derivation failed'')
                (hkdf_expand x ''aichan.activity.v1'' seed ''aichan.activity.v1.bucket_id'' 24)) (\<lambda>bucket_bytes.
     and_then (ok_or (InvalidProtocol ''activity auth derivation failed'')
                (hkdf_expand x ''aichan.activity.v1'' seed ''aichan.activity.v1.auth_token'' 32)) (\<lambda>auth_bytes.
       Ok \<lparr>act_bucket_id = ''sync_'' @ b64_encode x bucket_bytes,
           act_auth_token = ''auth_'' @ b64_encode x auth_bytes\<rparr>)))"

definition derive_activity_key :: "crates \<Rightarrow> identity_file \<Rightarrow> bytes \<Rightarrow> aichan_error + bytes" where
  "derive_activity_key x identity salt =
     and_then (identity_signing_key x identity) (\<lambda>seed.
       ok_or (InvalidProtocol ''activity key derivation failed'')
         (hkdf_expand x salt seed ''aichan.activity.v1.encryption_key'' 32))"

definition activity_aad :: "crates \<Rightarrow> string \<Rightarrow> string \<Rightarrow> datetime \<Rightarrow> bytes" where
  "activity_aad x event_id source_device_id created_at =
     ''aichan.activity.v1'' @ CHR 0x0A # event_id @ CHR 0x0A # source_device_id @ CHR 0x0A # rfc3339 x created_at"

definition enc_activity_payload :: "crates \<Rightarrow> activity_payload \<Rightarrow> json" where
  "enc_activity_payload x p = JObj [
     (''version'', jnat (ap_version p)), (''memory'', enc_memory x (ap_memory p)),
     (''created_at'', enc_time x (ap_created_at p))]"

definition dec_activity_payload :: "crates \<Rightarrow> json \<Rightarrow> activity_payload option" where
  "dec_activity_payload x v = do {
     f \<leftarrow> struct_fields 3 [''version'', ''memory'', ''created_at''] v;
     version \<leftarrow> req f ''version'' (dec_uint u8_max);
     memory \<leftarrow> req f ''memory'' (dec_memory x);
     created_at \<leftarrow> req f ''created_at'' (dec_time x);
     Some \<lparr>ap_version = version, ap_memory = memory, ap_created_at = created_at\<rparr> }"

definition enc_activity_event :: "crates \<Rightarrow> activity_event \<Rightarrow> json" where
  "enc_activity_event x e = JObj [
     (''version'', jnat (ae_version e)),
     (''event_id'', JStr (ae_event_id e)),
     (''source_device_id'', JStr (device_str (ae_source_device_id e))),
     (''created_at'', enc_time x (ae_created_at e)),
     (''expires_at'', enc_time x (ae_expires_at e)),
     (''content_encoding'', JStr (ae_content_encoding e)),
     (''encryption'', JObj [
        (''suite'', JStr (aen_suite (ae_encryption e))), (''kdf'', JStr (aen_kdf (ae_encryption e))),
        (''salt'', JStr (aen_salt (ae_encryption e))), (''nonce'', JStr (aen_nonce (ae_encryption e)))]),
     (''ciphertext'', JStr (ae_ciphertext e))]"

definition dec_activity_encryption :: "json \<Rightarrow> activity_encryption option" where
  "dec_activity_encryption v = do {
     f \<leftarrow> struct_fields 4 [''suite'', ''kdf'', ''salt'', ''nonce''] v;
     suite \<leftarrow> req f ''suite'' dec_str;
     kdf \<leftarrow> req f ''kdf'' dec_str;
     salt \<leftarrow> req f ''salt'' dec_str;
     nonce \<leftarrow> req f ''nonce'' dec_str;
     Some \<lparr>aen_suite = suite, aen_kdf = kdf, aen_salt = salt, aen_nonce = nonce\<rparr> }"

definition dec_activity_event :: "crates \<Rightarrow> json \<Rightarrow> activity_event option" where
  "dec_activity_event x v = do {
     f \<leftarrow> struct_fields 8 [''version'', ''event_id'', ''source_device_id'', ''created_at'', ''expires_at'',
            ''content_encoding'', ''encryption'', ''ciphertext''] v;
     version \<leftarrow> req f ''version'' (dec_uint u8_max);
     event_id \<leftarrow> req f ''event_id'' dec_str;
     source_device_id \<leftarrow> req f ''source_device_id'' dec_str;
     created_at \<leftarrow> req f ''created_at'' (dec_time x);
     expires_at \<leftarrow> req f ''expires_at'' (dec_time x);
     content_encoding \<leftarrow> req f ''content_encoding'' dec_str;
     encryption \<leftarrow> req f ''encryption'' dec_activity_encryption;
     ciphertext \<leftarrow> req f ''ciphertext'' dec_str;
     Some \<lparr>ae_version = version, ae_event_id = event_id, ae_source_device_id = DeviceId source_device_id,
           ae_created_at = created_at, ae_expires_at = expires_at, ae_content_encoding = content_encoding,
           ae_encryption = encryption, ae_ciphertext = ciphertext\<rparr> }"

definition validate_activity_event :: "activity_event \<Rightarrow> aichan_error + unit" where
  "validate_activity_event e =
     (if ae_version e \<noteq> 1
      then Err (InvalidProtocol (''unsupported activity event version '' @ show_nat (ae_version e)))
      else if \<not> starts_with (ae_event_id e) ''act_''
      then Err (InvalidProtocol ''activity event_id must start with act_'')
      else if ae_expires_at e \<le> ae_created_at e
      then Err (InvalidProtocol ''activity expires_at must be after created_at'')
      else if ae_expires_at e - ae_created_at e > seconds ACTIVITY_TTL_SECONDS
      then Err (InvalidProtocol ''activity ttl exceeds seven-day sync window'')
      else if ae_content_encoding e \<noteq> ACTIVITY_CONTENT_ENCODING
      then Err (InvalidProtocol (''unsupported activity content encoding '' @ ae_content_encoding e))
      else if aen_suite (ae_encryption e) \<noteq> ACTIVITY_ENCRYPTION_SUITE
      then Err (InvalidProtocol (''unsupported activity encryption suite '' @ aen_suite (ae_encryption e)))
      else if aen_kdf (ae_encryption e) \<noteq> ACTIVITY_KDF
      then Err (InvalidProtocol (''unsupported activity kdf '' @ aen_kdf (ae_encryption e)))
      else Ok ())"

definition encrypt_activity_snapshot ::
  "crates \<Rightarrow> datetime \<Rightarrow> string \<Rightarrow> bytes \<Rightarrow> bytes \<Rightarrow> identity_file \<Rightarrow> device_id \<Rightarrow> memory_file \<Rightarrow>
   aichan_error + activity_event" where
  "encrypt_activity_snapshot x now uuid salt nonce identity source_device_id memory =
     and_then (validate_memory memory) (\<lambda>_.
     (let event_id = ''act_'' @ uuid;
          payload = \<lparr>ap_version = 1, ap_memory = memory, ap_created_at = now\<rparr>;
          plaintext = json_text x (enc_activity_payload x payload)
      in and_then (derive_activity_key x identity salt) (\<lambda>key.
         and_then (ok_or (InvalidProtocol ''activity encryption failed'')
                    (aead_seal x key nonce (activity_aad x event_id (device_str source_device_id) now) plaintext))
           (\<lambda>ciphertext.
         Ok \<lparr>ae_version = 1, ae_event_id = event_id, ae_source_device_id = source_device_id,
             ae_created_at = now, ae_expires_at = now + seconds ACTIVITY_TTL_SECONDS,
             ae_content_encoding = ACTIVITY_CONTENT_ENCODING,
             ae_encryption = \<lparr>aen_suite = ACTIVITY_ENCRYPTION_SUITE, aen_kdf = ACTIVITY_KDF,
               aen_salt = b64_encode x salt, aen_nonce = b64_encode x nonce\<rparr>,
             ae_ciphertext = b64_encode x ciphertext\<rparr>))))"

definition decrypt_activity_snapshot ::
  "crates \<Rightarrow> identity_file \<Rightarrow> activity_event \<Rightarrow> aichan_error + activity_payload" where
  "decrypt_activity_snapshot x identity e =
     and_then (validate_activity_event e) (\<lambda>_.
     and_then (decode_base64url_array x 16 (aen_salt (ae_encryption e)) ''activity salt'') (\<lambda>salt.
     and_then (decode_base64url_array x 12 (aen_nonce (ae_encryption e)) ''activity nonce'') (\<lambda>nonce.
     and_then (map_err (\<lambda>source. InvalidProtocol (''invalid activity ciphertext encoding: '' @ source))
                 (b64_decode x (ae_ciphertext e))) (\<lambda>ciphertext.
     and_then (derive_activity_key x identity salt) (\<lambda>key.
     and_then (ok_or (InvalidProtocol ''activity decryption failed'')
                 (aead_open x key nonce
                   (activity_aad x (ae_event_id e) (device_str (ae_source_device_id e)) (ae_created_at e))
                   ciphertext)) (\<lambda>plaintext.
     and_then (map_err (\<lambda>source. InvalidProtocol (''invalid activity payload: '' @ source))
                 (from_json x (dec_activity_payload x) plaintext)) (\<lambda>payload.
       if ap_version payload \<noteq> 1
       then Err (InvalidProtocol (''unsupported activity payload version '' @ show_nat (ap_version payload)))
       else and_then (validate_memory (ap_memory payload)) (\<lambda>_. Ok payload))))))))"

section \<open>Lemmas\<close>

lemma validate_activity_event_Ok [result_simps]:
  "validate_activity_event e = Ok () \<longleftrightarrow>
     ae_version e = 1 \<and> starts_with (ae_event_id e) ''act_'' \<and>
     ae_created_at e < ae_expires_at e \<and> ae_expires_at e \<le> ae_created_at e + seconds 604800 \<and>
     ae_content_encoding e = ACTIVITY_CONTENT_ENCODING \<and>
     aen_suite (ae_encryption e) = ACTIVITY_ENCRYPTION_SUITE \<and> aen_kdf (ae_encryption e) = ACTIVITY_KDF"
  by (auto simp: validate_activity_event_def ACTIVITY_TTL_SECONDS_def)

lemma dec_enc_activity_event [serde]:
  assumes "rfc3339_law x" "ae_version e \<le> u8_max" "four_digit_year (ae_created_at e)" "four_digit_year (ae_expires_at e)"
  shows "dec_activity_event x (enc_activity_event x e) = Some e"
proof -
  have d: "DeviceId (device_str d) = d" for d by (cases d) simp
  show ?thesis
    using assms
    by (simp add: dec_activity_event_def enc_activity_event_def dec_activity_encryption_def field_defs serde d)
qed

lemma activity_event_plain: "ae_version e \<le> u8_max \<Longrightarrow> json_plain 127 (enc_activity_event x e)"
proof -
  assume "ae_version e \<le> u8_max"
  then have "json_plain (Suc (Suc 0)) (enc_activity_event x e)"
    by (simp add: enc_activity_event_def u8_max_def)
  then show ?thesis by (rule json_plain_mono) simp
qed

lemma activity_payload_text:
  assumes "rfc3339_law x" "json_law x" "memory_storable m" "four_digit_year now"
  shows "from_json x (dec_activity_payload x)
    (json_text x (enc_activity_payload x \<lparr>ap_version = 1, ap_memory = m, ap_created_at = now\<rparr>))
    = Ok \<lparr>ap_version = 1, ap_memory = m, ap_created_at = now\<rparr>"
proof (rule from_json_text [OF assms(2)])
  have "mem_version m \<le> u8_max" using assms(3) by (simp add: memory_storable_def)
  then have "json_plain (Suc (Suc (Suc (Suc 0)))) (enc_memory x m)" by (rule memory_plain)
  then have "json_plain 126 (enc_memory x m)" by (rule json_plain_mono) simp
  then have "json_plain (Suc 126) (enc_activity_payload x \<lparr>ap_version = 1, ap_memory = m, ap_created_at = now\<rparr>)"
    unfolding enc_activity_payload_def by (intro json_plain_JObj) auto
  then show "json_plain 127 (enc_activity_payload x \<lparr>ap_version = 1, ap_memory = m, ap_created_at = now\<rparr>)"
    by simp
  show "dec_activity_payload x (enc_activity_payload x \<lparr>ap_version = 1, ap_memory = m, ap_created_at = now\<rparr>)
      = Some \<lparr>ap_version = 1, ap_memory = m, ap_created_at = now\<rparr>"
    using assms by (simp add: dec_activity_payload_def enc_activity_payload_def field_defs serde u8_max_def)
qed

text \<open>
  C39. Snapshots reach the other devices: for an identity whose signing key works and a valid
  memory, sealing a snapshot succeeds, the event is valid, and every device with the identity opens it
  to the memory that was sealed.
\<close>

theorem activity_roundtrip:
  assumes laws: "base64_law x" "hkdf_law x" "aead_law x" "rfc3339_law x" "json_law x"
    and identity: "identity_signing_key x identity = Ok seed"
    and memory: "memory_storable memory" "validate_memory memory = Ok ()"
    and rnd: "length salt = 16" "length nonce = 12" "four_digit_year now"
  shows "\<exists>e. encrypt_activity_snapshot x now uuid salt nonce identity device memory = Ok e \<and>
    validate_activity_event e = Ok () \<and>
    decrypt_activity_snapshot x identity e = Ok \<lparr>ap_version = 1, ap_memory = memory, ap_created_at = now\<rparr>"
proof -
  obtain key where key: "hkdf_expand x salt seed ''aichan.activity.v1.encryption_key'' 32 = Some key"
    using hkdf_expand_ok [OF laws(2), of 32] by force
  let ?aad = "activity_aad x (''act_'' @ uuid) (device_str device) now"
  let ?plain = "json_text x (enc_activity_payload x \<lparr>ap_version = 1, ap_memory = memory, ap_created_at = now\<rparr>)"
  obtain ct where ct: "aead_seal x key nonce ?aad ?plain = Some ct" "aead_open x key nonce ?aad ct = Some ?plain"
    using laws(3) unfolding aead_law_def by blast
  have dk: "derive_activity_key x identity salt = Ok key"
    using identity key by (simp add: derive_activity_key_def)
  define e where "e = \<lparr>ae_version = 1, ae_event_id = ''act_'' @ uuid, ae_source_device_id = device,
             ae_created_at = now, ae_expires_at = now + seconds ACTIVITY_TTL_SECONDS,
             ae_content_encoding = ACTIVITY_CONTENT_ENCODING,
             ae_encryption = \<lparr>aen_suite = ACTIVITY_ENCRYPTION_SUITE, aen_kdf = ACTIVITY_KDF,
               aen_salt = b64_encode x salt, aen_nonce = b64_encode x nonce\<rparr>,
             ae_ciphertext = b64_encode x ct\<rparr>"
  have enc: "encrypt_activity_snapshot x now uuid salt nonce identity device memory = Ok e"
    unfolding encrypt_activity_snapshot_def Let_def e_def
    by (simp only: memory(2) and_then_simps dk ct(1) ok_or_simps)
  have val: "validate_activity_event e = Ok ()"
    by (simp add: validate_activity_event_Ok e_def ACTIVITY_TTL_SECONDS_def seconds_def)
  have fields: "aen_salt (ae_encryption e) = b64_encode x salt" "aen_nonce (ae_encryption e) = b64_encode x nonce"
      "ae_ciphertext e = b64_encode x ct"
      "activity_aad x (ae_event_id e) (device_str (ae_source_device_id e)) (ae_created_at e) = ?aad"
    by (simp_all add: e_def)
  have "decrypt_activity_snapshot x identity e = Ok \<lparr>ap_version = 1, ap_memory = memory, ap_created_at = now\<rparr>"
    unfolding decrypt_activity_snapshot_def fields
    using val dk ct(2) activity_payload_text [OF laws(4,5) memory(1) rnd(3)] laws(1) rnd memory(2)
    by (simp add: decode_array_encode base64_roundtrip)
  with enc val show ?thesis by blast
qed

definition sample_identity :: identity_file where
  "sample_identity = new_identity toy
     \<lparr>ent_signing_key = sample_key, ent_message_key = sample_key, ent_uuid = ''0a'', ent_now = sample_now\<rparr>"

lemma sample_identity_signs: "identity_signing_key toy sample_identity = Ok sample_key"
  using base64_roundtrip [OF toy_laws(1)]
  by (simp add: identity_signing_key_Ok sample_identity_def new_identity_def Let_def del: toy_selectors(1,2))

theorem activity_roundtrip_witness:
  "\<exists>e. encrypt_activity_snapshot toy sample_now ''0b'' (replicate 16 (CHR ''s'')) (replicate 12 (CHR ''n''))
      sample_identity (DeviceId ''d'') (default_memory sample_now) = Ok e \<and>
    decrypt_activity_snapshot toy sample_identity e
      = Ok \<lparr>ap_version = 1, ap_memory = default_memory sample_now, ap_created_at = sample_now\<rparr>"
proof -
  have "memory_storable (default_memory sample_now)" "validate_memory (default_memory sample_now) = Ok ()"
    by (simp_all add: memory_storable_def default_memory_def default_sync_def u8_max_def validate_memory_def)
  moreover have "length (replicate 16 (CHR ''s'')) = 16" "length (replicate 12 (CHR ''n'')) = 12" by simp_all
  ultimately show ?thesis
    using activity_roundtrip [OF toy_laws(1,3,6,7,8) sample_identity_signs] four_digit_sample_now by blast
qed

end
