(* ===== verification/Activity_Store.thy ===== *)
theory Activity_Store
  imports Buckets Paging Core_Activity
begin

text \<open>
  The activity store of the server (\<^verbatim>\<open>StoredActivityBucket\<close>, \<^verbatim>\<open>FileActivityStore\<close>): per bucket the
  newest 2,000 unexpired events, oldest first, read in pages by a cursor, open to the holder of the
  token the bucket was made with.
\<close>

definition MAX_ACTIVITY_EVENTS :: nat where "MAX_ACTIVITY_EVENTS = 2000"

record stored_activity_event =
  sae_event :: activity_event
  sae_stored_at :: datetime
  sae_size_bytes :: nat
  sae_content_sha256 :: string

record activity_bucket =
  ab_bucket_id :: string
  ab_auth_hash :: string
  ab_events :: "stored_activity_event list"
  ab_created_at :: datetime
  ab_updated_at :: datetime

record activity_cursor =
  ac_created_at :: datetime
  ac_event_id :: string

record activity_page =
  apg_events :: "stored_activity_event list"
  apg_next_cursor :: "string option"
  apg_has_more :: bool

datatype activity_put_status = ActivityStored stored_activity_event | ActivityPutUnauthorized
datatype activity_list_status = ActivityFound activity_page | ActivityNotFound | ActivityListUnauthorized

abbreviation sae_id :: "stored_activity_event \<Rightarrow> string" where "sae_id e \<equiv> ae_event_id (sae_event e)"
abbreviation sae_created :: "stored_activity_event \<Rightarrow> datetime" where "sae_created e \<equiv> ae_created_at (sae_event e)"

definition activity_auth_hash :: "crates \<Rightarrow> string \<Rightarrow> string" where
  "activity_auth_hash x auth_token = ''sha256:'' @ sha256_hex x auth_token"

definition compare_activity_events_oldest_first :: "stored_activity_event \<Rightarrow> stored_activity_event \<Rightarrow> ordering" where
  "compare_activity_events_oldest_first l r =
     then_with (cmp (sae_created l) (sae_created r)) (cmp (sae_id l) (sae_id r))"

definition activity_event_is_after_cursor :: "stored_activity_event \<Rightarrow> activity_cursor \<Rightarrow> bool" where
  "activity_event_is_after_cursor entry cursor \<longleftrightarrow>
     sae_created entry > ac_created_at cursor
     \<or> (sae_created entry = ac_created_at cursor \<and> sae_id entry > ac_event_id cursor)"

definition enc_activity_cursor :: "crates \<Rightarrow> activity_cursor \<Rightarrow> json" where
  "enc_activity_cursor x c = JObj [
     (''created_at'', enc_time x (ac_created_at c)), (''event_id'', JStr (ac_event_id c))]"

definition dec_activity_cursor :: "crates \<Rightarrow> json \<Rightarrow> activity_cursor option" where
  "dec_activity_cursor x v = do {
     f \<leftarrow> struct_fields 2 [''created_at'', ''event_id''] v;
     created_at \<leftarrow> req f ''created_at'' (dec_time x);
     event_id \<leftarrow> req f ''event_id'' dec_str;
     Some \<lparr>ac_created_at = created_at, ac_event_id = event_id\<rparr> }"

definition activity_cursor_encode :: "crates \<Rightarrow> activity_cursor \<Rightarrow> string" where
  "activity_cursor_encode x c = b64_encode x (json_text x (enc_activity_cursor x c))"

definition activity_cursor_decode :: "crates \<Rightarrow> string \<Rightarrow> string + activity_cursor" where
  "activity_cursor_decode x value =
     and_then (map_err (\<lambda>_. ''activity cursor is not base64url'') (b64_decode x value)) (\<lambda>bytes.
       map_err (\<lambda>_. ''activity cursor is not valid JSON'') (from_json x (dec_activity_cursor x) bytes))"

definition activity_bucket_new :: "string \<Rightarrow> string \<Rightarrow> datetime \<Rightarrow> activity_bucket" where
  "activity_bucket_new bucket_id auth_hash now =
     \<lparr>ab_bucket_id = bucket_id, ab_auth_hash = auth_hash, ab_events = [], ab_created_at = now,
      ab_updated_at = now\<rparr>"

definition activity_authorize :: "crates \<Rightarrow> string \<Rightarrow> activity_bucket \<Rightarrow> bool" where
  "activity_authorize x auth_token b \<longleftrightarrow> ab_auth_hash b = activity_auth_hash x auth_token"

definition prune_expired :: "datetime \<Rightarrow> activity_bucket \<Rightarrow> activity_bucket" where
  "prune_expired now b = b\<lparr>ab_events := filter (\<lambda>entry. ae_expires_at (sae_event entry) > now) (ab_events b)\<rparr>"

definition stored_event :: "crates \<Rightarrow> activity_event \<Rightarrow> datetime \<Rightarrow> stored_activity_event" where
  "stored_event x e now =
     (let bs = json_text x (enc_activity_event x e)
      in \<lparr>sae_event = e, sae_stored_at = now, sae_size_bytes = length bs,
          sae_content_sha256 = ''sha256:'' @ sha256_hex x bs\<rparr>)"

definition activity_bucket_put ::
  "crates \<Rightarrow> string \<Rightarrow> activity_event \<Rightarrow> datetime \<Rightarrow> activity_bucket \<Rightarrow> activity_put_status \<times> activity_bucket" where
  "activity_bucket_put x auth_token e now b =
     (if \<not> activity_authorize x auth_token b then (ActivityPutUnauthorized, b)
      else
        let b = prune_expired now b in
        case find (\<lambda>entry. sae_id entry = ae_event_id e) (ab_events b) of
          Some existing \<Rightarrow> (ActivityStored existing, b)
        | None \<Rightarrow>
          (let stored = stored_event x e now;
               events = sort_by compare_activity_events_oldest_first (ab_events b @ [stored]);
               events = (if length events > MAX_ACTIVITY_EVENTS
                         then drop (length events - MAX_ACTIVITY_EVENTS) events else events)
           in (ActivityStored stored, b\<lparr>ab_events := events, ab_updated_at := now\<rparr>)))"

definition activity_page_of :: "crates \<Rightarrow> nat \<Rightarrow> activity_cursor option \<Rightarrow> stored_activity_event list \<Rightarrow> activity_page" where
  "activity_page_of x limit cursor events =
     (let start_index = (case cursor of
            None \<Rightarrow> 0
          | Some c \<Rightarrow> (case position (\<lambda>entry. activity_event_is_after_cursor entry c) events of
                        Some i \<Rightarrow> i | None \<Rightarrow> length events));
          candidates = take (limit + 1) (drop start_index events);
          has_more = length candidates > limit;
          candidates = (if has_more then take limit candidates else candidates);
          next_cursor = (if has_more \<and> candidates \<noteq> []
            then Some (activity_cursor_encode x \<lparr>ac_created_at = sae_created (last candidates),
                         ac_event_id = sae_id (last candidates)\<rparr>)
            else None)
      in \<lparr>apg_events = candidates, apg_next_cursor = next_cursor, apg_has_more = has_more\<rparr>)"

definition activity_bucket_list ::
  "crates \<Rightarrow> string \<Rightarrow> nat \<Rightarrow> activity_cursor option \<Rightarrow> datetime \<Rightarrow> activity_bucket \<Rightarrow>
   activity_list_status \<times> activity_bucket" where
  "activity_bucket_list x auth_token limit cursor now b =
     (if \<not> activity_authorize x auth_token b then (ActivityListUnauthorized, b)
      else
        let b = prune_expired now b;
            b = b\<lparr>ab_events := sort_by compare_activity_events_oldest_first (ab_events b)\<rparr>
        in (ActivityFound (activity_page_of x limit cursor (ab_events b)), b))"

definition activity_is_stored :: "activity_put_status \<Rightarrow> bool" where
  "activity_is_stored st = (case st of ActivityStored e \<Rightarrow> True | ActivityPutUnauthorized \<Rightarrow> False)"

definition activity_put_records ::
  "crates \<Rightarrow> string \<Rightarrow> string \<Rightarrow> activity_event \<Rightarrow> datetime \<Rightarrow> activity_bucket list \<Rightarrow>
   activity_put_status \<times> activity_bucket list option" where
  "activity_put_records x bucket_id auth_token e now =
     bucket_update ab_bucket_id (activity_bucket_put x auth_token e now)
       (activity_bucket_new bucket_id (activity_auth_hash x auth_token) now) activity_is_stored bucket_id"

definition activity_put ::
  "crates \<Rightarrow> io_plan \<Rightarrow> datetime \<Rightarrow> string \<Rightarrow> string \<Rightarrow> activity_event \<Rightarrow> activity_bucket disk \<Rightarrow>
   (string + activity_put_status) \<times> activity_bucket disk" where
  "activity_put x io now bucket_id auth_token e =
     store_update io (activity_put_records x bucket_id auth_token e now)"

definition activity_list_records ::
  "crates \<Rightarrow> string \<Rightarrow> string \<Rightarrow> nat \<Rightarrow> activity_cursor option \<Rightarrow> datetime \<Rightarrow> activity_bucket list \<Rightarrow>
   activity_list_status \<times> activity_bucket list option" where
  "activity_list_records x bucket_id auth_token limit cursor now buckets =
     (case find (\<lambda>b. ab_bucket_id b = bucket_id) buckets of
        None \<Rightarrow> (ActivityNotFound, None)
      | Some b \<Rightarrow>
        (let (status, b') = activity_bucket_list x auth_token limit cursor now b
         in (status,
             if length (ab_events b) \<noteq> length (ab_events b')
             then Some (update_first (\<lambda>b. ab_bucket_id b = bucket_id) (\<lambda>_. b') buckets) else None)))"

definition activity_list ::
  "crates \<Rightarrow> io_plan \<Rightarrow> string \<Rightarrow> string \<Rightarrow> nat \<Rightarrow> activity_cursor option \<Rightarrow> datetime \<Rightarrow> activity_bucket disk \<Rightarrow>
   (string + activity_list_status) \<times> activity_bucket disk" where
  "activity_list x io bucket_id auth_token limit cursor now =
     store_update io (activity_list_records x bucket_id auth_token limit cursor now)"

section \<open>Lemmas\<close>

interpretation activity_paging: cursor_paging compare_activity_events_oldest_first sae_id
  activity_event_is_after_cursor "\<lambda>e. \<lparr>ac_created_at = sae_created e, ac_event_id = sae_id e\<rparr>"
  by unfold_locales
    (auto simp: compare_activity_events_oldest_first_def activity_event_is_after_cursor_def)

lemma activity_put_keeps [simp]:
  "ab_bucket_id (snd (activity_bucket_put x t e now b)) = ab_bucket_id b"
  "ab_auth_hash (snd (activity_bucket_put x t e now b)) = ab_auth_hash b"
  "activity_is_stored (fst (activity_bucket_put x t e now b)) \<longleftrightarrow> ab_auth_hash b = activity_auth_hash x t"
  by (auto simp: activity_bucket_put_def activity_authorize_def prune_expired_def Let_def activity_is_stored_def
      split: option.split)

interpretation activities: auth_bucket ab_bucket_id ab_auth_hash "activity_auth_hash x"
  "activity_bucket_put x" activity_is_stored activity_bucket_new for x
  by unfold_locales (simp_all add: activity_bucket_new_def)

lemma activity_put_records_eq: "activity_put_records x i t e now = activities.put_records x i t e now"
  by (simp add: activity_put_records_def activities.put_records_def)

text \<open>A bucket as the operations leave it.\<close>

definition events_ok :: "stored_activity_event list \<Rightarrow> bool" where
  "events_ok es \<longleftrightarrow> length es \<le> MAX_ACTIVITY_EVENTS \<and> activity_paging.ordered es"

definition activities_ok :: "activity_bucket list \<Rightarrow> bool" where
  "activities_ok bs \<longleftrightarrow> distinct (map ab_bucket_id bs) \<and> (\<forall>b \<in> set bs. events_ok (ab_events b))"

lemma events_ok_filter: "events_ok es \<Longrightarrow> events_ok (filter P es)"
  by (auto simp: events_ok_def activity_paging.ordered_def sorted_wrt_filter distinct_map_filter
      intro: le_trans [OF length_filter_le])

lemma activity_bucket_put_ok:
  assumes "events_ok (ab_events b)"
  shows "events_ok (ab_events (snd (activity_bucket_put x t e now b)))"
proof -
  let ?es = "ab_events (prune_expired now b)"
  let ?n = "stored_event x e now"
  have es: "events_ok ?es" using assms by (simp add: prune_expired_def events_ok_filter)
  show ?thesis
  proof (cases "activity_authorize x t b \<and> find (\<lambda>entry. sae_id entry = ae_event_id e) ?es = None")
    case False
    with assms es show ?thesis by (auto simp: activity_bucket_put_def Let_def split: option.split)
  next
    case True
    let ?s = "sort_by compare_activity_events_oldest_first (?es @ [?n])"
    have "ae_event_id e \<notin> sae_id ` set ?es" using True by (simp add: find_key_None_iff)
    then have "distinct (map sae_id (?es @ [?n]))"
      using es by (auto simp: events_ok_def activity_paging.ordered_def stored_event_def Let_def)
    then have "activity_paging.ordered ?s" by (rule activity_paging.ordered_sort_by)
    then have "activity_paging.ordered (drop k ?s)" for k
      unfolding activity_paging.ordered_def by (simp add: sorted_wrt_drop drop_map [symmetric])
    then have "events_ok (if length ?s > MAX_ACTIVITY_EVENTS
        then drop (length ?s - MAX_ACTIVITY_EVENTS) ?s else ?s)"
      using \<open>activity_paging.ordered ?s\<close> by (auto simp: events_ok_def)
    with True show ?thesis by (simp add: activity_bucket_put_def Let_def)
  qed
qed

lemma activity_bucket_list_ok:
  assumes "events_ok (ab_events b)"
  shows "events_ok (ab_events (snd (activity_bucket_list x t limit cursor now b)))"
proof -
  have "events_ok (ab_events (prune_expired now b))"
    using assms by (simp add: prune_expired_def events_ok_filter)
  then show ?thesis
    using assms activity_paging.sort_by_sorted
    by (auto simp: activity_bucket_list_def Let_def events_ok_def activity_paging.ordered_def)
qed

lemma activity_bucket_list_id [simp]:
  "ab_bucket_id (snd (activity_bucket_list x t limit cursor now b)) = ab_bucket_id b"
  by (simp add: activity_bucket_list_def prune_expired_def Let_def)

lemma activity_put_keeps_ok:
  assumes "activities_ok bs" "activity_put_records x i t e now bs = (st, Some bs')"
  shows "activities_ok bs'"
proof -
  have put: "activities.put_records x i t e now bs = (st, Some bs')"
    using assms(2) by (simp add: activity_put_records_eq)
  have "events_ok (ab_events (activity_bucket_new i h now))" for h
    by (simp add: activity_bucket_new_def events_ok_def activity_paging.ordered_def)
  then have "\<forall>b \<in> set bs'. events_ok (ab_events b)"
    using activities.put_records_Some [OF put] assms(1)
    by (auto simp: activities_ok_def split: option.splits intro: activity_bucket_put_ok dest!: set_update_first)
  moreover have "distinct (map ab_bucket_id bs')"
    using activities.put_keeps_ok [OF _ put] assms(1) by (simp add: activities_ok_def activities.ok_def)
  ultimately show ?thesis by (simp add: activities_ok_def)
qed

lemma activity_list_keeps_ok:
  assumes "activities_ok bs" "activity_list_records x i t limit cursor now bs = (st, Some bs')"
  shows "activities_ok bs'"
proof -
  obtain b where b: "find (\<lambda>b. ab_bucket_id b = i) bs = Some b"
    and bs': "bs' = update_first (\<lambda>b. ab_bucket_id b = i)
      (\<lambda>_. snd (activity_bucket_list x t limit cursor now b)) bs"
    using assms(2) by (auto simp: activity_list_records_def split: option.splits prod.splits if_splits)
  have "b \<in> set bs" "ab_bucket_id b = i" using find_Some_mem [OF b] by auto
  then have "events_ok (ab_events (snd (activity_bucket_list x t limit cursor now b)))"
      "ab_bucket_id (snd (activity_bucket_list x t limit cursor now b)) = i"
    using assms(1) by (auto simp: activities_ok_def intro: activity_bucket_list_ok)
  then show ?thesis
    using assms(1) distinct_update_first [of "\<lambda>b. ab_bucket_id b = i" ab_bucket_id
        "\<lambda>_. snd (activity_bucket_list x t limit cursor now b)" bs]
    by (auto simp: bs' activities_ok_def dest!: set_update_first)
qed

datatype activity_op =
    PutEvent string string activity_event datetime
  | ListEvents string string nat "activity_cursor option" datetime

fun activity_step :: "crates \<Rightarrow> activity_op \<Rightarrow> io_plan \<Rightarrow> activity_bucket disk \<Rightarrow> activity_bucket disk" where
  "activity_step x (PutEvent i t e now) io d = snd (activity_put x io now i t e d)"
| "activity_step x (ListEvents i t n c now) io d = snd (activity_list x io i t n c now d)"

lemma activity_step_inv: "disk_inv activities_ok d \<Longrightarrow> disk_inv activities_ok (activity_step x a io d)"
  by (cases a)
    (auto simp: activity_put_def activity_list_def intro!: disk_inv_update
      intro: activity_put_keeps_ok activity_list_keeps_ok)

fun activity_run :: "crates \<Rightarrow> (activity_op \<times> io_plan) list \<Rightarrow> activity_bucket disk \<Rightarrow> activity_bucket disk" where
  "activity_run x [] d = d"
| "activity_run x ((a, io) # ops) d = activity_run x ops (activity_step x a io d)"

lemma activity_run_inv: "disk_inv activities_ok d \<Longrightarrow> disk_inv activities_ok (activity_run x ops d)"
  by (induction x ops d rule: activity_run.induct) (auto intro: activity_step_inv)

definition activity_disk :: "activity_bucket list \<Rightarrow> activity_bucket disk" where
  "activity_disk bs = \<lparr>disk_path = ''a'', main_file = Content bs, temp_file = Missing\<rparr>"

lemma activity_disk_load [simp]: "load (activity_disk bs) = Ok bs"
  by (simp add: activity_disk_def load_def)

text \<open>
  C30. Every activity file that puts and lists can leave, with whatever I/O errors, is well formed: bucket
  ids are distinct, and each bucket holds at most 2,000 events, with distinct ids, oldest first.
\<close>

theorem activity_store_wellformed:
  assumes "load (activity_run x ops (empty_disk p)) = Ok bs"
  shows "distinct (map ab_bucket_id bs) \<and>
    (\<forall>b \<in> set bs. length (ab_events b) \<le> 2000 \<and> distinct (map sae_id (ab_events b)) \<and>
       sorted_wrt (\<lambda>e f. sae_created e < sae_created f \<or> sae_created e = sae_created f \<and> sae_id e < sae_id f)
         (ab_events b))"
proof -
  have "disk_inv activities_ok (empty_disk p)" by (simp add: activities_ok_def)
  from activity_run_inv [OF this, of x ops] assms have ok: "activities_ok bs" by (simp add: disk_inv_def)
  have "sorted_wrt (\<lambda>e f. sae_created e < sae_created f \<or> sae_created e = sae_created f \<and> sae_id e < sae_id f) es"
    if "activity_paging.ordered es" for es
    using activity_paging.ordered_less [OF that]
    by (rule sorted_wrt_mono_rel [rotated])
      (auto simp: activity_paging.less_def compare_activity_events_oldest_first_def)
  with ok show ?thesis
    by (auto simp: activities_ok_def events_ok_def MAX_ACTIVITY_EVENTS_def activity_paging.ordered_def)
qed

theorem activity_store_wellformed_witness:
  "\<exists>bs. load (activity_run toy [(ListEvents ''sync_1'' ''auth_1'' 10 None 5, io_ok)] (empty_disk ''p'')) = Ok bs \<and>
     distinct (map ab_bucket_id bs)"
proof -
  have "load (activity_run toy [(ListEvents ''sync_1'' ''auth_1'' 10 None 5, io_ok)] (empty_disk ''p'')) = Ok []"
    by (simp add: activity_list_def store_update_def activity_list_records_def)
  with activity_store_wellformed [OF this] show ?thesis by blast
qed

fun activity_puts ::
  "crates \<Rightarrow> (string \<times> string \<times> activity_event \<times> datetime \<times> io_plan) list \<Rightarrow> activity_bucket disk \<Rightarrow> activity_bucket disk" where
  "activity_puts x [] d = d"
| "activity_puts x ((i, t, e, now, io) # ps) d = activity_puts x ps (snd (activity_put x io now i t e d))"

lemma activity_puts_eq: "activity_puts x ps d = activities.run x ps d"
  by (induction x ps d rule: activity_puts.induct) (simp_all add: activity_put_def activity_put_records_eq)

text \<open>
  An activity bucket belongs to its token: after any run of puts it is there with the same token
  hash, and unchanged if no put to its id had a token of that hash; a list with another token is refused
  and changes nothing.
\<close>

theorem activity_bucket_owner:
  assumes "load d = Ok bs" and "find (\<lambda>b. ab_bucket_id b = j) bs = Some b"
  shows "\<exists>bs' b'. load (activity_puts x ps d) = Ok bs' \<and> find (\<lambda>b. ab_bucket_id b = j) bs' = Some b' \<and>
    ab_auth_hash b' = ab_auth_hash b \<and>
    ((\<forall>(i, t, _) \<in> set ps. i = j \<longrightarrow> activity_auth_hash x t \<noteq> ab_auth_hash b) \<longrightarrow> b' = b) \<and>
    (\<forall>io t n c now. activity_auth_hash x t \<noteq> ab_auth_hash b \<longrightarrow>
       activity_list x io j t n c now (activity_puts x ps d)
         = (Ok ActivityListUnauthorized, activity_puts x ps d))"
proof -
  obtain bs' b' where b': "load (activity_puts x ps d) = Ok bs'" "find (\<lambda>b. ab_bucket_id b = j) bs' = Some b'"
      "ab_auth_hash b' = ab_auth_hash b"
      "(\<forall>(i, t, _) \<in> set ps. i = j \<longrightarrow> activity_auth_hash x t \<noteq> ab_auth_hash b) \<longrightarrow> b' = b"
    using activities.run_owner [OF assms(1), of j b x ps] assms(2)
    unfolding activity_puts_eq activities.bucket_def by blast
  then have "activity_list x io j t n c now (activity_puts x ps d) = (Ok ActivityListUnauthorized, activity_puts x ps d)"
    if "activity_auth_hash x t \<noteq> ab_auth_hash b" for io t n c now
    using that by (simp add: activity_list_def store_update_def activity_list_records_def
        activity_bucket_list_def activity_authorize_def)
  with b' show ?thesis by blast
qed

theorem activity_bucket_owner_witness:
  "let b = activity_bucket_new ''sync_1'' (activity_auth_hash toy ''auth_1'') 0 in
   activity_list toy io_ok ''sync_1'' ''auth_2'' 10 None 5 (activity_disk [b])
     = (Ok ActivityListUnauthorized, activity_disk [b])"
proof -
  let ?b = "activity_bucket_new ''sync_1'' (activity_auth_hash toy ''auth_1'') 0"
  have ne: "activity_auth_hash toy ''auth_2'' \<noteq> ab_auth_hash ?b"
    by (simp add: activity_bucket_new_def activity_auth_hash_def sha256_hex_def pad_def hex2_lower_def hex_lower_def)
  have "find (\<lambda>b. ab_bucket_id b = ''sync_1'') [?b] = Some ?b" by (simp add: activity_bucket_new_def)
  from activity_bucket_owner [OF activity_disk_load this, of toy "[]"] ne
  show ?thesis unfolding Let_def activity_puts.simps by blast
qed

section \<open>Paging\<close>

text \<open>A device that follows the cursors of a bucket, at most \<open>fuel\<close> pages, while the clock stands at \<open>now\<close>.\<close>

fun activity_walk ::
  "crates \<Rightarrow> nat \<Rightarrow> string \<Rightarrow> nat \<Rightarrow> activity_cursor option \<Rightarrow> datetime \<Rightarrow> activity_bucket \<Rightarrow>
   string + stored_activity_event list" where
  "activity_walk x 0 t limit cursor now b = Err ''out of fuel''"
| "activity_walk x (Suc fuel) t limit cursor now b =
     (case activity_bucket_list x t limit cursor now b of
        (ActivityFound page, b') \<Rightarrow>
          (case apg_next_cursor page of
             None \<Rightarrow> Ok (apg_events page)
           | Some s \<Rightarrow> and_then (activity_cursor_decode x s) (\<lambda>c.
               map_ok (\<lambda>rest. apg_events page @ rest) (activity_walk x fuel t limit (Some c) now b')))
      | (_, b') \<Rightarrow> Err ''refused'')"

lemma activity_cursor_roundtrip:
  assumes "base64_law x" "json_law x" "rfc3339_law x" "four_digit_year (ac_created_at c)"
  shows "activity_cursor_decode x (activity_cursor_encode x c) = Ok c"
proof -
  have "json_plain (Suc 126) (enc_activity_cursor x c)"
    unfolding enc_activity_cursor_def by (intro json_plain_JObj) auto
  then have "from_json x (dec_activity_cursor x) (json_text x (enc_activity_cursor x c)) = Ok c"
    using assms
    by (intro from_json_text) (simp_all add: dec_activity_cursor_def enc_activity_cursor_def field_defs serde)
  then show ?thesis
    using assms(1) by (simp add: activity_cursor_decode_def activity_cursor_encode_def base64_roundtrip)
qed

definition activity_cursor_at :: "stored_activity_event list \<Rightarrow> nat \<Rightarrow> activity_cursor option" where
  "activity_cursor_at es k = (if k = 0 then None
     else Some \<lparr>ac_created_at = sae_created (es ! (k - 1)), ac_event_id = sae_id (es ! (k - 1))\<rparr>)"

lemma activity_page_at:
  assumes "activity_paging.ordered es" "k \<le> length es" "1 \<le> limit"
  shows "activity_page_of x limit (activity_cursor_at es k) es =
    \<lparr>apg_events = take limit (drop k es),
     apg_next_cursor = (if k + limit < length es
       then Some (activity_cursor_encode x (the (activity_cursor_at es (k + limit)))) else None),
     apg_has_more = (k + limit < length es)\<rparr>"
proof -
  have start: "drop (case activity_cursor_at es k of None \<Rightarrow> 0
      | Some c \<Rightarrow> (case position (\<lambda>entry. activity_event_is_after_cursor entry c) es of
          Some i \<Rightarrow> i | None \<Rightarrow> length es)) es = drop k es"
    using activity_paging.position_resume [OF assms(1), of "k - 1"] assms(2)
    by (cases k) (simp_all add: activity_cursor_at_def)
  have extra: "length (take (limit + 1) (drop k es)) > limit \<longleftrightarrow> k + limit < length es" by auto
  have cand: "(if k + limit < length es then take limit (take (limit + 1) (drop k es))
      else take (limit + 1) (drop k es)) = take limit (drop k es)"
    by (auto simp: min_def)
  have last: "last (take limit (drop k es)) = es ! (k + limit - 1)" "take limit (drop k es) \<noteq> []"
    if "k + limit < length es"
    using that assms(3) last_take [of limit "drop k es"] by auto
  show ?thesis
    unfolding activity_page_of_def Let_def start extra cand
    using last assms(3) by (auto simp: activity_cursor_at_def)
qed

lemma activity_list_of:
  assumes "ab_auth_hash b = activity_auth_hash x t" "events_ok (ab_events b)"
    and "\<forall>e \<in> set (ab_events b). now < ae_expires_at (sae_event e)"
  shows "activity_bucket_list x t limit cursor now b
    = (ActivityFound (activity_page_of x limit cursor (ab_events b)), b)"
  using assms activity_paging.sort_by_sorted
  by (simp add: activity_bucket_list_def activity_authorize_def prune_expired_def events_ok_def
      activity_paging.ordered_def)

lemma activity_walk_from:
  assumes laws: "base64_law x" "json_law x" "rfc3339_law x"
    and b: "ab_auth_hash b = activity_auth_hash x t" "events_ok (ab_events b)"
      "\<forall>e \<in> set (ab_events b). now < ae_expires_at (sae_event e) \<and> four_digit_year (sae_created e)"
    and limit: "1 \<le> limit"
  shows "k \<le> length (ab_events b) \<Longrightarrow> length (ab_events b) - k < fuel \<Longrightarrow>
    activity_walk x fuel t limit (activity_cursor_at (ab_events b) k) now b = Ok (drop k (ab_events b))"
proof (induction fuel arbitrary: k)
  case 0
  then show ?case by simp
next
  case (Suc fuel)
  let ?es = "ab_events b"
  have "activity_paging.ordered ?es" using b(2) by (simp add: events_ok_def)
  note page = activity_page_at [OF this Suc.prems(1) limit, of x]
  have lst: "activity_bucket_list x t limit c now b = (ActivityFound (activity_page_of x limit c ?es), b)" for c
    using activity_list_of [OF b(1,2)] b(3) by simp
  show ?case
  proof (cases "k + limit < length ?es")
    case False
    then show ?thesis using page lst by simp
  next
    case True
    let ?e = "?es ! (k + limit - 1)"
    let ?c = "\<lparr>ac_created_at = sae_created ?e, ac_event_id = sae_id ?e\<rparr>"
    have at: "activity_cursor_at ?es (k + limit) = Some ?c" using limit by (simp add: activity_cursor_at_def)
    have "?e \<in> set ?es" using True limit by (intro nth_mem) linarith
    then have dec: "activity_cursor_decode x (activity_cursor_encode x ?c) = Ok ?c"
      using laws b(3) by (intro activity_cursor_roundtrip) auto
    have "length ?es - (k + limit) < fuel" using Suc.prems(2) True limit by linarith
    then have "activity_walk x fuel t limit (Some ?c) now b = Ok (drop (k + limit) ?es)"
      using Suc.IH [of "k + limit", unfolded at] True by simp
    moreover have "take limit (drop k ?es) @ drop (k + limit) ?es = drop k ?es"
      by (metis add.commute append_take_drop_id drop_drop)
    ultimately show ?thesis using page lst dec True by (simp add: at)
  qed
qed

text \<open>
  C27. A device that syncs gets everything: following the cursors of a well-formed bucket with its token
  delivers every unexpired event exactly once, oldest first, whatever the page size.
\<close>

theorem activity_walk_complete:
  assumes "base64_law x" "json_law x" "rfc3339_law x"
    and "ab_auth_hash b = activity_auth_hash x t" "events_ok (ab_events b)"
    and "\<forall>e \<in> set (ab_events b). four_digit_year (sae_created e)"
    and "1 \<le> limit" "length (ab_events b) < fuel"
  shows "activity_walk x fuel t limit None now b
    = Ok (filter (\<lambda>e. now < ae_expires_at (sae_event e)) (ab_events b))"
proof -
  let ?b = "prune_expired now b"
  have es: "ab_events ?b = filter (\<lambda>e. now < ae_expires_at (sae_event e)) (ab_events b)"
      "ab_auth_hash ?b = ab_auth_hash b"
    by (simp_all add: prune_expired_def)
  have ok: "events_ok (ab_events ?b)" using assms(5) by (simp add: es events_ok_filter)
  have len: "length (ab_events ?b) - 0 < fuel"
    using le_less_trans [OF length_filter_le assms(8)] by (simp add: es)
  have year: "\<forall>e \<in> set (ab_events ?b). now < ae_expires_at (sae_event e) \<and> four_digit_year (sae_created e)"
    using assms(6) by (auto simp: es)
  have walk: "activity_walk x fuel t limit None now ?b = Ok (ab_events ?b)"
    using activity_walk_from [OF assms(1-3) _ ok year assms(7) _ len] assms(4)
    by (simp add: es(2) activity_cursor_at_def)
  have "prune_expired now ?b = ?b" by (simp add: prune_expired_def)
  then have "activity_bucket_list x t limit c now b = activity_bucket_list x t limit c now ?b" for c
    using assms(4) es(2) by (simp add: activity_bucket_list_def activity_authorize_def)
  then have "activity_walk x fuel t limit None now b = activity_walk x fuel t limit None now ?b"
    by (cases fuel) simp_all
  with walk show ?thesis by (simp add: es(1))
qed

definition sample_event :: "string \<Rightarrow> activity_event" where
  "sample_event i = \<lparr>ae_version = 1, ae_event_id = i, ae_source_device_id = DeviceId ''d'', ae_created_at = 0,
     ae_expires_at = 9, ae_content_encoding = ACTIVITY_CONTENT_ENCODING,
     ae_encryption = \<lparr>aen_suite = ACTIVITY_ENCRYPTION_SUITE, aen_kdf = ACTIVITY_KDF, aen_salt = ''s'', aen_nonce = ''n''\<rparr>,
     ae_ciphertext = ''c''\<rparr>"

definition sample_entry :: "string \<Rightarrow> datetime \<Rightarrow> datetime \<Rightarrow> stored_activity_event" where
  "sample_entry i created expires =
     \<lparr>sae_event = (sample_event i)\<lparr>ae_created_at := created, ae_expires_at := expires\<rparr>, sae_stored_at = created,
      sae_size_bytes = 3, sae_content_sha256 = ''h''\<rparr>"

text \<open>Three events, one of them expired, fetched one by one.\<close>

theorem activity_walk_complete_witness:
  "let b = (activity_bucket_new ''sync_1'' (activity_auth_hash toy ''auth_1'') 0)
         \<lparr>ab_events := [sample_entry ''act_1'' 0 9, sample_entry ''act_2'' 1 4, sample_entry ''act_3'' 2 9]\<rparr>
   in activity_walk toy 4 ''auth_1'' 1 None 5 b = Ok [sample_entry ''act_1'' 0 9, sample_entry ''act_3'' 2 9]"
proof -
  let ?es = "[sample_entry ''act_1'' 0 9, sample_entry ''act_2'' 1 4, sample_entry ''act_3'' 2 9]"
  let ?b = "(activity_bucket_new ''sync_1'' (activity_auth_hash toy ''auth_1'') 0)\<lparr>ab_events := ?es\<rparr>"
  have "events_ok ?es"
    by (simp add: events_ok_def MAX_ACTIVITY_EVENTS_def activity_paging.ordered_def activity_paging.le_def
        compare_activity_events_oldest_first_def sample_entry_def sample_event_def)
  moreover have "\<forall>e \<in> set ?es. four_digit_year (sae_created e)"
    by (simp add: sample_entry_def four_digit_year_def seconds_def)
  ultimately have "activity_walk toy 4 ''auth_1'' 1 None 5 ?b
      = Ok (filter (\<lambda>e. 5 < ae_expires_at (sae_event e)) ?es)"
    using activity_walk_complete [OF toy_laws(1,8,7), of ?b "''auth_1''" 1 4 5] by (simp add: activity_bucket_new_def)
  then show ?thesis by (simp add: Let_def sample_entry_def)
qed

text \<open>
  Sending an event again is harmless: a put of an event id that the bucket holds unexpired reports
  the stored event and adds, replaces and drops nothing but expired events.
\<close>

theorem activity_put_idempotent:
  assumes "ab_auth_hash b = activity_auth_hash x t" "distinct (map sae_id (ab_events b))"
    and "e \<in> set (ab_events b)" "now < ae_expires_at (sae_event e)" "ae_event_id again = sae_id e"
  shows "activity_bucket_put x t again now b = (ActivityStored e, prune_expired now b)"
proof -
  let ?es = "filter (\<lambda>e. now < ae_expires_at (sae_event e)) (ab_events b)"
  have "distinct (map sae_id ?es)" using assms(2) by (rule distinct_map_filter)
  moreover have "e \<in> set ?es" using assms(3,4) by simp
  ultimately have "find (\<lambda>entry. sae_id entry = sae_id e) ?es = Some e" by (rule distinct_keys_find)
  then show ?thesis
    using assms(1,5) by (simp add: activity_bucket_put_def activity_authorize_def prune_expired_def)
qed

theorem activity_put_idempotent_witness:
  "let e = \<lparr>sae_event = sample_event ''act_1'', sae_stored_at = 0, sae_size_bytes = 3, sae_content_sha256 = ''h''\<rparr>;
       b = (activity_bucket_new ''sync_1'' (activity_auth_hash toy ''auth_1'') 0)\<lparr>ab_events := [e]\<rparr>
   in activity_bucket_put toy ''auth_1'' (sample_event ''act_1'') 5 b = (ActivityStored e, b)"
proof -
  let ?e = "\<lparr>sae_event = sample_event ''act_1'', sae_stored_at = 0, sae_size_bytes = 3, sae_content_sha256 = ''h''\<rparr>"
  let ?b = "(activity_bucket_new ''sync_1'' (activity_auth_hash toy ''auth_1'') 0)\<lparr>ab_events := [?e]\<rparr>"
  have "prune_expired 5 ?b = ?b" by (simp add: prune_expired_def sample_event_def)
  with activity_put_idempotent [of ?b toy "''auth_1''" ?e 5 "sample_event ''act_1''"]
  show ?thesis by (simp add: Let_def activity_bucket_new_def sample_event_def)
qed

end
