(* ===== verification/Firestore.thy ===== *)
theory Firestore
  imports Steps Publish_Store Message_Store Backup_Store Activity_Store
begin

text \<open>
  How the server speaks to Firestore (\<^verbatim>\<open>crates/aichan-server/src/lib.rs\<close>): the configuration, one exchange
  with its token and its log line, and the documents in which records, envelopes and buckets are kept.
  The service, with the metadata server that gives out tokens, and the clock are the environment. The
  four stores have a copy each of the exchange; the publish store's is the one translated.
\<close>

section \<open>Configuration\<close>

datatype firestore_auth = MetadataAuth | NoAuth

record firestore_config =
  fc_project_id :: string
  fc_database_id :: string
  fc_api_base_url :: string
  fc_auth :: firestore_auth

record cached_access_token =
  cat_value :: string
  cat_expires_at :: nat

datatype firestore_precondition = MissingDocument | UpdateTime string

definition precondition_json :: "firestore_precondition \<Rightarrow> json" where
  "precondition_json p =
     (case p of
        MissingDocument \<Rightarrow> obj [(''exists'', JBool False)]
      | UpdateTime update_time \<Rightarrow> obj [(''updateTime'', JStr update_time)])"

definition documents_root :: "firestore_config \<Rightarrow> string" where
  "documents_root c = ''projects/'' @ fc_project_id c @ ''/databases/'' @ fc_database_id c @ ''/documents''"

definition document_name :: "firestore_config \<Rightarrow> string \<Rightarrow> string \<Rightarrow> string" where
  "document_name c collection ident =
     documents_root c @ ''/'' @ collection @ ''/'' @ percent_encode_path_segment ident"

definition document_url :: "firestore_config \<Rightarrow> string \<Rightarrow> string" where
  "document_url c name = trim_end_slash (fc_api_base_url c) @ ''/'' @ name"

definition commit_url :: "firestore_config \<Rightarrow> string" where
  "commit_url c = trim_end_slash (fc_api_base_url c) @ ''/projects/'' @ fc_project_id c @ ''/databases/'' @
     fc_database_id c @ ''/documents:commit''"

definition run_query_url :: "firestore_config \<Rightarrow> string" where
  "run_query_url c = trim_end_slash (fc_api_base_url c) @ ''/'' @ documents_root c @ '':runQuery''"

definition metadata_service_account_url :: "string \<Rightarrow> string" where
  "metadata_service_account_url p =
     ''http://metadata.google.internal/computeMetadata/v1/instance/service-accounts/default/'' @ p"

section \<open>One exchange\<close>

record fs_request =
  fr_method :: string
  fr_url :: string
  fr_headers :: "(string \<times> string) list"
  fr_body :: "bytes option"

text \<open>What reqwest has of an exchange: nothing, a status without a readable body, or both.\<close>

datatype fs_answer = SendFailed | TextFailed nat | Answered nat bytes

text \<open>
  \<open>'n\<close> is the state of the world: an exchange or a look at the clock may find it changed. The clock
  counts nanoseconds.
\<close>

record 'n fs_env =
  fe_crates :: crates
  fe_exchange :: "fs_request \<Rightarrow> 'n \<Rightarrow> fs_answer \<times> 'n"
  fe_clock :: "'n \<Rightarrow> nat \<times> 'n"

record 'n firestore =
  fs_config :: firestore_config
  fs_token_cache :: "cached_access_token option"
  fs_net :: 'n
  fs_log :: "(string \<times> json) list"

definition firestore_new :: "firestore_config \<Rightarrow> 'n \<Rightarrow> 'n firestore" where
  "firestore_new c net = \<lparr>fs_config = c, fs_token_cache = None, fs_net = net, fs_log = []\<rparr>"

definition look_at_clock :: "'n fs_env \<Rightarrow> ('n firestore, nat) step" where
  "look_at_clock env s = (let (t, net) = fe_clock env (fs_net s) in (Ok t, s\<lparr>fs_net := net\<rparr>))"

definition send_request :: "'n fs_env \<Rightarrow> fs_request \<Rightarrow> ('n firestore, fs_answer) step" where
  "send_request env request s =
     (let (a, net) = fe_exchange env request (fs_net s) in (Ok a, s\<lparr>fs_net := net\<rparr>))"

definition as_u64 :: "json \<Rightarrow> nat option" where
  "as_u64 v = (case v of JNum (PosInt n) \<Rightarrow> Some n | _ \<Rightarrow> None)"

text \<open>\<^verbatim>\<open>metadata_access_token\<close>: the cached token while it lives, or a new one.\<close>

definition token_lifetime :: "json \<Rightarrow> nat" where
  "token_lifetime v =
     max ((case Option.bind (jget v ''expires_in'') as_u64 of Some n \<Rightarrow> n | None \<Rightarrow> 3600) - 60) 60"

definition fetch_access_token :: "'n fs_env \<Rightarrow> ('n firestore, json) step" where
  "fetch_access_token env =
     then_do (send_request env \<lparr>fr_method = ''GET'', fr_url = metadata_service_account_url ''token'',
                fr_headers = [(''Metadata-Flavor'', ''Google'')], fr_body = None\<rparr>) (\<lambda>a.
       case a of
         SendFailed \<Rightarrow> fail ''request Google metadata access token''
       | TextFailed status \<Rightarrow>
           (if 400 \<le> status \<and> status \<le> 599 then fail ''Google metadata access token response''
            else fail ''parse Google metadata access token response'')
       | Answered status text \<Rightarrow>
           (if 400 \<le> status \<and> status \<le> 599 then fail ''Google metadata access token response''
            else check (map_ok value_of (map_err (\<lambda>e. ''parse Google metadata access token response'')
                   (json_read (fe_crates env) text)))))"

definition renew_access_token :: "'n fs_env \<Rightarrow> ('n firestore, string) step" where
  "renew_access_token env =
     then_do (fetch_access_token env) (\<lambda>v.
     then_do (check (ok_or ''Google metadata token response missing access_token''
                (Option.bind (jget v ''access_token'') as_str))) (\<lambda>token.
     then_do (look_at_clock env) (\<lambda>now s.
       give token (s\<lparr>fs_token_cache := Some \<lparr>cat_value = token,
         cat_expires_at = now + token_lifetime v * 1000000000\<rparr>\<rparr>))))"

definition metadata_access_token :: "'n fs_env \<Rightarrow> ('n firestore, string) step" where
  "metadata_access_token env =
     then_do (look_at_clock env) (\<lambda>now s.
       case fs_token_cache s of
         Some token \<Rightarrow>
           (if cat_expires_at token > now then give (cat_value token) s else renew_access_token env s)
       | None \<Rightarrow> renew_access_token env s)"

text \<open>\<^verbatim>\<open>authorize\<close>: the headers that it adds to a request.\<close>

definition authorize :: "'n fs_env \<Rightarrow> ('n firestore, (string \<times> string) list) step" where
  "authorize env s =
     (case fc_auth (fs_config s) of
        NoAuth \<Rightarrow> give [] s
      | MetadataAuth \<Rightarrow>
          then_do (metadata_access_token env) (\<lambda>token. give [(''Authorization'', ''Bearer '' @ token)]) s)"

definition firestore_event_name :: "string \<Rightarrow> string \<Rightarrow> string" where
  "firestore_event_name operation outcome =
     (if operation = ''firestore.run_query'' \<and> outcome = ''completed'' then ''firestore.query.completed''
      else if operation = ''firestore.run_query'' \<and> outcome = ''failed'' then ''firestore.query.failed''
      else if operation = ''firestore.commit'' \<and> outcome = ''completed'' then ''firestore.write.completed''
      else if operation = ''firestore.commit'' \<and> outcome = ''failed'' then ''firestore.write.failed''
      else if operation = ''firestore.get_document'' \<and> outcome = ''completed'' then ''firestore.get.completed''
      else if operation = ''firestore.get_document'' \<and> outcome = ''failed'' then ''firestore.get.failed''
      else if outcome = ''failed'' then ''firestore.request.failed''
      else ''firestore.request.completed'')"

definition log_exchange :: "'n fs_env \<Rightarrow> string \<Rightarrow> string \<Rightarrow> nat \<Rightarrow> nat \<Rightarrow> ('n firestore, unit) step" where
  "log_exchange env operation outcome status started =
     then_do (look_at_clock env) (\<lambda>now s.
       give () (s\<lparr>fs_log := fs_log s @ [(firestore_event_name operation outcome,
         obj [(''operation'', JStr operation), (''status'', jnat status),
              (''latency_ms'', jnat ((now - started) div 1000000))])]\<rparr>))"

text \<open>What \<^verbatim>\<open>get_json\<close> and \<^verbatim>\<open>post_json\<close> make of an answer; a body that is not JSON is an error as well.\<close>

definition read_answer :: "'n fs_env \<Rightarrow> string \<Rightarrow> nat \<Rightarrow> fs_answer \<Rightarrow> ('n firestore, json) step" where
  "read_answer env operation started a =
     (case a of
        SendFailed \<Rightarrow> fail (operation @ '' request failed'')
      | TextFailed status \<Rightarrow> fail (operation @ '' response read failed'')
      | Answered status text \<Rightarrow>
          (if \<not> (200 \<le> status \<and> status \<le> 299)
           then then_do (log_exchange env operation ''failed'' status started) (\<lambda>_.
                  fail (operation @ '' failed with HTTP '' @ show_nat status @ '': '' @ text))
           else then_do (log_exchange env operation ''completed'' status started) (\<lambda>_.
                  check (map_ok value_of (map_err (\<lambda>e. operation @ '' invalid JSON'')
                    (json_read (fe_crates env) text))))))"

definition answer_status :: "fs_answer \<Rightarrow> nat option" where
  "answer_status a = (case a of SendFailed \<Rightarrow> None | TextFailed status \<Rightarrow> Some status | Answered status text \<Rightarrow> Some status)"

definition get_json :: "'n fs_env \<Rightarrow> string \<Rightarrow> string \<Rightarrow> ('n firestore, json option) step" where
  "get_json env url operation =
     then_do (look_at_clock env) (\<lambda>started.
     then_do (authorize env) (\<lambda>auth.
     then_do (send_request env \<lparr>fr_method = ''GET'', fr_url = url, fr_headers = auth, fr_body = None\<rparr>) (\<lambda>a.
       if answer_status a = Some 404 then give None
       else then_do (read_answer env operation started a) (\<lambda>v. give (Some v)))))"

definition post_json :: "'n fs_env \<Rightarrow> string \<Rightarrow> json \<Rightarrow> string \<Rightarrow> ('n firestore, json) step" where
  "post_json env url body operation =
     then_do (look_at_clock env) (\<lambda>started.
     then_do (authorize env) (\<lambda>auth.
     then_do (send_request env \<lparr>fr_method = ''POST'', fr_url = url, fr_headers = auth,
                fr_body = Some (json_text (fe_crates env) body)\<rparr>) (\<lambda>a.
       read_answer env operation started a)))"

section \<open>Fields of a document\<close>

definition firestore_timestamp :: "crates \<Rightarrow> datetime \<Rightarrow> string" where
  "firestore_timestamp x t = rfc3339_millis x t"

definition string_value :: "string \<Rightarrow> json" where "string_value s = obj [(''stringValue'', JStr s)]"
definition bool_value :: "bool \<Rightarrow> json" where "bool_value b = obj [(''booleanValue'', JBool b)]"
definition integer_value :: "nat \<Rightarrow> json" where "integer_value n = obj [(''integerValue'', JStr (show_nat n))]"

definition timestamp_value :: "crates \<Rightarrow> datetime \<Rightarrow> json" where
  "timestamp_value x t = obj [(''timestampValue'', JStr (firestore_timestamp x t))]"

definition null_value :: json where "null_value = obj [(''nullValue'', JNull)]"

definition firestore_string_array :: "string list \<Rightarrow> json" where
  "firestore_string_array values = obj [(''arrayValue'', obj [(''values'', JArr (map string_value values))])]"

definition firestore_optional_timestamp :: "crates \<Rightarrow> datetime option \<Rightarrow> json" where
  "firestore_optional_timestamp x t = (case t of None \<Rightarrow> null_value | Some t \<Rightarrow> timestamp_value x t)"

definition firestore_optional_string :: "string option \<Rightarrow> json" where
  "firestore_optional_string s = (case s of None \<Rightarrow> null_value | Some s \<Rightarrow> string_value s)"

text \<open>The readers of a field; \<open>flds\<close> is the object of all of them.\<close>

definition firestore_string_field :: "json \<Rightarrow> string \<Rightarrow> string + string" where
  "firestore_string_field flds name =
     ok_or (''Firestore document missing string field '' @ name)
       (Option.bind (Option.bind (jget flds name) (\<lambda>v. jget v ''stringValue'')) as_str)"

definition firestore_bool_field :: "json \<Rightarrow> string \<Rightarrow> bool option" where
  "firestore_bool_field flds name =
     Option.bind (Option.bind (jget flds name) (\<lambda>v. jget v ''booleanValue'')) as_bool"

definition firestore_optional_string_field :: "json \<Rightarrow> string \<Rightarrow> string option" where
  "firestore_optional_string_field flds name =
     Option.bind (Option.bind (jget flds name) (\<lambda>v. jget v ''stringValue'')) as_str"

definition firestore_optional_timestamp_field :: "crates \<Rightarrow> json \<Rightarrow> string \<Rightarrow> string + datetime option" where
  "firestore_optional_timestamp_field x flds name =
     (case jget flds name of
        None \<Rightarrow> Ok None
      | Some v \<Rightarrow>
          (if jget v ''nullValue'' \<noteq> None then Ok None
           else case Option.bind (jget v ''timestampValue'') as_str of
             None \<Rightarrow> Ok None
           | Some t \<Rightarrow> map_ok Some (map_err (\<lambda>e. ''Firestore document has invalid timestamp field '' @ name)
                        (rfc3339_parse x t))))"

definition document_fields :: "string \<Rightarrow> json \<Rightarrow> string + json" where
  "document_fields context document =
     ok_or context (Option.bind (jget document ''fields'') (\<lambda>f. case f of JObj m \<Rightarrow> Some f | _ \<Rightarrow> None))"

section \<open>Documents\<close>

definition firestore_document_from_record :: "crates \<Rightarrow> string \<Rightarrow> stored_publish \<Rightarrow> json" where
  "firestore_document_from_record x name e =
     (let ob = sp_object e; payload = obj_payload ob in obj [
        (''name'', JStr name),
        (''fields'', obj [
           (''id'', string_value (obj_id ob)),
           (''peer_id'', string_value (peer_str (prp_peer_id payload))),
           (''public_key'', string_value (prp_public_key payload)),
           (''created_at'', timestamp_value x (obj_created_at ob)),
           (''updated_at'', timestamp_value x (prp_updated_at payload)),
           (''tags'', firestore_string_array (prp_tags payload)),
           (''deleted'', bool_value (sp_deleted e)),
           (''hidden'', bool_value (sp_hidden e)),
           (''deleted_at'', firestore_optional_timestamp x (sp_deleted_at e)),
           (''hidden_at'', firestore_optional_timestamp x (sp_hidden_at e)),
           (''hide_reason'', firestore_optional_string (sp_hide_reason e)),
           (''hidden_by_principal'', firestore_optional_string (sp_hidden_by_principal e)),
           (''hidden_by_hash'', firestore_optional_string (sp_hidden_by_hash e)),
           (''restored_at'', firestore_optional_timestamp x (sp_restored_at e)),
           (''restore_reason'', firestore_optional_string (sp_restore_reason e)),
           (''restored_by_principal'', firestore_optional_string (sp_restored_by_principal e)),
           (''restored_by_hash'', firestore_optional_string (sp_restored_by_hash e)),
           (''object_json'', string_value (json_text x (enc_signed x (enc_publish x) ob)))])])"

definition stored_record_from_firestore_document :: "crates \<Rightarrow> json \<Rightarrow> string + stored_publish" where
  "stored_record_from_firestore_document x document =
     and_then (document_fields ''Firestore document missing fields'' document) (\<lambda>flds.
     and_then (firestore_string_field flds ''object_json'') (\<lambda>object_json.
     and_then (map_err (\<lambda>e. ''Firestore object_json is not a publish record'')
                (from_json x (dec_signed x (dec_publish x)) object_json)) (\<lambda>object.
     (let deleted = (case firestore_bool_field flds ''deleted'' of Some b \<Rightarrow> b | None \<Rightarrow> False);
          hidden = (case firestore_bool_field flds ''hidden'' of Some b \<Rightarrow> b | None \<Rightarrow> False) in
      and_then (firestore_optional_timestamp_field x flds ''deleted_at'') (\<lambda>deleted_at.
      and_then (firestore_optional_timestamp_field x flds ''hidden_at'') (\<lambda>hidden_at.
      and_then (firestore_optional_timestamp_field x flds ''restored_at'') (\<lambda>restored_at.
        Ok \<lparr>sp_object = object, sp_deleted = deleted, sp_hidden = hidden, sp_deleted_at = deleted_at,
            sp_hidden_at = hidden_at,
            sp_hide_reason = firestore_optional_string_field flds ''hide_reason'',
            sp_hidden_by_principal = firestore_optional_string_field flds ''hidden_by_principal'',
            sp_hidden_by_hash = firestore_optional_string_field flds ''hidden_by_hash'',
            sp_restored_at = restored_at,
            sp_restore_reason = firestore_optional_string_field flds ''restore_reason'',
            sp_restored_by_principal = firestore_optional_string_field flds ''restored_by_principal'',
            sp_restored_by_hash = firestore_optional_string_field flds ''restored_by_hash''\<rparr>)))))))"

definition firestore_document_from_message :: "crates \<Rightarrow> string \<Rightarrow> stored_message \<Rightarrow> json" where
  "firestore_document_from_message x name e =
     (let ob = sm_object e; payload = obj_payload ob in obj [
        (''name'', JStr name),
        (''fields'', obj [
           (''id'', string_value (obj_id ob)),
           (''sender'', string_value (peer_str (mep_sender payload))),
           (''recipient'', string_value (peer_str (mep_recipient payload))),
           (''created_at'', timestamp_value x (obj_created_at ob)),
           (''expires_at'', timestamp_value x (mep_expires_at payload)),
           (''stored_at'', timestamp_value x (sm_stored_at e)),
           (''object_json'', string_value (json_text x (enc_signed x (enc_message x) ob)))])])"

definition stored_message_from_firestore_document :: "crates \<Rightarrow> json \<Rightarrow> string + stored_message" where
  "stored_message_from_firestore_document x document =
     and_then (document_fields ''Firestore document missing fields'' document) (\<lambda>flds.
     and_then (firestore_string_field flds ''object_json'') (\<lambda>object_json.
     and_then (map_err (\<lambda>e. ''Firestore object_json is not a message envelope'')
                (from_json x (dec_signed x (dec_message x)) object_json)) (\<lambda>object.
     and_then (firestore_optional_timestamp_field x flds ''stored_at'') (\<lambda>stored_at.
       Ok \<lparr>sm_object = object, sm_stored_at = (case stored_at of Some t \<Rightarrow> t | None \<Rightarrow> obj_created_at object)\<rparr>))))"

text \<open>The generations and events of a bucket are one JSON text each.\<close>

definition enc_generation :: "crates \<Rightarrow> hosted_generation \<Rightarrow> json" where
  "enc_generation x g = JObj [
     (''generation_id'', JStr (hg_generation_id g)), (''created_at'', enc_time x (hg_created_at g)),
     (''size_bytes'', jnat (hg_size_bytes g)), (''content_sha256'', JStr (hg_content_sha256 g)),
     (''backup'', hg_backup g), (''deleted'', JBool (hg_deleted g))]"

definition dec_generation :: "crates \<Rightarrow> json \<Rightarrow> hosted_generation option" where
  "dec_generation x v =
     (case struct_fields 5 [''generation_id'', ''created_at'', ''size_bytes'', ''content_sha256'', ''backup'', ''deleted''] v of
        None \<Rightarrow> None
      | Some f \<Rightarrow>
        (case (req f ''generation_id'' dec_str, req f ''created_at'' (dec_time x), req f ''size_bytes'' (dec_uint usize_max),
               req f ''content_sha256'' dec_str, req f ''backup'' (\<lambda>v. Some (value_of v)), default_field False f ''deleted'' dec_bool) of
           (Some i, Some t, Some n, Some h, Some b, Some d) \<Rightarrow>
             Some \<lparr>hg_generation_id = i, hg_created_at = t, hg_size_bytes = n, hg_content_sha256 = h,
                   hg_backup = b, hg_deleted = d\<rparr>
         | _ \<Rightarrow> None))"

definition enc_stored_event :: "crates \<Rightarrow> stored_activity_event \<Rightarrow> json" where
  "enc_stored_event x e = JObj [
     (''event'', enc_activity_event x (sae_event e)), (''stored_at'', enc_time x (sae_stored_at e)),
     (''size_bytes'', jnat (sae_size_bytes e)), (''content_sha256'', JStr (sae_content_sha256 e))]"

definition dec_stored_event :: "crates \<Rightarrow> json \<Rightarrow> stored_activity_event option" where
  "dec_stored_event x v =
     (case struct_fields 4 [''event'', ''stored_at'', ''size_bytes'', ''content_sha256''] v of
        None \<Rightarrow> None
      | Some f \<Rightarrow>
        (case (req f ''event'' (dec_activity_event x), req f ''stored_at'' (dec_time x),
               req f ''size_bytes'' (dec_uint usize_max), req f ''content_sha256'' dec_str) of
           (Some e, Some t, Some n, Some h) \<Rightarrow>
             Some \<lparr>sae_event = e, sae_stored_at = t, sae_size_bytes = n, sae_content_sha256 = h\<rparr>
         | _ \<Rightarrow> None))"

definition firestore_document_from_backup_bucket :: "crates \<Rightarrow> string \<Rightarrow> hosted_bucket \<Rightarrow> json" where
  "firestore_document_from_backup_bucket x name b = obj [
     (''name'', JStr name),
     (''fields'', obj [
        (''lookup_id'', string_value (hb_lookup_id b)),
        (''auth_hash'', string_value (hb_auth_hash b)),
        (''created_at'', timestamp_value x (hb_created_at b)),
        (''updated_at'', timestamp_value x (hb_updated_at b)),
        (''generation_count'', integer_value (length (hb_generations b))),
        (''generations_json'', string_value (json_text x (JArr (map (enc_generation x) (hb_generations b)))))])]"

definition stored_backup_bucket_from_firestore_document :: "crates \<Rightarrow> json \<Rightarrow> string + hosted_bucket" where
  "stored_backup_bucket_from_firestore_document x document =
     and_then (document_fields ''Firestore backup document missing fields'' document) (\<lambda>flds.
     and_then (firestore_string_field flds ''lookup_id'') (\<lambda>lookup_id.
     and_then (firestore_string_field flds ''auth_hash'') (\<lambda>auth_hash.
     and_then (firestore_string_field flds ''generations_json'') (\<lambda>generations_json.
     and_then (map_err (\<lambda>e. ''Firestore generations_json is not a hosted backup generation list'')
                (from_json x (dec_list (dec_generation x)) generations_json)) (\<lambda>generations.
     and_then (and_then (firestore_optional_timestamp_field x flds ''created_at'')
                (ok_or ''Firestore backup document missing created_at'')) (\<lambda>created_at.
     and_then (and_then (firestore_optional_timestamp_field x flds ''updated_at'')
                (ok_or ''Firestore backup document missing updated_at'')) (\<lambda>updated_at.
       Ok \<lparr>hb_lookup_id = lookup_id, hb_auth_hash = auth_hash, hb_generations = generations,
           hb_created_at = created_at, hb_updated_at = updated_at\<rparr>)))))))"

definition firestore_document_from_activity_bucket :: "crates \<Rightarrow> string \<Rightarrow> activity_bucket \<Rightarrow> json" where
  "firestore_document_from_activity_bucket x name b = obj [
     (''name'', JStr name),
     (''fields'', obj [
        (''bucket_id'', string_value (ab_bucket_id b)),
        (''auth_hash'', string_value (ab_auth_hash b)),
        (''created_at'', timestamp_value x (ab_created_at b)),
        (''updated_at'', timestamp_value x (ab_updated_at b)),
        (''event_count'', integer_value (length (ab_events b))),
        (''events_json'', string_value (json_text x (JArr (map (enc_stored_event x) (ab_events b)))))])]"

definition stored_activity_bucket_from_firestore_document :: "crates \<Rightarrow> json \<Rightarrow> string + activity_bucket" where
  "stored_activity_bucket_from_firestore_document x document =
     and_then (document_fields ''Firestore activity document missing fields'' document) (\<lambda>flds.
     and_then (firestore_string_field flds ''bucket_id'') (\<lambda>bucket_id.
     and_then (firestore_string_field flds ''auth_hash'') (\<lambda>auth_hash.
     and_then (firestore_string_field flds ''events_json'') (\<lambda>events_json.
     and_then (map_err (\<lambda>e. ''Firestore events_json is not an activity event list'')
                (from_json x (dec_list (dec_stored_event x)) events_json)) (\<lambda>events.
     and_then (and_then (firestore_optional_timestamp_field x flds ''created_at'')
                (ok_or ''Firestore activity document missing created_at'')) (\<lambda>created_at.
     and_then (and_then (firestore_optional_timestamp_field x flds ''updated_at'')
                (ok_or ''Firestore activity document missing updated_at'')) (\<lambda>updated_at.
       Ok \<lparr>ab_bucket_id = bucket_id, ab_auth_hash = auth_hash, ab_events = events,
           ab_created_at = created_at, ab_updated_at = updated_at\<rparr>)))))))"

section \<open>A document and its revision\<close>

text \<open>\<^verbatim>\<open>get_record\<close> and \<^verbatim>\<open>get_bucket\<close>: the document read, with the update time it has.\<close>

definition get_document ::
  "'n fs_env \<Rightarrow> string \<Rightarrow> (json \<Rightarrow> string + 'a) \<Rightarrow> string \<Rightarrow> ('n firestore, ('a \<times> string) option) step" where
  "get_document env missing read name s =
     then_do (get_json env (document_url (fs_config s) name) ''firestore.get_document'') (\<lambda>document.
       case document of
         None \<Rightarrow> give None
       | Some document \<Rightarrow>
           then_do (check (ok_or missing (Option.bind (jget document ''updateTime'') as_str))) (\<lambda>update_time.
           then_do (check (read document)) (\<lambda>a. give (Some (a, update_time))))) s"

definition commit_body :: "json \<Rightarrow> firestore_precondition \<Rightarrow> json" where
  "commit_body document precondition = obj [(''writes'', JArr [obj [
     (''update'', document), (''currentDocument'', precondition_json precondition)]])]"

definition commit_document :: "'n fs_env \<Rightarrow> json \<Rightarrow> firestore_precondition \<Rightarrow> ('n firestore, unit) step" where
  "commit_document env document precondition s =
     then_do (post_json env (commit_url (fs_config s)) (commit_body document precondition) ''firestore.commit'')
       (\<lambda>_. give ()) s"

text \<open>The documents that a query answers with, read one by one; an entry without a document is left out.\<close>

definition run_query :: "'n fs_env \<Rightarrow> json \<Rightarrow> ('n firestore, json list) step" where
  "run_query env body s =
     then_do (post_json env (run_query_url (fs_config s)) body ''firestore.run_query'') (\<lambda>v.
       check (map_ok (List.map_filter (\<lambda>entry. jget entry ''document''))
         (ok_or ''Firestore runQuery response is not an array'' (as_array v)))) s"

end
