(* ===== verification/Firestore_Stores.thy ===== *)
theory Firestore_Stores
  imports Firestore
begin

text \<open>
  The four stores over Firestore (\<^verbatim>\<open>FirestorePublishStore\<close>, \<^verbatim>\<open>FirestoreMessageStore\<close>, \<^verbatim>\<open>FirestoreBackupStore\<close>,
  \<^verbatim>\<open>FirestoreActivityStore\<close>), and which store the environment of the server asks for. An update reads a document
  and commits what it becomes on condition that the document is still the one that was read.
\<close>

section \<open>Reading, deciding, committing\<close>

text \<open>
  What the updates have in common. \<open>change\<close> is the decision: the answer, and the new content if there
  is one to store. \<open>read\<close> and \<open>write\<close> are the codec of the documents of the store.
\<close>

definition precondition_of :: "('a \<times> string) option \<Rightarrow> firestore_precondition" where
  "precondition_of existing = (case existing of None \<Rightarrow> MissingDocument | Some (_, update_time) \<Rightarrow> UpdateTime update_time)"

definition update_document ::
  "'n fs_env \<Rightarrow> string \<Rightarrow> (json \<Rightarrow> string + 'a) \<Rightarrow> (string \<Rightarrow> 'a \<Rightarrow> json) \<Rightarrow>
   ('a option \<Rightarrow> 'r \<times> 'a option) \<Rightarrow> string \<Rightarrow> ('n firestore, 'r) step" where
  "update_document env missing read write change name =
     then_do (get_document env missing read name) (\<lambda>existing.
       case change (map_option fst existing) of
         (r, None) \<Rightarrow> give r
       | (r, Some a) \<Rightarrow>
           then_do (commit_document env (write name a) (precondition_of existing)) (\<lambda>_. give r))"

section \<open>Publish records\<close>

definition upsert_entry ::
  "publish_object \<Rightarrow> peer_id \<Rightarrow> stored_publish option \<Rightarrow> publish_upsert_status \<times> stored_publish option" where
  "upsert_entry object peer_id existing =
     (case existing of
        Some record1 \<Rightarrow>
          (if sp_peer record1 \<noteq> peer_id then (PeerConflict, None)
           else if sp_deleted record1 then (UpsertAuthorDeleted, None)
           else (PublishStored, Some (preserve_admin_state object record1)))
      | None \<Rightarrow> (PublishStored, Some (stored_visible object)))"

definition delete_entry ::
  "datetime \<Rightarrow> peer_id \<Rightarrow> stored_publish option \<Rightarrow> publish_delete_status \<times> stored_publish option" where
  "delete_entry now peer_id existing =
     (case existing of
        None \<Rightarrow> (DeleteNotFound, None)
      | Some record1 \<Rightarrow>
          (if sp_deleted record1 then (DeleteNotFound, None)
           else if sp_peer record1 \<noteq> peer_id then (WrongPeer, None)
           else (PublishDeleted, Some (author_delete now record1))))"

definition moderate_entry ::
  "(stored_publish \<Rightarrow> stored_publish) \<Rightarrow> stored_publish option \<Rightarrow> publish_moderation_status \<times> stored_publish option" where
  "moderate_entry change existing =
     (case existing of
        None \<Rightarrow> (ModerationNotFound, None)
      | Some record1 \<Rightarrow>
          (if sp_deleted record1 then (ModerationAuthorDeleted, None)
           else (Updated (sp_object record1), Some (change record1))))"

definition update_record ::
  "'n fs_env \<Rightarrow> (stored_publish option \<Rightarrow> 'r \<times> stored_publish option) \<Rightarrow> string \<Rightarrow> ('n firestore, 'r) step" where
  "update_record env change publish_id s =
     update_document env ''Firestore document missing updateTime''
       (stored_record_from_firestore_document (fe_crates env)) (firestore_document_from_record (fe_crates env))
       change (document_name (fs_config s) ''publish_records'' publish_id) s"

definition fs_upsert :: "'n fs_env \<Rightarrow> publish_object \<Rightarrow> peer_id \<Rightarrow> ('n firestore, publish_upsert_status) step" where
  "fs_upsert env object peer_id = update_record env (upsert_entry object peer_id) (obj_id object)"

definition fs_mark_author_deleted ::
  "'n fs_env \<Rightarrow> datetime \<Rightarrow> string \<Rightarrow> peer_id \<Rightarrow> ('n firestore, publish_delete_status) step" where
  "fs_mark_author_deleted env now publish_id peer_id = update_record env (delete_entry now peer_id) publish_id"

definition fs_admin_hide ::
  "'n fs_env \<Rightarrow> datetime \<Rightarrow> string \<Rightarrow> string \<Rightarrow> admin_principal \<Rightarrow> ('n firestore, publish_moderation_status) step" where
  "fs_admin_hide env now publish_id reason admin =
     update_record env (moderate_entry (hide_record now reason admin)) publish_id"

definition fs_admin_restore ::
  "'n fs_env \<Rightarrow> datetime \<Rightarrow> string \<Rightarrow> string \<Rightarrow> admin_principal \<Rightarrow> ('n firestore, publish_moderation_status) step" where
  "fs_admin_restore env now publish_id reason admin =
     update_record env (moderate_entry (restore_record now reason admin)) publish_id"

text \<open>Queries.\<close>

definition field_path :: "string \<Rightarrow> json" where "field_path p = obj [(''fieldPath'', JStr p)]"

definition field_filter :: "string \<Rightarrow> string \<Rightarrow> json \<Rightarrow> json" where
  "field_filter p op v = obj [(''fieldFilter'', obj [(''field'', field_path p), (''op'', JStr op), (''value'', v)])]"

definition all_filters :: "json list \<Rightarrow> json" where
  "all_filters fs = obj [(''compositeFilter'', obj [(''op'', JStr ''AND''), (''filters'', JArr fs)])]"

definition order_by :: "string \<Rightarrow> string \<Rightarrow> json" where
  "order_by p direction = obj [(''field'', field_path p), (''direction'', JStr direction)]"

definition from_collection :: "string \<Rightarrow> json" where
  "from_collection c = JArr [obj [(''collectionId'', JStr c)]]"

definition visible_filters :: "json list" where
  "visible_filters = [field_filter ''deleted'' ''EQUAL'' (bool_value False), field_filter ''hidden'' ''EQUAL'' (bool_value False)]"

definition firestore_search_query_body :: "crates \<Rightarrow> string option \<Rightarrow> nat \<Rightarrow> publish_search_cursor option \<Rightarrow> json" where
  "firestore_search_query_body x tag page_limit cursor =
     (let filters = visible_filters @
            (case tag of None \<Rightarrow> [] | Some tag \<Rightarrow> [field_filter ''tags'' ''ARRAY_CONTAINS'' (string_value tag)]) in
      obj [(''structuredQuery'', obj (
        [(''from'', from_collection ''publish_records''), (''where'', all_filters filters),
         (''orderBy'', JArr [order_by ''created_at'' ''DESCENDING'', order_by ''id'' ''DESCENDING'']),
         (''limit'', jnat (min (page_limit + 1) usize_max))] @
        (case cursor of None \<Rightarrow> []
         | Some c \<Rightarrow> [(''startAt'', obj [
             (''values'', JArr [timestamp_value x (psc_created_at c), string_value (psc_id c)]),
             (''before'', JBool False)])])))])"

definition firestore_publish_stats_query_body :: json where
  "firestore_publish_stats_query_body = obj [(''structuredQuery'', obj [
     (''from'', from_collection ''publish_records''), (''where'', all_filters visible_filters),
     (''orderBy'', JArr [order_by ''created_at'' ''DESCENDING'', order_by ''id'' ''DESCENDING'']),
     (''limit'', jnat PUBLISH_SEARCH_WINDOW_LIMIT)])]"

definition query_records :: "'n fs_env \<Rightarrow> json \<Rightarrow> ('n firestore, stored_publish list) step" where
  "query_records env body =
     then_do (run_query env body) (\<lambda>documents.
       check (collect_results (map (stored_record_from_firestore_document (fe_crates env)) documents)))"

definition fs_search :: "'n fs_env \<Rightarrow> publish_search_request \<Rightarrow> ('n firestore, publish_search_page) step" where
  "fs_search env q =
     (let seen_before = min (case psr_cursor q of None \<Rightarrow> 0 | Some c \<Rightarrow> psc_seen c) PUBLISH_SEARCH_WINDOW_LIMIT;
          remaining_window = PUBLISH_SEARCH_WINDOW_LIMIT - seen_before;
          page_limit = min (psr_limit q) remaining_window in
      if page_limit = 0 then give \<lparr>page_records = [], page_next_cursor = None, page_has_more = False\<rparr>
      else then_do (query_records env (firestore_search_query_body (fe_crates env) (psr_tag q) page_limit (psr_cursor q)))
        (\<lambda>documents. give (page_from_ordered_tail (fe_crates env) documents page_limit seen_before)))"

fun fs_candidates ::
  "'n fs_env \<Rightarrow> string option list \<Rightarrow> (string, publish_object) btree \<Rightarrow> ('n firestore, (string, publish_object) btree) step" where
  "fs_candidates env [] candidates = give candidates"
| "fs_candidates env (tag # tags) candidates =
     then_do (fs_search env \<lparr>psr_tag = tag, psr_limit = DISCOVER_CANDIDATE_LIMIT, psr_cursor = None\<rparr>) (\<lambda>page.
       fs_candidates env tags (foldl (\<lambda>m r. bt_insert (obj_id r) r m) candidates (page_records page)))"

definition fs_discover :: "'n fs_env \<Rightarrow> publish_discover_request \<Rightarrow> ('n firestore, publish_object list) step" where
  "fs_discover env q =
     then_do (fs_candidates env (if pdr_tags q = [] then [None] else map Some (pdr_tags q)) []) (\<lambda>candidates.
       give (rank_discover_records (fe_crates env) (map snd candidates) q))"

definition fs_stats :: "'n fs_env \<Rightarrow> ('n firestore, public_stats) step" where
  "fs_stats env =
     then_do (query_records env firestore_publish_stats_query_body) (\<lambda>records.
       let peer_ids = bt_collect (map (\<lambda>entry. (peer_str (sp_peer entry), ())) records)
       in give \<lparr>agents_alive = length peer_ids, public_messages_sent = length records\<rparr>)"

section \<open>Message envelopes\<close>

definition fs_message_insert :: "'n fs_env \<Rightarrow> datetime \<Rightarrow> message_object \<Rightarrow> ('n firestore, unit) step" where
  "fs_message_insert env now object s =
     (let name = document_name (fs_config s) ''private_messages'' (obj_id object) in
      commit_document env (firestore_document_from_message (fe_crates env) name \<lparr>sm_object = object, sm_stored_at = now\<rparr>)
        MissingDocument s)"

definition firestore_inbox_query_body :: "crates \<Rightarrow> peer_id \<Rightarrow> nat \<Rightarrow> datetime \<Rightarrow> json" where
  "firestore_inbox_query_body x recipient limit now = obj [(''structuredQuery'', obj [
     (''from'', from_collection ''private_messages''),
     (''where'', all_filters [
        field_filter ''recipient'' ''EQUAL'' (string_value (peer_str recipient)),
        field_filter ''expires_at'' ''GREATER_THAN'' (timestamp_value x now)]),
     (''orderBy'', JArr [order_by ''expires_at'' ''ASCENDING'', order_by ''created_at'' ''ASCENDING'', order_by ''id'' ''ASCENDING'']),
     (''limit'', jnat limit)])]"

definition fs_inbox :: "'n fs_env \<Rightarrow> peer_id \<Rightarrow> nat \<Rightarrow> datetime \<Rightarrow> ('n firestore, message_object list) step" where
  "fs_inbox env recipient limit now =
     then_do (run_query env (firestore_inbox_query_body (fe_crates env) recipient limit now)) (\<lambda>documents.
       check (map_ok (map sm_object)
         (collect_results (map (stored_message_from_firestore_document (fe_crates env)) documents))))"

definition firestore_message_count_query_body :: json where
  "firestore_message_count_query_body = obj [(''structuredQuery'', obj [
     (''from'', from_collection ''private_messages''),
     (''select'', obj [(''fields'', JArr [field_path ''id''])]),
     (''limit'', jnat PUBLISH_SEARCH_WINDOW_LIMIT)])]"

definition fs_message_count :: "'n fs_env \<Rightarrow> ('n firestore, nat) step" where
  "fs_message_count env = then_do (run_query env firestore_message_count_query_body) (\<lambda>documents. give (length documents))"

section \<open>Hosted backups\<close>

definition backup_put_entry ::
  "crates \<Rightarrow> string \<Rightarrow> string \<Rightarrow> json \<Rightarrow> datetime \<Rightarrow> hosted_bucket option \<Rightarrow> backup_put_status \<times> hosted_bucket option" where
  "backup_put_entry x lookup_id auth_token backup now existing =
     (let bucket = (case existing of Some b \<Rightarrow> b
            | None \<Rightarrow> hosted_bucket_new lookup_id (backup_auth_hash x auth_token) now);
          (status, bucket') = hosted_bucket_put x auth_token backup now bucket
      in (status, if backup_is_stored status then Some bucket' else None))"

definition get_backup_bucket :: "'n fs_env \<Rightarrow> string \<Rightarrow> ('n firestore, (hosted_bucket \<times> string) option) step" where
  "get_backup_bucket env lookup_id s =
     get_document env ''Firestore backup document missing updateTime''
       (stored_backup_bucket_from_firestore_document (fe_crates env))
       (document_name (fs_config s) ''hosted_backups'' lookup_id) s"

definition fs_backup_put ::
  "'n fs_env \<Rightarrow> datetime \<Rightarrow> string \<Rightarrow> string \<Rightarrow> json \<Rightarrow> ('n firestore, backup_put_status) step" where
  "fs_backup_put env now lookup_id auth_token backup s =
     update_document env ''Firestore backup document missing updateTime''
       (stored_backup_bucket_from_firestore_document (fe_crates env)) (firestore_document_from_backup_bucket (fe_crates env))
       (backup_put_entry (fe_crates env) lookup_id auth_token backup now)
       (document_name (fs_config s) ''hosted_backups'' lookup_id) s"

definition fs_backup_latest :: "'n fs_env \<Rightarrow> string \<Rightarrow> string \<Rightarrow> ('n firestore, backup_read_status) step" where
  "fs_backup_latest env lookup_id auth_token =
     then_do (get_backup_bucket env lookup_id) (\<lambda>document.
       case document of
         None \<Rightarrow> give BackupNotFound
       | Some (bucket, _) \<Rightarrow> give (hosted_bucket_latest (fe_crates env) auth_token bucket))"

definition fs_backup_list :: "'n fs_env \<Rightarrow> string \<Rightarrow> string \<Rightarrow> ('n firestore, backup_list_status) step" where
  "fs_backup_list env lookup_id auth_token =
     then_do (get_backup_bucket env lookup_id) (\<lambda>document.
       case document of
         None \<Rightarrow> give GenerationsNotFound
       | Some (bucket, _) \<Rightarrow> give (hosted_bucket_list (fe_crates env) auth_token bucket))"

section \<open>Activity\<close>

definition activity_put_entry ::
  "crates \<Rightarrow> string \<Rightarrow> string \<Rightarrow> activity_event \<Rightarrow> datetime \<Rightarrow> activity_bucket option \<Rightarrow> activity_put_status \<times> activity_bucket option" where
  "activity_put_entry x bucket_id auth_token e now existing =
     (let bucket = (case existing of Some b \<Rightarrow> b
            | None \<Rightarrow> activity_bucket_new bucket_id (activity_auth_hash x auth_token) now);
          (status, bucket') = activity_bucket_put x auth_token e now bucket
      in (status, if activity_is_stored status then Some bucket' else None))"

definition activity_list_entry ::
  "crates \<Rightarrow> string \<Rightarrow> nat \<Rightarrow> activity_cursor option \<Rightarrow> datetime \<Rightarrow> activity_bucket option \<Rightarrow>
   activity_list_status \<times> activity_bucket option" where
  "activity_list_entry x auth_token limit cursor now existing =
     (case existing of
        None \<Rightarrow> (ActivityNotFound, None)
      | Some bucket \<Rightarrow>
          (let (status, bucket') = activity_bucket_list x auth_token limit cursor now bucket
           in (status, if length (ab_events bucket) \<noteq> length (ab_events bucket') then Some bucket' else None)))"

definition update_activity ::
  "'n fs_env \<Rightarrow> (activity_bucket option \<Rightarrow> 'r \<times> activity_bucket option) \<Rightarrow> string \<Rightarrow> ('n firestore, 'r) step" where
  "update_activity env change bucket_id s =
     update_document env ''Firestore activity document missing updateTime''
       (stored_activity_bucket_from_firestore_document (fe_crates env)) (firestore_document_from_activity_bucket (fe_crates env))
       change (document_name (fs_config s) ''activity_buckets'' bucket_id) s"

definition fs_activity_put ::
  "'n fs_env \<Rightarrow> datetime \<Rightarrow> string \<Rightarrow> string \<Rightarrow> activity_event \<Rightarrow> ('n firestore, activity_put_status) step" where
  "fs_activity_put env now bucket_id auth_token e =
     update_activity env (activity_put_entry (fe_crates env) bucket_id auth_token e now) bucket_id"

definition fs_activity_list ::
  "'n fs_env \<Rightarrow> string \<Rightarrow> string \<Rightarrow> nat \<Rightarrow> activity_cursor option \<Rightarrow> datetime \<Rightarrow> ('n firestore, activity_list_status) step" where
  "fs_activity_list env bucket_id auth_token limit cursor now =
     update_activity env (activity_list_entry (fe_crates env) auth_token limit cursor now) bucket_id"

section \<open>Which store\<close>

text \<open>\<^verbatim>\<open>metadata_project_id\<close>: what the metadata server answers is the argument.\<close>

definition metadata_project_id :: "fs_answer \<Rightarrow> string + string" where
  "metadata_project_id a =
     (case a of
        SendFailed \<Rightarrow> Err ''request Google metadata project id''
      | TextFailed status \<Rightarrow>
          (if 400 \<le> status \<and> status \<le> 599 then Err ''Google metadata project id response''
           else Err ''read Google metadata project id response'')
      | Answered status text \<Rightarrow>
          (if 400 \<le> status \<and> status \<le> 599 then Err ''Google metadata project id response''
           else let project_id = trim text in
             if project_id = [] then Err ''Google metadata project id response was empty'' else Ok project_id))"

definition or_else :: "'a option \<Rightarrow> 'a option \<Rightarrow> 'a option" where
  "or_else a b = (case a of None \<Rightarrow> b | Some _ \<Rightarrow> a)"

definition firestore_config_from_env :: "(string \<Rightarrow> string option) \<Rightarrow> fs_answer \<Rightarrow> string + firestore_config" where
  "firestore_config_from_env env meta =
     (let database_id = (case env_non_empty env ''AICHAN_FIRESTORE_DATABASE'' of Some d \<Rightarrow> d | None \<Rightarrow> ''(default)'') in
      and_then (case or_else (env_non_empty env ''AICHAN_FIRESTORE_PROJECT_ID'')
                     (or_else (env_non_empty env ''GOOGLE_CLOUD_PROJECT'') (env_non_empty env ''GCP_PROJECT_ID'')) of
                  Some p \<Rightarrow> Ok p
                | None \<Rightarrow> metadata_project_id meta) (\<lambda>project_id.
        (case env_non_empty env ''AICHAN_FIRESTORE_EMULATOR_HOST'' of
           Some host \<Rightarrow> Ok \<lparr>fc_project_id = project_id, fc_database_id = database_id,
             fc_api_base_url = ''http://'' @ trim_end_slash host @ ''/v1'', fc_auth = NoAuth\<rparr>
         | None \<Rightarrow> Ok \<lparr>fc_project_id = project_id, fc_database_id = database_id,
             fc_api_base_url = (case env_non_empty env ''AICHAN_FIRESTORE_API_BASE_URL'' of
                 Some u \<Rightarrow> u | None \<Rightarrow> ''https://firestore.googleapis.com/v1''), fc_auth = MetadataAuth\<rparr>)))"

datatype store_choice = FileStore | FirestoreStore firestore_config

text \<open>
  \<open>requested\<close> is the value of the variable that names the store, \<open>variable\<close> the variable the error names.
  Any Firestore variable makes Firestore the default.
\<close>

definition store_from_env ::
  "(string \<Rightarrow> string option) \<Rightarrow> fs_answer \<Rightarrow> string \<Rightarrow> string option \<Rightarrow> string + store_choice" where
  "store_from_env env meta variable requested =
     (case requested of
        Some r \<Rightarrow>
          (if r = ''file'' then Ok FileStore
           else if r = ''firestore'' then map_ok FirestoreStore (firestore_config_from_env env meta)
           else Err (''unsupported '' @ variable @ '' value: '' @ r))
      | None \<Rightarrow>
          (if env_non_empty env ''AICHAN_FIRESTORE_PROJECT_ID'' \<noteq> None
              \<or> env_non_empty env ''AICHAN_FIRESTORE_DATABASE'' \<noteq> None
              \<or> env_non_empty env ''AICHAN_FIRESTORE_EMULATOR_HOST'' \<noteq> None
           then map_ok FirestoreStore (firestore_config_from_env env meta)
           else Ok FileStore))"

definition publish_store_from_env :: "(string \<Rightarrow> string option) \<Rightarrow> fs_answer \<Rightarrow> string + store_choice" where
  "publish_store_from_env env meta =
     store_from_env env meta ''AICHAN_PUBLISH_STORE'' (env_non_empty env ''AICHAN_PUBLISH_STORE'')"

definition message_store_from_env :: "(string \<Rightarrow> string option) \<Rightarrow> fs_answer \<Rightarrow> string + store_choice" where
  "message_store_from_env env meta =
     store_from_env env meta ''AICHAN_MESSAGE_STORE''
       (or_else (env_non_empty env ''AICHAN_MESSAGE_STORE'') (env_non_empty env ''AICHAN_PUBLISH_STORE''))"

definition backup_store_from_env :: "(string \<Rightarrow> string option) \<Rightarrow> fs_answer \<Rightarrow> string + store_choice" where
  "backup_store_from_env env meta =
     store_from_env env meta ''AICHAN_BACKUP_STORE''
       (or_else (env_non_empty env ''AICHAN_BACKUP_STORE'') (env_non_empty env ''AICHAN_PUBLISH_STORE''))"

definition activity_store_from_env :: "(string \<Rightarrow> string option) \<Rightarrow> fs_answer \<Rightarrow> string + store_choice" where
  "activity_store_from_env env meta =
     store_from_env env meta ''AICHAN_ACTIVITY_STORE''
       (or_else (env_non_empty env ''AICHAN_ACTIVITY_STORE'') (env_non_empty env ''AICHAN_PUBLISH_STORE''))"

end
