(* ===== verification/Protocol_Laws.thy ===== *)
theory Protocol_Laws
  imports Protocol
begin

text \<open>
  The lemmas of \<open>Protocol\<close>: canonical JSON leaves a float-free \<^verbatim>\<open>Value\<close> as it is and refuses
  every other; what is signed verifies; the exact conditions of verification; the signed bytes
  determine the object and the request.
\<close>

section \<open>Canonical JSON\<close>

function float_free :: "json \<Rightarrow> bool" where
  "float_free JNull = True"
| "float_free (JBool b) = True"
| "float_free (JStr s) = True"
| "float_free (JNum n) = (case n of Float w \<Rightarrow> False | _ \<Rightarrow> True)"
| "float_free (JArr vs) = list_all float_free vs"
| "float_free (JObj m) = list_all (\<lambda>(k, v). float_free v) m"
  by pat_completeness auto
termination
proof (relation "measure size")
  fix vs :: "json list" and v assume "v \<in> set vs"
  then show "(v, JArr vs) \<in> measure size"
    by (simp add: size_list_estimation' less_Suc_eq_le)
next
  fix m :: "(string \<times> json) list" and e k v assume "e \<in> set m" "(k, v) = e"
  then have "size v \<le> size_list (size_prod (\<lambda>_. 0) size) m"
    by (auto intro!: size_list_estimation')
  then show "(v, JObj m) \<in> measure size"
    by simp
qed simp

lemma json_plain_float_free: "json_plain d v \<Longrightarrow> float_free v"
proof (induction v arbitrary: d rule: float_free.induct)
  case (4 n)
  then show ?case by (cases n) simp_all
next
  case (5 vs)
  then show ?case by (cases d) (auto simp: list_all_iff)
next
  case (6 m)
  then show ?case by (cases d) (fastforce simp: list_all_iff)+
qed simp_all

text \<open>A JSON tree that is a \<^verbatim>\<open>Value\<close>: every object in it is a \<^verbatim>\<open>BTreeMap\<close>.\<close>

function is_value :: "json \<Rightarrow> bool" where
  "is_value JNull = True"
| "is_value (JBool b) = True"
| "is_value (JStr s) = True"
| "is_value (JNum n) = True"
| "is_value (JArr vs) = list_all is_value vs"
| "is_value (JObj m) = (bt_ok m \<and> list_all (\<lambda>(k, v). is_value v) m)"
  by pat_completeness auto
termination
proof (relation "measure size")
  fix vs :: "json list" and v assume "v \<in> set vs"
  then show "(v, JArr vs) \<in> measure size"
    by (simp add: size_list_estimation' less_Suc_eq_le)
next
  fix m :: "(string \<times> json) list" and e k v assume "e \<in> set m" "(k, v) = e"
  then have "size v \<le> size_list (size_prod (\<lambda>_. 0) size) m"
    by (auto intro!: size_list_estimation')
  then show "(v, JObj m) \<in> measure size"
    by simp
qed simp

lemma is_value_obj: "(\<And>k v. (k, v) \<in> set kvs \<Longrightarrow> is_value v) \<Longrightarrow> is_value (obj kvs)"
  using set_bt_collect_subset [of kvs]
  by (auto simp: obj_def bt_ok_collect list_all_iff)

lemma is_value_value_of: "is_value (value_of v)"
proof (induction v rule: value_of.induct)
  case (6 m)
  then show ?case by (auto intro!: is_value_obj)
qed (auto simp: list_all_iff)

lemma sort_by_key_bt: "bt_ok m \<Longrightarrow> sort_by (\<lambda>a b. cmp (fst a) (fst b)) m = m"
proof (induction m)
  case Nil
  then show ?case by simp
next
  case (Cons e m)
  then have "bt_ok m" and le: "\<forall>y \<in> set m. fst e < fst y" by (auto simp: bt_ok_def)
  then show ?case using Cons by (cases m) (auto simp: cmp_def)
qed

lemma bt_insert_last: "\<forall>e \<in> set m. fst e < k \<Longrightarrow> bt_insert k v m = m @ [(k, v)]"
  by (induction m) (auto simp: cmp_def)

lemma bt_collect_ok: "bt_ok m \<Longrightarrow> bt_collect m = m"
proof -
  have "foldl (\<lambda>m (k, v). bt_insert k v m) a m = a @ m" if "bt_ok (a @ m)" for a :: "('a \<times> 'b) list"
    using that
  proof (induction m arbitrary: a)
    case Nil
    then show ?case by simp
  next
    case (Cons e m)
    obtain k v where e: "e = (k, v)" by (cases e)
    have "\<forall>b \<in> set a. fst b < k"
      using Cons.prems e by (auto simp: bt_ok_def sorted_wrt_append)
    then have "bt_insert k v a = a @ [e]" by (simp add: e bt_insert_last)
    then show ?case using Cons.IH [of "a @ [e]"] Cons.prems e by simp
  qed
  from this [of "[]"] show "bt_ok m \<Longrightarrow> bt_collect m = m" by (simp add: bt_collect_def)
qed

lemma value_of_obj:
  assumes "\<And>k v. (k, v) \<in> set kvs \<Longrightarrow> value_of v = v"
  shows "value_of (obj kvs) = obj kvs"
proof -
  have "map (\<lambda>(k, v). (k, value_of v)) (bt_collect kvs) = bt_collect kvs"
    using set_bt_collect_subset [of kvs] assms by (intro map_idI) auto
  then show ?thesis
    using bt_collect_ok [OF bt_ok_collect [of kvs]] by (simp add: obj_def)
qed

lemma collect_results_all:
  "(\<And>a. a \<in> set as \<Longrightarrow> f a = (if p a then Ok (g a) else Err e)) \<Longrightarrow>
   collect_results (map f as) = (if list_all p as then Ok (map g as) else Err e)"
  by (induction as) auto

lemma canonicalize_value:
  "is_value v \<Longrightarrow> canonicalize_json_value v = (if float_free v then Ok v else Err float_error)"
proof (induction v rule: is_value.induct)
  case (4 n)
  then show ?case by (cases n) simp_all
next
  case (5 vs)
  then have "collect_results (map canonicalize_json_value vs)
      = (if list_all float_free vs then Ok (map (\<lambda>v. v) vs) else Err float_error)"
    by (intro collect_results_all) (simp add: list_all_iff)
  then show ?case by (auto simp: map_ok_def)
next
  case (6 m)
  then have m: "bt_ok m" "bt_collect m = m" and "sort_by (\<lambda>a b. cmp (fst a) (fst b)) m = m"
    by (simp_all add: sort_by_key_bt bt_collect_ok)
  moreover have "collect_results (map (\<lambda>(k, v). map_ok (Pair k) (canonicalize_json_value v)) m)
      = (if list_all (\<lambda>(k, v). float_free v) m then Ok (map (\<lambda>e. e) m) else Err float_error)"
    using 6 by (intro collect_results_all) (force simp: list_all_iff)
  ultimately show ?case by (auto simp: map_ok_def obj_def)
qed simp_all

lemma canonical_json_bytes_value:
  "canonical_json_bytes x v =
     (if float_free (value_of v) then Ok (json_text x (value_of v)) else Err float_error)"
  by (simp add: canonical_json_bytes_def canonicalize_value is_value_value_of)

text \<open>
  Canonical JSON: the canonical form of a serialized object is the text of its \<^verbatim>\<open>Value\<close>, whose
  objects are in key order, whatever the order its fields were serialized in; a value with a
  floating point number anywhere is refused.
\<close>

theorem canonical_json_bytes_spec:
  "canonical_json_bytes x v =
     (if float_free (value_of v) then Ok (json_text x (value_of v)) else Err float_error)
   \<and> is_value (value_of v)"
  by (simp add: canonical_json_bytes_value is_value_value_of)

lemma json_plain_value_of: "json_plain d v \<Longrightarrow> json_plain d (value_of v)"
proof (induction v arbitrary: d rule: value_of.induct)
  case (5 vs)
  then show ?case by (cases d) (auto simp: list_all_iff)
next
  case (6 m)
  then show ?case
    by (cases d) (fastforce simp: list_all_iff simp del: json_plain.simps intro!: json_plain_obj dest: json_plain.simps [THEN iffD1])+
qed simp_all

section \<open>The payloads\<close>

text \<open>
  A payload type with its encoder. The objects of the protocol need that a payload can be read
  back from its \<^verbatim>\<open>Value\<close> and that its JSON is shallow and has no floats.
\<close>

locale payload_codec =
  fixes enc :: "crates \<Rightarrow> 'p \<Rightarrow> json" and dec :: "crates \<Rightarrow> json \<Rightarrow> 'p option"
    and storable :: "'p \<Rightarrow> bool"
  assumes dec_value: "rfc3339_law x \<Longrightarrow> storable p \<Longrightarrow> dec x (value_of (enc x p)) = Some p"
    and dec_enc: "rfc3339_law x \<Longrightarrow> storable p \<Longrightarrow> dec x (enc x p) = Some p"
    and enc_plain: "storable p \<Longrightarrow> json_plain 4 (enc x p)"
begin

definition object_storable :: "('p, 'z) unsigned_object_scheme \<Rightarrow> bool" where
  "object_storable u \<longleftrightarrow> four_digit_year (obj_created_at u) \<and>
     (\<forall>e \<in> set (obj_extensions u). ext_version e \<le> u32_max) \<and> storable (obj_payload u)"

end

lemma four_Suc: "(4::nat) = Suc (Suc (Suc (Suc 0)))"
  by simp

lemmas codec_defs = value_of_JObj field_defs struct_fields_obj

lemma dec_extension_ok [serde]:
  "ext_version e \<le> u32_max \<Longrightarrow> dec_extension (enc_extension e) = Some e"
  "ext_version e \<le> u32_max \<Longrightarrow> dec_extension (value_of (enc_extension e)) = Some e"
  by (simp_all add: dec_extension_def enc_extension_def codec_defs serde)

lemma dec_encryption_key_ok [serde]:
  "dec_encryption_key (enc_encryption_key e) = Some e"
  "dec_encryption_key (value_of (enc_encryption_key e)) = Some e"
  by (simp_all add: dec_encryption_key_def enc_encryption_key_def codec_defs serde)

lemma dec_all_map2 [serde]:
  "(\<And>a. a \<in> set as \<Longrightarrow> d (g (f a)) = Some a) \<Longrightarrow> dec_all d (map (g \<circ> f) as) = Some as"
  by (induction as) auto

lemma dec_capabilities_ok [serde]:
  "dec_capabilities (enc_capabilities e) = Some e"
  "dec_capabilities (value_of (enc_capabilities e)) = Some e"
  by (simp_all add: dec_capabilities_def enc_capabilities_def codec_defs serde)

lemma dec_message_encryption_ok [serde]:
  "dec_message_encryption (enc_message_encryption e) = Some e"
  "dec_message_encryption (value_of (enc_message_encryption e)) = Some e"
  by (simp_all add: dec_message_encryption_def enc_message_encryption_def codec_defs serde)

lemma dec_signature_ok [serde]:
  "dec_signature (enc_signature e) = Some e"
  "dec_signature (value_of (enc_signature e)) = Some e"
  by (simp_all add: dec_signature_def enc_signature_def codec_defs serde)

interpretation publish_codec: payload_codec enc_publish dec_publish "\<lambda>p. four_digit_year (prp_updated_at p)"
proof unfold_locales
  fix x :: crates and p :: publish_record_payload
  assume l: "rfc3339_law x" and s: "four_digit_year (prp_updated_at p)"
  then show "dec_publish x (value_of (enc_publish x p)) = Some p" "dec_publish x (enc_publish x p) = Some p"
    by (simp_all add: dec_publish_def enc_publish_def codec_defs serde)
next
  fix x :: crates and p :: publish_record_payload
  show "json_plain 4 (enc_publish x p)"
    unfolding four_Suc
    by (simp add: enc_publish_def enc_peer_id_def enc_capabilities_def enc_encryption_key_def list_all_iff)
qed

interpretation message_codec: payload_codec enc_message dec_message
  "\<lambda>p. four_digit_year (mep_expires_at p) \<and> mep_ttl_seconds p \<le> u64_max"
proof unfold_locales
  fix x :: crates and p :: message_envelope_payload
  assume l: "rfc3339_law x" and s: "four_digit_year (mep_expires_at p) \<and> mep_ttl_seconds p \<le> u64_max"
  then show "dec_message x (value_of (enc_message x p)) = Some p" "dec_message x (enc_message x p) = Some p"
    by (simp_all add: dec_message_def enc_message_def codec_defs serde)
next
  fix x :: crates and p :: message_envelope_payload
  assume s: "four_digit_year (mep_expires_at p) \<and> mep_ttl_seconds p \<le> u64_max"
  have "mep_ttl_seconds p < 2 ^ 64" using s by (simp add: u64_max_def)
  then show "json_plain 4 (enc_message x p)"
    unfolding four_Suc by (simp add: enc_message_def enc_peer_id_def enc_message_encryption_def)
qed

section \<open>Signatures of objects\<close>

lemma unsigned_selectors [simp]:
  "obj_protocol (unsigned s) = obj_protocol s" "obj_type (unsigned s) = obj_type s"
  "obj_id (unsigned s) = obj_id s" "obj_created_at (unsigned s) = obj_created_at s"
  "obj_extensions (unsigned s) = obj_extensions s" "obj_payload (unsigned s) = obj_payload s"
  by (simp_all add: unsigned_def unsigned_object.defs)

lemma sign_object_Ok:
  "object_signature_input x enc u = Ok input \<Longrightarrow>
   \<exists>s. sign_object x enc sk u = Ok s \<and> unsigned s = u \<and>
     obj_signature s = \<lparr>sig_alg = ED25519_ALG, sig_public_key = b64_encode x (ed_public x sk),
       sig_value = b64_encode x (ed_sign x sk input)\<rparr>"
  by (cases u) (simp add: sign_object_def unsigned_def unsigned_object.defs signed_object.defs)

context payload_codec
begin

lemma storable_unsigned [simp]: "object_storable (unsigned s) = object_storable s"
  by (simp add: object_storable_def)

lemma fields_plain:
  assumes "object_storable u"
  shows "\<forall>(k, v) \<in> set (unsigned_fields x (enc x) u). json_plain 4 v"
proof -
  have "json_plain (Suc (Suc 0)) (JArr (map enc_extension (obj_extensions u)))"
    using assms by (fastforce simp: object_storable_def enc_extension_def list_all_iff u32_max_def)
  then have "json_plain 4 (JArr (map enc_extension (obj_extensions u)))"
    by (rule json_plain_mono) simp
  with assms show ?thesis by (simp add: unsigned_fields_def object_storable_def enc_plain)
qed

lemma unsigned_plain: "object_storable u \<Longrightarrow> json_plain 127 (enc_unsigned x (enc x) u)"
proof -
  assume "object_storable u"
  then have "json_plain (Suc 4) (enc_unsigned x (enc x) u)"
    unfolding enc_unsigned_def using fields_plain [of u x] by (intro json_plain_JObj) auto
  then show ?thesis by (rule json_plain_mono) simp
qed

lemma dec_unsigned_value:
  "rfc3339_law x \<Longrightarrow> object_storable u \<Longrightarrow>
   dec_unsigned x (dec x) (value_of (enc_unsigned x (enc x) u)) = Some u"
  by (simp add: dec_unsigned_def enc_unsigned_def unsigned_fields_def codec_defs serde
      object_storable_def dec_value)

lemma signature_input_ok:
  assumes "object_storable u"
  shows "object_signature_input x (enc x) u =
    Ok (OBJECT_SIGNATURE_DOMAIN @ CHR 0x0A # json_text x (value_of (enc_unsigned x (enc x) u)))"
  using json_plain_float_free [OF json_plain_value_of [OF unsigned_plain [OF assms]]]
  by (simp add: object_signature_input_def canonical_json_bytes_value)

lemma signature_input_inject:
  assumes laws: "rfc3339_law x" "json_law x" and s: "object_storable u" "object_storable v"
    and eq: "object_signature_input x (enc x) u = object_signature_input x (enc x) v"
  shows "u = v"
proof -
  let ?v = "\<lambda>u. value_of (enc_unsigned x (enc x) u)"
  have plain: "json_plain 127 (?v u)" "json_plain 127 (?v v)"
    by (rule json_plain_value_of, rule unsigned_plain, rule s)+
  have "json_text x (?v u) = json_text x (?v v)"
    using eq unfolding signature_input_ok [OF s(1)] signature_input_ok [OF s(2)]
    by (simp only: sum.inject append_same_eq same_append_eq list.inject)
  with laws(2) plain have "?v u = ?v v"
    by (rule json_text_inject)
  then have "Some u = Some v"
    using dec_unsigned_value [OF laws(1) s(1)] dec_unsigned_value [OF laws(1) s(2)] by (simp only:)
  then show ?thesis by simp
qed

lemma verify_signature_Ok:
  "verify_signature x (enc x) s = Ok p \<longleftrightarrow>
     obj_protocol s = PROTOCOL_ID \<and> sig_alg (obj_signature s) = ED25519_ALG \<and>
     (\<exists>pk sig input. b64_decode x (sig_public_key (obj_signature s)) = Ok pk \<and> length pk = 32 \<and>
        ed_point x pk = Ok () \<and> b64_decode x (sig_value (obj_signature s)) = Ok sig \<and> length sig = 64 \<and>
        object_signature_input x (enc x) (unsigned s) = Ok input \<and>
        ed_verify x pk input sig = Ok () \<and> p = derive_peer_id x pk)"
  by (auto simp: verify_signature_def result_simps)

lemma sign_then_verify:
  assumes laws: "base64_law x" "ed25519_law x" and key: "length sk = 32"
    and u: "object_storable u" "obj_protocol u = PROTOCOL_ID"
  shows "\<exists>s. sign_object x (enc x) sk u = Ok s \<and> unsigned s = u \<and>
    sig_public_key (obj_signature s) = b64_encode x (ed_public x sk) \<and>
    verify_signature x (enc x) s = Ok (derive_peer_id x (ed_public x sk))"
proof -
  let ?input = "OBJECT_SIGNATURE_DOMAIN @ CHR 0x0A # json_text x (value_of (enc_unsigned x (enc x) u))"
  have input: "object_signature_input x (enc x) u = Ok ?input" by (rule signature_input_ok [OF u(1)])
  obtain s where s: "sign_object x (enc x) sk u = Ok s" and un: "unsigned s = u"
      and g: "obj_signature s = \<lparr>sig_alg = ED25519_ALG, sig_public_key = b64_encode x (ed_public x sk),
                 sig_value = b64_encode x (ed_sign x sk ?input)\<rparr>"
    using sign_object_Ok [OF input] by blast
  have "obj_protocol s = PROTOCOL_ID" using u(2) un unsigned_selectors(1) by metis
  then have "verify_signature x (enc x) s = Ok (derive_peer_id x (ed_public x sk))"
    using laws key un input
    by (auto simp: verify_signature_Ok g base64_roundtrip ed25519_law_def)
  with s un g show ?thesis by auto
qed

text \<open>Signed objects on the wire: what is sent as the text of its JSON reads back as the same object.\<close>

lemma signed_shallow:
  assumes "object_storable s"
  shows "json_plain 5 (enc_signed x (enc x) s)"
proof -
  have "json_plain 4 (enc_signature (obj_signature s))"
    by (rule json_plain_mono [of 1]) (simp_all add: enc_signature_def)
  with fields_plain [OF assms, of x] have "json_plain (Suc 4) (enc_signed x (enc x) s)"
    unfolding enc_signed_def by (intro json_plain_JObj) auto
  then show ?thesis by simp
qed

lemma signed_plain: "object_storable s \<Longrightarrow> json_plain 127 (enc_signed x (enc x) s)"
  by (rule json_plain_mono [OF signed_shallow]) simp_all

lemma dec_enc_signed:
  "rfc3339_law x \<Longrightarrow> object_storable s \<Longrightarrow> dec_signed x (dec x) (enc_signed x (enc x) s) = Some s"
  by (simp add: dec_signed_def enc_signed_def unsigned_fields_def codec_defs struct_fields_JObj serde
      object_storable_def dec_enc)

lemma dec_value_signed:
  "rfc3339_law x \<Longrightarrow> object_storable s \<Longrightarrow> dec_signed x (dec x) (value_of (enc_signed x (enc x) s)) = Some s"
  by (simp add: dec_signed_def enc_signed_def unsigned_fields_def codec_defs serde
      object_storable_def dec_value)

lemma from_json_signed:
  "rfc3339_law x \<Longrightarrow> json_law x \<Longrightarrow> object_storable s \<Longrightarrow>
   from_json x (dec_signed x (dec x)) (json_text x (enc_signed x (enc x) s)) = Ok s"
  by (simp add: from_json_text signed_plain dec_enc_signed)

lemma signed_value_plain:
  "object_storable s \<Longrightarrow> json_plain 5 (value_of (enc_signed x (enc x) s))"
  by (simp add: json_plain_value_of signed_shallow)

end

section \<open>Publish records and messages\<close>

text \<open>
  Verification of a publish record, exactly: it is accepted for the peer \<open>p\<close> if and only if it
  is of type \<^verbatim>\<open>publish.record\<close>, of this protocol, signed with Ed25519 over its signature input by the
  key that both its signature and its payload name, and its payload names the peer id of that
  key, which is \<open>p\<close>.
\<close>

theorem verify_publish_record_iff:
  "verify_publish_record x s = Ok p \<longleftrightarrow>
     obj_type s = ''publish.record'' \<and> obj_protocol s = PROTOCOL_ID \<and>
     sig_alg (obj_signature s) = ED25519_ALG \<and>
     sig_public_key (obj_signature s) = prp_public_key (obj_payload s) \<and>
     prp_peer_id (obj_payload s) = p \<and>
     (\<exists>pk sig input. b64_decode x (prp_public_key (obj_payload s)) = Ok pk \<and> length pk = 32 \<and>
        ed_point x pk = Ok () \<and> b64_decode x (sig_value (obj_signature s)) = Ok sig \<and> length sig = 64 \<and>
        object_signature_input x (enc_publish x) (unsigned s) = Ok input \<and>
        ed_verify x pk input sig = Ok () \<and> p = derive_peer_id x pk)"
  unfolding verify_publish_record_def
  by (auto simp: result_simps publish_codec.verify_signature_Ok)

lemma verify_publish_record_peer:
  "verify_publish_record x s = Ok p \<Longrightarrow> prp_peer_id (obj_payload s) = p"
  unfolding verify_publish_record_def by (auto simp: result_simps)

lemma signed_publish_ok:
  assumes "base64_law x" "ed25519_law x" "length sk = 32"
    and "obj_type u = ''publish.record''" "obj_protocol u = PROTOCOL_ID"
    and "prp_public_key (obj_payload u) = b64_encode x (ed_public x sk)"
    and "prp_peer_id (obj_payload u) = derive_peer_id x (ed_public x sk)"
    and "publish_codec.object_storable u"
  shows "\<exists>s. sign_object x (enc_publish x) sk u = Ok s \<and> unsigned s = u \<and>
    publish_codec.object_storable s \<and> verify_publish_record x s = Ok (derive_peer_id x (ed_public x sk))"
proof -
  from publish_codec.sign_then_verify [OF assms(1-3,8,5)]
  obtain s where s: "sign_object x (enc_publish x) sk u = Ok s" "unsigned s = u"
      "sig_public_key (obj_signature s) = b64_encode x (ed_public x sk)"
      "verify_signature x (enc_publish x) s = Ok (derive_peer_id x (ed_public x sk))"
    by blast
  have e: "obj_type s = obj_type u" "obj_payload s = obj_payload u" "publish_codec.object_storable s"
    using s(2) assms(8) unsigned_selectors publish_codec.storable_unsigned by metis+
  moreover have "length (ed_public x sk) = 32" using assms(2,3) by (simp add: ed25519_law_def)
  ultimately have "verify_publish_record x s = Ok (derive_peer_id x (ed_public x sk))"
    using s assms(1,4,6,7) by (simp add: verify_publish_record_def decode_array_encode)
  with s e show ?thesis by blast
qed

text \<open>
  A publish record signed with the key its payload names travels: the body that is sent reads back as
  the record that was signed, and it verifies, for the peer of that key.
\<close>

theorem publish_sign_verify:
  assumes "base64_law x" "ed25519_law x" "rfc3339_law x" "json_law x" "length sk = 32"
    and "obj_type u = ''publish.record''" "obj_protocol u = PROTOCOL_ID"
    and "prp_public_key (obj_payload u) = b64_encode x (ed_public x sk)"
    and "prp_peer_id (obj_payload u) = derive_peer_id x (ed_public x sk)"
    and "four_digit_year (obj_created_at u)" "four_digit_year (prp_updated_at (obj_payload u))"
    and "\<forall>e \<in> set (obj_extensions u). ext_version e \<le> u32_max"
  shows "\<exists>s. sign_object x (enc_publish x) sk u = Ok s \<and> unsigned s = u \<and>
    from_json x (dec_signed x (dec_publish x)) (json_text x (enc_signed x (enc_publish x) s)) = Ok s \<and>
    verify_publish_record x s = Ok (prp_peer_id (obj_payload u))"
proof -
  have "publish_codec.object_storable u"
    using assms(10-12) by (simp add: publish_codec.object_storable_def)
  from signed_publish_ok [OF assms(1,2,5-9) this] publish_codec.from_json_signed [OF assms(3,4)]
  show ?thesis unfolding assms(9) by blast
qed

definition sample_publish :: "string \<Rightarrow> publish_record_payload unsigned_object" where
  "sample_publish body = new_object ''publish.record'' ''pub_1'' sample_now
     \<lparr>prp_peer_id = derive_peer_id toy sample_key,
      prp_public_key = b64_encode toy sample_key,
      prp_tags = [''rust''], prp_contact_policy = ''open'',
      prp_capabilities = \<lparr>cap_message_encryption = []\<rparr>, prp_body = body,
      prp_updated_at = sample_now\<rparr>"

lemma sample_publish_simps [simp]:
  "obj_type (sample_publish b) = ''publish.record''" "obj_protocol (sample_publish b) = PROTOCOL_ID"
  "obj_created_at (sample_publish b) = sample_now" "obj_extensions (sample_publish b) = []"
  "prp_public_key (obj_payload (sample_publish b)) = b64_encode toy sample_key"
  "prp_peer_id (obj_payload (sample_publish b)) = derive_peer_id toy sample_key"
  "prp_updated_at (obj_payload (sample_publish b)) = sample_now"
  "prp_body (obj_payload (sample_publish b)) = b"
  by (simp_all add: sample_publish_def new_object_def)

theorem publish_sign_verify_witness:
  "\<exists>s. sign_object toy (enc_publish toy) sample_key (sample_publish ''hello'') = Ok s \<and>
    unsigned s = sample_publish ''hello'' \<and>
    from_json toy (dec_signed toy (dec_publish toy)) (json_text toy (enc_signed toy (enc_publish toy) s)) = Ok s \<and>
    verify_publish_record toy s = Ok (prp_peer_id (obj_payload (sample_publish ''hello'')))"
  by (rule publish_sign_verify) (simp_all add: toy_laws del: toy_selectors, simp_all)

text \<open>
  C37. Every field of a publish record is signed: two records that differ in any field, whether of
  the envelope, of an extension or of the payload, have different signature inputs.
\<close>

theorem publish_signature_covers:
  assumes "rfc3339_law x" "json_law x" and "u \<noteq> v"
    and "\<forall>w \<in> {u, v}. four_digit_year (obj_created_at w) \<and> four_digit_year (prp_updated_at (obj_payload w)) \<and>
      (\<forall>e \<in> set (obj_extensions w). ext_version e \<le> u32_max)"
  shows "object_signature_input x (enc_publish x) u \<noteq> object_signature_input x (enc_publish x) v"
  using publish_codec.signature_input_inject [OF assms(1,2), of u v] assms(3,4)
  by (auto simp: publish_codec.object_storable_def)

theorem publish_signature_covers_witness:
  "object_signature_input toy (enc_publish toy) (sample_publish ''hello'')
   \<noteq> object_signature_input toy (enc_publish toy) (sample_publish ''goodbye'')"
proof (rule publish_signature_covers)
  show "sample_publish ''hello'' \<noteq> sample_publish ''goodbye''"
  proof
    assume "sample_publish ''hello'' = sample_publish ''goodbye''"
    then have "''hello'' = ''goodbye''" using sample_publish_simps(8) by metis
    then show False by simp
  qed
qed (simp_all add: toy_laws)

definition message_storable :: "message_envelope_payload unsigned_object \<Rightarrow> bool" where
  "message_storable u \<longleftrightarrow> four_digit_year (obj_created_at u) \<and>
     (\<forall>e \<in> set (obj_extensions u). ext_version e \<le> u32_max) \<and>
     four_digit_year (mep_expires_at (obj_payload u)) \<and> mep_ttl_seconds (obj_payload u) \<le> u64_max"

lemma message_storable_object: "message_storable u \<Longrightarrow> message_codec.object_storable u"
  by (simp add: message_storable_def message_codec.object_storable_def)

lemma verify_message_sender:
  "verify_message_envelope x s = Ok p \<Longrightarrow> mep_sender (obj_payload s) = p"
  unfolding verify_message_envelope_def by (auto simp: result_simps)

text \<open>
  Verification of a message envelope, exactly: it is accepted for the peer \<open>p\<close> if and only if it
  is of type \<^verbatim>\<open>message.envelope\<close>, of this protocol, and signed with Ed25519 over its signature input
  by a key whose peer id is \<open>p\<close>, the sender the payload names.
\<close>

theorem verify_message_envelope_iff:
  "verify_message_envelope x s = Ok p \<longleftrightarrow>
     obj_type s = ''message.envelope'' \<and> obj_protocol s = PROTOCOL_ID \<and>
     sig_alg (obj_signature s) = ED25519_ALG \<and> mep_sender (obj_payload s) = p \<and>
     (\<exists>pk sig input. b64_decode x (sig_public_key (obj_signature s)) = Ok pk \<and> length pk = 32 \<and>
        ed_point x pk = Ok () \<and> b64_decode x (sig_value (obj_signature s)) = Ok sig \<and> length sig = 64 \<and>
        object_signature_input x (enc_message x) (unsigned s) = Ok input \<and>
        ed_verify x pk input sig = Ok () \<and> p = derive_peer_id x pk)"
  unfolding verify_message_envelope_def
  by (auto simp: result_simps message_codec.verify_signature_Ok)

lemma signed_message_ok:
  assumes "base64_law x" "ed25519_law x" "length sk = 32"
    and "obj_type u = ''message.envelope''" "obj_protocol u = PROTOCOL_ID"
    and "mep_sender (obj_payload u) = derive_peer_id x (ed_public x sk)" "message_storable u"
  shows "\<exists>s. sign_object x (enc_message x) sk u = Ok s \<and> unsigned s = u \<and>
    message_codec.object_storable s \<and> verify_message_envelope x s = Ok (derive_peer_id x (ed_public x sk))"
proof -
  note ok = message_storable_object [OF assms(7)]
  from message_codec.sign_then_verify [OF assms(1-3) ok assms(5)]
  obtain s where s: "sign_object x (enc_message x) sk u = Ok s" "unsigned s = u"
      "verify_signature x (enc_message x) s = Ok (derive_peer_id x (ed_public x sk))"
    by blast
  have e: "obj_type s = obj_type u" "obj_payload s = obj_payload u" "message_codec.object_storable s"
    using s(2) ok unsigned_selectors message_codec.storable_unsigned by metis+
  with s assms(4,6) have "verify_message_envelope x s = Ok (derive_peer_id x (ed_public x sk))"
    by (simp add: verify_message_envelope_def)
  with s e show ?thesis by blast
qed

text \<open>
  A message signed with the key of its sender travels: the body that is sent reads back as the
  envelope that was signed, and it verifies as the sender's; its signature input is that of no other
  envelope.
\<close>

theorem message_sign_verify:
  assumes laws: "base64_law x" "ed25519_law x" "rfc3339_law x" "json_law x" and key: "length sk = 32"
    and u: "obj_type u = ''message.envelope''" "obj_protocol u = PROTOCOL_ID"
      "mep_sender (obj_payload u) = derive_peer_id x (ed_public x sk)" "message_storable u"
  shows "(\<exists>s. sign_object x (enc_message x) sk u = Ok s \<and> unsigned s = u \<and>
      from_json x (dec_signed x (dec_message x)) (json_text x (enc_signed x (enc_message x) s)) = Ok s \<and>
      verify_message_envelope x s = Ok (mep_sender (obj_payload u)))
    \<and> (\<forall>v. message_storable v \<longrightarrow> u \<noteq> v \<longrightarrow>
      object_signature_input x (enc_message x) u \<noteq> object_signature_input x (enc_message x) v)"
proof -
  from signed_message_ok [OF laws(1,2) key u]
  obtain s where s: "sign_object x (enc_message x) sk u = Ok s" "unsigned s = u"
      "message_codec.object_storable s" "verify_message_envelope x s = Ok (mep_sender (obj_payload u))"
    unfolding u(3) by blast
  moreover have "object_signature_input x (enc_message x) u \<noteq> object_signature_input x (enc_message x) v"
    if "message_storable v" "u \<noteq> v" for v
    using message_codec.signature_input_inject [OF laws(3,4) u(4) [THEN message_storable_object]
        that(1) [THEN message_storable_object]] that(2) by blast
  ultimately show ?thesis
    using message_codec.from_json_signed [OF laws(3,4) s(3)] by blast
qed

definition sample_message :: "string \<Rightarrow> message_envelope_payload unsigned_object" where
  "sample_message recipient = new_object ''message.envelope'' ''msg_1'' sample_now
     \<lparr>mep_sender = derive_peer_id toy sample_key, mep_recipient = PeerId recipient,
      mep_content_encoding = ''text/plain'',
      mep_encryption = \<lparr>me_suite = MESSAGE_ENCRYPTION_SUITE, me_recipient_key_id = ''key_1'',
        me_ephemeral_public_key = [], me_nonce = []\<rparr>,
      mep_ciphertext = ''ct'', mep_expires_at = sample_now, mep_ttl_seconds = 604800\<rparr>"

lemma sample_message_simps [simp]:
  "obj_type (sample_message r) = ''message.envelope''" "obj_protocol (sample_message r) = PROTOCOL_ID"
  "mep_sender (obj_payload (sample_message r)) = derive_peer_id toy sample_key"
  "message_storable (sample_message r)"
  "mep_recipient (obj_payload (sample_message r)) = PeerId r"
  by (simp_all add: sample_message_def new_object_def message_storable_def u64_max_def)

theorem message_sign_verify_witness:
  "(\<exists>s. sign_object toy (enc_message toy) sample_key (sample_message ''peer_b'') = Ok s \<and>
      unsigned s = sample_message ''peer_b'' \<and>
      from_json toy (dec_signed toy (dec_message toy)) (json_text toy (enc_signed toy (enc_message toy) s)) = Ok s \<and>
      verify_message_envelope toy s = Ok (mep_sender (obj_payload (sample_message ''peer_b''))))
    \<and> object_signature_input toy (enc_message toy) (sample_message ''peer_b'')
      \<noteq> object_signature_input toy (enc_message toy) (sample_message ''peer_c'')"
proof -
  have "sample_message ''peer_b'' \<noteq> sample_message ''peer_c''"
  proof
    assume "sample_message ''peer_b'' = sample_message ''peer_c''"
    then have "PeerId ''peer_b'' = PeerId ''peer_c''" using sample_message_simps(5) by metis
    then show False by simp
  qed
  moreover have "mep_sender (obj_payload (sample_message ''peer_b'')) = derive_peer_id toy (ed_public toy sample_key)"
    by simp
  ultimately show ?thesis
    using message_sign_verify [OF toy_laws(1,4,7,8) length_sample_key
        sample_message_simps(1,2) [of "''peer_b''"] _ sample_message_simps(4)]
      sample_message_simps(4) by blast
qed

section \<open>Requests\<close>

lemma request_signature_input_Ok [result_simps]:
  "request_signature_input x r = Ok input \<longleftrightarrow>
     (\<exists>pk. b64_decode x (rts_public_key r) = Ok pk \<and> length pk = 32 \<and>
        rts_peer_id r = derive_peer_id x pk \<and> input = join_on (CHR 0x0A) (request_lines x r))"
  by (auto simp: request_signature_input_def result_simps)

lemma verify_request_Ok:
  "verify_request x s r = Ok () \<longleftrightarrow>
     ars_protocol s = PROTOCOL_ID \<and> ars_alg s = ED25519_ALG \<and>
     ars_peer_id s = rts_peer_id r \<and> ars_public_key s = rts_public_key r \<and>
     ars_timestamp s = rts_timestamp r \<and> ars_nonce s = rts_nonce r \<and>
     ars_idempotency_key s = rts_idempotency_key r \<and>
     (\<exists>pk sig. b64_decode x (rts_public_key r) = Ok pk \<and> length pk = 32 \<and>
        rts_peer_id r = derive_peer_id x pk \<and> ed_point x pk = Ok () \<and>
        b64_decode x (ars_value s) = Ok sig \<and> length sig = 64 \<and>
        ed_verify x pk (join_on (CHR 0x0A) (request_lines x r)) sig = Ok ())"
proof (cases "ars_peer_id s = rts_peer_id r \<and> ars_public_key s = rts_public_key r
    \<and> ars_timestamp s = rts_timestamp r \<and> ars_nonce s = rts_nonce r
    \<and> ars_idempotency_key s = rts_idempotency_key r")
  case True
  then show ?thesis by (simp add: verify_request_def result_simps) blast
next
  case False
  then show ?thesis by (simp add: verify_request_def) blast
qed

lemma signed_request_ok:
  assumes laws: "base64_law x" "ed25519_law x" and key: "length sk = 32"
    and r: "rts_public_key r = b64_encode x (ed_public x sk)"
      "rts_peer_id r = derive_peer_id x (ed_public x sk)"
  shows "\<exists>s. sign_request x r sk = Ok s \<and> verify_request x s r = Ok ()"
proof -
  have pk: "length (ed_public x sk) = 32" "ed_point x (ed_public x sk) = Ok ()"
    using laws key by (simp_all add: ed25519_law_def)
  let ?input = "join_on (CHR 0x0A) (request_lines x r)"
  have input: "request_signature_input x r = Ok ?input"
    using r pk laws(1) by (simp add: request_signature_input_Ok base64_roundtrip)
  define s where "s = \<lparr>ars_protocol = PROTOCOL_ID, ars_alg = ED25519_ALG, ars_peer_id = rts_peer_id r,
            ars_public_key = rts_public_key r, ars_timestamp = rts_timestamp r, ars_nonce = rts_nonce r,
            ars_idempotency_key = rts_idempotency_key r,
            ars_value = b64_encode x (ed_sign x sk ?input)\<rparr>"
  have "sign_request x r sk = Ok s"
    using r input by (simp add: sign_request_def s_def)
  moreover have "verify_request x s r = Ok ()"
    using r pk laws key by (simp add: verify_request_Ok s_def base64_roundtrip ed25519_law_def)
  ultimately show ?thesis by blast
qed

text \<open>
  C38. A request signed with the key it names is accepted, and the signature it was given is
  accepted for no request with another peer id, key, timestamp, nonce or idempotency key.
\<close>

theorem request_sign_verify:
  assumes laws: "base64_law x" "ed25519_law x" and key: "length sk = 32"
    and r: "rts_public_key r = b64_encode x (ed_public x sk)"
      "rts_peer_id r = derive_peer_id x (ed_public x sk)"
  shows "\<exists>s. sign_request x r sk = Ok s \<and> verify_request x s r = Ok () \<and>
    (\<forall>q. verify_request x s q = Ok () \<longrightarrow>
       rts_peer_id q = rts_peer_id r \<and> rts_public_key q = rts_public_key r \<and>
       rts_timestamp q = rts_timestamp r \<and> rts_nonce q = rts_nonce r \<and>
       rts_idempotency_key q = rts_idempotency_key r)"
  using signed_request_ok [OF assms] by (fastforce simp: verify_request_Ok)

definition sample_request :: "string \<Rightarrow> request_to_sign" where
  "sample_request path = \<lparr>rts_method = ''GET'', rts_path_and_query = path, rts_body = [],
     rts_peer_id = derive_peer_id toy sample_key, rts_public_key = b64_encode toy sample_key,
     rts_timestamp = sample_now, rts_nonce = ''n1'', rts_idempotency_key = None\<rparr>"

theorem request_sign_verify_witness:
  "\<exists>s. sign_request toy (sample_request ''/v1/inbox'') sample_key = Ok s \<and>
    verify_request toy s (sample_request ''/v1/inbox'') = Ok ()"
proof -
  have "rts_public_key (sample_request ''/v1/inbox'') = b64_encode toy (ed_public toy sample_key)"
      "rts_peer_id (sample_request ''/v1/inbox'') = derive_peer_id toy (ed_public toy sample_key)"
    by (simp_all add: sample_request_def)
  from request_sign_verify [OF toy_laws(1,4) length_sample_key this] show ?thesis by blast
qed

text \<open>The parts of a request that a line of the signature input may hold.\<close>

definition one_line :: "string \<Rightarrow> bool" where
  "one_line s \<longleftrightarrow> CHR 0x0A \<notin> set s"

definition request_one_line :: "request_to_sign \<Rightarrow> bool" where
  "request_one_line r \<longleftrightarrow> one_line (rts_method r) \<and> one_line (rts_path_and_query r) \<and>
     one_line (peer_str (rts_peer_id r)) \<and> one_line (rts_public_key r) \<and> one_line (rts_nonce r) \<and>
     (\<forall>k. rts_idempotency_key r = Some k \<longrightarrow> one_line k)"

lemma one_line_upper: "one_line s \<Longrightarrow> one_line (to_ascii_uppercase s)"
proof -
  have "ascii_upper c \<noteq> CHR 0x0A" if "c \<noteq> CHR 0x0A" for c
  proof (cases "is_ascii_lower c")
    case True
    then have "byte (ascii_upper c) = byte c - 32" "97 \<le> byte c"
      by (auto simp: ascii_upper_def is_ascii_lower_def in_range_def)
    then show ?thesis by auto
  qed (use that in \<open>simp add: ascii_upper_def\<close>)
  then show "one_line s \<Longrightarrow> one_line (to_ascii_uppercase s)"
    unfolding one_line_def to_ascii_uppercase_def set_map by (metis imageE)
qed

lemma one_line_graphic: "list_all (in_range 33 126) s \<Longrightarrow> one_line s"
proof -
  have "\<not> in_range 33 126 (CHR 0x0A)" by (simp add: in_range_def)
  then show "list_all (in_range 33 126) s \<Longrightarrow> one_line s"
    by (auto simp: one_line_def list_all_iff)
qed

lemma request_lines_one_line:
  assumes "base64_law x" "rfc3339_law x" "request_one_line r" "four_digit_year (rts_timestamp r)"
  shows "\<forall>l \<in> set (request_lines x r). CHR 0x0A \<notin> set l"
proof -
  have "one_line (format_timestamp x (rts_timestamp r))"
    unfolding format_timestamp_def by (rule one_line_graphic) (use assms(2,4) in \<open>simp add: rfc3339_law_def\<close>)
  moreover have "one_line (body_sha256_base64url x r)"
    using b64_newline [OF assms(1)] by (simp add: body_sha256_base64url_def one_line_def)
  moreover have "one_line REQUEST_SIGNATURE_DOMAIN" "one_line PROTOCOL_ID"
    by (simp_all add: one_line_def REQUEST_SIGNATURE_DOMAIN_def PROTOCOL_ID_def)
  ultimately show ?thesis
    using assms(3) one_line_upper [of "rts_method r"]
    by (auto simp: request_lines_def request_one_line_def one_line_def [symmetric] split: option.splits)
      (simp add: one_line_def)
qed

text \<open>
  The signature input of a request fixes what it covers: two requests without line feeds in
  their parts that have the same input have the same method up to case, path and query, SHA-256 of
  the body, peer id, key, nonce, idempotency key (absent being the empty one), and the same
  timestamp to the second.
\<close>

theorem request_input_covers:
  assumes laws: "base64_law x" "rfc3339_law x"
    and r: "request_one_line r" "four_digit_year (rts_timestamp r)"
    and q: "request_one_line q" "four_digit_year (rts_timestamp q)"
    and eq: "request_signature_input x r = Ok input" "request_signature_input x q = Ok input"
  shows "to_ascii_uppercase (rts_method r) = to_ascii_uppercase (rts_method q) \<and>
    rts_path_and_query r = rts_path_and_query q \<and> sha256 x (rts_body r) = sha256 x (rts_body q) \<and>
    rts_peer_id r = rts_peer_id q \<and> rts_public_key r = rts_public_key q \<and> rts_nonce r = rts_nonce q \<and>
    timestamp (rts_timestamp r) = timestamp (rts_timestamp q) \<and>
    (case rts_idempotency_key r of None \<Rightarrow> [] | Some k \<Rightarrow> k)
      = (case rts_idempotency_key q of None \<Rightarrow> [] | Some k \<Rightarrow> k)"
proof -
  have "join_on (CHR 0x0A) (request_lines x r) = join_on (CHR 0x0A) (request_lines x q)"
    using eq by (auto simp: request_signature_input_Ok)
  then have lines: "request_lines x r = request_lines x q"
    by (rule join_on_inject [rotated 4])
      (simp_all add: request_lines_def,
        use request_lines_one_line [OF laws r] request_lines_one_line [OF laws q] in
          \<open>simp_all add: request_lines_def\<close>)
  have "rfc3339_parse x (rfc3339_secs x (rts_timestamp w)) = Ok (seconds (timestamp (rts_timestamp w)))"
    if "four_digit_year (rts_timestamp w)" for w
    using laws(2) that by (simp add: rfc3339_law_def)
  moreover have "rfc3339_secs x (rts_timestamp r) = rfc3339_secs x (rts_timestamp q)"
    using lines by (simp add: request_lines_def format_timestamp_def)
  ultimately have "seconds (timestamp (rts_timestamp r)) = seconds (timestamp (rts_timestamp q))"
    using r(2) q(2) by (metis sum.inject(2))
  then have "timestamp (rts_timestamp r) = timestamp (rts_timestamp q)"
    by (simp add: seconds_def)
  moreover have "sha256 x (rts_body r) = sha256 x (rts_body q)"
    by (rule base64_inject [OF laws(1)]) (use lines in \<open>simp add: request_lines_def body_sha256_base64url_def\<close>)
  ultimately show ?thesis
    using lines by (simp add: request_lines_def)
qed

theorem request_input_covers_witness:
  "rts_path_and_query (sample_request ''/v1/inbox'') = ''/v1/inbox'' \<and>
   timestamp (rts_timestamp (sample_request ''/v1/inbox'')) = 1700000000"
proof -
  let ?r = "sample_request ''/v1/inbox''"
  have one: "one_line (b64_encode toy b)" for b
    using b64_newline [OF toy_laws(1)] by (simp add: one_line_def)
  have "one_line (peer_str (derive_peer_id toy sample_key))"
    using one [of "take 18 (blake3 toy sample_key)"] by (simp add: derive_peer_id_def one_line_def)
  with one have "request_one_line ?r"
    by (simp add: request_one_line_def sample_request_def) (simp add: one_line_def)
  moreover obtain input where "request_signature_input toy ?r = Ok input"
    by (simp add: request_signature_input_Ok sample_request_def unhex_text)
  moreover have "four_digit_year (rts_timestamp ?r)" by (simp add: sample_request_def)
  ultimately have "rts_path_and_query ?r = rts_path_and_query ?r"
    using request_input_covers [OF toy_laws(1,7)] by blast
  then show ?thesis
    by (simp add: sample_request_def timestamp_def sample_now_def seconds_def)
qed

end
