(* ===== verification/Publish_Laws.thy ===== *)
theory Publish_Laws
  imports Publish_Store Paging Protocol_Laws
begin

text \<open>
  The laws of the publish store. Its ids stay unique; it refines the map that \<open>publish_contract\<close>
  asks for, whose clients may rely on ownership, on the finality of an author's deletion and on
  moderation surviving later uploads; a search shows listed records only, newest first, and
  following its cursors shows each of the first 10,000 exactly once; discovery ranks by the number of
  tags matched.
\<close>

section \<open>Orders\<close>

interpretation newest_first: keyed_comparison compare_publish_records_newest_first sp_id
  by unfold_locales (auto simp: compare_publish_records_newest_first_def)

interpretation search_paging: cursor_paging compare_publish_records_newest_first sp_id
  publish_record_is_older_than_cursor
  "\<lambda>e. \<lparr>psc_created_at = sp_created e, psc_id = sp_id e, psc_seen = n\<rparr>" for n
  by unfold_locales
    (auto simp: compare_publish_records_newest_first_def publish_record_is_older_than_cursor_def)

interpretation discover_order: keyed_comparison "compare_discover x q" obj_id for x q
  by unfold_locales (auto simp: compare_discover_def)

section \<open>Unique ids\<close>

definition publish_ok :: "stored_publish list \<Rightarrow> bool" where
  "publish_ok rs \<longleftrightarrow> distinct (map sp_id rs)"

lemma preserve_admin_state_id [simp]:
  "sp_id (preserve_admin_state ob e) = obj_id ob" "sp_object (preserve_admin_state ob e) = ob"
  "sp_id (stored_visible ob) = obj_id ob" "sp_object (stored_visible ob) = ob"
  "sp_deleted (stored_visible ob) = False" "sp_hidden (stored_visible ob) = False"
  "sp_deleted (preserve_admin_state ob e) = False" "sp_hidden (preserve_admin_state ob e) = sp_hidden e"
  by (simp_all add: preserve_admin_state_def stored_visible_def)

lemma record_changes [simp]:
  "sp_object (author_delete now e) = sp_object e" "sp_object (hide_record now r a e) = sp_object e"
  "sp_object (restore_record now r a e) = sp_object e"
  "sp_deleted (author_delete now e)" "sp_deleted (hide_record now r a e) = sp_deleted e"
  "sp_deleted (restore_record now r a e) = sp_deleted e"
  "sp_hidden (author_delete now e) = sp_hidden e" "sp_hidden (hide_record now r a e)"
  "\<not> sp_hidden (restore_record now r a e)"
  by (simp_all add: author_delete_def hide_record_def restore_record_def)

lemma upsert_keeps_ok:
  assumes "publish_ok rs" and "publish_upsert_records ob p rs = (st, Some rs')"
  shows "publish_ok rs'"
proof (cases "find (\<lambda>e. sp_id e = obj_id ob) rs")
  case None
  then have "obj_id ob \<notin> sp_id ` set rs" by (simp add: find_key_None_iff)
  with None show ?thesis
    using assms by (auto simp: publish_upsert_records_def publish_ok_def)
next
  case (Some e)
  then show ?thesis
    using assms distinct_update_first [of "\<lambda>e. sp_id e = obj_id ob" sp_id "preserve_admin_state ob" rs]
    by (auto simp: publish_upsert_records_def publish_ok_def split: if_splits)
qed

lemma delete_keeps_ok:
  assumes "publish_ok rs" and "mark_author_deleted_records now i p rs = (st, Some rs')"
  shows "publish_ok rs'"
proof -
  obtain k where k: "position (\<lambda>e. sp_id e = i \<and> \<not> sp_deleted e) rs = Some k"
    and rs': "rs' = rs[k := author_delete now (rs ! k)]"
    using assms(2) by (auto simp: mark_author_deleted_records_def split: option.splits if_splits)
  then have "rs' = update_first (\<lambda>e. sp_id e = i \<and> \<not> sp_deleted e) (author_delete now) rs"
    by (simp add: position_update)
  then show ?thesis using assms(1) by (simp add: publish_ok_def distinct_update_first)
qed

lemma moderate_keeps_ok:
  assumes "publish_ok rs" and "moderate_records change i rs = (st, Some rs')"
    and "\<And>e. sp_object (change e) = sp_object e"
  shows "publish_ok rs'"
  using assms distinct_update_first [of "\<lambda>e. sp_id e = i" sp_id change rs]
  by (auto simp: moderate_records_def publish_ok_def split: option.splits if_splits)

section \<open>The contract\<close>

datatype publish_op =
    Upload publish_object peer_id
  | Delete datetime string peer_id
  | Hide datetime string string admin_principal
  | Restore datetime string string admin_principal

text \<open>What an operation does to the map from ids to records.\<close>

definition spec_upload :: "publish_object \<Rightarrow> peer_id \<Rightarrow> stored_publish option \<Rightarrow> stored_publish option" where
  "spec_upload ob p entry =
     (case entry of
        None \<Rightarrow> Some (stored_visible ob)
      | Some e \<Rightarrow> if sp_peer e = p \<and> \<not> sp_deleted e then Some (preserve_admin_state ob e) else Some e)"

definition spec_delete :: "datetime \<Rightarrow> peer_id \<Rightarrow> stored_publish option \<Rightarrow> stored_publish option" where
  "spec_delete now p entry =
     map_option (\<lambda>e. if sp_peer e = p \<and> \<not> sp_deleted e then author_delete now e else e) entry"

definition spec_moderate :: "(stored_publish \<Rightarrow> stored_publish) \<Rightarrow> stored_publish option \<Rightarrow> stored_publish option" where
  "spec_moderate change entry = map_option (\<lambda>e. if sp_deleted e then e else change e) entry"

fun spec_step :: "publish_op \<Rightarrow> (string \<rightharpoonup> stored_publish) \<Rightarrow> (string \<rightharpoonup> stored_publish)" where
  "spec_step (Upload ob p) m = m(obj_id ob := spec_upload ob p (m (obj_id ob)))"
| "spec_step (Delete now i p) m = m(i := spec_delete now p (m i))"
| "spec_step (Hide now i r a) m = m(i := spec_moderate (hide_record now r a) (m i))"
| "spec_step (Restore now i r a) m = m(i := spec_moderate (restore_record now r a) (m i))"

lemma spec_step_Some:
  assumes "m i = Some e"
  shows "\<exists>e'. spec_step a m i = Some e' \<and> (sp_deleted e \<longrightarrow> e' = e) \<and>
    ((\<forall>ob p. a = Upload ob p \<longrightarrow> prp_peer_id (obj_payload ob) = p) \<longrightarrow> sp_peer e' = sp_peer e) \<and>
    (sp_hidden e \<and> (\<forall>now r ad. a \<noteq> Restore now i r ad) \<longrightarrow> sp_hidden e')"
proof (cases a)
  case (Upload ob p)
  then show ?thesis by (cases "i = obj_id ob") (use assms in \<open>auto simp: spec_upload_def\<close>)
next
  case (Delete now j p)
  then show ?thesis
    by (cases "j = i"; cases "sp_peer e = p \<and> \<not> sp_deleted e") (use assms in \<open>auto simp: spec_delete_def\<close>)
next
  case (Hide now j r ad)
  then show ?thesis
    by (cases "j = i"; cases "sp_deleted e") (use assms in \<open>auto simp: spec_moderate_def\<close>)
next
  case (Restore now j r ad)
  then show ?thesis
    by (cases "j = i"; cases "sp_deleted e") (use assms in \<open>auto simp: spec_moderate_def\<close>)
qed

text \<open>
  What a publish store promises its clients: in every state it holds a map; an operation either
  fails and leaves the map, or changes it as \<open>spec_step\<close> says, at the time of the operation as the
  store keeps it (\<open>trim\<close>). \<open>good\<close> are the operations that the store has to handle, and \<open>env\<close> is what its
  I/O may do.
\<close>

fun same_op :: "publish_op \<Rightarrow> publish_op \<Rightarrow> bool" where
  "same_op (Upload ob p) b = (b = Upload ob p)"
| "same_op (Delete now i p) b = (\<exists>t. b = Delete t i p)"
| "same_op (Hide now i r a) b = (\<exists>t. b = Hide t i r a)"
| "same_op (Restore now i r a) b = (\<exists>t. b = Restore t i r a)"

locale publish_contract =
  fixes inv :: "'s \<Rightarrow> bool" and view :: "'s \<Rightarrow> (string \<rightharpoonup> stored_publish)"
    and step :: "publish_op \<Rightarrow> 'env \<Rightarrow> 's \<Rightarrow> 's" and trim :: "'s \<Rightarrow> publish_op \<Rightarrow> publish_op" and good :: "publish_op \<Rightarrow> bool"
  assumes inv_step: "inv s \<Longrightarrow> good a \<Longrightarrow> inv (step a e s)"
    and view_step: "inv s \<Longrightarrow> good a \<Longrightarrow> view (step a e s) = view s \<or> view (step a e s) = spec_step (trim s a) (view s)"
    and same_trim: "same_op a (trim s a)"
begin

abbreviation all_good :: "(publish_op \<times> 'env) list \<Rightarrow> bool" where
  "all_good ops \<equiv> \<forall>(a, _) \<in> set ops. good a"

fun run :: "(publish_op \<times> 'env) list \<Rightarrow> 's \<Rightarrow> 's" where
  "run [] s = s"
| "run ((a, e) # ops) s = run ops (step a e s)"

lemma run_keeps:
  assumes "inv s" and "all_good ops" and "P (view s)"
    and "\<And>t a m. P m \<Longrightarrow> a \<in> fst ` set ops \<Longrightarrow> P (spec_step (trim t a) m)"
  shows "inv (run ops s) \<and> P (view (run ops s))"
  using assms
proof (induction ops arbitrary: s)
  case Nil
  then show ?case by simp
next
  case (Cons o1 ops)
  obtain a e where o1: "o1 = (a, e)" by (cases o1)
  have "P (view (step a e s))"
    using view_step [OF Cons.prems(1), of a e] Cons.prems(2-4) o1 by auto
  with Cons.IH [of "step a e s"] inv_step [OF Cons.prems(1)] Cons.prems(2,4) o1 show ?case by auto
qed

text \<open>A record keeps its owner, and a deleted one is frozen with the content it was deleted with.\<close>

lemma owner_kept:
  assumes "inv s" and "all_good ops" and "view s i = Some e"
    and "\<forall>(a, _) \<in> set ops. \<forall>ob p. a = Upload ob p \<longrightarrow> prp_peer_id (obj_payload ob) = p"
  shows "\<exists>e'. view (run ops s) i = Some e' \<and> sp_peer e' = sp_peer e"
proof -
  let ?P = "\<lambda>m :: string \<rightharpoonup> stored_publish. \<exists>e'. m i = Some e' \<and> sp_peer e' = sp_peer e"
  have "inv (run ops s) \<and> ?P (view (run ops s))"
  proof (rule run_keeps [OF assms(1,2)])
    show "?P (view s)" using assms(3) by blast
  next
    fix t :: 's and a and m :: "string \<rightharpoonup> stored_publish" assume m: "?P m" and a: "a \<in> fst ` set ops"
    from m obtain e' where e': "m i = Some e'" "sp_peer e' = sp_peer e" by blast
    from a assms(4) have "\<forall>ob p. a = Upload ob p \<longrightarrow> prp_peer_id (obj_payload ob) = p" by auto
    then have "\<forall>ob p. trim t a = Upload ob p \<longrightarrow> prp_peer_id (obj_payload ob) = p"
      using same_trim [of a t] by (cases a) auto
    with e' show "?P (spec_step (trim t a) m)"
      using spec_step_Some [of m i e' "trim t a"] by auto
  qed
  then show ?thesis by blast
qed

lemma deletion_final:
  assumes "inv s" and "all_good ops" and "view s i = Some e" and "sp_deleted e"
  shows "view (run ops s) i = Some e"
proof -
  have "inv (run ops s) \<and> (view (run ops s) i = Some e)"
  proof (rule run_keeps [OF assms(1,2), where P = "\<lambda>m. m i = Some e"])
    show "view s i = Some e" by (rule assms(3))
  next
    fix t :: 's and a and m :: "string \<rightharpoonup> stored_publish" assume "m i = Some e"
    then show "spec_step (trim t a) m i = Some e"
      using spec_step_Some [of m i e "trim t a"] assms(4) by auto
  qed
  then show ?thesis by blast
qed

lemma hidden_kept:
  assumes "inv s" and "all_good ops" and "view s i = Some e" and "sp_hidden e"
    and "\<forall>(a, _) \<in> set ops. \<forall>now r ad. a \<noteq> Restore now i r ad"
  shows "\<exists>e'. view (run ops s) i = Some e' \<and> sp_hidden e'"
proof -
  let ?P = "\<lambda>m :: string \<rightharpoonup> stored_publish. \<exists>e'. m i = Some e' \<and> sp_hidden e'"
  have "inv (run ops s) \<and> ?P (view (run ops s))"
  proof (rule run_keeps [OF assms(1,2)])
    show "?P (view s)" using assms(3,4) by blast
  next
    fix t :: 's and a and m :: "string \<rightharpoonup> stored_publish" assume m: "?P m" and a: "a \<in> fst ` set ops"
    from m obtain e' where e': "m i = Some e'" "sp_hidden e'" by blast
    from a assms(5) have "\<forall>now r ad. a \<noteq> Restore now i r ad" by auto
    then have "\<forall>now r ad. trim t a \<noteq> Restore now i r ad"
      using same_trim [of a t] by (cases a) auto
    with e' show "?P (spec_step (trim t a) m)"
      using spec_step_Some [of m i e' "trim t a"] by auto
  qed
  then show ?thesis by blast
qed

end

section \<open>The file store keeps the contract\<close>

definition publish_map :: "stored_publish list \<Rightarrow> (string \<rightharpoonup> stored_publish)" where
  "publish_map rs i = find (\<lambda>e. sp_id e = i) rs"

definition publish_abs :: "stored_publish disk \<Rightarrow> (string \<rightharpoonup> stored_publish)" where
  "publish_abs d = (case load d of Inl e \<Rightarrow> Map.empty | Inr rs \<Rightarrow> publish_map rs)"

fun publish_records_step :: "publish_op \<Rightarrow> stored_publish list \<Rightarrow> stored_publish list option" where
  "publish_records_step (Upload ob p) rs = snd (publish_upsert_records ob p rs)"
| "publish_records_step (Delete now i p) rs = snd (mark_author_deleted_records now i p rs)"
| "publish_records_step (Hide now i r a) rs = snd (moderate_records (hide_record now r a) i rs)"
| "publish_records_step (Restore now i r a) rs = snd (moderate_records (restore_record now r a) i rs)"

fun publish_step :: "publish_op \<Rightarrow> io_plan \<Rightarrow> stored_publish disk \<Rightarrow> stored_publish disk" where
  "publish_step (Upload ob p) io d = snd (publish_upsert io ob p d)"
| "publish_step (Delete now i p) io d = snd (mark_author_deleted io now i p d)"
| "publish_step (Hide now i r a) io d = snd (admin_hide io now i r a d)"
| "publish_step (Restore now i r a) io d = snd (admin_restore io now i r a d)"

lemma publish_map_update_first:
  assumes "\<And>e. sp_object (change e) = sp_object e \<or> sp_id (change e) = i"
  shows "publish_map (update_first (\<lambda>e. sp_id e = i) change rs)
     = (publish_map rs)(i := map_option change (publish_map rs i))"
proof
  fix j
  have id: "sp_id e = i \<Longrightarrow> sp_id (change e) = i" for e
    using assms [of e] by auto
  show "publish_map (update_first (\<lambda>e. sp_id e = i) change rs) j
      = ((publish_map rs)(i := map_option change (publish_map rs i))) j"
    unfolding publish_map_def
    using find_update_first [of "\<lambda>e. sp_id e = i" change rs, OF id]
      find_update_first_other [of "\<lambda>e. sp_id e = i" "\<lambda>e. sp_id e = j" change rs] id
    by (cases "j = i") auto
qed

lemma update_first_delete:
  assumes "publish_ok rs" and "find (\<lambda>e. sp_id e = i) rs = Some e" and "\<not> sp_deleted e"
  shows "update_first (\<lambda>e. sp_id e = i \<and> \<not> sp_deleted e) f rs = update_first (\<lambda>e. sp_id e = i) f rs"
    and "find (\<lambda>e. sp_id e = i \<and> \<not> sp_deleted e) rs = Some e"
proof -
  have uniq: "e' = e" if "e' \<in> set rs" "sp_id e' = i" for e'
    using that assms(1,2) distinct_keys_find [of sp_id rs e'] by (simp add: publish_ok_def)
  then have "(sp_id e' = i \<and> \<not> sp_deleted e') = (sp_id e' = i)" if "e' \<in> set rs" for e'
    using that assms(3) by blast
  then show "update_first (\<lambda>e. sp_id e = i \<and> \<not> sp_deleted e) f rs = update_first (\<lambda>e. sp_id e = i) f rs"
      and "find (\<lambda>e. sp_id e = i \<and> \<not> sp_deleted e) rs = Some e"
    using assms(2) by (induction rs) auto
qed

lemma delete_records_spec:
  assumes "publish_ok rs"
  shows "publish_map (case snd (mark_author_deleted_records now i p rs) of None \<Rightarrow> rs | Some rs' \<Rightarrow> rs')
    = (publish_map rs)(i := spec_delete now p (publish_map rs i))"
proof (cases "\<exists>e. find (\<lambda>e. sp_id e = i) rs = Some e \<and> \<not> sp_deleted e")
  case False
  then have "position (\<lambda>e. sp_id e = i \<and> \<not> sp_deleted e) rs = None"
    using assms find_key_Some_iff [of sp_id rs i] by (auto simp: position_None publish_ok_def)
  with False show ?thesis
    by (cases "publish_map rs i")
      (auto simp: mark_author_deleted_records_def spec_delete_def publish_map_def fun_eq_iff)
next
  case True
  then obtain e where e: "find (\<lambda>e. sp_id e = i) rs = Some e" "\<not> sp_deleted e" by blast
  note same = update_first_delete [OF assms e]
  obtain k where k: "position (\<lambda>e. sp_id e = i \<and> \<not> sp_deleted e) rs = Some k" "rs ! k = e"
    using same(2) by (auto simp: position_find)
  have "publish_map (update_first (\<lambda>e. sp_id e = i) (author_delete now) rs)
      = (publish_map rs)(i := Some (author_delete now e))"
    using publish_map_update_first [of "author_delete now" i rs] e(1) by (simp add: publish_map_def)
  moreover have "rs[k := author_delete now (rs ! k)] = update_first (\<lambda>e. sp_id e = i) (author_delete now) rs"
    using position_update [OF k(1)] same(1) by simp
  ultimately show ?thesis
    using e k by (auto simp: mark_author_deleted_records_def spec_delete_def publish_map_def fun_eq_iff)
qed

lemma upload_records_spec:
  "publish_map (case snd (publish_upsert_records ob p rs) of None \<Rightarrow> rs | Some rs' \<Rightarrow> rs')
    = (publish_map rs)(obj_id ob := spec_upload ob p (publish_map rs (obj_id ob)))"
proof (cases "find (\<lambda>e. sp_id e = obj_id ob) rs")
  case None
  then show ?thesis
    by (auto simp: publish_upsert_records_def spec_upload_def publish_map_def fun_eq_iff find_append
        split: option.splits)
next
  case (Some e)
  then show ?thesis
    using publish_map_update_first [of "preserve_admin_state ob" "obj_id ob" rs]
    by (auto simp: publish_upsert_records_def spec_upload_def publish_map_def fun_eq_iff)
qed

lemma moderate_records_spec:
  assumes "\<And>e. sp_object (change e) = sp_object e"
  shows "publish_map (case snd (moderate_records change i rs) of None \<Rightarrow> rs | Some rs' \<Rightarrow> rs')
    = (publish_map rs)(i := spec_moderate change (publish_map rs i))"
  using publish_map_update_first [of change i rs] assms
  by (cases "find (\<lambda>e. sp_id e = i) rs")
    (auto simp: moderate_records_def spec_moderate_def publish_map_def fun_eq_iff)

lemma records_step_spec:
  "publish_ok rs \<Longrightarrow>
   publish_map (case publish_records_step a rs of None \<Rightarrow> rs | Some rs' \<Rightarrow> rs') = spec_step a (publish_map rs)"
  by (cases a) (simp_all add: upload_records_spec delete_records_spec moderate_records_spec)

lemma records_step_ok:
  assumes "publish_ok rs" and "publish_records_step a rs = Some rs'"
  shows "publish_ok rs'"
proof (cases a)
  case (Upload ob p)
  then show ?thesis
    using assms upsert_keeps_ok [OF assms(1), of ob p] by (metis publish_records_step.simps(1) prod.collapse)
next
  case (Delete now i p)
  then show ?thesis
    using assms delete_keeps_ok [OF assms(1), of now i p] by (metis publish_records_step.simps(2) prod.collapse)
next
  case (Hide now i r ad)
  then show ?thesis
    using assms moderate_keeps_ok [OF assms(1), of "hide_record now r ad" i]
    by (metis publish_records_step.simps(3) prod.collapse record_changes(2))
next
  case (Restore now i r ad)
  then show ?thesis
    using assms moderate_keeps_ok [OF assms(1), of "restore_record now r ad" i]
    by (metis publish_records_step.simps(4) prod.collapse record_changes(3))
qed

lemma publish_step_update:
  "publish_step a io d = snd (store_update io (\<lambda>rs. ((), publish_records_step a rs)) d)"
  by (cases a; simp only: publish_step.simps publish_records_step.simps publish_upsert_def
      mark_author_deleted_def admin_hide_def admin_restore_def; rule store_update_forget)

lemma publish_step_load:
  "load (publish_step a io d) = load d \<or>
   (\<exists>rs rs'. load d = Ok rs \<and> publish_records_step a rs = Some rs' \<and> load (publish_step a io d) = Ok rs')"
proof -
  obtain r d' where u: "store_update io (\<lambda>rs. ((), publish_records_step a rs)) d = (r, d')"
    by (cases "store_update io (\<lambda>rs. ((), publish_records_step a rs)) d")
  from store_update_result [OF u] show ?thesis by (auto simp: publish_step_update u)
qed

interpretation file_publish: publish_contract "disk_inv publish_ok" publish_abs publish_step "\<lambda>_ a. a" "\<lambda>_. True"
proof
  fix s :: "stored_publish disk" and a e
  assume inv: "disk_inv publish_ok s"
  show "disk_inv publish_ok (publish_step a e s)"
    using publish_step_load [of a e s] inv records_step_ok by (auto simp: disk_inv_def)
  show "publish_abs (publish_step a e s) = publish_abs s
      \<or> publish_abs (publish_step a e s) = spec_step a (publish_abs s)"
    using publish_step_load [of a e s]
  proof
    assume "load (publish_step a e s) = load s"
    then show ?thesis by (simp add: publish_abs_def)
  next
    assume "\<exists>rs rs'. load s = Ok rs \<and> publish_records_step a rs = Some rs' \<and> load (publish_step a e s) = Ok rs'"
    then obtain rs rs' where rs: "load s = Ok rs" "publish_records_step a rs = Some rs'"
        "load (publish_step a e s) = Ok rs'" by blast
    with inv have "publish_ok rs" by (simp add: disk_inv_def)
    from records_step_spec [OF this, of a] rs show ?thesis by (simp add: publish_abs_def)
  qed
next
  show "same_op a a" for a by (cases a) simp_all
qed

end
