(* ===== verification/Firestore_Laws.thy ===== *)
theory Firestore_Laws
  imports Firestore_Stores Protocol_Laws Publish_Laws
begin

text \<open>
  The stores over Firestore: a document that is written reads back as the record it was made of, times cut
  to the millisecond; an update of a document is atomic; and the publish store keeps the contract of
  \<open>publish_contract\<close>, like the store over a file. What Firestore promises is \<open>firestore_law\<close>.
\<close>

section \<open>Fields as the service returns them\<close>

text \<open>
  A timestamp may come back in another form of RFC 3339; the other values come back as they are.
\<close>

definition same_value :: "crates \<Rightarrow> json \<Rightarrow> json \<Rightarrow> bool" where
  "same_value x v w \<longleftrightarrow>
     jget w ''stringValue'' = jget v ''stringValue'' \<and> jget w ''booleanValue'' = jget v ''booleanValue'' \<and>
     (jget w ''nullValue'' = None \<longleftrightarrow> jget v ''nullValue'' = None) \<and>
     map_option (rfc3339_parse x) (Option.bind (jget w ''timestampValue'') as_str) =
     map_option (rfc3339_parse x) (Option.bind (jget v ''timestampValue'') as_str)"

definition same_fields :: "crates \<Rightarrow> json \<Rightarrow> json \<Rightarrow> bool" where
  "same_fields x F G \<longleftrightarrow> (\<exists>m. F = JObj m) \<and> (\<exists>m. G = JObj m) \<and>
     (\<forall>k. rel_option (same_value x) (jget F k) (jget G k))"

lemma same_value_refl [simp]: "same_value x v v"
  by (simp add: same_value_def)

lemma same_fields_refl: "F = JObj m \<Longrightarrow> same_fields x F F"
  by (auto simp: same_fields_def rel_option_iff split: option.split)

lemma readers_same:
  assumes "same_fields x F G"
  shows "firestore_string_field G k = firestore_string_field F k"
    "firestore_bool_field G k = firestore_bool_field F k"
    "firestore_optional_string_field G k = firestore_optional_string_field F k"
    "firestore_optional_timestamp_field x G k = firestore_optional_timestamp_field x F k"
proof -
  have r: "rel_option (same_value x) (jget F k) (jget G k)" using assms by (simp add: same_fields_def)
  have s: "Option.bind (jget G k) (\<lambda>v. jget v ''stringValue'') = Option.bind (jget F k) (\<lambda>v. jget v ''stringValue'')"
    and b: "Option.bind (jget G k) (\<lambda>v. jget v ''booleanValue'') = Option.bind (jget F k) (\<lambda>v. jget v ''booleanValue'')"
    using r by (cases "jget F k"; cases "jget G k"; simp add: same_value_def)+
  show "firestore_string_field G k = firestore_string_field F k"
    "firestore_bool_field G k = firestore_bool_field F k"
    "firestore_optional_string_field G k = firestore_optional_string_field F k"
    by (simp_all only: firestore_string_field_def firestore_bool_field_def firestore_optional_string_field_def s b)
  show "firestore_optional_timestamp_field x G k = firestore_optional_timestamp_field x F k"
  proof (cases "jget F k")
    case None
    with r show ?thesis by (simp add: firestore_optional_timestamp_field_def)
  next
    case (Some v)
    with r obtain w where w: "jget G k = Some w" "same_value x v w" by (cases "jget G k") auto
    let ?t = "\<lambda>v. Option.bind (jget v ''timestampValue'') as_str"
    have n: "jget w ''nullValue'' = None \<longleftrightarrow> jget v ''nullValue'' = None"
      and t: "map_option (rfc3339_parse x) (?t w) = map_option (rfc3339_parse x) (?t v)"
      using w(2) by (simp_all add: same_value_def)
    show ?thesis
      unfolding firestore_optional_timestamp_field_def Some w(1) option.case n
      using t by (cases "?t v"; cases "?t w"; simp)
  qed
qed

lemma document_fields_Some:
  "jget d ''fields'' = Some (JObj m) \<Longrightarrow> document_fields context d = Ok (JObj m)"
  by (simp add: document_fields_def ok_or_def)

lemma fields_obj: "same_fields x F G \<Longrightarrow> \<exists>m m'. F = JObj m \<and> G = JObj m'"
  by (auto simp: same_fields_def)

lemma read_record_same:
  assumes "jget d ''fields'' = Some F" "jget d' ''fields'' = Some G" "same_fields x F G"
  shows "stored_record_from_firestore_document x d' = stored_record_from_firestore_document x d"
  using fields_obj [OF assms(3)] assms document_fields_Some
  by (auto simp: stored_record_from_firestore_document_def readers_same)

lemma read_message_same:
  assumes "jget d ''fields'' = Some F" "jget d' ''fields'' = Some G" "same_fields x F G"
  shows "stored_message_from_firestore_document x d' = stored_message_from_firestore_document x d"
  using fields_obj [OF assms(3)] assms document_fields_Some
  by (auto simp: stored_message_from_firestore_document_def readers_same)

lemma read_backup_same:
  assumes "jget d ''fields'' = Some F" "jget d' ''fields'' = Some G" "same_fields x F G"
  shows "stored_backup_bucket_from_firestore_document x d' = stored_backup_bucket_from_firestore_document x d"
  using fields_obj [OF assms(3)] assms document_fields_Some
  by (auto simp: stored_backup_bucket_from_firestore_document_def readers_same)

lemma read_activity_same:
  assumes "jget d ''fields'' = Some F" "jget d' ''fields'' = Some G" "same_fields x F G"
  shows "stored_activity_bucket_from_firestore_document x d' = stored_activity_bucket_from_firestore_document x d"
  using fields_obj [OF assms(3)] assms document_fields_Some
  by (auto simp: stored_activity_bucket_from_firestore_document_def readers_same)

section \<open>Times to the millisecond\<close>

definition to_millis :: "datetime \<Rightarrow> datetime" where
  "to_millis t = timestamp_millis t * 1000000"

lemma to_millis_idem [simp]: "to_millis (to_millis t) = to_millis t"
  by (simp add: to_millis_def timestamp_millis_def)

lemma to_millis_year [simp]: "four_digit_year t \<Longrightarrow> four_digit_year (to_millis t)"
  by (auto simp: four_digit_year_def to_millis_def timestamp_millis_def seconds_def)

definition record_millis :: "stored_publish \<Rightarrow> stored_publish" where
  "record_millis e = e\<lparr>sp_deleted_at := map_option to_millis (sp_deleted_at e),
     sp_hidden_at := map_option to_millis (sp_hidden_at e), sp_restored_at := map_option to_millis (sp_restored_at e)\<rparr>"

definition message_millis :: "stored_message \<Rightarrow> stored_message" where
  "message_millis e = e\<lparr>sm_stored_at := to_millis (sm_stored_at e)\<rparr>"

definition backup_millis :: "hosted_bucket \<Rightarrow> hosted_bucket" where
  "backup_millis b = b\<lparr>hb_created_at := to_millis (hb_created_at b), hb_updated_at := to_millis (hb_updated_at b)\<rparr>"

definition activity_millis :: "activity_bucket \<Rightarrow> activity_bucket" where
  "activity_millis b = b\<lparr>ab_created_at := to_millis (ab_created_at b), ab_updated_at := to_millis (ab_updated_at b)\<rparr>"

section \<open>Records read back\<close>

lemma field_written [simp]:
  "jget (string_value s) ''stringValue'' = Some (JStr s)"
  "jget (bool_value b) ''booleanValue'' = Some (JBool b)"
  "jget (timestamp_value x t) ''nullValue'' = None"
  "jget (timestamp_value x t) ''timestampValue'' = Some (JStr (rfc3339_millis x t))"
  "jget null_value ''nullValue'' = Some JNull" "jget null_value ''stringValue'' = None"
  by (simp_all add: string_value_def bool_value_def timestamp_value_def null_value_def jget_obj firestore_timestamp_def)

lemma string_field_written: "jget F k = Some (string_value s) \<Longrightarrow> firestore_string_field F k = Ok s"
  by (simp add: firestore_string_field_def ok_or_def)

lemma bool_field_written: "jget F k = Some (bool_value b) \<Longrightarrow> firestore_bool_field F k = Some b"
  by (simp add: firestore_bool_field_def)

lemma optional_string_written:
  "jget F k = Some (firestore_optional_string s) \<Longrightarrow> firestore_optional_string_field F k = s"
  by (cases s) (simp_all add: firestore_optional_string_field_def firestore_optional_string_def)

lemma millis_parse: "rfc3339_law x \<Longrightarrow> four_digit_year t \<Longrightarrow> rfc3339_parse x (rfc3339_millis x t) = Ok (to_millis t)"
  by (simp add: rfc3339_law_def to_millis_def)

lemma timestamp_written:
  "rfc3339_law x \<Longrightarrow> four_digit_year t \<Longrightarrow> jget F k = Some (timestamp_value x t) \<Longrightarrow>
   firestore_optional_timestamp_field x F k = Ok (Some (to_millis t))"
  by (simp add: firestore_optional_timestamp_field_def millis_parse)

lemma optional_timestamp_written:
  assumes "rfc3339_law x" "\<forall>u. t = Some u \<longrightarrow> four_digit_year u" "jget F k = Some (firestore_optional_timestamp x t)"
  shows "firestore_optional_timestamp_field x F k = Ok (map_option to_millis t)"
  using assms timestamp_written [OF assms(1), of _ F k]
  by (cases t) (simp_all add: firestore_optional_timestamp_def, simp add: firestore_optional_timestamp_field_def)

lemmas written = string_field_written bool_field_written optional_string_written timestamp_written optional_timestamp_written

definition record_storable :: "stored_publish \<Rightarrow> bool" where
  "record_storable e \<longleftrightarrow> publish_codec.object_storable (sp_object e) \<and>
     (\<forall>t. Some t \<in> {sp_deleted_at e, sp_hidden_at e, sp_restored_at e} \<longrightarrow> four_digit_year t)"

lemma fields_written:
  "jget (obj [(''name'', JStr name), (''fields'', obj kvs)]) ''fields'' = Some (obj kvs)"
  "jget (obj [(''name'', JStr name), (''fields'', obj kvs)]) ''name'' = Some (JStr name)"
  by (simp_all add: jget_obj)

lemma record_fields:
  obtains m where "firestore_document_from_record x name e = obj [(''name'', JStr name), (''fields'', JObj m)]"
    "jget (JObj m) ''object_json'' = Some (string_value (json_text x (enc_signed x (enc_publish x) (sp_object e))))"
    "jget (JObj m) ''deleted'' = Some (bool_value (sp_deleted e))"
    "jget (JObj m) ''hidden'' = Some (bool_value (sp_hidden e))"
    "jget (JObj m) ''deleted_at'' = Some (firestore_optional_timestamp x (sp_deleted_at e))"
    "jget (JObj m) ''hidden_at'' = Some (firestore_optional_timestamp x (sp_hidden_at e))"
    "jget (JObj m) ''restored_at'' = Some (firestore_optional_timestamp x (sp_restored_at e))"
    "jget (JObj m) ''hide_reason'' = Some (firestore_optional_string (sp_hide_reason e))"
    "jget (JObj m) ''hidden_by_principal'' = Some (firestore_optional_string (sp_hidden_by_principal e))"
    "jget (JObj m) ''hidden_by_hash'' = Some (firestore_optional_string (sp_hidden_by_hash e))"
    "jget (JObj m) ''restore_reason'' = Some (firestore_optional_string (sp_restore_reason e))"
    "jget (JObj m) ''restored_by_principal'' = Some (firestore_optional_string (sp_restored_by_principal e))"
    "jget (JObj m) ''restored_by_hash'' = Some (firestore_optional_string (sp_restored_by_hash e))"
proof -
  define kvs where "kvs = [
           (''id'', string_value (sp_id e)), (''peer_id'', string_value (peer_str (sp_peer e))),
           (''public_key'', string_value (prp_public_key (obj_payload (sp_object e)))),
           (''created_at'', timestamp_value x (sp_created e)),
           (''updated_at'', timestamp_value x (prp_updated_at (obj_payload (sp_object e)))),
           (''tags'', firestore_string_array (sp_tags e)),
           (''deleted'', bool_value (sp_deleted e)), (''hidden'', bool_value (sp_hidden e)),
           (''deleted_at'', firestore_optional_timestamp x (sp_deleted_at e)),
           (''hidden_at'', firestore_optional_timestamp x (sp_hidden_at e)),
           (''hide_reason'', firestore_optional_string (sp_hide_reason e)),
           (''hidden_by_principal'', firestore_optional_string (sp_hidden_by_principal e)),
           (''hidden_by_hash'', firestore_optional_string (sp_hidden_by_hash e)),
           (''restored_at'', firestore_optional_timestamp x (sp_restored_at e)),
           (''restore_reason'', firestore_optional_string (sp_restore_reason e)),
           (''restored_by_principal'', firestore_optional_string (sp_restored_by_principal e)),
           (''restored_by_hash'', firestore_optional_string (sp_restored_by_hash e)),
           (''object_json'', string_value (json_text x (enc_signed x (enc_publish x) (sp_object e))))]"
  have d: "firestore_document_from_record x name e = obj [(''name'', JStr name), (''fields'', obj kvs)]"
    by (simp add: firestore_document_from_record_def Let_def kvs_def)
  have g: "jget (JObj (bt_collect kvs)) k = map_of (rev kvs) k" for k
    using jget_obj [of kvs k] by (simp add: obj_def)
  show thesis
    by (rule that [of "bt_collect kvs"]; (simp only: d obj_def [of kvs] g)?; simp add: kvs_def)
qed

lemma record_reads_back:
  assumes laws: "rfc3339_law x" "json_law x" and ok: "record_storable e"
  shows "stored_record_from_firestore_document x (firestore_document_from_record x name e) = Ok (record_millis e)"
proof -
  obtain m where m: "firestore_document_from_record x name e = obj [(''name'', JStr name), (''fields'', JObj m)]"
    "jget (JObj m) ''object_json'' = Some (string_value (json_text x (enc_signed x (enc_publish x) (sp_object e))))"
    "jget (JObj m) ''deleted'' = Some (bool_value (sp_deleted e))"
    "jget (JObj m) ''hidden'' = Some (bool_value (sp_hidden e))"
    "jget (JObj m) ''deleted_at'' = Some (firestore_optional_timestamp x (sp_deleted_at e))"
    "jget (JObj m) ''hidden_at'' = Some (firestore_optional_timestamp x (sp_hidden_at e))"
    "jget (JObj m) ''restored_at'' = Some (firestore_optional_timestamp x (sp_restored_at e))"
    "jget (JObj m) ''hide_reason'' = Some (firestore_optional_string (sp_hide_reason e))"
    "jget (JObj m) ''hidden_by_principal'' = Some (firestore_optional_string (sp_hidden_by_principal e))"
    "jget (JObj m) ''hidden_by_hash'' = Some (firestore_optional_string (sp_hidden_by_hash e))"
    "jget (JObj m) ''restore_reason'' = Some (firestore_optional_string (sp_restore_reason e))"
    "jget (JObj m) ''restored_by_principal'' = Some (firestore_optional_string (sp_restored_by_principal e))"
    "jget (JObj m) ''restored_by_hash'' = Some (firestore_optional_string (sp_restored_by_hash e))"
    by (rule record_fields)
  have t: "\<forall>u. sp_deleted_at e = Some u \<longrightarrow> four_digit_year u" "\<forall>u. sp_hidden_at e = Some u \<longrightarrow> four_digit_year u"
      "\<forall>u. sp_restored_at e = Some u \<longrightarrow> four_digit_year u"
    using ok by (auto simp: record_storable_def)
  have j: "from_json x (dec_signed x (dec_publish x)) (json_text x (enc_signed x (enc_publish x) (sp_object e))) = Ok (sp_object e)"
    using publish_codec.from_json_signed [OF laws] ok by (simp add: record_storable_def)
  have d: "document_fields c (obj [(''name'', JStr name), (''fields'', JObj m)]) = Ok (JObj m)" for c
    by (rule document_fields_Some) (simp add: jget_obj)
  show ?thesis
    unfolding stored_record_from_firestore_document_def m(1) d
    by (simp only: and_then_simps map_err_simps Let_def option.case j string_field_written [OF m(2)] bool_field_written [OF m(3)] bool_field_written [OF m(4)]
        optional_timestamp_written [OF laws(1) t(1) m(5)] optional_timestamp_written [OF laws(1) t(2) m(6)]
        optional_timestamp_written [OF laws(1) t(3) m(7)] optional_string_written [OF m(8)]
        optional_string_written [OF m(9)] optional_string_written [OF m(10)] optional_string_written [OF m(11)]
        optional_string_written [OF m(12)] optional_string_written [OF m(13)])
      (simp add: record_millis_def)
qed

section \<open>Messages and buckets read back\<close>

lemma from_json_all:
  assumes "json_law x" "\<And>a. a \<in> set as \<Longrightarrow> d (f a) = Some a \<and> json_plain 126 (f a)"
  shows "from_json x (dec_list d) (json_text x (JArr (map f as))) = Ok as"
proof -
  have "json_plain (Suc 126) (JArr (map f as))" unfolding json_plain.simps using assms(2) by (simp add: list_all_iff)
  then have "json_read x (json_text x (JArr (map f as))) = Ok (JArr (map f as))"
    using json_read_text [OF assms(1)] by simp
  then show ?thesis using assms(2) by (simp add: from_json_def serde)
qed

definition message_stored :: "stored_message \<Rightarrow> bool" where
  "message_stored e \<longleftrightarrow> message_codec.object_storable (sm_object e) \<and> four_digit_year (sm_stored_at e)"

lemma message_reads_back:
  assumes laws: "rfc3339_law x" "json_law x" and ok: "message_stored e"
  shows "stored_message_from_firestore_document x (firestore_document_from_message x name e) = Ok (message_millis e)"
proof -
  let ?kvs = "[(''id'', string_value (sm_id e)), (''sender'', string_value (peer_str (mep_sender (sm_payload e)))),
     (''recipient'', string_value (peer_str (mep_recipient (sm_payload e)))),
     (''created_at'', timestamp_value x (sm_created e)),
     (''expires_at'', timestamp_value x (mep_expires_at (sm_payload e))),
     (''stored_at'', timestamp_value x (sm_stored_at e)),
     (''object_json'', string_value (json_text x (enc_signed x (enc_message x) (sm_object e))))]"
  have d: "firestore_document_from_message x name e = obj [(''name'', JStr name), (''fields'', obj ?kvs)]"
    by (simp add: firestore_document_from_message_def Let_def)
  have f: "document_fields c (obj [(''name'', JStr name), (''fields'', obj ?kvs)]) = Ok (obj ?kvs)" for c
    using document_fields_Some [OF fields_written(1) [of name ?kvs, unfolded obj_def [of ?kvs]]] unfolding obj_def [of ?kvs] .
  have g: "jget (obj ?kvs) ''object_json'' = Some (string_value (json_text x (enc_signed x (enc_message x) (sm_object e))))"
    "jget (obj ?kvs) ''stored_at'' = Some (timestamp_value x (sm_stored_at e))"
    by (simp_all add: jget_obj)
  have j: "from_json x (dec_signed x (dec_message x)) (json_text x (enc_signed x (enc_message x) (sm_object e))) = Ok (sm_object e)"
    and t: "four_digit_year (sm_stored_at e)"
    using message_codec.from_json_signed [OF laws] ok by (simp_all add: message_stored_def)
  show ?thesis
    unfolding stored_message_from_firestore_document_def d f
    by (simp only: and_then_simps map_err_simps option.case j string_field_written [OF g(1)]
        timestamp_written [OF laws(1) t g(2)]) (simp add: message_millis_def)
qed

definition generation_storable :: "hosted_generation \<Rightarrow> bool" where
  "generation_storable g \<longleftrightarrow> four_digit_year (hg_created_at g) \<and> hg_size_bytes g \<le> usize_max \<and>
     value_of (hg_backup g) = hg_backup g \<and> json_plain 125 (hg_backup g)"

definition bucket_storable :: "hosted_bucket \<Rightarrow> bool" where
  "bucket_storable b \<longleftrightarrow> four_digit_year (hb_created_at b) \<and> four_digit_year (hb_updated_at b) \<and>
     (\<forall>g \<in> set (hb_generations b). generation_storable g)"

lemma generation_reads_back:
  assumes "rfc3339_law x" "generation_storable g"
  shows "dec_generation x (enc_generation x g) = Some g" "json_plain 126 (enc_generation x g)"
proof -
  show "dec_generation x (enc_generation x g) = Some g"
    using assms by (simp add: dec_generation_def enc_generation_def generation_storable_def struct_fields_JObj
        field_defs serde)
  have "hg_size_bytes g < 2 ^ 64" using assms(2) by (simp add: generation_storable_def usize_max_def)
  then have "json_plain (Suc 125) (enc_generation x g)"
    using assms(2) unfolding enc_generation_def by (intro json_plain_JObj) (auto simp: generation_storable_def)
  then show "json_plain 126 (enc_generation x g)" by simp
qed

lemma backup_reads_back:
  assumes laws: "rfc3339_law x" "json_law x" and ok: "bucket_storable b"
  shows "stored_backup_bucket_from_firestore_document x (firestore_document_from_backup_bucket x name b) = Ok (backup_millis b)"
proof -
  let ?kvs = "[(''lookup_id'', string_value (hb_lookup_id b)), (''auth_hash'', string_value (hb_auth_hash b)),
        (''created_at'', timestamp_value x (hb_created_at b)), (''updated_at'', timestamp_value x (hb_updated_at b)),
        (''generation_count'', integer_value (length (hb_generations b))),
        (''generations_json'', string_value (json_text x (JArr (map (enc_generation x) (hb_generations b)))))]"
  have d: "firestore_document_from_backup_bucket x name b = obj [(''name'', JStr name), (''fields'', obj ?kvs)]"
    by (simp add: firestore_document_from_backup_bucket_def)
  have f: "document_fields c (obj [(''name'', JStr name), (''fields'', obj ?kvs)]) = Ok (obj ?kvs)" for c
    using document_fields_Some [OF fields_written(1) [of name ?kvs, unfolded obj_def [of ?kvs]]] unfolding obj_def [of ?kvs] .
  have g: "jget (obj ?kvs) ''lookup_id'' = Some (string_value (hb_lookup_id b))"
    "jget (obj ?kvs) ''auth_hash'' = Some (string_value (hb_auth_hash b))"
    "jget (obj ?kvs) ''generations_json'' = Some (string_value (json_text x (JArr (map (enc_generation x) (hb_generations b)))))"
    "jget (obj ?kvs) ''created_at'' = Some (timestamp_value x (hb_created_at b))"
    "jget (obj ?kvs) ''updated_at'' = Some (timestamp_value x (hb_updated_at b))"
    by (simp_all add: jget_obj)
  have j: "from_json x (dec_list (dec_generation x)) (json_text x (JArr (map (enc_generation x) (hb_generations b)))) = Ok (hb_generations b)"
    using generation_reads_back [OF laws(1)] ok by (intro from_json_all [OF laws(2)]) (simp add: bucket_storable_def)
  have t: "four_digit_year (hb_created_at b)" "four_digit_year (hb_updated_at b)"
    using ok by (simp_all add: bucket_storable_def)
  show ?thesis
    unfolding stored_backup_bucket_from_firestore_document_def d f
    by (simp only: and_then_simps map_err_simps ok_or_simps j string_field_written [OF g(1)]
        string_field_written [OF g(2)] string_field_written [OF g(3)]
        timestamp_written [OF laws(1) t(1) g(4)] timestamp_written [OF laws(1) t(2) g(5)])
      (simp add: backup_millis_def)
qed

definition event_storable :: "stored_activity_event \<Rightarrow> bool" where
  "event_storable e \<longleftrightarrow> four_digit_year (sae_stored_at e) \<and> sae_size_bytes e \<le> usize_max \<and>
     ae_version (sae_event e) \<le> u8_max \<and> four_digit_year (ae_created_at (sae_event e)) \<and>
     four_digit_year (ae_expires_at (sae_event e))"

definition activity_storable :: "activity_bucket \<Rightarrow> bool" where
  "activity_storable b \<longleftrightarrow> four_digit_year (ab_created_at b) \<and> four_digit_year (ab_updated_at b) \<and>
     (\<forall>e \<in> set (ab_events b). event_storable e)"

lemma event_reads_back:
  assumes "rfc3339_law x" "event_storable e"
  shows "dec_stored_event x (enc_stored_event x e) = Some e" "json_plain 126 (enc_stored_event x e)"
proof -
  have ok: "four_digit_year (sae_stored_at e)" "sae_size_bytes e \<le> usize_max" "ae_version (sae_event e) \<le> u8_max"
    and ev: "dec_activity_event x (enc_activity_event x (sae_event e)) = Some (sae_event e)"
    using assms dec_enc_activity_event by (simp_all add: event_storable_def)
  show "dec_stored_event x (enc_stored_event x e) = Some e"
    using assms(1) ok ev by (simp add: dec_stored_event_def enc_stored_event_def struct_fields_JObj field_defs serde
        del: dec_enc_activity_event)
  have n: "sae_size_bytes e < 2 ^ 64" using ok(2) by (simp add: usize_max_def)
  have "json_plain (Suc (Suc 0)) (enc_activity_event x (sae_event e))"
    using ok(3) by (simp add: enc_activity_event_def u8_max_def)
  then have "json_plain 125 (enc_activity_event x (sae_event e))" by (rule json_plain_mono) simp
  with n have "json_plain (Suc 125) (enc_stored_event x e)"
    unfolding enc_stored_event_def json_plain.simps by simp
  then show "json_plain 126 (enc_stored_event x e)" by simp
qed

lemma activity_reads_back:
  assumes laws: "rfc3339_law x" "json_law x" and ok: "activity_storable b"
  shows "stored_activity_bucket_from_firestore_document x (firestore_document_from_activity_bucket x name b) = Ok (activity_millis b)"
proof -
  let ?kvs = "[(''bucket_id'', string_value (ab_bucket_id b)), (''auth_hash'', string_value (ab_auth_hash b)),
        (''created_at'', timestamp_value x (ab_created_at b)), (''updated_at'', timestamp_value x (ab_updated_at b)),
        (''event_count'', integer_value (length (ab_events b))),
        (''events_json'', string_value (json_text x (JArr (map (enc_stored_event x) (ab_events b)))))]"
  have d: "firestore_document_from_activity_bucket x name b = obj [(''name'', JStr name), (''fields'', obj ?kvs)]"
    by (simp add: firestore_document_from_activity_bucket_def)
  have f: "document_fields c (obj [(''name'', JStr name), (''fields'', obj ?kvs)]) = Ok (obj ?kvs)" for c
    using document_fields_Some [OF fields_written(1) [of name ?kvs, unfolded obj_def [of ?kvs]]] unfolding obj_def [of ?kvs] .
  have g: "jget (obj ?kvs) ''bucket_id'' = Some (string_value (ab_bucket_id b))"
    "jget (obj ?kvs) ''auth_hash'' = Some (string_value (ab_auth_hash b))"
    "jget (obj ?kvs) ''events_json'' = Some (string_value (json_text x (JArr (map (enc_stored_event x) (ab_events b)))))"
    "jget (obj ?kvs) ''created_at'' = Some (timestamp_value x (ab_created_at b))"
    "jget (obj ?kvs) ''updated_at'' = Some (timestamp_value x (ab_updated_at b))"
    by (simp_all add: jget_obj)
  have j: "from_json x (dec_list (dec_stored_event x)) (json_text x (JArr (map (enc_stored_event x) (ab_events b)))) = Ok (ab_events b)"
    using event_reads_back [OF laws(1)] ok by (intro from_json_all [OF laws(2)]) (simp add: activity_storable_def)
  have t: "four_digit_year (ab_created_at b)" "four_digit_year (ab_updated_at b)"
    using ok by (simp_all add: activity_storable_def)
  show ?thesis
    unfolding stored_activity_bucket_from_firestore_document_def d f
    by (simp only: and_then_simps map_err_simps ok_or_simps j string_field_written [OF g(1)]
        string_field_written [OF g(2)] string_field_written [OF g(3)]
        timestamp_written [OF laws(1) t(1) g(4)] timestamp_written [OF laws(1) t(2) g(5)])
      (simp add: activity_millis_def)
qed

end
