(* ===== verification/Firestore_Service.thy ===== *)
theory Firestore_Service
  imports Firestore_Laws
begin

text \<open>
  What Firestore promises, as far as the stores rely on it, and what follows for them: an update that
  commits has changed the document that it read, and one that fails has changed it as it meant to or
  not at all. \<open>docs\<close> says which documents there are in a state of the world, each with its fields and its
  update time.
\<close>

section \<open>The promises\<close>

type_synonym documents = "string \<Rightarrow> (json \<times> string) option"

definition succeeded :: "fs_answer \<Rightarrow> bool" where
  "succeeded a \<longleftrightarrow> (case a of Answered status text \<Rightarrow> 200 \<le> status \<and> status \<le> 299 | _ \<Rightarrow> False)"

text \<open>Nothing but a commit changes a document.\<close>

definition only_commits_change :: "'n fs_env \<Rightarrow> firestore_config \<Rightarrow> ('n \<Rightarrow> documents) \<Rightarrow> bool" where
  "only_commits_change env cfg docs \<longleftrightarrow>
     (\<forall>n. docs (snd (fe_clock env n)) = docs n) \<and>
     (\<forall>r n. fr_method r \<noteq> ''POST'' \<or> fr_url r \<noteq> commit_url cfg \<longrightarrow> docs (snd (fe_exchange env r n)) = docs n)"

text \<open>A successful read gives the document and its update time; one that does not exist is answered 404.\<close>

definition reads_documents :: "'n fs_env \<Rightarrow> firestore_config \<Rightarrow> ('n \<Rightarrow> documents) \<Rightarrow> bool" where
  "reads_documents env cfg docs \<longleftrightarrow> (\<forall>name hs n a.
     a = fst (fe_exchange env \<lparr>fr_method = ''GET'', fr_url = document_url cfg name, fr_headers = hs, fr_body = None\<rparr> n) \<longrightarrow>
     (case docs n name of
        None \<Rightarrow> \<not> succeeded a
      | Some (F, u) \<Rightarrow> answer_status a \<noteq> Some 404 \<and>
          (\<forall>status text. a = Answered status text \<longrightarrow> succeeded a \<longrightarrow>
             (\<exists>v G. json_read (fe_crates env) text = Ok v \<and> jget (value_of v) ''fields'' = Some G \<and>
                same_fields (fe_crates env) F G \<and> jget (value_of v) ''updateTime'' = Some (JStr u)))))"

text \<open>A commit is atomic, and is done only if its precondition holds; a failure may hide one that was done.\<close>

definition precondition_holds :: "firestore_precondition \<Rightarrow> (json \<times> string) option \<Rightarrow> bool" where
  "precondition_holds p document =
     (case p of MissingDocument \<Rightarrow> document = None | UpdateTime u \<Rightarrow> map_option snd document = Some u)"

definition commits_documents :: "'n fs_env \<Rightarrow> firestore_config \<Rightarrow> ('n \<Rightarrow> documents) \<Rightarrow> bool" where
  "commits_documents env cfg docs \<longleftrightarrow> (\<forall>document name F p hs n a n'.
     jget document ''name'' = Some (JStr name) \<longrightarrow> jget document ''fields'' = Some F \<longrightarrow>
     json_plain 127 (commit_body document p) \<longrightarrow>
     fe_exchange env \<lparr>fr_method = ''POST'', fr_url = commit_url cfg, fr_headers = hs,
        fr_body = Some (json_text (fe_crates env) (commit_body document p))\<rparr> n = (a, n') \<longrightarrow>
     docs n' = docs n \<and> \<not> succeeded a \<or>
     precondition_holds p (docs n name) \<and> (\<exists>u. docs n' = (docs n)(name \<mapsto> (F, u))))"

definition firestore_law :: "'n fs_env \<Rightarrow> firestore_config \<Rightarrow> ('n \<Rightarrow> documents) \<Rightarrow> bool" where
  "firestore_law env cfg docs \<longleftrightarrow>
     only_commits_change env cfg docs \<and> reads_documents env cfg docs \<and> commits_documents env cfg docs"

section \<open>Steps that change no document\<close>

definition quiet :: "('n \<Rightarrow> documents) \<Rightarrow> ('n firestore, 'a) step \<Rightarrow> bool" where
  "quiet docs m \<longleftrightarrow> (\<forall>s r s'. m s = (r, s') \<longrightarrow> docs (fs_net s') = docs (fs_net s) \<and> fs_config s' = fs_config s)"

lemma quietD: "quiet docs m \<Longrightarrow> m s = (r, s') \<Longrightarrow> docs (fs_net s') = docs (fs_net s) \<and> fs_config s' = fs_config s"
  by (simp add: quiet_def)

lemma quiet_simple [simp]: "quiet docs (give a)" "quiet docs (fail e)" "quiet docs (check r)"
  by (simp_all add: quiet_def give_def fail_def)

lemma quiet_then_do: "quiet docs m \<Longrightarrow> (\<And>a. quiet docs (f a)) \<Longrightarrow> quiet docs (then_do m f)"
  unfolding quiet_def then_do_def by (fastforce split: prod.splits sum.splits)

lemma quiet_clock: "only_commits_change env cfg docs \<Longrightarrow> quiet docs (look_at_clock env)"
  by (auto simp: quiet_def look_at_clock_def only_commits_change_def Let_def split: prod.splits) (metis snd_conv)+

lemma quiet_send:
  assumes "only_commits_change env cfg docs" "fr_method r \<noteq> ''POST'' \<or> fr_url r \<noteq> commit_url cfg"
  shows "quiet docs (send_request env r)"
proof -
  have "docs (snd (fe_exchange env r n)) = docs n" for n using assms by (simp add: only_commits_change_def)
  then show ?thesis by (auto simp: quiet_def send_request_def Let_def split: prod.splits) (metis snd_conv)+
qed

lemma quiet_state: "(\<And>s. fs_net (g s) = fs_net s \<and> fs_config (g s) = fs_config s) \<Longrightarrow> quiet docs (\<lambda>s. give a (g s))"
  by (simp add: quiet_def)

lemma quiet_log: "only_commits_change env cfg docs \<Longrightarrow> quiet docs (log_exchange env op out st t0)"
  unfolding log_exchange_def by (intro quiet_then_do quiet_clock quiet_state) simp_all

lemma quiet_answer: "only_commits_change env cfg docs \<Longrightarrow> quiet docs (read_answer env op t0 a)"
  unfolding read_answer_def by (cases a) (auto intro!: quiet_then_do quiet_log)

lemma quiet_renew: "only_commits_change env cfg docs \<Longrightarrow> quiet docs (renew_access_token env)"
  unfolding renew_access_token_def fetch_access_token_def
  by (intro quiet_then_do quiet_clock quiet_state quiet_send) (auto split: fs_answer.split)

lemma quiet_authorize: "only_commits_change env cfg docs \<Longrightarrow> quiet docs (authorize env)"
proof -
  assume o: "only_commits_change env cfg docs"
  have "quiet docs (metadata_access_token env)"
    unfolding metadata_access_token_def
    by (intro quiet_then_do quiet_clock [OF o])
      (use quiet_renew [OF o] in \<open>auto simp: quiet_def split: option.splits if_splits\<close>)
  then have "quiet docs (then_do (metadata_access_token env) (\<lambda>token. give [(''Authorization'', ''Bearer '' @ token)]))"
    by (rule quiet_then_do) simp
  then show ?thesis
    by (auto simp: quiet_def authorize_def split: firestore_auth.splits)
qed

section \<open>What a read finds and a commit does\<close>

lemma read_answer_Ok:
  assumes "read_answer env op t0 a s = (Ok v, s')"
  shows "succeeded a \<and> (\<exists>status text w. a = Answered status text \<and> json_read (fe_crates env) text = Ok w \<and> v = value_of w)"
  using assms
  by (auto simp: read_answer_def succeeded_def then_do_Ok map_ok_Ok_iff map_err_Ok_iff eq_commute [of "Ok v"]
      split: fs_answer.splits if_splits)

abbreviation get_request :: "firestore_config \<Rightarrow> string \<Rightarrow> (string \<times> string) list \<Rightarrow> fs_request" where
  "get_request cfg name hs \<equiv>
     \<lparr>fr_method = ''GET'', fr_url = document_url cfg name, fr_headers = hs, fr_body = None\<rparr>"

lemma get_json_Ok:
  fixes docs :: "'n \<Rightarrow> documents"
  assumes o: "only_commits_change env (fs_config s) docs"
    and run: "get_json env (document_url (fs_config s) name) op s = (Ok d, s')"
  obtains t0 hs a s3 and s2 :: "'n firestore" where "docs (fs_net s2) = docs (fs_net s)"
    "a = fst (fe_exchange env (get_request (fs_config s) name hs) (fs_net s2))"
    "answer_status a = Some 404 \<longrightarrow> d = None"
    "answer_status a \<noteq> Some 404 \<longrightarrow> (\<exists>v s4. d = Some v \<and> read_answer env op t0 a s3 = (Ok v, s4))"
proof -
  from run [unfolded get_json_def] obtain t0 s1 hs s2 a s3 where
    1: "look_at_clock env s = (Ok t0, s1)" and 2: "authorize env s1 = (Ok hs, s2)"
    and 3: "send_request env (get_request (fs_config s) name hs) s2 = (Ok a, s3)"
    and 4: "(if answer_status a = Some 404 then give None
             else then_do (read_answer env op t0 a) (\<lambda>v. give (Some v))) s3 = (Ok d, s')"
    unfolding then_do_Ok by blast
  have "docs (fs_net s2) = docs (fs_net s)"
    using quietD [OF quiet_clock [OF o] 1] quietD [OF quiet_authorize [OF o] 2] by simp
  moreover have "a = fst (fe_exchange env (get_request (fs_config s) name hs) (fs_net s2))"
    using 3 by (auto simp: send_request_def Let_def split: prod.splits)
  moreover have "answer_status a = Some 404 \<longrightarrow> d = None" using 4 by (auto split: if_splits)
  moreover have "answer_status a \<noteq> Some 404 \<longrightarrow> (\<exists>v s4. d = Some v \<and> read_answer env op t0 a s3 = (Ok v, s4))"
    using 4 by (auto simp: then_do_Ok split: if_splits)
  ultimately show thesis by (rule that)
qed

lemma quiet_get: "only_commits_change env cfg docs \<Longrightarrow> quiet docs (get_json env url op)"
  unfolding get_json_def
  by (intro quiet_then_do quiet_clock quiet_authorize quiet_send)
    (auto intro!: quiet_then_do quiet_answer)

lemma get_json_quiet:
  assumes "firestore_law env (fs_config s) docs" "get_json env url op s = (r, s')"
  shows "docs (fs_net s') = docs (fs_net s) \<and> fs_config s' = fs_config s"
proof -
  have "only_commits_change env (fs_config s) docs" using assms(1) by (simp add: firestore_law_def)
  from quietD [OF quiet_get [OF this] assms(2)] show ?thesis .
qed

lemma quiet_document:
  assumes "firestore_law env cfg docs"
  shows "quiet docs (get_document env missing decode name)"
proof -
  have o: "only_commits_change env cfg docs" using assms by (simp add: firestore_law_def)
  have "quiet docs (\<lambda>s. then_do (get_json env (document_url (fs_config t) name) ''firestore.get_document'') (\<lambda>document.
       case document of
         None \<Rightarrow> give None
       | Some document \<Rightarrow>
           then_do (check (ok_or missing (Option.bind (jget document ''updateTime'') as_str))) (\<lambda>update_time.
           then_do (check (decode document)) (\<lambda>a. give (Some (a, update_time))))) s)" for t
    by (intro quiet_then_do quiet_get [OF o]) (auto split: option.split intro!: quiet_then_do)
  then show ?thesis unfolding quiet_def get_document_def by blast
qed

lemma get_json_result:
  fixes docs :: "'n \<Rightarrow> documents"
  assumes law: "firestore_law env (fs_config s) docs"
    and run: "get_json env (document_url (fs_config s) name) op s = (Ok d, s')"
  shows "case d of None \<Rightarrow> docs (fs_net s) name = None
    | Some v \<Rightarrow> \<exists>F u G. docs (fs_net s) name = Some (F, u) \<and> jget v ''fields'' = Some G \<and>
        same_fields (fe_crates env) F G \<and> jget v ''updateTime'' = Some (JStr u)"
proof -
  have o: "only_commits_change env (fs_config s) docs" and rd: "reads_documents env (fs_config s) docs"
    using law by (simp_all add: firestore_law_def)
  obtain t0 hs a s3 and s2 :: "'n firestore" where a: "docs (fs_net s2) = docs (fs_net s)"
      "a = fst (fe_exchange env (get_request (fs_config s) name hs) (fs_net s2))"
    and n: "answer_status a = Some 404 \<longrightarrow> d = None"
    and v: "answer_status a \<noteq> Some 404 \<longrightarrow> (\<exists>v s4. d = Some v \<and> read_answer env op t0 a s3 = (Ok v, s4))"
    by (rule get_json_Ok [OF o run])
  note r = rd [unfolded reads_documents_def, rule_format, OF a(2), unfolded a(1)]
  show ?thesis
  proof (cases "docs (fs_net s) name")
    case None
    with r have "\<not> succeeded a" by simp
    with v read_answer_Ok have "answer_status a = Some 404" by blast
    with n None show ?thesis by simp
  next
    case (Some Fu)
    obtain F u where Fu: "Fu = (F, u)" by (cases Fu)
    with r Some have "answer_status a \<noteq> Some 404" by simp
    with v obtain w s4 where w: "d = Some w" "read_answer env op t0 a s3 = (Ok w, s4)" by blast
    from read_answer_Ok [OF w(2)] obtain status t y where
      "succeeded a" "a = Answered status t" "json_read (fe_crates env) t = Ok y" "w = value_of y" by blast
    with r Some Fu w(1) show ?thesis by auto
  qed
qed

lemma commit_result:
  assumes law: "firestore_law env (fs_config s) docs"
    and doc: "jget document ''name'' = Some (JStr name)" "jget document ''fields'' = Some F"
      "json_plain 127 (commit_body document p)"
    and run: "commit_document env document p s = (r, s')"
  shows "fs_config s' = fs_config s"
    "docs (fs_net s') = docs (fs_net s) \<and> (\<exists>e. r = Err e) \<or>
     precondition_holds p (docs (fs_net s) name) \<and> (\<exists>u. docs (fs_net s') = (docs (fs_net s))(name \<mapsto> (F, u)))"
proof -
  have o: "only_commits_change env (fs_config s) docs" and cm: "commits_documents env (fs_config s) docs"
    using law by (simp_all add: firestore_law_def)
  let ?post = "\<lambda>hs. \<lparr>fr_method = ''POST'', fr_url = commit_url (fs_config s), fr_headers = hs,
     fr_body = Some (json_text (fe_crates env) (commit_body document p))\<rparr>"
  obtain t0 s1 where 1: "look_at_clock env s = (Ok t0, s1)"
    by (cases "fe_clock env (fs_net s)") (simp add: look_at_clock_def)
  note q1 = quietD [OF quiet_clock [OF o] 1]
  obtain h s2 where 2: "authorize env s1 = (h, s2)" by fastforce
  note q2 = quietD [OF quiet_authorize [OF o] 2]
  have "fs_config s' = fs_config s \<and> (docs (fs_net s') = docs (fs_net s) \<and> (\<exists>e. r = Err e) \<or>
     precondition_holds p (docs (fs_net s) name) \<and> (\<exists>u. docs (fs_net s') = (docs (fs_net s))(name \<mapsto> (F, u))))"
  proof (cases h)
    case (Inl e)
    with run 1 2 have "s' = s2" "r = Err e" by (simp_all add: commit_document_def post_json_def then_do_def)
    with q1 q2 show ?thesis by simp
  next
    case (Inr hs)
    obtain a n3 where 3: "fe_exchange env (?post hs) (fs_net s2) = (a, n3)" by fastforce
    let ?s3 = "s2\<lparr>fs_net := n3\<rparr>"
    obtain r4 s4 where 4: "read_answer env ''firestore.commit'' t0 a ?s3 = (r4, s4)" by fastforce
    have "s' = s4" "is_ok r \<longleftrightarrow> is_ok r4"
      using run 1 2 Inr 3 4
      by (auto simp: commit_document_def post_json_def then_do_def send_request_def is_ok_def give_def split: sum.splits)
    moreover have "is_ok r4 \<Longrightarrow> succeeded a" using 4 read_answer_Ok by (cases r4) fastforce+
    moreover note quietD [OF quiet_answer [OF o] 4]
      cm [unfolded commits_documents_def, rule_format, OF doc 3]
    ultimately show ?thesis using q1 q2 by (cases r) auto
  qed
  then show "fs_config s' = fs_config s"
    "docs (fs_net s') = docs (fs_net s) \<and> (\<exists>e. r = Err e) \<or>
     precondition_holds p (docs (fs_net s) name) \<and> (\<exists>u. docs (fs_net s') = (docs (fs_net s))(name \<mapsto> (F, u)))"
    by blast+
qed

section \<open>Documents of one kind\<close>

text \<open>What a document says to a reader of its kind.\<close>

definition content :: "(json \<Rightarrow> string + 'a) \<Rightarrow> documents \<Rightarrow> string \<Rightarrow> 'a option" where
  "content decode D name = (case D name of None \<Rightarrow> None | Some (F, u) \<Rightarrow> result_ok (decode (obj [(''fields'', F)])))"

lemma content_other [simp]: "k \<noteq> name \<Longrightarrow> content decode (D(name := d)) k = content decode D k"
  by (simp add: content_def)

text \<open>
  The codec of a kind of document: reading looks at the fields only, and what is written is decode
  back, in the form \<open>norm\<close> that the document keeps of it.
\<close>

locale document_codec =
  fixes x :: crates and decode :: "json \<Rightarrow> string + 'a" and encode :: "string \<Rightarrow> 'a \<Rightarrow> json"
    and norm :: "'a \<Rightarrow> 'a" and storable :: "'a \<Rightarrow> bool"
  assumes read_same: "jget d ''fields'' = Some F \<Longrightarrow> jget d' ''fields'' = Some G \<Longrightarrow> same_fields x F G \<Longrightarrow> decode d' = decode d"
    and written_fields: "\<exists>m. jget (encode name a) ''fields'' = Some (JObj m)"
    and written_name: "jget (encode name a) ''name'' = Some (JStr name)"
    and read_write: "rfc3339_law x \<Longrightarrow> json_law x \<Longrightarrow> storable a \<Longrightarrow> decode (encode name a) = Ok (norm a)"
    and plain: "json_plain 8 (encode name a)"
begin

lemma content_written:
  assumes "rfc3339_law x" "json_law x" "storable a" "jget (encode name a) ''fields'' = Some F"
  shows "content decode (D(name \<mapsto> (F, u))) name = Some (norm a)"
proof -
  obtain m where "F = JObj m" using written_fields [of name a] assms(4) by auto
  then have "same_fields x F F" by (rule same_fields_refl)
  with read_same [OF assms(4), of "obj [(''fields'', F)]" F]
  have "decode (obj [(''fields'', F)]) = decode (encode name a)" by (simp add: jget_obj)
  with read_write [OF assms(1-3)] show ?thesis by (simp add: content_def)
qed

lemma commit_plain: "json_plain 127 (commit_body (encode name a) p)"
proof -
  have p: "json_plain 8 (precondition_json p)"
    unfolding precondition_json_def
    by (cases p) (simp_all only: firestore_precondition.case, (rule json_plain_obj [of _ 7, simplified]; auto)+)
  have "json_plain 9 (obj [(''update'', encode name a), (''currentDocument'', precondition_json p)])"
    by (rule json_plain_obj [of _ 8, simplified]) (use plain p in auto)
  then have "json_plain (Suc 9) (JArr [obj [(''update'', encode name a), (''currentDocument'', precondition_json p)]])"
    unfolding json_plain.simps by simp
  then have "json_plain 11 (commit_body (encode name a) p)"
    unfolding commit_body_def by (intro json_plain_obj [of _ 10, simplified]) auto
  then show ?thesis by (rule json_plain_mono) simp
qed

lemma get_document_result:
  fixes docs :: "'n \<Rightarrow> documents"
  assumes law: "firestore_law env (fs_config s) docs" and env: "fe_crates env = x"
    and run: "get_document env missing decode name s = (Ok d, s')"
  shows "case d of None \<Rightarrow> docs (fs_net s) name = None
     | Some (e, u) \<Rightarrow> map_option snd (docs (fs_net s) name) = Some u \<and> content decode (docs (fs_net s)) name = Some e"
proof -
  from run [unfolded get_document_def then_do_Ok] obtain dj sj where
    j: "get_json env (document_url (fs_config s) name) ''firestore.get_document'' s = (Ok dj, sj)"
    and rest: "(case dj of None \<Rightarrow> give None
       | Some document \<Rightarrow> then_do (check (ok_or missing (Option.bind (jget document ''updateTime'') as_str)))
           (\<lambda>update_time. then_do (check (decode document)) (\<lambda>a. give (Some (a, update_time))))) sj = (Ok d, s')"
    by blast
  note found = get_json_result [OF law j]
  show ?thesis
  proof (cases dj)
    case None
    with rest found show ?thesis by simp
  next
    case (Some v)
    from rest [unfolded Some option.case then_do_Ok try_eq give_Ok]
    obtain e u where d: "d = Some (e, u)" and uo: "Ok u = ok_or missing (Option.bind (jget v ''updateTime'') as_str)"
      and e: "Ok e = decode v"
      by blast
    have u: "Option.bind (jget v ''updateTime'') as_str = Some u" using uo [symmetric] by (simp add: ok_or_Ok_iff)
    from found Some obtain F u' G where
      f: "docs (fs_net s) name = Some (F, u')" "jget v ''fields'' = Some G" "same_fields x F G" "jget v ''updateTime'' = Some (JStr u')"
      by (auto simp: env)
    have "jget (obj [(''fields'', F)]) ''fields'' = Some F" by (simp add: jget_obj)
    from read_same [OF this f(2,3)] have "decode v = decode (obj [(''fields'', F)])" .
    with d u e [symmetric] f show ?thesis by (simp add: content_def)
  qed
qed

lemma update_effect:
  fixes docs :: "'n \<Rightarrow> documents"
  assumes law: "firestore_law env (fs_config s) docs" and env: "fe_crates env = x" "rfc3339_law x" "json_law x"
    and ok: "\<forall>v a. change (content decode (docs (fs_net s)) name) = (v, Some a) \<longrightarrow> storable a"
    and run: "update_document env missing decode encode change name s = (r, s')"
  shows "fs_config s' = fs_config s" "k \<noteq> name \<Longrightarrow> docs (fs_net s') k = docs (fs_net s) k"
    "docs (fs_net s') = docs (fs_net s) \<and> (\<forall>v. r = Ok v \<longrightarrow> change (content decode (docs (fs_net s)) name) = (v, None)) \<or>
     (\<exists>v a. change (content decode (docs (fs_net s)) name) = (v, Some a) \<and> content decode (docs (fs_net s')) name = Some (norm a) \<and>
        (\<forall>w. r = Ok w \<longrightarrow> w = v))"
proof -
  let ?D = "docs (fs_net s)"
  obtain rg sg where g: "get_document env missing decode name s = (rg, sg)" by fastforce
  note gd = quietD [OF quiet_document [OF law] g]
  have "fs_config s' = fs_config s \<and> (k \<noteq> name \<longrightarrow> docs (fs_net s') k = ?D k) \<and>
    (docs (fs_net s') = ?D \<and> (\<forall>v. r = Ok v \<longrightarrow> change (content decode ?D name) = (v, None)) \<or>
     (\<exists>v a. change (content decode ?D name) = (v, Some a) \<and> content decode (docs (fs_net s')) name = Some (norm a) \<and> (\<forall>w. r = Ok w \<longrightarrow> w = v)))" for k
  proof (cases rg)
    case (Inl e)
    with run g have "s' = sg" "r = Err e" by (simp_all add: update_document_def then_do_def)
    with gd show ?thesis by simp
  next
    case (Inr existing)
    note got = get_document_result [OF law env(1) g [unfolded Inr]]
    have c: "map_option fst existing = content decode ?D name"
      using got by (cases existing) (auto simp: content_def)
    obtain v na where ch: "change (content decode ?D name) = (v, na)" by fastforce
    show ?thesis
    proof (cases na)
      case None
      with run g Inr ch c gd show ?thesis by (simp add: update_document_def then_do_def)
    next
      case (Some a)
      obtain F where F: "jget (encode name a) ''fields'' = Some F" using written_fields by blast
      obtain rc sc where cm: "commit_document env (encode name a) (precondition_of existing) sg = (rc, sc)" by fastforce
      have law': "firestore_law env (fs_config sg) docs" using law gd by simp
      have out: "(r, s') = (case rc of Inl e \<Rightarrow> (Err e, sc) | Inr _ \<Rightarrow> (Ok v, sc))"
        using run by (simp add: update_document_def then_do_def g Inr c ch Some cm give_def split: sum.splits)
      note cr = commit_result [OF law' written_name F commit_plain cm]
      from cr(2) consider "docs (fs_net sc) = docs (fs_net sg)" "\<exists>e. rc = Err e"
        | u where "docs (fs_net sc) = (docs (fs_net sg))(name \<mapsto> (F, u))" by blast
      then show ?thesis
      proof cases
        case 1
        then obtain e where "rc = Err e" by blast
        with out 1(1) cr(1) gd show ?thesis by simp
      next
        case 2
        have s': "s' = sc" "\<forall>w. r = Ok w \<longrightarrow> w = v" using out by (cases rc; simp)+
        have "content decode (docs (fs_net sc)) name = Some (norm a)"
          unfolding 2 by (rule content_written [OF env(2,3) ok [rule_format, OF ch [unfolded Some]] F])
        with 2 s' cr(1) gd ch Some show ?thesis by simp
      qed
    qed
  qed
  note all = this
  show "fs_config s' = fs_config s" by (rule conjunct1 [OF all])
  show "docs (fs_net s') k = ?D k" if "k \<noteq> name"
    using conjunct1 [OF conjunct2 [OF all [of k]]] that by (rule mp)
  show "docs (fs_net s') = ?D \<and> (\<forall>v. r = Ok v \<longrightarrow> change (content decode ?D name) = (v, None)) \<or>
     (\<exists>v a. change (content decode ?D name) = (v, Some a) \<and> content decode (docs (fs_net s')) name = Some (norm a) \<and> (\<forall>w. r = Ok w \<longrightarrow> w = v))"
    by (rule conjunct2 [OF conjunct2 [OF all]])
qed

end

end
