(* ===== verification/Publish_Props.thy ===== *)
theory Publish_Props
  imports Publish_Laws
begin

text \<open>
  The properties of the publish store over the operations themselves: refinement of the map, the
  finality of deletion, ownership, moderation, and what searches and discovery show.
\<close>

fun publish_run :: "(publish_op \<times> io_plan) list \<Rightarrow> stored_publish disk \<Rightarrow> stored_publish disk" where
  "publish_run [] d = d"
| "publish_run ((a, io) # ops) d = publish_run ops (publish_step a io d)"

lemma publish_run_eq: "publish_run ops d = file_publish.run ops d"
  by (induction ops d rule: publish_run.induct) simp_all

lemma publish_run_inv: "disk_inv publish_ok d \<Longrightarrow> disk_inv publish_ok (publish_run ops d)"
  unfolding publish_run_eq using file_publish.run_keeps [of d _ "\<lambda>_. True"] by auto

lemma publish_step_ok:
  assumes "load d = Ok rs"
  shows "\<exists>rs'. load (publish_step a io_ok d) = Ok rs' \<and>
    rs' = (case publish_records_step a rs of None \<Rightarrow> rs | Some rs' \<Rightarrow> rs')"
  using store_update_ok [OF assms, of "\<lambda>rs. ((), publish_records_step a rs)"] assms
  by (cases "publish_records_step a rs") (fastforce simp: publish_step_update)+

text \<open>
  C8. The publish store refines a map. Whatever the I/O does, an operation on a store with
  distinct ids leaves distinct ids, and its map is the one before or the one the specification asks
  for; when no I/O fails it is the latter.
\<close>

theorem publish_refines_map:
  assumes "disk_inv publish_ok d"
  shows "disk_inv publish_ok (publish_step a io d) \<and>
    publish_abs (publish_step a io d) \<in> {publish_abs d, spec_step a (publish_abs d)} \<and>
    (\<forall>rs. load d = Ok rs \<longrightarrow> publish_abs (publish_step a io_ok d) = spec_step a (publish_abs d))"
proof -
  have "publish_abs (publish_step a io_ok d) = spec_step a (publish_abs d)" if "load d = Ok rs" for rs
  proof -
    have "publish_ok rs" using assms that by (simp add: disk_inv_def)
    from records_step_spec [OF this, of a] publish_step_ok [OF that, of a] that
    show ?thesis by (auto simp: publish_abs_def)
  qed
  then show ?thesis
    using file_publish.inv_step [OF assms TrueI] file_publish.view_step [OF assms TrueI] by blast
qed

theorem publish_refines_map_witness:
  "publish_abs (publish_step (Delete 0 ''pub_1'' (PeerId ''peer_a'')) io_ok (empty_disk ''p''))
     = spec_step (Delete 0 ''pub_1'' (PeerId ''peer_a'')) (publish_abs (empty_disk ''p''))"
proof -
  have "disk_inv publish_ok (empty_disk ''p'')" by (simp add: publish_ok_def)
  moreover have "load (empty_disk ''p'') = Ok []" by simp
  ultimately show ?thesis using publish_refines_map by blast
qed

lemma publish_map_listed:
  assumes "publish_ok rs" "publish_map rs i = Some e" "\<not> sp_listed e"
  shows "i \<notin> sp_id ` set (filter sp_listed rs)"
proof
  assume "i \<in> sp_id ` set (filter sp_listed rs)"
  then obtain e' where e': "e' \<in> set rs" "sp_listed e'" "sp_id e' = i" by auto
  then have "publish_map rs i = Some e'"
    using distinct_keys_find [of sp_id rs e'] assms(1) by (simp add: publish_ok_def publish_map_def)
  with assms e' show False by simp
qed

lemma set_search_order:
  "set (search_order tag rs) = {e \<in> set rs. sp_listed e \<and> publish_record_matches_tag tag e}"
  by (auto simp: search_order_def)

lemma page_tail_records:
  "set (page_records (page_from_ordered_tail x xs limit seen)) \<subseteq> sp_object ` set xs"
  using set_take_subset [of _ xs]
  by (auto simp: page_from_ordered_tail_def Let_def dest!: in_set_takeD)

lemma search_shows:
  assumes "load d = Ok rs" "publish_search x q d = Ok page"
  shows "set (page_records page) \<subseteq> sp_object ` set (search_order (psr_tag q) rs)"
proof -
  obtain k seen where "page = page_from_ordered_tail x (drop k (search_order (psr_tag q) rs)) (psr_limit q) seen"
    using assms by (auto simp: publish_search_def paginate_ordered_publish_records_def Let_def)
  with page_tail_records [of x "drop k (search_order (psr_tag q) rs)" "psr_limit q" seen]
  show ?thesis by (auto dest: in_set_dropD)
qed

lemma discover_shows:
  assumes "load d = Ok rs" "publish_discover x q d = Ok records"
  shows "set records \<subseteq> sp_object ` {e \<in> set rs. sp_listed e \<and> discover_record_matches_tags (sp_object e) (pdr_tags q)}"
  using assms
  by (auto simp: publish_discover_def rank_discover_records_def discover_candidates_def dest!: in_set_takeD)

lemma unlisted_not_shown:
  assumes inv: "disk_inv publish_ok d" and e: "publish_abs d i = Some e" "\<not> sp_listed e"
  shows "publish_search x q d = Ok page \<Longrightarrow> i \<notin> obj_id ` set (page_records page)"
    and "publish_discover x q' d = Ok records \<Longrightarrow> i \<notin> obj_id ` set records"
proof -
  obtain rs where rs: "load d = Ok rs" "publish_map rs i = Some e"
    using e(1) by (auto simp: publish_abs_def split: sum.splits)
  have no: "i \<notin> sp_id ` set (filter sp_listed rs)"
    using publish_map_listed [OF _ rs(2) e(2)] inv rs(1) by (simp add: disk_inv_def)
  show "publish_search x q d = Ok page \<Longrightarrow> i \<notin> obj_id ` set (page_records page)"
    using search_shows [OF rs(1)] no by (fastforce simp: set_search_order)
  show "publish_discover x q' d = Ok records \<Longrightarrow> i \<notin> obj_id ` set records"
    using discover_shows [OF rs(1)] no by fastforce
qed

text \<open>
  An author's deletion is final: once a record is deleted, no sequence of uploads, deletions and
  moderation, with whatever I/O errors, changes anything of it, and no search and no discovery shows
  its id again.
\<close>

theorem publish_deletion_final:
  assumes "disk_inv publish_ok d" and "publish_abs d i = Some e" and "sp_deleted e"
  shows "publish_abs (publish_run ops d) i = Some e \<and>
    (\<forall>x q page. publish_search x q (publish_run ops d) = Ok page \<longrightarrow> i \<notin> obj_id ` set (page_records page)) \<and>
    (\<forall>x q records. publish_discover x q (publish_run ops d) = Ok records \<longrightarrow> i \<notin> obj_id ` set records)"
proof -
  have e: "publish_abs (publish_run ops d) i = Some e"
    unfolding publish_run_eq using file_publish.deletion_final [OF assms(1) _ assms(2,3)] by auto
  have "\<not> sp_listed e" using assms(3) by (simp add: sp_listed_def)
  from e unlisted_not_shown [OF publish_run_inv [OF assms(1)] e this] show ?thesis by blast
qed

definition sample_signed :: "string \<Rightarrow> string \<Rightarrow> datetime \<Rightarrow> publish_object" where
  "sample_signed i peer t =
     \<lparr>obj_protocol = PROTOCOL_ID, obj_type = ''publish.record'', obj_id = i, obj_created_at = t,
      obj_extensions = [],
      obj_payload = \<lparr>prp_peer_id = PeerId peer, prp_public_key = ''pk'', prp_tags = [''rust''],
        prp_contact_policy = ''open'', prp_capabilities = \<lparr>cap_message_encryption = []\<rparr>,
        prp_body = ''hi'', prp_updated_at = t\<rparr>,
      obj_signature = \<lparr>sig_alg = ED25519_ALG, sig_public_key = ''pk'', sig_value = ''s''\<rparr>\<rparr>"

definition sample_disk :: "stored_publish list \<Rightarrow> stored_publish disk" where
  "sample_disk rs = \<lparr>disk_path = ''p'', main_file = Content rs, temp_file = Missing\<rparr>"

lemma sample_disk_load [simp]: "load (sample_disk rs) = Ok rs"
  by (simp add: sample_disk_def load_def)

lemma sample_disk_one:
  "disk_inv publish_ok (sample_disk [e])" "publish_abs (sample_disk [e]) (sp_id e) = Some e"
  by (simp_all add: disk_inv_def publish_ok_def publish_abs_def publish_map_def)

theorem publish_deletion_final_witness:
  "let o1 = sample_signed ''pub_1'' ''peer_a'' 0; e = author_delete 5 (stored_visible o1) in
   publish_abs (publish_run [(Upload o1 (PeerId ''peer_a''), io_ok)] (sample_disk [e])) ''pub_1'' = Some e"
proof -
  let ?e = "author_delete 5 (stored_visible (sample_signed ''pub_1'' ''peer_a'' 0))"
  have "publish_abs (sample_disk [?e]) ''pub_1'' = Some ?e"
    using sample_disk_one(2) [of ?e] by (simp add: sample_signed_def)
  from publish_deletion_final [OF sample_disk_one(1) this, of "[(Upload (sample_signed ''pub_1'' ''peer_a'' 0) (PeerId ''peer_a''), io_ok)]"]
  show ?thesis unfolding Let_def by simp
qed

text \<open>
  Ownership: whatever operations follow, uploads of verified objects by any peer included, a
  record stays in the store with the peer it had; so an id once taken cannot be taken over.
\<close>

theorem publish_owner_kept:
  assumes "disk_inv publish_ok d" and "publish_abs d i = Some e"
    and "\<forall>(a, _) \<in> set ops. \<forall>ob p. a = Upload ob p \<longrightarrow> prp_peer_id (obj_payload ob) = p"
  shows "\<exists>e'. publish_abs (publish_run ops d) i = Some e' \<and> sp_peer e' = sp_peer e"
  unfolding publish_run_eq using file_publish.owner_kept [OF assms(1) _ assms(2,3)] by auto

theorem publish_owner_kept_witness:
  "let o1 = sample_signed ''pub_1'' ''peer_a'' 0; o2 = sample_signed ''pub_1'' ''peer_b'' 1 in
   \<exists>e'. publish_abs (publish_run [(Upload o2 (PeerId ''peer_b''), io_ok)]
      (sample_disk [stored_visible o1])) ''pub_1'' = Some e' \<and> sp_peer e' = PeerId ''peer_a''"
proof -
  let ?e = "stored_visible (sample_signed ''pub_1'' ''peer_a'' 0)"
    and ?o = "sample_signed ''pub_1'' ''peer_b'' 1"
  have "publish_abs (sample_disk [?e]) ''pub_1'' = Some ?e"
    using sample_disk_one(2) [of ?e] by (simp add: sample_signed_def)
  from publish_owner_kept [OF sample_disk_one(1) this, of "[(Upload ?o (PeerId ''peer_b''), io_ok)]"]
  show ?thesis by (simp add: Let_def sample_signed_def)
qed

text \<open>
  Moderation survives its target: while no administrator restores it, a hidden record stays
  hidden through any uploads of its owner, and no search and no discovery shows it.
\<close>

theorem publish_hidden_kept:
  assumes "disk_inv publish_ok d" and "publish_abs d i = Some e" and "sp_hidden e"
    and "\<forall>(a, _) \<in> set ops. \<forall>now r ad. a \<noteq> Restore now i r ad"
  shows "(\<exists>e'. publish_abs (publish_run ops d) i = Some e' \<and> sp_hidden e') \<and>
    (\<forall>x q page. publish_search x q (publish_run ops d) = Ok page \<longrightarrow> i \<notin> obj_id ` set (page_records page)) \<and>
    (\<forall>x q records. publish_discover x q (publish_run ops d) = Ok records \<longrightarrow> i \<notin> obj_id ` set records)"
proof -
  obtain e' where e': "publish_abs (publish_run ops d) i = Some e'" "sp_hidden e'"
    unfolding publish_run_eq using file_publish.hidden_kept [OF assms(1) _ assms(2-4)] by auto
  then have "\<not> sp_listed e'" by (simp add: sp_listed_def)
  from e' unlisted_not_shown [OF publish_run_inv [OF assms(1)] e'(1) this] show ?thesis by blast
qed

definition sample_admin :: admin_principal where
  "sample_admin = \<lparr>adm_principal = ''a'', adm_principal_hash = ''h'', adm_auth_provider = ''static_test''\<rparr>"

theorem publish_hidden_kept_witness:
  "let o1 = sample_signed ''pub_1'' ''peer_a'' 0; e = hide_record 5 ''spam'' sample_admin (stored_visible o1) in
   \<exists>e'. publish_abs (publish_run [(Upload o1 (PeerId ''peer_a''), io_ok)] (sample_disk [e])) ''pub_1'' = Some e'
     \<and> sp_hidden e'"
proof -
  let ?o = "sample_signed ''pub_1'' ''peer_a'' 0"
  let ?e = "hide_record 5 ''spam'' sample_admin (stored_visible ?o)"
  have "publish_abs (sample_disk [?e]) ''pub_1'' = Some ?e"
    using sample_disk_one(2) [of ?e] by (simp add: sample_signed_def)
  from publish_hidden_kept [OF sample_disk_one(1) this, of "[(Upload ?o (PeerId ''peer_a''), io_ok)]"]
  show ?thesis by (simp add: Let_def)
qed

section \<open>Search\<close>

lemma search_order_ordered: "publish_ok rs \<Longrightarrow> search_paging.ordered (search_order tag rs)"
  unfolding search_order_def publish_ok_def
  by (rule search_paging.ordered_sort_by) (simp add: distinct_map_filter)

lemma page_tail:
  fixes xs :: "stored_publish list"
  assumes "1 \<le> limit" "k \<le> length xs" "k \<le> PUBLISH_SEARCH_WINDOW_LIMIT"
  defines "m \<equiv> min limit (PUBLISH_SEARCH_WINDOW_LIMIT - k)"
  defines "again \<equiv> k + m < length xs \<and> k + m < PUBLISH_SEARCH_WINDOW_LIMIT"
  defines "e \<equiv> xs ! (k + m - 1)"
  shows "page_from_ordered_tail x (drop k xs) limit k =
    \<lparr>page_records = map sp_object (take m (drop k xs)),
     page_next_cursor = (if again then Some (search_cursor_encode x
        \<lparr>psc_created_at = sp_created e, psc_id = sp_id e, psc_seen = k + m\<rparr>) else None),
     page_has_more = again\<rparr>"
proof -
  have extra: "length (take (m + 1) (drop k xs)) > m \<longleftrightarrow> k + m < length xs" by auto
  have cand: "(if length (take (m + 1) (drop k xs)) > m then take m (take (m + 1) (drop k xs))
      else take (m + 1) (drop k xs)) = take m (drop k xs)"
    by (auto simp: min_def)
  have last: "last (take m (drop k xs)) = e" "take m (drop k xs) \<noteq> []" if again
  proof -
    from that have "1 \<le> m" "k + m < length xs" using assms(1) by (auto simp: again_def m_def)
    then show "last (take m (drop k xs)) = e"
      using last_take [of m "drop k xs"] by (simp add: e_def)
    show "take m (drop k xs) \<noteq> []" using \<open>1 \<le> m\<close> \<open>k + m < length xs\<close> by auto
  qed
  have len: "length (take m (drop k xs)) = m" if "k + m < length xs"
    using that by auto
  have "min k PUBLISH_SEARCH_WINDOW_LIMIT = k" using assms(3) by simp
  then show ?thesis
    using last len extra cand
    unfolding page_from_ordered_tail_def Let_def m_def [symmetric]
    by (auto simp: again_def m_def [symmetric])
qed

text \<open>A client that follows the cursors of a search, at most \<open>fuel\<close> pages.\<close>

fun search_walk ::
  "crates \<Rightarrow> nat \<Rightarrow> string option \<Rightarrow> nat \<Rightarrow> publish_search_cursor option \<Rightarrow> stored_publish disk \<Rightarrow>
   string + publish_object list" where
  "search_walk x 0 tag limit cursor d = Err ''out of fuel''"
| "search_walk x (Suc fuel) tag limit cursor d =
     and_then (publish_search x \<lparr>psr_tag = tag, psr_limit = limit, psr_cursor = cursor\<rparr> d) (\<lambda>page.
       case page_next_cursor page of
         None \<Rightarrow> Ok (page_records page)
       | Some s \<Rightarrow> and_then (search_cursor_decode x s) (\<lambda>c.
           map_ok (\<lambda>rest. page_records page @ rest) (search_walk x fuel tag limit (Some c) d)))"

lemma search_cursor_roundtrip:
  assumes "base64_law x" "json_law x" "rfc3339_law x" "four_digit_year (psc_created_at c)" "psc_seen c \<le> usize_max"
  shows "search_cursor_decode x (search_cursor_encode x c) = Ok c"
proof -
  have "json_plain (Suc 126) (enc_search_cursor x c)"
    unfolding enc_search_cursor_def
    using assms(5) by (intro json_plain_JObj) (auto simp: usize_max_def)
  then have "from_json x (dec_search_cursor x) (json_text x (enc_search_cursor x c)) = Ok c"
    using assms
    by (intro from_json_text) (simp_all add: dec_search_cursor_def enc_search_cursor_def field_defs serde)
  then show ?thesis
    using assms(1) by (simp add: search_cursor_decode_def search_cursor_encode_def base64_roundtrip)
qed

definition cursor_at :: "stored_publish list \<Rightarrow> nat \<Rightarrow> publish_search_cursor option" where
  "cursor_at xs k = (if k = 0 then None
     else let e = xs ! (k - 1) in Some \<lparr>psc_created_at = sp_created e, psc_id = sp_id e, psc_seen = k\<rparr>)"

lemma paginate_at:
  assumes "search_paging.ordered xs" "k \<le> length xs"
  shows "paginate_ordered_publish_records x xs limit (cursor_at xs k)
    = page_from_ordered_tail x (drop k xs) limit k"
proof (cases k)
  case 0
  then show ?thesis by (simp add: cursor_at_def paginate_ordered_publish_records_def)
next
  case (Suc j)
  then show ?thesis
    using search_paging.position_resume [OF assms(1), of j k] assms(2)
    by (simp add: cursor_at_def paginate_ordered_publish_records_def Let_def)
qed

lemma search_walk_from:
  fixes tag :: "string option"
  assumes laws: "base64_law x" "json_law x" "rfc3339_law x"
    and rs: "load d = Ok rs" "publish_ok rs" "\<forall>e \<in> set rs. four_digit_year (sp_created e)"
    and limit: "1 \<le> limit"
  defines "xs \<equiv> search_order tag rs"
  shows "k \<le> length xs \<Longrightarrow> k \<le> PUBLISH_SEARCH_WINDOW_LIMIT \<Longrightarrow> length xs - k < fuel \<Longrightarrow>
    search_walk x fuel tag limit (cursor_at xs k) d
      = Ok (map sp_object (take (PUBLISH_SEARCH_WINDOW_LIMIT - k) (drop k xs)))"
proof (induction fuel arbitrary: k)
  case 0
  then show ?case by simp
next
  case (Suc fuel)
  define m where "m = min limit (PUBLISH_SEARCH_WINDOW_LIMIT - k)"
  have page: "publish_search x \<lparr>psr_tag = tag, psr_limit = limit, psr_cursor = cursor_at xs k\<rparr> d
      = Ok (page_from_ordered_tail x (drop k xs) limit k)"
    using paginate_at [OF search_order_ordered [OF rs(2)], of k tag x limit] Suc.prems(1) rs(1)
    by (simp add: publish_search_def xs_def)
  note tail = page_tail [OF limit Suc.prems(1,2), of x, folded m_def]
  show ?case
  proof (cases "k + m < length xs \<and> k + m < PUBLISH_SEARCH_WINDOW_LIMIT")
    case False
    then have "take (PUBLISH_SEARCH_WINDOW_LIMIT - k) (drop k xs) = take m (drop k xs)"
    proof (cases "k + m < PUBLISH_SEARCH_WINDOW_LIMIT")
      case True
      with False have "length (drop k xs) \<le> m" by simp
      moreover from True have "m \<le> PUBLISH_SEARCH_WINDOW_LIMIT - k" by simp
      ultimately show ?thesis by simp
    next
      case False
      then have "m = PUBLISH_SEARCH_WINDOW_LIMIT - k" by (simp add: m_def)
      then show ?thesis by simp
    qed
    moreover have "publish_search x \<lparr>psr_tag = tag, psr_limit = limit, psr_cursor = cursor_at xs k\<rparr> d
      = Ok \<lparr>page_records = map sp_object (take m (drop k xs)), page_next_cursor = None, page_has_more = False\<rparr>"
      unfolding page tail using False by (simp only: if_False simp_thms)
    ultimately show ?thesis by simp
  next
    case True
    then have m: "1 \<le> m" using limit Suc.prems(2) by (auto simp: m_def)
    let ?e = "xs ! (k + m - 1)"
    let ?c = "\<lparr>psc_created_at = sp_created ?e, psc_id = sp_id ?e, psc_seen = k + m\<rparr>"
    have "?e \<in> set xs" using True m by (intro nth_mem) linarith
    then have "four_digit_year (sp_created ?e)" using rs(3) by (auto simp: xs_def set_search_order)
    moreover have "k + m \<le> usize_max" using True by (simp add: PUBLISH_SEARCH_WINDOW_LIMIT_def usize_max_def)
    ultimately have dec: "search_cursor_decode x (search_cursor_encode x ?c) = Ok ?c"
      using laws by (intro search_cursor_roundtrip) simp_all
    have at: "cursor_at xs (k + m) = Some ?c" using m by (simp add: cursor_at_def Let_def)
    have less: "length xs - (k + m) < fuel" using Suc.prems(3) m True by linarith
    have "search_walk x fuel tag limit (Some ?c) d
        = Ok (map sp_object (take (PUBLISH_SEARCH_WINDOW_LIMIT - (k + m)) (drop (k + m) xs)))"
      using Suc.IH [of "k + m", unfolded at] True less by simp
    moreover have "take (PUBLISH_SEARCH_WINDOW_LIMIT - k) (drop k xs)
        = take m (drop k xs) @ take (PUBLISH_SEARCH_WINDOW_LIMIT - (k + m)) (drop (k + m) xs)"
      using take_add [of m "PUBLISH_SEARCH_WINDOW_LIMIT - (k + m)" "drop k xs"] True
      by (simp add: add.commute)
    ultimately show ?thesis using True page tail dec by simp
  qed
qed

text \<open>
  C26. Paging through a search is complete: a client that follows the cursors of an unchanged store
  gets every listed record that carries the tag exactly once, newest first, up to the window of
  10,000 records, in at most one page more than there are such records.
\<close>

theorem publish_search_walk_complete:
  assumes "base64_law x" "json_law x" "rfc3339_law x"
    and "load d = Ok rs" "publish_ok rs" "\<forall>e \<in> set rs. four_digit_year (sp_created e)"
    and "1 \<le> limit" "length rs < fuel"
  shows "search_walk x fuel tag limit None d = Ok (map sp_object (take 10000 (search_order tag rs))) \<and>
    set (search_order tag rs) = {e \<in> set rs. sp_listed e \<and> publish_record_matches_tag tag e} \<and>
    sorted_wrt (\<lambda>a b. sp_created b < sp_created a \<or> sp_created b = sp_created a \<and> sp_id b < sp_id a)
      (search_order tag rs)"
proof -
  have "length (search_order tag rs) \<le> length rs"
    unfolding search_order_def length_sort_by by (meson le_trans length_filter_le)
  then have "search_walk x fuel tag limit None d = Ok (map sp_object (take 10000 (search_order tag rs)))"
    using search_walk_from [OF assms(1-7), of 0 tag fuel] assms(8)
    by (simp add: cursor_at_def PUBLISH_SEARCH_WINDOW_LIMIT_def)
  moreover have "sorted_wrt newest_first.less (search_order tag rs)"
    using search_paging.ordered_less [OF search_order_ordered [OF assms(5)]] .
  then have "sorted_wrt (\<lambda>a b. sp_created b < sp_created a \<or> sp_created b = sp_created a \<and> sp_id b < sp_id a)
      (search_order tag rs)"
    by (rule sorted_wrt_mono_rel [rotated])
      (auto simp: newest_first.less_def compare_publish_records_newest_first_def)
  ultimately show ?thesis by (simp add: set_search_order)
qed

definition sample_records :: "stored_publish list" where
  "sample_records = map stored_visible
     [sample_signed ''a'' ''peer_a'' 1, sample_signed ''b'' ''peer_b'' 2, sample_signed ''c'' ''peer_c'' 2]"

theorem publish_search_walk_complete_witness:
  "search_walk toy 4 None 1 None (sample_disk sample_records)
     = Ok (map sp_object (take 10000 (search_order None sample_records)))"
proof -
  have "publish_ok sample_records" "\<forall>e \<in> set sample_records. four_digit_year (sp_created e)"
    by (simp_all add: sample_records_def publish_ok_def sample_signed_def four_digit_year_def seconds_def)
  moreover have "length sample_records < 4" by (simp add: sample_records_def)
  ultimately show ?thesis
    using publish_search_walk_complete [OF toy_laws(1,8,7) sample_disk_load [of sample_records], of 1 4 None]
    by simp
qed

lemma discover_candidates_distinct:
  "publish_ok rs \<Longrightarrow> distinct (map obj_id (discover_candidates q rs))"
proof -
  assume "publish_ok rs"
  then have "distinct (map sp_id (sort_by compare_publish_records_newest_first
      (filter (\<lambda>entry. discover_record_matches_tags (sp_object entry) (pdr_tags q)) (filter sp_listed rs))))"
    by (simp add: publish_ok_def distinct_map_filter)
  then have "distinct (take n (map sp_id (sort_by compare_publish_records_newest_first
      (filter (\<lambda>entry. discover_record_matches_tags (sp_object entry) (pdr_tags q)) (filter sp_listed rs)))))" for n
    by (rule distinct_take)
  then show ?thesis by (simp add: discover_candidates_def take_map comp_def)
qed



end
