(* ===== verification/Firestore_Publish.thy ===== *)
theory Firestore_Publish
  imports Firestore_Service Publish_Props
begin

text \<open>
  The publish store over Firestore keeps the same contract as the one over a file: its documents are a
  map from ids to records, and an operation leaves the map or changes it as the specification says,
  with its time cut to the millisecond. So ownership, the finality of deletion and moderation hold for
  it too, by the lemmas of the contract.
\<close>

section \<open>The four kinds of documents\<close>

lemma plain_single: "json_plain d v \<Longrightarrow> json_plain (Suc d) (obj [(k, v)])"
  by (rule json_plain_obj) simp

lemma plain_values:
  "json_plain (Suc 0) (string_value s)" "json_plain (Suc 0) (bool_value b)" "json_plain (Suc 0) (integer_value n)"
  "json_plain (Suc 0) (timestamp_value x t)" "json_plain (Suc 0) null_value"
  "json_plain (Suc 0) (firestore_optional_string os)" "json_plain (Suc 0) (firestore_optional_timestamp x ot)"
  unfolding string_value_def bool_value_def integer_value_def timestamp_value_def null_value_def
    firestore_optional_string_def firestore_optional_timestamp_def
  by (auto intro: plain_single split: option.split)

lemma plain_4: "json_plain (Suc 0) v \<Longrightarrow> json_plain 4 v"
  by (erule json_plain_mono) simp

lemmas plain_values_4 [simp] = plain_values [THEN plain_4]

lemma plain_array [simp]: "json_plain 4 (firestore_string_array ss)"
proof -
  have "json_plain (Suc (Suc 0)) (JArr (map string_value ss))"
    unfolding json_plain.simps by (simp add: list_all_iff plain_values)
  then have "json_plain (Suc (Suc (Suc (Suc 0)))) (firestore_string_array ss)"
    unfolding firestore_string_array_def by (intro plain_single)
  then show ?thesis by (simp add: numeral_eq_Suc)
qed

lemma plain_document:
  assumes "\<And>k v. (k, v) \<in> set kvs \<Longrightarrow> json_plain 4 v"
  shows "json_plain 8 (obj [(''name'', JStr name), (''fields'', obj kvs)])"
proof -
  have "json_plain (Suc 4) (obj kvs)" by (rule json_plain_obj) (rule assms)
  then have "json_plain 7 (obj kvs)" by (rule json_plain_mono) simp
  then have "json_plain (Suc 7) (obj [(''name'', JStr name), (''fields'', obj kvs)])"
    by (intro json_plain_obj) auto
  then show ?thesis by simp
qed

lemma obj_JObj: "\<exists>m. obj kvs = JObj m"
  by (simp add: obj_def)

lemmas document_defs = firestore_document_from_record_def firestore_document_from_message_def
  firestore_document_from_backup_bucket_def firestore_document_from_activity_bucket_def

lemma fields_in_document:
  "\<exists>m. jget (firestore_document_from_record x name a) ''fields'' = Some (JObj m)"
  "\<exists>m. jget (firestore_document_from_message x name b) ''fields'' = Some (JObj m)"
  "\<exists>m. jget (firestore_document_from_backup_bucket x name c) ''fields'' = Some (JObj m)"
  "\<exists>m. jget (firestore_document_from_activity_bucket x name d) ''fields'' = Some (JObj m)"
  "jget (firestore_document_from_record x name a) ''name'' = Some (JStr name)"
  "jget (firestore_document_from_message x name b) ''name'' = Some (JStr name)"
  "jget (firestore_document_from_backup_bucket x name c) ''name'' = Some (JStr name)"
  "jget (firestore_document_from_activity_bucket x name d) ''name'' = Some (JStr name)"
  unfolding document_defs Let_def fields_written by (simp_all add: obj_JObj)

interpretation record_codec: document_codec x "stored_record_from_firestore_document x"
  "firestore_document_from_record x" record_millis record_storable for x
proof
  fix name a
  show "json_plain 8 (firestore_document_from_record x name a)"
    unfolding document_defs Let_def by (rule plain_document) auto
qed (simp_all add: read_record_same record_reads_back fields_in_document)

interpretation message_codec1: document_codec x "stored_message_from_firestore_document x"
  "firestore_document_from_message x" message_millis message_stored for x
proof
  fix name a
  show "json_plain 8 (firestore_document_from_message x name a)"
    unfolding document_defs Let_def by (rule plain_document) auto
qed (simp_all add: read_message_same message_reads_back fields_in_document)

interpretation backup_codec: document_codec x "stored_backup_bucket_from_firestore_document x"
  "firestore_document_from_backup_bucket x" backup_millis bucket_storable for x
proof
  fix name a
  show "json_plain 8 (firestore_document_from_backup_bucket x name a)"
    unfolding document_defs Let_def by (rule plain_document) auto
qed (simp_all add: read_backup_same backup_reads_back fields_in_document)

interpretation activity_codec: document_codec x "stored_activity_bucket_from_firestore_document x"
  "firestore_document_from_activity_bucket x" activity_millis activity_storable for x
proof
  fix name a
  show "json_plain 8 (firestore_document_from_activity_bucket x name a)"
    unfolding document_defs Let_def by (rule plain_document) auto
qed (simp_all add: read_activity_same activity_reads_back fields_in_document)

lemma document_name_inject: "document_name cfg c i = document_name cfg c j \<longleftrightarrow> i = j"
proof
  assume "document_name cfg c i = document_name cfg c j"
  then have "percent_encode_path_segment i = percent_encode_path_segment j" 
    unfolding document_name_def append_same_eq same_append_eq .
  then have "percent_decode_bytes (percent_encode_path_segment i) = percent_decode_bytes (percent_encode_path_segment j)"
    by (rule arg_cong)
  then show "i = j" unfolding percent_decode_bytes_path option.inject .
qed simp

section \<open>Records\<close>

text \<open>The map of the records, their times to the millisecond.\<close>

definition fs_record :: "crates \<Rightarrow> firestore_config \<Rightarrow> documents \<Rightarrow> string \<Rightarrow> stored_publish option" where
  "fs_record x cfg D i =
     content (stored_record_from_firestore_document x) D (document_name cfg ''publish_records'' i)"

definition fs_publish_view :: "'n fs_env \<Rightarrow> ('n \<Rightarrow> documents) \<Rightarrow> 'n firestore \<Rightarrow> (string \<rightharpoonup> stored_publish)" where
  "fs_publish_view env docs s i = map_option record_millis (fs_record (fe_crates env) (fs_config s) (docs (fs_net s)) i)"

definition fs_publish_inv :: "'n fs_env \<Rightarrow> ('n \<Rightarrow> documents) \<Rightarrow> 'n firestore \<Rightarrow> bool" where
  "fs_publish_inv env docs s \<longleftrightarrow>
     firestore_law env (fs_config s) docs \<and> rfc3339_law (fe_crates env) \<and> json_law (fe_crates env) \<and>
     (\<forall>i e. fs_record (fe_crates env) (fs_config s) (docs (fs_net s)) i = Some e \<longrightarrow> record_storable e)"

lemma record_storable_iff:
  "record_storable e \<longleftrightarrow> publish_codec.object_storable (sp_object e) \<and> pred_option four_digit_year (sp_deleted_at e) \<and>
     pred_option four_digit_year (sp_hidden_at e) \<and> pred_option four_digit_year (sp_restored_at e)"
  by (cases "sp_deleted_at e"; cases "sp_hidden_at e"; cases "sp_restored_at e") (auto simp: record_storable_def)

lemma record_millis_storable [simp]: "record_storable e \<Longrightarrow> record_storable (record_millis e)"
  by (cases "sp_deleted_at e"; cases "sp_hidden_at e"; cases "sp_restored_at e")
    (simp_all add: record_storable_iff record_millis_def)

lemma record_millis_idem [simp]: "record_millis (record_millis e) = record_millis e"
  by (simp add: record_millis_def option.map_comp comp_def)

text \<open>A decision of the store does what \<open>f\<close> says to the entry of the map, and makes records that can be stored.\<close>

definition decides :: "(stored_publish option \<Rightarrow> 'r \<times> stored_publish option) \<Rightarrow>
    (stored_publish option \<Rightarrow> stored_publish option) \<Rightarrow> bool" where
  "decides change f \<longleftrightarrow> (\<forall>q v a. change q = (v, a) \<longrightarrow>
     (pred_option record_storable q \<longrightarrow> pred_option record_storable a) \<and>
     f (map_option record_millis q) = (case a of None \<Rightarrow> map_option record_millis q | Some b \<Rightarrow> Some (record_millis b)))"

lemma update_record_effect:
  fixes docs :: "'n \<Rightarrow> documents"
  assumes inv: "fs_publish_inv env docs s" and run: "update_record env change i s = (r, s')"
    and decides: "decides change f"
  shows "fs_publish_inv env docs s'"
    "fs_publish_view env docs s' = fs_publish_view env docs s \<and> (\<forall>v. r = Ok v \<longrightarrow> f (fs_publish_view env docs s i) = fs_publish_view env docs s i) \<or>
     fs_publish_view env docs s' = (fs_publish_view env docs s)(i := f (fs_publish_view env docs s i))"
    "r = Ok v \<Longrightarrow> v = fst (change (fs_record (fe_crates env) (fs_config s) (docs (fs_net s)) i))"
proof -
  let ?x = "fe_crates env"
  let ?name = "\<lambda>i. document_name (fs_config s) ''publish_records'' i"
  let ?q = "fs_record ?x (fs_config s) (docs (fs_net s)) i"
  have law: "firestore_law env (fs_config s) docs" and x: "rfc3339_law ?x" "json_law ?x"
    and st: "\<And>i e. fs_record ?x (fs_config s) (docs (fs_net s)) i = Some e \<Longrightarrow> record_storable e"
    using inv by (simp_all add: fs_publish_inv_def)
  have st': "\<forall>v a. change ?q = (v, Some a) \<longrightarrow> record_storable a"
    using decides st [of i] unfolding decides_def by (cases ?q) fastforce+
  note e = record_codec.update_effect [OF law refl x st' [unfolded fs_record_def] run [unfolded update_record_def]]
  have other: "fs_record ?x (fs_config s') (docs (fs_net s')) j = fs_record ?x (fs_config s) (docs (fs_net s)) j" if "j \<noteq> i" for j
  proof -
    have "?name j \<noteq> ?name i" using that by (simp add: document_name_inject)
    then have "docs (fs_net s') (?name j) = docs (fs_net s) (?name j)" by (rule e(2))
    then show ?thesis by (simp add: fs_record_def content_def e(1))
  qed
  obtain v0 a0 where c: "change ?q = (v0, a0)" by fastforce
  note spec = decides [unfolded decides_def, rule_format, OF c, THEN conjunct2]
  have "(docs (fs_net s') = docs (fs_net s) \<and> (\<forall>v. r = Ok v \<longrightarrow> (v0, a0) = (v, None))) \<or>
     (\<exists>a. a0 = Some a \<and> fs_record ?x (fs_config s) (docs (fs_net s')) i = Some (record_millis a) \<and> (\<forall>w. r = Ok w \<longrightarrow> w = v0))"
    using e(3) unfolding fs_record_def [symmetric] c by auto
  then consider (same) "docs (fs_net s') = docs (fs_net s)" "\<forall>v. r = Ok v \<longrightarrow> v0 = v \<and> a0 = None"
    | (new) a where "a0 = Some a" "fs_record ?x (fs_config s) (docs (fs_net s')) i = Some (record_millis a)" "\<forall>w. r = Ok w \<longrightarrow> w = v0"
    by auto
  then have all: "fs_publish_inv env docs s' \<and>
    (fs_publish_view env docs s' = fs_publish_view env docs s \<and> (\<forall>v. r = Ok v \<longrightarrow> f (fs_publish_view env docs s i) = fs_publish_view env docs s i) \<or>
     fs_publish_view env docs s' = (fs_publish_view env docs s)(i := f (fs_publish_view env docs s i))) \<and>
    (\<forall>v. r = Ok v \<longrightarrow> v = v0)"
  proof cases
    case same
    have "f (fs_publish_view env docs s i) = fs_publish_view env docs s i" if "r = Ok v" for v
      using spec same(2) that by (simp add: fs_publish_view_def)
    moreover have "fs_publish_view env docs s' = fs_publish_view env docs s"
      by (rule ext) (simp add: fs_publish_view_def e(1) same(1))
    moreover have "fs_publish_inv env docs s'" using inv by (simp add: fs_publish_inv_def e(1) same(1))
    ultimately show ?thesis using same(2) by auto
  next
    case new
    have "record_storable (record_millis a)" using st' c new(1) by simp
    then have "record_storable b" if "fs_record ?x (fs_config s') (docs (fs_net s')) j = Some b" for j b
      using that other [of j] st [of j] new(2) by (cases "j = i") (auto simp: e(1))
    then have "fs_publish_inv env docs s'" using law x by (simp add: fs_publish_inv_def e(1))
    moreover have "fs_publish_view env docs s' = (fs_publish_view env docs s)(i := f (fs_publish_view env docs s i))"
      using spec new(1,2) other by (auto simp: fs_publish_view_def fun_eq_iff e(1))
    ultimately show ?thesis using new(3) by blast
  qed
  show "fs_publish_inv env docs s'" by (rule conjunct1 [OF all])
  show "fs_publish_view env docs s' = fs_publish_view env docs s \<and> (\<forall>v. r = Ok v \<longrightarrow> f (fs_publish_view env docs s i) = fs_publish_view env docs s i) \<or>
     fs_publish_view env docs s' = (fs_publish_view env docs s)(i := f (fs_publish_view env docs s i))"
    by (rule conjunct1 [OF conjunct2 [OF all]])
  show "r = Ok v \<Longrightarrow> v = fst (change ?q)" using conjunct2 [OF conjunct2 [OF all]] c by simp
qed

section \<open>The contract\<close>

fun trim_op :: "publish_op \<Rightarrow> publish_op" where
  "trim_op (Upload ob p) = Upload ob p"
| "trim_op (Delete now i p) = Delete (to_millis now) i p"
| "trim_op (Hide now i r a) = Hide (to_millis now) i r a"
| "trim_op (Restore now i r a) = Restore (to_millis now) i r a"

fun storable_op :: "publish_op \<Rightarrow> bool" where
  "storable_op (Upload ob p) \<longleftrightarrow> publish_codec.object_storable ob"
| "storable_op (Delete now i p) \<longleftrightarrow> four_digit_year now"
| "storable_op (Hide now i r a) \<longleftrightarrow> four_digit_year now"
| "storable_op (Restore now i r a) \<longleftrightarrow> four_digit_year now"

fun fs_publish_op :: "'n fs_env \<Rightarrow> publish_op \<Rightarrow> 'n firestore \<Rightarrow> bool \<times> 'n firestore" where
  "fs_publish_op env (Upload ob p) s = map_prod is_ok (\<lambda>t. t) (fs_upsert env ob p s)"
| "fs_publish_op env (Delete now i p) s = map_prod is_ok (\<lambda>t. t) (fs_mark_author_deleted env now i p s)"
| "fs_publish_op env (Hide now i r a) s = map_prod is_ok (\<lambda>t. t) (fs_admin_hide env now i r a s)"
| "fs_publish_op env (Restore now i r a) s = map_prod is_ok (\<lambda>t. t) (fs_admin_restore env now i r a s)"

definition fs_publish_step :: "'n fs_env \<Rightarrow> publish_op \<Rightarrow> unit \<Rightarrow> 'n firestore \<Rightarrow> 'n firestore" where
  "fs_publish_step env a u s = snd (fs_publish_op env a s)"

lemma record_millis_simps [simp]:
  "sp_object (record_millis e) = sp_object e" "sp_deleted (record_millis e) = sp_deleted e"
  "record_millis (stored_visible ob) = stored_visible ob"
  "record_millis (preserve_admin_state ob e) = preserve_admin_state ob (record_millis e)"
  "record_millis (author_delete now e) = author_delete (to_millis now) (record_millis e)"
  "record_millis (hide_record now r a e) = hide_record (to_millis now) r a (record_millis e)"
  "record_millis (restore_record now r a e) = restore_record (to_millis now) r a (record_millis e)"
  by (simp_all add: record_millis_def stored_visible_def preserve_admin_state_def author_delete_def
      hide_record_def restore_record_def)

lemma storable_changes [simp]:
  "record_storable (stored_visible ob) \<longleftrightarrow> publish_codec.object_storable ob"
  "record_storable e \<Longrightarrow> publish_codec.object_storable ob \<Longrightarrow> record_storable (preserve_admin_state ob e)"
  "record_storable e \<Longrightarrow> four_digit_year now \<Longrightarrow> record_storable (author_delete now e)"
  "record_storable e \<Longrightarrow> four_digit_year now \<Longrightarrow> record_storable (hide_record now r a e)"
  "record_storable e \<Longrightarrow> four_digit_year now \<Longrightarrow> record_storable (restore_record now r a e)"
  by (simp_all add: record_storable_iff stored_visible_def preserve_admin_state_def author_delete_def
      hide_record_def restore_record_def)

lemma decisions:
  "publish_codec.object_storable ob \<Longrightarrow> decides (upsert_entry ob p) (spec_upload ob p)"
  "four_digit_year now \<Longrightarrow> decides (delete_entry now p) (spec_delete (to_millis now) p)"
  "four_digit_year now \<Longrightarrow> decides (moderate_entry (hide_record now r ad)) (spec_moderate (hide_record (to_millis now) r ad))"
  "four_digit_year now \<Longrightarrow> decides (moderate_entry (restore_record now r ad)) (spec_moderate (restore_record (to_millis now) r ad))"
  unfolding decides_def upsert_entry_def delete_entry_def moderate_entry_def spec_upload_def spec_delete_def spec_moderate_def
  by (auto split: option.split)

lemma fs_step_effect:
  fixes docs :: "'n \<Rightarrow> documents"
  assumes inv: "fs_publish_inv env docs s" and good: "storable_op a" and run: "fs_publish_op env a s = (ok, s')"
  shows "fs_publish_inv env docs s' \<and>
    (fs_publish_view env docs s' = spec_step (trim_op a) (fs_publish_view env docs s) \<or>
     \<not> ok \<and> fs_publish_view env docs s' = fs_publish_view env docs s)"
proof -
  let ?V = "fs_publish_view env docs"
  have *: "fs_publish_inv env docs s' \<and> (?V s' = (?V s)(i := f (?V s i)) \<or> \<not> is_ok r \<and> ?V s' = ?V s)"
    if u: "update_record env change i s = (r, s')" and d: "decides change f"
    for change :: "stored_publish option \<Rightarrow> 'r \<times> stored_publish option" and i r f
  proof -
    note e = update_record_effect [OF inv u d]
    from e(2) have "?V s' = (?V s)(i := f (?V s i)) \<or> \<not> is_ok r \<and> ?V s' = ?V s"
    proof
      assume same: "?V s' = ?V s \<and> (\<forall>v. r = Ok v \<longrightarrow> f (?V s i) = ?V s i)"
      then show ?thesis
        by (cases r) (simp_all add: is_ok_def fun_upd_idem)
    qed blast
    with e(1) show ?thesis by blast
  qed
  show ?thesis
  proof (cases a)
    case (Upload ob p)
    with run obtain r where u: "update_record env (upsert_entry ob p) (obj_id ob) s = (r, s')" "ok = is_ok r"
      by (auto simp: fs_upsert_def map_prod_def split: prod.splits)
    from * [OF u(1) decisions(1)] good Upload u(2) show ?thesis by simp
  next
    case (Delete now i p)
    with run obtain r where u: "update_record env (delete_entry now p) i s = (r, s')" "ok = is_ok r"
      by (auto simp: fs_mark_author_deleted_def map_prod_def split: prod.splits)
    from * [OF u(1) decisions(2)] good Delete u(2) show ?thesis by simp
  next
    case (Hide now i rs ad)
    with run obtain r where u: "update_record env (moderate_entry (hide_record now rs ad)) i s = (r, s')" "ok = is_ok r"
      by (auto simp: fs_admin_hide_def map_prod_def split: prod.splits)
    from * [OF u(1) decisions(3)] good Hide u(2) show ?thesis by simp
  next
    case (Restore now i rs ad)
    with run obtain r where u: "update_record env (moderate_entry (restore_record now rs ad)) i s = (r, s')" "ok = is_ok r"
      by (auto simp: fs_admin_restore_def map_prod_def split: prod.splits)
    from * [OF u(1) decisions(4)] good Restore u(2) show ?thesis by simp
  qed
qed

interpretation firestore_publish: publish_contract "fs_publish_inv env docs" "fs_publish_view env docs"
  "fs_publish_step env" "\<lambda>_. trim_op" storable_op for env :: "'n fs_env" and docs :: "'n \<Rightarrow> documents"
proof
  fix s :: "'n firestore" and a u
  assume "fs_publish_inv env docs s" "storable_op a"
  from fs_step_effect [OF this surjective_pairing]
  show "fs_publish_inv env docs (fs_publish_step env a u s)"
    and "fs_publish_view env docs (fs_publish_step env a u s) = fs_publish_view env docs s \<or>
      fs_publish_view env docs (fs_publish_step env a u s) = spec_step (trim_op a) (fs_publish_view env docs s)"
    unfolding fs_publish_step_def by blast+
next
  show "same_op a (trim_op a)" for a by (cases a) simp_all
qed

end
