(* ===== verification/Firestore_Props.thy ===== *)
theory Firestore_Props
  imports Firestore_Publish
begin

text \<open>
  A small document service that keeps the promises, and the properties of the publish store over
  Firestore: it refines the same map, what it stores reads back, and the updates of several servers that
  run at the same time are as if one had run after the other.
\<close>

section \<open>A service that keeps the promises\<close>

text \<open>
  The state of the service is its documents. It answers reads, and commits of one document whose
  fields are an object as serde_json would print it.
\<close>

definition toy_document :: "documents \<Rightarrow> documents" where
  "toy_document D name = (case D name of None \<Rightarrow> None
     | Some (F, u) \<Rightarrow> (case F of JObj m \<Rightarrow> if value_of F = F then Some (F, u) else None | _ \<Rightarrow> None))"

definition toy_precondition :: "json \<Rightarrow> firestore_precondition" where
  "toy_precondition p = (case Option.bind (jget p ''updateTime'') as_str of Some u \<Rightarrow> UpdateTime u | None \<Rightarrow> MissingDocument)"

definition toy_commit :: "json \<Rightarrow> (string \<times> json \<times> firestore_precondition) option" where
  "toy_commit body =
     Option.bind (jget body ''writes'') (\<lambda>ws. case ws of JArr [w] \<Rightarrow>
       Option.bind (jget w ''update'') (\<lambda>d. Option.bind (jget w ''currentDocument'') (\<lambda>p.
       Option.bind (Option.bind (jget d ''name'') as_str) (\<lambda>name. Option.bind (jget d ''fields'') (\<lambda>F.
         Some (name, F, toy_precondition p))))) | _ \<Rightarrow> None)"

definition toy_answer :: "json \<Rightarrow> fs_answer" where
  "toy_answer v = Answered 200 (json_text toy v)"

definition toy_get :: "firestore_config \<Rightarrow> string \<Rightarrow> documents \<Rightarrow> fs_answer" where
  "toy_get cfg url D =
     (case toy_document D (drop (length (document_url cfg [])) url) of
        None \<Rightarrow> Answered 404 []
      | Some (F, u) \<Rightarrow> toy_answer (obj [(''fields'', F), (''updateTime'', JStr u)]))"

definition toy_post :: "json \<Rightarrow> documents \<Rightarrow> fs_answer \<times> documents" where
  "toy_post body D =
     (case toy_commit body of
        None \<Rightarrow> (Answered 400 [], D)
      | Some (name, F, p) \<Rightarrow>
          (if precondition_holds p (toy_document D name) \<and> toy_document (D(name \<mapsto> (F, ''1''))) name \<noteq> None
           then (toy_answer (obj []), D(name \<mapsto> (F, ''1''))) else (Answered 409 [], D)))"

definition toy_exchange :: "firestore_config \<Rightarrow> fs_request \<Rightarrow> documents \<Rightarrow> fs_answer \<times> documents" where
  "toy_exchange cfg r D =
     (if fr_method r = ''GET'' then (toy_get cfg (fr_url r) D, D)
      else if fr_method r = ''POST'' \<and> fr_url r = commit_url cfg
      then (case Option.bind (fr_body r) (\<lambda>b. result_ok (json_read toy b)) of
              None \<Rightarrow> (Answered 400 [], D) | Some body \<Rightarrow> toy_post body D)
      else (Answered 404 [], D))"

definition toy_service :: "firestore_config \<Rightarrow> documents fs_env" where
  "toy_service cfg = \<lparr>fe_crates = toy, fe_exchange = toy_exchange cfg, fe_clock = (\<lambda>D. (0, D))\<rparr>"

lemma toy_read_all: "json_read toy (json_text toy v) = Ok v"
  using show_nat_facts by (simp add: toy_def)

lemma toy_commit_body:
  assumes "jget d ''name'' = Some (JStr name)" "jget d ''fields'' = Some F"
  shows "toy_commit (commit_body d p) = Some (name, F, p)"
proof -
  have "toy_precondition (precondition_json p) = p"
    by (cases p) (simp_all add: toy_precondition_def precondition_json_def jget_obj as_str_def)
  with assms show ?thesis by (simp add: toy_commit_def commit_body_def jget_obj as_str_def)
qed

lemma toy_document_written:
  "toy_document (D(name \<mapsto> (F, u))) name \<noteq> None \<Longrightarrow>
   toy_document (D(name \<mapsto> (F, u))) = (toy_document D)(name \<mapsto> (F, u))"
  by (rule ext) (auto simp: toy_document_def split: json.splits if_splits)

lemma toy_document_fields:
  "toy_document D name = Some (F, u) \<Longrightarrow> (\<exists>m. F = JObj m) \<and> value_of F = F"
  by (auto simp: toy_document_def simp del: value_of.simps split: option.splits json.splits if_splits)

lemma toy_reads: "reads_documents (toy_service cfg) cfg toy_document"
proof -
  have "case toy_document n name of None \<Rightarrow> \<not> succeeded a
      | Some (F, u) \<Rightarrow> answer_status a \<noteq> Some 404 \<and>
          (\<forall>status text. a = Answered status text \<longrightarrow> succeeded a \<longrightarrow>
             (\<exists>v G. json_read (fe_crates (toy_service cfg)) text = Ok v \<and> jget (value_of v) ''fields'' = Some G \<and>
                same_fields (fe_crates (toy_service cfg)) F G \<and> jget (value_of v) ''updateTime'' = Some (JStr u)))"
    if "a = fst (fe_exchange (toy_service cfg) \<lparr>fr_method = ''GET'', fr_url = document_url cfg name, fr_headers = hs, fr_body = None\<rparr> n)"
    for name hs n a
  proof (cases "toy_document n name")
    case None
    with that show ?thesis
      by (simp add: toy_service_def toy_exchange_def toy_get_def document_url_def succeeded_def)
  next
    case (Some Fu)
    obtain F u where Fu: "Fu = (F, u)" by (cases Fu)
    from toy_document_fields [OF Some [unfolded Fu]] obtain m where F: "F = JObj m" "value_of F = F" by blast
    have a: "a = toy_answer (obj [(''fields'', F), (''updateTime'', JStr u)])"
      using that Some Fu by (simp add: toy_service_def toy_exchange_def toy_get_def document_url_def)
    have c: "cmp ''updateTime'' ''fields'' = Greater" by code_simp
    have v: "value_of (obj [(''fields'', F), (''updateTime'', JStr u)]) = obj [(''fields'', F), (''updateTime'', JStr u)]"
      by (simp add: obj_def bt_collect_def c F(2))
    have "same_fields toy F F" using same_fields_refl [OF F(1)] .
    then show ?thesis
      by (simp add: Some Fu a toy_answer_def answer_status_def toy_service_def toy_read_all v jget_obj)
  qed
  then show ?thesis unfolding reads_documents_def by blast
qed

lemma toy_service_law: "firestore_law (toy_service cfg) cfg toy_document"
proof -
  have "only_commits_change (toy_service cfg) cfg toy_document"
    by (auto simp: only_commits_change_def toy_service_def toy_exchange_def)
  moreover have "toy_document n' = toy_document n \<and> \<not> succeeded a \<or>
     precondition_holds p (toy_document n name) \<and> (\<exists>u. toy_document n' = (toy_document n)(name \<mapsto> (F, u)))"
    if "jget d ''name'' = Some (JStr name)" "jget d ''fields'' = Some F"
      "fe_exchange (toy_service cfg) \<lparr>fr_method = ''POST'', fr_url = commit_url cfg, fr_headers = hs,
        fr_body = Some (json_text (fe_crates (toy_service cfg)) (commit_body d p))\<rparr> n = (a, n')" for d name F p hs n a n'
  proof -
    have "toy_post (commit_body d p) n = (a, n')"
      using that(3) by (simp add: toy_service_def toy_exchange_def toy_read_all)
    then show ?thesis
      using toy_document_written [of n name F "''1''"]
      by (auto simp: toy_post_def toy_commit_body [OF that(1,2)] succeeded_def split: if_splits)
  qed
  then have "commits_documents (toy_service cfg) cfg toy_document" unfolding commits_documents_def by blast
  ultimately show ?thesis using toy_reads by (simp add: firestore_law_def)
qed

section \<open>The properties of the store\<close>

text \<open>
  C9. The publish store over Firestore refines the same map as the one over a file. An upload, a
  deletion or a moderation, whatever the service answers, leaves the map of records as it was or changes
  it as the specification says at that time to the millisecond; an operation that is answered without an
  error has changed it so.
\<close>

theorem firestore_publish_refines_map:
  fixes docs :: "'n \<Rightarrow> documents"
  assumes "fs_publish_inv env docs s" and "storable_op a" and "fs_publish_op env a s = (ok, s')"
  shows "fs_publish_inv env docs s' \<and>
    (fs_publish_view env docs s' = spec_step (trim_op a) (fs_publish_view env docs s) \<or>
     \<not> ok \<and> fs_publish_view env docs s' = fs_publish_view env docs s)"
  by (rule fs_step_effect [OF assms])

definition sample_config :: firestore_config where
  "sample_config = \<lparr>fc_project_id = ''p'', fc_database_id = ''(default)'',
     fc_api_base_url = ''http://localhost:8080/v1'', fc_auth = NoAuth\<rparr>"

definition sample_firestore :: "documents firestore" where
  "sample_firestore = firestore_new sample_config Map.empty"

lemma sample_firestore_inv: "fs_publish_inv (toy_service sample_config) toy_document sample_firestore"
  using toy_service_law toy_laws(7,8)
  by (simp add: fs_publish_inv_def sample_firestore_def firestore_new_def fs_record_def content_def
      toy_document_def toy_service_def)

lemma sample_firestore_view: "fs_publish_view (toy_service sample_config) toy_document sample_firestore = Map.empty"
  by (rule ext) (simp add: fs_publish_view_def sample_firestore_def firestore_new_def fs_record_def content_def toy_document_def)

lemma value_of_values [simp]:
  "value_of (string_value s) = string_value s" "value_of (bool_value b) = bool_value b"
  "value_of (timestamp_value x t) = timestamp_value x t" "value_of null_value = null_value"
  "value_of (firestore_string_array ss) = firestore_string_array ss"
  "value_of (firestore_optional_string os) = firestore_optional_string os"
  "value_of (firestore_optional_timestamp x ot) = firestore_optional_timestamp x ot"
proof -
  have v: "value_of (string_value s) = string_value s" "value_of null_value = null_value"
    "value_of (timestamp_value x t) = timestamp_value x t" "value_of (bool_value b) = bool_value b" for s t b
    unfolding string_value_def null_value_def timestamp_value_def bool_value_def by (rule value_of_obj; simp)+
  then show "value_of (string_value s) = string_value s" "value_of (bool_value b) = bool_value b"
    "value_of (timestamp_value x t) = timestamp_value x t" "value_of null_value = null_value" by simp_all
  have "value_of (obj [(''values'', JArr (map string_value ss))]) = obj [(''values'', JArr (map string_value ss))]"
    by (rule value_of_obj) (auto simp: v)
  then show "value_of (firestore_string_array ss) = firestore_string_array ss"
    unfolding firestore_string_array_def by (intro value_of_obj) auto
  show "value_of (firestore_optional_string os) = firestore_optional_string os"
    by (cases os) (simp_all add: firestore_optional_string_def v)
  show "value_of (firestore_optional_timestamp x ot) = firestore_optional_timestamp x ot"
    by (cases ot) (simp_all add: firestore_optional_timestamp_def v)
qed

lemma record_document_fields:
  obtains m where "jget (firestore_document_from_record x name e) ''fields'' = Some (JObj m)" "value_of (JObj m) = JObj m"
proof -
  obtain m where m: "jget (firestore_document_from_record x name e) ''fields'' = Some (JObj m)"
    using fields_in_document(1) by blast
  have "\<exists>kvs. firestore_document_from_record x name e = obj [(''name'', JStr name), (''fields'', obj kvs)] \<and>
      (\<forall>(k, v) \<in> set kvs. value_of v = v)"
    unfolding firestore_document_from_record_def Let_def by (rule exI, rule conjI, rule refl, simp)
  then obtain kvs where k: "firestore_document_from_record x name e = obj [(''name'', JStr name), (''fields'', obj kvs)]"
    "\<And>k v. (k, v) \<in> set kvs \<Longrightarrow> value_of v = v" by blast
  have "value_of (JObj m) = JObj m"
    using m value_of_obj [of kvs, OF k(2)] by (simp add: k(1) fields_written)
  with m that show thesis by blast
qed

text \<open>An update of a document that is not there yet.\<close>

lemma toy_create:
  assumes cfg: "fc_auth (fs_config s) = NoAuth" and none: "fs_net s name = None"
    and ch: "change None = (v, Some e)"
    and w: "jget (encode name e) ''name'' = Some (JStr name)" "jget (encode name e) ''fields'' = Some (JObj m)"
      "value_of (JObj m) = JObj m"
  shows "\<exists>s'. update_document (toy_service (fs_config s)) missing decode encode change name s = (Ok v, s') \<and>
    fs_config s' = fs_config s \<and> toy_document (fs_net s') = (toy_document (fs_net s))(name \<mapsto> (JObj m, ''1''))"
proof -
  let ?env = "toy_service (fs_config s)"
  let ?D = "(fs_net s)(name \<mapsto> (JObj m, ''1''))"
  have d: "toy_document (fs_net s) name = None" using none by (simp add: toy_document_def)
  have get: "get_document ?env missing decode name s = (Ok None, s)"
    using cfg d
    by (simp add: get_document_def get_json_def then_do_def look_at_clock_def authorize_def send_request_def
        toy_service_def toy_exchange_def toy_get_def document_url_def answer_status_def give_def)
  have some: "toy_document ?D name = Some (JObj m, ''1'')" using w(3) by (simp add: toy_document_def)
  have post: "toy_post (commit_body (encode name e) MissingDocument) (fs_net s) = (toy_answer (obj []), ?D)"
    using some by (simp add: toy_post_def toy_commit_body [OF w(1,2)] precondition_holds_def d)
  have commit: "\<exists>s'. commit_document ?env (encode name e) MissingDocument s = (Ok (), s') \<and> fs_config s' = fs_config s \<and> fs_net s' = ?D"
    using cfg
    by (simp add: commit_document_def post_json_def then_do_def look_at_clock_def authorize_def send_request_def
        toy_service_def toy_exchange_def toy_read_all post toy_answer_def read_answer_def log_exchange_def
        give_def check_def)
  then obtain s' where "commit_document ?env (encode name e) MissingDocument s = (Ok (), s')" "fs_config s' = fs_config s" "fs_net s' = ?D"
    by blast
  then show ?thesis
    using get ch toy_document_written [of "fs_net s" name "JObj m" "''1''"] some
    by (simp add: update_document_def then_do_def precondition_of_def give_def)
qed

theorem firestore_publish_refines_map_witness:
  "\<exists>s'. fs_publish_op (toy_service sample_config) (Upload (sample_signed ''pub_1'' ''peer_a'' 0) (PeerId ''peer_a'')) sample_firestore
       = (True, s') \<and>
     fs_publish_view (toy_service sample_config) toy_document s' = [''pub_1'' \<mapsto> stored_visible (sample_signed ''pub_1'' ''peer_a'' 0)]"
proof -
  let ?ob = "sample_signed ''pub_1'' ''peer_a'' 0"
  let ?env = "toy_service sample_config"
  let ?name = "document_name sample_config ''publish_records'' ''pub_1''"
  obtain m where m: "jget (firestore_document_from_record toy ?name (stored_visible ?ob)) ''fields'' = Some (JObj m)"
    "value_of (JObj m) = JObj m" by (rule record_document_fields)
  have i: "obj_id ?ob = ''pub_1''" by (simp add: sample_signed_def)
  have ok: "storable_op (Upload ?ob (PeerId ''peer_a''))" 
    unfolding storable_op.simps publish_codec.object_storable_def
    by (simp add: sample_signed_def four_digit_year_def seconds_def)
  obtain s' where "update_document ?env ''Firestore document missing updateTime''
      (stored_record_from_firestore_document toy) (firestore_document_from_record toy)
      (upsert_entry ?ob (PeerId ''peer_a'')) ?name sample_firestore = (Ok PublishStored, s')"
    using toy_create [of sample_firestore ?name "upsert_entry ?ob (PeerId ''peer_a'')" PublishStored "stored_visible ?ob"
        "firestore_document_from_record toy" m] m
    by (fastforce simp: sample_firestore_def firestore_new_def sample_config_def upsert_entry_def fields_in_document)
  then have run: "fs_publish_op ?env (Upload ?ob (PeerId ''peer_a'')) sample_firestore = (True, s')"
    by (simp add: fs_upsert_def update_record_def i sample_firestore_def firestore_new_def toy_service_def is_ok_def)
  from firestore_publish_refines_map [OF sample_firestore_inv ok run] run i show ?thesis
    by (simp add: sample_firestore_view spec_upload_def)
qed

fun fs_publish_run :: "'n fs_env \<Rightarrow> publish_op list \<Rightarrow> 'n firestore \<Rightarrow> 'n firestore" where
  "fs_publish_run env [] s = s"
| "fs_publish_run env (a # ops) s = fs_publish_run env ops (snd (fs_publish_op env a s))"

lemma fs_publish_run_eq:
  "fs_publish_run env ops s = firestore_publish.run env (map (\<lambda>a. (a, ())) ops) s"
  by (induction ops arbitrary: s) (simp_all add: fs_publish_step_def)

text \<open>
  The promises to the peers hold over Firestore too. Whatever requests come and however the service
  answers them, a record keeps its owner, an author's deletion is final, and what a moderator hid stays
  hidden until a moderator restores that record.
\<close>

theorem firestore_publish_promises:
  fixes docs :: "'n \<Rightarrow> documents"
  assumes "fs_publish_inv env docs s" "list_all storable_op ops" "fs_publish_view env docs s i = Some e"
  shows "(sp_deleted e \<longrightarrow> fs_publish_view env docs (fs_publish_run env ops s) i = Some e) \<and>
    ((\<forall>ob p. Upload ob p \<in> set ops \<longrightarrow> prp_peer_id (obj_payload ob) = p) \<longrightarrow>
       (\<exists>e'. fs_publish_view env docs (fs_publish_run env ops s) i = Some e' \<and> sp_peer e' = sp_peer e)) \<and>
    (sp_hidden e \<and> (\<forall>now r ad. Restore now i r ad \<notin> set ops) \<longrightarrow>
       (\<exists>e'. fs_publish_view env docs (fs_publish_run env ops s) i = Some e' \<and> sp_hidden e'))"
proof -
  have good: "\<forall>(a, u) \<in> set (map (\<lambda>a. (a, ())) ops). storable_op a" using assms(2) by (auto simp: list_all_iff)
  note kept = firestore_publish.deletion_final [OF assms(1) good assms(3)]
    firestore_publish.owner_kept [OF assms(1) good assms(3)] firestore_publish.hidden_kept [OF assms(1) good assms(3)]
  show ?thesis
  proof (intro conjI impI)
    assume "sp_deleted e"
    from kept(1) [OF this] show "fs_publish_view env docs (fs_publish_run env ops s) i = Some e"
      by (simp add: fs_publish_run_eq)
  next
    assume "\<forall>ob p. Upload ob p \<in> set ops \<longrightarrow> prp_peer_id (obj_payload ob) = p"
    then have "\<forall>(a, u) \<in> set (map (\<lambda>a. (a, ())) ops). \<forall>ob p. a = Upload ob p \<longrightarrow> prp_peer_id (obj_payload ob) = p" by auto
    from kept(2) [OF this] show "\<exists>e'. fs_publish_view env docs (fs_publish_run env ops s) i = Some e' \<and> sp_peer e' = sp_peer e"
      by (simp add: fs_publish_run_eq)
  next
    assume h: "sp_hidden e \<and> (\<forall>now r ad. Restore now i r ad \<notin> set ops)"
    then have "\<forall>(a, u) \<in> set (map (\<lambda>a. (a, ())) ops). \<forall>now r ad. a \<noteq> Restore now i r ad" by auto
    from kept(3) [OF conjunct1 [OF h] this]
    show "\<exists>e'. fs_publish_view env docs (fs_publish_run env ops s) i = Some e' \<and> sp_hidden e'"
      by (simp add: fs_publish_run_eq)
  qed
qed

text \<open>A deleted record that its author uploads again.\<close>

lemma toy_deleted_document:
  obtains D where "fs_publish_inv (toy_service sample_config) toy_document (firestore_new sample_config D)"
    "fs_publish_view (toy_service sample_config) toy_document (firestore_new sample_config D)
       = [''pub_1'' \<mapsto> author_delete (seconds 5) (stored_visible (sample_signed ''pub_1'' ''peer_a'' 0))]"
proof -
  let ?e = "author_delete (seconds 5) (stored_visible (sample_signed ''pub_1'' ''peer_a'' 0))"
  let ?name = "document_name sample_config ''publish_records'' ''pub_1''"
  obtain m where m: "jget (firestore_document_from_record toy ?name ?e) ''fields'' = Some (JObj m)" "value_of (JObj m) = JObj m"
    by (rule record_document_fields)
  let ?D = "[?name \<mapsto> (JObj m, ''t'')]"
  have storable: "record_storable ?e"
    unfolding record_storable_iff publish_codec.object_storable_def
    by (simp add: sample_signed_def author_delete_def stored_visible_def four_digit_year_def seconds_def)
  have D: "toy_document ?D = ?D"
    by (rule ext) (use m(2) in \<open>simp add: toy_document_def del: value_of.simps\<close>)
  have rec: "fs_record toy sample_config ?D i = (if i = ''pub_1'' then Some (record_millis ?e) else None)" for i
    using record_codec.content_written [OF toy_laws(7,8) storable m(1)]
    by (simp add: fs_record_def document_name_inject content_def)
  have millis: "record_millis ?e = ?e"
    by (simp add: record_millis_def author_delete_def stored_visible_def to_millis_def timestamp_millis_def seconds_def)
  have rec: "fs_record toy sample_config ?D i = (if i = ''pub_1'' then Some ?e else None)" for i
    using rec [of i] unfolding millis .
  have c: "fe_crates (toy_service sample_config) = toy" by (simp add: toy_service_def)
  show thesis
  proof (rule that)
    show "fs_publish_inv (toy_service sample_config) toy_document (firestore_new sample_config ?D)"
      using toy_service_law toy_laws(7,8) storable
      by (simp add: fs_publish_inv_def firestore_new_def c D rec)
    show "fs_publish_view (toy_service sample_config) toy_document (firestore_new sample_config ?D) = [''pub_1'' \<mapsto> ?e]"
      by (rule ext)
        (simp add: fs_publish_view_def firestore_new_def c D rec to_millis_def timestamp_millis_def seconds_def)
  qed
qed

theorem firestore_publish_promises_witness:
  "\<exists>D. fs_publish_view (toy_service sample_config) toy_document (fs_publish_run (toy_service sample_config)
       [Upload (sample_signed ''pub_1'' ''peer_a'' 0) (PeerId ''peer_a'')] (firestore_new sample_config D)) ''pub_1''
     = Some (author_delete (seconds 5) (stored_visible (sample_signed ''pub_1'' ''peer_a'' 0)))"
proof -
  obtain D where D: "fs_publish_inv (toy_service sample_config) toy_document (firestore_new sample_config D)"
    "fs_publish_view (toy_service sample_config) toy_document (firestore_new sample_config D)
       = [''pub_1'' \<mapsto> author_delete (seconds 5) (stored_visible (sample_signed ''pub_1'' ''peer_a'' 0))]"
    by (rule toy_deleted_document)
  have "list_all storable_op [Upload (sample_signed ''pub_1'' ''peer_a'' 0) (PeerId ''peer_a'')]"
    unfolding list.pred_inject storable_op.simps publish_codec.object_storable_def
    by (simp add: sample_signed_def four_digit_year_def seconds_def)
  from firestore_publish_promises [OF D(1) this, of "''pub_1''"] D(2) show ?thesis
    by (intro exI [of _ D]) (simp add: author_delete_def)
qed

text \<open>
  C36. What is stored in Firestore is read back: a record, an envelope, a hosted bucket and an activity
  bucket come back from their documents as they were, with the times that Firestore keeps cut to the
  millisecond.
\<close>

theorem documents_read_back:
  assumes "rfc3339_law x" "json_law x"
    and "record_storable e" "message_stored m" "bucket_storable b" "activity_storable a"
  shows "stored_record_from_firestore_document x (firestore_document_from_record x name e) = Ok (record_millis e) \<and>
    stored_message_from_firestore_document x (firestore_document_from_message x name m) = Ok (message_millis m) \<and>
    stored_backup_bucket_from_firestore_document x (firestore_document_from_backup_bucket x name b) = Ok (backup_millis b) \<and>
    stored_activity_bucket_from_firestore_document x (firestore_document_from_activity_bucket x name a) = Ok (activity_millis a)"
  by (intro conjI record_reads_back [OF assms(1-3)] message_reads_back [OF assms(1,2,4)]
      backup_reads_back [OF assms(1,2,5)] activity_reads_back [OF assms(1,2,6)])

theorem documents_read_back_witness:
  "stored_message_from_firestore_document toy (firestore_document_from_message toy ''m''
       \<lparr>sm_object = sample_envelope ''msg_1'' ''peer_b'' 0 9, sm_stored_at = 1500001\<rparr>)
     = Ok \<lparr>sm_object = sample_envelope ''msg_1'' ''peer_b'' 0 9, sm_stored_at = 1000000\<rparr>"
proof -
  let ?m = "\<lparr>sm_object = sample_envelope ''msg_1'' ''peer_b'' 0 9, sm_stored_at = 1500001\<rparr>"
  have y: "four_digit_year t" if "t \<in> {0, 9, 1500001}" for t
    using that by (auto simp: four_digit_year_def seconds_def)
  have m: "message_stored ?m"
    unfolding message_stored_def message_codec.object_storable_def
    by (simp add: sample_envelope_def y u64_max_def)
  have r: "record_storable (stored_visible (sample_signed ''pub_1'' ''peer_a'' 0))"
    unfolding record_storable_iff publish_codec.object_storable_def
    by (simp add: sample_signed_def stored_visible_def y)
  have b: "bucket_storable (hosted_bucket_new ''l'' ''h'' 0)" "activity_storable (activity_bucket_new ''l'' ''h'' 0)"
    by (simp_all add: bucket_storable_def hosted_bucket_new_def activity_storable_def activity_bucket_new_def y)
  show ?thesis
    using documents_read_back [OF toy_laws(7,8) r m b, of "''m''"]
    by (simp add: message_millis_def to_millis_def timestamp_millis_def)
qed

end
