(* ===== verification/Firestore_Concurrency.thy ===== *)
theory Firestore_Concurrency
  imports Firestore_Props
begin

text \<open>
  Several servers over one Firestore database. Each update reads its document, decides, and commits on
  condition that the document is still the one it read; in between the others run. As long as the
  service gives every commit a new update time, no update is lost.
\<close>

section \<open>Servers that run at the same time\<close>

fun op_id :: "publish_op \<Rightarrow> string" where
  "op_id (Upload ob p) = obj_id ob"
| "op_id (Delete now i p) = i"
| "op_id (Hide now i r a) = i"
| "op_id (Restore now i r a) = i"

fun op_change :: "publish_op \<Rightarrow> stored_publish option \<Rightarrow> stored_publish option" where
  "op_change (Upload ob p) q = snd (upsert_entry ob p q)"
| "op_change (Delete now i p) q = snd (delete_entry now p q)"
| "op_change (Hide now i r a) q = snd (moderate_entry (hide_record now r a) q)"
| "op_change (Restore now i r a) q = snd (moderate_entry (restore_record now r a) q)"

text \<open>
  The documents, the updates under way with the document each has read, the update times given out,
  and the operations that have taken effect, in their order.
\<close>

record database =
  db_documents :: documents
  db_pending :: "nat \<Rightarrow> (publish_op \<times> (json \<times> string) option) option"
  db_times :: "string set"
  db_done :: "publish_op list"

definition record_name :: "firestore_config \<Rightarrow> publish_op \<Rightarrow> string" where
  "record_name cfg a = document_name cfg ''publish_records'' (op_id a)"

definition seen_record :: "crates \<Rightarrow> (json \<times> string) option \<Rightarrow> stored_publish option" where
  "seen_record x seen =
     (case seen of None \<Rightarrow> None
      | Some (F, u) \<Rightarrow> result_ok (stored_record_from_firestore_document x (obj [(''fields'', F)])))"

definition readable :: "crates \<Rightarrow> (json \<times> string) option \<Rightarrow> bool" where
  "readable x seen \<longleftrightarrow> (seen = None \<longleftrightarrow> seen_record x seen = None)"

text \<open>
  A server reads; it answers at once if there is nothing to change; it commits and the condition holds;
  or it gives up, because the condition does not hold or because an exchange fails.
\<close>

inductive server_step :: "crates \<Rightarrow> firestore_config \<Rightarrow> database \<Rightarrow> database \<Rightarrow> bool"
  for x :: crates and cfg :: firestore_config where
  begins: "storable_op a \<Longrightarrow>
     server_step x cfg db (db\<lparr>db_pending := (db_pending db)(k \<mapsto> (a, db_documents db (record_name cfg a)))\<rparr>)"
| answers: "storable_op a \<Longrightarrow> readable x (db_documents db (record_name cfg a)) \<Longrightarrow>
     op_change a (seen_record x (db_documents db (record_name cfg a))) = None \<Longrightarrow>
     server_step x cfg db (db\<lparr>db_done := db_done db @ [a]\<rparr>)"
| commits: "db_pending db k = Some (a, seen) \<Longrightarrow> readable x seen \<Longrightarrow> op_change a (seen_record x seen) = Some e \<Longrightarrow>
     precondition_holds (precondition_of seen) (db_documents db (record_name cfg a)) \<Longrightarrow>
     jget (firestore_document_from_record x (record_name cfg a) e) ''fields'' = Some F \<Longrightarrow> u \<notin> db_times db \<Longrightarrow>
     server_step x cfg db
       \<lparr>db_documents = (db_documents db)(record_name cfg a \<mapsto> (F, u)), db_pending = (db_pending db)(k := None),
        db_times = insert u (db_times db), db_done = db_done db @ [a]\<rparr>"
| gives_up: "server_step x cfg db (db\<lparr>db_pending := (db_pending db)(k := None)\<rparr>)"

inductive_cases server_stepE: "server_step x cfg db db'"

definition records_view :: "crates \<Rightarrow> firestore_config \<Rightarrow> documents \<Rightarrow> (string \<rightharpoonup> stored_publish)" where
  "records_view x cfg D i = map_option record_millis (fs_record x cfg D i)"

text \<open>
  Every time in the database was given out, a document that a server has read and that still has its
  update time is unchanged, and all records can be stored.
\<close>

definition database_ok :: "crates \<Rightarrow> firestore_config \<Rightarrow> database \<Rightarrow> bool" where
  "database_ok x cfg db \<longleftrightarrow>
     (\<forall>name F u. db_documents db name = Some (F, u) \<longrightarrow> u \<in> db_times db) \<and>
     (\<forall>k a F u. db_pending db k = Some (a, Some (F, u)) \<longrightarrow> u \<in> db_times db \<and>
        (\<forall>G. db_documents db (record_name cfg a) = Some (G, u) \<longrightarrow> G = F)) \<and>
     (\<forall>k a seen. db_pending db k = Some (a, seen) \<longrightarrow> storable_op a) \<and>
     (\<forall>i e. fs_record x cfg (db_documents db) i = Some e \<longrightarrow> record_storable e)"

lemma seen_record_content: "seen_record x (D name) = content (stored_record_from_firestore_document x) D name"
  by (simp add: seen_record_def content_def split: option.split)

lemma spec_step_entry:
  assumes "storable_op a" "pred_option record_storable q" "m (op_id a) = map_option record_millis q"
  shows "spec_step (trim_op a) m = m(op_id a := (case op_change a q of None \<Rightarrow> map_option record_millis q | Some b \<Rightarrow> Some (record_millis b)))"
    "pred_option record_storable (op_change a q)"
proof -
  have *: "f (map_option record_millis q) = (case snd (change q) of None \<Rightarrow> map_option record_millis q | Some b \<Rightarrow> Some (record_millis b))"
      "pred_option record_storable (snd (change q))"
    if "decides change f" for change :: "stored_publish option \<Rightarrow> 'r \<times> stored_publish option" and f
    using that assms(2) unfolding decides_def by (metis prod.collapse)+
  show "spec_step (trim_op a) m = m(op_id a := (case op_change a q of None \<Rightarrow> map_option record_millis q | Some b \<Rightarrow> Some (record_millis b)))"
    using assms(1,3) by (cases a) (simp_all add: decisions [THEN *(1)])
  show "pred_option record_storable (op_change a q)"
    using assms(1) by (cases a) (simp_all add: decisions [THEN *(2)])
qed

lemma precondition_same:
  "precondition_holds (precondition_of seen) d \<longleftrightarrow> map_option snd d = map_option snd seen"
  by (cases seen; cases d) (auto simp: precondition_holds_def precondition_of_def)

lemma server_step_spec:
  assumes laws: "rfc3339_law x" "json_law x" and ok: "database_ok x cfg db" and step: "server_step x cfg db db'"
  shows "database_ok x cfg db' \<and>
    (db_done db' = db_done db \<and> records_view x cfg (db_documents db') = records_view x cfg (db_documents db) \<or>
     (\<exists>a. db_done db' = db_done db @ [a] \<and>
        records_view x cfg (db_documents db') = spec_step (trim_op a) (records_view x cfg (db_documents db))))"
  using step
proof cases
  case (begins a k)
  show ?thesis using ok unfolding begins database_ok_def by (auto simp: begins(2))
next
  case (answers a)
  let ?q = "fs_record x cfg (db_documents db) (op_id a)"
  have "pred_option record_storable ?q" using ok by (simp add: database_ok_def option.pred_set)
  moreover have "op_change a ?q = None"
    using answers(4) by (simp add: fs_record_def record_name_def seen_record_content)
  ultimately have "spec_step (trim_op a) (records_view x cfg (db_documents db)) = records_view x cfg (db_documents db)"
    using spec_step_entry(1) [OF answers(2), of ?q "records_view x cfg (db_documents db)"]
    by (simp add: records_view_def fun_upd_idem)
  with ok show ?thesis by (simp add: answers(1) database_ok_def)
next
  case (commits k a seen e F u)
  let ?D = "db_documents db" and ?name = "record_name cfg a"
  let ?q = "fs_record x cfg ?D (op_id a)" and ?V = "records_view x cfg ?D"
  have a: "storable_op a" using ok commits(2) unfolding database_ok_def by blast
  have same: "?D ?name = seen"
  proof -
    have "\<forall>F u. seen = Some (F, u) \<longrightarrow> (\<forall>G. ?D ?name = Some (G, u) \<longrightarrow> G = F)"
      using ok commits(2) unfolding database_ok_def by blast
    moreover have "map_option snd (?D ?name) = map_option snd seen" using commits(5) by (simp add: precondition_same)
    ultimately show ?thesis by (cases seen; cases "?D ?name") auto
  qed
  have q: "?q = seen_record x seen"
    using same by (simp add: fs_record_def record_name_def seen_record_content [symmetric])
  have st: "pred_option record_storable ?q" using ok by (simp add: database_ok_def option.pred_set)
  note s = spec_step_entry [OF a st, of ?V, unfolded q commits(4)]
  have e: "record_storable e" using spec_step_entry(2) [OF a st, of ?V] by (simp add: records_view_def q commits(4))
  have new: "fs_record x cfg (?D(?name \<mapsto> (F, u))) i = (if i = op_id a then Some (record_millis e) else fs_record x cfg ?D i)" for i
    using record_codec.content_written [OF laws e commits(6)]
    by (simp add: fs_record_def record_name_def document_name_inject content_def)
  have "records_view x cfg (?D(?name \<mapsto> (F, u))) = ?V(op_id a \<mapsto> record_millis e)"
    by (rule ext) (simp add: records_view_def new)
  moreover have "spec_step (trim_op a) ?V = ?V(op_id a \<mapsto> record_millis e)"
    using spec_step_entry(1) [OF a st, of ?V] by (simp add: records_view_def q commits(4))
  moreover have "database_ok x cfg db'"
    unfolding database_ok_def
  proof (intro conjI)
    show "\<forall>name G t. db_documents db' name = Some (G, t) \<longrightarrow> t \<in> db_times db'"
      using ok by (auto simp: commits(1) database_ok_def)
    show "\<forall>k' b G t. db_pending db' k' = Some (b, Some (G, t)) \<longrightarrow> t \<in> db_times db' \<and>
        (\<forall>H. db_documents db' (record_name cfg b) = Some (H, t) \<longrightarrow> H = G)"
      using ok commits(7) by (auto simp: commits(1) database_ok_def)
    show "\<forall>k' b seen. db_pending db' k' = Some (b, seen) \<longrightarrow> storable_op b"
      using ok by (auto simp: commits(1) database_ok_def)
    show "\<forall>i r. fs_record x cfg (db_documents db') i = Some r \<longrightarrow> record_storable r"
      using ok e by (auto simp: commits(1) new database_ok_def)
  qed
  ultimately show ?thesis by (simp add: commits(1))
next
  case (gives_up k)
  then show ?thesis using ok by (auto simp: database_ok_def)
qed


definition empty_database :: database where
  "empty_database = \<lparr>db_documents = Map.empty, db_pending = Map.empty, db_times = {}, db_done = []\<rparr>"


end
