(* ===== verification/Stores.thy ===== *)
theory Stores
  imports Firestore_Props
begin

text \<open>
  The stores as the server holds them (\<^verbatim>\<open>PublishStore\<close>, \<^verbatim>\<open>MessageStore\<close>, \<^verbatim>\<open>BackupStore\<close> and \<^verbatim>\<open>ActivityStore\<close> of
  \<^verbatim>\<open>crates/aichan-server/src/lib.rs\<close>): each is a file or Firestore. The handlers call the operations of the
  enum, so what holds here holds of every deployment. \<open>io\<close> is what the I/O of the file store does, and
  \<open>env\<close> the environment of the Firestore store.
\<close>

section \<open>Publish records\<close>

datatype 'n publish_store = FilePublish "stored_publish disk" | FirestorePublish "'n firestore"

definition publish_store_file :: "string \<Rightarrow> string option \<Rightarrow> stored_publish disk \<Rightarrow> string + 'n publish_store" where
  "publish_store_file data_dir failure d = map_ok FilePublish (file_store_new data_dir ''publish_records.json'' failure d)"

definition publish_store_upsert ::
  "io_plan \<Rightarrow> 'n fs_env \<Rightarrow> publish_object \<Rightarrow> peer_id \<Rightarrow> ('n publish_store, publish_upsert_status) step" where
  "publish_store_upsert io env object peer_id st =
     (case st of
        FilePublish d \<Rightarrow> apsnd FilePublish (publish_upsert io object peer_id d)
      | FirestorePublish s \<Rightarrow> apsnd FirestorePublish (fs_upsert env object peer_id s))"

definition publish_store_search ::
  "'n fs_env \<Rightarrow> publish_search_request \<Rightarrow> ('n publish_store, publish_search_page) step" where
  "publish_store_search env q st =
     (case st of
        FilePublish d \<Rightarrow> (publish_search (fe_crates env) q d, FilePublish d)
      | FirestorePublish s \<Rightarrow> apsnd FirestorePublish (fs_search env q s))"

definition publish_store_discover ::
  "'n fs_env \<Rightarrow> publish_discover_request \<Rightarrow> ('n publish_store, publish_object list) step" where
  "publish_store_discover env q st =
     (case st of
        FilePublish d \<Rightarrow> (publish_discover (fe_crates env) q d, FilePublish d)
      | FirestorePublish s \<Rightarrow> apsnd FirestorePublish (fs_discover env q s))"

definition publish_store_delete ::
  "io_plan \<Rightarrow> 'n fs_env \<Rightarrow> datetime \<Rightarrow> string \<Rightarrow> peer_id \<Rightarrow> ('n publish_store, publish_delete_status) step" where
  "publish_store_delete io env now publish_id peer_id st =
     (case st of
        FilePublish d \<Rightarrow> apsnd FilePublish (mark_author_deleted io now publish_id peer_id d)
      | FirestorePublish s \<Rightarrow> apsnd FirestorePublish (fs_mark_author_deleted env now publish_id peer_id s))"

definition publish_store_stats :: "'n fs_env \<Rightarrow> ('n publish_store, public_stats) step" where
  "publish_store_stats env st =
     (case st of
        FilePublish d \<Rightarrow> (publish_stats d, FilePublish d)
      | FirestorePublish s \<Rightarrow> apsnd FirestorePublish (fs_stats env s))"

definition publish_store_hide ::
  "io_plan \<Rightarrow> 'n fs_env \<Rightarrow> datetime \<Rightarrow> string \<Rightarrow> string \<Rightarrow> admin_principal \<Rightarrow>
   ('n publish_store, publish_moderation_status) step" where
  "publish_store_hide io env now publish_id reason admin st =
     (case st of
        FilePublish d \<Rightarrow> apsnd FilePublish (admin_hide io now publish_id reason admin d)
      | FirestorePublish s \<Rightarrow> apsnd FirestorePublish (fs_admin_hide env now publish_id reason admin s))"

definition publish_store_restore ::
  "io_plan \<Rightarrow> 'n fs_env \<Rightarrow> datetime \<Rightarrow> string \<Rightarrow> string \<Rightarrow> admin_principal \<Rightarrow>
   ('n publish_store, publish_moderation_status) step" where
  "publish_store_restore io env now publish_id reason admin st =
     (case st of
        FilePublish d \<Rightarrow> apsnd FilePublish (admin_restore io now publish_id reason admin d)
      | FirestorePublish s \<Rightarrow> apsnd FirestorePublish (fs_admin_restore env now publish_id reason admin s))"

section \<open>Message envelopes\<close>

datatype 'n message_store = FileMessages "stored_message disk" | FirestoreMessages "'n firestore"

definition message_store_file :: "string \<Rightarrow> string option \<Rightarrow> stored_message disk \<Rightarrow> string + 'n message_store" where
  "message_store_file data_dir failure d = map_ok FileMessages (file_store_new data_dir ''message_envelopes.json'' failure d)"

definition message_store_insert ::
  "io_plan \<Rightarrow> 'n fs_env \<Rightarrow> datetime \<Rightarrow> message_object \<Rightarrow> ('n message_store, unit) step" where
  "message_store_insert io env now object st =
     (case st of
        FileMessages d \<Rightarrow> apsnd FileMessages (message_insert io now object d)
      | FirestoreMessages s \<Rightarrow> apsnd FirestoreMessages (fs_message_insert env now object s))"

definition message_store_inbox ::
  "'n fs_env \<Rightarrow> peer_id \<Rightarrow> nat \<Rightarrow> datetime \<Rightarrow> ('n message_store, message_object list) step" where
  "message_store_inbox env recipient limit now st =
     (case st of
        FileMessages d \<Rightarrow> (message_inbox recipient limit now d, FileMessages d)
      | FirestoreMessages s \<Rightarrow> apsnd FirestoreMessages (fs_inbox env recipient limit now s))"

definition message_store_count :: "'n fs_env \<Rightarrow> ('n message_store, nat) step" where
  "message_store_count env st =
     (case st of
        FileMessages d \<Rightarrow> (message_count d, FileMessages d)
      | FirestoreMessages s \<Rightarrow> apsnd FirestoreMessages (fs_message_count env s))"

section \<open>Hosted backups\<close>

datatype 'n backup_store = FileBackups "hosted_bucket disk" | FirestoreBackups "'n firestore"

definition backup_store_file :: "string \<Rightarrow> string option \<Rightarrow> hosted_bucket disk \<Rightarrow> string + 'n backup_store" where
  "backup_store_file data_dir failure d = map_ok FileBackups (file_store_new data_dir ''hosted_backups.json'' failure d)"

definition backup_store_put ::
  "io_plan \<Rightarrow> 'n fs_env \<Rightarrow> datetime \<Rightarrow> string \<Rightarrow> string \<Rightarrow> json \<Rightarrow> ('n backup_store, backup_put_status) step" where
  "backup_store_put io env now lookup_id auth_token backup st =
     (case st of
        FileBackups d \<Rightarrow> apsnd FileBackups (backup_put (fe_crates env) io now lookup_id auth_token backup d)
      | FirestoreBackups s \<Rightarrow> apsnd FirestoreBackups (fs_backup_put env now lookup_id auth_token backup s))"

definition backup_store_latest :: "'n fs_env \<Rightarrow> string \<Rightarrow> string \<Rightarrow> ('n backup_store, backup_read_status) step" where
  "backup_store_latest env lookup_id auth_token st =
     (case st of
        FileBackups d \<Rightarrow> (backup_latest (fe_crates env) lookup_id auth_token d, FileBackups d)
      | FirestoreBackups s \<Rightarrow> apsnd FirestoreBackups (fs_backup_latest env lookup_id auth_token s))"

definition backup_store_list :: "'n fs_env \<Rightarrow> string \<Rightarrow> string \<Rightarrow> ('n backup_store, backup_list_status) step" where
  "backup_store_list env lookup_id auth_token st =
     (case st of
        FileBackups d \<Rightarrow> (backup_list (fe_crates env) lookup_id auth_token d, FileBackups d)
      | FirestoreBackups s \<Rightarrow> apsnd FirestoreBackups (fs_backup_list env lookup_id auth_token s))"

section \<open>Activity\<close>

datatype 'n activity_store = FileActivities "activity_bucket disk" | FirestoreActivities "'n firestore"

definition activity_store_file :: "string \<Rightarrow> string option \<Rightarrow> activity_bucket disk \<Rightarrow> string + 'n activity_store" where
  "activity_store_file data_dir failure d = map_ok FileActivities (file_store_new data_dir ''activity_events.json'' failure d)"

definition activity_store_put ::
  "io_plan \<Rightarrow> 'n fs_env \<Rightarrow> datetime \<Rightarrow> string \<Rightarrow> string \<Rightarrow> activity_event \<Rightarrow>
   ('n activity_store, activity_put_status) step" where
  "activity_store_put io env now bucket_id auth_token e st =
     (case st of
        FileActivities d \<Rightarrow> apsnd FileActivities (activity_put (fe_crates env) io now bucket_id auth_token e d)
      | FirestoreActivities s \<Rightarrow> apsnd FirestoreActivities (fs_activity_put env now bucket_id auth_token e s))"

definition activity_store_list ::
  "io_plan \<Rightarrow> 'n fs_env \<Rightarrow> string \<Rightarrow> string \<Rightarrow> nat \<Rightarrow> activity_cursor option \<Rightarrow> datetime \<Rightarrow>
   ('n activity_store, activity_list_status) step" where
  "activity_store_list io env bucket_id auth_token limit cursor now st =
     (case st of
        FileActivities d \<Rightarrow>
          apsnd FileActivities (activity_list (fe_crates env) io bucket_id auth_token limit cursor now d)
      | FirestoreActivities s \<Rightarrow>
          apsnd FirestoreActivities (fs_activity_list env bucket_id auth_token limit cursor now s))"

end
