(* ===== verification/Stores_Laws.thy ===== *)
theory Stores_Laws
  imports Stores
begin

text \<open>
  What the server's stores promise, be they files or Firestore. A store of publish records refines the
  map of the contract; a store of messages never loses or replaces an envelope; a bucket of backups or
  of activity belongs to the token that opened it. The last is stated as a locale of its own, whose
  lemma is proved once for both kinds of bucket and both kinds of store.
\<close>

section \<open>A collection of documents\<close>

definition stored_in :: "(json \<Rightarrow> string + 'a) \<Rightarrow> firestore_config \<Rightarrow> string \<Rightarrow> documents \<Rightarrow> string \<Rightarrow> 'a option" where
  "stored_in decode cfg collection D i = content decode D (document_name cfg collection i)"

definition collection_ok ::
  "'n fs_env \<Rightarrow> ('n \<Rightarrow> documents) \<Rightarrow> (json \<Rightarrow> string + 'a) \<Rightarrow> ('a \<Rightarrow> bool) \<Rightarrow> string \<Rightarrow> 'n firestore \<Rightarrow> bool" where
  "collection_ok env docs decode storable collection s \<longleftrightarrow>
     firestore_law env (fs_config s) docs \<and> rfc3339_law (fe_crates env) \<and> json_law (fe_crates env) \<and>
     (\<forall>i a. stored_in decode (fs_config s) collection (docs (fs_net s)) i = Some a \<longrightarrow> storable a)"

context document_codec
begin

lemma collection_update:
  fixes docs :: "'n \<Rightarrow> documents" and s s' :: "'n firestore" and env :: "'n fs_env"
  assumes ok: "collection_ok env docs decode storable coll s" and x: "fe_crates env = x"
    and norm: "\<And>a. storable a \<Longrightarrow> storable (norm a)"
    and change: "\<And>q v a. pred_option storable q \<Longrightarrow> change q = (v, Some a) \<Longrightarrow> storable a"
    and run: "update_document env missing decode encode change (document_name (fs_config s) coll i) s = (r, s')"
  shows "collection_ok env docs decode storable coll s'"
    "stored_in decode (fs_config s') coll (docs (fs_net s')) j = stored_in decode (fs_config s) coll (docs (fs_net s)) j \<or>
     j = i \<and> (\<exists>v a. change (stored_in decode (fs_config s) coll (docs (fs_net s)) i) = (v, Some a) \<and>
       stored_in decode (fs_config s') coll (docs (fs_net s')) i = Some (norm a))"
proof -
  let ?at = "\<lambda>t :: 'n firestore. stored_in decode (fs_config t) coll (docs (fs_net t))"
  let ?name = "\<lambda>i. document_name (fs_config s) coll i"
  have law: "firestore_law env (fs_config s) docs" "rfc3339_law x" "json_law x"
    and st: "\<And>i a. ?at s i = Some a \<Longrightarrow> storable a"
    using ok x by (simp_all add: collection_ok_def)
  have ch: "\<forall>v a. change (content decode (docs (fs_net s)) (?name i)) = (v, Some a) \<longrightarrow> storable a"
    using change [of "?at s i"] st [of i] unfolding stored_in_def
    by (cases "content decode (docs (fs_net s)) (?name i)") simp_all
  note e = update_effect [OF law(1) x law(2,3) ch run]
  have other: "?at s' k = ?at s k" if "k \<noteq> i" for k
  proof -
    have "?name k \<noteq> ?name i" using that by (simp add: document_name_inject)
    then have "docs (fs_net s') (?name k) = docs (fs_net s) (?name k)" by (rule e(2))
    then show ?thesis by (simp add: stored_in_def content_def e(1))
  qed
  from e(3) have here: "?at s' i = ?at s i \<or> (\<exists>v a. change (?at s i) = (v, Some a) \<and> ?at s' i = Some (norm a))"
    unfolding stored_in_def e(1) by (auto simp: content_def)
  then show "?at s' j = ?at s j \<or> j = i \<and> (\<exists>v a. change (?at s i) = (v, Some a) \<and> ?at s' i = Some (norm a))"
    using other [of j] by (cases "j = i") auto
  have "storable a" if a: "?at s' k = Some a" for k a
  proof (cases "?at s' k = ?at s k")
    case True
    with a st show ?thesis by simp
  next
    case False
    then have "k = i" using other by blast
    with here False obtain v b where "change (?at s i) = (v, Some b)" "?at s' i = Some (norm b)" by blast
    with a \<open>k = i\<close> ch norm show ?thesis by (auto simp: stored_in_def)
  qed
  with law x e(1) show "collection_ok env docs decode storable coll s'" by (simp add: collection_ok_def)
qed

lemma collection_read:
  fixes docs :: "'n \<Rightarrow> documents"
  assumes "collection_ok env docs decode storable coll s" and "fe_crates env = x"
    and "get_document env missing decode (document_name (fs_config s) coll i) s = (Ok d, s')"
    and "stored_in decode (fs_config s) coll (docs (fs_net s)) i = Some a"
  shows "map_option fst d = Some a"
proof -
  have law: "firestore_law env (fs_config s) docs" using assms(1) by (simp add: collection_ok_def)
  from get_document_result [OF law assms(2,3)] assms(4) show ?thesis
    by (cases d) (auto simp: stored_in_def content_def)
qed

text \<open>A document that is created on condition that there is none.\<close>

lemma collection_create:
  fixes docs :: "'n \<Rightarrow> documents" and s s' :: "'n firestore" and env :: "'n fs_env"
  assumes ok: "collection_ok env docs decode storable coll s" and x: "fe_crates env = x"
    and norm: "storable (norm a)" and a: "storable a"
    and run: "commit_document env (encode (document_name (fs_config s) coll i) a) MissingDocument s = (r, s')"
  shows "collection_ok env docs decode storable coll s'"
    "stored_in decode (fs_config s) coll (docs (fs_net s)) j = Some e \<Longrightarrow>
     stored_in decode (fs_config s') coll (docs (fs_net s')) j = Some e"
    "r = Ok u \<Longrightarrow> stored_in decode (fs_config s) coll (docs (fs_net s)) i = None \<and>
     stored_in decode (fs_config s') coll (docs (fs_net s')) i = Some (norm a)"
proof -
  let ?at = "\<lambda>t :: 'n firestore. stored_in decode (fs_config t) coll (docs (fs_net t))"
  let ?name = "\<lambda>i. document_name (fs_config s) coll i"
  have law: "firestore_law env (fs_config s) docs" "rfc3339_law x" "json_law x"
    and st: "\<And>i a. ?at s i = Some a \<Longrightarrow> storable a"
    using ok x by (simp_all add: collection_ok_def)
  obtain m where m: "jget (encode (?name i) a) ''fields'' = Some (JObj m)" using written_fields by blast
  note c = commit_result [OF law(1) written_name m commit_plain run]
  from c(2) have out: "docs (fs_net s') = docs (fs_net s) \<and> (\<exists>e. r = Err e) \<or>
      docs (fs_net s) (?name i) = None \<and> (\<exists>u. docs (fs_net s') = (docs (fs_net s))(?name i \<mapsto> (JObj m, u)))"
    by (simp add: precondition_holds_def)
  have created: "?at s' k = (if k = i then Some (norm a) else ?at s k)"
    if "docs (fs_net s') = (docs (fs_net s))(?name i \<mapsto> (JObj m, u))" for k u
    unfolding stored_in_def c(1) that
    using content_written [OF law(2,3) a m] by (simp add: document_name_inject content_def)
  have none: "?at s i = None" if "docs (fs_net s) (?name i) = None"
    using that by (simp add: stored_in_def content_def)
  show "collection_ok env docs decode storable coll s'"
    using out law x c(1) st norm created unfolding collection_ok_def
    by (metis option.inject stored_in_def)
  show "?at s' j = Some e" if "?at s j = Some e"
    using out that created [of _ j] none by (cases "j = i") (auto simp: stored_in_def c(1))
  show "?at s i = None \<and> ?at s' i = Some (norm a)" if "r = Ok u"
    using out that created [of _ i] none by auto
qed

end

section \<open>Publish records\<close>

fun publish_store_op :: "'n fs_env \<Rightarrow> publish_op \<Rightarrow> io_plan \<Rightarrow> 'n publish_store \<Rightarrow> bool \<times> 'n publish_store" where
  "publish_store_op env (Upload ob p) io st = apfst is_ok (publish_store_upsert io env ob p st)"
| "publish_store_op env (Delete now i p) io st = apfst is_ok (publish_store_delete io env now i p st)"
| "publish_store_op env (Hide now i r a) io st = apfst is_ok (publish_store_hide io env now i r a st)"
| "publish_store_op env (Restore now i r a) io st = apfst is_ok (publish_store_restore io env now i r a st)"

definition publish_store_inv :: "'n fs_env \<Rightarrow> ('n \<Rightarrow> documents) \<Rightarrow> 'n publish_store \<Rightarrow> bool" where
  "publish_store_inv env docs st =
     (case st of FilePublish d \<Rightarrow> disk_inv publish_ok d | FirestorePublish s \<Rightarrow> fs_publish_inv env docs s)"

definition publish_store_view :: "'n fs_env \<Rightarrow> ('n \<Rightarrow> documents) \<Rightarrow> 'n publish_store \<Rightarrow> (string \<rightharpoonup> stored_publish)" where
  "publish_store_view env docs st =
     (case st of FilePublish d \<Rightarrow> publish_abs d | FirestorePublish s \<Rightarrow> fs_publish_view env docs s)"

text \<open>The times of an operation as the store keeps them.\<close>

definition publish_store_trim :: "'n publish_store \<Rightarrow> publish_op \<Rightarrow> publish_op" where
  "publish_store_trim st a = (case st of FilePublish d \<Rightarrow> a | FirestorePublish s \<Rightarrow> trim_op a)"

lemma publish_store_op_file: "snd (publish_store_op env a io (FilePublish d)) = FilePublish (publish_step a io d)"
  by (cases a) (simp_all add: publish_store_upsert_def publish_store_delete_def publish_store_hide_def
      publish_store_restore_def apsnd_def apfst_def map_prod_def split: prod.split)

lemma publish_store_op_firestore:
  "publish_store_op env a io (FirestorePublish s) = apsnd FirestorePublish (fs_publish_op env a s)"
  by (cases a) (simp_all add: publish_store_upsert_def publish_store_delete_def publish_store_hide_def
      publish_store_restore_def apsnd_def apfst_def map_prod_def split: prod.split)

interpretation any_publish: publish_contract "publish_store_inv env docs" "publish_store_view env docs"
  "\<lambda>a io st. snd (publish_store_op env a io st)" publish_store_trim storable_op
  for env :: "'n fs_env" and docs :: "'n \<Rightarrow> documents"
proof
  fix st :: "'n publish_store" and a and io :: io_plan
  assume inv: "publish_store_inv env docs st" and good: "storable_op a"
  let ?st = "snd (publish_store_op env a io st)"
  have "publish_store_inv env docs ?st \<and> (publish_store_view env docs ?st = publish_store_view env docs st \<or>
     publish_store_view env docs ?st = spec_step (publish_store_trim st a) (publish_store_view env docs st))"
  proof (cases st)
    case (FilePublish d)
    then have "disk_inv publish_ok d" using inv by (simp add: publish_store_inv_def)
    from file_publish.inv_step [OF this TrueI] file_publish.view_step [OF this TrueI] FilePublish show ?thesis
      by (simp add: publish_store_inv_def publish_store_view_def publish_store_trim_def publish_store_op_file)
  next
    case (FirestorePublish s)
    then have "fs_publish_inv env docs s" using inv by (simp add: publish_store_inv_def)
    from firestore_publish.inv_step [OF this good, of "()"] firestore_publish.view_step [OF this good, of "()"] FirestorePublish
    show ?thesis
      by (simp add: publish_store_inv_def publish_store_view_def publish_store_trim_def publish_store_op_firestore
          fs_publish_step_def)
  qed
  then show "publish_store_inv env docs ?st"
    and "publish_store_view env docs ?st = publish_store_view env docs st \<or>
     publish_store_view env docs ?st = spec_step (publish_store_trim st a) (publish_store_view env docs st)" by blast+
next
  show "same_op a (publish_store_trim st a)" for st :: "'n publish_store" and a
    by (cases a; cases st) (simp_all add: publish_store_trim_def)
qed

fun publish_store_run :: "'n fs_env \<Rightarrow> (publish_op \<times> io_plan) list \<Rightarrow> 'n publish_store \<Rightarrow> 'n publish_store" where
  "publish_store_run env [] st = st"
| "publish_store_run env ((a, io) # ops) st = publish_store_run env ops (snd (publish_store_op env a io st))"

lemma publish_store_run_eq: "publish_store_run env ops st = any_publish.run env ops st"
  by (induction env ops st rule: publish_store_run.induct) simp_all

text \<open>
  The promises of the relay to the peers, over a file and over Firestore. Whatever requests come and
  however the disk or the service answers them, a record keeps its owner, an author's deletion is final,
  and what a moderator hid stays hidden until a moderator restores that record.
\<close>

theorem publish_store_promises:
  fixes docs :: "'n \<Rightarrow> documents"
  assumes "publish_store_inv env docs st" "\<forall>(a, io) \<in> set ops. storable_op a"
    and "publish_store_view env docs st i = Some e" "publish_store_run env ops st = st'"
  shows "(sp_deleted e \<longrightarrow> publish_store_view env docs st' i = Some e) \<and>
    ((\<forall>(a, io) \<in> set ops. \<forall>ob p. a = Upload ob p \<longrightarrow> prp_peer_id (obj_payload ob) = p) \<longrightarrow>
       (\<exists>e'. publish_store_view env docs st' i = Some e' \<and> sp_peer e' = sp_peer e)) \<and>
    (sp_hidden e \<and> (\<forall>(a, io) \<in> set ops. \<forall>now r ad. a \<noteq> Restore now i r ad) \<longrightarrow>
       (\<exists>e'. publish_store_view env docs st' i = Some e' \<and> sp_hidden e'))"
proof -
  note kept = any_publish.deletion_final [OF assms(1-3)] any_publish.owner_kept [OF assms(1-3)]
    any_publish.hidden_kept [OF assms(1-3)]
  show ?thesis
    unfolding assms(4) [symmetric] publish_store_run_eq using kept by blast
qed

lemma sample_signed_storable: "publish_codec.object_storable (sample_signed ''pub_1'' ''peer_a'' 0)"
  unfolding publish_codec.object_storable_def
  by (simp add: sample_signed_def four_digit_year_def seconds_def)

theorem publish_store_promises_witness:
  "let e = author_delete 5 (stored_visible (sample_signed ''pub_1'' ''peer_a'' 0));
       st = FilePublish \<lparr>disk_path = ''p'', main_file = Content [e], temp_file = Missing\<rparr> in
   publish_store_view (toy_service sample_config) toy_document
     (publish_store_run (toy_service sample_config)
        [(Upload (sample_signed ''pub_1'' ''peer_a'' 0) (PeerId ''peer_a''), io_ok)] st) ''pub_1'' = Some e"
proof -
  let ?e = "author_delete 5 (stored_visible (sample_signed ''pub_1'' ''peer_a'' 0))"
  let ?d = "\<lparr>disk_path = ''p'', main_file = Content [?e], temp_file = Missing\<rparr>"
  let ?ops = "[(Upload (sample_signed ''pub_1'' ''peer_a'' 0) (PeerId ''peer_a''), io_ok)]"
  have i: "obj_id (sample_signed ''pub_1'' ''peer_a'' 0) = ''pub_1''" by (simp add: sample_signed_def)
  have l: "load ?d = Ok [?e]" by (simp add: load_def)
  have inv: "publish_store_inv (toy_service sample_config) toy_document (FilePublish ?d)"
    by (simp add: publish_store_inv_def disk_inv_def l publish_ok_def)
  have view: "publish_store_view (toy_service sample_config) toy_document (FilePublish ?d) ''pub_1'' = Some ?e"
    by (simp add: publish_store_view_def publish_abs_def l publish_map_def i)
  have ok: "\<forall>(a, io) \<in> set ?ops. storable_op a" by (simp add: sample_signed_storable)
  show ?thesis
    using publish_store_promises [OF inv ok view refl] by (simp add: Let_def)
qed

section \<open>Message envelopes\<close>

abbreviation messages_collection :: string where "messages_collection \<equiv> ''private_messages''"

definition message_store_inv :: "'n fs_env \<Rightarrow> ('n \<Rightarrow> documents) \<Rightarrow> 'n message_store \<Rightarrow> bool" where
  "message_store_inv env docs st =
     (case st of FileMessages d \<Rightarrow> disk_inv messages_ok d
      | FirestoreMessages s \<Rightarrow> collection_ok env docs (stored_message_from_firestore_document (fe_crates env))
          message_stored messages_collection s)"

definition message_store_view :: "'n fs_env \<Rightarrow> ('n \<Rightarrow> documents) \<Rightarrow> 'n message_store \<Rightarrow> (string \<rightharpoonup> stored_message)" where
  "message_store_view env docs st i =
     (case st of
        FileMessages d \<Rightarrow> (case load d of Inl e \<Rightarrow> None | Inr rs \<Rightarrow> find (\<lambda>e. sm_id e = i) rs)
      | FirestoreMessages s \<Rightarrow> stored_in (stored_message_from_firestore_document (fe_crates env)) (fs_config s)
          messages_collection (docs (fs_net s)) i)"

lemma message_millis_stored [simp]: "message_stored e \<Longrightarrow> message_stored (message_millis e)"
  by (simp add: message_stored_def message_millis_def)

lemma find_exists: "e \<in> set rs \<Longrightarrow> P e \<Longrightarrow> \<exists>y. find P rs = Some y"
  by (cases "find P rs") (auto simp: find_None_iff)

lemma message_store_insert_keeps:
  fixes docs :: "'n \<Rightarrow> documents"
  assumes inv: "message_store_inv env docs st"
    and ok: "message_stored \<lparr>sm_object = m, sm_stored_at = now\<rparr>"
    and run: "message_store_insert io env now m st = (r, st')"
  shows "message_store_inv env docs st'" "message_store_view env docs st i = Some e \<Longrightarrow> message_store_view env docs st' i = Some e"
    "r = Ok u \<Longrightarrow> \<exists>e. message_store_view env docs st' (obj_id m) = Some e \<and>
       (message_store_view env docs st (obj_id m) = None \<longrightarrow> sm_object e = m)"
proof -
  have "message_store_inv env docs st' \<and>
    (message_store_view env docs st i = Some e \<longrightarrow> message_store_view env docs st' i = Some e) \<and>
    (r = Ok u \<longrightarrow> (\<exists>e. message_store_view env docs st' (obj_id m) = Some e \<and>
       (message_store_view env docs st (obj_id m) = None \<longrightarrow> sm_object e = m)))"
  proof (cases st)
    case (FileMessages d)
    obtain d' where d': "message_insert io now m d = (r, d')" "st' = FileMessages d'"
      using run FileMessages by (auto simp: message_store_insert_def apsnd_def map_prod_def split: prod.splits)
    have "disk_inv messages_ok d'"
      using message_insert_inv [of d io now m] inv d'(1) FileMessages by (simp add: message_store_inv_def)
    moreover obtain rs where "r = Ok u \<Longrightarrow> load d = Ok rs" and
      "load d' = load d \<and> (r = Ok u \<longrightarrow> (\<exists>e. find (\<lambda>e. sm_id e = obj_id m) rs = Some e)) \<or>
       load d = Ok rs \<and> load d' = Ok (rs @ [\<lparr>sm_object = m, sm_stored_at = now\<rparr>])"
      using store_update_result [OF d'(1) [unfolded message_insert_def]]
      by (auto simp: message_insert_records_def find_exists split: if_splits)
    ultimately show ?thesis
      using d'(2) FileMessages
      by (auto simp: message_store_inv_def message_store_view_def find_append split: sum.splits option.splits)
  next
    case (FirestoreMessages s)
    let ?x = "fe_crates env"
    obtain s' where s': "fs_message_insert env now m s = (r, s')" "st' = FirestoreMessages s'"
      using run FirestoreMessages by (auto simp: message_store_insert_def apsnd_def map_prod_def split: prod.splits)
    have c: "collection_ok env docs (stored_message_from_firestore_document ?x) message_stored messages_collection s"
      using inv FirestoreMessages by (simp add: message_store_inv_def)
    note k = message_codec1.collection_create [OF c refl message_millis_stored [OF ok] ok
        s'(1) [unfolded fs_message_insert_def Let_def]]
    have "sm_object (message_millis \<lparr>sm_object = m, sm_stored_at = now\<rparr>) = m" by (simp add: message_millis_def)
    with k(1) k(2) [of i e] k(3) [of u] s'(2) FirestoreMessages show ?thesis
      by (simp add: message_store_inv_def message_store_view_def)
  qed
  then show "message_store_inv env docs st'" "message_store_view env docs st i = Some e \<Longrightarrow> message_store_view env docs st' i = Some e"
    "r = Ok u \<Longrightarrow> \<exists>e. message_store_view env docs st' (obj_id m) = Some e \<and>
       (message_store_view env docs st (obj_id m) = None \<longrightarrow> sm_object e = m)" by blast+
qed

fun message_store_run :: "'n fs_env \<Rightarrow> (io_plan \<times> datetime \<times> message_object) list \<Rightarrow> 'n message_store \<Rightarrow> 'n message_store" where
  "message_store_run env [] st = st"
| "message_store_run env ((io, now, m) # ms) st = message_store_run env ms (snd (message_store_insert io env now m st))"

lemma message_store_run_keeps:
  fixes docs :: "'n \<Rightarrow> documents"
  assumes "message_store_inv env docs st" "\<forall>(io, now, m) \<in> set ms. message_stored \<lparr>sm_object = m, sm_stored_at = now\<rparr>"
    and "message_store_view env docs st i = Some e"
  shows "message_store_inv env docs (message_store_run env ms st) \<and>
    message_store_view env docs (message_store_run env ms st) i = Some e"
  using assms
proof (induction env ms st rule: message_store_run.induct)
  case (2 env io now m ms st)
  have m: "message_stored \<lparr>sm_object = m, sm_stored_at = now\<rparr>" using "2.prems"(2) by simp
  note k = message_store_insert_keeps [OF "2.prems"(1) m surjective_pairing]
  from "2.IH" [OF k(1) _ k(2) [OF "2.prems"(3)]] "2.prems"(2) show ?case by simp
qed simp

text \<open>
  C13. A message is kept, over a file and over Firestore. When an insert is answered as stored, there is an
  envelope under that id, the one sent if there was none before and the earlier one else, and it stays
  there unchanged, whatever is inserted afterwards and however the disk or the service answers.
\<close>

theorem message_store_first_wins:
  fixes docs :: "'n \<Rightarrow> documents"
  assumes "message_store_inv env docs st" "message_stored \<lparr>sm_object = m, sm_stored_at = now\<rparr>"
    and "message_store_insert io env now m st = (Ok u, st')"
    and "\<forall>(io, now, m) \<in> set ms. message_stored \<lparr>sm_object = m, sm_stored_at = now\<rparr>"
  shows "\<exists>e. message_store_view env docs st' (obj_id m) = Some e \<and>
    message_store_view env docs (message_store_run env ms st') (obj_id m) = Some e \<and>
    (case message_store_view env docs st (obj_id m) of None \<Rightarrow> sm_object e = m | Some e0 \<Rightarrow> e = e0)"
proof -
  note k = message_store_insert_keeps [OF assms(1-3)]
  from k(3) [OF refl] obtain e where e: "message_store_view env docs st' (obj_id m) = Some e"
    "message_store_view env docs st (obj_id m) = None \<longrightarrow> sm_object e = m" by (elim exE conjE)
  have "message_store_view env docs (message_store_run env ms st') (obj_id m) = Some e"
    by (rule conjunct2 [OF message_store_run_keeps [OF k(1) assms(4) e(1)]])
  moreover have "case message_store_view env docs st (obj_id m) of None \<Rightarrow> sm_object e = m | Some e0 \<Rightarrow> e = e0"
  proof (cases "message_store_view env docs st (obj_id m)")
    case None
    show ?thesis unfolding None option.case by (rule mp [OF e(2) None])
  next
    case (Some e0)
    have "Some e = Some e0" using k(2) [OF Some] unfolding e(1) .
    then show ?thesis unfolding Some option.case option.inject .
  qed
  ultimately show ?thesis using e(1) by (intro exI [of _ e] conjI)
qed

text \<open>An insert whose write fails is not answered as stored, one on a fresh file is.\<close>

theorem message_store_first_wins_witness:
  "\<exists>st'. message_store_insert io_ok (toy_service sample_config) 0 (sample_envelope ''msg_1'' ''peer_b'' 0 9)
       (FileMessages (empty_disk ''m'')) = (Ok (), st') \<and>
     (\<exists>e. message_store_view (toy_service sample_config) toy_document
        (message_store_run (toy_service sample_config) [(io_ok, 1, sample_envelope ''msg_1'' ''peer_c'' 0 9)] st') ''msg_1'' = Some e)"
proof -
  let ?m = "\<lambda>to. sample_envelope ''msg_1'' to 0 9"
  have y: "four_digit_year t" if "t \<in> {0, 1, 9}" for t
    using that by (auto simp: four_digit_year_def seconds_def)
  have ok: "message_stored \<lparr>sm_object = ?m to, sm_stored_at = t\<rparr>" if "t \<in> {0, 1}" for to t
    unfolding message_stored_def message_codec.object_storable_def
    using that by (auto simp: sample_envelope_def y u64_max_def)
  have i: "obj_id (?m to) = ''msg_1''" for to by (simp add: sample_envelope_def)
  have inv: "message_store_inv (toy_service sample_config) toy_document (FileMessages (empty_disk ''m''))"
    by (simp add: message_store_inv_def messages_ok_def)
  obtain d where d: "message_insert io_ok 0 (?m ''peer_b'') (empty_disk ''m'') = (Ok (), d)"
    by (simp add: message_insert_def store_update_def message_insert_records_def save_io_ok)
  then have run: "message_store_insert io_ok (toy_service sample_config) 0 (?m ''peer_b'') (FileMessages (empty_disk ''m''))
      = (Ok (), FileMessages d)"
    by (simp add: message_store_insert_def)
  have later: "\<forall>(io, now, m) \<in> set [(io_ok, 1, ?m ''peer_c'')]. message_stored \<lparr>sm_object = m, sm_stored_at = now\<rparr>"
    using ok [of 1] by simp
  from message_store_first_wins [OF inv ok run later] run show ?thesis unfolding i by blast
qed

end
