(* ===== verification/Admin.thy ===== *)
theory Admin
  imports Limits Publish_Store
begin

text \<open>
  Who may moderate (\<^verbatim>\<open>AdminAuth\<close>, \<^verbatim>\<open>GoogleAdminAuth\<close> of \<^verbatim>\<open>crates/aichan-server/src/lib.rs\<close>) and what a
  moderation request says. The answer of Google's tokeninfo service is a parameter: \<open>fetch\<close> gives for
  a URL the JSON of the answer, or the context of the step that failed.
\<close>

section \<open>Authentication\<close>

record google_admin_auth =
  ga_audience :: string
  ga_principals :: "string list"
  ga_tokeninfo_url :: string

datatype admin_auth = AdminDisabled | GoogleTokenInfo google_admin_auth | StaticTest string string

definition principal_hash :: "crates \<Rightarrow> string \<Rightarrow> string" where
  "principal_hash x princ = ''sha256:'' @ sha256_hex x princ"

definition admin_principal_new :: "crates \<Rightarrow> string \<Rightarrow> string \<Rightarrow> admin_principal" where
  "admin_principal_new x princ auth_provider =
     \<lparr>adm_principal = princ, adm_principal_hash = principal_hash x princ,
      adm_auth_provider = auth_provider\<rparr>"

text \<open>\<^verbatim>\<open>split([',', '\n'])\<close>, trimmed, without the empty pieces.\<close>

definition principals_from :: "string \<Rightarrow> string list" where
  "principals_from value =
     filter (\<lambda>v. v \<noteq> []) (map trim (concat (map (split_on (CHR 0x0A)) (split_on (CHR '','') value))))"

text \<open>\<open>client_build\<close> is the outcome of building the HTTP client.\<close>

definition admin_auth_from_env :: "(string \<Rightarrow> string option) \<Rightarrow> bool \<Rightarrow> string + admin_auth" where
  "admin_auth_from_env env client_build =
     (let principals = (case env_non_empty env ''AICHAN_ADMIN_PRINCIPALS'' of
            None \<Rightarrow> [] | Some value \<Rightarrow> principals_from value)
      in if principals = [] then Ok AdminDisabled
         else case env_non_empty env ''AICHAN_ADMIN_AUDIENCE'' of
           None \<Rightarrow> Err ''AICHAN_ADMIN_AUDIENCE is required when AICHAN_ADMIN_PRINCIPALS is set''
         | Some audience \<Rightarrow>
           let tokeninfo_url = (case env_non_empty env ''AICHAN_ADMIN_TOKENINFO_URL'' of
                 Some u \<Rightarrow> u | None \<Rightarrow> ''https://oauth2.googleapis.com/tokeninfo'')
           in if \<not> client_build then Err ''build Google tokeninfo HTTP client''
              else Ok (GoogleTokenInfo \<lparr>ga_audience = audience, ga_principals = principals,
                         ga_tokeninfo_url = tokeninfo_url\<rparr>))"

definition json_string :: "json \<Rightarrow> string \<Rightarrow> string option" where
  "json_string value key = Option.bind (jget value key) as_str"

text \<open>\<^verbatim>\<open>str::parse::<i64>\<close>: a sign or none, then digits, in the range of the type.\<close>

definition parse_i64 :: "string \<Rightarrow> int option" where
  "parse_i64 s =
     (case s of
        c # ds \<Rightarrow>
          if c = CHR ''-'' then
            (if ds \<noteq> [] \<and> list_all is_digit ds \<and> digits_val ds \<le> 2 ^ 63 then Some (- int (digits_val ds)) else None)
          else map_option int (parse_uint (2 ^ 63 - 1) s)
      | [] \<Rightarrow> None)"

definition json_i64 :: "json \<Rightarrow> string \<Rightarrow> int option" where
  "json_i64 value key =
     (case jget value key of
        None \<Rightarrow> None
      | Some v \<Rightarrow> (case as_i64 v of Some i \<Rightarrow> Some i | None \<Rightarrow> Option.bind (as_str v) parse_i64))"

definition json_bool :: "json \<Rightarrow> string \<Rightarrow> bool option" where
  "json_bool value key =
     (case jget value key of
        None \<Rightarrow> None
      | Some v \<Rightarrow>
        (case as_bool v of
           Some b \<Rightarrow> Some b
         | None \<Rightarrow> Option.bind (as_str v)
             (\<lambda>s. if s = ''true'' then Some True else if s = ''false'' then Some False else None)))"

definition google_authenticate ::
  "crates \<Rightarrow> (string \<Rightarrow> string + json) \<Rightarrow> datetime \<Rightarrow> google_admin_auth \<Rightarrow> string \<Rightarrow> string + admin_principal" where
  "google_authenticate x fetch now config token =
     (let url = trim_end_matches_char (CHR ''?'') (ga_tokeninfo_url config) @ ''?id_token=''
                  @ percent_encode_path_segment token
      in and_then (fetch url) (\<lambda>answer.
         and_then (ok_or ''tokeninfo response missing iss'' (json_string answer ''iss'')) (\<lambda>issuer.
         if issuer \<noteq> ''accounts.google.com'' \<and> issuer \<noteq> ''https://accounts.google.com''
         then Err ''invalid admin token issuer''
         else and_then (ok_or ''tokeninfo response missing aud'' (json_string answer ''aud'')) (\<lambda>audience.
         if audience \<noteq> ga_audience config then Err ''invalid admin token audience''
         else and_then (ok_or ''tokeninfo response missing exp'' (json_i64 answer ''exp'')) (\<lambda>exp.
         if exp \<le> timestamp now then Err ''expired admin token''
         else and_then
           (case json_string answer ''email'' of
              Some email \<Rightarrow>
                if json_bool answer ''email_verified'' \<noteq> Some True
                then Err ''admin token email is not verified'' else Ok email
            | None \<Rightarrow> ok_or ''tokeninfo response missing principal'' (json_string answer ''sub'')) (\<lambda>princ.
         if princ \<notin> set (ga_principals config) then Err ''admin principal is not allowlisted''
         else Ok (admin_principal_new x princ ''google_id_token'')))))))"

definition authenticate ::
  "crates \<Rightarrow> (string \<Rightarrow> string + json) \<Rightarrow> datetime \<Rightarrow> admin_auth \<Rightarrow> http_request \<Rightarrow> string + admin_principal" where
  "authenticate x fetch now auth request =
     and_then (ok_or ''missing Authorization bearer token'' (bearer_token request)) (\<lambda>token.
       case auth of
         AdminDisabled \<Rightarrow> Err ''admin moderation is not configured''
       | StaticTest expected princ \<Rightarrow>
           if token \<noteq> expected then Err ''invalid admin token''
           else Ok (admin_principal_new x princ ''static_test'')
       | GoogleTokenInfo config \<Rightarrow> google_authenticate x fetch now config token)"

section \<open>Moderation requests\<close>

datatype admin_publish_action = HideAction | RestoreAction

definition action_str :: "admin_publish_action \<Rightarrow> string" where
  "action_str a = (case a of HideAction \<Rightarrow> ''hide'' | RestoreAction \<Rightarrow> ''restore'')"

definition action_route_template :: "admin_publish_action \<Rightarrow> string" where
  "action_route_template a =
     (case a of HideAction \<Rightarrow> ''/admin/publish/{publish_id}/hide''
      | RestoreAction \<Rightarrow> ''/admin/publish/{publish_id}/restore'')"

definition success_event :: "admin_publish_action \<Rightarrow> string" where
  "success_event a = (case a of HideAction \<Rightarrow> ''admin.publish.hidden'' | RestoreAction \<Rightarrow> ''admin.publish.restored'')"

record admin_moderation_request =
  mod_reason :: string
  mod_note :: "string option"

definition dec_moderation :: "json \<Rightarrow> admin_moderation_request option" where
  "dec_moderation v = do {
     f \<leftarrow> struct_fields 1 [''reason'', ''note''] v;
     reason \<leftarrow> req f ''reason'' dec_str;
     note \<leftarrow> default_field None f ''note'' (dec_opt dec_str);
     Some \<lparr>mod_reason = reason, mod_note = note\<rparr> }"

definition parse_admin_moderation_request :: "crates \<Rightarrow> bytes \<Rightarrow> string + admin_moderation_request" where
  "parse_admin_moderation_request x body =
     and_then (map_err (\<lambda>_. ''invalid JSON admin moderation request'') (from_json x dec_moderation body)) (\<lambda>request.
       let reason = trim (mod_reason request) in
       if reason = [] then Err ''reason is required''
       else if length reason > 120 then Err ''reason is too long''
       else if (case mod_note request of None \<Rightarrow> False | Some note \<Rightarrow> length (trim note) > 500)
       then Err ''note is too long''
       else Ok \<lparr>mod_reason = reason, mod_note = mod_note request\<rparr>)"

section \<open>Lemmas\<close>

lemma parse_i64_range: "parse_i64 s = Some i \<Longrightarrow> - (2 ^ 63) \<le> i \<and> i < 2 ^ 63"
proof -
  assume a: "parse_i64 s = Some i"
  then obtain c ds where s: "s = c # ds" by (auto simp: parse_i64_def split: list.splits)
  show ?thesis
  proof (cases "c = CHR ''-''")
    case True
    with a s have "i = - int (digits_val ds)" "digits_val ds \<le> 2 ^ 63"
      by (auto simp: parse_i64_def split: if_splits)
    then show ?thesis by simp
  next
    case False
    with a s obtain n where "parse_uint (2 ^ 63 - 1) s = Some n" "i = int n"
      by (auto simp: parse_i64_def)
    with parse_uint_le [of "2 ^ 63 - 1" s n] show ?thesis by simp
  qed
qed

lemma parse_moderation_Ok:
  "parse_admin_moderation_request x body = Ok m \<Longrightarrow>
   mod_reason m \<noteq> [] \<and> length (mod_reason m) \<le> 120 \<and>
   (\<forall>note. mod_note m = Some note \<longrightarrow> length (trim note) \<le> 500)"
  by (auto simp: parse_admin_moderation_request_def Let_def and_then_Ok_iff not_less
      split: if_splits option.splits)

text \<open>The checks on the answer of the tokeninfo service.\<close>

definition answer_admits :: "google_admin_auth \<Rightarrow> datetime \<Rightarrow> json \<Rightarrow> string \<Rightarrow> bool" where
  "answer_admits config now answer princ \<longleftrightarrow>
     json_string answer ''iss'' \<in> {Some ''accounts.google.com'', Some ''https://accounts.google.com''} \<and>
     json_string answer ''aud'' = Some (ga_audience config) \<and>
     (case json_i64 answer ''exp'' of None \<Rightarrow> False | Some exp \<Rightarrow> timestamp now < exp) \<and>
     (if json_string answer ''email'' = None then json_string answer ''sub'' = Some princ
      else json_string answer ''email'' = Some princ \<and> json_bool answer ''email_verified'' = Some True) \<and>
     princ \<in> set (ga_principals config)"

lemma google_authenticate_Ok:
  "google_authenticate x fetch now config token = Ok p \<longleftrightarrow>
   (\<exists>answer princ. fetch (trim_end_matches_char (CHR ''?'') (ga_tokeninfo_url config) @ ''?id_token=''
      @ percent_encode_path_segment token) = Ok answer \<and> answer_admits config now answer princ \<and>
      p = admin_principal_new x princ ''google_id_token'')"
proof -
  have choice: "(case email of Some email \<Rightarrow> if v then Err a else Ok email | None \<Rightarrow> ok_or b sub) = Ok princ
    \<longleftrightarrow> (if email = None then sub = Some princ else email = Some princ \<and> \<not> v)"
    for email :: "string option" and v a b sub and princ :: string
    by (cases email) (auto simp: ok_or_Ok_iff)
  show ?thesis
    unfolding google_authenticate_def Let_def and_then_Ok_iff if_Err_Ok_iff ok_or_Ok_iff choice answer_admits_def
    by (simp only: not_le not_not de_Morgan_conj option.case_eq_if) (auto split: option.splits)
qed

text \<open>
  Who may moderate: a request is authenticated exactly when it carries a bearer token and, with
  the test configuration, that token is the configured one, or, with Google's, the tokeninfo service
  answers for this token with one of Google's issuers, the configured audience, an expiry in the
  future and a principal of the allow list, which is the email if there is one, verified, and the
  subject otherwise. Without configuration nobody is.
\<close>

theorem authenticate_iff:
  "authenticate x fetch now auth request = Ok p \<longleftrightarrow>
   (\<exists>token princ. bearer_token request = Some token \<and>
     ((auth = StaticTest token princ \<and> p = admin_principal_new x princ ''static_test'') \<or>
      (\<exists>config answer. auth = GoogleTokenInfo config \<and>
         fetch (trim_end_matches_char (CHR ''?'') (ga_tokeninfo_url config) @ ''?id_token=''
                  @ percent_encode_path_segment token) = Ok answer \<and>
         answer_admits config now answer princ \<and> p = admin_principal_new x princ ''google_id_token'')))"
  by (cases auth) (auto simp: authenticate_def and_then_Ok_iff ok_or_Ok_iff google_authenticate_Ok)

end
