(* ===== verification/Request_Auth.thy ===== *)
theory Request_Auth
  imports Limits Protocol_Laws
begin

text \<open>
  Requests signed by a peer, on the server (\<^verbatim>\<open>request_signature_from_headers\<close>,
  \<^verbatim>\<open>validate_request_auth_controls\<close> of \<^verbatim>\<open>crates/aichan-server/src/lib.rs\<close>): the signature is read from
  the headers, checked against the request as received, and let through once, near its timestamp.
  The inbox and the deletion of a publish record begin with the same steps; \<open>authenticate_signed\<close> is
  those steps.
\<close>

definition required_header :: "http_request \<Rightarrow> string \<Rightarrow> string + string" where
  "required_header request name = ok_or (''missing '' @ name @ '' header'') (header request name)"

definition request_signature_from_headers :: "crates \<Rightarrow> http_request \<Rightarrow> string + aichan_request_signature" where
  "request_signature_from_headers x request =
     and_then (required_header request ''Aichan-Protocol'') (\<lambda>protocol.
     and_then (required_header request ''Aichan-Peer-Id'') (\<lambda>peer.
     and_then (map_err error_text (peer_id_parse peer)) (\<lambda>peer_id.
     and_then (required_header request ''Aichan-Public-Key'') (\<lambda>public_key.
     and_then (required_header request ''Aichan-Timestamp'') (\<lambda>stamp.
     and_then (map_err (\<lambda>_. ''invalid Aichan-Timestamp'') (rfc3339_parse x stamp)) (\<lambda>timestamp.
     and_then (required_header request ''Aichan-Nonce'') (\<lambda>nonce.
     if trim nonce = [] then Err ''empty Aichan-Nonce header''
     else and_then (required_header request ''Aichan-Signature'') (\<lambda>sig_text.
       Ok \<lparr>ars_protocol = protocol, ars_alg = ''ed25519'', ars_peer_id = peer_id,
           ars_public_key = public_key, ars_timestamp = timestamp, ars_nonce = nonce,
           ars_idempotency_key = header request ''Idempotency-Key'', ars_value = sig_text\<rparr>))))))))"

text \<open>The \<^verbatim>\<open>RequestToSign\<close> that both handlers build from the request and its signature.\<close>

definition request_as_received :: "http_request \<Rightarrow> aichan_request_signature \<Rightarrow> request_to_sign" where
  "request_as_received request s =
     \<lparr>rts_method = rq_method request, rts_path_and_query = rq_path_and_query request,
      rts_body = rq_body request, rts_peer_id = ars_peer_id s, rts_public_key = ars_public_key s,
      rts_timestamp = ars_timestamp s, rts_nonce = ars_nonce s,
      rts_idempotency_key = ars_idempotency_key s\<rparr>"

definition validate_request_auth_controls ::
  "crates \<Rightarrow> datetime \<Rightarrow> aichan_request_signature \<Rightarrow> seen_nonces \<Rightarrow> http_response option \<times> seen_nonces" where
  "validate_request_auth_controls x now s seen =
     (let oldest_allowed = now - seconds REQUEST_SIGNATURE_MAX_SKEW_SECONDS;
          newest_allowed = now + seconds REQUEST_SIGNATURE_MAX_SKEW_SECONDS
      in if ars_timestamp s < oldest_allowed \<or> ars_timestamp s > newest_allowed
         then (Some (error_response x 401 ''stale_request_signature''
                 ''Request signature timestamp is outside the accepted replay window.'' False), seen)
         else case mark_nonce_once (ars_peer_id s) (ars_nonce s) now seen of
           (False, seen) \<Rightarrow>
             (Some (error_response x 401 ''replayed_request_nonce''
                ''Request signature nonce has already been used in this replay window.'' False), seen)
         | (True, seen) \<Rightarrow> (None, seen))"

definition authenticate_signed ::
  "crates \<Rightarrow> string \<Rightarrow> datetime \<Rightarrow> http_request \<Rightarrow> seen_nonces \<Rightarrow>
   (http_response + aichan_request_signature) \<times> seen_nonces" where
  "authenticate_signed x what now request seen =
     (case request_signature_from_headers x request of
        Inl e \<Rightarrow> (Err (error_response x 401 ''invalid_request_signature'' e False), seen)
      | Inr s \<Rightarrow>
        (case verify_request x s (request_as_received request s) of
           Inl e \<Rightarrow> (Err (error_response x 401 ''invalid_request_signature''
                      (what @ '' request signature verification failed: '' @ error_text e) False), seen)
         | Inr _ \<Rightarrow>
           (case validate_request_auth_controls x now s seen of
              (Some r, seen') \<Rightarrow> (Err r, seen')
            | (None, seen') \<Rightarrow> (Ok s, seen'))))"

section \<open>Lemmas\<close>

text \<open>
  What an accepted signature means: it is the one in the headers, it verifies for the request as it
  was received, its time is near the clock, and its nonce was not remembered.
\<close>

definition signature_fresh :: "datetime \<Rightarrow> aichan_request_signature \<Rightarrow> seen_nonces \<Rightarrow> bool" where
  "signature_fresh now s seen \<longleftrightarrow>
     now - seconds 300 \<le> ars_timestamp s \<and> ars_timestamp s \<le> now + seconds 300 \<and>
     fst (mark_nonce_once (ars_peer_id s) (ars_nonce s) now seen)"

definition signed_by :: "crates \<Rightarrow> http_request \<Rightarrow> aichan_request_signature \<Rightarrow> bool" where
  "signed_by x request s \<longleftrightarrow> request_signature_from_headers x request = Ok s \<and>
     verify_request x s (request_as_received request s) = Ok ()"

lemma controls_none:
  "validate_request_auth_controls x now s seen = (None, seen') \<longleftrightarrow>
   signature_fresh now s seen \<and> seen' = snd (mark_nonce_once (ars_peer_id s) (ars_nonce s) now seen)"
  by (auto simp: validate_request_auth_controls_def signature_fresh_def REQUEST_SIGNATURE_MAX_SKEW_SECONDS_def Let_def
      not_less split: prod.splits bool.splits)

lemma controls_401:
  "validate_request_auth_controls x now s seen = (Some r, seen') \<Longrightarrow> rs_status r = 401"
  by (auto simp: validate_request_auth_controls_def Let_def split: prod.splits bool.splits if_splits)

lemma controls_seen_ok:
  "bt_ok seen \<Longrightarrow> bt_ok (snd (validate_request_auth_controls x now s seen))"
  using mark_nonce_ok [of seen "ars_peer_id s" "ars_nonce s" now]
  by (auto simp: validate_request_auth_controls_def Let_def split: prod.split bool.split)

lemma authenticate_signed_Ok:
  "authenticate_signed x what now request seen = (Ok s, seen') \<longleftrightarrow>
   signed_by x request s \<and> signature_fresh now s seen \<and>
   seen' = snd (mark_nonce_once (ars_peer_id s) (ars_nonce s) now seen)"
proof (cases "request_signature_from_headers x request")
  case (Inl e)
  then show ?thesis by (simp add: authenticate_signed_def signed_by_def)
next
  case (Inr s')
  show ?thesis
  proof (cases "verify_request x s' (request_as_received request s')")
    case (Inl e)
    with Inr show ?thesis by (auto simp: authenticate_signed_def signed_by_def)
  next
    case v: (Inr u)
    have "authenticate_signed x what now request seen = (Ok s, seen') \<longleftrightarrow>
        s' = s \<and> validate_request_auth_controls x now s' seen = (None, seen')"
      using Inr v by (auto simp: authenticate_signed_def split: prod.splits option.splits)
    also have "\<dots> \<longleftrightarrow> signed_by x request s \<and> signature_fresh now s seen \<and>
        seen' = snd (mark_nonce_once (ars_peer_id s) (ars_nonce s) now seen)"
      using Inr v by (auto simp: controls_none signed_by_def)
    finally show ?thesis .
  qed
qed

lemma authenticate_signed_Err:
  "authenticate_signed x what now request seen = (Err r, seen') \<Longrightarrow> rs_status r = 401"
  by (auto simp: authenticate_signed_def split: sum.splits prod.splits option.splits dest: controls_401)

lemma authenticate_signed_seen_ok:
  "bt_ok seen \<Longrightarrow> bt_ok (snd (authenticate_signed x what now request seen))"
  using controls_seen_ok [of seen x now]
  by (auto simp: authenticate_signed_def split: sum.split prod.split option.split) (metis snd_conv)+

end
