(* ===== verification/Publish_Api.thy ===== *)
theory Publish_Api
  imports Admin Request_Auth
begin

text \<open>
  The handlers of the publish routes (\<^verbatim>\<open>publish_record\<close>, \<^verbatim>\<open>search_publish_records\<close>,
  \<^verbatim>\<open>discover_publish_records\<close>, \<^verbatim>\<open>delete_publish_record\<close>, \<^verbatim>\<open>admin_publish_moderation\<close> of
  \<^verbatim>\<open>crates/aichan-server/src/lib.rs\<close>), each from the request to the response and the store it leaves. A
  handler has the operation of the store that it calls as an argument, since the server has stores in
  files and stores in Firestore; its name without \<open>_on\<close> is the handler over the store in a file.
\<close>

section \<open>Shared by the handlers\<close>

definition storage_error :: "crates \<Rightarrow> string \<Rightarrow> string \<Rightarrow> http_response" where
  "storage_error x what e = error_response x 500 ''storage_unavailable'' (what @ '': '' @ e) True"

definition request_params :: "http_request \<Rightarrow> (string, string) btree" where
  "request_params request = parse_query (case query request of Some q \<Rightarrow> q | None \<Rightarrow> [])"

text \<open>\<^verbatim>\<open>parse::<usize>().ok().unwrap_or(default).clamp(1, max)\<close> of the parameter \<^verbatim>\<open>limit\<close>.\<close>

definition limit_param :: "(string, string) btree \<Rightarrow> nat \<Rightarrow> nat \<Rightarrow> nat" where
  "limit_param params dflt most =
     (let n = (case Option.bind (bt_get params ''limit'') parse_usize of Some n \<Rightarrow> n | None \<Rightarrow> dflt)
      in if n < 1 then 1 else if n > most then most else n)"

lemma limit_param_range: "1 \<le> most \<Longrightarrow> 1 \<le> limit_param params dflt most \<and> limit_param params dflt most \<le> most"
  by (simp add: limit_param_def Let_def)

text \<open>\<^verbatim>\<open>serde_json\<close>'s form of a record in an answer.\<close>

definition publish_value :: "crates \<Rightarrow> publish_object \<Rightarrow> json" where
  "publish_value x r = value_of (enc_signed x (enc_publish x) r)"

section \<open>Publishing\<close>

definition publish_record_on ::
  "crates \<Rightarrow> (publish_object \<Rightarrow> peer_id \<Rightarrow> 'p \<Rightarrow> (string + publish_upsert_status) \<times> 'p) \<Rightarrow>
   http_request \<Rightarrow> 'p \<Rightarrow> http_response \<times> 'p" where
  "publish_record_on x upsert request d =
     (case from_json x (dec_signed x (dec_publish x)) (rq_body request) of
        Inl e \<Rightarrow> (error_response x 400 ''invalid_encoding'' (''Invalid JSON publish record: '' @ e) False, d)
      | Inr object \<Rightarrow>
        (case verify_publish_record x object of
           Inl e \<Rightarrow> (error_response x 400 ''invalid_signature''
                      (''Publish record verification failed: '' @ error_text e) False, d)
         | Inr peer_id \<Rightarrow>
           (case upsert object peer_id d of
              (Inr PublishStored, d') \<Rightarrow>
                (json_response x 201 (obj [(''stored'', JBool True), (''id'', JStr (obj_id object)),
                   (''peer_id'', JStr (peer_str peer_id))]), d')
            | (Inr PeerConflict, d') \<Rightarrow>
                (error_response x 409 ''conflict'' ''Publish id already belongs to another peer.'' False, d')
            | (Inr UpsertAuthorDeleted, d') \<Rightarrow>
                (error_response x 409 ''publish_deleted''
                   ''Publish id was author-deleted and cannot be reused.'' False, d')
            | (Inl e, d') \<Rightarrow> (storage_error x ''Could not write publish store'' e, d'))))"

definition publish_record ::
  "crates \<Rightarrow> io_plan \<Rightarrow> http_request \<Rightarrow> stored_publish disk \<Rightarrow> http_response \<times> stored_publish disk" where
  "publish_record x io = publish_record_on x (publish_upsert io)"

section \<open>Searching\<close>

definition PUBLISH_SEARCH_DEFAULT_LIMIT :: nat where "PUBLISH_SEARCH_DEFAULT_LIMIT = 50"
definition PUBLISH_SEARCH_MAX_LIMIT :: nat where "PUBLISH_SEARCH_MAX_LIMIT = 100"

definition search_publish_records_on ::
  "crates \<Rightarrow> (publish_search_request \<Rightarrow> 'p \<Rightarrow> (string + publish_search_page) \<times> 'p) \<Rightarrow>
   http_request \<Rightarrow> 'p \<Rightarrow> http_response \<times> 'p" where
  "search_publish_records_on x search_store request d =
     (let params = request_params request;
          tag = bt_get params ''tag'';
          limit = limit_param params PUBLISH_SEARCH_DEFAULT_LIMIT PUBLISH_SEARCH_MAX_LIMIT;
          search = (\<lambda>cursor.
            (case search_store \<lparr>psr_tag = tag, psr_limit = limit, psr_cursor = cursor\<rparr> d of
               (Inl e, d') \<Rightarrow> (storage_error x ''Could not read publish store'' e, d')
             | (Inr page, d') \<Rightarrow>
               (json_response x 200 (obj [
                 (''count'', jnat (length (page_records page))),
                 (''records'', JArr (map (publish_value x) (page_records page))),
                 (''next_cursor'', jopt JStr (page_next_cursor page)),
                 (''has_more'', JBool (page_has_more page)),
                 (''window_limit'', jnat PUBLISH_SEARCH_WINDOW_LIMIT)]), d')))
      in case bt_get params ''cursor'' of
           Some c \<Rightarrow>
             (case search_cursor_decode x c of
                Inl e \<Rightarrow> (error_response x 400 ''invalid_cursor'' (''Invalid publish search cursor: '' @ e) False, d)
              | Inr cursor \<Rightarrow> search (Some cursor))
         | None \<Rightarrow> search None)"

definition search_publish_records :: "crates \<Rightarrow> http_request \<Rightarrow> stored_publish disk \<Rightarrow> http_response" where
  "search_publish_records x request d = fst (search_publish_records_on x (\<lambda>q d. (publish_search x q d, d)) request d)"

definition DISCOVER_DEFAULT_LIMIT :: nat where "DISCOVER_DEFAULT_LIMIT = 3"
definition DISCOVER_MAX_LIMIT :: nat where "DISCOVER_MAX_LIMIT = 25"

definition discover_publish_records_on ::
  "crates \<Rightarrow> (publish_discover_request \<Rightarrow> 'p \<Rightarrow> (string + publish_object list) \<times> 'p) \<Rightarrow> datetime \<Rightarrow>
   http_request \<Rightarrow> 'p \<Rightarrow> http_response \<times> 'p" where
  "discover_publish_records_on x discover_store now request d =
     (let params = request_params request;
          tags = normalize_discover_tags
            ((case bt_get params ''tags'' of Some v \<Rightarrow> split_on (CHR '','') v | None \<Rightarrow> [])
             @ (case bt_get params ''tag'' of Some v \<Rightarrow> [v] | None \<Rightarrow> []));
          limit = limit_param params DISCOVER_DEFAULT_LIMIT DISCOVER_MAX_LIMIT;
          seed = (case bt_get params ''seed'' of
                    Some s \<Rightarrow> (let s = trim s in if s = [] then current_discover_seed now else s)
                  | None \<Rightarrow> current_discover_seed now)
      in case discover_store \<lparr>pdr_tags = tags, pdr_limit = limit, pdr_seed = seed\<rparr> d of
           (Inl e, d') \<Rightarrow> (storage_error x ''Could not read publish store'' e, d')
         | (Inr records, d') \<Rightarrow>
           (json_response x 200 (obj [
             (''count'', jnat (length records)),
             (''records'', JArr (map (publish_value x) records)),
             (''tags'', JArr (map JStr tags)),
             (''seed'', JStr seed),
             (''candidate_window'', jnat DISCOVER_CANDIDATE_LIMIT),
             (''has_more'', JBool False)]), d'))"

definition discover_publish_records ::
  "crates \<Rightarrow> datetime \<Rightarrow> http_request \<Rightarrow> stored_publish disk \<Rightarrow> http_response" where
  "discover_publish_records x now request d =
     fst (discover_publish_records_on x (\<lambda>q d. (publish_discover x q d, d)) now request d)"

section \<open>Deleting\<close>

definition delete_publish_record_on ::
  "crates \<Rightarrow> (datetime \<Rightarrow> string \<Rightarrow> peer_id \<Rightarrow> 'p \<Rightarrow> (string + publish_delete_status) \<times> 'p) \<Rightarrow> datetime \<Rightarrow> datetime \<Rightarrow>
   http_request \<Rightarrow> string \<Rightarrow> seen_nonces \<Rightarrow> 'p \<Rightarrow> http_response \<times> seen_nonces \<times> 'p" where
  "delete_publish_record_on x mark_deleted now later request publish_id seen d =
     (case authenticate_signed x ''Delete'' now request seen of
        (Inl r, seen') \<Rightarrow> (r, seen', d)
      | (Inr s, seen') \<Rightarrow>
        (case mark_deleted later publish_id (ars_peer_id s) d of
           (Inr PublishDeleted, d') \<Rightarrow>
             (json_response x 200 (obj [(''deleted'', JBool True), (''id'', JStr publish_id)]), seen', d')
         | (Inr DeleteNotFound, d') \<Rightarrow>
             (error_response x 404 ''not_found'' ''Publish record not found.'' False, seen', d')
         | (Inr WrongPeer, d') \<Rightarrow>
             (error_response x 403 ''invalid_peer_id''
                ''Delete request signer does not own publish record.'' False, seen', d')
         | (Inl e, d') \<Rightarrow> (storage_error x ''Could not write publish store'' e, seen', d')))"

definition delete_publish_record ::
  "crates \<Rightarrow> io_plan \<Rightarrow> datetime \<Rightarrow> datetime \<Rightarrow> http_request \<Rightarrow> string \<Rightarrow> seen_nonces \<Rightarrow> stored_publish disk \<Rightarrow>
   http_response \<times> seen_nonces \<times> stored_publish disk" where
  "delete_publish_record x io = delete_publish_record_on x (mark_author_deleted io)"

section \<open>Moderating\<close>

definition signed_object_hash :: "crates \<Rightarrow> publish_object \<Rightarrow> aichan_error + string" where
  "signed_object_hash x object =
     map_ok (\<lambda>bytes. ''sha256:'' @ sha256_hex x bytes)
       (canonical_json_bytes x (enc_signed x (enc_publish x) object))"

record admin_publish_audit =
  apa_event_name :: string
  apa_action :: admin_publish_action
  apa_status :: nat
  apa_outcome :: string
  apa_publish_id :: string
  apa_reason :: "string option"
  apa_admin :: "admin_principal option"
  apa_signed_object_hash :: "string option"

definition admin_rejected ::
  "admin_publish_action \<Rightarrow> string \<Rightarrow> nat \<Rightarrow> string \<Rightarrow> string option \<Rightarrow> admin_principal option \<Rightarrow> admin_publish_audit" where
  "admin_rejected action publish_id status outcome reason admin =
     \<lparr>apa_event_name = ''admin.publish.rejected'', apa_action = action, apa_status = status,
      apa_outcome = outcome, apa_publish_id = publish_id, apa_reason = reason, apa_admin = admin,
      apa_signed_object_hash = None\<rparr>"

text \<open>The handler returns the response, the audit record it logged, and the store.\<close>

type_synonym 'p moderate =
  "datetime \<Rightarrow> string \<Rightarrow> string \<Rightarrow> admin_principal \<Rightarrow> 'p \<Rightarrow> (string + publish_moderation_status) \<times> 'p"

definition admin_publish_moderation_on ::
  "crates \<Rightarrow> (string \<Rightarrow> string + json) \<Rightarrow> 'p moderate \<Rightarrow> 'p moderate \<Rightarrow> datetime \<Rightarrow> datetime \<Rightarrow> admin_auth \<Rightarrow> http_request \<Rightarrow>
   string \<Rightarrow> admin_publish_action \<Rightarrow> 'p \<Rightarrow> http_response \<times> admin_publish_audit \<times> 'p" where
  "admin_publish_moderation_on x fetch hide_it restore_it now later auth request publish_id action d =
     (case authenticate x fetch now auth request of
        Inl e \<Rightarrow> (error_response x 401 ''invalid_admin_auth'' e False,
                  admin_rejected action publish_id 401 ''auth_rejected'' None None, d)
      | Inr admin \<Rightarrow>
        (case parse_admin_moderation_request x (rq_body request) of
           Inl e \<Rightarrow> (error_response x 400 ''invalid_admin_request'' e False,
                     admin_rejected action publish_id 400 ''invalid_request'' None (Some admin), d)
         | Inr moderation \<Rightarrow>
           (let reason = mod_reason moderation;
                rejected = (\<lambda>status outcome. admin_rejected action publish_id status outcome (Some reason) (Some admin))
            in case (case action of HideAction \<Rightarrow> hide_it later publish_id reason admin d
                     | RestoreAction \<Rightarrow> restore_it later publish_id reason admin d) of
              (Inr (Updated object), d') \<Rightarrow>
                (json_response x 200 (case action of
                     HideAction \<Rightarrow> obj [(''hidden'', JBool True), (''id'', JStr publish_id)]
                   | RestoreAction \<Rightarrow> obj [(''restored'', JBool True), (''id'', JStr publish_id)]),
                 \<lparr>apa_event_name = success_event action, apa_action = action, apa_status = 200,
                  apa_outcome = ''success'', apa_publish_id = publish_id, apa_reason = Some reason,
                  apa_admin = Some admin,
                  apa_signed_object_hash = result_ok (signed_object_hash x object)\<rparr>, d')
            | (Inr ModerationNotFound, d') \<Rightarrow>
                (error_response x 404 ''not_found'' ''Publish record not found.'' False,
                 rejected 404 ''not_found'', d')
            | (Inr ModerationAuthorDeleted, d') \<Rightarrow>
                (error_response x 409 ''author_deleted'' (case action of
                     HideAction \<Rightarrow> ''Publish record was deleted by its author and cannot be hidden by admin.''
                   | RestoreAction \<Rightarrow> ''Publish record was deleted by its author and cannot be restored by admin.'') False,
                 rejected 409 ''author_deleted'', d')
            | (Inl e, d') \<Rightarrow>
                (storage_error x ''Could not write publish store'' e, rejected 500 ''storage_error'', d'))))"

definition admin_publish_moderation ::
  "crates \<Rightarrow> (string \<Rightarrow> string + json) \<Rightarrow> io_plan \<Rightarrow> datetime \<Rightarrow> datetime \<Rightarrow> admin_auth \<Rightarrow> http_request \<Rightarrow> string \<Rightarrow>
   admin_publish_action \<Rightarrow> stored_publish disk \<Rightarrow> http_response \<times> admin_publish_audit \<times> stored_publish disk" where
  "admin_publish_moderation x fetch io = admin_publish_moderation_on x fetch (admin_hide io) (admin_restore io)"

definition admin_publish_path :: "string \<Rightarrow> string \<Rightarrow> string option" where
  "admin_publish_path p suffix =
     (case strip_prefix p ''/admin/publish/'' of
        None \<Rightarrow> None
      | Some tail \<Rightarrow>
        (case strip_suffix tail suffix of
           None \<Rightarrow> None
         | Some publish_id \<Rightarrow>
             if publish_id \<noteq> [] \<and> CHR ''/'' \<notin> set publish_id then Some publish_id else None))"

end
