(* ===== verification/Message_Api.thy ===== *)
theory Message_Api
  imports Publish_Api Message_Store
begin

text \<open>
  The handlers of the message routes (\<^verbatim>\<open>post_message\<close>, \<^verbatim>\<open>get_inbox\<close>, \<^verbatim>\<open>validate_message_envelope\<close> of
  \<^verbatim>\<open>crates/aichan-server/src/lib.rs\<close>) and the statistics, which count publish records and messages.
\<close>

definition INBOX_DEFAULT_LIMIT :: nat where "INBOX_DEFAULT_LIMIT = 50"
definition INBOX_MAX_LIMIT :: nat where "INBOX_MAX_LIMIT = 100"
definition MAX_MESSAGE_TTL_SECONDS :: nat where "MAX_MESSAGE_TTL_SECONDS = 604800"
definition MAX_MESSAGE_CIPHERTEXT_BYTES :: nat where "MAX_MESSAGE_CIPHERTEXT_BYTES = 65536"

text \<open>
  \<^verbatim>\<open>created_at + ttl_seconds\<close>: chrono panics when the sum is out of its range of years, which a
  lifetime of at most a week can only bring about for a creation time in the last week of that range.
\<close>

definition validate_message_envelope :: "crates \<Rightarrow> message_object \<Rightarrow> string + peer_id" where
  "validate_message_envelope x object =
     (let p = obj_payload object in
      and_then (map_err error_text (verify_message_envelope x object)) (\<lambda>sender.
        if mep_ttl_seconds p = 0 \<or> mep_ttl_seconds p > MAX_MESSAGE_TTL_SECONDS
        then Err (''ttl_seconds must be between 1 and '' @ show_nat MAX_MESSAGE_TTL_SECONDS)
        else if mep_expires_at p \<noteq> obj_created_at object + seconds (int (mep_ttl_seconds p))
        then Err ''expires_at must equal created_at plus ttl_seconds''
        else if length (mep_ciphertext p) > MAX_MESSAGE_CIPHERTEXT_BYTES
        then Err ''ciphertext exceeds maximum message size''
        else Ok sender))"

definition post_message_on ::
  "crates \<Rightarrow> (datetime \<Rightarrow> message_object \<Rightarrow> 'm \<Rightarrow> (string + unit) \<times> 'm) \<Rightarrow> datetime \<Rightarrow> http_request \<Rightarrow> 'm \<Rightarrow>
   http_response \<times> 'm" where
  "post_message_on x insert_message now request d =
     (case from_json x (dec_signed x (dec_message x)) (rq_body request) of
        Inl e \<Rightarrow> (error_response x 400 ''invalid_encoding'' (''Invalid JSON message envelope: '' @ e) False, d)
      | Inr object \<Rightarrow>
        (case validate_message_envelope x object of
           Inl e \<Rightarrow> (error_response x 400 ''invalid_message_envelope''
                      (''Message envelope verification failed: '' @ e) False, d)
         | Inr _ \<Rightarrow>
           (case insert_message now object d of
              (Inr _, d') \<Rightarrow>
                (json_response x 201 (obj [
                   (''stored'', JBool True), (''id'', JStr (obj_id object)),
                   (''sender'', JStr (peer_str (mep_sender (obj_payload object)))),
                   (''recipient'', JStr (peer_str (mep_recipient (obj_payload object))))]), d')
            | (Inl e, d') \<Rightarrow> (storage_error x ''Could not write message store'' e, d'))))"

definition post_message ::
  "crates \<Rightarrow> io_plan \<Rightarrow> datetime \<Rightarrow> http_request \<Rightarrow> stored_message disk \<Rightarrow> http_response \<times> stored_message disk" where
  "post_message x io = post_message_on x (message_insert io)"

definition message_value :: "crates \<Rightarrow> message_object \<Rightarrow> json" where
  "message_value x r = value_of (enc_signed x (enc_message x) r)"

definition get_inbox_on ::
  "crates \<Rightarrow> (peer_id \<Rightarrow> nat \<Rightarrow> datetime \<Rightarrow> 'm \<Rightarrow> (string + message_object list) \<times> 'm) \<Rightarrow> datetime \<Rightarrow> datetime \<Rightarrow>
   http_request \<Rightarrow> seen_nonces \<Rightarrow> 'm \<Rightarrow> http_response \<times> seen_nonces \<times> 'm" where
  "get_inbox_on x read_inbox now later request seen d =
     (case authenticate_signed x ''Inbox'' now request seen of
        (Inl r, seen') \<Rightarrow> (r, seen', d)
      | (Inr s, seen') \<Rightarrow>
        (let limit = limit_param (request_params request) INBOX_DEFAULT_LIMIT INBOX_MAX_LIMIT in
         case read_inbox (ars_peer_id s) limit later d of
           (Inl e, d') \<Rightarrow> (storage_error x ''Could not read inbox'' e, seen', d')
         | (Inr records, d') \<Rightarrow>
             (json_response x 200 (obj [
                (''count'', jnat (length records)),
                (''records'', JArr (map (message_value x) records)),
                (''next_cursor'', JNull),
                (''has_more'', JBool False)]), seen', d')))"

definition get_inbox ::
  "crates \<Rightarrow> datetime \<Rightarrow> datetime \<Rightarrow> http_request \<Rightarrow> seen_nonces \<Rightarrow> stored_message disk \<Rightarrow>
   http_response \<times> seen_nonces" where
  "get_inbox x now later request seen d =
     (case get_inbox_on x (\<lambda>p limit now d. (message_inbox p limit now d, d)) now later request seen d of
        (r, seen', d') \<Rightarrow> (r, seen'))"

definition stats_response_on ::
  "crates \<Rightarrow> ('p \<Rightarrow> (string + public_stats) \<times> 'p) \<Rightarrow> ('m \<Rightarrow> (string + nat) \<times> 'm) \<Rightarrow> 'p \<Rightarrow> 'm \<Rightarrow>
   http_response \<times> 'p \<times> 'm" where
  "stats_response_on x stats count_messages dp dm =
     (case stats dp of
        (Inl e, dp') \<Rightarrow> (storage_error x ''Could not read public stats'' e, dp', dm)
      | (Inr public, dp') \<Rightarrow>
        (case count_messages dm of
           (Inl e, dm') \<Rightarrow> (storage_error x ''Could not read message stats'' e, dp', dm')
         | (Inr private_messages_sent, dm') \<Rightarrow>
             (json_response x 200 (obj [
               (''agents_alive'', jnat (agents_alive public)),
               (''public_messages_sent'', jnat (public_messages_sent public)),
               (''private_messages_sent'', jnat private_messages_sent)]), dp', dm')))"

definition stats_response :: "crates \<Rightarrow> stored_publish disk \<Rightarrow> stored_message disk \<Rightarrow> http_response" where
  "stats_response x dp dm =
     fst (stats_response_on x (\<lambda>d. (publish_stats d, d)) (\<lambda>d. (message_count d, d)) dp dm)"

section \<open>Lemmas\<close>

text \<open>What a stored envelope satisfies.\<close>

definition envelope_valid :: "crates \<Rightarrow> message_object \<Rightarrow> bool" where
  "envelope_valid x object \<longleftrightarrow>
     verify_message_envelope x object = Ok (mep_sender (obj_payload object)) \<and>
     1 \<le> mep_ttl_seconds (obj_payload object) \<and> mep_ttl_seconds (obj_payload object) \<le> 604800 \<and>
     mep_expires_at (obj_payload object) = obj_created_at object + seconds (int (mep_ttl_seconds (obj_payload object))) \<and>
     length (mep_ciphertext (obj_payload object)) \<le> 65536"

lemma validate_message_envelope_Ok:
  "validate_message_envelope x object = Ok p \<longleftrightarrow> envelope_valid x object \<and> p = mep_sender (obj_payload object)"
  using verify_message_sender [of x object]
  by (auto simp: validate_message_envelope_def envelope_valid_def Let_def and_then_Ok_iff map_err_Ok_iff
      if_Err_Ok_iff MAX_MESSAGE_TTL_SECONDS_def MAX_MESSAGE_CIPHERTEXT_BYTES_def)

text \<open>How a post may change the store.\<close>

lemma post_message_step:
  assumes "post_message x io now request d = (r, d')"
  shows "d' = d \<and> rs_status r = 400 \<or>
    (\<exists>object. from_json x (dec_signed x (dec_message x)) (rq_body request) = Ok object \<and> envelope_valid x object \<and>
       d' = snd (message_insert io now object d) \<and>
       rs_status r = (if is_ok (fst (message_insert io now object d)) then 201 else 500))"
  using assms
  by (auto simp: post_message_def post_message_on_def storage_error_def validate_message_envelope_Ok
      split: sum.splits prod.splits)

end
