(* ===== verification/Backup_Api.thy ===== *)
theory Backup_Api
  imports Publish_Api Backup_Store
begin

text \<open>
  The handlers of the backup routes (\<^verbatim>\<open>put_hosted_backup\<close>, \<^verbatim>\<open>get_hosted_backup\<close>,
  \<^verbatim>\<open>list_hosted_backup_generations\<close> of \<^verbatim>\<open>crates/aichan-server/src/lib.rs\<close>) and the checks on a package:
  it has a ciphertext, and no key of it at any depth names private material.
\<close>

definition MAX_BACKUP_CIPHERTEXT_CHARS :: nat where "MAX_BACKUP_CIPHERTEXT_CHARS = 65536"
definition MAX_BACKUP_LOOKUP_ID_BYTES :: nat where "MAX_BACKUP_LOOKUP_ID_BYTES = 96"

section \<open>Checks on requests\<close>

definition id_byte :: "char \<Rightarrow> bool" where
  "id_byte c \<longleftrightarrow> is_ascii_lower c \<or> is_ascii_upper c \<or> is_digit c \<or> c \<in> {CHR ''-'', CHR ''_'', CHR ''.''}"

definition validate_backup_lookup_id :: "string \<Rightarrow> string + unit" where
  "validate_backup_lookup_id lookup_id =
     (if length lookup_id > MAX_BACKUP_LOOKUP_ID_BYTES then Err ''backup lookup id is too long''
      else if \<not> list_all id_byte lookup_id then Err ''backup lookup id contains unsupported characters''
      else Ok ())"

definition backup_auth_token :: "http_request \<Rightarrow> string + string" where
  "backup_auth_token request =
     and_then (required_header request ''Aichan-Backup-Auth'') (\<lambda>value.
       let token = trim value in
       if length token < 12 then Err ''backup auth token is missing or too short'' else Ok token)"

definition private_names :: "string list" where
  "private_names = [''identity'', ''memory'', ''private_key'', ''signing_private_key'',
     ''message_private_key'', ''recovery_phrase'', ''passphrase'']"

definition private_error :: string where
  "private_error = ''hosted backup package contains plaintext private material''"

function reject_private :: "json \<Rightarrow> string + unit"
  and reject_entries :: "(string \<times> json) list \<Rightarrow> string + unit"
  and reject_values :: "json list \<Rightarrow> string + unit" where
  "reject_private (JObj entries) = reject_entries entries"
| "reject_private (JArr vals) = reject_values vals"
| "reject_private JNull = Ok ()"
| "reject_private (JBool b) = Ok ()"
| "reject_private (JNum n) = Ok ()"
| "reject_private (JStr s) = Ok ()"
| "reject_entries [] = Ok ()"
| "reject_entries ((key, v) # entries) =
     (if to_ascii_lowercase key \<in> set private_names then Err private_error
      else and_then (reject_private v) (\<lambda>_. reject_entries entries))"
| "reject_values [] = Ok ()"
| "reject_values (v # vals) = and_then (reject_private v) (\<lambda>_. reject_values vals)"
  by pat_completeness auto
termination
  by (relation "measure (\<lambda>a. case a of Inl v \<Rightarrow> size v
        | Inr (Inl es) \<Rightarrow> size_list (size_prod (\<lambda>_. 0) size) es | Inr (Inr vs) \<Rightarrow> size_list size vs)") auto

definition validate_hosted_backup_package :: "json \<Rightarrow> string + unit" where
  "validate_hosted_backup_package package =
     and_then (ok_or ''hosted backup package must be a JSON object'' (as_object package)) (\<lambda>entries.
     and_then (ok_or ''hosted backup package must contain ciphertext''
        (case Option.bind (bt_get entries ''ciphertext'') as_str of
           None \<Rightarrow> None | Some c \<Rightarrow> if trim c = [] then None else Some (trim c))) (\<lambda>ciphertext.
     if length ciphertext > MAX_BACKUP_CIPHERTEXT_CHARS then Err ''hosted backup ciphertext is too large''
     else reject_private package))"

definition parse_hosted_backup_package :: "crates \<Rightarrow> bytes \<Rightarrow> string + json" where
  "parse_hosted_backup_package x body =
     and_then (map_err (\<lambda>_. ''invalid JSON hosted backup package'') (map_ok value_of (json_read x body))) (\<lambda>v.
     and_then (validate_hosted_backup_package v) (\<lambda>_. Ok v))"

definition backup_lookup_path :: "string \<Rightarrow> string option" where
  "backup_lookup_path p =
     (case strip_prefix p ''/v1/backups/'' of
        None \<Rightarrow> None
      | Some lookup_id \<Rightarrow> if lookup_id \<noteq> [] \<and> CHR ''/'' \<notin> set lookup_id then Some lookup_id else None)"

definition backup_generations_path :: "string \<Rightarrow> string option" where
  "backup_generations_path p =
     (case strip_prefix p ''/v1/backups/'' of
        None \<Rightarrow> None
      | Some tail \<Rightarrow>
        (case strip_suffix tail ''/generations'' of
           None \<Rightarrow> None
         | Some lookup_id \<Rightarrow> if lookup_id \<noteq> [] \<and> CHR ''/'' \<notin> set lookup_id then Some lookup_id else None))"

section \<open>Handlers\<close>

text \<open>The steps before the store that the three handlers share.\<close>

definition backup_checked :: "crates \<Rightarrow> http_request \<Rightarrow> string \<Rightarrow> http_response + string" where
  "backup_checked x request lookup_id =
     and_then (map_err (\<lambda>e. error_response x 400 ''invalid_backup_lookup_id'' e False)
                (validate_backup_lookup_id lookup_id)) (\<lambda>_.
       map_err (\<lambda>e. error_response x 401 ''invalid_backup_auth'' e False) (backup_auth_token request))"

definition backup_unauthorized :: "crates \<Rightarrow> http_response" where
  "backup_unauthorized x =
     error_response x 401 ''invalid_backup_auth'' ''Backup auth token does not match this lookup id.'' False"

definition put_hosted_backup_on ::
  "crates \<Rightarrow> (datetime \<Rightarrow> string \<Rightarrow> string \<Rightarrow> json \<Rightarrow> 'b \<Rightarrow> (string + backup_put_status) \<times> 'b) \<Rightarrow> datetime \<Rightarrow>
   http_request \<Rightarrow> string \<Rightarrow> 'b \<Rightarrow> http_response \<times> 'b" where
  "put_hosted_backup_on x put_backup now request lookup_id d =
     (case backup_checked x request lookup_id of
        Inl r \<Rightarrow> (r, d)
      | Inr auth_token \<Rightarrow>
        (case parse_hosted_backup_package x (rq_body request) of
           Inl e \<Rightarrow> (error_response x 400 ''invalid_backup_package'' e False, d)
         | Inr backup \<Rightarrow>
           (case put_backup now lookup_id auth_token backup d of
              (Inr (BackupStored g), d') \<Rightarrow>
                (json_response x 201 (obj [
                   (''stored'', JBool True), (''lookup_id'', JStr lookup_id),
                   (''generation_id'', JStr (hg_generation_id g)),
                   (''created_at'', enc_time x (hg_created_at g)),
                   (''size_bytes'', jnat (hg_size_bytes g)),
                   (''content_sha256'', JStr (hg_content_sha256 g))]), d')
            | (Inr PutUnauthorized, d') \<Rightarrow> (backup_unauthorized x, d')
            | (Inl e, d') \<Rightarrow> (storage_error x ''Could not write hosted backup'' e, d'))))"

definition put_hosted_backup ::
  "crates \<Rightarrow> io_plan \<Rightarrow> datetime \<Rightarrow> http_request \<Rightarrow> string \<Rightarrow> hosted_bucket disk \<Rightarrow>
   http_response \<times> hosted_bucket disk" where
  "put_hosted_backup x io = put_hosted_backup_on x (backup_put x io)"

definition hosted_backup_head_response :: "hosted_generation \<Rightarrow> http_response" where
  "hosted_backup_head_response g =
     (let r = response 200 ''application/json; charset=utf-8'' [];
          put = (\<lambda>k v r. r\<lparr>rs_headers := bt_insert k v (rs_headers r)\<rparr>)
      in put ''Aichan-Backup-Size-Bytes'' (show_nat (hg_size_bytes g))
           (put ''Aichan-Backup-Content-Sha256'' (hg_content_sha256 g)
             (put ''Aichan-Backup-Generation'' (hg_generation_id g) r)))"

definition get_hosted_backup_on ::
  "crates \<Rightarrow> (string \<Rightarrow> string \<Rightarrow> 'b \<Rightarrow> (string + backup_read_status) \<times> 'b) \<Rightarrow> http_request \<Rightarrow> string \<Rightarrow> bool \<Rightarrow> 'b \<Rightarrow>
   http_response \<times> 'b" where
  "get_hosted_backup_on x latest_backup request lookup_id head_only d =
     (case backup_checked x request lookup_id of
        Inl r \<Rightarrow> (r, d)
      | Inr auth_token \<Rightarrow>
        (case latest_backup lookup_id auth_token d of
           (Inr (BackupFound g), d') \<Rightarrow>
             (if head_only then hosted_backup_head_response g
              else json_response x 200 (obj [
                (''lookup_id'', JStr lookup_id),
                (''generation_id'', JStr (hg_generation_id g)),
                (''created_at'', enc_time x (hg_created_at g)),
                (''size_bytes'', jnat (hg_size_bytes g)),
                (''content_sha256'', JStr (hg_content_sha256 g)),
                (''backup'', hg_backup g)]), d')
         | (Inr BackupNotFound, d') \<Rightarrow> (error_response x 404 ''not_found'' ''Hosted backup not found.'' False, d')
         | (Inr ReadUnauthorized, d') \<Rightarrow> (backup_unauthorized x, d')
         | (Inl e, d') \<Rightarrow> (storage_error x ''Could not read hosted backup'' e, d')))"

definition get_hosted_backup ::
  "crates \<Rightarrow> http_request \<Rightarrow> string \<Rightarrow> bool \<Rightarrow> hosted_bucket disk \<Rightarrow> http_response" where
  "get_hosted_backup x request lookup_id head_only d =
     fst (get_hosted_backup_on x (\<lambda>i t d. (backup_latest x i t d, d)) request lookup_id head_only d)"

definition hosted_backup_generation_metadata :: "crates \<Rightarrow> hosted_generation \<Rightarrow> json" where
  "hosted_backup_generation_metadata x g = obj [
     (''generation_id'', JStr (hg_generation_id g)),
     (''created_at'', enc_time x (hg_created_at g)),
     (''size_bytes'', jnat (hg_size_bytes g)),
     (''content_sha256'', JStr (hg_content_sha256 g))]"

definition list_hosted_backup_generations_on ::
  "crates \<Rightarrow> (string \<Rightarrow> string \<Rightarrow> 'b \<Rightarrow> (string + backup_list_status) \<times> 'b) \<Rightarrow> http_request \<Rightarrow> string \<Rightarrow> 'b \<Rightarrow>
   http_response \<times> 'b" where
  "list_hosted_backup_generations_on x list_backups request lookup_id d =
     (case backup_checked x request lookup_id of
        Inl r \<Rightarrow> (r, d)
      | Inr auth_token \<Rightarrow>
        (case list_backups lookup_id auth_token d of
           (Inr (GenerationsFound gs), d') \<Rightarrow>
             (let metadata = map (hosted_backup_generation_metadata x) gs
              in json_response x 200 (obj [
                   (''lookup_id'', JStr lookup_id), (''count'', jnat (length metadata)),
                   (''generations'', JArr metadata),
                   (''max_generations'', jnat MAX_BACKUP_GENERATIONS)]), d')
         | (Inr GenerationsNotFound, d') \<Rightarrow> (error_response x 404 ''not_found'' ''Hosted backup not found.'' False, d')
         | (Inr ListUnauthorized, d') \<Rightarrow> (backup_unauthorized x, d')
         | (Inl e, d') \<Rightarrow> (storage_error x ''Could not read hosted backup generations'' e, d')))"

definition list_hosted_backup_generations ::
  "crates \<Rightarrow> http_request \<Rightarrow> string \<Rightarrow> hosted_bucket disk \<Rightarrow> http_response" where
  "list_hosted_backup_generations x request lookup_id d =
     fst (list_hosted_backup_generations_on x (\<lambda>i t d. (backup_list x i t d, d)) request lookup_id d)"

section \<open>Lemmas\<close>

text \<open>A key that occurs in a value, at any depth.\<close>

inductive has_key :: "string \<Rightarrow> json \<Rightarrow> bool" where
  here: "(k, v) \<in> set entries \<Longrightarrow> has_key k (JObj entries)"
| inside: "(k', v) \<in> set entries \<Longrightarrow> has_key k v \<Longrightarrow> has_key k (JObj entries)"
| elem: "v \<in> set vals \<Longrightarrow> has_key k v \<Longrightarrow> has_key k (JArr vals)"

inductive_simps has_key_simps:
  "has_key k (JObj entries)" "has_key k (JArr vals)" "has_key k JNull" "has_key k (JBool b)"
  "has_key k (JNum n)" "has_key k (JStr s)"

lemma reject_spec:
  "reject_private v = Ok () \<longleftrightarrow> (\<forall>k. has_key k v \<longrightarrow> to_ascii_lowercase k \<notin> set private_names)"
  "reject_entries es = Ok () \<longleftrightarrow> (\<forall>k. has_key k (JObj es) \<longrightarrow> to_ascii_lowercase k \<notin> set private_names)"
  "reject_values vs = Ok () \<longleftrightarrow> (\<forall>k. has_key k (JArr vs) \<longrightarrow> to_ascii_lowercase k \<notin> set private_names)"
proof (induction v and es and vs rule: reject_private_reject_entries_reject_values.induct)
  case (8 key v entries)
  have "has_key k (JObj ((key, v) # entries)) \<longleftrightarrow> k = key \<or> has_key k v \<or> has_key k (JObj entries)" for k
    by (auto simp: has_key_simps)
  with 8 show ?case by (auto simp: and_then_Ok_iff)
next
  case (10 v vals)
  have "has_key k (JArr (v # vals)) \<longleftrightarrow> has_key k v \<or> has_key k (JArr vals)" for k
    by (auto simp: has_key_simps)
  with 10 show ?case by (auto simp: and_then_Ok_iff)
qed (auto simp: has_key_simps)

text \<open>What a stored package satisfies.\<close>

definition package_ok :: "json \<Rightarrow> bool" where
  "package_ok v \<longleftrightarrow> (\<exists>entries c. v = JObj entries \<and> bt_get entries ''ciphertext'' = Some (JStr c) \<and>
     trim c \<noteq> [] \<and> length (trim c) \<le> 65536) \<and>
     (\<forall>k. has_key k v \<longrightarrow> to_ascii_lowercase k \<notin> set private_names)"

lemma validate_package_Ok: "validate_hosted_backup_package v = Ok () \<longleftrightarrow> package_ok v"
proof -
  have o: "as_object v = Some m \<longleftrightarrow> v = JObj m" for v m by (auto simp: as_object_def split: json.splits)
  have s: "as_str v = Some c \<longleftrightarrow> v = JStr c" for v c by (auto simp: as_str_def split: json.splits)
  show ?thesis
    by (auto simp: validate_hosted_backup_package_def and_then_Ok_iff ok_or_Ok_iff o s package_ok_def
        reject_spec(1) if_Err_Ok_iff bind_eq_Some_conv not_less MAX_BACKUP_CIPHERTEXT_CHARS_def
        split: option.splits if_splits)
qed

lemma parse_package_Ok:
  "parse_hosted_backup_package x body = Ok v \<longleftrightarrow> (\<exists>w. json_read x body = Ok w \<and> v = value_of w \<and> package_ok v)"
  by (auto simp: parse_hosted_backup_package_def and_then_Ok_iff map_err_Ok_iff map_ok_Ok_iff
      validate_package_Ok)

lemma backup_checked_Ok:
  "backup_checked x request lookup_id = Ok t \<longleftrightarrow>
   length lookup_id \<le> 96 \<and> list_all id_byte lookup_id \<and>
   (\<exists>h. header request ''Aichan-Backup-Auth'' = Some h \<and> t = trim h \<and> 12 \<le> length t)"
  by (auto simp: backup_checked_def and_then_Ok_iff map_err_Ok_iff validate_backup_lookup_id_def if_Err_Ok_iff
      backup_auth_token_def required_header_def ok_or_Ok_iff Let_def not_less MAX_BACKUP_LOOKUP_ID_BYTES_def)

lemma backup_checked_Err: "backup_checked x request lookup_id = Err r \<Longrightarrow> rs_status r \<in> {400, 401}"
  by (auto simp: backup_checked_def and_then_def map_err_def split: sum.splits)

text \<open>How a put may change the store.\<close>

lemma put_hosted_backup_step:
  assumes "put_hosted_backup x io now request lookup_id d = (r, d')"
  shows "d' = d \<and> rs_status r \<in> {400, 401} \<or>
    (\<exists>t v. backup_checked x request lookup_id = Ok t \<and> parse_hosted_backup_package x (rq_body request) = Ok v \<and>
       d' = snd (backup_put x io now lookup_id t v d) \<and> rs_status r \<in> {201, 401, 500})"
  using assms backup_checked_Err [of x request lookup_id]
  by (auto simp: put_hosted_backup_def put_hosted_backup_on_def storage_error_def backup_unauthorized_def
      split: sum.splits prod.splits backup_put_status.splits)

end
