(* ===== verification/Activity_Api.thy ===== *)
theory Activity_Api
  imports Backup_Api Activity_Store
begin

text \<open>
  The handlers of the activity routes (\<^verbatim>\<open>post_activity_event\<close>, \<^verbatim>\<open>get_activity_events\<close> of
  \<^verbatim>\<open>crates/aichan-server/src/lib.rs\<close>) and the checks before the store.
\<close>

definition ACTIVITY_DEFAULT_LIMIT :: nat where "ACTIVITY_DEFAULT_LIMIT = 100"
definition ACTIVITY_MAX_LIMIT :: nat where "ACTIVITY_MAX_LIMIT = 500"
definition MAX_ACTIVITY_CIPHERTEXT_CHARS :: nat where "MAX_ACTIVITY_CIPHERTEXT_CHARS = 65536"
definition MAX_ACTIVITY_BUCKET_ID_BYTES :: nat where "MAX_ACTIVITY_BUCKET_ID_BYTES = 96"

definition validate_activity_bucket_id :: "string \<Rightarrow> string + unit" where
  "validate_activity_bucket_id bucket_id =
     (if bucket_id = [] then Err ''activity bucket id is required''
      else if length bucket_id > MAX_ACTIVITY_BUCKET_ID_BYTES then Err ''activity bucket id is too long''
      else if \<not> list_all id_byte bucket_id then Err ''activity bucket id contains unsupported characters''
      else Ok ())"

definition activity_auth_token :: "http_request \<Rightarrow> string + string" where
  "activity_auth_token request =
     and_then (required_header request ''Aichan-Activity-Auth'') (\<lambda>value.
       let token = trim value in
       if length token < 12 then Err ''activity auth token is missing or too short'' else Ok token)"

definition activity_bucket_header :: "http_request \<Rightarrow> string + string" where
  "activity_bucket_header request =
     and_then (required_header request ''Aichan-Activity-Bucket'') (\<lambda>value.
       let bucket_id = trim value in
       and_then (validate_activity_bucket_id bucket_id) (\<lambda>_. Ok bucket_id))"

definition parse_activity_event :: "crates \<Rightarrow> bytes \<Rightarrow> string + activity_event" where
  "parse_activity_event x body =
     and_then (map_err (\<lambda>_. ''invalid JSON activity event'') (from_json x (dec_activity_event x) body)) (\<lambda>e.
     and_then (map_err error_text (validate_activity_event e)) (\<lambda>_.
       if length (ae_ciphertext e) > MAX_ACTIVITY_CIPHERTEXT_CHARS then Err ''activity ciphertext is too large''
       else Ok e))"

definition activity_unauthorized :: "crates \<Rightarrow> http_response" where
  "activity_unauthorized x =
     error_response x 401 ''invalid_activity_auth'' ''Activity auth token does not match this sync bucket.'' False"

definition post_activity_event_on ::
  "crates \<Rightarrow> (datetime \<Rightarrow> string \<Rightarrow> string \<Rightarrow> activity_event \<Rightarrow> 'a \<Rightarrow> (string + activity_put_status) \<times> 'a) \<Rightarrow> datetime \<Rightarrow>
   http_request \<Rightarrow> 'a \<Rightarrow> http_response \<times> 'a" where
  "post_activity_event_on x put_event now request d =
     (case activity_bucket_header request of
        Inl e \<Rightarrow> (error_response x 400 ''invalid_activity_bucket'' e False, d)
      | Inr bucket_id \<Rightarrow>
        (case activity_auth_token request of
           Inl e \<Rightarrow> (error_response x 401 ''invalid_activity_auth'' e False, d)
         | Inr auth_token \<Rightarrow>
           (case parse_activity_event x (rq_body request) of
              Inl e \<Rightarrow> (error_response x 400 ''invalid_activity_event'' e False, d)
            | Inr event \<Rightarrow>
              (case put_event now bucket_id auth_token event d of
                 (Inr (ActivityStored stored), d') \<Rightarrow>
                   (json_response x 201 (obj [
                      (''stored'', JBool True), (''bucket_id'', JStr bucket_id),
                      (''event_id'', JStr (sae_id stored)),
                      (''created_at'', enc_time x (sae_created stored)),
                      (''expires_at'', enc_time x (ae_expires_at (sae_event stored))),
                      (''size_bytes'', jnat (sae_size_bytes stored)),
                      (''content_sha256'', JStr (sae_content_sha256 stored))]), d')
               | (Inr ActivityPutUnauthorized, d') \<Rightarrow> (activity_unauthorized x, d')
               | (Inl e, d') \<Rightarrow> (storage_error x ''Could not write activity event'' e, d')))))"

definition post_activity_event ::
  "crates \<Rightarrow> io_plan \<Rightarrow> datetime \<Rightarrow> http_request \<Rightarrow> activity_bucket disk \<Rightarrow>
   http_response \<times> activity_bucket disk" where
  "post_activity_event x io = post_activity_event_on x (activity_put x io)"

definition activity_page_body :: "crates \<Rightarrow> string \<Rightarrow> activity_page \<Rightarrow> json" where
  "activity_page_body x bucket_id page = obj [
     (''bucket_id'', JStr bucket_id), (''count'', jnat (length (apg_events page))),
     (''events'', JArr (map (\<lambda>entry. value_of (enc_activity_event x (sae_event entry))) (apg_events page))),
     (''next_cursor'', jopt JStr (apg_next_cursor page)), (''has_more'', JBool (apg_has_more page))]"

definition get_activity_events_on ::
  "crates \<Rightarrow> (string \<Rightarrow> string \<Rightarrow> nat \<Rightarrow> activity_cursor option \<Rightarrow> datetime \<Rightarrow> 'a \<Rightarrow> (string + activity_list_status) \<times> 'a) \<Rightarrow>
   datetime \<Rightarrow> http_request \<Rightarrow> 'a \<Rightarrow> http_response \<times> 'a" where
  "get_activity_events_on x list_events now request d =
     (let params = request_params request in
      case bt_get params ''bucket'' of
        None \<Rightarrow> (error_response x 400 ''invalid_activity_bucket''
                  ''activity bucket query parameter is required'' False, d)
      | Some bucket_id \<Rightarrow>
        (case validate_activity_bucket_id bucket_id of
           Inl e \<Rightarrow> (error_response x 400 ''invalid_activity_bucket'' e False, d)
         | Inr _ \<Rightarrow>
           (case activity_auth_token request of
              Inl e \<Rightarrow> (error_response x 401 ''invalid_activity_auth'' e False, d)
            | Inr auth_token \<Rightarrow>
              (let limit = limit_param params ACTIVITY_DEFAULT_LIMIT ACTIVITY_MAX_LIMIT;
                   cursor = (case bt_get params ''cursor'' of
                       None \<Rightarrow> Ok None | Some c \<Rightarrow> map_ok Some (activity_cursor_decode x c))
               in case cursor of
                 Inl e \<Rightarrow> (error_response x 400 ''invalid_cursor'' (''Invalid activity cursor: '' @ e) False, d)
               | Inr cursor \<Rightarrow>
                 (case list_events bucket_id auth_token limit cursor now d of
                    (Inr (ActivityFound page), d') \<Rightarrow>
                      (json_response x 200 (activity_page_body x bucket_id page), d')
                  | (Inr ActivityNotFound, d') \<Rightarrow>
                      (json_response x 200 (obj [
                         (''bucket_id'', JStr bucket_id), (''count'', jnat 0), (''events'', JArr []),
                         (''next_cursor'', JNull), (''has_more'', JBool False)]), d')
                  | (Inr ActivityListUnauthorized, d') \<Rightarrow> (activity_unauthorized x, d')
                  | (Inl e, d') \<Rightarrow> (storage_error x ''Could not read activity events'' e, d'))))))"

definition get_activity_events ::
  "crates \<Rightarrow> io_plan \<Rightarrow> datetime \<Rightarrow> http_request \<Rightarrow> activity_bucket disk \<Rightarrow>
   http_response \<times> activity_bucket disk" where
  "get_activity_events x io = get_activity_events_on x (activity_list x io)"

section \<open>Lemmas\<close>

definition event_valid :: "activity_event \<Rightarrow> bool" where
  "event_valid e \<longleftrightarrow> validate_activity_event e = Ok () \<and> length (ae_ciphertext e) \<le> 65536"

lemma parse_activity_event_Ok:
  "parse_activity_event x body = Ok e \<longleftrightarrow> from_json x (dec_activity_event x) body = Ok e \<and> event_valid e"
  by (auto simp: parse_activity_event_def and_then_Ok_iff map_err_Ok_iff if_Err_Ok_iff event_valid_def
      MAX_ACTIVITY_CIPHERTEXT_CHARS_def)

text \<open>How the handlers may change the store.\<close>

lemma post_activity_event_step:
  assumes "post_activity_event x io now request d = (r, d')"
  shows "d' = d \<and> rs_status r \<in> {400, 401} \<or>
    (\<exists>i t e. activity_bucket_header request = Ok i \<and> activity_auth_token request = Ok t \<and>
       parse_activity_event x (rq_body request) = Ok e \<and>
       d' = snd (activity_put x io now i t e d) \<and> rs_status r \<in> {201, 401, 500})"
  using assms
  by (auto simp: post_activity_event_def post_activity_event_on_def storage_error_def activity_unauthorized_def
      split: sum.splits prod.splits activity_put_status.splits)

lemma get_activity_events_step:
  assumes "get_activity_events x io now request d = (r, d')"
  shows "d' = d \<and> rs_status r \<in> {400, 401} \<or>
    (\<exists>i t limit cursor. activity_auth_token request = Ok t \<and>
       d' = snd (activity_list x io i t limit cursor now d) \<and> rs_status r \<in> {200, 401, 500})"
proof (cases "bt_get (request_params request) ''bucket''")
  case None
  then show ?thesis using assms by (auto simp: get_activity_events_def get_activity_events_on_def)
next
  case (Some i)
  then show ?thesis
    using assms
    by (auto simp: get_activity_events_def get_activity_events_on_def Let_def storage_error_def activity_unauthorized_def
        split: sum.splits prod.splits activity_list_status.splits) (metis snd_conv)+
qed

end
