(* ===== verification/Server.thy ===== *)
theory Server
  imports Message_Api Activity_Api
begin

text \<open>
  The server as a whole (\<^verbatim>\<open>ServerState\<close>, \<^verbatim>\<open>handle_request\<close>, \<^verbatim>\<open>handle_connection\<close>, \<^verbatim>\<open>run\<close> of
  \<^verbatim>\<open>crates/aichan-server/src/lib.rs\<close>): the state its handlers share, the route of a request, and the
  handler that each route calls. A request is one step on the state: each store works under its own
  mutex, and a handler writes to one store at most. The four stores and their operations are parameters of
  the state and of \<open>handle_request_on\<close>; \<open>handle_request\<close> is the server whose stores are files, and the theory
  \<open>Deployment\<close> has the one whose stores are files or Firestore.
\<close>

section \<open>State\<close>

record ('p, 'm, 'b, 'a) server =
  sv_public_base_url :: string
  sv_rate_config :: rate_config
  sv_rate_buckets :: rate_buckets
  sv_connections :: connection_limiter
  sv_publish :: 'p
  sv_messages :: 'm
  sv_backups :: 'b
  sv_activities :: 'a
  sv_seen :: seen_nonces
  sv_admin :: admin_auth

type_synonym server_state =
  "(stored_publish disk, stored_message disk, hosted_bucket disk, activity_bucket disk) server"

text \<open>The four store files of a data directory, and which of them cannot be set up.\<close>

record data_dir =
  dd_path :: string
  dd_failure :: "string option"
  dd_publish :: "stored_publish disk"
  dd_messages :: "stored_message disk"
  dd_backups :: "hosted_bucket disk"
  dd_activities :: "activity_bucket disk"

definition with_stores ::
  "'p \<Rightarrow> 'm \<Rightarrow> 'b \<Rightarrow> 'a \<Rightarrow> string \<Rightarrow> rate_config \<Rightarrow> nat \<Rightarrow> admin_auth \<Rightarrow> ('p, 'm, 'b, 'a) server" where
  "with_stores publish messages backups activities public_base_url rate_limits max_conns admin =
     \<lparr>sv_public_base_url = public_base_url, sv_rate_config = rate_limits, sv_rate_buckets = [],
      sv_connections = connection_limiter_new (max max_conns 1), sv_publish = publish,
      sv_messages = messages, sv_backups = backups, sv_activities = activities, sv_seen = [],
      sv_admin = admin\<rparr>"

definition server_with_stores ::
  "data_dir \<Rightarrow> string \<Rightarrow> rate_config \<Rightarrow> nat \<Rightarrow> admin_auth \<Rightarrow> string + server_state" where
  "server_with_stores dir public_base_url rate_limits max_conns admin =
     and_then (file_store_new (dd_path dir) ''publish_records.json'' (dd_failure dir) (dd_publish dir)) (\<lambda>publish.
     and_then (file_store_new (dd_path dir) ''message_envelopes.json'' (dd_failure dir) (dd_messages dir)) (\<lambda>messages.
     and_then (file_store_new (dd_path dir) ''hosted_backups.json'' (dd_failure dir) (dd_backups dir)) (\<lambda>backups.
     and_then (file_store_new (dd_path dir) ''activity_events.json'' (dd_failure dir) (dd_activities dir)) (\<lambda>activities.
       Ok (with_stores publish messages backups activities public_base_url rate_limits max_conns admin)))))"

definition server_new :: "data_dir \<Rightarrow> string + server_state" where
  "server_new dir =
     server_with_stores dir ''http://localhost:8080'' default_rate_config DEFAULT_MAX_CONNECTIONS AdminDisabled"

section \<open>Routes\<close>

datatype route =
    HealthRoute | WellKnownRoute | AgentRoute | AgentJsonRoute | InstallRoute | FaviconRoute
  | DirectoryRoute | StatsRoute | PublishRoute | SearchRoute | DiscoverRoute
  | ModerateRoute string admin_publish_action | DeleteRoute string | PostMessageRoute | InboxRoute
  | PostActivityRoute | GetActivityRoute | PutBackupRoute string | GenerationsRoute string
  | GetBackupRoute string bool | NoRoute

text \<open>The arms of the \<^verbatim>\<open>match\<close> in the order of the code.\<close>

definition route_of :: "string \<Rightarrow> string \<Rightarrow> route" where
  "route_of verb p =
     (if verb = ''GET'' \<and> p = ''/health'' then HealthRoute
      else if verb = ''GET'' \<and> p = ''/.well-known/aichan'' then WellKnownRoute
      else if verb = ''GET'' \<and> p = ''/agent'' then AgentRoute
      else if verb = ''GET'' \<and> p = ''/agent.json'' then AgentJsonRoute
      else if verb = ''GET'' \<and> p = ''/install.sh'' then InstallRoute
      else if verb = ''GET'' \<and> p = ''/favicon.ico'' then FaviconRoute
      else if verb = ''GET'' \<and> p = ''/'' then DirectoryRoute
      else if verb = ''GET'' \<and> p = ''/v1/stats'' then StatsRoute
      else if verb = ''POST'' \<and> p = ''/v1/publish'' then PublishRoute
      else if verb = ''GET'' \<and> p = ''/v1/publish/search'' then SearchRoute
      else if verb = ''GET'' \<and> p = ''/v1/discover'' then DiscoverRoute
      else case (if verb = ''POST'' then admin_publish_path p ''/hide'' else None) of
        Some i \<Rightarrow> ModerateRoute i HideAction
      | None \<Rightarrow>
        (case (if verb = ''POST'' then admin_publish_path p ''/restore'' else None) of
           Some i \<Rightarrow> ModerateRoute i RestoreAction
         | None \<Rightarrow>
           (if verb = ''DELETE'' \<and> starts_with p ''/v1/publish/''
            then DeleteRoute (trim_start_matches ''/v1/publish/'' p)
            else if verb = ''POST'' \<and> p = ''/v1/messages'' then PostMessageRoute
            else if verb = ''GET'' \<and> p = ''/v1/inbox'' then InboxRoute
            else if verb = ''POST'' \<and> p = ''/v1/activity'' then PostActivityRoute
            else if verb = ''GET'' \<and> p = ''/v1/activity'' then GetActivityRoute
            else case (if verb = ''PUT'' then backup_lookup_path p else None) of
              Some i \<Rightarrow> PutBackupRoute i
            | None \<Rightarrow>
              (case (if verb = ''GET'' then backup_generations_path p else None) of
                 Some i \<Rightarrow> GenerationsRoute i
               | None \<Rightarrow>
                 (case (if verb \<in> {''GET'', ''HEAD''} then backup_lookup_path p else None) of
                    Some i \<Rightarrow> GetBackupRoute i (verb = ''HEAD'')
                  | None \<Rightarrow> NoRoute)))))"

section \<open>Fixed answers\<close>

text \<open>
  The texts of the pages for people and agents, by the base URL of the relay; they are the parameter
  \<open>static_pages\<close>, and the bytes of the answers that hold them.
\<close>

record static_pages =
  agent_page :: "string \<Rightarrow> bytes"
  agent_json_page :: "string \<Rightarrow> json"
  install_page :: bytes
  directory_page :: bytes

definition agent_response :: "static_pages \<Rightarrow> ('p, 'm, 'b, 'a) server \<Rightarrow> http_response" where
  "agent_response pages s = response 200 ''text/markdown; charset=utf-8'' (agent_page pages (sv_public_base_url s))"

definition agent_json_response :: "crates \<Rightarrow> static_pages \<Rightarrow> ('p, 'm, 'b, 'a) server \<Rightarrow> http_response" where
  "agent_json_response x pages s = json_response x 200 (agent_json_page pages (sv_public_base_url s))"

definition install_script_response :: "static_pages \<Rightarrow> http_response" where
  "install_script_response pages = response 200 ''text/x-shellscript; charset=utf-8'' (install_page pages)"

definition directory_response :: "static_pages \<Rightarrow> http_response" where
  "directory_response pages = response 200 ''text/html; charset=utf-8'' (directory_page pages)"

definition discovery_endpoints :: json where
  "discovery_endpoints = obj [
     (''stats'', JStr ''/v1/stats''), (''publish'', JStr ''/v1/publish''),
     (''publish_search'', JStr ''/v1/publish/search''), (''discover'', JStr ''/v1/discover''),
     (''messages'', JStr ''/v1/messages''), (''inbox'', JStr ''/v1/inbox''),
     (''activity'', JStr ''/v1/activity''), (''backups'', JStr ''/v1/backups''),
     (''agent'', JStr ''/agent''), (''agent_json'', JStr ''/agent.json''), (''install'', JStr ''/install.sh'')]"

definition discovery_limits :: "rate_config \<Rightarrow> json" where
  "discovery_limits config = obj [
     (''max_message_ttl_seconds'', jnat 604800), (''max_message_bytes'', jnat 65536),
     (''max_backup_ciphertext_chars'', jnat MAX_BACKUP_CIPHERTEXT_CHARS),
     (''max_backup_generations'', jnat MAX_BACKUP_GENERATIONS),
     (''max_activity_ciphertext_chars'', jnat MAX_ACTIVITY_CIPHERTEXT_CHARS),
     (''max_activity_events'', jnat MAX_ACTIVITY_EVENTS),
     (''max_activity_limit'', jnat ACTIVITY_MAX_LIMIT),
     (''max_publish_body_bytes'', jnat 8192),
     (''max_discover_limit'', jnat DISCOVER_MAX_LIMIT), (''max_discover_tags'', jnat DISCOVER_MAX_TAGS),
     (''discover_candidate_window'', jnat DISCOVER_CANDIDATE_LIMIT),
     (''max_body_bytes'', jnat (max_body_bytes config)),
     (''read_per_minute'', jnat (read_per_minute config)),
     (''write_per_minute'', jnat (write_per_minute config))]"

definition discovery_response :: "crates \<Rightarrow> ('p, 'm, 'b, 'a) server \<Rightarrow> http_response" where
  "discovery_response x s = json_response x 200 (obj [
     (''protocol'', JStr PROTOCOL_ID), (''relay_id'', JStr ''relay_local''),
     (''relay_base_url'', JStr (sv_public_base_url s)),
     (''versions'', JArr [JStr PROTOCOL_ID]), (''encodings'', JArr [JStr ''json'']),
     (''endpoints'', discovery_endpoints), (''limits'', discovery_limits (sv_rate_config s)),
     (''extensions'', JArr [JStr ''hosted_encrypted_backups'', JStr ''encrypted_activity_sync''])])"

section \<open>Handling a request\<close>

text \<open>
  What a request finds around it: the monotonic clock, the wall clock when its signature or its token
  is checked and when its store is reached, the outcome of the store's I/O, and the tokeninfo service.
\<close>

record request_env =
  env_instant :: nat
  env_now :: datetime
  env_later :: datetime
  env_io :: io_plan
  env_fetch :: "string \<Rightarrow> string + json"

text \<open>What the server logs: an event, a moderation audit, the completion of a request.\<close>

datatype log_line =
    EventLine string json | AuditLine admin_publish_audit | CompletionLine http_request http_response

text \<open>The operations that the handlers call, each with what its store needs to know of the world.\<close>

record ('p, 'm, 'b, 'a) store_ops =
  op_upsert :: "publish_object \<Rightarrow> peer_id \<Rightarrow> 'p \<Rightarrow> (string + publish_upsert_status) \<times> 'p"
  op_search :: "publish_search_request \<Rightarrow> 'p \<Rightarrow> (string + publish_search_page) \<times> 'p"
  op_discover :: "publish_discover_request \<Rightarrow> 'p \<Rightarrow> (string + publish_object list) \<times> 'p"
  op_delete :: "datetime \<Rightarrow> string \<Rightarrow> peer_id \<Rightarrow> 'p \<Rightarrow> (string + publish_delete_status) \<times> 'p"
  op_hide :: "'p moderate"
  op_restore :: "'p moderate"
  op_stats :: "'p \<Rightarrow> (string + public_stats) \<times> 'p"
  op_insert :: "datetime \<Rightarrow> message_object \<Rightarrow> 'm \<Rightarrow> (string + unit) \<times> 'm"
  op_inbox :: "peer_id \<Rightarrow> nat \<Rightarrow> datetime \<Rightarrow> 'm \<Rightarrow> (string + message_object list) \<times> 'm"
  op_count :: "'m \<Rightarrow> (string + nat) \<times> 'm"
  op_put :: "datetime \<Rightarrow> string \<Rightarrow> string \<Rightarrow> json \<Rightarrow> 'b \<Rightarrow> (string + backup_put_status) \<times> 'b"
  op_latest :: "string \<Rightarrow> string \<Rightarrow> 'b \<Rightarrow> (string + backup_read_status) \<times> 'b"
  op_list :: "string \<Rightarrow> string \<Rightarrow> 'b \<Rightarrow> (string + backup_list_status) \<times> 'b"
  op_event_put :: "datetime \<Rightarrow> string \<Rightarrow> string \<Rightarrow> activity_event \<Rightarrow> 'a \<Rightarrow> (string + activity_put_status) \<times> 'a"
  op_event_list :: "string \<Rightarrow> string \<Rightarrow> nat \<Rightarrow> activity_cursor option \<Rightarrow> datetime \<Rightarrow> 'a \<Rightarrow> (string + activity_list_status) \<times> 'a"

definition file_ops ::
  "crates \<Rightarrow> io_plan \<Rightarrow> (stored_publish disk, stored_message disk, hosted_bucket disk, activity_bucket disk) store_ops" where
  "file_ops x io = \<lparr>op_upsert = publish_upsert io, op_search = (\<lambda>q d. (publish_search x q d, d)),
     op_discover = (\<lambda>q d. (publish_discover x q d, d)), op_delete = mark_author_deleted io,
     op_hide = admin_hide io, op_restore = admin_restore io, op_stats = (\<lambda>d. (publish_stats d, d)),
     op_insert = message_insert io, op_inbox = (\<lambda>p limit now d. (message_inbox p limit now d, d)),
     op_count = (\<lambda>d. (message_count d, d)), op_put = backup_put x io,
     op_latest = (\<lambda>i t d. (backup_latest x i t d, d)), op_list = (\<lambda>i t d. (backup_list x i t d, d)),
     op_event_put = activity_put x io, op_event_list = activity_list x io\<rparr>"

definition dispatch_on ::
  "crates \<Rightarrow> static_pages \<Rightarrow> ('p, 'm, 'b, 'a) store_ops \<Rightarrow> request_env \<Rightarrow> http_request \<Rightarrow> ('p, 'm, 'b, 'a) server \<Rightarrow>
   http_response \<times> log_line list \<times> ('p, 'm, 'b, 'a) server" where
  "dispatch_on x pages ops env request s =
     (let now = env_now env; later = env_later env in
      case route_of (rq_method request) (path request) of
        HealthRoute \<Rightarrow>
          (json_response x 200 (obj [(''ok'', JBool True), (''service'', JStr ''aichan-server'')]), [], s)
      | WellKnownRoute \<Rightarrow> (discovery_response x s, [], s)
      | AgentRoute \<Rightarrow> (agent_response pages s, [], s)
      | AgentJsonRoute \<Rightarrow> (agent_json_response x pages s, [], s)
      | InstallRoute \<Rightarrow> (install_script_response pages, [], s)
      | FaviconRoute \<Rightarrow> (response 204 ''image/x-icon'' [], [], s)
      | DirectoryRoute \<Rightarrow> (directory_response pages, [], s)
      | StatsRoute \<Rightarrow>
          (let (r, p, m) = stats_response_on x (op_stats ops) (op_count ops) (sv_publish s) (sv_messages s)
           in (r, [], s\<lparr>sv_publish := p, sv_messages := m\<rparr>))
      | PublishRoute \<Rightarrow>
          (let (r, d) = publish_record_on x (op_upsert ops) request (sv_publish s) in (r, [], s\<lparr>sv_publish := d\<rparr>))
      | SearchRoute \<Rightarrow>
          (let (r, d) = search_publish_records_on x (op_search ops) request (sv_publish s)
           in (r, [], s\<lparr>sv_publish := d\<rparr>))
      | DiscoverRoute \<Rightarrow>
          (let (r, d) = discover_publish_records_on x (op_discover ops) now request (sv_publish s)
           in (r, [], s\<lparr>sv_publish := d\<rparr>))
      | ModerateRoute publish_id action \<Rightarrow>
          (let (r, audit, d) = admin_publish_moderation_on x (env_fetch env) (op_hide ops) (op_restore ops) now later
                                 (sv_admin s) request publish_id action (sv_publish s)
           in (r, [AuditLine audit], s\<lparr>sv_publish := d\<rparr>))
      | DeleteRoute publish_id \<Rightarrow>
          (let (r, seen, d) = delete_publish_record_on x (op_delete ops) now later request publish_id (sv_seen s)
                                (sv_publish s)
           in (r, [], s\<lparr>sv_seen := seen, sv_publish := d\<rparr>))
      | PostMessageRoute \<Rightarrow>
          (let (r, d) = post_message_on x (op_insert ops) later request (sv_messages s)
           in (r, [], s\<lparr>sv_messages := d\<rparr>))
      | InboxRoute \<Rightarrow>
          (let (r, seen, d) = get_inbox_on x (op_inbox ops) now later request (sv_seen s) (sv_messages s)
           in (r, [], s\<lparr>sv_seen := seen, sv_messages := d\<rparr>))
      | PostActivityRoute \<Rightarrow>
          (let (r, d) = post_activity_event_on x (op_event_put ops) later request (sv_activities s)
           in (r, [], s\<lparr>sv_activities := d\<rparr>))
      | GetActivityRoute \<Rightarrow>
          (let (r, d) = get_activity_events_on x (op_event_list ops) later request (sv_activities s)
           in (r, [], s\<lparr>sv_activities := d\<rparr>))
      | PutBackupRoute lookup_id \<Rightarrow>
          (let (r, d) = put_hosted_backup_on x (op_put ops) later request lookup_id (sv_backups s)
           in (r, [], s\<lparr>sv_backups := d\<rparr>))
      | GenerationsRoute lookup_id \<Rightarrow>
          (let (r, d) = list_hosted_backup_generations_on x (op_list ops) request lookup_id (sv_backups s)
           in (r, [], s\<lparr>sv_backups := d\<rparr>))
      | GetBackupRoute lookup_id head_only \<Rightarrow>
          (let (r, d) = get_hosted_backup_on x (op_latest ops) request lookup_id head_only (sv_backups s)
           in (r, [], s\<lparr>sv_backups := d\<rparr>))
      | NoRoute \<Rightarrow> (error_response x 404 ''not_found'' ''Route not found.'' False, [], s))"

definition dispatch ::
  "crates \<Rightarrow> static_pages \<Rightarrow> request_env \<Rightarrow> http_request \<Rightarrow> server_state \<Rightarrow>
   http_response \<times> log_line list \<times> server_state" where
  "dispatch x pages env = dispatch_on x pages (file_ops x (env_io env)) env"

text \<open>Over files, a handler that only reads leaves its store as it is.\<close>

lemma file_ops_simps [simp]:
  "op_upsert (file_ops x io) = publish_upsert io" "op_search (file_ops x io) = (\<lambda>q d. (publish_search x q d, d))"
  "op_discover (file_ops x io) = (\<lambda>q d. (publish_discover x q d, d))" "op_delete (file_ops x io) = mark_author_deleted io"
  "op_hide (file_ops x io) = admin_hide io" "op_restore (file_ops x io) = admin_restore io"
  "op_stats (file_ops x io) = (\<lambda>d. (publish_stats d, d))" "op_insert (file_ops x io) = message_insert io"
  "op_inbox (file_ops x io) = (\<lambda>p limit now d. (message_inbox p limit now d, d))"
  "op_count (file_ops x io) = (\<lambda>d. (message_count d, d))" "op_put (file_ops x io) = backup_put x io"
  "op_latest (file_ops x io) = (\<lambda>i t d. (backup_latest x i t d, d))"
  "op_list (file_ops x io) = (\<lambda>i t d. (backup_list x i t d, d))"
  "op_event_put (file_ops x io) = activity_put x io" "op_event_list (file_ops x io) = activity_list x io"
  by (simp_all add: file_ops_def)

lemma file_reads:
  "search_publish_records_on x (\<lambda>q d. (publish_search x q d, d)) request d = (search_publish_records x request d, d)"
  "discover_publish_records_on x (\<lambda>q d. (publish_discover x q d, d)) now request d = (discover_publish_records x now request d, d)"
  "get_inbox_on x (\<lambda>p limit now d. (message_inbox p limit now d, d)) now later request seen m =
     (case get_inbox x now later request seen m of (r, seen') \<Rightarrow> (r, seen', m))"
  "stats_response_on x (\<lambda>d. (publish_stats d, d)) (\<lambda>d. (message_count d, d)) d m = (stats_response x d m, d, m)"
  "get_hosted_backup_on x (\<lambda>i t d. (backup_latest x i t d, d)) request i h b = (get_hosted_backup x request i h b, b)"
  "list_hosted_backup_generations_on x (\<lambda>i t d. (backup_list x i t d, d)) request i b =
     (list_hosted_backup_generations x request i b, b)"
  by (simp_all add: search_publish_records_def search_publish_records_on_def discover_publish_records_def
      discover_publish_records_on_def get_inbox_def get_inbox_on_def stats_response_def stats_response_on_def
      get_hosted_backup_def get_hosted_backup_on_def list_hosted_backup_generations_def
      list_hosted_backup_generations_on_def Let_def
      split: option.split sum.split prod.split backup_read_status.split backup_list_status.split)

lemma dispatch_file:
  "dispatch x pages env request s =
     (let io = env_io env; now = env_now env; later = env_later env in
      case route_of (rq_method request) (path request) of
        HealthRoute \<Rightarrow>
          (json_response x 200 (obj [(''ok'', JBool True), (''service'', JStr ''aichan-server'')]), [], s)
      | WellKnownRoute \<Rightarrow> (discovery_response x s, [], s)
      | AgentRoute \<Rightarrow> (agent_response pages s, [], s)
      | AgentJsonRoute \<Rightarrow> (agent_json_response x pages s, [], s)
      | InstallRoute \<Rightarrow> (install_script_response pages, [], s)
      | FaviconRoute \<Rightarrow> (response 204 ''image/x-icon'' [], [], s)
      | DirectoryRoute \<Rightarrow> (directory_response pages, [], s)
      | StatsRoute \<Rightarrow> (stats_response x (sv_publish s) (sv_messages s), [], s)
      | PublishRoute \<Rightarrow>
          (let (r, d) = publish_record x io request (sv_publish s) in (r, [], s\<lparr>sv_publish := d\<rparr>))
      | SearchRoute \<Rightarrow> (search_publish_records x request (sv_publish s), [], s)
      | DiscoverRoute \<Rightarrow> (discover_publish_records x now request (sv_publish s), [], s)
      | ModerateRoute publish_id action \<Rightarrow>
          (let (r, audit, d) = admin_publish_moderation x (env_fetch env) io now later (sv_admin s) request
                                 publish_id action (sv_publish s)
           in (r, [AuditLine audit], s\<lparr>sv_publish := d\<rparr>))
      | DeleteRoute publish_id \<Rightarrow>
          (let (r, seen, d) = delete_publish_record x io now later request publish_id (sv_seen s) (sv_publish s)
           in (r, [], s\<lparr>sv_seen := seen, sv_publish := d\<rparr>))
      | PostMessageRoute \<Rightarrow>
          (let (r, d) = post_message x io later request (sv_messages s) in (r, [], s\<lparr>sv_messages := d\<rparr>))
      | InboxRoute \<Rightarrow>
          (let (r, seen) = get_inbox x now later request (sv_seen s) (sv_messages s)
           in (r, [], s\<lparr>sv_seen := seen\<rparr>))
      | PostActivityRoute \<Rightarrow>
          (let (r, d) = post_activity_event x io later request (sv_activities s)
           in (r, [], s\<lparr>sv_activities := d\<rparr>))
      | GetActivityRoute \<Rightarrow>
          (let (r, d) = get_activity_events x io later request (sv_activities s)
           in (r, [], s\<lparr>sv_activities := d\<rparr>))
      | PutBackupRoute lookup_id \<Rightarrow>
          (let (r, d) = put_hosted_backup x io later request lookup_id (sv_backups s)
           in (r, [], s\<lparr>sv_backups := d\<rparr>))
      | GenerationsRoute lookup_id \<Rightarrow> (list_hosted_backup_generations x request lookup_id (sv_backups s), [], s)
      | GetBackupRoute lookup_id head_only \<Rightarrow> (get_hosted_backup x request lookup_id head_only (sv_backups s), [], s)
      | NoRoute \<Rightarrow> (error_response x 404 ''not_found'' ''Route not found.'' False, [], s))"
  unfolding dispatch_def dispatch_on_def Let_def file_ops_simps file_reads publish_record_def [symmetric]
    delete_publish_record_def [symmetric] admin_publish_moderation_def [symmetric] post_message_def [symmetric]
    put_hosted_backup_def [symmetric] post_activity_event_def [symmetric] get_activity_events_def [symmetric]
  by (cases "route_of (rq_method request) (path request)") (simp_all split: prod.split)

definition class_text :: "rate_class \<Rightarrow> string" where
  "class_text c = (case c of ReadClass \<Rightarrow> ''read'' | WriteClass \<Rightarrow> ''write'')"

definition handle_request_on ::
  "crates \<Rightarrow> static_pages \<Rightarrow> ('p, 'm, 'b, 'a) store_ops \<Rightarrow> request_env \<Rightarrow> http_request \<Rightarrow> ('p, 'm, 'b, 'a) server \<Rightarrow>
   http_response \<times> log_line list \<times> ('p, 'm, 'b, 'a) server" where
  "handle_request_on x pages ops env request s =
     (if length (rq_body request) > max_body_bytes (sv_rate_config s) then
        (let r = error_response x 413 ''payload_too_large''
                   ''Request body exceeds the configured maximum size.'' False
         in (r, [CompletionLine request r], s))
      else case check_rate_limit (sv_rate_config s) (env_instant env) request (sv_rate_buckets s) of
        (Some limited, buckets) \<Rightarrow>
          (let r = rate_limited_response x (retry_after_seconds limited)
           in (r, [EventLine ''rate_limit.exceeded'' (obj [
                     (''class'', JStr (class_text (key_class (exceeded_key limited)))),
                     (''path'', JStr (path request)),
                     (''retry_after_seconds'', jnat (retry_after_seconds limited))]),
                   CompletionLine request r], s\<lparr>sv_rate_buckets := buckets\<rparr>))
      | (None, buckets) \<Rightarrow>
          (let (r, log, s') = dispatch_on x pages ops env request (s\<lparr>sv_rate_buckets := buckets\<rparr>)
           in (r, log @ [CompletionLine request r], s')))"

definition handle_request ::
  "crates \<Rightarrow> static_pages \<Rightarrow> request_env \<Rightarrow> http_request \<Rightarrow> server_state \<Rightarrow>
   http_response \<times> log_line list \<times> server_state" where
  "handle_request x pages env = handle_request_on x pages (file_ops x (env_io env)) env"

lemma handle_request_file:
  "handle_request x pages env request s =
     (if length (rq_body request) > max_body_bytes (sv_rate_config s) then
        (let r = error_response x 413 ''payload_too_large''
                   ''Request body exceeds the configured maximum size.'' False
         in (r, [CompletionLine request r], s))
      else case check_rate_limit (sv_rate_config s) (env_instant env) request (sv_rate_buckets s) of
        (Some limited, buckets) \<Rightarrow>
          (let r = rate_limited_response x (retry_after_seconds limited)
           in (r, [EventLine ''rate_limit.exceeded'' (obj [
                     (''class'', JStr (class_text (key_class (exceeded_key limited)))),
                     (''path'', JStr (path request)),
                     (''retry_after_seconds'', jnat (retry_after_seconds limited))]),
                   CompletionLine request r], s\<lparr>sv_rate_buckets := buckets\<rparr>))
      | (None, buckets) \<Rightarrow>
          (let (r, log, s') = dispatch x pages env request (s\<lparr>sv_rate_buckets := buckets\<rparr>)
           in (r, log @ [CompletionLine request r], s')))"
  unfolding handle_request_def handle_request_on_def dispatch_def ..

section \<open>Connections\<close>

text \<open>
  A connection that has a guard: the bytes it delivers, and the bytes of the answer or the error that
  ends it. \<open>handle_connection\<close> runs on a thread of its own; its one call of \<open>handle_request\<close> is its
  only access to the shared state.
\<close>

definition handle_connection_on ::
  "crates \<Rightarrow> static_pages \<Rightarrow> ('p, 'm, 'b, 'a) store_ops \<Rightarrow> request_env \<Rightarrow> wire \<Rightarrow> ('p, 'm, 'b, 'a) server \<Rightarrow>
   (string + bytes) \<times> log_line list \<times> ('p, 'm, 'b, 'a) server" where
  "handle_connection_on x pages ops env stream s =
     (case read_http_request stream (max_body_bytes (sv_rate_config s)) of
        Inl e \<Rightarrow> (Err e, [EventLine ''request.failed'' (obj [(''error'', JStr e)])], s)
      | Inr PayloadTooLarge \<Rightarrow>
          (Ok (write_http_response (error_response x 413 ''payload_too_large''
                 ''Request body exceeds the configured maximum size.'' False)), [], s)
      | Inr (Request request) \<Rightarrow>
          (let (r, log, s') = handle_request_on x pages ops env request s in (Ok (write_http_response r), log, s')))"

definition handle_connection ::
  "crates \<Rightarrow> static_pages \<Rightarrow> request_env \<Rightarrow> wire \<Rightarrow> server_state \<Rightarrow>
   (string + bytes) \<times> log_line list \<times> server_state" where
  "handle_connection x pages env = handle_connection_on x pages (file_ops x (env_io env)) env"

lemma handle_connection_file:
  "handle_connection x pages env stream s =
     (case read_http_request stream (max_body_bytes (sv_rate_config s)) of
        Inl e \<Rightarrow> (Err e, [EventLine ''request.failed'' (obj [(''error'', JStr e)])], s)
      | Inr PayloadTooLarge \<Rightarrow>
          (Ok (write_http_response (error_response x 413 ''payload_too_large''
                 ''Request body exceeds the configured maximum size.'' False)), [], s)
      | Inr (Request request) \<Rightarrow>
          (let (r, log, s') = handle_request x pages env request s in (Ok (write_http_response r), log, s')))"
  unfolding handle_connection_def handle_connection_on_def handle_request_def ..

text \<open>The loop of \<^verbatim>\<open>run\<close> on one accepted stream: a guard and the connection, or an answer that the server is busy.\<close>

definition accept_connection ::
  "crates \<Rightarrow> ('p, 'm, 'b, 'a) server \<Rightarrow> (bytes option) \<times> log_line list \<times> ('p, 'm, 'b, 'a) server" where
  "accept_connection x s =
     (case try_acquire (sv_connections s) of
        (True, l) \<Rightarrow> (None, [], s\<lparr>sv_connections := l\<rparr>)
      | (False, l) \<Rightarrow>
          (Some (write_http_response (error_response x 503 ''server_busy''
                   ''Server is at the configured connection limit.'' True)),
           [EventLine ''server.connection_rejected'' (obj [(''reason'', JStr ''max_connections'')])],
           s\<lparr>sv_connections := l\<rparr>))"

end
