(* ===== verification/Server_Laws.thy ===== *)
theory Server_Laws
  imports Server Publish_Props
begin

text \<open>
  What every request keeps of the server's state: each store is well formed and holds only what its
  handler checked. \<open>server_step\<close> is the step relation of the server (a connection accepted, served,
  ended); its invariant is proved by rule induction from one lemma per store.
\<close>

section \<open>The stores hold what was checked\<close>

definition publish_good :: "crates \<Rightarrow> stored_publish list \<Rightarrow> bool" where
  "publish_good x rs \<longleftrightarrow> publish_ok rs \<and> (\<forall>e \<in> set rs. verify_publish_record x (sp_object e) = Ok (sp_peer e))"

definition messages_good :: "crates \<Rightarrow> stored_message list \<Rightarrow> bool" where
  "messages_good x rs \<longleftrightarrow> messages_ok rs \<and> (\<forall>e \<in> set rs. envelope_valid x (sm_object e))"

definition lookup_id_ok :: "string \<Rightarrow> bool" where
  "lookup_id_ok i \<longleftrightarrow> length i \<le> 96 \<and> list_all id_byte i"

definition backups_good :: "hosted_bucket list \<Rightarrow> bool" where
  "backups_good bs \<longleftrightarrow> backups_ok bs \<and>
     (\<forall>b \<in> set bs. lookup_id_ok (hb_lookup_id b) \<and> (\<forall>g \<in> set (hb_generations b). package_ok (hg_backup g)))"

definition activities_good :: "activity_bucket list \<Rightarrow> bool" where
  "activities_good bs \<longleftrightarrow> activities_ok bs \<and>
     (\<forall>b \<in> set bs. lookup_id_ok (ab_bucket_id b) \<and> (\<forall>e \<in> set (ab_events b). event_valid (sae_event e)))"

lemmas good_defs = publish_good_def messages_good_def backups_good_def activities_good_def

lemma verify_publish_peer:
  "verify_publish_record x ob = Ok p \<Longrightarrow> p = prp_peer_id (obj_payload ob)"
  by (auto simp: verify_publish_record_def and_then_Ok_iff if_Err_Ok_iff)

lemma upsert_good:
  assumes "publish_good x rs" "verify_publish_record x ob = Ok p"
    and "publish_upsert_records ob p rs = (st, Some rs')"
  shows "publish_good x rs'"
proof -
  have "sp_object ` set rs' \<subseteq> insert ob (sp_object ` set rs)"
    using assms(3)
    by (auto simp: publish_upsert_records_def split: option.splits if_splits dest!: set_update_first)
  moreover have "verify_publish_record x ob = Ok (prp_peer_id (obj_payload ob))"
    using assms(2) verify_publish_peer by blast
  ultimately show ?thesis
    using assms upsert_keeps_ok [OF _ assms(3)] by (fastforce simp: publish_good_def)
qed

lemma moderate_good:
  assumes "publish_good x rs" "moderate_records change i rs = (st, Some rs')"
    and "\<And>e. sp_object (change e) = sp_object e"
  shows "publish_good x rs'"
proof -
  have "sp_object ` set rs' \<subseteq> sp_object ` set rs"
    using assms(2,3)
    by (auto simp: moderate_records_def split: option.splits if_splits dest!: set_update_first)
  then show ?thesis
    using assms(1) moderate_keeps_ok [OF _ assms(2,3)] by (fastforce simp: publish_good_def)
qed

lemma delete_good:
  assumes "publish_good x rs" "mark_author_deleted_records now i p rs = (st, Some rs')"
  shows "publish_good x rs'"
proof -
  obtain k where "position (\<lambda>e. sp_id e = i \<and> \<not> sp_deleted e) rs = Some k"
    and "rs' = rs[k := author_delete now (rs ! k)]"
    using assms(2) by (auto simp: mark_author_deleted_records_def split: option.splits if_splits)
  then have "rs' = update_first (\<lambda>e. sp_id e = i \<and> \<not> sp_deleted e) (author_delete now) rs"
    by (simp add: position_update)
  then have "sp_object ` set rs' \<subseteq> sp_object ` set rs" by (auto dest!: set_update_first)
  then show ?thesis
    using assms(1) delete_keeps_ok [OF _ assms(2)] by (fastforce simp: publish_good_def)
qed

lemma insert_good:
  assumes "messages_good x rs" "envelope_valid x ob" "message_insert_records now ob rs = (st, Some rs')"
  shows "messages_good x rs'"
  using assms message_insert_keeps_ok [OF _ assms(3)]
  by (auto simp: messages_good_def message_insert_records_def split: if_splits)

lemma generations_after_put:
  "set (hb_generations (snd (hosted_bucket_put x t v now b))) \<subseteq> insert (new_generation x v now) (set (hb_generations b))"
  by (auto simp: hosted_bucket_put_def Let_def dest!: in_set_takeD)

lemma new_generation_backup [simp]: "hg_backup (new_generation x v now) = v"
  by (simp add: new_generation_def Let_def)

lemma backup_put_good:
  assumes "backups_good bs" "package_ok v" "lookup_id_ok i" "backup_put_records x i t v now bs = (st, Some bs')"
  shows "backups_good bs'"
proof -
  let ?good = "\<lambda>b. lookup_id_ok (hb_lookup_id b) \<and> (\<forall>g \<in> set (hb_generations b). package_ok (hg_backup g))"
  have put: "?good (snd (hosted_bucket_put x t v now b))" if "?good b" for b
    using that generations_after_put [of x t v now b] assms(2) by auto
  have "?good (hosted_bucket_new i (backup_auth_hash x t) now)"
    using assms(3) by (simp add: hosted_bucket_new_def)
  then have "\<forall>b \<in> set bs'. ?good b"
    using backups.put_records_Some [OF assms(4) [unfolded backup_put_records_eq]] assms(1) put
    by (auto simp: backups_good_def split: option.splits dest!: set_update_first)
  then show ?thesis
    using backup_put_keeps_ok [OF _ assms(4)] assms(1) by (simp add: backups_good_def)
qed

lemma events_after_put:
  "sae_event ` set (ab_events (snd (activity_bucket_put x t e now b))) \<subseteq> insert e (sae_event ` set (ab_events b))"
  by (auto simp: activity_bucket_put_def prune_expired_def stored_event_def Let_def
      split: option.split dest!: in_set_dropD)

lemma events_after_list:
  "set (ab_events (snd (activity_bucket_list x t limit cursor now b))) \<subseteq> set (ab_events b)"
  by (auto simp: activity_bucket_list_def prune_expired_def Let_def)

lemma activity_put_good:
  assumes "activities_good bs" "event_valid e" "lookup_id_ok i" "activity_put_records x i t e now bs = (st, Some bs')"
  shows "activities_good bs'"
proof -
  let ?good = "\<lambda>b. lookup_id_ok (ab_bucket_id b) \<and> (\<forall>e \<in> set (ab_events b). event_valid (sae_event e))"
  have put: "?good (snd (activity_bucket_put x t e now b))" if "?good b" for b
    using that events_after_put [of x t e now b] assms(2) by fastforce
  have "?good (activity_bucket_new i (activity_auth_hash x t) now)"
    using assms(3) by (simp add: activity_bucket_new_def)
  then have "\<forall>b \<in> set bs'. ?good b"
    using activities.put_records_Some [OF assms(4) [unfolded activity_put_records_eq]] assms(1) put
    by (auto simp: activities_good_def split: option.splits dest!: set_update_first)
  then show ?thesis
    using activity_put_keeps_ok [OF _ assms(4)] assms(1) by (simp add: activities_good_def)
qed

lemma activity_list_good:
  assumes "activities_good bs" "activity_list_records x i t limit cursor now bs = (st, Some bs')"
  shows "activities_good bs'"
proof -
  obtain b where b: "find (\<lambda>b. ab_bucket_id b = i) bs = Some b"
    and bs': "bs' = update_first (\<lambda>b. ab_bucket_id b = i)
      (\<lambda>_. snd (activity_bucket_list x t limit cursor now b)) bs"
    using assms(2) by (auto simp: activity_list_records_def split: option.splits prod.splits if_splits)
  have mem: "b \<in> set bs" using find_Some_mem [OF b] by simp
  have "ab_bucket_id (snd (activity_bucket_list x t limit cursor now b)) = ab_bucket_id b"
    by (simp add: activity_bucket_list_def prune_expired_def Let_def)
  with mem events_after_list [of x t limit cursor now b] assms(1)
  have "lookup_id_ok (ab_bucket_id (snd (activity_bucket_list x t limit cursor now b))) \<and>
      (\<forall>e \<in> set (ab_events (snd (activity_bucket_list x t limit cursor now b))). event_valid (sae_event e))"
    by (auto simp: activities_good_def)
  then show ?thesis
    using activity_list_keeps_ok [OF _ assms(2)] assms(1)
    by (auto simp: activities_good_def bs' dest!: set_update_first)
qed

section \<open>Requests keep the invariant\<close>

definition server_ok :: "crates \<Rightarrow> server_state \<Rightarrow> bool" where
  "server_ok x s \<longleftrightarrow>
     disk_inv (publish_good x) (sv_publish s) \<and> disk_inv (messages_good x) (sv_messages s) \<and>
     disk_inv backups_good (sv_backups s) \<and> disk_inv activities_good (sv_activities s) \<and>
     bt_ok (sv_seen s)"

text \<open>An update that fails, or whose status comes with no new records, leaves the store.\<close>

lemma update_same:
  assumes "store_update io f d = (r, d')" and "\<And>st rs rs'. r = Ok st \<Longrightarrow> f rs \<noteq> (st, Some rs')"
  shows "load d' = load d"
  using store_update_result [OF assms(1)] assms(2) by blast

lemma upsert_same:
  "publish_upsert io ob p d = (r, d') \<Longrightarrow> r \<noteq> Ok PublishStored \<Longrightarrow> load d' = load d"
  unfolding publish_upsert_def
  by (erule update_same) (auto simp: publish_upsert_records_def split: option.splits if_splits)

lemma delete_same:
  "mark_author_deleted io now i p d = (r, d') \<Longrightarrow> r \<noteq> Ok PublishDeleted \<Longrightarrow> load d' = load d"
  unfolding mark_author_deleted_def
  by (erule update_same) (auto simp: mark_author_deleted_records_def split: option.splits if_splits)

lemma moderate_same:
  "store_update io (moderate_records change i) d = (r, d') \<Longrightarrow> \<forall>ob. r \<noteq> Ok (Updated ob) \<Longrightarrow> load d' = load d"
  by (erule update_same) (auto simp: moderate_records_def split: option.splits if_splits)

lemma backup_same:
  "backup_put x io now i t v d = (r, d') \<Longrightarrow> \<forall>g. r \<noteq> Ok (BackupStored g) \<Longrightarrow> load d' = load d"
  unfolding backup_put_def
  by (erule update_same) (auto simp: backup_put_records_def bucket_update_def backup_is_stored_def
      split: option.splits if_splits backup_put_status.splits)

lemma activity_same:
  "activity_put x io now i t e d = (r, d') \<Longrightarrow> \<forall>e. r \<noteq> Ok (ActivityStored e) \<Longrightarrow> load d' = load d"
  unfolding activity_put_def
  by (erule update_same) (auto simp: activity_put_records_def bucket_update_def activity_is_stored_def
      split: option.splits if_splits activity_put_status.splits)

lemma activity_list_same:
  "activity_list x io i t limit cursor now d = (r, d') \<Longrightarrow> \<forall>page. r \<noteq> Ok (ActivityFound page) \<Longrightarrow> load d' = load d"
  unfolding activity_list_def
  by (erule update_same) (auto simp: activity_list_records_def activity_bucket_list_def Let_def
      split: option.splits if_splits prod.splits)

text \<open>The publish handlers are operations of the publish store, each with its cause.\<close>

lemma publish_record_step:
  assumes "publish_record x io request d = (r, d')"
  shows "d' = d \<and> rs_status r = 400 \<or>
    (\<exists>ob p. from_json x (dec_signed x (dec_publish x)) (rq_body request) = Ok ob \<and>
       verify_publish_record x ob = Ok p \<and> d' = publish_step (Upload ob p) io d \<and>
       (rs_status r = 201 \<or> load d' = load d \<and> rs_status r \<in> {409, 500}))"
  using assms upsert_same [of io _ _ d]
  by (auto simp: publish_record_def publish_record_on_def storage_error_def
      split: sum.splits prod.splits publish_upsert_status.splits)

lemma delete_publish_record_step:
  assumes "delete_publish_record x io now later request i seen d = (r, seen', d')"
  shows "d' = d \<and> rs_status r = 401 \<or>
    (\<exists>s. signed_by x request s \<and> signature_fresh now s seen \<and>
       d' = publish_step (Delete later i (ars_peer_id s)) io d \<and>
       (rs_status r = 200 \<or> load d' = load d \<and> rs_status r \<in> {403, 404, 500}))"
proof (cases "fst (authenticate_signed x ''Delete'' now request seen)")
  case (Inl r')
  then obtain seen1 where a: "authenticate_signed x ''Delete'' now request seen = (Err r', seen1)"
    by (metis prod.collapse)
  with assms authenticate_signed_Err [OF a] show ?thesis by (auto simp: delete_publish_record_def delete_publish_record_on_def)
next
  case (Inr s)
  then obtain seen1 where a: "authenticate_signed x ''Delete'' now request seen = (Ok s, seen1)"
    by (metis prod.collapse)
  have "signed_by x request s" "signature_fresh now s seen" using a by (simp_all add: authenticate_signed_Ok)
  moreover have "d' = publish_step (Delete later i (ars_peer_id s)) io d \<and>
       (rs_status r = 200 \<or> load d' = load d \<and> rs_status r \<in> {403, 404, 500})"
    using assms a delete_same [of io later i "ars_peer_id s" d]
    by (auto simp: delete_publish_record_def delete_publish_record_on_def storage_error_def
        split: sum.splits prod.splits publish_delete_status.splits)
  ultimately show ?thesis by blast
qed

definition moderation_op :: "admin_publish_action \<Rightarrow> datetime \<Rightarrow> string \<Rightarrow> string \<Rightarrow> admin_principal \<Rightarrow> publish_op" where
  "moderation_op action later i reason admin =
     (case action of HideAction \<Rightarrow> Hide later i reason admin | RestoreAction \<Rightarrow> Restore later i reason admin)"

lemma moderation_not_upload: "moderation_op action later i reason admin \<noteq> Upload ob p"
  by (cases action) (simp_all add: moderation_op_def)

lemma admin_publish_moderation_step:
  assumes "admin_publish_moderation x fetch io now later auth request i action d = (r, audit, d')"
  shows "d' = d \<and> rs_status r \<in> {400, 401} \<or>
    (\<exists>admin m. authenticate x fetch now auth request = Ok admin \<and>
       parse_admin_moderation_request x (rq_body request) = Ok m \<and>
       d' = publish_step (moderation_op action later i (mod_reason m) admin) io d \<and>
       (rs_status r = 200 \<or> load d' = load d \<and> rs_status r \<in> {404, 409, 500}))"
proof (cases "authenticate x fetch now auth request")
  case (Inl e)
  with assms show ?thesis by (auto simp: admin_publish_moderation_def admin_publish_moderation_on_def)
next
  case a: (Inr admin)
  show ?thesis
  proof (cases "parse_admin_moderation_request x (rq_body request)")
    case (Inl e)
    with a assms show ?thesis by (auto simp: admin_publish_moderation_def admin_publish_moderation_on_def)
  next
    case m: (Inr m)
    let ?reason = "mod_reason m"
    let ?run = "case action of HideAction \<Rightarrow> admin_hide io later i ?reason admin d
                | RestoreAction \<Rightarrow> admin_restore io later i ?reason admin d"
    obtain st d1 where run: "?run = (st, d1)" by (cases ?run)
    have op: "d1 = publish_step (moderation_op action later i ?reason admin) io d"
      using run by (cases action) (simp_all add: moderation_op_def)
    have same: "load d1 = load d" if "\<forall>ob. st \<noteq> Ok (Updated ob)"
      using run that moderate_same by (cases action) (auto simp: admin_hide_def admin_restore_def)
    have "r = fst (admin_publish_moderation x fetch io now later auth request i action d)" "d' = d1"
      using assms a m run
      by (auto simp: admin_publish_moderation_def admin_publish_moderation_on_def Let_def split: sum.splits publish_moderation_status.splits)
    moreover have "rs_status (fst (admin_publish_moderation x fetch io now later auth request i action d)) = 200 \<or>
        load d1 = load d \<and>
        rs_status (fst (admin_publish_moderation x fetch io now later auth request i action d)) \<in> {404, 409, 500}"
      using a m run same
      by (auto simp: admin_publish_moderation_def admin_publish_moderation_on_def Let_def storage_error_def
          split: sum.split publish_moderation_status.split)
    ultimately show ?thesis using a m op by auto
  qed
qed

section \<open>One step of the server\<close>

text \<open>
  The handlers that keep to the message, backup and activity stores, in the same form: what was
  checked, the operation of the store, and a store as before when the answer is an error.
\<close>

lemma post_message_kept:
  assumes "post_message x io now request d = (r, d')" "disk_inv (messages_good x) d"
  shows "disk_inv (messages_good x) d' \<and> (rs_status r = 201 \<or> load d' = load d \<and> rs_status r \<in> {400, 500})"
proof -
  have same: "load (snd (message_insert io now ob d)) = load d" if "\<not> is_ok (fst (message_insert io now ob d))" for ob
    using store_update_result [of io "message_insert_records now ob" d] that
    by (cases "message_insert io now ob d"; cases "fst (message_insert io now ob d)")
      (auto simp: message_insert_def)
  have kept: "disk_inv (messages_good x) (snd (message_insert io now ob d))" if "envelope_valid x ob" for ob
    unfolding message_insert_def using assms(2) by (rule disk_inv_update) (use that insert_good in blast)
  show ?thesis using post_message_step [OF assms(1)] assms(2) same kept by (auto split: if_splits)
qed

lemma put_hosted_backup_kept:
  assumes "put_hosted_backup x io now request i d = (r, d')" "disk_inv backups_good d"
  shows "disk_inv backups_good d' \<and> (rs_status r = 201 \<or> load d' = load d \<and> rs_status r \<in> {400, 401, 500})"
proof -
  have kept: "disk_inv backups_good (snd (backup_put x io now i t v d))"
    if "backup_checked x request i = Ok t" "parse_hosted_backup_package x (rq_body request) = Ok v" for t v
  proof -
    have "package_ok v" "lookup_id_ok i"
      using that by (auto simp: parse_package_Ok backup_checked_Ok lookup_id_ok_def)
    then show ?thesis
      unfolding backup_put_def using assms(2) by (intro disk_inv_update) (auto intro: backup_put_good)
  qed
  have "disk_inv backups_good d'"
    using put_hosted_backup_step [OF assms(1)] assms(2) kept by auto
  moreover have "rs_status r = 201 \<or> load d' = load d \<and> rs_status r \<in> {400, 401, 500}"
    using assms(1) backup_checked_Err [of x request i] backup_same [of x io now i _ _ d]
    by (auto simp: put_hosted_backup_def put_hosted_backup_on_def storage_error_def backup_unauthorized_def
        split: sum.splits prod.splits backup_put_status.splits)
  ultimately show ?thesis by blast
qed

lemma bucket_header_ok: "activity_bucket_header request = Ok i \<Longrightarrow> lookup_id_ok i"
  by (auto simp: activity_bucket_header_def validate_activity_bucket_id_def Let_def and_then_Ok_iff
      if_Err_Ok_iff lookup_id_ok_def MAX_ACTIVITY_BUCKET_ID_BYTES_def)

lemma post_activity_event_kept:
  assumes "post_activity_event x io now request d = (r, d')" "disk_inv activities_good d"
  shows "disk_inv activities_good d' \<and> (rs_status r = 201 \<or> load d' = load d \<and> rs_status r \<in> {400, 401, 500})"
proof -
  have kept: "disk_inv activities_good (snd (activity_put x io now i t e d))"
    if "lookup_id_ok i" "event_valid e" for i t e
    unfolding activity_put_def using assms(2) that by (intro disk_inv_update) (auto intro: activity_put_good)
  have "disk_inv activities_good d'"
    using post_activity_event_step [OF assms(1)] assms(2) kept bucket_header_ok
    by (auto simp: parse_activity_event_Ok)
  moreover have "rs_status r = 201 \<or> load d' = load d \<and> rs_status r \<in> {400, 401, 500}"
    using assms(1) activity_same [of x io now _ _ _ d]
    by (auto simp: post_activity_event_def post_activity_event_on_def storage_error_def activity_unauthorized_def
        split: sum.splits prod.splits activity_put_status.splits)
  ultimately show ?thesis by blast
qed

lemma get_activity_events_kept:
  assumes "get_activity_events x io now request d = (r, d')" "disk_inv activities_good d"
  shows "disk_inv activities_good d' \<and> (rs_status r = 200 \<or> load d' = load d \<and> rs_status r \<in> {400, 401, 500})"
proof -
  have "disk_inv activities_good (snd (activity_list x io i t limit cursor now d))" for i t limit cursor
    unfolding activity_list_def using assms(2) by (intro disk_inv_update) (auto intro: activity_list_good)
  then have "disk_inv activities_good d'"
    using get_activity_events_step [OF assms(1)] assms(2) by auto
  moreover have "rs_status r = 200 \<or> load d' = load d \<and> rs_status r \<in> {400, 401, 500}"
    using assms(1) activity_list_same [of x io _ _ _ _ now d]
    by (auto simp: get_activity_events_def get_activity_events_on_def Let_def storage_error_def activity_unauthorized_def
        split: sum.splits prod.splits option.splits activity_list_status.splits)
  ultimately show ?thesis by blast
qed

lemma publish_step_good:
  assumes "disk_inv (publish_good x) d"
    and "\<And>ob p. a = Upload ob p \<Longrightarrow> verify_publish_record x ob = Ok p"
  shows "disk_inv (publish_good x) (publish_step a io d)"
proof -
  have "publish_good x rs'" if "publish_good x rs" "publish_records_step a rs = Some rs'" for rs rs'
  proof (cases a)
    case (Upload ob p)
    then show ?thesis
      using that upsert_good [OF that(1) assms(2) [OF Upload]] by (metis publish_records_step.simps(1) prod.collapse)
  next
    case (Delete now i p)
    then show ?thesis using that delete_good by (metis publish_records_step.simps(2) prod.collapse)
  next
    case (Hide now i r ad)
    then show ?thesis
      using that moderate_good by (metis publish_records_step.simps(3) prod.collapse record_changes(2))
  next
    case (Restore now i r ad)
    then show ?thesis
      using that moderate_good by (metis publish_records_step.simps(4) prod.collapse record_changes(3))
  qed
  then show ?thesis
    using publish_step_load [of a io d] assms(1) by (auto simp: disk_inv_def)
qed

lemma moderation_step_good:
  "disk_inv (publish_good x) d \<Longrightarrow>
   disk_inv (publish_good x) (publish_step (moderation_op action later i reason admin) io d)"
  by (erule publish_step_good) (simp add: moderation_not_upload)

end
