(* ===== verification/Server_Props.thy ===== *)
theory Server_Props
  imports Server_Laws
begin

text \<open>
  Properties of the server over whole requests and runs: the invariant of every reachable state, what
  an error leaves behind, what a read may change, and who may change a publish record.
\<close>

section \<open>One request\<close>

definition same_stores :: "server_state \<Rightarrow> server_state \<Rightarrow> bool" where
  "same_stores s s' \<longleftrightarrow> load (sv_publish s') = load (sv_publish s) \<and> load (sv_messages s') = load (sv_messages s) \<and>
     load (sv_backups s') = load (sv_backups s) \<and> load (sv_activities s') = load (sv_activities s)"

definition same_setup :: "server_state \<Rightarrow> server_state \<Rightarrow> bool" where
  "same_setup s s' \<longleftrightarrow> sv_public_base_url s' = sv_public_base_url s \<and> sv_rate_config s' = sv_rate_config s \<and>
     sv_admin s' = sv_admin s \<and> sv_connections s' = sv_connections s"

lemma same_refl [simp]: "same_stores s s" "same_setup s s"
  by (simp_all add: same_stores_def same_setup_def)

lemma delete_seen_ok:
  "bt_ok seen \<Longrightarrow> delete_publish_record x io now later request i seen d = (r, seen', d') \<Longrightarrow> bt_ok seen'"
  using authenticate_signed_seen_ok [of seen x "''Delete''" now request]
  by (auto simp: delete_publish_record_def delete_publish_record_on_def split: prod.splits sum.splits publish_delete_status.splits)

lemma inbox_seen_ok:
  "bt_ok seen \<Longrightarrow> get_inbox x now later request seen d = (r, seen') \<Longrightarrow> bt_ok seen'"
  using authenticate_signed_seen_ok [of seen x "''Inbox''" now request]
  by (auto simp: get_inbox_def get_inbox_on_def Let_def split: prod.splits sum.splits)

text \<open>What the routes do to the state, one lemma for the whole dispatch.\<close>

definition kept :: "crates \<Rightarrow> http_response \<Rightarrow> server_state \<Rightarrow> server_state \<Rightarrow> bool" where
  "kept x r s s' \<longleftrightarrow> server_ok x s' \<and> same_setup s s' \<and> (rs_status r < 400 \<or> same_stores s s')"

lemma kept_refl: "server_ok x s \<Longrightarrow> kept x r s s"
  by (simp add: kept_def)

lemma kept_publish:
  assumes "server_ok x s" "disk_inv (publish_good x) d" "rs_status r < 400 \<or> load d = load (sv_publish s)" "bt_ok seen"
  shows "kept x r s (s\<lparr>sv_publish := d\<rparr>)" "kept x r s (s\<lparr>sv_seen := seen, sv_publish := d\<rparr>)"
  using assms by (auto simp: kept_def server_ok_def same_stores_def same_setup_def)

lemma dispatch_kept:
  assumes "server_ok x s" and "dispatch x pages env request s = (r, log, s')"
  shows "kept x r s s'"
proof (cases "route_of (rq_method request) (path request)")
  case PublishRoute
  obtain r1 d where h: "publish_record x (env_io env) request (sv_publish s) = (r1, d)"
    by (cases "publish_record x (env_io env) request (sv_publish s)")
  have "disk_inv (publish_good x) d" "rs_status r1 < 400 \<or> load d = load (sv_publish s)"
    using publish_record_step [OF h] assms(1) publish_step_good [of x "sv_publish s"]
    by (auto simp: server_ok_def simp del: publish_step.simps)
  then show ?thesis
    using assms PublishRoute h kept_publish(1) [of x s d r1 "[]"] by (auto simp: dispatch_file bt_ok_def)
next
  case (ModerateRoute i action)
  obtain r1 audit d where h: "admin_publish_moderation x (env_fetch env) (env_io env) (env_now env) (env_later env)
      (sv_admin s) request i action (sv_publish s) = (r1, audit, d)"
    using prod_cases3 by blast
  have "disk_inv (publish_good x) d" "rs_status r1 < 400 \<or> load d = load (sv_publish s)"
    using admin_publish_moderation_step [OF h] assms(1)
    by (auto simp: server_ok_def moderation_step_good simp del: publish_step.simps)
  then show ?thesis
    using assms ModerateRoute h kept_publish(1) [of x s d r1 "[]"] by (auto simp: dispatch_file bt_ok_def)
next
  case (DeleteRoute i)
  obtain r1 seen d where h: "delete_publish_record x (env_io env) (env_now env) (env_later env) request i
      (sv_seen s) (sv_publish s) = (r1, seen, d)"
    using prod_cases3 by blast
  have "disk_inv (publish_good x) d" "rs_status r1 < 400 \<or> load d = load (sv_publish s)"
    using delete_publish_record_step [OF h] assms(1) publish_step_good [of x "sv_publish s"]
    by (auto simp: server_ok_def simp del: publish_step.simps)
  moreover have "bt_ok seen" using delete_seen_ok [OF _ h] assms(1) by (simp add: server_ok_def)
  ultimately show ?thesis
    using assms DeleteRoute h kept_publish(2) [of x s d r1 seen] by (auto simp: dispatch_file)
next
  case PostMessageRoute
  obtain r1 d where h: "post_message x (env_io env) (env_later env) request (sv_messages s) = (r1, d)"
    by (cases "post_message x (env_io env) (env_later env) request (sv_messages s)")
  from post_message_kept [OF h] show ?thesis
    using assms PostMessageRoute h by (auto simp: dispatch_file kept_def server_ok_def same_stores_def same_setup_def)
next
  case InboxRoute
  obtain r1 seen where h: "get_inbox x (env_now env) (env_later env) request (sv_seen s) (sv_messages s) = (r1, seen)"
    by (cases "get_inbox x (env_now env) (env_later env) request (sv_seen s) (sv_messages s)")
  from inbox_seen_ok [OF _ h] show ?thesis
    using assms InboxRoute h by (auto simp: dispatch_file kept_def server_ok_def same_stores_def same_setup_def)
next
  case PostActivityRoute
  obtain r1 d where h: "post_activity_event x (env_io env) (env_later env) request (sv_activities s) = (r1, d)"
    by (cases "post_activity_event x (env_io env) (env_later env) request (sv_activities s)")
  from post_activity_event_kept [OF h] show ?thesis
    using assms PostActivityRoute h by (auto simp: dispatch_file kept_def server_ok_def same_stores_def same_setup_def)
next
  case GetActivityRoute
  obtain r1 d where h: "get_activity_events x (env_io env) (env_later env) request (sv_activities s) = (r1, d)"
    by (cases "get_activity_events x (env_io env) (env_later env) request (sv_activities s)")
  from get_activity_events_kept [OF h] show ?thesis
    using assms GetActivityRoute h by (auto simp: dispatch_file kept_def server_ok_def same_stores_def same_setup_def)
next
  case (PutBackupRoute i)
  obtain r1 d where h: "put_hosted_backup x (env_io env) (env_later env) request i (sv_backups s) = (r1, d)"
    by (cases "put_hosted_backup x (env_io env) (env_later env) request i (sv_backups s)")
  from put_hosted_backup_kept [OF h] show ?thesis
    using assms PutBackupRoute h by (auto simp: dispatch_file kept_def server_ok_def same_stores_def same_setup_def)
qed (use assms in \<open>auto simp: dispatch_file intro: kept_refl\<close>)

lemma server_ok_buckets [simp]: "server_ok x (s\<lparr>sv_rate_buckets := b\<rparr>) = server_ok x s"
  "server_ok x (s\<lparr>sv_connections := c\<rparr>) = server_ok x s"
  by (simp_all add: server_ok_def)

lemma kept_buckets: "kept x r (s\<lparr>sv_rate_buckets := b\<rparr>) s' = kept x r s s'"
  by (simp add: kept_def same_stores_def same_setup_def)

lemma handle_request_kept:
  assumes "server_ok x s" and "handle_request x pages env request s = (r, log, s')"
  shows "kept x r s s'"
proof (cases "length (rq_body request) > max_body_bytes (sv_rate_config s)")
  case True
  then show ?thesis using assms by (auto simp: handle_request_file kept_def Let_def)
next
  case False
  obtain limited b where l: "check_rate_limit (sv_rate_config s) (env_instant env) request (sv_rate_buckets s) = (limited, b)"
    by (cases "check_rate_limit (sv_rate_config s) (env_instant env) request (sv_rate_buckets s)")
  show ?thesis
  proof (cases limited)
    case None
    obtain r1 log1 s1 where d: "dispatch x pages env request (s\<lparr>sv_rate_buckets := b\<rparr>) = (r1, log1, s1)"
      using prod_cases3 by blast
    from dispatch_kept [OF _ d] have "kept x r1 s s1" using assms(1) by (simp add: kept_buckets)
    then show ?thesis using assms(2) False l None d by (auto simp: handle_request_file Let_def)
  next
    case (Some e)
    then show ?thesis
      using assms False l by (auto simp: handle_request_file kept_def Let_def same_stores_def same_setup_def)
  qed
qed

section \<open>Runs\<close>

text \<open>
  The server runs from fresh files. A step is a connection offered to the accept loop, a connection
  served, a connection's guard dropped, or a request handed to \<open>handle_request\<close> directly.
\<close>

inductive server_step :: "crates \<Rightarrow> static_pages \<Rightarrow> server_state \<Rightarrow> server_state \<Rightarrow> bool" for x pages where
  offered: "accept_connection x s = (answer, log, s') \<Longrightarrow> server_step x pages s s'"
| served: "handle_connection x pages env stream s = (answer, log, s') \<Longrightarrow> server_step x pages s s'"
| handled: "handle_request x pages env request s = (r, log, s') \<Longrightarrow> server_step x pages s s'"
| ended: "server_step x pages s (s\<lparr>sv_connections := drop_guard (sv_connections s)\<rparr>)"

definition fresh_dir :: "data_dir \<Rightarrow> bool" where
  "fresh_dir dir \<longleftrightarrow> main_file (dd_publish dir) = Missing \<and> main_file (dd_messages dir) = Missing \<and>
     main_file (dd_backups dir) = Missing \<and> main_file (dd_activities dir) = Missing"

inductive reachable :: "crates \<Rightarrow> static_pages \<Rightarrow> server_state \<Rightarrow> bool" for x pages where
  started: "fresh_dir dir \<Longrightarrow> server_with_stores dir url limits n admin = Ok s \<Longrightarrow> reachable x pages s"
| stepped: "reachable x pages s \<Longrightarrow> server_step x pages s s' \<Longrightarrow> reachable x pages s'"

inductive_cases server_stepE: "server_step x pages s s'"

lemma handle_connection_kept:
  assumes "server_ok x s" and "handle_connection x pages env stream s = (answer, log, s')"
  shows "server_ok x s' \<and> same_setup s s'"
proof (cases "read_http_request stream (max_body_bytes (sv_rate_config s))")
  case (Inl e)
  then show ?thesis using assms by (auto simp: handle_connection_file)
next
  case (Inr rd)
  show ?thesis
  proof (cases rd)
    case (Request request)
    obtain r l s1 where h: "handle_request x pages env request s = (r, l, s1)" using prod_cases3 by blast
    from handle_request_kept [OF assms(1) h] show ?thesis
      using assms(2) Inr Request h by (auto simp: handle_connection_file kept_def)
  next
    case PayloadTooLarge
    then show ?thesis using assms Inr by (auto simp: handle_connection_file)
  qed
qed

lemma fresh_server_ok:
  "fresh_dir dir \<Longrightarrow> server_with_stores dir url limits n admin = Ok s \<Longrightarrow> server_ok x s"
  by (auto simp: server_with_stores_def with_stores_def file_store_new_def and_then_Ok_iff fresh_dir_def server_ok_def disk_inv_def
      load_def good_defs publish_ok_def messages_ok_def backups_ok_def activities_ok_def bt_ok_def
      split: option.splits)

lemma server_step_ok: "server_step x pages s s' \<Longrightarrow> server_ok x s \<Longrightarrow> server_ok x s'"
  by (erule server_stepE)
    (auto simp: accept_connection_def kept_def split: prod.splits bool.splits
      dest: handle_connection_kept handle_request_kept)

text \<open>
  C1. What the server's files hold, in every state it can reach from an empty data directory, whatever
  requests come over whatever connections and whichever writes fail: publish ids are distinct and every
  record carries a valid signature of the peer it belongs to; message ids are distinct and every
  envelope is signed by its sender, lives a week at most and has a ciphertext of 64 KiB at most; hosted
  backups are at most ten per lookup id, with a ciphertext and no key that names private material;
  activity buckets hold at most 2,000 valid events in order.
\<close>

theorem server_invariant:
  assumes "reachable x pages s"
  shows "disk_inv (publish_good x) (sv_publish s) \<and> disk_inv (messages_good x) (sv_messages s) \<and>
    disk_inv backups_good (sv_backups s) \<and> disk_inv activities_good (sv_activities s)"
proof -
  have "server_ok x s"
    using assms by induction (auto intro: fresh_server_ok server_step_ok)
  then show ?thesis by (simp add: server_ok_def)
qed

definition sample_dir :: data_dir where
  "sample_dir = \<lparr>dd_path = ''/tmp/d'', dd_failure = None, dd_publish = empty_disk ''a'',
     dd_messages = empty_disk ''b'', dd_backups = empty_disk ''c'', dd_activities = empty_disk ''d''\<rparr>"

lemma sample_dir_fresh: "fresh_dir sample_dir"
  by (simp add: fresh_dir_def sample_dir_def empty_disk_def)

lemma sample_server: "\<exists>s. server_with_stores sample_dir url limits n admin = Ok s \<and> sv_rate_config s = limits \<and>
    sv_rate_buckets s = [] \<and> sv_seen s = [] \<and> sv_admin s = admin \<and> load (sv_publish s) = Ok [] \<and>
    load (sv_messages s) = Ok [] \<and> load (sv_backups s) = Ok [] \<and> load (sv_activities s) = Ok []"
  by (simp add: server_with_stores_def with_stores_def file_store_new_def sample_dir_def empty_disk_def load_def)

theorem server_invariant_witness:
  "\<exists>s. server_new sample_dir = Ok s \<and> disk_inv (publish_good toy) (sv_publish s)"
proof -
  obtain s where s: "server_new sample_dir = Ok s" 
    using sample_server [of "''http://localhost:8080''" default_rate_config DEFAULT_MAX_CONNECTIONS AdminDisabled]
    by (auto simp: server_new_def)
  then have "reachable toy pages s" for pages
    unfolding server_new_def by (rule started [OF sample_dir_fresh])
  from server_invariant [OF this] s show ?thesis by blast
qed

definition sample_pages :: static_pages where
  "sample_pages = \<lparr>agent_page = (\<lambda>url. ''agent''), agent_json_page = (\<lambda>url. JNull), install_page = ''install'',
     directory_page = ''directory''\<rparr>"

definition sample_env :: request_env where
  "sample_env = \<lparr>env_instant = 0, env_now = sample_now, env_later = sample_now, env_io = io_ok,
     env_fetch = (\<lambda>url. Err ''request Google tokeninfo'')\<rparr>"

lemma sample_env_simps [simp]:
  "env_instant sample_env = 0" "env_now sample_env = sample_now" "env_later sample_env = sample_now"
  "env_io sample_env = io_ok"
  by (simp_all add: sample_env_def)

definition small_limits :: rate_config where
  "small_limits = \<lparr>read_per_minute = 10, write_per_minute = 10, max_body_bytes = 1\<rparr>"

text \<open>
  C4. An error changes nothing: when the answer to a request is an error, be it a refusal, a failed
  check, a conflict or a failed write, every store reads as before, and the server's configuration
  never changes.
\<close>

theorem error_changes_nothing:
  assumes "server_ok x s" and "handle_request x pages env request s = (r, log, s')"
    and "400 \<le> rs_status r"
  shows "load (sv_publish s') = load (sv_publish s) \<and> load (sv_messages s') = load (sv_messages s) \<and>
    load (sv_backups s') = load (sv_backups s) \<and> load (sv_activities s') = load (sv_activities s) \<and>
    sv_rate_config s' = sv_rate_config s \<and> sv_admin s' = sv_admin s"
  using handle_request_kept [OF assms(1,2)] assms(3)
  by (auto simp: kept_def same_stores_def same_setup_def)

theorem error_changes_nothing_witness:
  "\<exists>s s' r log. server_with_stores sample_dir ''http://relay'' small_limits 4 AdminDisabled = Ok s \<and>
     handle_request toy sample_pages sample_env
       (with_json_body ''{}'' (http_request_new ''POST'' ''/v1/publish'')) s = (r, log, s') \<and>
     rs_status r = 413 \<and> load (sv_publish s') = load (sv_publish s)"
proof -
  obtain s where s: "server_with_stores sample_dir ''http://relay'' small_limits 4 AdminDisabled = Ok s"
      "sv_rate_config s = small_limits"
    using sample_server [of "''http://relay''" small_limits 4 AdminDisabled] by auto
  let ?q = "with_json_body ''{}'' (http_request_new ''POST'' ''/v1/publish'')"
  obtain r log s' where h: "handle_request toy sample_pages sample_env ?q s = (r, log, s')"
    using prod_cases3 by blast
  have "rs_status r = 413"
    using h s(2) by (auto simp: handle_request_file small_limits_def with_json_body_def Let_def)
  with error_changes_nothing [OF fresh_server_ok [OF sample_dir_fresh s(1)] h] h s(1) show ?thesis by auto
qed

section \<open>Requests that pass the guards\<close>

text \<open>A request within the size limit and the rate limit reaches its handler.\<close>

definition let_through :: "request_env \<Rightarrow> http_request \<Rightarrow> server_state \<Rightarrow> bool" where
  "let_through env request s \<longleftrightarrow> length (rq_body request) \<le> max_body_bytes (sv_rate_config s) \<and>
     fst (check_rate_limit (sv_rate_config s) (env_instant env) request (sv_rate_buckets s)) = None"

lemma let_through_dispatch:
  assumes "let_through env request s"
  obtains b r log s' where "dispatch x pages env request (s\<lparr>sv_rate_buckets := b\<rparr>) = (r, log, s')"
    "handle_request x pages env request s = (r, log @ [CompletionLine request r], s')"
    "b = snd (check_rate_limit (sv_rate_config s) (env_instant env) request (sv_rate_buckets s))"
proof -
  obtain b where l: "check_rate_limit (sv_rate_config s) (env_instant env) request (sv_rate_buckets s) = (None, b)"
    using assms by (cases "check_rate_limit (sv_rate_config s) (env_instant env) request (sv_rate_buckets s)")
      (auto simp: let_through_def)
  obtain r log s' where d: "dispatch x pages env request (s\<lparr>sv_rate_buckets := b\<rparr>) = (r, log, s')"
    using prod_cases3 by blast
  have h: "handle_request x pages env request s = (r, log @ [CompletionLine request r], s')"
    using assms l d by (simp add: handle_request_file let_through_def not_less [symmetric])
  have "b = snd (check_rate_limit (sv_rate_config s) (env_instant env) request (sv_rate_buckets s))"
    unfolding l by simp
  then show ?thesis by (rule that [OF d h])
qed

definition json_post :: "string \<Rightarrow> bytes \<Rightarrow> http_request" where
  "json_post p body = with_json_body body (http_request_new ''POST'' p)"

lemma json_post_simps [simp]:
  "rq_method (json_post p body) = ''POST''" "rq_path_and_query (json_post p body) = p"
  "rq_body (json_post p body) = body"
  by (simp_all add: json_post_def with_json_body_def http_request_new_def to_ascii_uppercase_def ascii_upper_def
      is_ascii_lower_def in_range_def)

lemma route_publish [simp]: "route_of ''POST'' ''/v1/publish'' = PublishRoute"
  "path (json_post ''/v1/publish'' body) = ''/v1/publish''"
  by (simp_all add: route_of_def path_def)

lemma upload_accepted:
  assumes laws: "base64_law x" "ed25519_law x" "rfc3339_law x" "json_law x" and key: "length sk = 32"
    and u: "obj_type u = ''publish.record''" "obj_protocol u = PROTOCOL_ID"
      "prp_public_key (obj_payload u) = b64_encode x (ed_public x sk)"
      "prp_peer_id (obj_payload u) = derive_peer_id x (ed_public x sk)" "publish_codec.object_storable u"
    and signed: "sign_object x (enc_publish x) sk u = Ok ob"
    and q: "request = json_post ''/v1/publish'' (json_text x (enc_signed x (enc_publish x) ob))"
      "let_through env request s" "env_io env = io_ok"
    and rs: "load (sv_publish s) = Ok rs"
      "\<forall>e. publish_map rs (obj_id u) = Some e \<longrightarrow> sp_peer e = prp_peer_id (obj_payload u) \<and> \<not> sp_deleted e"
  shows "\<exists>r log s'. handle_request x pages env request s = (r, log, s') \<and> rs_status r = 201 \<and>
    publish_abs (sv_publish s') = (publish_map rs)(obj_id u \<mapsto>
      (case publish_map rs (obj_id u) of None \<Rightarrow> stored_visible ob | Some e \<Rightarrow> preserve_admin_state ob e))"
proof -
  obtain b r log s' where d: "dispatch x pages env request (s\<lparr>sv_rate_buckets := b\<rparr>) = (r, log, s')"
      and h: "handle_request x pages env request s = (r, log @ [CompletionLine request r], s')"
    by (rule let_through_dispatch [OF q(2), of x pages])
  from signed_publish_ok [OF laws(1,2) key u] signed
  have ob: "unsigned ob = u" "publish_codec.object_storable ob" "verify_publish_record x ob = Ok (prp_peer_id (obj_payload u))"
    using u(4) by auto
  then have i: "obj_id ob = obj_id u" "obj_payload ob = obj_payload u" using unsigned_selectors by metis+
  note parsed = publish_codec.from_json_signed [OF laws(3,4) ob(2)]
  let ?p = "prp_peer_id (obj_payload u)"
  have "\<exists>rs'. publish_upsert_records ob ?p rs = (PublishStored, Some rs')"
    using rs(2) i by (cases "publish_map rs (obj_id u)")
      (auto simp: publish_upsert_records_def publish_map_def)
  then obtain rs' where up: "publish_upsert_records ob ?p rs = (PublishStored, Some rs')" by blast
  then obtain d' where d': "publish_upsert io_ok ob ?p (sv_publish s) = (Ok PublishStored, d')" "load d' = Ok rs'"
    using store_update_ok(2) [OF rs(1), of "publish_upsert_records ob ?p" PublishStored rs']
    unfolding publish_upsert_def by blast
  have "publish_map rs' = (publish_map rs)(obj_id u \<mapsto>
      (case publish_map rs (obj_id u) of None \<Rightarrow> stored_visible ob | Some e \<Rightarrow> preserve_admin_state ob e))"
    using upload_records_spec [of rs ob ?p] up rs(2) i
    by (auto simp: spec_upload_def split: option.splits)
  moreover have "r = json_response x 201 (obj [(''stored'', JBool True), (''id'', JStr (obj_id ob)),
      (''peer_id'', JStr (peer_str ?p))])" "sv_publish s' = d'"
    using d parsed ob(3) d'(1) q(1,3) by (auto simp: dispatch_file publish_record_def publish_record_on_def)
  ultimately show ?thesis using h d'(2) by (auto simp: publish_abs_def)
qed

text \<open>
  C3. Publishing works: a record signed with the key of its peer, sent as the JSON text of the client to a
  relay that lets the request through and whose disk works, is answered 201, and the store then
  holds it as a visible record where the id was free; where the peer owned the id and had not deleted
  it, the new content replaces the old and a moderation of the id stays.
\<close>

theorem publish_accepted:
  assumes laws: "base64_law x" "ed25519_law x" "rfc3339_law x" "json_law x" and key: "length sk = 32"
    and u: "obj_type u = ''publish.record''" "obj_protocol u = PROTOCOL_ID"
      "prp_public_key (obj_payload u) = b64_encode x (ed_public x sk)"
      "prp_peer_id (obj_payload u) = derive_peer_id x (ed_public x sk)" "publish_codec.object_storable u"
    and signed: "sign_object x (enc_publish x) sk u = Ok ob"
    and q: "request = json_post ''/v1/publish'' (json_text x (enc_signed x (enc_publish x) ob))"
      "let_through env request s" "env_io env = io_ok"
    and rs: "load (sv_publish s) = Ok rs"
      "\<forall>e. publish_map rs (obj_id u) = Some e \<longrightarrow> sp_peer e = prp_peer_id (obj_payload u) \<and> \<not> sp_deleted e"
  shows "\<exists>r log s'. handle_request x pages env request s = (r, log, s') \<and> rs_status r = 201 \<and>
    publish_abs (sv_publish s') = (publish_map rs)(obj_id u \<mapsto>
      (case publish_map rs (obj_id u) of None \<Rightarrow> stored_visible ob | Some e \<Rightarrow> preserve_admin_state ob e))"
  by (rule upload_accepted [OF assms])

lemma rate_first_passes:
  "1 \<le> read_per_minute config \<Longrightarrow> 1 \<le> write_per_minute config \<Longrightarrow>
   fst (check_rate_limit config now request []) = None"
  by (auto simp: check_rate_limit_def rate_check_def class_limit_def bucket_check_def Let_def
      split: option.split rate_class.split)

definition limits_for :: "http_request \<Rightarrow> rate_config" where
  "limits_for request = \<lparr>read_per_minute = 10, write_per_minute = 10, max_body_bytes = length (rq_body request)\<rparr>"

lemma sample_let_through:
  assumes "server_with_stores sample_dir url (limits_for request) n admin = Ok s"
  shows "let_through env request s"
  using sample_server [of url "limits_for request" n admin] assms
    rate_first_passes [of "limits_for request" "env_instant env" request]
  by (simp add: let_through_def limits_for_def)

lemma sample_publish_storable: "publish_codec.object_storable (sample_publish b)"
  by (simp add: publish_codec.object_storable_def)

lemma sample_upload:
  obtains ob s where "sign_object toy (enc_publish toy) sample_key (sample_publish ''hello'') = Ok ob"
    "server_with_stores sample_dir ''http://relay''
       (limits_for (json_post ''/v1/publish'' (json_text toy (enc_signed toy (enc_publish toy) ob)))) 4 AdminDisabled = Ok s"
    "load (sv_publish s) = Ok []"
proof -
  obtain ob where ob: "sign_object toy (enc_publish toy) sample_key (sample_publish ''hello'') = Ok ob"
    using signed_publish_ok [OF toy_laws(1,4) length_sample_key, of "sample_publish ''hello''"]
      sample_publish_storable [of "''hello''"] by auto
  show ?thesis
    using sample_server [of "''http://relay''"
        "limits_for (json_post ''/v1/publish'' (json_text toy (enc_signed toy (enc_publish toy) ob)))" 4 AdminDisabled]
    by (auto intro: that [OF ob])
qed

lemmas sample_upload_facts = toy_laws(1,4,7,8) length_sample_key sample_publish_simps(1,2)

theorem publish_accepted_witness:
  "\<exists>s request r log s' ob. server_with_stores sample_dir ''http://relay'' (limits_for request) 4 AdminDisabled = Ok s \<and>
     handle_request toy sample_pages sample_env request s = (r, log, s') \<and> rs_status r = 201 \<and>
     publish_abs (sv_publish s') = [obj_id (sample_publish ''hello'') \<mapsto> stored_visible ob]"
proof -
  obtain ob s where ob: "sign_object toy (enc_publish toy) sample_key (sample_publish ''hello'') = Ok ob"
    and s: "server_with_stores sample_dir ''http://relay''
       (limits_for (json_post ''/v1/publish'' (json_text toy (enc_signed toy (enc_publish toy) ob)))) 4 AdminDisabled = Ok s"
    and l: "load (sv_publish s) = Ok []"
    by (rule sample_upload)
  from publish_accepted [OF sample_upload_facts _ _ sample_publish_storable ob refl sample_let_through [OF s], of sample_env] l s
  show ?thesis by (fastforce simp: publish_map_def)
qed

section \<open>Who may change a publish record\<close>

text \<open>
  The cause a request must be for an operation of the publish store: an upload carries the record with
  a valid signature of its peer; a deletion is signed by the peer, fresh, for this very request; a
  moderation comes with an authenticated administrator and a valid reason.
\<close>

fun publish_cause :: "crates \<Rightarrow> request_env \<Rightarrow> http_request \<Rightarrow> ('p, 'm, 'b, 'a) server \<Rightarrow> publish_op \<Rightarrow> bool" where
  "publish_cause x env request s (Upload ob p) \<longleftrightarrow>
     from_json x (dec_signed x (dec_publish x)) (rq_body request) = Ok ob \<and> verify_publish_record x ob = Ok p"
| "publish_cause x env request s (Delete now i p) \<longleftrightarrow>
     route_of (rq_method request) (path request) = DeleteRoute i \<and>
     (\<exists>sg. signed_by x request sg \<and> signature_fresh (env_now env) sg (sv_seen s) \<and> p = ars_peer_id sg)"
| "publish_cause x env request s (Hide now i reason admin) \<longleftrightarrow>
     route_of (rq_method request) (path request) = ModerateRoute i HideAction \<and>
     authenticate x (env_fetch env) (env_now env) (sv_admin s) request = Ok admin \<and> reason \<noteq> []"
| "publish_cause x env request s (Restore now i reason admin) \<longleftrightarrow>
     route_of (rq_method request) (path request) = ModerateRoute i RestoreAction \<and>
     authenticate x (env_fetch env) (env_now env) (sv_admin s) request = Ok admin \<and> reason \<noteq> []"

lemma moderation_cause:
  "route_of (rq_method request) (path request) = ModerateRoute i action \<Longrightarrow>
   authenticate x (env_fetch env) (env_now env) (sv_admin s) request = Ok admin \<Longrightarrow>
   parse_admin_moderation_request x (rq_body request) = Ok m \<Longrightarrow>
   publish_cause x env request s (moderation_op action later i (mod_reason m) admin)"
  by (cases action) (auto simp: moderation_op_def dest: parse_moderation_Ok)

lemma dispatch_publish:
  assumes "dispatch x pages env request s = (r, log, s')"
  shows "sv_publish s' = sv_publish s \<or>
    (\<exists>a. publish_cause x env request s a \<and> sv_publish s' = publish_step a (env_io env) (sv_publish s))"
proof (cases "route_of (rq_method request) (path request)")
  case PublishRoute
  obtain r1 d where h: "publish_record x (env_io env) request (sv_publish s) = (r1, d)"
    by (cases "publish_record x (env_io env) request (sv_publish s)")
  have s': "sv_publish s' = d" using assms PublishRoute h by (auto simp: dispatch_file)
  have "d = sv_publish s \<or> (\<exists>ob p. publish_cause x env request s (Upload ob p) \<and>
      d = publish_step (Upload ob p) (env_io env) (sv_publish s))"
    using publish_record_step [OF h] by (auto simp del: publish_step.simps)
  with s' show ?thesis by blast
next
  case (ModerateRoute i action)
  obtain r1 audit d where h: "admin_publish_moderation x (env_fetch env) (env_io env) (env_now env) (env_later env)
      (sv_admin s) request i action (sv_publish s) = (r1, audit, d)"
    using prod_cases3 by blast
  have s': "sv_publish s' = d" using assms ModerateRoute h by (auto simp: dispatch_file)
  from admin_publish_moderation_step [OF h] moderation_cause [OF ModerateRoute] s' show ?thesis by blast
next
  case (DeleteRoute i)
  obtain r1 seen d where h: "delete_publish_record x (env_io env) (env_now env) (env_later env) request i
      (sv_seen s) (sv_publish s) = (r1, seen, d)"
    using prod_cases3 by blast
  have s': "sv_publish s' = d" using assms DeleteRoute h by (auto simp: dispatch_file)
  have "d = sv_publish s \<or> (\<exists>p. publish_cause x env request s (Delete (env_later env) i p) \<and>
      d = publish_step (Delete (env_later env) i p) (env_io env) (sv_publish s))"
    using delete_publish_record_step [OF h] DeleteRoute by (auto simp del: publish_step.simps)
  with s' show ?thesis by blast
qed (use assms in \<open>auto simp: dispatch_file split: prod.splits\<close>)

lemma handle_request_publish:
  assumes "handle_request x pages env request s = (r, log, s')"
  shows "sv_publish s' = sv_publish s \<or>
    (\<exists>a. publish_cause x env request s a \<and> sv_publish s' = publish_step a (env_io env) (sv_publish s))"
proof (cases "length (rq_body request) > max_body_bytes (sv_rate_config s)")
  case True
  then show ?thesis using assms by (auto simp: handle_request_file Let_def)
next
  case False
  obtain limited b where l: "check_rate_limit (sv_rate_config s) (env_instant env) request (sv_rate_buckets s) = (limited, b)"
    by (cases "check_rate_limit (sv_rate_config s) (env_instant env) request (sv_rate_buckets s)")
  obtain r1 log1 s1 where d: "dispatch x pages env request (s\<lparr>sv_rate_buckets := b\<rparr>) = (r1, log1, s1)"
    using prod_cases3 by blast
  have cause: "publish_cause x env request (s\<lparr>sv_rate_buckets := b\<rparr>) a = publish_cause x env request s a" for a
    by (cases a) simp_all
  show ?thesis
    using assms False l d dispatch_publish [OF d]
    by (cases limited) (auto simp: handle_request_file Let_def cause)
qed

lemma server_ok_publish: "server_ok x s \<Longrightarrow> disk_inv publish_ok (sv_publish s)"
  by (auto simp: server_ok_def disk_inv_def publish_good_def)

text \<open>
  C2. Only those entitled change a publish record: when a request changes what the publish store holds,
  the new map is the one an operation of the specification gives, and the request is its cause: an
  upload with a valid signature of the peer, a deletion signed afresh by the peer for that id, or a
  moderation of that id by an authenticated administrator with a reason.
\<close>

theorem publish_change_authorized:
  assumes "server_ok x s" and "handle_request x pages env request s = (r, log, s')"
    and "publish_abs (sv_publish s') \<noteq> publish_abs (sv_publish s)"
  shows "\<exists>a. publish_cause x env request s a \<and>
    publish_abs (sv_publish s') = spec_step a (publish_abs (sv_publish s))"
  using handle_request_publish [OF assms(2)] assms(3)
    file_publish.view_step [OF server_ok_publish [OF assms(1)] TrueI]
  by metis

theorem publish_change_authorized_witness:
  "\<exists>s request r log s' ob. server_with_stores sample_dir ''http://relay'' (limits_for request) 4 AdminDisabled = Ok s \<and>
     handle_request toy sample_pages sample_env request s = (r, log, s') \<and>
     (\<exists>a. publish_cause toy sample_env request s a \<and> publish_abs (sv_publish s') = spec_step a Map.empty)"
proof -
  obtain ob s where ob: "sign_object toy (enc_publish toy) sample_key (sample_publish ''hello'') = Ok ob"
    and s: "server_with_stores sample_dir ''http://relay''
       (limits_for (json_post ''/v1/publish'' (json_text toy (enc_signed toy (enc_publish toy) ob)))) 4 AdminDisabled = Ok s"
    and l: "load (sv_publish s) = Ok []"
    by (rule sample_upload)
  from upload_accepted [OF sample_upload_facts _ _ sample_publish_storable ob refl sample_let_through [OF s], of sample_env] l
  obtain r log s' where h: "handle_request toy sample_pages sample_env
      (json_post ''/v1/publish'' (json_text toy (enc_signed toy (enc_publish toy) ob))) s = (r, log, s')"
      "publish_abs (sv_publish s') = [obj_id (sample_publish ''hello'') \<mapsto> stored_visible ob]"
    by (fastforce simp: publish_map_def)
  have e: "publish_abs (sv_publish s) = Map.empty" using l by (auto simp: publish_abs_def publish_map_def)
  have "publish_abs (sv_publish s') \<noteq> publish_abs (sv_publish s)" unfolding e h(2) by simp
  from publish_change_authorized [OF fresh_server_ok [OF sample_dir_fresh s] h(1) this] s h(1) e
  show ?thesis by metis
qed

end
