(* ===== verification/Deployment.thy ===== *)
theory Deployment
  imports Stores_Laws Server_Props
begin

text \<open>
  The server as it is deployed: each of its four stores is a file or Firestore, as the environment asks
  (\<^verbatim>\<open>ServerState::from_env\<close> and \<^verbatim>\<open>run_from_env\<close> of \<^verbatim>\<open>crates/aichan-server/src/lib.rs\<close>), and the handlers call the
  operations of the enums. Over four files it is the server of the theory \<open>Server\<close>; over any stores, the publish
  records are changed by those entitled only, and keep what the relay promises to its peers.
\<close>

section \<open>The server\<close>

type_synonym 'n deployment = "('n publish_store, 'n message_store, 'n backup_store, 'n activity_store) server"

definition any_ops ::
  "'n fs_env \<Rightarrow> io_plan \<Rightarrow> ('n publish_store, 'n message_store, 'n backup_store, 'n activity_store) store_ops" where
  "any_ops fs io = \<lparr>op_upsert = publish_store_upsert io fs, op_search = publish_store_search fs,
     op_discover = publish_store_discover fs, op_delete = publish_store_delete io fs,
     op_hide = publish_store_hide io fs, op_restore = publish_store_restore io fs, op_stats = publish_store_stats fs,
     op_insert = message_store_insert io fs, op_inbox = message_store_inbox fs, op_count = message_store_count fs,
     op_put = backup_store_put io fs, op_latest = backup_store_latest fs, op_list = backup_store_list fs,
     op_event_put = activity_store_put io fs, op_event_list = activity_store_list io fs\<rparr>"

definition deployed_request ::
  "static_pages \<Rightarrow> 'n fs_env \<Rightarrow> request_env \<Rightarrow> http_request \<Rightarrow> 'n deployment \<Rightarrow>
   http_response \<times> log_line list \<times> 'n deployment" where
  "deployed_request pages fs env = handle_request_on (fe_crates fs) pages (any_ops fs (env_io env)) env"

text \<open>The stores that the environment asks for; \<open>net\<close> is the world of a new Firestore client.\<close>

definition chosen_store ::
  "'n \<Rightarrow> (string + 's) \<Rightarrow> ('n firestore \<Rightarrow> 's) \<Rightarrow> store_choice \<Rightarrow> string + 's" where
  "chosen_store net in_file in_firestore choice =
     (case choice of FileStore \<Rightarrow> in_file | FirestoreStore c \<Rightarrow> Ok (in_firestore (firestore_new c net)))"

definition deployment_from_env ::
  "(string \<Rightarrow> string option) \<Rightarrow> fs_answer \<Rightarrow> bool \<Rightarrow> 'n \<Rightarrow> data_dir \<Rightarrow> string \<Rightarrow> rate_config \<Rightarrow> nat \<Rightarrow> string + 'n deployment" where
  "deployment_from_env env meta client_build net dir public_base_url rate_limits max_conns =
     and_then (and_then (publish_store_from_env env meta)
       (chosen_store net (publish_store_file (dd_path dir) (dd_failure dir) (dd_publish dir)) FirestorePublish)) (\<lambda>publish.
     and_then (and_then (message_store_from_env env meta)
       (chosen_store net (message_store_file (dd_path dir) (dd_failure dir) (dd_messages dir)) FirestoreMessages)) (\<lambda>messages.
     and_then (and_then (backup_store_from_env env meta)
       (chosen_store net (backup_store_file (dd_path dir) (dd_failure dir) (dd_backups dir)) FirestoreBackups)) (\<lambda>backups.
     and_then (and_then (activity_store_from_env env meta)
       (chosen_store net (activity_store_file (dd_path dir) (dd_failure dir) (dd_activities dir)) FirestoreActivities)) (\<lambda>activities.
     and_then (admin_auth_from_env env client_build) (\<lambda>admin.
       Ok (with_stores publish messages backups activities public_base_url rate_limits max_conns admin))))))"

definition run_from_env ::
  "(string \<Rightarrow> string option) \<Rightarrow> fs_answer \<Rightarrow> bool \<Rightarrow> 'n \<Rightarrow> data_dir \<Rightarrow> string + 'n deployment" where
  "run_from_env env meta client_build net dir =
     (let port = (case env ''PORT'' of Some p \<Rightarrow> p | None \<Rightarrow> ''8080'');
          addr = ''0.0.0.0:'' @ port;
          path = (case env_non_empty env ''AICHAN_DATA_DIR'' of Some p \<Rightarrow> p | None \<Rightarrow> ''/tmp/aichan-server'');
          public_base_url = (case env_non_empty env ''AICHAN_PUBLIC_BASE_URL'' of
              Some u \<Rightarrow> u | None \<Rightarrow> ''http://'' @ addr);
          max_conns = max (case env_uint usize_max env ''AICHAN_MAX_CONNECTIONS'' of
              Some n \<Rightarrow> n | None \<Rightarrow> DEFAULT_MAX_CONNECTIONS) 1
      in deployment_from_env env meta client_build net (dir\<lparr>dd_path := path\<rparr>) public_base_url (rate_config_from_env env)
           max_conns)"

section \<open>Over files\<close>

definition over_files :: "server_state \<Rightarrow> 'n deployment" where
  "over_files s = \<lparr>sv_public_base_url = sv_public_base_url s, sv_rate_config = sv_rate_config s,
     sv_rate_buckets = sv_rate_buckets s, sv_connections = sv_connections s, sv_publish = FilePublish (sv_publish s),
     sv_messages = FileMessages (sv_messages s), sv_backups = FileBackups (sv_backups s),
     sv_activities = FileActivities (sv_activities s), sv_seen = sv_seen s, sv_admin = sv_admin s\<rparr>"

lemma over_files_simps [simp]:
  "sv_public_base_url (over_files s) = sv_public_base_url s" "sv_rate_config (over_files s) = sv_rate_config s"
  "sv_rate_buckets (over_files s) = sv_rate_buckets s" "sv_publish (over_files s) = FilePublish (sv_publish s)"
  "sv_messages (over_files s) = FileMessages (sv_messages s)" "sv_backups (over_files s) = FileBackups (sv_backups s)"
  "sv_activities (over_files s) = FileActivities (sv_activities s)" "sv_seen (over_files s) = sv_seen s"
  "sv_admin (over_files s) = sv_admin s"
  "(over_files s)\<lparr>sv_rate_buckets := b\<rparr> = over_files (s\<lparr>sv_rate_buckets := b\<rparr>)"
  "(over_files s)\<lparr>sv_publish := FilePublish p\<rparr> = over_files (s\<lparr>sv_publish := p\<rparr>)"
  "(over_files s)\<lparr>sv_messages := FileMessages m\<rparr> = over_files (s\<lparr>sv_messages := m\<rparr>)"
  "(over_files s)\<lparr>sv_backups := FileBackups h\<rparr> = over_files (s\<lparr>sv_backups := h\<rparr>)"
  "(over_files s)\<lparr>sv_activities := FileActivities a\<rparr> = over_files (s\<lparr>sv_activities := a\<rparr>)"
  "(over_files s)\<lparr>sv_seen := n\<rparr> = over_files (s\<lparr>sv_seen := n\<rparr>)"
  by (simp_all add: over_files_def)

text \<open>Without any variable of its own the server works on the files of its default directory.\<close>

lemma run_from_env_default:
  assumes "\<forall>v. starts_with v ''AICHAN_'' \<longrightarrow> env v = None"
  shows "run_from_env env meta client_build net dir =
    map_ok over_files (server_with_stores (dir\<lparr>dd_path := ''/tmp/aichan-server''\<rparr>)
      (''http://0.0.0.0:'' @ (case env ''PORT'' of Some p \<Rightarrow> p | None \<Rightarrow> ''8080'')) default_rate_config
      DEFAULT_MAX_CONNECTIONS AdminDisabled)"
proof -
  have e: "env_non_empty env v = None" if "starts_with v ''AICHAN_''" for v
    using assms that by (simp add: env_non_empty_def)
  have unset: "\<forall>v \<in> set [''AICHAN_PUBLISH_STORE'', ''AICHAN_MESSAGE_STORE'', ''AICHAN_BACKUP_STORE'', ''AICHAN_ACTIVITY_STORE'',
      ''AICHAN_FIRESTORE_PROJECT_ID'', ''AICHAN_FIRESTORE_DATABASE'', ''AICHAN_FIRESTORE_EMULATOR_HOST'', ''AICHAN_DATA_DIR'',
      ''AICHAN_PUBLIC_BASE_URL'', ''AICHAN_MAX_CONNECTIONS'', ''AICHAN_ADMIN_PRINCIPALS'', ''AICHAN_READ_RATE_PER_MINUTE'',
      ''AICHAN_WRITE_RATE_PER_MINUTE'', ''AICHAN_MAX_BODY_BYTES'']. env_non_empty env v = None"
    unfolding list.set ball_simps by (intro conjI TrueI e) (simp_all add: starts_with_def)
  have stores: "publish_store_from_env env meta = Ok FileStore" "message_store_from_env env meta = Ok FileStore"
    "backup_store_from_env env meta = Ok FileStore" "activity_store_from_env env meta = Ok FileStore"
    using unset by (simp_all add: publish_store_from_env_def message_store_from_env_def backup_store_from_env_def
        activity_store_from_env_def store_from_env_def or_else_def)
  have config: "rate_config_from_env env = default_rate_config" "admin_auth_from_env env client_build = Ok AdminDisabled"
    "env_uint usize_max env ''AICHAN_MAX_CONNECTIONS'' = None"
    using unset by (simp_all add: rate_config_from_env_def admin_auth_from_env_def env_uint_def default_rate_config_def)
  have wrapped: "over_files (with_stores p m b a u l n ad)
      = with_stores (FilePublish p) (FileMessages m) (FileBackups b) (FileActivities a) u l n ad" for p m b a u l n ad
    by (simp add: over_files_def with_stores_def)
  show ?thesis
    using unset
    by (cases "dd_failure dir")
      (simp_all add: run_from_env_def deployment_from_env_def server_with_stores_def stores config chosen_store_def
        publish_store_file_def message_store_file_def backup_store_file_def activity_store_file_def file_store_new_def wrapped
        DEFAULT_MAX_CONNECTIONS_def)
qed

lemmas store_defs =
  publish_store_upsert_def publish_store_search_def publish_store_discover_def publish_store_delete_def
  publish_store_hide_def publish_store_restore_def publish_store_stats_def message_store_insert_def
  message_store_inbox_def message_store_count_def backup_store_put_def backup_store_latest_def backup_store_list_def
  activity_store_put_def activity_store_list_def

text \<open>A handler over a store that is wrapped is the handler over the store.\<close>

lemma publish_record_wrap:
  assumes "\<And>ob p. upsert' ob p (f d) = apsnd f (upsert ob p d)"
  shows "publish_record_on x upsert' q (f d) = apsnd f (publish_record_on x upsert q d)"
  by (auto simp: publish_record_on_def assms apsnd_def map_prod_def
      split: sum.splits prod.splits publish_upsert_status.splits)

lemma search_wrap:
  assumes "\<And>r. search' r (f d) = apsnd f (search r d)"
  shows "search_publish_records_on x search' q (f d) = apsnd f (search_publish_records_on x search q d)"
  by (auto simp: search_publish_records_on_def Let_def assms apsnd_def map_prod_def
      split: sum.splits prod.splits option.splits)

lemma discover_wrap:
  assumes "\<And>r. discover' r (f d) = apsnd f (discover r d)"
  shows "discover_publish_records_on x discover' now q (f d) = apsnd f (discover_publish_records_on x discover now q d)"
  by (auto simp: discover_publish_records_on_def Let_def assms apsnd_def map_prod_def split: sum.splits prod.splits)

lemma delete_wrap:
  assumes "\<And>t i p. mark' t i p (f d) = apsnd f (mark t i p d)"
  shows "delete_publish_record_on x mark' now later q i seen (f d)
    = apsnd (apsnd f) (delete_publish_record_on x mark now later q i seen d)"
  by (auto simp: delete_publish_record_on_def assms apsnd_def map_prod_def
      split: sum.splits prod.splits publish_delete_status.splits)

lemma moderation_wrap:
  assumes "\<And>t i r a. hide' t i r a (f d) = apsnd f (hide_it t i r a d)"
    and "\<And>t i r a. restore' t i r a (f d) = apsnd f (restore_it t i r a d)"
  shows "admin_publish_moderation_on x fetch hide' restore' now later auth q i action (f d)
    = apsnd (apsnd f) (admin_publish_moderation_on x fetch hide_it restore_it now later auth q i action d)"
  by (auto simp: admin_publish_moderation_on_def Let_def assms apsnd_def map_prod_def
      split: sum.splits prod.splits publish_moderation_status.splits admin_publish_action.splits)

lemma stats_wrap:
  assumes "stats' (f d) = apsnd f (stats d)" "counter' (g m) = apsnd g (counter m)"
  shows "stats_response_on x stats' counter' (f d) (g m) = apsnd (map_prod f g) (stats_response_on x stats counter d m)"
  by (auto simp: stats_response_on_def assms apsnd_def map_prod_def split: sum.splits prod.splits)

lemma post_message_wrap:
  assumes "\<And>t ob. insert' t ob (f d) = apsnd f (insert_message t ob d)"
  shows "post_message_on x insert' now q (f d) = apsnd f (post_message_on x insert_message now q d)"
  by (auto simp: post_message_on_def assms apsnd_def map_prod_def split: sum.splits prod.splits)

lemma inbox_wrap:
  assumes "\<And>p l t. inbox' p l t (f d) = apsnd f (inbox p l t d)"
  shows "get_inbox_on x inbox' now later q seen (f d) = apsnd (apsnd f) (get_inbox_on x inbox now later q seen d)"
  by (auto simp: get_inbox_on_def Let_def assms apsnd_def map_prod_def split: sum.splits prod.splits)

lemma put_backup_wrap:
  assumes "\<And>t i u v. put' t i u v (f d) = apsnd f (put_backup t i u v d)"
  shows "put_hosted_backup_on x put' now q i (f d) = apsnd f (put_hosted_backup_on x put_backup now q i d)"
  by (auto simp: put_hosted_backup_on_def assms apsnd_def map_prod_def
      split: sum.splits prod.splits backup_put_status.splits)

lemma get_backup_wrap:
  assumes "\<And>i t. latest' i t (f d) = apsnd f (latest i t d)"
  shows "get_hosted_backup_on x latest' q i h (f d) = apsnd f (get_hosted_backup_on x latest q i h d)"
  by (auto simp: get_hosted_backup_on_def assms apsnd_def map_prod_def
      split: sum.splits prod.splits backup_read_status.splits)

lemma generations_wrap:
  assumes "\<And>i t. list' i t (f d) = apsnd f (list_backups i t d)"
  shows "list_hosted_backup_generations_on x list' q i (f d) = apsnd f (list_hosted_backup_generations_on x list_backups q i d)"
  by (auto simp: list_hosted_backup_generations_on_def Let_def assms apsnd_def map_prod_def
      split: sum.splits prod.splits backup_list_status.splits)

lemma post_activity_wrap:
  assumes "\<And>t i u e. put' t i u e (f d) = apsnd f (put_event t i u e d)"
  shows "post_activity_event_on x put' now q (f d) = apsnd f (post_activity_event_on x put_event now q d)"
  by (auto simp: post_activity_event_on_def assms apsnd_def map_prod_def
      split: sum.splits prod.splits activity_put_status.splits)

lemma get_activity_wrap:
  assumes "\<And>i u n c t. list' i u n c t (f d) = apsnd f (list_events i u n c t d)"
  shows "get_activity_events_on x list' now q (f d) = apsnd f (get_activity_events_on x list_events now q d)"
  by (auto simp: get_activity_events_on_def Let_def assms apsnd_def map_prod_def
      split: sum.splits prod.splits option.splits activity_list_status.splits)

lemmas handlers_wrap =
  publish_record_wrap search_wrap discover_wrap delete_wrap moderation_wrap stats_wrap post_message_wrap inbox_wrap
  put_backup_wrap get_backup_wrap generations_wrap post_activity_wrap get_activity_wrap

lemma stores_over_files:
  "publish_store_upsert io fs ob p (FilePublish d) = apsnd FilePublish (publish_upsert io ob p d)"
  "publish_store_search fs q (FilePublish d) = apsnd FilePublish (publish_search (fe_crates fs) q d, d)"
  "publish_store_discover fs r (FilePublish d) = apsnd FilePublish (publish_discover (fe_crates fs) r d, d)"
  "publish_store_delete io fs t i p (FilePublish d) = apsnd FilePublish (mark_author_deleted io t i p d)"
  "publish_store_hide io fs t i reason a (FilePublish d) = apsnd FilePublish (admin_hide io t i reason a d)"
  "publish_store_restore io fs t i reason a (FilePublish d) = apsnd FilePublish (admin_restore io t i reason a d)"
  "publish_store_stats fs (FilePublish d) = apsnd FilePublish (publish_stats d, d)"
  "message_store_insert io fs t m (FileMessages e) = apsnd FileMessages (message_insert io t m e)"
  "message_store_inbox fs p l t (FileMessages e) = apsnd FileMessages (message_inbox p l t e, e)"
  "message_store_count fs (FileMessages e) = apsnd FileMessages (message_count e, e)"
  "backup_store_put io fs t i u v (FileBackups b) = apsnd FileBackups (backup_put (fe_crates fs) io t i u v b)"
  "backup_store_latest fs i u (FileBackups b) = apsnd FileBackups (backup_latest (fe_crates fs) i u b, b)"
  "backup_store_list fs i u (FileBackups b) = apsnd FileBackups (backup_list (fe_crates fs) i u b, b)"
  "activity_store_put io fs t i u ev (FileActivities ac) = apsnd FileActivities (activity_put (fe_crates fs) io t i u ev ac)"
  "activity_store_list io fs i u l c t (FileActivities ac) =
     apsnd FileActivities (activity_list (fe_crates fs) io i u l c t ac)"
  by (simp_all add: store_defs)

lemma any_ops_simps [simp]:
  "op_upsert (any_ops fs io) = publish_store_upsert io fs" "op_search (any_ops fs io) = publish_store_search fs"
  "op_discover (any_ops fs io) = publish_store_discover fs" "op_delete (any_ops fs io) = publish_store_delete io fs"
  "op_hide (any_ops fs io) = publish_store_hide io fs" "op_restore (any_ops fs io) = publish_store_restore io fs"
  "op_stats (any_ops fs io) = publish_store_stats fs" "op_insert (any_ops fs io) = message_store_insert io fs"
  "op_inbox (any_ops fs io) = message_store_inbox fs" "op_count (any_ops fs io) = message_store_count fs"
  "op_put (any_ops fs io) = backup_store_put io fs" "op_latest (any_ops fs io) = backup_store_latest fs"
  "op_list (any_ops fs io) = backup_store_list fs" "op_event_put (any_ops fs io) = activity_store_put io fs"
  "op_event_list (any_ops fs io) = activity_store_list io fs"
  by (simp_all add: any_ops_def)

lemma pages_over_files [simp]:
  "discovery_response x (over_files s) = discovery_response x s" "agent_response pages (over_files s) = agent_response pages s"
  "agent_json_response x pages (over_files s) = agent_json_response x pages s"
  by (simp_all add: discovery_response_def agent_response_def agent_json_response_def)

lemma handlers_over_files:
  fixes fs :: "'n fs_env" and io
  defines "ops \<equiv> any_ops fs io" and "files \<equiv> file_ops (fe_crates fs) io"
  shows "publish_record_on x (op_upsert ops) q (FilePublish d) = apsnd FilePublish (publish_record_on x (op_upsert files) q d)"
    "search_publish_records_on x (op_search ops) q (FilePublish d)
       = apsnd FilePublish (search_publish_records_on x (op_search files) q d)"
    "discover_publish_records_on x (op_discover ops) now q (FilePublish d)
       = apsnd FilePublish (discover_publish_records_on x (op_discover files) now q d)"
    "delete_publish_record_on x (op_delete ops) now later q i seen (FilePublish d)
       = apsnd (apsnd FilePublish) (delete_publish_record_on x (op_delete files) now later q i seen d)"
    "admin_publish_moderation_on x fetch (op_hide ops) (op_restore ops) now later auth q i action (FilePublish d)
       = apsnd (apsnd FilePublish)
           (admin_publish_moderation_on x fetch (op_hide files) (op_restore files) now later auth q i action d)"
    "stats_response_on x (op_stats ops) (op_count ops) (FilePublish d) (FileMessages m)
       = apsnd (map_prod FilePublish FileMessages) (stats_response_on x (op_stats files) (op_count files) d m)"
    "post_message_on x (op_insert ops) now q (FileMessages m) = apsnd FileMessages (post_message_on x (op_insert files) now q m)"
    "get_inbox_on x (op_inbox ops) now later q seen (FileMessages m)
       = apsnd (apsnd FileMessages) (get_inbox_on x (op_inbox files) now later q seen m)"
    "put_hosted_backup_on x (op_put ops) now q i (FileBackups b)
       = apsnd FileBackups (put_hosted_backup_on x (op_put files) now q i b)"
    "get_hosted_backup_on x (op_latest ops) q i h (FileBackups b)
       = apsnd FileBackups (get_hosted_backup_on x (op_latest files) q i h b)"
    "list_hosted_backup_generations_on x (op_list ops) q i (FileBackups b)
       = apsnd FileBackups (list_hosted_backup_generations_on x (op_list files) q i b)"
    "post_activity_event_on x (op_event_put ops) now q (FileActivities a)
       = apsnd FileActivities (post_activity_event_on x (op_event_put files) now q a)"
    "get_activity_events_on x (op_event_list ops) now q (FileActivities a)
       = apsnd FileActivities (get_activity_events_on x (op_event_list files) now q a)"
  unfolding ops_def files_def
  by (intro handlers_wrap; simp add: stores_over_files)+

lemma dispatch_over_files:
  "dispatch_on (fe_crates fs) pages (any_ops fs (env_io env)) env q (over_files s)
     = apsnd (apsnd over_files) (dispatch (fe_crates fs) pages env q s)"
  unfolding dispatch_def
  by (cases "route_of (rq_method q) (path q)")
    (simp_all add: dispatch_on_def Let_def handlers_over_files split_def del: any_ops_simps file_ops_simps)


section \<open>Who changes a publish record\<close>

text \<open>What a request does to the publish store: an operation with its cause, at the time of the request, or a read.\<close>

fun publish_effect :: "('p, 'm, 'b, 'a) store_ops \<Rightarrow> publish_op \<Rightarrow> 'p \<Rightarrow> 'p" where
  "publish_effect ops (Upload ob p) d = snd (op_upsert ops ob p d)"
| "publish_effect ops (Delete now i p) d = snd (op_delete ops now i p d)"
| "publish_effect ops (Hide now i r a) d = snd (op_hide ops now i r a d)"
| "publish_effect ops (Restore now i r a) d = snd (op_restore ops now i r a d)"

fun op_time :: "datetime \<Rightarrow> publish_op \<Rightarrow> bool" where
  "op_time t (Upload ob p) = True"
| "op_time t (Delete now i p) = (now = t)"
| "op_time t (Hide now i r a) = (now = t)"
| "op_time t (Restore now i r a) = (now = t)"

lemma publish_record_effect:
  "snd (publish_record_on x upsert q d) = d \<or>
   (\<exists>ob p. from_json x (dec_signed x (dec_publish x)) (rq_body q) = Ok ob \<and> verify_publish_record x ob = Ok p \<and>
      snd (publish_record_on x upsert q d) = snd (upsert ob p d))"
  by (auto simp: publish_record_on_def split: sum.split prod.split publish_upsert_status.split)

lemma delete_effect:
  "snd (snd (delete_publish_record_on x mark now later q i seen d)) = d \<or>
   (\<exists>sg. signed_by x q sg \<and> signature_fresh now sg seen \<and>
      snd (snd (delete_publish_record_on x mark now later q i seen d)) = snd (mark later i (ars_peer_id sg) d))"
proof (cases "authenticate_signed x ''Delete'' now q seen")
  case (Pair a seen')
  show ?thesis
  proof (cases a)
    case (Inl r)
    then show ?thesis by (simp add: Pair delete_publish_record_on_def)
  next
    case (Inr sg)
    with Pair have "signed_by x q sg \<and> signature_fresh now sg seen" by (simp add: authenticate_signed_Ok)
    moreover have "snd (snd (delete_publish_record_on x mark now later q i seen d)) = snd (mark later i (ars_peer_id sg) d)"
      by (auto simp: Pair Inr delete_publish_record_on_def split: sum.split prod.split publish_delete_status.split)
    ultimately show ?thesis by blast
  qed
qed

lemma moderation_effect:
  "snd (snd (admin_publish_moderation_on x fetch hide_it restore_it now later auth q i action d)) = d \<or>
   (\<exists>admin m. authenticate x fetch now auth q = Ok admin \<and> parse_admin_moderation_request x (rq_body q) = Ok m \<and>
      snd (snd (admin_publish_moderation_on x fetch hide_it restore_it now later auth q i action d))
        = snd ((case action of HideAction \<Rightarrow> hide_it | RestoreAction \<Rightarrow> restore_it) later i (mod_reason m) admin d))"
  by (auto simp: admin_publish_moderation_on_def Let_def
      split: sum.split prod.split publish_moderation_status.split admin_publish_action.split)

lemma moderation_run:
  "snd ((case action of HideAction \<Rightarrow> op_hide ops | RestoreAction \<Rightarrow> op_restore ops) t i k admin d)
     = publish_effect ops (moderation_op action t i k admin) d"
  by (cases action) (simp_all add: moderation_op_def)

lemma snd_case_result:
  "snd (case p of (Inl e, d) \<Rightarrow> (f e, d) | (Inr v, d) \<Rightarrow> (g v, d)) = snd p"
  by (cases p; cases "fst p") auto

lemma search_effect:
  "snd (search_publish_records_on x search q d) = d \<or> (\<exists>r. snd (search_publish_records_on x search q d) = snd (search r d))"
  unfolding search_publish_records_on_def Let_def
  by (cases "bt_get (request_params q) ''cursor''")
    (auto simp: snd_case_result split: sum.split)

lemma discover_effect: "\<exists>r. snd (discover_publish_records_on x discover now q d) = snd (discover r d)"
  unfolding discover_publish_records_on_def Let_def snd_case_result by (rule exI, rule refl)

lemma stats_effect: "fst (snd (stats_response_on x stats counter d m)) = snd (stats d)"
  by (auto simp: stats_response_on_def split: sum.split prod.split)

lemma dispatch_on_publish:
  assumes "dispatch_on x pages ops env q s = (r, log, s')"
  shows "sv_publish s' = sv_publish s \<or>
    (\<exists>a. publish_cause x env q s a \<and> op_time (env_later env) a \<and> sv_publish s' = publish_effect ops a (sv_publish s)) \<or>
    (\<exists>k. sv_publish s' = snd (op_search ops k (sv_publish s))) \<or>
    (\<exists>k. sv_publish s' = snd (op_discover ops k (sv_publish s))) \<or> sv_publish s' = snd (op_stats ops (sv_publish s))"
proof (cases "route_of (rq_method q) (path q)")
  case PublishRoute
  then have "sv_publish s' = snd (publish_record_on x (op_upsert ops) q (sv_publish s))"
    using assms by (auto simp: dispatch_on_def Let_def split_def)
  with publish_record_effect [of x "op_upsert ops" q "sv_publish s"]
  have "sv_publish s' = sv_publish s \<or> (\<exists>ob p. publish_cause x env q s (Upload ob p) \<and>
      sv_publish s' = publish_effect ops (Upload ob p) (sv_publish s))"
    by simp
  then show ?thesis by (meson op_time.simps(1))
next
  case (ModerateRoute i action)
  then have "sv_publish s' = snd (snd (admin_publish_moderation_on x (env_fetch env) (op_hide ops) (op_restore ops)
      (env_now env) (env_later env) (sv_admin s) q i action (sv_publish s)))"
    using assms by (auto simp: dispatch_on_def Let_def split_def)
  then have "sv_publish s' = sv_publish s \<or> (\<exists>admin m. authenticate x (env_fetch env) (env_now env) (sv_admin s) q = Ok admin \<and>
      parse_admin_moderation_request x (rq_body q) = Ok m \<and>
      sv_publish s' = publish_effect ops (moderation_op action (env_later env) i (mod_reason m) admin) (sv_publish s))"
    using moderation_effect [of x "env_fetch env" "op_hide ops" "op_restore ops" "env_now env" "env_later env" "sv_admin s" q i
        action "sv_publish s"] moderation_run [where ops = ops and action = action] by simp
  then have "sv_publish s' = sv_publish s \<or> (\<exists>admin (m :: admin_moderation_request). publish_cause x env q s (moderation_op action (env_later env) i (mod_reason m) admin) \<and>
      sv_publish s' = publish_effect ops (moderation_op action (env_later env) i (mod_reason m) admin) (sv_publish s))"
    using moderation_cause [OF ModerateRoute] by blast
  moreover have "op_time (env_later env) (moderation_op action (env_later env) i k admin)" for k admin
    by (cases action) (simp_all add: moderation_op_def)
  ultimately show ?thesis by blast
next
  case (DeleteRoute i)
  then have "sv_publish s' = snd (snd (delete_publish_record_on x (op_delete ops) (env_now env) (env_later env) q i
      (sv_seen s) (sv_publish s)))"
    using assms by (auto simp: dispatch_on_def Let_def split_def)
  with delete_effect [of x "op_delete ops" "env_now env" "env_later env" q i "sv_seen s" "sv_publish s"]
  have "sv_publish s' = sv_publish s \<or> (\<exists>p. publish_cause x env q s (Delete (env_later env) i p) \<and>
      sv_publish s' = publish_effect ops (Delete (env_later env) i p) (sv_publish s))"
    using DeleteRoute by auto
  then show ?thesis by (meson op_time.simps(2))
next
  case SearchRoute
  then have "sv_publish s' = snd (search_publish_records_on x (op_search ops) q (sv_publish s))"
    using assms by (auto simp: dispatch_on_def Let_def split_def)
  with search_effect [of x "op_search ops" q "sv_publish s"] show ?thesis by metis
next
  case DiscoverRoute
  then have "sv_publish s' = snd (discover_publish_records_on x (op_discover ops) (env_now env) q (sv_publish s))"
    using assms by (auto simp: dispatch_on_def Let_def split_def)
  with discover_effect [of x "op_discover ops" "env_now env" q "sv_publish s"] show ?thesis by metis
next
  case StatsRoute
  then have "sv_publish s' = fst (snd (stats_response_on x (op_stats ops) (op_count ops) (sv_publish s) (sv_messages s)))"
    using assms by (auto simp: dispatch_on_def Let_def split_def)
  then show ?thesis by (simp add: stats_effect)
qed (use assms in \<open>auto simp: dispatch_on_def Let_def split_def\<close>)

lemma dispatch_on_admin: "dispatch_on x pages ops env q s = (r, log, s') \<Longrightarrow> sv_admin s' = sv_admin s"
  by (cases "route_of (rq_method q) (path q)") (auto simp: dispatch_on_def Let_def split_def)

text \<open>A query changes no document.\<close>

lemma query_not_commit: "run_query_url c \<noteq> commit_url c'"
proof
  assume "run_query_url c = commit_url c'"
  then have "hd (rev (run_query_url c)) = hd (rev (commit_url c'))" by simp
  then show False by (simp add: run_query_url_def commit_url_def)
qed

lemma quiet_post: "only_commits_change fs cfg docs \<Longrightarrow> url \<noteq> commit_url cfg \<Longrightarrow> quiet docs (post_json fs url body op)"
  unfolding post_json_def by (intro quiet_then_do quiet_clock quiet_authorize quiet_send quiet_answer) simp_all

lemma quiet_query: "only_commits_change fs cfg docs \<Longrightarrow> quiet docs (run_query fs body)"
proof -
  assume o: "only_commits_change fs cfg docs"
  have "quiet docs (then_do (post_json fs (run_query_url (fs_config t)) body ''firestore.run_query'') (\<lambda>v.
      check (map_ok (List.map_filter (\<lambda>entry. jget entry ''document''))
        (ok_or ''Firestore runQuery response is not an array'' (as_array v)))))" for t :: "'a firestore"
    by (intro quiet_then_do quiet_post [OF o] query_not_commit quiet_simple)
  then show ?thesis unfolding quiet_def run_query_def by blast
qed

lemma quiet_reads:
  assumes "only_commits_change fs cfg docs"
  shows "quiet docs (fs_search fs q)" "quiet docs (fs_discover fs r)" "quiet docs (fs_stats fs)"
proof -
  have records: "quiet docs (query_records fs body)" for body
    unfolding query_records_def by (intro quiet_then_do quiet_query [OF assms] quiet_simple)
  then show search: "quiet docs (fs_search fs q)" for q
    unfolding fs_search_def Let_def by (auto intro!: quiet_then_do)
  have "quiet docs (fs_candidates fs tags candidates)" for tags candidates
    by (induction tags arbitrary: candidates) (auto intro!: quiet_then_do search)
  then show "quiet docs (fs_discover fs r)"
    unfolding fs_discover_def by (intro quiet_then_do quiet_simple)
  show "quiet docs (fs_stats fs)"
    unfolding fs_stats_def Let_def by (intro quiet_then_do records quiet_simple)
qed

definition same_records :: "'n fs_env \<Rightarrow> ('n \<Rightarrow> documents) \<Rightarrow> 'n publish_store \<Rightarrow> 'n publish_store \<Rightarrow> bool" where
  "same_records fs docs st st' \<longleftrightarrow>
     publish_store_inv fs docs st' \<and> publish_store_view fs docs st' = publish_store_view fs docs st"

lemma same_records_refl: "publish_store_inv fs docs st \<Longrightarrow> same_records fs docs st st"
  by (simp add: same_records_def)

lemma quiet_same_records:
  fixes m :: "('n firestore, 'a) step"
  assumes "publish_store_inv fs docs (FirestorePublish s)"
    and "\<And>cfg. only_commits_change fs cfg docs \<Longrightarrow> quiet docs m"
  shows "same_records fs docs (FirestorePublish s) (FirestorePublish (snd (m s)))"
proof -
  have "only_commits_change fs (fs_config s) docs"
    using assms(1) by (simp add: publish_store_inv_def fs_publish_inv_def firestore_law_def)
  from quietD [OF assms(2) [OF this] prod.collapse [symmetric], of s]
  have e: "docs (fs_net (snd (m s))) = docs (fs_net s)" "fs_config (snd (m s)) = fs_config s" by simp_all
  have "fs_publish_view fs docs (snd (m s)) = fs_publish_view fs docs s" by (rule ext) (simp add: fs_publish_view_def e)
  with assms(1) e show ?thesis
    by (simp add: same_records_def publish_store_inv_def publish_store_view_def fs_publish_inv_def)
qed

lemma reads_same_records:
  assumes "publish_store_inv fs docs st"
  shows "same_records fs docs st (snd (publish_store_search fs q st))"
    "same_records fs docs st (snd (publish_store_discover fs r st))"
    "same_records fs docs st (snd (publish_store_stats fs st))"
proof (atomize (full), cases st)
  case (FilePublish d)
  then show "same_records fs docs st (snd (publish_store_search fs q st)) \<and>
      same_records fs docs st (snd (publish_store_discover fs r st)) \<and> same_records fs docs st (snd (publish_store_stats fs st))"
    using same_records_refl [OF assms] by (simp add: store_defs)
next
  case (FirestorePublish s)
  note k = quiet_same_records [OF assms [unfolded FirestorePublish]]
  show "same_records fs docs st (snd (publish_store_search fs q st)) \<and>
      same_records fs docs st (snd (publish_store_discover fs r st)) \<and> same_records fs docs st (snd (publish_store_stats fs st))"
    using k [OF quiet_reads(1)] k [OF quiet_reads(2)] k [OF quiet_reads(3)]
    by (simp add: FirestorePublish store_defs)
qed

lemma publish_effect_any: "publish_effect (any_ops fs io) a st = snd (publish_store_op fs a io st)"
  by (cases a) (simp_all add: apfst_def)

lemma deployed_publish:
  assumes "publish_store_inv fs docs (sv_publish s)" and "deployed_request pages fs env q s = (r, log, s')"
  shows "sv_admin s' = sv_admin s \<and> (same_records fs docs (sv_publish s) (sv_publish s') \<or>
    (\<exists>a. publish_cause (fe_crates fs) env q s a \<and> op_time (env_later env) a \<and>
       sv_publish s' = snd (publish_store_op fs a (env_io env) (sv_publish s))))"
proof (cases "length (rq_body q) > max_body_bytes (sv_rate_config s)")
  case True
  then show ?thesis
    using assms same_records_refl [OF assms(1)] by (auto simp: deployed_request_def handle_request_on_def Let_def)
next
  case False
  obtain limited b where l: "check_rate_limit (sv_rate_config s) (env_instant env) q (sv_rate_buckets s) = (limited, b)"
    by fastforce
  let ?s = "s\<lparr>sv_rate_buckets := b\<rparr>" and ?ops = "any_ops fs (env_io env)"
  obtain r1 log1 and s1 :: "'a deployment" where d: "dispatch_on (fe_crates fs) pages ?ops env q ?s = (r1, log1, s1)"
    using prod_cases3 by blast
  have cause: "publish_cause (fe_crates fs) env q ?s a = publish_cause (fe_crates fs) env q s a" for a
    by (cases a) simp_all
  have s': "s' = (case limited of None \<Rightarrow> s1 | Some _ \<Rightarrow> ?s)"
    using assms(2) False l d by (cases limited) (auto simp: deployed_request_def handle_request_on_def Let_def)
  from dispatch_on_publish [OF d] have "same_records fs docs (sv_publish s) (sv_publish s1) \<or>
    (\<exists>a. publish_cause (fe_crates fs) env q s a \<and> op_time (env_later env) a \<and>
       sv_publish s1 = snd (publish_store_op fs a (env_io env) (sv_publish s)))"
    using same_records_refl [OF assms(1)] reads_same_records [OF assms(1)]
    by (elim disjE exE conjE) (simp_all add: cause publish_effect_any, blast)
  with s' dispatch_on_admin [OF d] same_records_refl [OF assms(1)] show ?thesis
    by (cases limited) simp_all
qed

text \<open>
  A request that Firestore can store: the times of the record it has in its body, and the clock, have years of four
  digits.
\<close>

definition request_storable :: "crates \<Rightarrow> request_env \<Rightarrow> http_request \<Rightarrow> bool" where
  "request_storable x env q \<longleftrightarrow> four_digit_year (env_later env) \<and>
     (\<forall>ob. from_json x (dec_signed x (dec_publish x)) (rq_body q) = Ok ob \<longrightarrow> publish_codec.object_storable ob)"

lemma cause_storable:
  "request_storable x env q \<Longrightarrow> publish_cause x env q s a \<Longrightarrow> op_time (env_later env) a \<Longrightarrow> storable_op a"
  by (cases a) (auto simp: request_storable_def)

lemma deployed_step:
  assumes "publish_store_inv fs docs (sv_publish s)" and "deployed_request pages fs env q s = (r, log, s')"
    and "request_storable (fe_crates fs) env q"
  shows "publish_store_inv fs docs (sv_publish s') \<and> sv_admin s' = sv_admin s \<and>
    (publish_store_view fs docs (sv_publish s') = publish_store_view fs docs (sv_publish s) \<or>
     (\<exists>a. publish_cause (fe_crates fs) env q s a \<and> publish_store_view fs docs (sv_publish s')
        = spec_step (publish_store_trim (sv_publish s) a) (publish_store_view fs docs (sv_publish s))))"
proof -
  note p = deployed_publish [OF assms(1,2)]
  note admin = conjunct1 [OF p]
  from conjunct2 [OF p] show ?thesis
  proof (elim disjE exE conjE)
    assume "same_records fs docs (sv_publish s) (sv_publish s')"
    with admin show ?thesis by (simp add: same_records_def)
  next
    fix a
    assume c: "publish_cause (fe_crates fs) env q s a" "op_time (env_later env) a"
      and e: "sv_publish s' = snd (publish_store_op fs a (env_io env) (sv_publish s))"
    note good = cause_storable [OF assms(3) c]
    from any_publish.inv_step [OF assms(1) good, of "env_io env"] any_publish.view_step [OF assms(1) good, of "env_io env"]
    show ?thesis unfolding e [symmetric] using c(1) admin by blast
  qed
qed

section \<open>What the relay promises to its peers\<close>

fun deployed_run :: "static_pages \<Rightarrow> 'n fs_env \<Rightarrow> (request_env \<times> http_request) list \<Rightarrow> 'n deployment \<Rightarrow> 'n deployment" where
  "deployed_run pages fs [] s = s"
| "deployed_run pages fs ((env, q) # qs) s = deployed_run pages fs qs (snd (snd (deployed_request pages fs env q s)))"

definition restores :: "crates \<Rightarrow> admin_auth \<Rightarrow> string \<Rightarrow> request_env \<times> http_request \<Rightarrow> bool" where
  "restores x auth i = (\<lambda>(env, q). route_of (rq_method q) (path q) = ModerateRoute i RestoreAction \<and>
     (\<exists>admin. authenticate x (env_fetch env) (env_now env) auth q = Ok admin))"

lemma trim_same_op: "same_op a (publish_store_trim st a)"
  by (rule any_publish.same_trim)

lemma deployed_keeps:
  fixes docs :: "'n \<Rightarrow> documents"
  assumes "publish_store_inv fs docs (sv_publish s)" and "deployed_request pages fs env q s = (r, log, s')"
    and "request_storable (fe_crates fs) env q" and at: "publish_store_view fs docs (sv_publish s) i = Some e"
  shows "\<exists>e'. publish_store_view fs docs (sv_publish s') i = Some e' \<and> sp_peer e' = sp_peer e \<and> (sp_deleted e \<longrightarrow> e' = e) \<and>
    (sp_hidden e \<and> \<not> restores (fe_crates fs) (sv_admin s) i (env, q) \<longrightarrow> sp_hidden e')"
proof -
  let ?V = "publish_store_view fs docs"
  from deployed_step [OF assms(1-3)] have "?V (sv_publish s') = ?V (sv_publish s) \<or>
      (\<exists>a. publish_cause (fe_crates fs) env q s a \<and>
         ?V (sv_publish s') = spec_step (publish_store_trim (sv_publish s) a) (?V (sv_publish s)))" by blast
  then show ?thesis
  proof (elim disjE exE conjE)
    assume "?V (sv_publish s') = ?V (sv_publish s)"
    with at show ?thesis by auto
  next
    fix a
    assume cause: "publish_cause (fe_crates fs) env q s a"
      and v: "?V (sv_publish s') = spec_step (publish_store_trim (sv_publish s) a) (?V (sv_publish s))"
    let ?a = "publish_store_trim (sv_publish s) a"
    have "\<forall>ob p. ?a = Upload ob p \<longrightarrow> prp_peer_id (obj_payload ob) = p"
      using trim_same_op [of a "sv_publish s"] cause by (cases a) (auto dest: verify_publish_record_peer)
    moreover have "\<forall>now r ad. ?a \<noteq> Restore now i r ad" if "\<not> restores (fe_crates fs) (sv_admin s) i (env, q)"
      using trim_same_op [of a "sv_publish s"] cause that by (cases a) (auto simp: restores_def)
    ultimately show ?thesis
      using spec_step_Some [of "?V (sv_publish s)" i e ?a] at unfolding v by blast
  qed
qed

text \<open>
  C11. The promises of the relay to the peers, over whole requests and over whatever stores. Whatever requests
  come to a deployment, in files or in Firestore, and however the disks and the service answer, a record keeps its
  owner; one that its author deleted stays exactly as it is; and one that a moderator hid stays hidden as long as
  no authenticated administrator restores it.
\<close>

theorem deployed_promises:
  fixes docs :: "'n \<Rightarrow> documents"
  assumes "publish_store_inv fs docs (sv_publish s)" and "\<forall>(env, q) \<in> set qs. request_storable (fe_crates fs) env q"
    and "publish_store_view fs docs (sv_publish s) i = Some e"
  shows "\<exists>e'. publish_store_view fs docs (sv_publish (deployed_run pages fs qs s)) i = Some e' \<and>
    sp_peer e' = sp_peer e \<and> (sp_deleted e \<longrightarrow> e' = e) \<and>
    (sp_hidden e \<and> (\<forall>q \<in> set qs. \<not> restores (fe_crates fs) (sv_admin s) i q) \<longrightarrow> sp_hidden e')"
  using assms
proof (induction pages fs qs s arbitrary: e rule: deployed_run.induct)
  case (2 pages fs env q qs s)
  obtain r log and s1 :: "'n deployment" where d: "deployed_request pages fs env q s = (r, log, s1)"
    using prod_cases3 by blast
  have storable: "request_storable (fe_crates fs) env q" using "2.prems"(2) by simp
  note step = deployed_step [OF "2.prems"(1) d storable]
  from deployed_keeps [OF "2.prems"(1) d storable "2.prems"(3)] obtain e1
    where e1: "publish_store_view fs docs (sv_publish s1) i = Some e1" "sp_peer e1 = sp_peer e" "sp_deleted e \<longrightarrow> e1 = e"
      "sp_hidden e \<and> \<not> restores (fe_crates fs) (sv_admin s) i (env, q) \<longrightarrow> sp_hidden e1" by blast
  from "2.IH" [unfolded d, simplified, OF conjunct1 [OF step] _ e1(1)] "2.prems"(2) step obtain e2
    where "publish_store_view fs docs (sv_publish (deployed_run pages fs qs s1)) i = Some e2"
      "sp_peer e2 = sp_peer e1" "sp_deleted e1 \<longrightarrow> e2 = e1"
      "sp_hidden e1 \<and> (\<forall>q \<in> set qs. \<not> restores (fe_crates fs) (sv_admin s) i q) \<longrightarrow> sp_hidden e2" by auto
  then show ?case using e1 by (intro exI [of _ e2]) (auto simp: d)
qed simp

text \<open>A record in Firestore that its author deleted, and a request that brings the same record again.\<close>

definition sample_deployment :: "documents \<Rightarrow> documents deployment" where
  "sample_deployment D = \<lparr>sv_public_base_url = ''http://relay'', sv_rate_config = default_rate_config, sv_rate_buckets = [],
     sv_connections = connection_limiter_new 4, sv_publish = FirestorePublish (firestore_new sample_config D),
     sv_messages = FileMessages (empty_disk ''m''), sv_backups = FirestoreBackups (firestore_new sample_config D),
     sv_activities = FirestoreActivities (firestore_new sample_config D), sv_seen = [], sv_admin = AdminDisabled\<rparr>"

theorem deployed_promises_witness:
  "\<exists>D. publish_store_view (toy_service sample_config) toy_document (sv_publish
      (deployed_run sample_pages (toy_service sample_config) [(sample_env, json_post ''/v1/publish''
          (json_text toy (enc_signed toy (enc_publish toy) (sample_signed ''pub_1'' ''peer_a'' 0))))] (sample_deployment D))) ''pub_1''
     = Some (author_delete (seconds 5) (stored_visible (sample_signed ''pub_1'' ''peer_a'' 0)))"
proof -
  let ?fs = "toy_service sample_config" and ?ob = "sample_signed ''pub_1'' ''peer_a'' 0"
  let ?q = "json_post ''/v1/publish'' (json_text toy (enc_signed toy (enc_publish toy) ?ob))"
  let ?e = "author_delete (seconds 5) (stored_visible ?ob)"
  obtain D where D: "fs_publish_inv ?fs toy_document (firestore_new sample_config D)"
    "fs_publish_view ?fs toy_document (firestore_new sample_config D) = [''pub_1'' \<mapsto> ?e]"
    by (rule toy_deleted_document)
  have x: "fe_crates ?fs = toy" by (simp add: toy_service_def)
  have inv: "publish_store_inv ?fs toy_document (sv_publish (sample_deployment D))"
    and at: "publish_store_view ?fs toy_document (sv_publish (sample_deployment D)) ''pub_1'' = Some ?e"
    using D by (simp_all add: sample_deployment_def publish_store_inv_def publish_store_view_def)
  have "request_storable toy sample_env ?q"
    using publish_codec.from_json_signed [OF toy_laws(7,8) sample_signed_storable] sample_signed_storable four_digit_sample_now
    by (simp add: request_storable_def)
  then have "\<forall>(env, q) \<in> set [(sample_env, ?q)]. request_storable (fe_crates ?fs) env q" by (simp add: x)
  from deployed_promises [OF inv this at, of sample_pages] show ?thesis
    by (intro exI [of _ D]) (auto simp: author_delete_def)
qed

end
