(* ===== verification/Logging.thy ===== *)
theory Logging
  imports Server_Props
begin

text \<open>
  The log lines of the server (\<^verbatim>\<open>request_completion_log_value\<close>, \<^verbatim>\<open>log_admin_publish_audit\<close> and
  \<^verbatim>\<open>log_event\<close> of \<^verbatim>\<open>crates/aichan-server/src/lib.rs\<close>) as the JSON values they print, and what they may tell
  about a request: its route by template, not by path, and nothing of its body or of its authorization.
\<close>

section \<open>Routes, severities, thresholds\<close>

definition route_template :: "string \<Rightarrow> string \<Rightarrow> string" where
  "route_template verb p =
     (if verb = ''GET'' \<and> p = ''/health'' then ''/health''
      else if verb = ''GET'' \<and> p = ''/.well-known/aichan'' then ''/.well-known/aichan''
      else if verb = ''GET'' \<and> p = ''/agent'' then ''/agent''
      else if verb = ''GET'' \<and> p = ''/agent.json'' then ''/agent.json''
      else if verb = ''GET'' \<and> p = ''/install.sh'' then ''/install.sh''
      else if verb = ''GET'' \<and> p = ''/favicon.ico'' then ''/favicon.ico''
      else if verb = ''GET'' \<and> p = ''/'' then ''/''
      else if verb = ''GET'' \<and> p = ''/v1/stats'' then ''/v1/stats''
      else if verb = ''POST'' \<and> p = ''/v1/publish'' then ''/v1/publish''
      else if verb = ''GET'' \<and> p = ''/v1/publish/search'' then ''/v1/publish/search''
      else if verb = ''GET'' \<and> p = ''/v1/discover'' then ''/v1/discover''
      else if verb = ''POST'' \<and> p = ''/v1/messages'' then ''/v1/messages''
      else if verb = ''GET'' \<and> p = ''/v1/inbox'' then ''/v1/inbox''
      else if verb = ''POST'' \<and> p = ''/v1/activity'' then ''/v1/activity''
      else if verb = ''GET'' \<and> p = ''/v1/activity'' then ''/v1/activity''
      else if verb = ''PUT'' \<and> backup_lookup_path p \<noteq> None then ''/v1/backups/{backup_lookup_id}''
      else if verb = ''GET'' \<and> backup_lookup_path p \<noteq> None then ''/v1/backups/{backup_lookup_id}''
      else if verb = ''HEAD'' \<and> backup_lookup_path p \<noteq> None then ''/v1/backups/{backup_lookup_id}''
      else if verb = ''GET'' \<and> backup_generations_path p \<noteq> None
        then ''/v1/backups/{backup_lookup_id}/generations''
      else if verb = ''DELETE'' \<and> starts_with p ''/v1/publish/'' then ''/v1/publish/{publish_id}''
      else if verb = ''POST'' \<and> admin_publish_path p ''/hide'' \<noteq> None then ''/admin/publish/{publish_id}/hide''
      else if verb = ''POST'' \<and> admin_publish_path p ''/restore'' \<noteq> None then ''/admin/publish/{publish_id}/restore''
      else ''/unknown'')"

definition component_for_route :: "string \<Rightarrow> string" where
  "component_for_route route =
     (if route = ''/health'' then ''health_handler''
      else if route \<in> {''/.well-known/aichan'', ''/agent'', ''/agent.json'', ''/install.sh''} then ''bootstrap_handler''
      else if route = ''/'' then ''directory_handler''
      else if route = ''/v1/stats'' then ''stats_handler''
      else if route \<in> {''/v1/publish'', ''/v1/publish/{publish_id}'', ''/v1/publish/search'', ''/v1/discover''}
        then ''publish_handler''
      else if route \<in> {''/admin/publish/{publish_id}/hide'', ''/admin/publish/{publish_id}/restore''}
        then ''admin_publish_handler''
      else if route = ''/v1/messages'' then ''message_handler''
      else if route = ''/v1/inbox'' then ''inbox_handler''
      else if route = ''/v1/activity'' then ''activity_handler''
      else if route \<in> {''/v1/backups/{backup_lookup_id}'', ''/v1/backups/{backup_lookup_id}/generations''}
        then ''backup_handler''
      else ''request_router'')"

definition severity_for_status :: "nat \<Rightarrow> string" where
  "severity_for_status status =
     (if 500 \<le> status \<and> status \<le> 599 then ''ERROR''
      else if 400 \<le> status \<and> status \<le> 499 then ''WARNING'' else ''INFO'')"

definition severity_for_request :: "nat \<Rightarrow> bool \<Rightarrow> string" where
  "severity_for_request status is_slow =
     (if severity_for_status status = ''INFO'' \<and> is_slow then ''WARNING'' else severity_for_status status)"

definition slow_request_threshold_ms :: "string \<Rightarrow> nat option" where
  "slow_request_threshold_ms route =
     map_of [(''/health'', 100), (''/agent.json'', 250), (''/v1/publish'', 800), (''/v1/publish/search'', 1000),
       (''/v1/messages'', 1000), (''/v1/inbox'', 1500), (''/v1/activity'', 1500),
       (''/v1/backups/{backup_lookup_id}'', 3000), (''/v1/backups/{backup_lookup_id}/generations'', 2000)] route"

section \<open>Errors\<close>

definition error_category :: "string \<Rightarrow> string" where
  "error_category code =
     (if code \<in> {''invalid_request_signature'', ''invalid_admin_auth'', ''missing_admin_auth'', ''invalid_backup_auth'',
         ''invalid_activity_auth''} then ''auth''
      else if code \<in> {''invalid_publish_signature'', ''invalid_message_signature''} then ''crypto''
      else if code = ''rate_limited'' then ''rate_limit''
      else if code \<in> {''storage_unavailable'', ''firestore_unavailable''} then ''storage''
      else if code \<in> {''payload_too_large'', ''invalid_publish'', ''invalid_message'', ''invalid_query'', ''invalid_request'',
         ''invalid_admin_request'', ''invalid_backup_lookup_id'', ''invalid_backup_package'', ''invalid_activity_bucket'',
         ''invalid_activity_event'', ''not_found'', ''author_deleted''} then ''validation''
      else if code = ''server_busy'' then ''dependency''
      else ''internal'')"

definition safe_error_message :: "string \<Rightarrow> string" where
  "safe_error_message code =
     (if code = ''invalid_request_signature'' then ''Request signature could not be verified.''
      else if code \<in> {''invalid_admin_auth'', ''missing_admin_auth''} then ''Admin authentication failed.''
      else if code = ''invalid_backup_auth'' then ''Hosted backup authentication failed.''
      else if code = ''invalid_activity_auth'' then ''Activity sync authentication failed.''
      else if code = ''invalid_publish_signature'' then ''Publish signature could not be verified.''
      else if code = ''invalid_message_signature'' then ''Message signature could not be verified.''
      else if code = ''rate_limited'' then ''Rate limit exceeded.''
      else if code \<in> {''storage_unavailable'', ''firestore_unavailable''} then ''Storage backend is unavailable.''
      else if code = ''payload_too_large'' then ''Request body exceeded the configured maximum size.''
      else if code = ''invalid_publish'' then ''Publish record was invalid.''
      else if code = ''invalid_message'' then ''Message envelope was invalid.''
      else if code \<in> {''invalid_query'', ''invalid_request'', ''invalid_admin_request'', ''invalid_backup_lookup_id'',
         ''invalid_backup_package'', ''invalid_activity_bucket'', ''invalid_activity_event''} then ''Request was invalid.''
      else if code = ''not_found'' then ''Requested resource was not found.''
      else if code = ''author_deleted'' then ''Resource was author-deleted.''
      else if code = ''server_busy'' then ''Server is at the configured connection limit.''
      else ''Request failed.'')"

definition response_error_log_fields :: "crates \<Rightarrow> http_response \<Rightarrow> json option" where
  "response_error_log_fields x r =
     Option.bind (result_ok (json_read x (rs_body r))) (\<lambda>w.
     Option.bind (jget (value_of w) ''error'') (\<lambda>e.
     Option.bind (Option.bind (jget e ''code'') as_str) (\<lambda>code.
       let retryable = (case Option.bind (jget e ''retryable'') as_bool of Some b \<Rightarrow> b | None \<Rightarrow> False)
       in Some (obj [(''code'', JStr code), (''category'', JStr (error_category code)),
            (''retryable'', JBool retryable), (''safe_message'', JStr (safe_error_message code))]))))"

section \<open>Lines\<close>

text \<open>\<open>vars\<close> are the variables of the environment, \<open>now\<close> the time at which the line is written.\<close>

definition cloud_trace_id :: "http_request \<Rightarrow> string option" where
  "cloud_trace_id r =
     (case header r ''X-Cloud-Trace-Context'' of
        None \<Rightarrow> None
      | Some v \<Rightarrow> (let t = trim (case split_once (CHR ''/'') v of Some (a, b) \<Rightarrow> a | None \<Rightarrow> v)
                   in if t = [] then None else Some t))"

definition request_id :: "http_request \<Rightarrow> string" where
  "request_id r =
     (case header r ''X-Request-Id'' of
        Some v \<Rightarrow> if trim v \<noteq> [] then v
          else (case cloud_trace_id r of Some t \<Rightarrow> ''trace_'' @ t | None \<Rightarrow> ''req_unavailable'')
      | None \<Rightarrow> (case cloud_trace_id r of Some t \<Rightarrow> ''trace_'' @ t | None \<Rightarrow> ''req_unavailable''))"

definition latency_millis_u64 :: "nat \<Rightarrow> nat" where
  "latency_millis_u64 ms = min ms (2 ^ 64 - 1)"

definition log_environment_from :: "string option \<Rightarrow> string option \<Rightarrow> string" where
  "log_environment_from aichan_env cloud_run_service =
     (case aichan_env of Some e \<Rightarrow> e | None \<Rightarrow> (case cloud_run_service of Some s \<Rightarrow> ''prod'' | None \<Rightarrow> ''local''))"

definition log_environment :: "(string \<Rightarrow> string option) \<Rightarrow> string" where
  "log_environment vars = log_environment_from (env_non_empty vars ''AICHAN_ENV'') (env_non_empty vars ''K_SERVICE'')"

definition release_label :: "(string \<Rightarrow> string option) \<Rightarrow> string" where
  "release_label vars =
     (case env_non_empty vars ''AICHAN_RELEASE'' of
        Some r \<Rightarrow> r
      | None \<Rightarrow> (case env_non_empty vars ''K_REVISION'' of
          Some r \<Rightarrow> r
        | None \<Rightarrow> (case env_non_empty vars ''GITHUB_SHA'' of Some sha \<Rightarrow> take_chars 12 sha | None \<Rightarrow> ''unknown'')))"

definition dots_to_blanks :: "string \<Rightarrow> string" where
  "dots_to_blanks name = map (\<lambda>c. if c = CHR ''.'' then CHR '' '' else c) name"

definition request_completion_log_value ::
  "crates \<Rightarrow> (string \<Rightarrow> string option) \<Rightarrow> datetime \<Rightarrow> http_request \<Rightarrow> http_response \<Rightarrow> nat \<Rightarrow> json" where
  "request_completion_log_value x vars now request r latency_ms =
     (let status = rs_status r;
          failed = 400 \<le> status;
          route = route_template (rq_method request) (path request);
          slow_threshold_ms = slow_request_threshold_ms route;
          is_slow = (case slow_threshold_ms of Some threshold \<Rightarrow> threshold < latency_ms | None \<Rightarrow> False)
      in obj ([
        (''schema_version'', jnat 1), (''severity'', JStr (severity_for_request status is_slow)),
        (''message'', JStr (if failed then ''request failed'' else ''request completed'')),
        (''event'', obj [(''name'', JStr (if failed then ''request.failed'' else ''request.completed'')),
                       (''kind'', JStr (if failed then ''error'' else ''performance''))]),
        (''service'', JStr ''aichan-server''), (''component'', JStr (component_for_route route)),
        (''environment'', JStr (log_environment vars)), (''release'', JStr (release_label vars)),
        (''request_id'', JStr (request_id request)), (''route'', JStr route), (''method'', JStr (rq_method request)),
        (''status'', jnat status), (''latency_ms'', jnat (latency_millis_u64 latency_ms)),
        (''outcome'', JStr (if failed then ''failure'' else ''success'')), (''timestamp'', JStr (rfc3339_millis x now))] @
        (if is_slow then [(''performance'', obj [(''slow'', JBool True), (''threshold_ms'', jnat (the slow_threshold_ms))])]
         else []) @
        (case cloud_trace_id request of Some t \<Rightarrow> [(''logging.googleapis.com/trace'', JStr t)] | None \<Rightarrow> []) @
        (case response_error_log_fields x r of Some e \<Rightarrow> [(''error'', e)] | None \<Rightarrow> [])))"

definition admin_audit_value :: "crates \<Rightarrow> datetime \<Rightarrow> admin_publish_audit \<Rightarrow> json" where
  "admin_audit_value x now audit = obj [
     (''schema_version'', jnat 1), (''severity'', JStr (if 400 \<le> apa_status audit then ''WARNING'' else ''NOTICE'')),
     (''message'', JStr (dots_to_blanks (apa_event_name audit))),
     (''event'', obj [(''name'', JStr (apa_event_name audit)), (''kind'', JStr ''audit'')]),
     (''service'', JStr ''aichan-server''), (''component'', JStr ''admin_publish_handler''),
     (''route'', JStr (action_route_template (apa_action audit))), (''method'', JStr ''POST''),
     (''status'', jnat (apa_status audit)), (''outcome'', JStr (apa_outcome audit)),
     (''admin'', jopt (\<lambda>a. obj [(''principal'', JStr (adm_principal a)), (''principal_hash'', JStr (adm_principal_hash a)),
                            (''auth_provider'', JStr (adm_auth_provider a))]) (apa_admin audit)),
     (''moderation'', obj [(''publish_id'', JStr (apa_publish_id audit)), (''action'', JStr (action_str (apa_action audit))),
        (''reason'', jopt JStr (apa_reason audit)), (''signed_object_hash'', jopt JStr (apa_signed_object_hash audit))]),
     (''timestamp'', JStr (rfc3339_millis x now))]"

definition component_for_event :: "string \<Rightarrow> string" where
  "component_for_event name =
     (if starts_with name ''firestore.'' then ''firestore_client''
      else if starts_with name ''rate_limit.'' then ''rate_limiter'' else ''server'')"

definition log_event_value :: "crates \<Rightarrow> (string \<Rightarrow> string option) \<Rightarrow> datetime \<Rightarrow> string \<Rightarrow> json \<Rightarrow> json" where
  "log_event_value x vars now name field_values = obj [
     (''schema_version'', jnat 1), (''severity'', JStr ''INFO''), (''message'', JStr (dots_to_blanks name)),
     (''event'', obj [(''name'', JStr name), (''kind'', JStr ''server'')]), (''service'', JStr ''aichan-server''),
     (''component'', JStr (component_for_event name)), (''environment'', JStr (log_environment vars)),
     (''release'', JStr (release_label vars)), (''fields'', field_values), (''timestamp'', JStr (rfc3339_millis x now))]"

text \<open>The lines that a request leaves, as printed.\<close>

definition log_line_value ::
  "crates \<Rightarrow> (string \<Rightarrow> string option) \<Rightarrow> datetime \<Rightarrow> nat \<Rightarrow> log_line \<Rightarrow> json" where
  "log_line_value x vars now latency_ms line =
     (case line of
        EventLine name field_values \<Rightarrow> log_event_value x vars now name field_values
      | AuditLine audit \<Rightarrow> admin_audit_value x now audit
      | CompletionLine request r \<Rightarrow> request_completion_log_value x vars now request r latency_ms)"

section \<open>The template of a route\<close>

fun template_of :: "route \<Rightarrow> string" where
  "template_of HealthRoute = ''/health''"
| "template_of WellKnownRoute = ''/.well-known/aichan''"
| "template_of AgentRoute = ''/agent''"
| "template_of AgentJsonRoute = ''/agent.json''"
| "template_of InstallRoute = ''/install.sh''"
| "template_of FaviconRoute = ''/favicon.ico''"
| "template_of DirectoryRoute = ''/''"
| "template_of StatsRoute = ''/v1/stats''"
| "template_of PublishRoute = ''/v1/publish''"
| "template_of SearchRoute = ''/v1/publish/search''"
| "template_of DiscoverRoute = ''/v1/discover''"
| "template_of (ModerateRoute i a) = action_route_template a"
| "template_of (DeleteRoute i) = ''/v1/publish/{publish_id}''"
| "template_of PostMessageRoute = ''/v1/messages''"
| "template_of InboxRoute = ''/v1/inbox''"
| "template_of PostActivityRoute = ''/v1/activity''"
| "template_of GetActivityRoute = ''/v1/activity''"
| "template_of (PutBackupRoute i) = ''/v1/backups/{backup_lookup_id}''"
| "template_of (GenerationsRoute i) = ''/v1/backups/{backup_lookup_id}/generations''"
| "template_of (GetBackupRoute i h) = ''/v1/backups/{backup_lookup_id}''"
| "template_of NoRoute = ''/unknown''"

lemma lookup_not_generations: "backup_lookup_path p = Some i \<Longrightarrow> backup_generations_path p = None"
proof -
  assume "backup_lookup_path p = Some i"
  then have p: "strip_prefix p ''/v1/backups/'' = Some i" and i: "CHR ''/'' \<notin> set i"
    by (auto simp: backup_lookup_path_def split: option.splits if_splits)
  have "strip_suffix i ''/generations'' = None"
  proof (rule ccontr)
    assume "strip_suffix i ''/generations'' \<noteq> None"
    then have "CHR ''/'' \<in> set i" by (auto simp: strip_suffix_Some)
    with i show False by simp
  qed
  with p show ?thesis by (simp add: backup_generations_path_def)
qed

lemma admin_path_literal:
  "admin_publish_path p s = Some i \<Longrightarrow> p \<noteq> ''/v1/publish'' \<and> p \<noteq> ''/v1/messages'' \<and> p \<noteq> ''/v1/activity''"
  by (auto simp: admin_publish_path_def strip_prefix_def)

lemma template_GET: "route_template ''GET'' p = template_of (route_of ''GET'' p)"
  using lookup_not_generations [of p]
  by (cases "backup_lookup_path p"; cases "backup_generations_path p") (simp_all add: route_template_def route_of_def)

lemma template_POST: "route_template ''POST'' p = template_of (route_of ''POST'' p)"
  using admin_path_literal [of p "''/hide''"] admin_path_literal [of p "''/restore''"]
  by (cases "admin_publish_path p ''/hide''"; cases "admin_publish_path p ''/restore''")
    (simp_all add: route_template_def route_of_def action_route_template_def)

lemma template_other:
  "verb \<noteq> ''GET'' \<Longrightarrow> verb \<noteq> ''POST'' \<Longrightarrow> route_template verb p = template_of (route_of verb p)"
  by (cases "backup_lookup_path p") (simp_all add: route_template_def route_of_def)

lemma template_of_route: "route_template verb p = template_of (route_of verb p)"
  using template_GET template_POST template_other by (cases "verb = ''GET''"; cases "verb = ''POST''") simp_all

text \<open>
  C22. The route that a log line names is the one that answered: the table of templates and the match that
  picks the handler agree on every method and path, and a line says unknown exactly if no handler did.
\<close>

theorem route_template_agrees:
  "route_template verb p = template_of (route_of verb p) \<and>
   (route_template verb p = ''/unknown'' \<longleftrightarrow> route_of verb p = NoRoute)"
proof -
  have "template_of r = ''/unknown'' \<longleftrightarrow> r = NoRoute" for r
    by (cases r) (simp_all add: action_route_template_def split: admin_publish_action.split)
  then show ?thesis by (simp add: template_of_route)
qed

section \<open>What the lines tell\<close>

text \<open>What a reader of the log may learn of a request and of its answer.\<close>

definition log_view :: "crates \<Rightarrow> http_request \<Rightarrow> http_response \<Rightarrow>
    string \<times> string \<times> string option \<times> string option \<times> nat \<times> json option" where
  "log_view x request r =
     (rq_method request, route_template (rq_method request) (path request), header request ''X-Request-Id'',
      header request ''X-Cloud-Trace-Context'', rs_status r, response_error_log_fields x r)"

lemma log_view_route:
  "log_view x q1 r1 = log_view x q2 r2 \<Longrightarrow>
   route_template (rq_method q1) (path q1) = route_template (rq_method q2) (path q2)"
  unfolding log_view_def prod.inject by (elim conjE)

lemma completion_line:
  assumes "log_view x q1 r1 = log_view x q2 r2"
  shows "request_completion_log_value x vars now q1 r1 ms = request_completion_log_value x vars now q2 r2 ms"
proof -
  have e: "rq_method q1 = rq_method q2" "header q1 ''X-Request-Id'' = header q2 ''X-Request-Id''"
    "header q1 ''X-Cloud-Trace-Context'' = header q2 ''X-Cloud-Trace-Context''" "rs_status r1 = rs_status r2"
    "response_error_log_fields x r1 = response_error_log_fields x r2"
    using assms by (simp_all add: log_view_def)
  note t = log_view_route [OF assms, unfolded e(1)]
  show ?thesis unfolding request_completion_log_value_def request_id_def cloud_trace_id_def e t ..
qed

lemma dispatch_quiet:
  assumes "dispatch_on x pages ops env request s = (r, log, s')"
    and "\<forall>i a. route_of (rq_method request) (path request) \<noteq> ModerateRoute i a"
  shows "log = []"
  using assms by (cases "route_of (rq_method request) (path request)")
    (simp_all add: dispatch_on_def Let_def split: prod.splits)

lemma request_log:
  assumes "handle_request_on x pages ops env request s = (r, log, s')" "rs_status r \<noteq> 429"
    and "\<forall>i a. route_of (rq_method request) (path request) \<noteq> ModerateRoute i a"
  shows "log = [CompletionLine request r]"
proof (cases "length (rq_body request) > max_body_bytes (sv_rate_config s)")
  case True
  then show ?thesis using assms(1) by (auto simp: handle_request_on_def Let_def)
next
  case False
  obtain limited b where l: "check_rate_limit (sv_rate_config s) (env_instant env) request (sv_rate_buckets s) = (limited, b)"
    by fastforce
  have "limited = None"
    using assms(1,2) False l by (cases limited) (auto simp: handle_request_on_def Let_def)
  moreover obtain r1 log1 s1 where d: "dispatch_on x pages ops env request (s\<lparr>sv_rate_buckets := b\<rparr>) = (r1, log1, s1)"
    using prod_cases3 by blast
  ultimately show ?thesis
    using assms(1) False l dispatch_quiet [OF d assms(3)] by (auto simp: handle_request_on_def)
qed


definition sample_backup_get :: "string \<Rightarrow> http_request" where
  "sample_backup_get i = http_request_new ''GET'' (''/v1/backups/'' @ i)"

lemma sample_backup_refused:
  assumes "server_with_stores sample_dir ''http://relay'' (limits_for (sample_backup_get ''a'')) 4 AdminDisabled = Ok s"
    and "i = ''a'' \<or> i = ''b''"
  shows "\<exists>log t. handle_request x sample_pages sample_env (sample_backup_get i) s =
     (error_response x 401 ''invalid_backup_auth'' ''missing Aichan-Backup-Auth header'' False, log, t)"
proof -
  have e: "limits_for (sample_backup_get ''a'') = limits_for (sample_backup_get i)"
    by (simp add: limits_for_def sample_backup_get_def http_request_new_def)
  obtain b r log t where d: "dispatch x sample_pages sample_env (sample_backup_get i) (s\<lparr>sv_rate_buckets := b\<rparr>) = (r, log, t)"
    and h: "handle_request x sample_pages sample_env (sample_backup_get i) s = (r, log @ [CompletionLine (sample_backup_get i) r], t)"
    by (rule let_through_dispatch [OF sample_let_through [OF assms(1) [unfolded e]], of x sample_pages sample_env])
  have "route_of (rq_method (sample_backup_get i)) (path (sample_backup_get i)) = GetBackupRoute i False"
    using assms(2) by (elim disjE; hypsubst; code_simp)
  moreover have "validate_backup_lookup_id i = Ok () \<and>
      backup_auth_token (sample_backup_get i) = Err ''missing Aichan-Backup-Auth header''"
    using assms(2) by (elim disjE; hypsubst; code_simp)
  ultimately have "r = error_response x 401 ''invalid_backup_auth'' ''missing Aichan-Backup-Auth header'' False"
    using d by (auto simp: dispatch_file get_hosted_backup_def get_hosted_backup_on_def backup_checked_def)
  with h show ?thesis by blast
qed


text \<open>
  Not so a request that is rate limited: its line has the path as it was sent, with the id of a record
  or of a bucket in it.
\<close>

lemma rate_limit_logs_path:
  assumes "check_rate_limit (sv_rate_config s) (env_instant env) request (sv_rate_buckets s) = (Some limited, b)"
    and "length (rq_body request) \<le> max_body_bytes (sv_rate_config s)"
    and "handle_request x pages env request s = (r, log, s')"
  shows "\<exists>fs. EventLine ''rate_limit.exceeded'' fs \<in> set log \<and> jget fs ''path'' = Some (JStr (path request))"
  using assms by (auto simp: handle_request_file Let_def jget_obj)

text \<open>
  Codes that handlers answer with and that the tables do not know: the line calls the mistake of a
  client internal.
\<close>

lemma unknown_codes:
  "\<forall>code \<in> {''invalid_encoding'', ''invalid_signature'', ''invalid_cursor'', ''invalid_message_envelope'', ''invalid_peer_id'',
      ''conflict'', ''publish_deleted'', ''stale_request_signature'', ''replayed_request_nonce''}.
     error_category code = ''internal'' \<and> safe_error_message code = ''Request failed.''"
  by (simp add: error_category_def safe_error_message_def)

end
