(* ===== verification/Store_Files.thy ===== *)
theory Store_Files
  imports Firestore_Laws Backup_Api
begin

text \<open>
  The JSON text of the server's store files (the serde derives of \<^verbatim>\<open>StoredPublishRecord\<close>,
  \<^verbatim>\<open>StoredMessageEnvelope\<close>, \<^verbatim>\<open>StoredHostedBackupBucket\<close> and \<^verbatim>\<open>StoredActivityBucket\<close>): what \<^verbatim>\<open>save\<close> prints,
  \<^verbatim>\<open>load\<close> reads back, which is what \<open>Content\<close> stands for in the theory \<open>Files\<close>, as long as no value in it
  is nested too deeply. A hosted backup may be: then the file of all backups is lost.
\<close>

section \<open>The serde derives\<close>

definition enc_stored_publish :: "crates \<Rightarrow> stored_publish \<Rightarrow> json" where
  "enc_stored_publish x e = JObj (
     [(''object'', enc_signed x (enc_publish x) (sp_object e)), (''deleted'', JBool (sp_deleted e)),
      (''hidden'', JBool (sp_hidden e)), (''deleted_at'', jopt (enc_time x) (sp_deleted_at e)),
      (''hidden_at'', jopt (enc_time x) (sp_hidden_at e))] @
     skip_none ''hide_reason'' JStr (sp_hide_reason e) @
     skip_none ''hidden_by_principal'' JStr (sp_hidden_by_principal e) @
     skip_none ''hidden_by_hash'' JStr (sp_hidden_by_hash e) @
     [(''restored_at'', jopt (enc_time x) (sp_restored_at e))] @
     skip_none ''restore_reason'' JStr (sp_restore_reason e) @
     skip_none ''restored_by_principal'' JStr (sp_restored_by_principal e) @
     skip_none ''restored_by_hash'' JStr (sp_restored_by_hash e))"

definition dec_stored_publish :: "crates \<Rightarrow> json \<Rightarrow> stored_publish option" where
  "dec_stored_publish x v = do {
     f \<leftarrow> struct_fields 1 [''object'', ''deleted'', ''hidden'', ''deleted_at'', ''hidden_at'', ''hide_reason'',
            ''hidden_by_principal'', ''hidden_by_hash'', ''restored_at'', ''restore_reason'',
            ''restored_by_principal'', ''restored_by_hash''] v;
     object \<leftarrow> req f ''object'' (dec_signed x (dec_publish x));
     deleted \<leftarrow> default_field False f ''deleted'' dec_bool;
     hidden \<leftarrow> default_field False f ''hidden'' dec_bool;
     deleted_at \<leftarrow> opt_field f ''deleted_at'' (dec_time x);
     hidden_at \<leftarrow> opt_field f ''hidden_at'' (dec_time x);
     hide_reason \<leftarrow> opt_field f ''hide_reason'' dec_str;
     hidden_by_principal \<leftarrow> opt_field f ''hidden_by_principal'' dec_str;
     hidden_by_hash \<leftarrow> opt_field f ''hidden_by_hash'' dec_str;
     restored_at \<leftarrow> opt_field f ''restored_at'' (dec_time x);
     restore_reason \<leftarrow> opt_field f ''restore_reason'' dec_str;
     restored_by_principal \<leftarrow> opt_field f ''restored_by_principal'' dec_str;
     restored_by_hash \<leftarrow> opt_field f ''restored_by_hash'' dec_str;
     Some \<lparr>sp_object = object, sp_deleted = deleted, sp_hidden = hidden, sp_deleted_at = deleted_at,
           sp_hidden_at = hidden_at, sp_hide_reason = hide_reason, sp_hidden_by_principal = hidden_by_principal,
           sp_hidden_by_hash = hidden_by_hash, sp_restored_at = restored_at, sp_restore_reason = restore_reason,
           sp_restored_by_principal = restored_by_principal, sp_restored_by_hash = restored_by_hash\<rparr> }"

definition enc_stored_message :: "crates \<Rightarrow> stored_message \<Rightarrow> json" where
  "enc_stored_message x e = JObj [
     (''object'', enc_signed x (enc_message x) (sm_object e)), (''stored_at'', enc_time x (sm_stored_at e))]"

definition dec_stored_message :: "crates \<Rightarrow> json \<Rightarrow> stored_message option" where
  "dec_stored_message x v = do {
     f \<leftarrow> struct_fields 2 [''object'', ''stored_at''] v;
     object \<leftarrow> req f ''object'' (dec_signed x (dec_message x));
     stored_at \<leftarrow> req f ''stored_at'' (dec_time x);
     Some \<lparr>sm_object = object, sm_stored_at = stored_at\<rparr> }"

definition enc_hosted_bucket :: "crates \<Rightarrow> hosted_bucket \<Rightarrow> json" where
  "enc_hosted_bucket x b = JObj [
     (''lookup_id'', JStr (hb_lookup_id b)), (''auth_hash'', JStr (hb_auth_hash b)),
     (''generations'', JArr (map (enc_generation x) (hb_generations b))),
     (''created_at'', enc_time x (hb_created_at b)), (''updated_at'', enc_time x (hb_updated_at b))]"

definition dec_hosted_bucket :: "crates \<Rightarrow> json \<Rightarrow> hosted_bucket option" where
  "dec_hosted_bucket x v = do {
     f \<leftarrow> struct_fields 5 [''lookup_id'', ''auth_hash'', ''generations'', ''created_at'', ''updated_at''] v;
     lookup_id \<leftarrow> req f ''lookup_id'' dec_str;
     auth_hash \<leftarrow> req f ''auth_hash'' dec_str;
     generations \<leftarrow> req f ''generations'' (dec_list (dec_generation x));
     created_at \<leftarrow> req f ''created_at'' (dec_time x);
     updated_at \<leftarrow> req f ''updated_at'' (dec_time x);
     Some \<lparr>hb_lookup_id = lookup_id, hb_auth_hash = auth_hash, hb_generations = generations,
           hb_created_at = created_at, hb_updated_at = updated_at\<rparr> }"

definition enc_activity_bucket :: "crates \<Rightarrow> activity_bucket \<Rightarrow> json" where
  "enc_activity_bucket x b = JObj [
     (''bucket_id'', JStr (ab_bucket_id b)), (''auth_hash'', JStr (ab_auth_hash b)),
     (''events'', JArr (map (enc_stored_event x) (ab_events b))),
     (''created_at'', enc_time x (ab_created_at b)), (''updated_at'', enc_time x (ab_updated_at b))]"

definition dec_activity_bucket :: "crates \<Rightarrow> json \<Rightarrow> activity_bucket option" where
  "dec_activity_bucket x v = do {
     f \<leftarrow> struct_fields 5 [''bucket_id'', ''auth_hash'', ''events'', ''created_at'', ''updated_at''] v;
     bucket_id \<leftarrow> req f ''bucket_id'' dec_str;
     auth_hash \<leftarrow> req f ''auth_hash'' dec_str;
     events \<leftarrow> req f ''events'' (dec_list (dec_stored_event x));
     created_at \<leftarrow> req f ''created_at'' (dec_time x);
     updated_at \<leftarrow> req f ''updated_at'' (dec_time x);
     Some \<lparr>ab_bucket_id = bucket_id, ab_auth_hash = auth_hash, ab_events = events,
           ab_created_at = created_at, ab_updated_at = updated_at\<rparr> }"

section \<open>The files\<close>

text \<open>
  \<open>pretty\<close> is \<^verbatim>\<open>serde_json::to_vec_pretty\<close>. A reader takes a text as the records it holds, or as one that
  does not parse.
\<close>

definition store_text :: "(json \<Rightarrow> bytes) \<Rightarrow> ('a \<Rightarrow> json) \<Rightarrow> 'a list \<Rightarrow> bytes" where
  "store_text pretty enc records = pretty (JArr (map enc records))"

definition store_file :: "crates \<Rightarrow> (json \<Rightarrow> 'a option) \<Rightarrow> bytes \<Rightarrow> 'a list json_file" where
  "store_file x dec bs = (case from_json x (dec_list dec) bs of Inl e \<Rightarrow> Garbled e | Inr records \<Rightarrow> Content records)"

text \<open>What is printed can be read if it has at most 127 levels; serde_json refuses to read more.\<close>

definition pretty_law :: "crates \<Rightarrow> (json \<Rightarrow> bytes) \<Rightarrow> bool" where
  "pretty_law x pretty \<longleftrightarrow> (\<forall>v. json_plain 127 v \<longrightarrow> json_read x (pretty v) = Ok v)"

fun json_levels :: "json \<Rightarrow> nat" where
  "json_levels (JArr vs) = Suc (foldr max (map json_levels vs) 0)"
| "json_levels (JObj m) = Suc (foldr max (map (\<lambda>(k, v). json_levels v) m) 0)"
| "json_levels _ = 0"

definition level_limit_law :: "crates \<Rightarrow> (json \<Rightarrow> bytes) \<Rightarrow> bool" where
  "level_limit_law x pretty \<longleftrightarrow> (\<forall>v. 127 < json_levels v \<longrightarrow> (\<exists>e. json_read x (pretty v) = Err e))"

section \<open>What is saved is loaded\<close>

lemma store_file_all:
  assumes "pretty_law x pretty" "\<And>a. a \<in> set as \<Longrightarrow> d (f a) = Some a \<and> json_plain 126 (f a)"
  shows "store_file x d (store_text pretty f as) = Content as"
proof -
  have "json_plain (Suc 126) (JArr (map f as))" unfolding json_plain.simps using assms(2) by (simp add: list_all_iff)
  then have "json_read x (pretty (JArr (map f as))) = Ok (JArr (map f as))"
    using assms(1) by (simp add: pretty_law_def)
  then show ?thesis
    using assms(2) by (simp add: store_file_def store_text_def from_json_def serde)
qed

lemma dec_opt_time:
  assumes "rfc3339_law x" "\<And>t. v = Some t \<Longrightarrow> four_digit_year t"
  shows "dec_opt (dec_time x) (jopt (enc_time x) v) = Some v"
proof (rule dec_opt_jopt)
  fix t assume "v = Some t"
  then have "dec_time x (enc_time x t) = Some t" using assms by (simp add: serde)
  moreover have "enc_time x t \<noteq> JNull" by (simp add: enc_time_def)
  ultimately show "dec_time x (enc_time x t) = Some t \<and> enc_time x t \<noteq> JNull" by simp
qed

lemma map_of_skip:
  "map_of (skip_none k f v @ m) j = (if j = k \<and> v \<noteq> None then map_option f v else map_of m j)"
  "map_of (skip_none k f v) j = (if j = k then map_option f v else None)"
  by (cases v; simp add: skip_none_def)+

lemma keys_skip:
  "j \<in> fst ` set (skip_none k f v @ m) \<longleftrightarrow> j = k \<and> v \<noteq> None \<or> j \<in> fst ` set m"
  "j \<in> fst ` set (skip_none k f v) \<longleftrightarrow> j = k \<and> v \<noteq> None"
  by (cases v; simp add: skip_none_def)+

lemma distinct_skip:
  "distinct (map fst (skip_none k f v @ m)) \<longleftrightarrow> (v \<noteq> None \<longrightarrow> k \<notin> fst ` set m) \<and> distinct (map fst m)"
  "distinct (map fst (skip_none k f v))"
  by (cases v; simp add: skip_none_def)+

lemma opt_str_field: "f (k :: string) = map_option JStr v \<Longrightarrow> opt_field f k dec_str = Some v"
  by (cases v) (simp_all add: opt_field_def dec_opt_def serde)

lemma publish_file_element:
  assumes "rfc3339_law x" "record_storable e"
  shows "dec_stored_publish x (enc_stored_publish x e) = Some e" "json_plain 126 (enc_stored_publish x e)"
proof -
  have ob: "publish_codec.object_storable (sp_object e)" and
    t: "\<And>t. sp_deleted_at e = Some t \<Longrightarrow> four_digit_year t" "\<And>t. sp_hidden_at e = Some t \<Longrightarrow> four_digit_year t"
      "\<And>t. sp_restored_at e = Some t \<Longrightarrow> four_digit_year t"
    using assms(2) by (auto simp: record_storable_def)
  note times = dec_opt_time [OF assms(1) t(1)] dec_opt_time [OF assms(1) t(2)] dec_opt_time [OF assms(1) t(3)]
  have o1: "dec_signed x (dec_publish x) (enc_signed x (enc_publish x) (sp_object e)) = Some (sp_object e)"
    by (rule publish_codec.dec_enc_signed [OF assms(1) ob])
  show "dec_stored_publish x (enc_stored_publish x e) = Some e"
  proof -
    let ?tail = "[(''restored_at'', jopt (enc_time x) (sp_restored_at e))] @
       skip_none ''restore_reason'' JStr (sp_restore_reason e) @
       skip_none ''restored_by_principal'' JStr (sp_restored_by_principal e) @
       skip_none ''restored_by_hash'' JStr (sp_restored_by_hash e)"
    let ?kvs = "[(''object'', enc_signed x (enc_publish x) (sp_object e)), (''deleted'', JBool (sp_deleted e)),
       (''hidden'', JBool (sp_hidden e)), (''deleted_at'', jopt (enc_time x) (sp_deleted_at e)),
       (''hidden_at'', jopt (enc_time x) (sp_hidden_at e))] @
       skip_none ''hide_reason'' JStr (sp_hide_reason e) @
       skip_none ''hidden_by_principal'' JStr (sp_hidden_by_principal e) @
       skip_none ''hidden_by_hash'' JStr (sp_hidden_by_hash e) @ ?tail"
    have "distinct (map fst ?kvs)"
      by (simp add: distinct_skip keys_skip del: map_append set_append image_Un)
    then have "struct_fields n names (JObj ?kvs) = Some (map_of ?kvs)" for n names by (rule struct_fields_JObj)
    moreover have "enc_stored_publish x e = JObj ?kvs" by (simp only: enc_stored_publish_def)
    moreover define f where "f = map_of ?kvs"
    ultimately have fields: "struct_fields n names (enc_stored_publish x e) = Some f" for n names by simp
    have strs: "f ''hide_reason'' = map_option JStr (sp_hide_reason e)"
        "f ''hidden_by_principal'' = map_option JStr (sp_hidden_by_principal e)"
        "f ''hidden_by_hash'' = map_option JStr (sp_hidden_by_hash e)"
        "f ''restore_reason'' = map_option JStr (sp_restore_reason e)"
        "f ''restored_by_principal'' = map_option JStr (sp_restored_by_principal e)"
        "f ''restored_by_hash'' = map_option JStr (sp_restored_by_hash e)"
      unfolding f_def by (simp_all add: map_of_skip del: map_of_append)
    have "f ''object'' = Some (enc_signed x (enc_publish x) (sp_object e))"
        "f ''deleted'' = Some (JBool (sp_deleted e))" "f ''hidden'' = Some (JBool (sp_hidden e))"
        "f ''deleted_at'' = Some (jopt (enc_time x) (sp_deleted_at e))"
        "f ''hidden_at'' = Some (jopt (enc_time x) (sp_hidden_at e))"
        "f ''restored_at'' = Some (jopt (enc_time x) (sp_restored_at e))"
      unfolding f_def by (simp_all add: map_of_skip del: map_of_append)
    then show ?thesis
      unfolding dec_stored_publish_def fields
      by (simp add: req_def opt_str_field [of f, OF strs(1)] opt_str_field [of f, OF strs(2)] opt_str_field [of f, OF strs(3)]
          opt_str_field [of f, OF strs(4)] opt_str_field [of f, OF strs(5)] opt_str_field [of f, OF strs(6)] default_field_def opt_field_def [where d = "dec_time x"] serde o1 times)
  qed
  have "json_plain (Suc 125) (enc_stored_publish x e)"
    unfolding enc_stored_publish_def
    using json_plain_mono [OF publish_codec.signed_shallow [OF ob], of 125 x]
    by (intro json_plain_JObj) (auto simp: skip_none_def intro!: json_plain_jopt split: option.splits)
  then show "json_plain 126 (enc_stored_publish x e)" by simp
qed

lemma message_file_element:
  assumes "rfc3339_law x" "message_stored e"
  shows "dec_stored_message x (enc_stored_message x e) = Some e" "json_plain 126 (enc_stored_message x e)"
proof -
  have ob: "message_codec.object_storable (sm_object e)" and t: "four_digit_year (sm_stored_at e)"
    using assms(2) by (simp_all add: message_stored_def)
  show "dec_stored_message x (enc_stored_message x e) = Some e"
    using assms(1) t message_codec.dec_enc_signed [OF assms(1) ob]
    by (simp add: dec_stored_message_def enc_stored_message_def struct_fields_JObj req_def serde)
  have "json_plain (Suc 125) (enc_stored_message x e)"
    unfolding enc_stored_message_def
    using json_plain_mono [OF message_codec.signed_shallow [OF ob], of 125 x] by (intro json_plain_JObj) auto
  then show "json_plain 126 (enc_stored_message x e)" by simp
qed

text \<open>Of a hosted backup the file takes at most 123 levels.\<close>

definition generation_shallow :: "hosted_generation \<Rightarrow> bool" where
  "generation_shallow g \<longleftrightarrow> generation_storable g \<and> json_plain 123 (hg_backup g)"

definition bucket_shallow :: "hosted_bucket \<Rightarrow> bool" where
  "bucket_shallow b \<longleftrightarrow> bucket_storable b \<and> (\<forall>g \<in> set (hb_generations b). generation_shallow g)"

lemma backup_file_element:
  assumes "rfc3339_law x" "bucket_shallow b"
  shows "dec_hosted_bucket x (enc_hosted_bucket x b) = Some b" "json_plain 126 (enc_hosted_bucket x b)"
proof -
  have t: "four_digit_year (hb_created_at b)" "four_digit_year (hb_updated_at b)"
    and g: "\<And>g. g \<in> set (hb_generations b) \<Longrightarrow> generation_shallow g"
    using assms(2) by (simp_all add: bucket_shallow_def bucket_storable_def)
  have "dec_list (dec_generation x) (JArr (map (enc_generation x) (hb_generations b))) = Some (hb_generations b)"
    using generation_reads_back(1) [OF assms(1)] g by (simp add: generation_shallow_def serde)
  then show "dec_hosted_bucket x (enc_hosted_bucket x b) = Some b"
    using assms(1) t by (simp add: dec_hosted_bucket_def enc_hosted_bucket_def struct_fields_JObj req_def serde)
  have "json_plain (Suc 123) (enc_generation x e)" if "e \<in> set (hb_generations b)" for e
    using g [OF that] unfolding enc_generation_def
    by (intro json_plain_JObj) (auto simp: generation_shallow_def generation_storable_def usize_max_def)
  then have "json_plain (Suc (Suc 123)) (JArr (map (enc_generation x) (hb_generations b)))"
    unfolding json_plain.simps by (simp add: list_all_iff)
  then have "json_plain (Suc (Suc (Suc 123))) (enc_hosted_bucket x b)"
    unfolding enc_hosted_bucket_def by (intro json_plain_JObj) auto
  then show "json_plain 126 (enc_hosted_bucket x b)" by simp
qed

lemma activity_file_element:
  assumes "rfc3339_law x" "activity_storable b"
  shows "dec_activity_bucket x (enc_activity_bucket x b) = Some b" "json_plain 126 (enc_activity_bucket x b)"
proof -
  have t: "four_digit_year (ab_created_at b)" "four_digit_year (ab_updated_at b)"
    and g: "\<And>e. e \<in> set (ab_events b) \<Longrightarrow> event_storable e"
    using assms(2) by (simp_all add: activity_storable_def)
  have "dec_list (dec_stored_event x) (JArr (map (enc_stored_event x) (ab_events b))) = Some (ab_events b)"
    using event_reads_back(1) [OF assms(1)] g by (simp add: serde)
  then show "dec_activity_bucket x (enc_activity_bucket x b) = Some b"
    using assms(1) t by (simp add: dec_activity_bucket_def enc_activity_bucket_def struct_fields_JObj req_def serde)
  have "json_plain 4 (enc_stored_event x e)" if "e \<in> set (ab_events b)" for e
  proof -
    have ok: "ae_version (sae_event e) \<le> u8_max" "sae_size_bytes e < 2 ^ 64"
      using g [OF that] by (simp_all add: event_storable_def usize_max_def)
    have "json_plain (Suc (Suc 0)) (enc_activity_event x (sae_event e))"
      using ok(1) by (simp add: enc_activity_event_def u8_max_def)
    then have "json_plain (Suc (Suc (Suc 0))) (enc_stored_event x e)"
      using ok(2) unfolding enc_stored_event_def json_plain.simps by simp
    then show ?thesis by (rule json_plain_mono) simp
  qed
  then have "json_plain (Suc 4) (JArr (map (enc_stored_event x) (ab_events b)))"
    unfolding json_plain.simps by (simp add: list_all_iff)
  then have "json_plain (Suc (Suc 4)) (enc_activity_bucket x b)"
    unfolding enc_activity_bucket_def by (intro json_plain_JObj) auto
  then show "json_plain 126 (enc_activity_bucket x b)" by (rule json_plain_mono) simp
qed

text \<open>
  C34. What a store saves is what it loads: the file that each of the four stores prints for its records
  is read back as the same records.
\<close>

theorem store_files_read_back:
  assumes "rfc3339_law x" "pretty_law x pretty" "list_all record_storable rs" "list_all message_stored ms"
    and "list_all bucket_shallow bs" "list_all activity_storable as"
  shows "store_file x (dec_stored_publish x) (store_text pretty (enc_stored_publish x) rs) = Content rs \<and>
    store_file x (dec_stored_message x) (store_text pretty (enc_stored_message x) ms) = Content ms \<and>
    store_file x (dec_hosted_bucket x) (store_text pretty (enc_hosted_bucket x) bs) = Content bs \<and>
    store_file x (dec_activity_bucket x) (store_text pretty (enc_activity_bucket x) as) = Content as"
  using assms publish_file_element message_file_element backup_file_element activity_file_element
  by (auto simp: list_all_iff intro!: store_file_all)


theorem store_files_read_back_witness:
  "store_file toy (dec_hosted_bucket toy) (store_text (json_text toy) (enc_hosted_bucket toy) [hosted_bucket_new ''l'' ''h'' 0])
     = Content [hosted_bucket_new ''l'' ''h'' 0]"
proof -
  have y: "four_digit_year 0" by (simp add: four_digit_year_def seconds_def)
  have "pretty_law toy (json_text toy)" using toy_laws(8) by (simp add: pretty_law_def json_law_def)
  moreover have "list_all bucket_shallow [hosted_bucket_new ''l'' ''h'' 0]"
    "list_all activity_storable [activity_bucket_new ''l'' ''h'' 0]"
    by (simp_all add: bucket_shallow_def bucket_storable_def activity_storable_def hosted_bucket_new_def
        activity_bucket_new_def y)
  ultimately show ?thesis
    using store_files_read_back [OF toy_laws(7), of "json_text toy" "[]" "[]"
        "[hosted_bucket_new ''l'' ''h'' 0]" "[activity_bucket_new ''l'' ''h'' 0]"] by simp
qed

section \<open>A backup that is too deep\<close>

lemma levels_inside:
  "v \<in> set vs \<Longrightarrow> json_levels v < json_levels (JArr vs)"
  "(k, v) \<in> set m \<Longrightarrow> json_levels v < json_levels (JObj m)"
proof -
  have max: "a \<in> set as \<Longrightarrow> a \<le> foldr max as 0" for a :: nat and as
    by (induction as) auto
  show "v \<in> set vs \<Longrightarrow> json_levels v < json_levels (JArr vs)"
    using max [of "json_levels v" "map json_levels vs"] by (simp add: less_Suc_eq_le)
  show "(k, v) \<in> set m \<Longrightarrow> json_levels v < json_levels (JObj m)"
    using max [of "json_levels v" "map (\<lambda>(k, v). json_levels v) m"] by (force simp: less_Suc_eq_le)
qed

lemma deep_generation_levels:
  assumes "b \<in> set bs" "g \<in> set (hb_generations b)"
  shows "json_levels (hg_backup g) + 4 \<le> json_levels (JArr (map (enc_hosted_bucket x) bs))"
proof -
  have "json_levels (hg_backup g) < json_levels (enc_generation x g)"
    unfolding enc_generation_def by (rule levels_inside(2) [of "''backup''"]) simp
  moreover have "json_levels (enc_generation x g) < json_levels (JArr (map (enc_generation x) (hb_generations b)))"
    using assms(2) by (intro levels_inside(1)) simp
  moreover have "json_levels (JArr (map (enc_generation x) (hb_generations b))) < json_levels (enc_hosted_bucket x b)"
    unfolding enc_hosted_bucket_def by (rule levels_inside(2) [of "''generations''"]) simp
  moreover have "json_levels (enc_hosted_bucket x b) < json_levels (JArr (map (enc_hosted_bucket x) bs))"
    using assms(1) by (intro levels_inside(1)) simp
  ultimately show ?thesis by simp
qed

lemma deep_store_unreadable:
  assumes "level_limit_law x pretty" "b \<in> set bs" "g \<in> set (hb_generations b)" "123 < json_levels (hg_backup g)"
  shows "\<exists>e. store_file x (dec_hosted_bucket x) (store_text pretty (enc_hosted_bucket x) bs) = Garbled e"
proof -
  have "127 < json_levels (JArr (map (enc_hosted_bucket x) bs))"
    using deep_generation_levels [OF assms(2,3), of x] assms(4) by simp
  then obtain e where "json_read x (pretty (JArr (map (enc_hosted_bucket x) bs))) = Err e"
    using assms(1) unfolding level_limit_law_def by blast
  then show ?thesis by (simp add: store_file_def store_text_def from_json_def)
qed

text \<open>
  C35. One backup package can take the hosted backups of everybody away. A request with any lookup id
  that is not in use and any token, whose package has more than 123 levels of JSON, is answered 201 as
  stored; the file that this leaves has more than the 127 levels that serde_json reads, so that every
  later request for a backup, of whatever bucket, fails to parse it.
\<close>

theorem deep_backup_breaks_store:
  assumes "level_limit_law x pretty" and "load d = Ok bs" "i \<notin> hb_lookup_id ` set bs"
    and "backup_checked x request i = Ok t" "parse_hosted_backup_package x (rq_body request) = Ok v"
    and "123 < json_levels v"
  shows "\<exists>r d' bs'. put_hosted_backup x io_ok now request i d = (r, d') \<and> rs_status r = 201 \<and> load d' = Ok bs' \<and>
    (\<forall>j u. backup_latest x j u
       (d'\<lparr>main_file := store_file x (dec_hosted_bucket x) (store_text pretty (enc_hosted_bucket x) bs')\<rparr>)
     = Err (''parse '' @ disk_path d'))"
proof -
  let ?b = "snd (hosted_bucket_put x t v now (hosted_bucket_new i (backup_auth_hash x t) now))"
  let ?g = "new_generation x v now"
  have b: "fst (hosted_bucket_put x t v now (hosted_bucket_new i (backup_auth_hash x t) now)) = BackupStored ?g"
    "hb_generations ?b = [?g]"
    by (simp_all add: hosted_bucket_put_def backup_authorize_def hosted_bucket_new_def Let_def new_generation_def
        MAX_BACKUP_GENERATIONS_def)
  have "find (\<lambda>b. hb_lookup_id b = i) bs = None" using assms(3) by (simp add: find_key_None_iff)
  then have "backup_put_records x i t v now bs = (BackupStored ?g, Some (bs @ [?b]))"
    by (simp add: backup_put_records_def bucket_update_def b(1) backup_is_stored_def)
  from store_update_ok(2) [OF assms(2), of "backup_put_records x i t v now", OF this]
  obtain d' where put: "backup_put x io_ok now i t v d = (Ok (BackupStored ?g), d')" and l: "load d' = Ok (bs @ [?b])"
    by (auto simp: backup_put_def)
  have "hg_backup ?g = v" by (simp add: new_generation_def Let_def)
  with assms(6) b(2) obtain e where
    e: "store_file x (dec_hosted_bucket x) (store_text pretty (enc_hosted_bucket x) (bs @ [?b])) = Garbled e"
    using deep_store_unreadable [OF assms(1), of ?b "bs @ [?b]" ?g] by auto
  have "\<exists>r. put_hosted_backup x io_ok now request i d = (r, d') \<and> rs_status r = 201"
    by (simp add: put_hosted_backup_def put_hosted_backup_on_def assms(4,5) put)
  then obtain r where "put_hosted_backup x io_ok now request i d = (r, d')" "rs_status r = 201" by blast
  moreover have "backup_latest x j u
       (d'\<lparr>main_file := store_file x (dec_hosted_bucket x) (store_text pretty (enc_hosted_bucket x) (bs @ [?b]))\<rparr>)
     = Err (''parse '' @ disk_path d')" for j u
    unfolding e by (simp add: backup_latest_def load_def)
  ultimately show ?thesis using l by (intro exI conjI allI) assumption+
qed


text \<open>The small instance, with the limit on the levels.\<close>

definition limited_toy :: crates where
  "limited_toy = toy\<lparr>json_read := (\<lambda>s. let v = from_nat (digits_val s) in
     if 127 < json_levels v then Err ''recursion limit exceeded'' else Ok v)\<rparr>"

fun nested :: "nat \<Rightarrow> json" where
  "nested 0 = JNull"
| "nested (Suc n) = JArr [nested n]"

lemma nested_facts: "json_levels (nested n) = n" "value_of (nested n) = nested n" "\<not> has_key k (nested n)"
  by (induction n) (simp_all add: has_key_simps)

definition deep_package :: json where
  "deep_package = obj [(''ciphertext'', JStr ''c''), (''x'', nested 126)]"

definition deep_request :: http_request where
  "deep_request = \<lparr>rq_method = ''POST'', rq_path_and_query = ''/v1/backups/mine'',
     rq_headers = [(''aichan-backup-auth'', ''token_of_mine'')], rq_body = json_text toy deep_package\<rparr>"

lemma deep_package_eq: "deep_package = JObj [(''ciphertext'', JStr ''c''), (''x'', nested 126)]"
proof -
  have c: "cmp ''x'' ''ciphertext'' = Greater" by code_simp
  show ?thesis by (simp add: deep_package_def obj_def bt_collect_def c)
qed

lemma deep_package_facts: "json_levels deep_package = 127" "package_ok deep_package" "value_of deep_package = deep_package"
proof -
  show "json_levels deep_package = 127" by (simp add: deep_package_eq nested_facts)
  have "trim ''c'' = ''c''" by code_simp
  moreover have "to_ascii_lowercase k \<notin> set private_names" if "has_key k deep_package" for k
  proof -
    from that have "k = ''ciphertext'' \<or> k = ''x''" by (auto simp: deep_package_eq has_key_simps nested_facts)
    moreover have "to_ascii_lowercase ''ciphertext'' \<notin> set private_names" by code_simp
    moreover have "to_ascii_lowercase ''x'' \<notin> set private_names" by code_simp
    ultimately show ?thesis by blast
  qed
  ultimately show "package_ok deep_package" by (simp add: package_ok_def deep_package_eq bt_get_def)
  show "value_of deep_package = deep_package"
    unfolding deep_package_def by (rule value_of_obj) (auto simp: nested_facts)
qed

lemma limited_read: "json_read limited_toy (json_text toy v) = (if 127 < json_levels v then Err ''recursion limit exceeded'' else Ok v)"
  using show_nat_facts by (simp add: limited_toy_def toy_def)

theorem deep_backup_breaks_store_witness:
  "\<exists>r d' bs'. put_hosted_backup limited_toy io_ok 0 deep_request ''mine'' (empty_disk ''b'') = (r, d') \<and> rs_status r = 201 \<and>
     load d' = Ok bs' \<and> (\<forall>j u. backup_latest limited_toy j u (d'\<lparr>main_file := store_file limited_toy (dec_hosted_bucket limited_toy)
         (store_text (json_text toy) (enc_hosted_bucket limited_toy) bs')\<rparr>) = Err (''parse '' @ disk_path d'))"
proof -
  have limit: "level_limit_law limited_toy (json_text toy)" by (simp add: level_limit_law_def limited_read)
  have body: "parse_hosted_backup_package limited_toy (rq_body deep_request) = Ok deep_package"
    unfolding parse_package_Ok using deep_package_facts by (simp add: deep_request_def limited_read)
  have "normalize_header_name ''Aichan-Backup-Auth'' = ''aichan-backup-auth''" by code_simp
  moreover have "trim ''token_of_mine'' = ''token_of_mine''" by code_simp
  moreover have "list_all id_byte ''mine''" by code_simp
  ultimately have auth: "backup_checked limited_toy deep_request ''mine'' = Ok ''token_of_mine''"
    unfolding backup_checked_Ok by (simp add: header_def deep_request_def bt_get_def)
  show ?thesis
    by (rule deep_backup_breaks_store [OF limit load_empty_disk [of "''b''"] _ auth body]) (simp_all add: deep_package_facts(1))
qed

end
