(* ===== verification/Answers.thy ===== *)
theory Answers
  imports Server_Props
begin

text \<open>
  The form of the server's answers. Whatever is asked and whatever goes wrong, the answer is a success
  with a content type, or an error in JSON whose status and whose advice to retry are those of its code.
\<close>

section \<open>The codes\<close>

text \<open>Code, status, and whether to retry.\<close>

definition error_table :: "(string \<times> nat \<times> bool) list" where
  "error_table = [
     (''invalid_encoding'', 400, False), (''invalid_signature'', 400, False), (''invalid_cursor'', 400, False),
     (''invalid_admin_request'', 400, False), (''invalid_message_envelope'', 400, False),
     (''invalid_activity_bucket'', 400, False), (''invalid_activity_event'', 400, False),
     (''invalid_backup_lookup_id'', 400, False), (''invalid_backup_package'', 400, False),
     (''invalid_admin_auth'', 401, False), (''invalid_request_signature'', 401, False),
     (''stale_request_signature'', 401, False), (''replayed_request_nonce'', 401, False),
     (''invalid_activity_auth'', 401, False), (''invalid_backup_auth'', 401, False),
     (''invalid_peer_id'', 403, False), (''not_found'', 404, False),
     (''conflict'', 409, False), (''publish_deleted'', 409, False), (''author_deleted'', 409, False),
     (''payload_too_large'', 413, False), (''rate_limited'', 429, True), (''storage_unavailable'', 500, True)]"

definition json_typed :: "http_response \<Rightarrow> bool" where
  "json_typed r \<longleftrightarrow> bt_get (rs_headers r) ''Content-Type'' = Some ''application/json; charset=utf-8''"

definition error_typed :: "crates \<Rightarrow> http_response \<Rightarrow> bool" where
  "error_typed x r \<longleftrightarrow> json_typed r \<and>
     (\<exists>code message retry. (code, rs_status r, retry) \<in> set error_table \<and> rs_body r = json_text x (error_json code message retry))"

definition answer_typed :: "crates \<Rightarrow> http_response \<Rightarrow> bool" where
  "answer_typed x r \<longleftrightarrow>
     rs_status r \<in> {200, 201, 204} \<and> bt_get (rs_headers r) ''Content-Type'' \<noteq> None \<or> error_typed x r"

named_theorems answered

lemma content_type [simp]: "bt_get (rs_headers (response s t b)) ''Content-Type'' = Some t"
  by (simp add: response_def bt_get_def)

lemma error_answered [answered]:
  "(code, status, retry) \<in> set error_table \<Longrightarrow> error_typed x (error_response x status code m retry)"
  unfolding error_typed_def json_typed_def
  by (rule conjI, simp add: error_response_def json_response_def,
      rule exI [of _ code], rule exI [of _ m], rule exI [of _ retry])
    (simp add: error_response_def json_response_def response_def)

lemma error_is_typed [answered]: "error_typed x r \<Longrightarrow> answer_typed x r"
  by (simp add: answer_typed_def)

lemma success_answered [answered]:
  "s \<in> {200, 201} \<Longrightarrow> answer_typed x (json_response x s v)" "s \<in> {200, 204} \<Longrightarrow> answer_typed x (response s t b)"
  by (auto simp: answer_typed_def json_response_def)

lemma storage_answered [answered]: "error_typed x (storage_error x what e)"
  unfolding storage_error_def by (rule error_answered) (simp add: error_table_def)

lemma unauthorized_answered [answered]:
  "error_typed x (backup_unauthorized x)" "error_typed x (activity_unauthorized x)"
  unfolding backup_unauthorized_def activity_unauthorized_def
  by (rule error_answered, simp add: error_table_def)+

section \<open>The handlers\<close>

lemma backup_checked_answered: "backup_checked x request i = Err r \<Longrightarrow> error_typed x r"
  by (auto simp: backup_checked_def and_then_def map_err_def error_table_def intro!: error_answered split: sum.splits)

lemma authenticate_answered: "authenticate_signed x what now request seen = (Err r, seen') \<Longrightarrow> error_typed x r"
  by (auto simp: authenticate_signed_def validate_request_auth_controls_def Let_def error_table_def
      intro!: error_answered split: sum.splits prod.splits if_splits bool.splits)

lemma publish_answered: "answer_typed x (fst (publish_record_on x upsert request d))"
  by (auto simp: publish_record_on_def error_table_def intro!: answered
      split: sum.split prod.split publish_upsert_status.split)

lemma search_answered: "answer_typed x (fst (search_publish_records_on x search request d))"
  by (auto simp: search_publish_records_on_def Let_def error_table_def intro!: answered
      split: sum.split option.split prod.split)

lemma discover_answered: "answer_typed x (fst (discover_publish_records_on x discover now request d))"
  by (auto simp: discover_publish_records_on_def Let_def intro!: answered split: sum.split prod.split)

lemma delete_answered: "answer_typed x (fst (delete_publish_record_on x mark now later request i seen d))"
  by (auto simp: delete_publish_record_on_def error_table_def intro!: answered dest!: authenticate_answered
      split: sum.split prod.split publish_delete_status.split)

lemma moderation_answered:
  "answer_typed x (fst (admin_publish_moderation_on x fetch hide_it restore_it now later auth request i a d))"
  by (auto simp: admin_publish_moderation_on_def Let_def error_table_def intro!: answered
      split: sum.split prod.split publish_moderation_status.split)

lemma message_answered:
  "answer_typed x (fst (post_message_on x insert_message now request d))"
  "answer_typed x (fst (get_inbox_on x read_inbox now later request seen d))"
  "answer_typed x (fst (stats_response_on x stats count_messages dp d))"
  by (auto simp: post_message_on_def get_inbox_on_def stats_response_on_def Let_def error_table_def
      intro!: answered dest!: authenticate_answered split: sum.split prod.split)

lemma activity_answered:
  "answer_typed x (fst (post_activity_event_on x put_event now request d))"
  "answer_typed x (fst (get_activity_events_on x list_events now request d))"
  by (auto simp: post_activity_event_on_def get_activity_events_on_def Let_def error_table_def
      intro!: answered split: sum.split prod.split option.split activity_put_status.split activity_list_status.split)

lemma head_answered [answered]: "answer_typed x (hosted_backup_head_response g)"
  by (simp add: answer_typed_def hosted_backup_head_response_def Let_def response_def del: bt_insert.simps)

lemma backup_answered:
  "answer_typed x (fst (put_hosted_backup_on x put_backup now request i d))"
  "answer_typed x (fst (get_hosted_backup_on x latest request i h b))"
  "answer_typed x (fst (list_hosted_backup_generations_on x list_backups request i b))"
  by (auto simp: put_hosted_backup_on_def get_hosted_backup_on_def list_hosted_backup_generations_on_def Let_def
      error_table_def intro!: answered dest!: backup_checked_answered
      split: sum.split prod.split backup_put_status.split backup_read_status.split backup_list_status.split)

lemma page_answered:
  "answer_typed x (discovery_response x s)" "answer_typed x (agent_response pages s)"
  "answer_typed x (agent_json_response x pages s)" "answer_typed x (install_script_response pages)"
  "answer_typed x (directory_response pages)"
  by (auto simp: discovery_response_def agent_response_def agent_json_response_def install_script_response_def
      directory_response_def intro!: answered)

lemma dispatch_answered: "answer_typed x (fst (dispatch_on x pages ops env request s))"
proof (cases "route_of (rq_method request) (path request)")
  case NoRoute
  then show ?thesis by (auto simp: dispatch_on_def Let_def error_table_def intro!: answered)
qed (simp_all add: dispatch_on_def Let_def split_def answered publish_answered search_answered discover_answered
    delete_answered moderation_answered message_answered activity_answered backup_answered page_answered)

text \<open>
  C24. Every answer is well typed. Whatever request is made of whatever server, over whatever stores and
  whatever their operations answer, the answer has status 200, 201 or 204 and a content type, or it is an error:
  its body is the JSON of an error object, marked as JSON, and the status and the advice to retry are those that
  the table has for its code.
\<close>

theorem answers_typed:
  assumes "handle_request_on x pages ops env request s = (r, log, s')"
  shows "answer_typed x r"
proof (cases "length (rq_body request) > max_body_bytes (sv_rate_config s)")
  case True
  then show ?thesis using assms by (auto simp: handle_request_on_def Let_def error_table_def intro!: answered)
next
  case False
  have limited: "answer_typed x (rate_limited_response x n)" for n
    unfolding answer_typed_def error_typed_def json_typed_def
    by (rule disjI2, rule conjI,
        simp add: rate_limited_response_def error_response_def json_response_def response_def Let_def del: bt_insert.simps,
        rule exI [of _ "''rate_limited''"], rule exI [of _ "''Too many requests. Please retry after the indicated delay.''"],
        rule exI [of _ True])
      (simp add: error_table_def)
  show ?thesis
    using assms False limited dispatch_answered [of x pages ops env request]
    by (auto simp: handle_request_on_def Let_def split: prod.splits option.splits) (metis fst_conv)+
qed

theorem answers_typed_witness:
  "\<exists>s r log s'. handle_request toy sample_pages sample_env
       (with_json_body ''{}'' (http_request_new ''POST'' ''/v1/publish'')) s = (r, log, s') \<and>
     rs_status r = 413 \<and> error_typed toy r"
proof -
  obtain s :: server_state where s: "sv_rate_config s = small_limits"
    using sample_server [of "''http://relay''" small_limits 4 AdminDisabled] by auto
  let ?q = "with_json_body ''{}'' (http_request_new ''POST'' ''/v1/publish'')"
  obtain r log s' where h: "handle_request toy sample_pages sample_env ?q s = (r, log, s')"
    using prod_cases3 by blast
  have "rs_status r = 413"
    using h s by (auto simp: handle_request_file small_limits_def with_json_body_def Let_def)
  with answers_typed [OF h [unfolded handle_request_def]] h show ?thesis by (auto simp: answer_typed_def)
qed

end
