(* ===== verification/Framing.thy ===== *)
theory Framing
  imports Http
begin

text \<open>
  When the reading of a request ends: as soon as the blank line after the headers and the announced body
  have come. A peer that keeps its connection open, or sends more, cannot hold up or change a request that is
  complete, and one that announces too much is told so before it sends its body.
\<close>

text \<open>A connection on which the bytes \<open>b\<close> have come, and then nothing before the timeout \<open>e\<close>.\<close>

definition stalled :: "bytes \<Rightarrow> string \<Rightarrow> wire" where
  "stalled b e = \<lparr>wire_bytes = b, wire_error = Some e\<rparr>"

lemma span_line_append: "span_line b = (l, r, True) \<Longrightarrow> span_line (b @ further) = (l, r @ further, True)"
  by (induction b arbitrary: l) (auto split: if_splits prod.splits)

lemma read_line_stalled:
  assumes "read_line (stalled b e) = Ok (l, w)"
  obtains r where "w = stalled r e"
    "read_line \<lparr>wire_bytes = b @ further, wire_error = err\<rparr> = Ok (l, \<lparr>wire_bytes = r @ further, wire_error = err\<rparr>)"
proof -
  obtain l' r found where s: "span_line b = (l', r, found)" using prod_cases3 by blast
  then have found: "found" "l' = l" "utf8_valid l" "w = stalled r e"
    using assms by (auto simp: read_line_def stalled_def split: bool.splits if_splits)
  with span_line_append [of b l r further] s show thesis
    by (intro that [of r]) (simp_all add: read_line_def)
qed

lemma read_headers_stalled:
  assumes "read_headers q (stalled b e) = Ok (q', w)"
  shows "\<exists>r. w = stalled r e \<and>
    read_headers q \<lparr>wire_bytes = b @ further, wire_error = err\<rparr> = Ok (q', \<lparr>wire_bytes = r @ further, wire_error = err\<rparr>)"
  using assms
proof (induction "length b" arbitrary: b q rule: less_induct)
  case less
  obtain l w1 where l: "read_line (stalled b e) = Ok (l, w1)"
    using less.prems by (cases "read_line (stalled b e)") (auto simp: read_headers.simps [of q])
  from read_line_stalled [OF l, of further err] obtain r where r: "w1 = stalled r e"
    "read_line \<lparr>wire_bytes = b @ further, wire_error = err\<rparr> = Ok (l, \<lparr>wire_bytes = r @ further, wire_error = err\<rparr>)" by blast
  show ?case
  proof (cases "trim_crlf l = []")
    case True
    have "read_headers q \<lparr>wire_bytes = b @ further, wire_error = err\<rparr> = Ok (q, \<lparr>wire_bytes = r @ further, wire_error = err\<rparr>)"
      by (subst read_headers.simps) (simp add: r(2) True)
    moreover have "q' = q \<and> w = stalled r e"
      using less.prems by (subst (asm) read_headers.simps) (auto simp: l True r(1))
    ultimately show ?thesis by blast
  next
    case False
    have "length r < length b" using read_line_shorter [OF l False] by (simp add: r(1) stalled_def)
    moreover have "read_headers (add_header_line (trim_crlf l) q) (stalled r e) = Ok (q', w)"
      using less.prems l r(1) False by (simp add: read_headers.simps [of q])
    ultimately show ?thesis
      using less.hyps [of r "add_header_line (trim_crlf l) q"] r(2) False by (simp add: read_headers.simps [of q])
  qed
qed

text \<open>
  C25. The reading of a request ends with the request. If the bytes that have come are enough for a result
  while the peer stalls, then it is the result whatever the peer sends afterwards and however the connection
  ends: nothing beyond the blank line and the announced body is waited for, or looked at.
\<close>

theorem request_read_ends:
  assumes "read_http_request (stalled b e) limit = Ok result"
  shows "read_http_request \<lparr>wire_bytes = b @ further, wire_error = err\<rparr> limit = Ok result"
proof -
  obtain l w where l: "read_line (stalled b e) = Ok (l, w)"
    using assms by (cases "read_line (stalled b e)") (auto simp: read_http_request_def)
  from read_line_stalled [OF l, of further err] obtain r where r: "w = stalled r e"
    "read_line \<lparr>wire_bytes = b @ further, wire_error = err\<rparr> = Ok (l, \<lparr>wire_bytes = r @ further, wire_error = err\<rparr>)" by blast
  obtain m p rest where words: "split_whitespace l = m # p # rest"
    using assms l by (auto simp: read_http_request_def split: list.splits)
  obtain q w2 where q: "read_headers (http_request_new m p) (stalled r e) = Ok (q, w2)"
    "read_body limit q w2 = Ok result"
    using assms l r(1) words by (auto simp: read_http_request_def and_then_Ok_iff)
  from read_headers_stalled [OF q(1), of further err] obtain r2 where r2: "w2 = stalled r2 e"
    "read_headers (http_request_new m p) \<lparr>wire_bytes = r @ further, wire_error = err\<rparr>
       = Ok (q, \<lparr>wire_bytes = r2 @ further, wire_error = err\<rparr>)" by blast
  have "read_body limit q \<lparr>wire_bytes = r2 @ further, wire_error = err\<rparr> = Ok result"
    using q(2) r2(1) by (auto simp: read_body_def read_exact_def stalled_def Let_def split: if_splits)
  then show ?thesis using r(2) r2(2) words by (simp add: read_http_request_def)
qed

definition sample_stall :: bytes where
  "sample_stall = ''PUT /a HTTP/1.1'' @ crlf @ ''Content-Length: 3'' @ crlf @ crlf @ ''abc''"

theorem request_read_ends_witness:
  "read_http_request \<lparr>wire_bytes = sample_stall @ ''GET /b'', wire_error = None\<rparr> 10
     = Ok (Request \<lparr>rq_method = ''PUT'', rq_path_and_query = ''/a'',
         rq_headers = [(''content-length'', ''3'')], rq_body = ''abc''\<rparr>)"
proof (rule request_read_ends)
  let ?q = "\<lparr>rq_method = ''PUT'', rq_path_and_query = ''/a'', rq_headers = [(''content-length'', ''3'')], rq_body = []\<rparr>"
  let ?w = "stalled (''Content-Length: 3'' @ crlf @ crlf @ ''abc'') ''timed out''"
  have line: "read_line (stalled sample_stall ''timed out'') = Ok (''PUT /a HTTP/1.1'' @ crlf, ?w)" by code_simp
  have words: "split_whitespace (''PUT /a HTTP/1.1'' @ crlf) = [''PUT'', ''/a'', ''HTTP/1.1'']" by code_simp
  have headers: "read_headers (http_request_new ''PUT'' ''/a'') ?w = Ok (?q, stalled ''abc'' ''timed out'')" by code_simp
  have "header ?q ''Content-Length'' = Some ''3''" by code_simp
  moreover have "parse_usize ''3'' = Some 3"
    by (simp add: parse_uint_def is_digit_def in_range_def digits_val_def digit_val_def usize_max_def)
  ultimately have "content_length ?q = 3"
    by (simp add: content_length_def)
  then have "read_body 10 ?q (stalled ''abc'' ''timed out'') = Ok (Request (?q\<lparr>rq_body := ''abc''\<rparr>))"
    by (simp add: read_body_def read_exact_def stalled_def)
  with line words headers show "read_http_request (stalled sample_stall ''timed out'') 10
     = Ok (Request \<lparr>rq_method = ''PUT'', rq_path_and_query = ''/a'',
         rq_headers = [(''content-length'', ''3'')], rq_body = ''abc''\<rparr>)"
    by (simp add: read_http_request_def)
qed

end
