(* ===== verification/Core_Backup.thy ===== *)
theory Core_Backup
  imports Identity
begin

text \<open>
  \<^verbatim>\<open>crates/aichan-core/src/backup.rs\<close>: recovery phrases, the encrypted backup of identity, memory and
  configuration, the locator of a hosted backup, and the local backup metadata.
\<close>

definition BACKUP_ENCRYPTION_SUITE :: string where
  "BACKUP_ENCRYPTION_SUITE = ''aichan.backup.chacha20poly1305.hkdf-sha256.v1''"
definition BACKUP_KDF :: string where "BACKUP_KDF = ''hkdf-sha256''"
definition RECOVERY_PHRASE_PREFIX :: string where "RECOVERY_PHRASE_PREFIX = ''aichan-rp-''"

record backup_encryption =
  ben_suite :: string
  ben_kdf :: string
  ben_salt :: string
  ben_nonce :: string

record backup_file =
  bf_version :: nat
  bf_created_at :: datetime
  bf_encryption :: backup_encryption
  bf_ciphertext :: string

record backup_payload =
  bp_version :: nat
  bp_peer_id :: peer_id
  bp_source_device_id :: device_id
  bp_identity :: identity_file
  bp_memory :: memory_file
  bp_config :: "aichan_config option"
  bp_created_at :: datetime

record hosted_backup_locator =
  loc_backup_lookup_id :: string
  loc_backup_auth_token :: string

section \<open>BackupMetadata\<close>

record backup_metadata =
  bm_version :: nat
  bm_last_local_backup_at :: "datetime option"
  bm_last_local_backup_path :: "string option"
  bm_backup_lookup_id :: "string option"
  bm_last_hosted_backup_at :: "datetime option"
  bm_last_hosted_generation_id :: "string option"
  bm_last_restore_at :: "datetime option"
  bm_last_restore_source :: "string option"
  bm_last_restored_peer_id :: "peer_id option"

definition default_backup_metadata :: backup_metadata where
  "default_backup_metadata =
     \<lparr>bm_version = 1, bm_last_local_backup_at = None, bm_last_local_backup_path = None,
      bm_backup_lookup_id = None, bm_last_hosted_backup_at = None, bm_last_hosted_generation_id = None,
      bm_last_restore_at = None, bm_last_restore_source = None, bm_last_restored_peer_id = None\<rparr>"

definition validate_backup_metadata :: "backup_metadata \<Rightarrow> aichan_error + unit" where
  "validate_backup_metadata m =
     (if bm_version m \<noteq> 1
      then Err (InvalidProtocol (''unsupported backup metadata version '' @ show_nat (bm_version m)))
      else Ok ())"

definition backup_metadata_load_or_default ::
  "local_state_dir \<Rightarrow> backup_metadata json_file \<Rightarrow> aichan_error + backup_metadata" where
  "backup_metadata_load_or_default s f =
     (if \<not> file_exists f then Ok default_backup_metadata
      else and_then (read_json (backup_metadata_path s) f) (\<lambda>metadata.
             and_then (validate_backup_metadata metadata) (\<lambda>_. Ok metadata)))"

definition backup_metadata_write ::
  "local_state_dir \<Rightarrow> dir_outcome \<Rightarrow> write_outcome \<Rightarrow> backup_metadata \<Rightarrow> backup_metadata json_file \<Rightarrow>
   (aichan_error + unit) \<times> backup_metadata json_file" where
  "backup_metadata_write s mk w m f =
     (case ensure_dirs s mk of
        Inl e \<Rightarrow> (Err e, f)
      | Inr _ \<Rightarrow> write_json (backup_metadata_path s) w m f)"

section \<open>Validation\<close>

definition validate_backup_payload :: "crates \<Rightarrow> backup_payload \<Rightarrow> aichan_error + unit" where
  "validate_backup_payload x p =
     (if bp_version p \<noteq> 1
      then Err (InvalidProtocol (''unsupported backup payload version '' @ show_nat (bp_version p)))
      else if idf_peer_id (bp_identity p) \<noteq> bp_peer_id p
      then Err (InvalidProtocol ''backup peer_id does not match identity peer_id'')
      else
        and_then (identity_signing_key x (bp_identity p)) (\<lambda>_.
        and_then (identity_message_key_pair x (bp_identity p)) (\<lambda>_.
        and_then (validate_memory (bp_memory p)) (\<lambda>_. Ok ()))))"

definition validate_backup_file :: "backup_file \<Rightarrow> aichan_error + unit" where
  "validate_backup_file b =
     (if bf_version b \<noteq> 1
      then Err (InvalidProtocol (''unsupported backup version '' @ show_nat (bf_version b)))
      else if ben_suite (bf_encryption b) \<noteq> BACKUP_ENCRYPTION_SUITE
      then Err (InvalidProtocol (''unsupported backup encryption suite '' @ ben_suite (bf_encryption b)))
      else if ben_kdf (bf_encryption b) \<noteq> BACKUP_KDF
      then Err (InvalidProtocol (''unsupported backup kdf '' @ ben_kdf (bf_encryption b)))
      else Ok ())"

definition read_backup_file :: "string \<Rightarrow> backup_file json_file \<Rightarrow> aichan_error + backup_file" where
  "read_backup_file path f =
     and_then (read_json path f) (\<lambda>backup. and_then (validate_backup_file backup) (\<lambda>_. Ok backup))"

definition validate_recovery_phrase :: "string \<Rightarrow> aichan_error + unit" where
  "validate_recovery_phrase recovery_phrase =
     (if \<not> starts_with recovery_phrase RECOVERY_PHRASE_PREFIX
      then Err (InvalidProtocol ''recovery phrase has invalid format'') else Ok ())"

section \<open>Keys and locators\<close>

text \<open>\<^verbatim>\<open>generate_recovery_phrase\<close>; \<open>random\<close> is the 24 bytes drawn.\<close>

definition generate_recovery_phrase :: "crates \<Rightarrow> bytes \<Rightarrow> string" where
  "generate_recovery_phrase x random = RECOVERY_PHRASE_PREFIX @ b64_encode x random"

definition derive_hosted_backup_locator :: "crates \<Rightarrow> string \<Rightarrow> aichan_error + hosted_backup_locator" where
  "derive_hosted_backup_locator x recovery_phrase =
     and_then (validate_recovery_phrase recovery_phrase) (\<lambda>_.
     and_then (ok_or (InvalidProtocol ''backup lookup derivation failed'')
                (hkdf_expand x ''aichan.backup.v1'' recovery_phrase ''aichan.backup.v1.lookup_id'' 24)) (\<lambda>lookup_bytes.
     and_then (ok_or (InvalidProtocol ''backup auth derivation failed'')
                (hkdf_expand x ''aichan.backup.v1'' recovery_phrase ''aichan.backup.v1.auth_token'' 32)) (\<lambda>auth_bytes.
       Ok \<lparr>loc_backup_lookup_id = ''bak_'' @ b64_encode x lookup_bytes,
           loc_backup_auth_token = ''auth_'' @ b64_encode x auth_bytes\<rparr>)))"

definition derive_backup_key :: "crates \<Rightarrow> string \<Rightarrow> bytes \<Rightarrow> aichan_error + bytes" where
  "derive_backup_key x recovery_phrase salt =
     and_then (validate_recovery_phrase recovery_phrase) (\<lambda>_.
       ok_or (InvalidProtocol ''backup key derivation failed'')
         (hkdf_expand x salt recovery_phrase ''aichan backup encryption v1'' 32))"

section \<open>Encryption\<close>

definition enc_backup_payload :: "crates \<Rightarrow> backup_payload \<Rightarrow> json" where
  "enc_backup_payload x p = JObj [
     (''version'', jnat (bp_version p)),
     (''peer_id'', enc_peer_id (bp_peer_id p)),
     (''source_device_id'', JStr (device_str (bp_source_device_id p))),
     (''identity'', enc_identity x (bp_identity p)),
     (''memory'', enc_memory x (bp_memory p)),
     (''config'', jopt enc_config (bp_config p)),
     (''created_at'', enc_time x (bp_created_at p))]"

definition dec_backup_payload :: "crates \<Rightarrow> json \<Rightarrow> backup_payload option" where
  "dec_backup_payload x v = do {
     f \<leftarrow> struct_fields 7 [''version'', ''peer_id'', ''source_device_id'', ''identity'', ''memory'',
            ''config'', ''created_at''] v;
     version \<leftarrow> req f ''version'' (dec_uint u8_max);
     peer_id \<leftarrow> req f ''peer_id'' dec_peer_id;
     source_device_id \<leftarrow> req f ''source_device_id'' dec_str;
     identity \<leftarrow> req f ''identity'' (dec_identity x);
     memory \<leftarrow> req f ''memory'' (dec_memory x);
     config \<leftarrow> opt_field f ''config'' dec_config;
     created_at \<leftarrow> req f ''created_at'' (dec_time x);
     Some \<lparr>bp_version = version, bp_peer_id = peer_id, bp_source_device_id = DeviceId source_device_id,
           bp_identity = identity, bp_memory = memory, bp_config = config, bp_created_at = created_at\<rparr> }"

definition encrypt_backup ::
  "crates \<Rightarrow> datetime \<Rightarrow> bytes \<Rightarrow> bytes \<Rightarrow> backup_payload \<Rightarrow> string \<Rightarrow> aichan_error + backup_file" where
  "encrypt_backup x now salt nonce payload recovery_phrase =
     and_then (validate_backup_payload x payload) (\<lambda>_.
     and_then (derive_backup_key x recovery_phrase salt) (\<lambda>key.
     and_then (ok_or (InvalidProtocol ''backup encryption failed'')
                (aead_seal x key nonce [] (json_text x (enc_backup_payload x payload)))) (\<lambda>ciphertext.
       Ok \<lparr>bf_version = 1, bf_created_at = now,
           bf_encryption = \<lparr>ben_suite = BACKUP_ENCRYPTION_SUITE, ben_kdf = BACKUP_KDF,
             ben_salt = b64_encode x salt, ben_nonce = b64_encode x nonce\<rparr>,
           bf_ciphertext = b64_encode x ciphertext\<rparr>)))"

definition decrypt_backup :: "crates \<Rightarrow> backup_file \<Rightarrow> string \<Rightarrow> aichan_error + backup_payload" where
  "decrypt_backup x backup recovery_phrase =
     and_then (validate_backup_file backup) (\<lambda>_.
     and_then (decode_base64url_array x 16 (ben_salt (bf_encryption backup)) ''backup salt'') (\<lambda>salt.
     and_then (decode_base64url_array x 12 (ben_nonce (bf_encryption backup)) ''backup nonce'') (\<lambda>nonce.
     and_then (map_err (\<lambda>source. InvalidProtocol (''invalid backup ciphertext encoding: '' @ source))
                 (b64_decode x (bf_ciphertext backup))) (\<lambda>ciphertext.
     and_then (derive_backup_key x recovery_phrase salt) (\<lambda>key.
     and_then (ok_or (InvalidProtocol ''backup decryption failed'') (aead_open x key nonce [] ciphertext)) (\<lambda>plaintext.
     and_then (map_err (\<lambda>source. InvalidProtocol (''invalid backup payload: '' @ source))
                 (from_json x (dec_backup_payload x) plaintext)) (\<lambda>payload.
     and_then (validate_backup_payload x payload) (\<lambda>_. Ok payload))))))))"

section \<open>Lemmas\<close>

lemma validate_recovery_phrase_generated [simp]:
  "validate_recovery_phrase (generate_recovery_phrase x r) = Ok ()"
  by (simp add: validate_recovery_phrase_def generate_recovery_phrase_def)

lemma validate_backup_payload_Ok:
  "validate_backup_payload x p = Ok () \<longleftrightarrow>
     bp_version p = 1 \<and> idf_peer_id (bp_identity p) = bp_peer_id p \<and>
     (\<exists>sk. identity_signing_key x (bp_identity p) = Ok sk) \<and> message_keys_ok x (bp_identity p) \<and>
     mem_version (bp_memory p) = 1"
  by (auto simp: validate_backup_payload_def and_then_Ok_iff message_keys_ok_def is_ok_def validate_memory_Ok
      split: sum.splits)

definition payload_storable :: "backup_payload \<Rightarrow> bool" where
  "payload_storable p \<longleftrightarrow> idf_version (bp_identity p) \<le> u8_max \<and> four_digit_year (idf_created_at (bp_identity p)) \<and>
     memory_storable (bp_memory p) \<and> four_digit_year (bp_created_at p)"

lemma backup_payload_text:
  assumes "rfc3339_law x" "json_law x" "payload_storable p" "bp_version p = 1"
  shows "from_json x (dec_backup_payload x) (json_text x (enc_backup_payload x p)) = Ok p"
proof (rule from_json_text [OF assms(2)])
  have "mem_version (bp_memory p) \<le> u8_max" "idf_version (bp_identity p) \<le> u8_max"
    using assms(3) by (simp_all add: payload_storable_def memory_storable_def)
  then have "json_plain (Suc (Suc (Suc (Suc 0)))) (enc_memory x (bp_memory p))"
      "json_plain (Suc 0) (enc_identity x (bp_identity p))"
    by (simp_all only: memory_plain identity_plain)
  then have "json_plain 126 (enc_memory x (bp_memory p))" "json_plain 126 (enc_identity x (bp_identity p))"
    by (auto elim: json_plain_mono)
  moreover have "json_plain (Suc 0) (enc_config c)" for c
    by (auto simp: enc_config_def intro: json_plain_jopt)
  then have "json_plain 126 (enc_config c)" for c
    by (rule json_plain_mono) simp
  ultimately have "json_plain (Suc 126) (enc_backup_payload x p)"
    unfolding enc_backup_payload_def using assms(4)
    by (intro json_plain_JObj) (auto simp: enc_peer_id_def intro!: json_plain_jopt)
  then show "json_plain 127 (enc_backup_payload x p)" by simp
  have d: "DeviceId (device_str d) = d" for d by (cases d) simp
  have c: "enc_config c \<noteq> JNull" for c by (simp add: enc_config_def)
  show "dec_backup_payload x (enc_backup_payload x p) = Some p"
    using assms
    by (simp add: dec_backup_payload_def enc_backup_payload_def field_defs serde payload_storable_def d c u8_max_def)
qed

lemma encrypt_backup_Ok:
  "encrypt_backup x now salt nonce p phrase = Ok b \<longleftrightarrow>
     validate_backup_payload x p = Ok () \<and>
     (\<exists>key ct. derive_backup_key x phrase salt = Ok key \<and>
        aead_seal x key nonce [] (json_text x (enc_backup_payload x p)) = Some ct \<and>
        b = \<lparr>bf_version = 1, bf_created_at = now,
              bf_encryption = \<lparr>ben_suite = BACKUP_ENCRYPTION_SUITE, ben_kdf = BACKUP_KDF,
                ben_salt = b64_encode x salt, ben_nonce = b64_encode x nonce\<rparr>,
              bf_ciphertext = b64_encode x ct\<rparr>)"
  by (auto simp: encrypt_backup_def and_then_Ok_iff ok_or_Ok_iff)

lemma sealed_backup_valid: "encrypt_backup x now salt nonce p phrase = Ok b \<Longrightarrow> validate_backup_file b = Ok ()"
  by (auto simp: encrypt_backup_Ok validate_backup_file_def)

lemma sealed_backup_opens:
  assumes laws: "base64_law x" "aead_law x" "rfc3339_law x" "json_law x"
    and p: "payload_storable p" and rnd: "length salt = 16" "length nonce = 12"
    and enc: "encrypt_backup x now salt nonce p phrase = Ok b"
  shows "decrypt_backup x b phrase = Ok p"
proof -
  let ?plain = "json_text x (enc_backup_payload x p)"
  from enc obtain key ct where val: "validate_backup_payload x p = Ok ()"
    and key: "derive_backup_key x phrase salt = Ok key" and ct: "aead_seal x key nonce [] ?plain = Some ct"
    and fields: "ben_salt (bf_encryption b) = b64_encode x salt" "ben_nonce (bf_encryption b) = b64_encode x nonce"
      "bf_ciphertext b = b64_encode x ct"
    by (auto simp: encrypt_backup_Ok)
  have "aead_open x key nonce [] ct = Some ?plain" using laws(2) ct unfolding aead_law_def by (metis option.inject)
  moreover have "bp_version p = 1" using val by (simp add: validate_backup_payload_Ok)
  ultimately show ?thesis
    unfolding decrypt_backup_def fields
    using sealed_backup_valid [OF enc] val key backup_payload_text [OF laws(3,4) p] laws(1) rnd
    by (simp add: decode_array_encode base64_roundtrip)
qed

lemma backup_sealed:
  assumes "hkdf_law x" "aead_law x" "validate_backup_payload x p = Ok ()"
  shows "\<exists>b. encrypt_backup x now salt nonce p (generate_recovery_phrase x r) = Ok b"
proof -
  let ?phrase = "generate_recovery_phrase x r"
  obtain key where "hkdf_expand x salt ?phrase ''aichan backup encryption v1'' 32 = Some key"
    using hkdf_expand_ok [OF assms(1), of 32] by force
  then have "derive_backup_key x ?phrase salt = Ok key" by (simp add: derive_backup_key_def)
  moreover obtain ct where "aead_seal x key nonce [] (json_text x (enc_backup_payload x p)) = Some ct"
    using assms(2) unfolding aead_law_def by blast
  ultimately show ?thesis using assms(3) by (auto simp: encrypt_backup_Ok)
qed

text \<open>
  Backups can be restored: a valid payload sealed under a recovery phrase that this program
  made opens again, under the same phrase, to the same identity, memory and configuration.
\<close>

theorem backup_roundtrip:
  assumes laws: "base64_law x" "hkdf_law x" "aead_law x" "rfc3339_law x" "json_law x"
    and p: "validate_backup_payload x p = Ok ()" "payload_storable p"
    and rnd: "length salt = 16" "length nonce = 12"
  shows "\<exists>b. encrypt_backup x now salt nonce p (generate_recovery_phrase x r) = Ok b \<and>
    validate_backup_file b = Ok () \<and> decrypt_backup x b (generate_recovery_phrase x r) = Ok p"
proof -
  obtain b where enc: "encrypt_backup x now salt nonce p (generate_recovery_phrase x r) = Ok b"
    using backup_sealed [OF laws(2,3) p(1)] by blast
  with sealed_backup_valid [OF enc] sealed_backup_opens [OF laws(1,3-5) p(2) rnd enc] show ?thesis by blast
qed

definition sample_payload :: backup_payload where
  "sample_payload =
     (let ent = \<lparr>ent_signing_key = sample_key, ent_message_key = sample_key, ent_uuid = ''0a'', ent_now = sample_now\<rparr>;
          i = new_identity toy ent
      in \<lparr>bp_version = 1, bp_peer_id = idf_peer_id i, bp_source_device_id = DeviceId ''d'', bp_identity = i,
          bp_memory = default_memory sample_now, bp_config = None, bp_created_at = sample_now\<rparr>)"

theorem backup_roundtrip_witness:
  "\<exists>b. encrypt_backup toy sample_now (replicate 16 (CHR ''s'')) (replicate 12 (CHR ''n'')) sample_payload
      (generate_recovery_phrase toy (replicate 24 (CHR ''r''))) = Ok b \<and>
    decrypt_backup toy b (generate_recovery_phrase toy (replicate 24 (CHR ''r''))) = Ok sample_payload"
proof -
  let ?ent = "\<lparr>ent_signing_key = sample_key, ent_message_key = sample_key, ent_uuid = ''0a'', ent_now = sample_now\<rparr>"
  have "entropy_ok ?ent"
    by (simp add: entropy_ok_def is_ascii_hexdigit_def is_digit_def in_range_def)
  from new_identity_valid [OF toy_laws(1,5,4) this]
  have i: "validate_identity toy (new_identity toy ?ent) = Ok ()" "message_keys_ok toy (new_identity toy ?ent)"
    by auto
  have "\<not> idf_private_key_encrypted (new_identity toy ?ent)" by (simp add: new_identity_def Let_def)
  from valid_identity_signs [OF i(1) this]
  have "validate_backup_payload toy sample_payload = Ok ()"
    using i(2) by (auto simp: validate_backup_payload_Ok sample_payload_def Let_def default_memory_def)
  moreover have "payload_storable sample_payload"
    by (simp add: payload_storable_def sample_payload_def Let_def new_identity_def memory_storable_def
        default_memory_def default_sync_def u8_max_def)
  moreover have "length (replicate 16 (CHR ''s'')) = 16" "length (replicate 12 (CHR ''n'')) = 12" by simp_all
  ultimately show ?thesis using backup_roundtrip [OF toy_laws(1,3,6,7,8)] by blast
qed

end
