(* ===== verification/Cli_State.thy ===== *)
theory Cli_State
  imports Steps Core_Activity Core_Backup Protocol_Laws
begin

text \<open>
  The command line client, \<^verbatim>\<open>crates/aichan/src/main.rs\<close>: the state a command works on. That is the local
  files, the cache of the process over them, and the relay it talks to; a command is a function from
  that state to a result and the state it leaves. The clock readings, random bytes, UUIDs and the
  outcomes of writes are the environment of the command.
\<close>

section \<open>Commands\<close>

text \<open>The question mark on a result with an \<^verbatim>\<open>AichanError\<close>, which anyhow keeps with its text.\<close>

definition check_core :: "aichan_error + 'a \<Rightarrow> ('s, 'a) step" where
  "check_core r s = (map_err error_text r, s)"

lemma core_step_simps [simp]:
  "then_do (check_core (Ok a)) f = f a" "then_do (check_core (Err e')) f = fail (error_text e')"
  by (simp_all add: then_do_def fail_def check_core_def fun_eq_iff)

lemma try_core_Ok [simp]: "check_core r0 s = (Ok a, s') \<longleftrightarrow> r0 = Ok a \<and> s' = s"
  by (auto simp: check_core_def map_err_Ok_iff)

section \<open>State and environment\<close>

text \<open>\<^verbatim>\<open>CachedState\<close>, the cache of a process over its files.\<close>

record cached_state =
  cs_identity :: "identity_file option"
  cs_device :: "device_file option"
  cs_memory :: "memory_file option"
  cs_config :: "aichan_config option"
  cs_state_root :: string

record cached_recipient_key =
  crk_peer_id :: string
  crk_suite :: string
  crk_key_id :: string
  crk_public_key :: string
  crk_updated_at :: datetime

record recipient_key_cache_file =
  rkc_version :: nat
  rkc_peers :: "cached_recipient_key list"

text \<open>
  Documents of the inbox cache, message logs and backup files are by path; a log is the bytes of its
  file. \<open>cl_net\<close> is the relay and all between it and the client.
\<close>

record 'n client =
  cl_cache :: cached_state
  cl_identity :: "identity_file json_file"
  cl_device :: "device_file json_file"
  cl_memory :: "memory_file json_file"
  cl_config :: "aichan_config json_file"
  cl_metadata :: "backup_metadata json_file"
  cl_keys :: "recipient_key_cache_file json_file"
  cl_inbox :: "string \<Rightarrow> message_object json_file"
  cl_logs :: "string \<Rightarrow> bytes"
  cl_backups :: "string \<Rightarrow> backup_file json_file"
  cl_net :: 'n

record cli_request =
  cr_method :: string
  cr_url :: string
  cr_headers :: "(string \<times> string) list"
  cr_body :: bytes

record relay_response =
  rr_status :: nat
  rr_body :: bytes

text \<open>How an exchange by ureq can fail: no response, or a body that cannot be read to its end.\<close>

datatype call_error = Transport string | BodyUnread string | ErrorBodyUnread string

datatype append_outcome = Appended | OpenFailed string | AppendTorn nat string

text \<open>
  \<open>ce_now n\<close>, \<open>ce_uuid n\<close>, \<open>ce_random n\<close> are the values that the \<open>n\<close>-th such call of the command finds,
  \<open>ce_write path n\<close> the outcome of its \<open>n\<close>-th write to \<open>path\<close>, \<open>ce_append path i\<close> that of appending the
  entry of message \<open>i\<close>; \<open>ce_raced\<close> the identity file another process has made between the check
  and the write. \<open>ce_relay\<close> is one exchange by ureq, \<open>ce_elapsed_ms\<close> how long a failed one took.
\<close>

record 'n cli_env =
  ce_crates :: crates
  ce_relay :: "cli_request \<Rightarrow> 'n \<Rightarrow> (call_error + relay_response) \<times> 'n"
  ce_elapsed_ms :: nat
  ce_dirs :: dir_outcome
  ce_write :: "string \<Rightarrow> nat \<Rightarrow> write_outcome"
  ce_append :: "string \<Rightarrow> string \<Rightarrow> append_outcome"
  ce_entropy :: entropy
  ce_raced :: "identity_file json_file"
  ce_now :: "nat \<Rightarrow> datetime"
  ce_uuid :: "nat \<Rightarrow> string"
  ce_random :: "nat \<Rightarrow> bytes"

section \<open>Where the state is\<close>

definition user_home_dir :: "(string \<Rightarrow> string option) \<Rightarrow> string + string" where
  "user_home_dir env =
     (case env ''AICHAN_HOME'' of Some home \<Rightarrow> Ok home
      | None \<Rightarrow> (case env ''HOME'' of Some home \<Rightarrow> Ok home
      | None \<Rightarrow> (case env ''USERPROFILE'' of Some home \<Rightarrow> Ok home
      | None \<Rightarrow> Err (''could not determine the user home directory; '' @
                     ''pass --project-dir to use project-local state''))))"

definition default_state_dir ::
  "(string \<Rightarrow> string option) \<Rightarrow> string + string \<Rightarrow> (string \<Rightarrow> bool) \<Rightarrow> string option \<Rightarrow> string + local_state_dir" where
  "default_state_dir env cwd exists project_dir =
     (case project_dir of
        Some p \<Rightarrow> Ok p
      | None \<Rightarrow>
          and_then cwd (\<lambda>current_dir.
          and_then (user_home_dir env) (\<lambda>home.
            if exists (identity_path home) then Ok home
            else if exists (identity_path current_dir) then Ok current_dir
            else Ok home)))"

definition project_state_dir :: "string + string \<Rightarrow> string option \<Rightarrow> string + local_state_dir" where
  "project_state_dir cwd project_dir = (case project_dir of Some p \<Rightarrow> Ok p | None \<Rightarrow> cwd)"

section \<open>The cache\<close>

definition init_state_cache :: "local_state_dir \<Rightarrow> cached_state" where
  "init_state_cache s =
     \<lparr>cs_identity = None, cs_device = None, cs_memory = None, cs_config = None, cs_state_root = state_root s\<rparr>"

definition load_identity :: "'n cli_env \<Rightarrow> local_state_dir \<Rightarrow> ('n client, identity_file) step" where
  "load_identity env s c =
     (let (r, f) = identity_create_or_load (ce_crates env) s (ce_dirs env) (ce_write env (identity_path s) 0)
                     (ce_entropy env) (ce_raced env) (cl_identity c)
      in (map_err error_text r, c\<lparr>cl_identity := f\<rparr>))"

definition cached_identity :: "'n cli_env \<Rightarrow> local_state_dir \<Rightarrow> ('n client, identity_file) step" where
  "cached_identity env s c =
     (case (cs_state_root (cl_cache c) = state_root s, cs_identity (cl_cache c)) of
        (True, Some i) \<Rightarrow> (Ok i, c)
      | _ \<Rightarrow>
        (case load_identity env s c of
           (Inl e, c') \<Rightarrow> (Err e, c')
         | (Inr i, c') \<Rightarrow> (Ok i, c'\<lparr>cl_cache := (cl_cache c')\<lparr>cs_identity := Some i\<rparr>\<rparr>)))"

definition cached_device :: "'n cli_env \<Rightarrow> local_state_dir \<Rightarrow> ('n client, device_file) step" where
  "cached_device env s c =
     (case (cs_state_root (cl_cache c) = state_root s, cs_device (cl_cache c)) of
        (True, Some d) \<Rightarrow> (Ok d, c)
      | _ \<Rightarrow>
        (case device_create_or_load s (ce_dirs env) (ce_write env (device_path s) 0) (ent_uuid (ce_entropy env))
                (ent_now (ce_entropy env)) (cl_device c) of
           (Inl e, f) \<Rightarrow> (Err (error_text e), c\<lparr>cl_device := f\<rparr>)
         | (Inr d, f) \<Rightarrow> (Ok d, c\<lparr>cl_device := f, cl_cache := (cl_cache c)\<lparr>cs_device := Some d\<rparr>\<rparr>)))"

text \<open>\<^verbatim>\<open>cached_memory\<close> and \<^verbatim>\<open>mutable_memory\<close> are the same function.\<close>

definition cached_memory :: "'n cli_env \<Rightarrow> local_state_dir \<Rightarrow> ('n client, memory_file) step" where
  "cached_memory env s c =
     (case (cs_state_root (cl_cache c) = state_root s, cs_memory (cl_cache c)) of
        (True, Some m) \<Rightarrow> (Ok m, c)
      | _ \<Rightarrow>
        (case memory_create_or_load s (ce_dirs env) (ce_write env (memory_path s) 0)
                (ent_now (ce_entropy env)) (cl_memory c) of
           (Inl e, f) \<Rightarrow> (Err (error_text e), c\<lparr>cl_memory := f\<rparr>)
         | (Inr m, f) \<Rightarrow> (Ok m, c\<lparr>cl_memory := f, cl_cache := (cl_cache c)\<lparr>cs_memory := Some m\<rparr>\<rparr>)))"

definition cached_config :: "'n cli_env \<Rightarrow> local_state_dir \<Rightarrow> ('n client, aichan_config) step" where
  "cached_config env s c =
     (case (cs_state_root (cl_cache c) = state_root s, cs_config (cl_cache c)) of
        (True, Some g) \<Rightarrow> (Ok g, c)
      | _ \<Rightarrow>
        (case config_load_or_default s (cl_config c) of
           Inl e \<Rightarrow> (Err (error_text e), c)
         | Inr g \<Rightarrow> (Ok g, c\<lparr>cl_cache := (cl_cache c)\<lparr>cs_config := Some g\<rparr>\<rparr>)))"

definition update_memory_in_cache :: "local_state_dir \<Rightarrow> memory_file \<Rightarrow> cached_state \<Rightarrow> cached_state" where
  "update_memory_in_cache s memory cache =
     (if cs_state_root cache = state_root s then cache\<lparr>cs_memory := Some memory\<rparr> else cache)"

section \<open>What a command shows\<close>

definition sync_window_warning :: "crates \<Rightarrow> datetime option \<Rightarrow> datetime \<Rightarrow> json option" where
  "sync_window_warning x last_sync_at now =
     (case last_sync_at of
        None \<Rightarrow> None
      | Some last_sync \<Rightarrow>
        (let age = now - last_sync;
             age_seconds = (if age < 0 then - ((- age) div 1000000000) else age div 1000000000);
             num = (if age_seconds < 0 then JNum (NegInt age_seconds) else jnat (nat age_seconds));
             warning = (\<lambda>level message. obj [(''level'', JStr level), (''last_sync_at'', enc_time x last_sync),
                          (''age_seconds'', num), (''message'', JStr message)])
         in if age \<ge> seconds (7 * 86400)
            then Some (warning ''stale'' (''device is past the seven-day sync window and may be missing state; '' @
                   ''restore or compare against a fresher backup''))
            else if age \<ge> seconds (5 * 86400)
            then Some (warning ''warning'' (''device is approaching the seven-day sync window edge; '' @
                   ''run aichan sync or refresh from a newer backup''))
            else None))"

text \<open>The JSON that \<^verbatim>\<open>aichan identity --json\<close> and \<^verbatim>\<open>aichan status --json\<close> print.\<close>

definition print_identity :: "'n cli_env \<Rightarrow> local_state_dir \<Rightarrow> ('n client, json) step" where
  "print_identity env s = then_do (cached_identity env s) (\<lambda>identity.
     give (obj [
       (''version'', jnat (idf_version identity)),
       (''peer_id'', enc_peer_id (idf_peer_id identity)),
       (''public_key'', JStr (idf_public_key identity)),
       (''private_key_encrypted'', JBool (idf_private_key_encrypted identity)),
       (''created_at'', enc_time (ce_crates env) (idf_created_at identity)),
       (''identity_file'', JStr (identity_path s))]))"

definition print_status :: "'n cli_env \<Rightarrow> local_state_dir \<Rightarrow> ('n client, json) step" where
  "print_status env s =
     then_do (cached_identity env s) (\<lambda>identity.
     then_do (cached_device env s) (\<lambda>device.
     then_do (cached_memory env s) (\<lambda>memory.
     then_do (cached_config env s) (\<lambda>config.
       give (obj [
         (''peer_id'', enc_peer_id (idf_peer_id identity)),
         (''device_id'', JStr (device_str (dev_device_id device))),
         (''base_url'', JStr (effective_base_url config None)),
         (''last_sync_at'', jopt (enc_time (ce_crates env)) (sync_last_sync_at (mem_sync memory))),
         (''sync_warning'', jopt (\<lambda>w. w)
            (sync_window_warning (ce_crates env) (sync_last_sync_at (mem_sync memory)) (ce_now env 0))),
         (''common_tags'', enc_strs (mem_common_tags memory))])))))"

end
