(* ===== verification/Cli_Relay.thy ===== *)
theory Cli_Relay
  imports Cli_State
begin

text \<open>
  The client's requests to the relay (\<^verbatim>\<open>crates/aichan/src/main.rs\<close>): \<^verbatim>\<open>relay_request\<close> and its errors, the
  headers of a signed request, and the commands that publish, search, discover and delete public
  records.
\<close>

section \<open>Text\<close>

text \<open>
  \<^verbatim>\<open>String::from_utf8_lossy\<close>: each maximal piece that begins a well-formed sequence and does not go on
  with it becomes U+FFFD.
\<close>

definition replacement :: string where
  "replacement = [CHR 0xEF, CHR 0xBF, CHR 0xBD]"

fun utf8_lossy :: "bytes \<Rightarrow> string" where
  "utf8_lossy [] = []"
| "utf8_lossy (a # r) =
     (if byte a < 128 then a # utf8_lossy r
      else if in_range 194 223 a then
        (case r of [] \<Rightarrow> replacement
         | b # r2 \<Rightarrow> if is_cont b then a # b # utf8_lossy r2 else replacement @ utf8_lossy r)
      else if in_range 224 239 a then
        (case r of [] \<Rightarrow> replacement
         | b # r2 \<Rightarrow>
           if (if byte a = 224 then in_range 160 191 b
               else if byte a = 237 then in_range 128 159 b else is_cont b)
           then (case r2 of [] \<Rightarrow> replacement
                 | c # r3 \<Rightarrow> if is_cont c then a # b # c # utf8_lossy r3 else replacement @ utf8_lossy r2)
           else replacement @ utf8_lossy r)
      else if in_range 240 244 a then
        (case r of [] \<Rightarrow> replacement
         | b # r2 \<Rightarrow>
           if (if byte a = 240 then in_range 144 191 b
               else if byte a = 244 then in_range 128 143 b else is_cont b)
           then (case r2 of [] \<Rightarrow> replacement
                 | c # r3 \<Rightarrow>
                   if is_cont c
                   then (case r3 of [] \<Rightarrow> replacement
                         | d # r4 \<Rightarrow> if is_cont d then a # b # c # d # utf8_lossy r4
                                     else replacement @ utf8_lossy r3)
                   else replacement @ utf8_lossy r2)
           else replacement @ utf8_lossy r)
      else replacement @ utf8_lossy r)"

declare utf8_lossy.simps(2) [simp del]

lemma utf8_lossy_valid: "utf8_valid s \<Longrightarrow> utf8_lossy s = s"
proof (induction "length s" arbitrary: s rule: less_induct)
  case less
  show ?case
  proof (cases s)
    case (Cons a r)
    have ih: "utf8_valid t \<Longrightarrow> length t < length s \<Longrightarrow> utf8_lossy t = t" for t by (rule less.hyps)
    note valid = less.prems [unfolded Cons utf8_valid.simps(2)]
    show ?thesis
    proof (cases "byte a < 128")
      case True
      then show ?thesis using valid ih [of r] Cons by (simp add: utf8_lossy.simps(2))
    next
      case False
      with valid obtain b r2 where r: "r = b # r2" by (cases r) auto
      show ?thesis
      proof (cases "in_range 194 223 a")
        case True
        then show ?thesis using valid False ih [of r2] Cons r by (simp add: utf8_lossy.simps(2))
      next
        case two: False
        with valid False r obtain c r3 where r2: "r2 = c # r3" by (cases r2) auto
        show ?thesis
        proof (cases "in_range 224 239 a")
          case True
          then show ?thesis using valid False two ih [of r3] Cons r r2 by (simp add: utf8_lossy.simps(2))
        next
          case three: False
          with valid False two r r2 obtain d r4 where r3: "r3 = d # r4" by (cases r3) auto
          then show ?thesis using valid False two three ih [of r4] Cons r r2 by (simp add: utf8_lossy.simps(2))
        qed
      qed
    qed
  qed simp
qed

definition body_text :: "relay_response \<Rightarrow> string" where
  "body_text r = utf8_lossy (rr_body r)"

section \<open>One exchange\<close>

definition do_ureq_call ::
  "'n cli_env \<Rightarrow> string \<Rightarrow> string \<Rightarrow> (string \<times> string) list \<Rightarrow> bytes \<Rightarrow> 'n \<Rightarrow> (string + relay_response) \<times> 'n" where
  "do_ureq_call env verb url headers body net =
     (case ce_relay env \<lparr>cr_method = verb, cr_url = url, cr_headers = headers, cr_body = body\<rparr> net of
        (Inr response, net') \<Rightarrow> (Ok response, net')
      | (Inl (Transport e), net') \<Rightarrow> (Err (verb @ '' '' @ url), net')
      | (Inl (BodyUnread e), net') \<Rightarrow> (Err (''read response body '' @ verb @ '' '' @ url), net')
      | (Inl (ErrorBodyUnread e), net') \<Rightarrow> (Err (''read error response body '' @ verb @ '' '' @ url), net'))"

text \<open>
  \<open>source\<close> is \<^verbatim>\<open>source.to_string()\<close>: the outermost context of the error, which is what \<open>do_ureq_call\<close>
  has put around the error of ureq.
\<close>

definition relay_send_error :: "string \<Rightarrow> string \<Rightarrow> string \<Rightarrow> string \<Rightarrow> nat \<Rightarrow> string" where
  "relay_send_error source verb url p elapsed_ms =
     ''request '' @ verb @ '' '' @ url @ '' failed after '' @ show_nat elapsed_ms @ ''ms'' @
     (if find_sub ''timeout'' source \<noteq> None \<or> find_sub ''TimedOut'' source \<noteq> None
      then ''; connection or TLS handshake timed out before the relay handler responded'' @
           (if p = ''/v1/publish/search?limit=100''
            then ''; send was discovering the recipient key, so a cached or explicit recipient key avoids this lookup''
            else []) @
           ''; retry once, set AICHAN_TRACE_HTTP=1 for timings, or increase --timeout on slow networks''
      else [])"

definition relay_request ::
  "'n cli_env \<Rightarrow> string \<Rightarrow> string \<Rightarrow> string \<Rightarrow> (string \<times> string) list \<Rightarrow> bytes \<Rightarrow> ('n client, relay_response) step" where
  "relay_request env verb base_url p headers body c =
     (let url = trim_end_slash base_url @ p in
      if verb \<notin> {''GET'', ''POST'', ''PUT'', ''DELETE''}
      then (Err (''unsupported HTTP method: '' @ verb), c)
      else case do_ureq_call env verb url headers body (cl_net c) of
        (Inl source, net) \<Rightarrow>
          (Err (relay_send_error source verb url p (ce_elapsed_ms env)), c\<lparr>cl_net := net\<rparr>)
      | (Inr response, net) \<Rightarrow> (Ok response, c\<lparr>cl_net := net\<rparr>))"

text \<open>What a command prints of a response: its text, or a JSON value set out over lines.\<close>

datatype shown = ShownText string | ShownJson json

definition print_relay_response :: "crates \<Rightarrow> relay_response \<Rightarrow> bool \<Rightarrow> string + shown" where
  "print_relay_response x response as_json =
     (if rr_status response \<ge> 400
      then Err (''relay returned HTTP '' @ show_nat (rr_status response) @ '': '' @ body_text response)
      else if as_json then Ok (ShownText (body_text response))
      else case json_read x (rr_body response) of
        Inr v \<Rightarrow> Ok (ShownJson (value_of v))
      | Inl e \<Rightarrow> Ok (ShownText (body_text response)))"

section \<open>Signed requests\<close>

definition signature_headers :: "crates \<Rightarrow> aichan_request_signature \<Rightarrow> (string \<times> string) list" where
  "signature_headers x s =
     [(''Aichan-Protocol'', ars_protocol s), (''Aichan-Peer-Id'', peer_str (ars_peer_id s)),
      (''Aichan-Public-Key'', ars_public_key s), (''Aichan-Timestamp'', rfc3339 x (ars_timestamp s)),
      (''Aichan-Nonce'', ars_nonce s), (''Aichan-Signature'', ars_value s)]"

definition request_to_relay ::
  "string \<Rightarrow> string \<Rightarrow> identity_file \<Rightarrow> datetime \<Rightarrow> string \<Rightarrow> string option \<Rightarrow> request_to_sign" where
  "request_to_relay verb p identity now uuid idempotency_key =
     \<lparr>rts_method = verb, rts_path_and_query = p, rts_body = [], rts_peer_id = idf_peer_id identity,
      rts_public_key = idf_public_key identity, rts_timestamp = now, rts_nonce = ''nonce_'' @ uuid,
      rts_idempotency_key = idempotency_key\<rparr>"

section \<open>Public records\<close>

definition discover_path :: "string list \<Rightarrow> nat \<Rightarrow> string option \<Rightarrow> string" where
  "discover_path tags limit seed =
     (let tags = map query_escape (filter (\<lambda>tag. tag \<noteq> []) (map trim tags))
      in ''/v1/discover?limit='' @ show_nat (min (max limit 1) 25) @
         (if tags = [] then [] else ''&tags='' @ join_on (CHR '','') tags) @
         (case seed of
            None \<Rightarrow> []
          | Some s \<Rightarrow> if trim s = [] then [] else ''&seed='' @ query_escape (trim s)))"

definition publish_search_path :: "nat \<Rightarrow> string option \<Rightarrow> string" where
  "publish_search_path limit tag =
     ''/v1/publish/search?limit='' @ show_nat limit @
     (case tag of None \<Rightarrow> [] | Some t \<Rightarrow> ''&tag='' @ query_escape t)"

definition publish_search_command ::
  "'n cli_env \<Rightarrow> local_state_dir \<Rightarrow> string option \<Rightarrow> nat \<Rightarrow> string option \<Rightarrow> bool \<Rightarrow> ('n client, shown) step" where
  "publish_search_command env s tag limit base_url as_json =
     then_do (cached_config env s) (\<lambda>config.
     then_do (relay_request env ''GET'' (effective_base_url config base_url) (publish_search_path limit tag) [] [])
       (\<lambda>response. check (print_relay_response (ce_crates env) response as_json)))"

definition discover ::
  "'n cli_env \<Rightarrow> local_state_dir \<Rightarrow> string list \<Rightarrow> nat \<Rightarrow> string option \<Rightarrow> string option \<Rightarrow> bool \<Rightarrow>
   ('n client, shown) step" where
  "discover env s tags limit seed base_url as_json =
     then_do (cached_config env s) (\<lambda>config.
     then_do (relay_request env ''GET'' (effective_base_url config base_url) (discover_path tags limit seed) [] [])
       (\<lambda>response. check (print_relay_response (ce_crates env) response as_json)))"

definition normalize_tags :: "string list \<Rightarrow> string list" where
  "normalize_tags tags = filter (\<lambda>tag. tag \<noteq> []) (map (\<lambda>tag. to_ascii_lowercase (trim tag)) tags)"

definition build_publish_record ::
  "'n cli_env \<Rightarrow> local_state_dir \<Rightarrow> string \<Rightarrow> string list \<Rightarrow> ('n client, publish_object) step" where
  "build_publish_record env s body tags =
     (let x = ce_crates env; now = ce_now env 0 in
      then_do (load_identity env s) (\<lambda>identity.
      then_do (check_core (identity_message_key_pair x identity)) (\<lambda>message_keys.
      then_do (check_core (identity_signing_key x identity)) (\<lambda>signing_key.
        check_core (sign_object x (enc_publish x) signing_key
          (new_object ''publish.record'' (''pub_'' @ ce_uuid env 0) now
             \<lparr>prp_peer_id = idf_peer_id identity, prp_public_key = idf_public_key identity,
              prp_tags = normalize_tags tags, prp_contact_policy = ''encrypted_messages'',
              prp_capabilities = \<lparr>cap_message_encryption =
                [\<lparr>mek_suite = MESSAGE_ENCRYPTION_SUITE, mek_key_id = kp_key_id message_keys,
                  mek_public_key = kp_public_key message_keys\<rparr>]\<rparr>,
              prp_body = body, prp_updated_at = now\<rparr>))))))"

datatype 'a sent = DryRun 'a | Sent shown

definition publish ::
  "'n cli_env \<Rightarrow> local_state_dir \<Rightarrow> string \<Rightarrow> string list \<Rightarrow> string option \<Rightarrow> bool \<Rightarrow> bool \<Rightarrow>
   ('n client, publish_object sent) step" where
  "publish env s body tags base_url dry_run as_json =
     (let x = ce_crates env in
      then_do (build_publish_record env s body tags) (\<lambda>signed.
        if dry_run then give (DryRun signed)
        else
          then_do (cached_config env s) (\<lambda>config.
          then_do (relay_request env ''POST'' (effective_base_url config base_url) ''/v1/publish''
                     [(''Content-Type'', ''application/json'')] (json_text x (enc_signed x (enc_publish x) signed)))
            (\<lambda>response. check (map_ok Sent (print_relay_response x response as_json))))))"

definition publish_delete ::
  "'n cli_env \<Rightarrow> local_state_dir \<Rightarrow> string \<Rightarrow> string option \<Rightarrow> bool \<Rightarrow> ('n client, shown) step" where
  "publish_delete env s publish_id base_url as_json =
     (let x = ce_crates env; p = ''/v1/publish/'' @ publish_id in
      then_do (cached_identity env s) (\<lambda>identity.
      then_do (check_core (identity_signing_key x identity)) (\<lambda>signing_key.
      then_do (cached_config env s) (\<lambda>config.
      then_do (check_core (sign_request x (request_to_relay ''DELETE'' p identity (ce_now env 0) (ce_uuid env 0)
                 (Some (''idem_'' @ ce_uuid env 1))) signing_key)) (\<lambda>signature.
      then_do (relay_request env ''DELETE'' (effective_base_url config base_url) p
                 (signature_headers x signature @
                    [(''Idempotency-Key'', case ars_idempotency_key signature of Some k \<Rightarrow> k | None \<Rightarrow> [])]) [])
        (\<lambda>response. check (print_relay_response x response as_json)))))))"

end
