(* ===== verification/Cli_Laws.thy ===== *)
theory Cli_Laws
  imports Cli_State
begin

text \<open>
  The local files of the client: an identity is made once and stays, what it can do, and that the
  cache of a command shows what the files hold.
\<close>

lemma ensure_message_keys_ok:
  assumes "base64_law x" "x25519_law x" "entropy_ok ent" "validate_identity x i0 = Ok ()"
    and "ensure_message_key_pair x ent i0 = (b, i)"
  shows "validate_identity x i = Ok () \<and> message_keys_ok x i \<and> (\<not> b \<longrightarrow> i = i0)"
proof (cases "message_keys_ok x i0")
  case True
  then show ?thesis using assms(4,5) by (auto simp: ensure_message_key_pair_def message_keys_ok_def)
next
  case False
  then have i: "b" "i = set_message_keys (generate_message_keys x (''key_'' @ ent_uuid ent) (ent_message_key ent)) i0"
    using assms(5) by (auto simp: ensure_message_key_pair_def message_keys_ok_def)
  have "message_keys_ok x i"
    unfolding i(2) by (rule set_message_keys_ok [OF generated_keys_valid [OF assms(1-3)]])
  with validate_message_keys [OF assms(4) this i(2)] i(1) show ?thesis by blast
qed

lemma read_identity_Ok: "read_identity x p f = Ok i \<longleftrightarrow> f = Content i \<and> validate_identity x i = Ok ()"
  by (auto simp: read_identity_def and_then_Ok_iff read_json_Ok)

lemma identity_loaded:
  assumes laws: "base64_law x" "x25519_law x" "ed25519_law x" "entropy_ok ent"
    and l: "identity_create_or_load x s mk w ent raced f = (Ok i, f')"
  shows "validate_identity x i = Ok () \<and> f' = Content i \<and> (message_keys_ok x i \<or> f = Missing \<and> raced = Content i)"
proof (cases "file_exists f")
  case True
  then obtain i0 where r: "read_identity x (identity_path s) f = Ok i0"
    using l by (cases "read_identity x (identity_path s) f") (auto simp: identity_create_or_load_def)
  obtain b i1 where e: "ensure_message_key_pair x ent i0 = (b, i1)"
    by (cases "ensure_message_key_pair x ent i0")
  have "validate_identity x i0 = Ok ()" "f = Content i0" using r by (simp_all add: read_identity_Ok)
  with ensure_message_keys_ok [OF laws(1,2,4) this(1) e] show ?thesis
    using l True r e by (cases b) (auto simp: identity_create_or_load_def map_ok_Ok_iff split: prod.splits dest: write_json_Ok)
next
  case False
  then have "f = Missing" by (simp add: file_exists_def)
  moreover have "ensure_dirs s mk = Ok ()"
    using l False by (cases "ensure_dirs s mk") (auto simp: identity_create_or_load_def)
  ultimately show ?thesis
    using l False new_identity_valid [OF laws(1-4)]
    by (cases "file_exists raced"; cases w)
      (auto simp: identity_create_or_load_def write_new_identity_def write_json_def Let_def read_identity_Ok
        split: sum.splits io_kind.splits)
qed

text \<open>
  C19. An identity is made once and stays: what \<^verbatim>\<open>create_or_load\<close> returns is valid and is what the file
  then holds, also when another process made it first; and from then on, once it has its message
  keys, every call returns this same identity and leaves the file as it is.
\<close>

theorem identity_stable:
  assumes "base64_law x" "x25519_law x" "ed25519_law x" "entropy_ok ent"
    and "identity_create_or_load x s mk w ent raced f = (Ok i, f')"
  shows "validate_identity x i = Ok () \<and> f' = Content i \<and>
    (message_keys_ok x i \<longrightarrow>
      (\<forall>mk' w' ent' raced'. identity_create_or_load x s mk' w' ent' raced' f' = (Ok i, f')))"
proof -
  note l = identity_loaded [OF assms]
  then have "read_identity x p (Content i) = Ok i" for p by (simp add: read_identity_Ok)
  with l show ?thesis
    by (simp add: identity_create_or_load_def ensure_message_key_pair_def message_keys_ok_def Let_def)
qed

lemma sample_entropy_ok:
  "entropy_ok \<lparr>ent_signing_key = sample_key, ent_message_key = sample_key, ent_uuid = ''0a'', ent_now = sample_now\<rparr>"
  by (simp add: entropy_ok_def is_ascii_hexdigit_def is_digit_def in_range_def)

definition sample_entropy :: entropy where
  "sample_entropy = \<lparr>ent_signing_key = sample_key, ent_message_key = sample_key, ent_uuid = ''0a'', ent_now = sample_now\<rparr>"

theorem identity_stable_witness:
  "\<exists>i. identity_create_or_load toy ''/home/a'' dirs_made Written sample_entropy Missing Missing = (Ok i, Content i) \<and>
     identity_create_or_load toy ''/home/a'' dirs_made Written sample_entropy Missing (Content i) = (Ok i, Content i)"
proof -
  have l: "identity_create_or_load toy ''/home/a'' dirs_made Written sample_entropy Missing Missing
      = (Ok (new_identity toy sample_entropy), Content (new_identity toy sample_entropy))"
    by (simp add: identity_create_or_load_def write_new_identity_def Let_def)
  have e: "entropy_ok sample_entropy" unfolding sample_entropy_def by (rule sample_entropy_ok)
  from new_identity_valid [OF toy_laws(1,5,4) e] identity_stable [OF toy_laws(1,5,4) e l] l show ?thesis by blast
qed

section \<open>Who a client is\<close>

lemma identity_signs:
  assumes "validate_identity x i = Ok ()" "identity_signing_key x i = Ok sk"
  shows "length sk = 32 \<and> idf_peer_id i = derive_peer_id x (ed_public x sk) \<and>
    b64_decode x (idf_public_key i) = Ok (ed_public x sk)"
  using assms by (auto simp: validate_identity_Ok identity_signing_key_Ok)

lemma load_identity_Ok:
  assumes laws: "base64_law (ce_crates env)" "x25519_law (ce_crates env)" "ed25519_law (ce_crates env)"
      "entropy_ok (ce_entropy env)"
    and l: "load_identity env s c = (Ok i, c')"
  shows "validate_identity (ce_crates env) i = Ok () \<and> c' = c\<lparr>cl_identity := Content i\<rparr>"
  using identity_loaded [OF laws] l
  by (auto simp: load_identity_def map_err_Ok_iff split: prod.splits)

end
