(* ===== verification/Request_Flow.thy ===== *)
theory Request_Flow
  imports Server_Props Cli_Relay Cli_Laws
begin

text \<open>
  A signed request from the client to the relay: what the client signs and puts into headers, the
  relay reads, verifies and lets through once; and when it lets the same request through again.
\<close>

section \<open>From the client to the server\<close>

text \<open>
  What HTTP carries of a request of the client: the method, the path and query after the base URL, the
  headers by name, the body, and no idempotency key of its own.
\<close>

definition carries :: "string \<Rightarrow> cli_request \<Rightarrow> http_request \<Rightarrow> bool" where
  "carries base_url cr q \<longleftrightarrow>
     rq_method q = cr_method cr \<and> trim_end_slash base_url @ rq_path_and_query q = cr_url cr \<and>
     rq_body q = cr_body cr \<and> (\<forall>(name, v) \<in> set (cr_headers cr). header q name = Some v) \<and>
     (''Idempotency-Key'' \<notin> fst ` set (cr_headers cr) \<longrightarrow> header q ''Idempotency-Key'' = None)"

text \<open>The request that \<open>relay_request\<close> hands to ureq.\<close>

definition outgoing :: "string \<Rightarrow> string \<Rightarrow> string \<Rightarrow> (string \<times> string) list \<Rightarrow> bytes \<Rightarrow> cli_request" where
  "outgoing verb base_url p headers body =
     \<lparr>cr_method = verb, cr_url = trim_end_slash base_url @ p, cr_headers = headers, cr_body = body\<rparr>"

lemma relay_request_outgoing:
  "verb \<in> {''GET'', ''POST'', ''PUT'', ''DELETE''} \<Longrightarrow>
   ce_relay env (outgoing verb base_url p headers body) (cl_net c) = (Ok resp, net) \<Longrightarrow>
   relay_request env verb base_url p headers body c = (Ok resp, c\<lparr>cl_net := net\<rparr>)"
  by (simp add: relay_request_def do_ureq_call_def outgoing_def)

definition idempotency_header :: "string option \<Rightarrow> (string \<times> string) list" where
  "idempotency_header k = (case k of None \<Rightarrow> [] | Some v \<Rightarrow> [(''Idempotency-Key'', v)])"

lemma nonce_not_blank:
  assumes "list_all is_ascii_hexdigit uuid"
  shows "trim (''nonce_'' @ uuid) \<noteq> []"
proof -
  have "list_all (in_range 33 126) (''nonce_'' @ uuid)"
    using assms by (auto simp: list_all_iff is_ascii_hexdigit_def is_digit_def in_range_def)
  from trim_graphic [OF this] show ?thesis by simp
qed

lemma client_signature_read:
  assumes laws: "base64_law x" "ed25519_law x" "rfc3339_law x"
    and sk: "length sk = 32" "rts_public_key r = b64_encode x (ed_public x sk)"
      "rts_peer_id r = derive_peer_id x (ed_public x sk)"
    and r: "four_digit_year (rts_timestamp r)" "trim (rts_nonce r) \<noteq> []" "rts_body r = []"
    and s: "sign_request x r sk = Ok sg"
    and q: "carries base_url (outgoing (rts_method r) base_url (rts_path_and_query r)
              (signature_headers x sg @ idempotency_header (rts_idempotency_key r)) []) q"
  shows "signed_by x q sg \<and> ars_timestamp sg = rts_timestamp r \<and> ars_peer_id sg = rts_peer_id r \<and> ars_nonce sg = rts_nonce r"
proof -
  have v: "verify_request x sg r = Ok ()" using signed_request_ok [OF laws(1,2) sk] s by auto
  have sg: "ars_peer_id sg = rts_peer_id r" "ars_public_key sg = rts_public_key r" "ars_timestamp sg = rts_timestamp r"
      "ars_nonce sg = rts_nonce r" "ars_idempotency_key sg = rts_idempotency_key r" "ars_protocol sg = PROTOCOL_ID"
      "ars_alg sg = ED25519_ALG"
    using v by (simp_all add: verify_request_Ok)
  have h: "header q ''Aichan-Protocol'' = Some (ars_protocol sg)" "header q ''Aichan-Peer-Id'' = Some (peer_str (ars_peer_id sg))"
      "header q ''Aichan-Public-Key'' = Some (ars_public_key sg)"
      "header q ''Aichan-Timestamp'' = Some (rfc3339 x (ars_timestamp sg))"
      "header q ''Aichan-Nonce'' = Some (ars_nonce sg)" "header q ''Aichan-Signature'' = Some (ars_value sg)"
      "header q ''Idempotency-Key'' = ars_idempotency_key sg"
    using q sg(5) by (cases "rts_idempotency_key r";
      auto simp: carries_def outgoing_def signature_headers_def idempotency_header_def)+
  have "peer_id_parse (peer_str (ars_peer_id sg)) = Ok (ars_peer_id sg)"
    unfolding sg(1) sk(3) by (cases "derive_peer_id x (ed_public x sk)")
      (use derive_peer_id_prefix [of x "ed_public x sk"] in \<open>simp add: peer_id_parse_def\<close>)
  moreover have "rfc3339_parse x (rfc3339 x (ars_timestamp sg)) = Ok (ars_timestamp sg)"
    using laws(3) r(1) sg(3) by (simp add: rfc3339_law_def)
  ultimately have "request_signature_from_headers x q = Ok sg"
    using h sg(4,7) r(2)
    by (cases sg) (simp add: request_signature_from_headers_def required_header_def ED25519_ALG_def)
  moreover have "request_as_received q sg = r"
    using q sg r(3) by (cases r) (simp add: request_as_received_def carries_def outgoing_def)
  ultimately show ?thesis using v sg by (simp add: signed_by_def)
qed

lemma client_signed:
  assumes laws: "base64_law x" "ed25519_law x" "rfc3339_law x"
    and i: "validate_identity x i = Ok ()" "identity_signing_key x i = Ok sk"
    and t: "four_digit_year now" "list_all is_ascii_hexdigit uuid"
    and s: "sign_request x (request_to_relay verb p i now uuid idem) sk = Ok sg"
    and q: "carries base_url (outgoing verb base_url p (signature_headers x sg @ idempotency_header idem) []) q"
  shows "signed_by x q sg \<and> ars_timestamp sg = now \<and> ars_peer_id sg = idf_peer_id i \<and> ars_nonce sg = ''nonce_'' @ uuid"
proof -
  let ?r = "request_to_relay verb p i now uuid idem"
  from identity_signs [OF i]
  have k: "length sk = 32" "idf_peer_id i = derive_peer_id x (ed_public x sk)" by auto
  have pk: "rts_public_key ?r = b64_encode x (ed_public x sk)"
    using s by (auto simp: sign_request_def split: if_splits)
  show ?thesis
    using client_signature_read [OF laws k(1) pk _ _ _ _ s, of base_url q] k(2) t nonce_not_blank [OF t(2)] q
    by (simp add: request_to_relay_def)
qed

text \<open>
  C16. What the client signs, the relay lets in: a request signed with the identity's key (as
  \<^verbatim>\<open>aichan inbox\<close> and \<^verbatim>\<open>aichan publish-delete\<close> do) and carried by HTTP is accepted by the relay as that
  peer's, provided that the two clocks agree to 300 seconds and the nonce is new; and the relay then
  remembers the nonce.
\<close>

theorem client_request_accepted:
  assumes laws: "base64_law x" "ed25519_law x" "rfc3339_law x"
    and i: "validate_identity x i = Ok ()" "identity_signing_key x i = Ok sk"
    and t: "four_digit_year now" "list_all is_ascii_hexdigit uuid"
    and s: "sign_request x (request_to_relay verb p i now uuid idem) sk = Ok sg"
    and q: "carries base_url (outgoing verb base_url p (signature_headers x sg @ idempotency_header idem) []) q"
    and clock: "server_now - seconds 300 \<le> now" "now \<le> server_now + seconds 300"
    and seen: "bt_ok seen" "seen_at seen (idf_peer_id i) (''nonce_'' @ uuid) = None"
  shows "\<exists>seen'. authenticate_signed x what server_now q seen = (Ok sg, seen') \<and> ars_peer_id sg = idf_peer_id i \<and>
    seen_at seen' (idf_peer_id i) (''nonce_'' @ uuid) = Some server_now"
  using client_signed [OF laws i t s q] clock
    mark_nonce_get [OF seen(1), of "idf_peer_id i" "''nonce_'' @ uuid" server_now] seen(2)
  by (auto simp: authenticate_signed_Ok signature_fresh_def)

text \<open>A carrier: the request with its headers set one after the other.\<close>

definition with_headers :: "(string \<times> string) list \<Rightarrow> http_request \<Rightarrow> http_request" where
  "with_headers hs r = foldl (\<lambda>r (name, v). with_header name v r) r hs"

lemma header_with_header:
  "header (with_header n v r) m = (if normalize_header_name m = normalize_header_name n then Some v else header r m)"
  by (simp add: header_def with_header_def bt_get_insert)

lemma with_headers_simps [simp]:
  "with_headers [] r = r" "with_headers ((n, v) # hs) r = with_headers hs (with_header n v r)"
  by (simp_all add: with_headers_def)

lemma with_header_keeps [simp]:
  "rq_method (with_header n v r) = rq_method r" "rq_path_and_query (with_header n v r) = rq_path_and_query r"
  "rq_body (with_header n v r) = rq_body r"
  by (simp_all add: with_header_def)

lemma aichan_header_names:
  "normalize_header_name ''Aichan-Protocol'' = ''aichan-protocol''"
  "normalize_header_name ''Aichan-Peer-Id'' = ''aichan-peer-id''"
  "normalize_header_name ''Aichan-Public-Key'' = ''aichan-public-key''"
  "normalize_header_name ''Aichan-Timestamp'' = ''aichan-timestamp''"
  "normalize_header_name ''Aichan-Nonce'' = ''aichan-nonce''"
  "normalize_header_name ''Aichan-Signature'' = ''aichan-signature''"
  "normalize_header_name ''Idempotency-Key'' = ''idempotency-key''"
  by code_simp+

definition signed_get :: "crates \<Rightarrow> string \<Rightarrow> aichan_request_signature \<Rightarrow> http_request" where
  "signed_get x p sg = with_headers (signature_headers x sg) (http_request_new ''GET'' p)"

lemma new_get [simp]:
  "rq_method (http_request_new ''GET'' p) = ''GET''" "rq_path_and_query (http_request_new m p) = p"
  "rq_body (http_request_new m p) = []" "header (http_request_new m p) n = None"
  by (simp_all add: http_request_new_def header_def bt_get_def to_ascii_uppercase_def ascii_upper_def
      is_ascii_lower_def in_range_def)

lemma signed_get_carries:
  "carries base_url (outgoing ''GET'' base_url p (signature_headers x sg) []) (signed_get x p sg)"
  by (simp add: carries_def outgoing_def signed_get_def signature_headers_def header_with_header aichan_header_names)

lemma sample_identity_valid:
  "validate_identity toy (new_identity toy sample_entropy) = Ok ()"
  "identity_signing_key toy (new_identity toy sample_entropy) = Ok sample_key"
  "message_keys_ok toy (new_identity toy sample_entropy)"
proof -
  have e: "entropy_ok sample_entropy" unfolding sample_entropy_def by (rule sample_entropy_ok)
  from new_identity_valid [OF toy_laws(1,5,4) e] show "validate_identity toy (new_identity toy sample_entropy) = Ok ()"
      and "message_keys_ok toy (new_identity toy sample_entropy)" by auto
  show "identity_signing_key toy (new_identity toy sample_entropy) = Ok sample_key"
    by (simp add: identity_signing_key_Ok new_identity_def Let_def sample_entropy_def unhex_text)
qed

lemma sample_signs:
  obtains sg where "sign_request toy (request_to_relay ''GET'' p (new_identity toy sample_entropy) now uuid None) sample_key = Ok sg"
proof -
  let ?i = "new_identity toy sample_entropy"
  have "idf_public_key ?i = b64_encode toy (ed_public toy sample_key)"
      "idf_peer_id ?i = derive_peer_id toy (ed_public toy sample_key)"
    by (simp_all add: new_identity_def Let_def sample_entropy_def)
  then show ?thesis
    using signed_request_ok [OF toy_laws(1,4) length_sample_key, of "request_to_relay ''GET'' p ?i now uuid None"] that
    by (auto simp: request_to_relay_def)
qed

theorem client_request_accepted_witness:
  "\<exists>sg seen'. authenticate_signed toy ''Inbox'' (sample_now + seconds 200) (signed_get toy ''/v1/inbox'' sg) [] = (Ok sg, seen') \<and>
     ars_peer_id sg = idf_peer_id (new_identity toy sample_entropy)"
proof -
  obtain sg where sg: "sign_request toy (request_to_relay ''GET'' ''/v1/inbox'' (new_identity toy sample_entropy)
      sample_now ''0a'' None) sample_key = Ok sg" by (rule sample_signs)
  have t: "four_digit_year sample_now" "list_all is_ascii_hexdigit ''0a''"
    by (simp_all add: is_ascii_hexdigit_def is_digit_def in_range_def)
  from client_request_accepted [OF toy_laws(1,4,7) sample_identity_valid(1,2) t sg, of "''http://relay''"
      "signed_get toy ''/v1/inbox'' sg" "sample_now + seconds 200" "[]" "''Inbox''"]
  show ?thesis
    by (fastforce simp: signed_get_carries idempotency_header_def bt_ok_def seen_at_def bt_get_def seconds_def)
qed

section \<open>The replay window\<close>

text \<open>
  C17. A signed request can be replayed: nonces are forgotten 300 seconds after they were seen, but a
  timestamp is good until 300 seconds after itself. So where the client's clock was ahead of the
  relay's, a request that was accepted is accepted again, with the same signature and nonce, from the
  moment its nonce is forgotten until its timestamp expires.
\<close>

theorem replay_after_window:
  assumes "bt_ok seen" and "authenticate_signed x what first request seen = (Ok sg, seen')"
    and "first + seconds 300 < second" and "second \<le> ars_timestamp sg + seconds 300"
  shows "\<exists>seen''. authenticate_signed x what' second request seen' = (Ok sg, seen'')"
proof -
  have a: "signed_by x request sg" "signature_fresh first sg seen"
      "seen' = snd (mark_nonce_once (ars_peer_id sg) (ars_nonce sg) first seen)"
    using assms(2) by (simp_all add: authenticate_signed_Ok)
  have f: "fst (mark_nonce_once (ars_peer_id sg) (ars_nonce sg) first seen)"
      "ars_timestamp sg \<le> first + seconds 300" using a(2) by (simp_all add: signature_fresh_def)
  have "bt_ok seen'" unfolding a(3) using assms(1) by (rule mark_nonce_ok)
  moreover have "seen_at seen' (ars_peer_id sg) (ars_nonce sg) = Some first"
    unfolding a(3) using mark_nonce_get(2) [OF assms(1)] f(1) by simp
  ultimately have "fst (mark_nonce_once (ars_peer_id sg) (ars_nonce sg) second seen')"
    using mark_nonce_get(1) [of seen' "ars_peer_id sg" "ars_nonce sg" second] assms(3) by simp
  moreover have "ars_timestamp sg \<le> second + seconds 300" using f(2) assms(3) seconds_pos [of 300] by simp
  ultimately show ?thesis using a(1) assms(4) by (auto simp: authenticate_signed_Ok signature_fresh_def)
qed

theorem replay_after_window_witness:
  "\<exists>sg seen' seen''. authenticate_signed toy ''Inbox'' sample_now (signed_get toy ''/v1/inbox'' sg) [] = (Ok sg, seen') \<and>
     authenticate_signed toy ''Inbox'' (sample_now + seconds 301) (signed_get toy ''/v1/inbox'' sg) seen' = (Ok sg, seen'')"
proof -
  let ?t = "sample_now + seconds 100"
  obtain sg where sg: "sign_request toy (request_to_relay ''GET'' ''/v1/inbox'' (new_identity toy sample_entropy)
      ?t ''0a'' None) sample_key = Ok sg" by (rule sample_signs)
  have "four_digit_year ?t" by (simp add: four_digit_year_def sample_now_def seconds_def)
  then have g: "signed_by toy (signed_get toy ''/v1/inbox'' sg) sg" "ars_timestamp sg = ?t"
    using client_signed [OF toy_laws(1,4,7) sample_identity_valid(1,2) _ _ sg, of "''http://relay''"
        "signed_get toy ''/v1/inbox'' sg"]
    by (simp_all add: signed_get_carries idempotency_header_def is_ascii_hexdigit_def is_digit_def in_range_def)
  then obtain seen' where a: "authenticate_signed toy ''Inbox'' sample_now (signed_get toy ''/v1/inbox'' sg) [] = (Ok sg, seen')"
    by (simp add: authenticate_signed_Ok signature_fresh_def mark_nonce_once_def bt_get_def seconds_def)
  have "sample_now + seconds 301 \<le> ars_timestamp sg + seconds 300"
    unfolding g(2) by (simp add: seconds_def)
  moreover have "sample_now + seconds 300 < sample_now + seconds 301" by simp
  ultimately show ?thesis using replay_after_window [OF _ a, of "sample_now + seconds 301" "''Inbox''"] a
    unfolding bt_ok_def by force
qed

end
