(* ===== verification/Cli_Messages.thy ===== *)
theory Cli_Messages
  imports Cli_Relay
begin

text \<open>
  Private messages on the client (\<^verbatim>\<open>crates/aichan/src/main.rs\<close>): the cache of recipients' keys and their
  discovery in public records, the sealed and signed envelope, sending it, and fetching and opening
  the inbox.
\<close>

section \<open>Files\<close>

text \<open>\<^verbatim>\<open>std::fs::write\<close> with a bare question mark: the error has the text of the operating system.\<close>

definition write_plain :: "write_outcome \<Rightarrow> 'a \<Rightarrow> 'a json_file \<Rightarrow> (string + unit) \<times> 'a json_file" where
  "write_plain w a f =
     (case w of
        Written \<Rightarrow> (Ok (), Content a)
      | Refused k e \<Rightarrow> (Err e, f)
      | Torn k e \<Rightarrow> (Err e, Garbled ''EOF while parsing a value''))"

lemma write_plain_Written [simp]: "write_plain Written a f = (Ok (), Content a)"
  by (simp add: write_plain_def)

section \<open>Recipients' keys\<close>

definition default_key_cache :: recipient_key_cache_file where
  "default_key_cache = \<lparr>rkc_version = 1, rkc_peers = []\<rparr>"

definition read_recipient_key_cache ::
  "local_state_dir \<Rightarrow> recipient_key_cache_file json_file \<Rightarrow> string + recipient_key_cache_file" where
  "read_recipient_key_cache s f =
     (let p = recipient_key_cache_path s in
      case f of
        Missing \<Rightarrow> Ok default_key_cache
      | Unreadable k e \<Rightarrow> Err (''read '' @ p)
      | Garbled e \<Rightarrow> Err (''parse '' @ p)
      | Content cache \<Rightarrow>
          (if rkc_version cache \<noteq> 1
           then Err (''unsupported recipient key cache version '' @ show_nat (rkc_version cache))
           else Ok cache))"

definition cached_recipient_message_key ::
  "local_state_dir \<Rightarrow> peer_id \<Rightarrow> recipient_key_cache_file json_file \<Rightarrow> string + (string \<times> string) option" where
  "cached_recipient_message_key s recipient f =
     (if \<not> file_exists f then Ok None
      else map_ok (\<lambda>cache. map_option (\<lambda>peer. (crk_key_id peer, crk_public_key peer))
             (find (\<lambda>peer. crk_peer_id peer = peer_str recipient \<and> crk_suite peer = MESSAGE_ENCRYPTION_SUITE)
                (rkc_peers cache)))
           (read_recipient_key_cache s f))"

definition cache_recipient_message_key ::
  "'n cli_env \<Rightarrow> local_state_dir \<Rightarrow> datetime \<Rightarrow> peer_id \<Rightarrow> string \<Rightarrow> string \<Rightarrow> ('n client, unit) step" where
  "cache_recipient_message_key env s now recipient key_id public_key c =
     (case ensure_dirs s (ce_dirs env) of
        Inl e \<Rightarrow> (Err (error_text e), c)
      | Inr _ \<Rightarrow>
        (let cache = (case read_recipient_key_cache s (cl_keys c) of Inl e \<Rightarrow> default_key_cache | Inr cache \<Rightarrow> cache);
             kept = filter (\<lambda>peer. \<not> (crk_peer_id peer = peer_str recipient \<and>
                      crk_suite peer = MESSAGE_ENCRYPTION_SUITE)) (rkc_peers cache);
             entry = \<lparr>crk_peer_id = peer_str recipient, crk_suite = MESSAGE_ENCRYPTION_SUITE,
                      crk_key_id = key_id, crk_public_key = public_key, crk_updated_at = now\<rparr>;
             (r, f) = write_plain (ce_write env (recipient_key_cache_path s) 0)
                        \<lparr>rkc_version = 1, rkc_peers = kept @ [entry]\<rparr> (cl_keys c)
         in (r, c\<lparr>cl_keys := f\<rparr>)))"

text \<open>The elements of the array \<^verbatim>\<open>records\<close> of an answer, none if there is no such array.\<close>

definition records_of :: "json \<Rightarrow> json list" where
  "records_of v = (case Option.bind (jget v ''records'') as_array of None \<Rightarrow> [] | Some rs \<Rightarrow> rs)"

fun first_message_key :: "crates \<Rightarrow> peer_id \<Rightarrow> json list \<Rightarrow> (string \<times> string) option" where
  "first_message_key x recipient [] = None"
| "first_message_key x recipient (record # records) =
     (case dec_signed x (dec_publish x) record of
        None \<Rightarrow> first_message_key x recipient records
      | Some object \<Rightarrow>
        (case verify_publish_record x object of
           Inl e \<Rightarrow> first_message_key x recipient records
         | Inr peer_id \<Rightarrow>
           if peer_str peer_id \<noteq> peer_str recipient then first_message_key x recipient records
           else (case find (\<lambda>key. mek_suite key = MESSAGE_ENCRYPTION_SUITE)
                        (cap_message_encryption (prp_capabilities (obj_payload object))) of
                   Some key \<Rightarrow> Some (mek_key_id key, mek_public_key key)
                 | None \<Rightarrow> first_message_key x recipient records)))"

definition extract_recipient_message_key :: "crates \<Rightarrow> json \<Rightarrow> peer_id \<Rightarrow> string + (string \<times> string)" where
  "extract_recipient_message_key x v recipient =
     ok_or (''could not find message encryption key for recipient '' @ peer_str recipient)
       (first_message_key x recipient (records_of v))"

definition discover_recipient_message_key ::
  "'n cli_env \<Rightarrow> string \<Rightarrow> peer_id \<Rightarrow> ('n client, string \<times> string) step" where
  "discover_recipient_message_key env base_url recipient =
     then_do (relay_request env ''GET'' base_url ''/v1/publish/search?limit=100'' [] []) (\<lambda>response.
       if rr_status response \<ge> 400
       then fail (''relay returned HTTP '' @ show_nat (rr_status response) @ '' while discovering recipient: ''
              @ body_text response)
       else then_do (check (map_ok value_of (json_read (ce_crates env) (rr_body response))))
         (\<lambda>v. check (extract_recipient_message_key (ce_crates env) v recipient)))"

section \<open>The envelope\<close>

definition build_message_envelope ::
  "'n cli_env \<Rightarrow> local_state_dir \<Rightarrow> peer_id \<Rightarrow> string \<Rightarrow> string \<Rightarrow> string \<Rightarrow> ('n client, message_object) step" where
  "build_message_envelope env s recipient body recipient_key_id recipient_public_key =
     (let x = ce_crates env; now = ce_now env 0; message_id = ''msg_'' @ ce_uuid env 0 in
      then_do (load_identity env s) (\<lambda>identity.
      then_do (check_core (identity_signing_key x identity)) (\<lambda>signing_key.
      (let plaintext = json_text x (obj [(''version'', jnat 1), (''body'', JStr body), (''sent_at'', enc_time x now)]);
           aad = message_encryption_aad message_id (peer_str (idf_peer_id identity)) (peer_str recipient) (rfc3339 x now)
       in then_do (check_core (encrypt_private_message x (ce_random env 0) (ce_random env 1)
                     recipient_public_key recipient_key_id plaintext aad)) (\<lambda>sealed.
          check_core (sign_object x (enc_message x) signing_key
            (new_object ''message.envelope'' message_id now
               \<lparr>mep_sender = idf_peer_id identity, mep_recipient = recipient,
                mep_content_encoding = ''application/aichan+json; version=1'',
                mep_encryption = \<lparr>me_suite = sm_suite sealed, me_recipient_key_id = sm_recipient_key_id sealed,
                  me_ephemeral_public_key = sm_ephemeral_public_key sealed, me_nonce = sm_nonce sealed\<rparr>,
                mep_ciphertext = sm_ciphertext sealed, mep_expires_at = now + seconds 604800,
                mep_ttl_seconds = 604800\<rparr>)))))))"

text \<open>The log of the messages of a peer: a line of JSON is appended to its file.\<close>

definition message_log_entry :: "crates \<Rightarrow> string \<Rightarrow> peer_id \<Rightarrow> message_object \<Rightarrow> bool \<Rightarrow> json" where
  "message_log_entry x direction peer_id object plaintext_stored = obj [
     (''version'', jnat 1), (''direction'', JStr direction), (''peer_id'', enc_peer_id peer_id),
     (''message_id'', JStr (obj_id object)), (''created_at'', enc_time x (obj_created_at object)),
     (''plaintext_stored'', JBool plaintext_stored), (''envelope'', value_of (enc_signed x (enc_message x) object))]"

definition append_local_message_log ::
  "'n cli_env \<Rightarrow> local_state_dir \<Rightarrow> string \<Rightarrow> peer_id \<Rightarrow> message_object \<Rightarrow> bool \<Rightarrow> ('n client, unit) step" where
  "append_local_message_log env s direction peer_id object plaintext_stored c =
     (case ensure_dirs s (ce_dirs env) of
        Inl e \<Rightarrow> (Err (error_text e), c)
      | Inr _ \<Rightarrow>
        (let p = peer_messages_path s (peer_str peer_id);
             entry = json_text (ce_crates env) (message_log_entry (ce_crates env) direction peer_id object plaintext_stored)
                       @ [CHR 0x0A]
         in case ce_append env p (obj_id object) of
              Appended \<Rightarrow> (Ok (), c\<lparr>cl_logs := (cl_logs c)(p := cl_logs c p @ entry)\<rparr>)
            | OpenFailed e \<Rightarrow> (Err (''open '' @ p), c)
            | AppendTorn k e \<Rightarrow> (Err e, c\<lparr>cl_logs := (cl_logs c)(p := cl_logs c p @ take k entry)\<rparr>)))"

section \<open>Sending\<close>

definition recipient_key ::
  "'n cli_env \<Rightarrow> local_state_dir \<Rightarrow> peer_id \<Rightarrow> string option \<Rightarrow> string option \<Rightarrow> string option \<Rightarrow>
   ('n client, string \<times> string) step" where
  "recipient_key env s recipient key_id public_key base_url =
     (let cache = (\<lambda>k p. cache_recipient_message_key env s (ce_now env 1) recipient k p) in
      case (key_id, public_key) of
        (Some k, Some p) \<Rightarrow> then_do (cache k p) (\<lambda>_. give (k, p))
      | _ \<Rightarrow>
        then_do (\<lambda>c. (cached_recipient_message_key s recipient (cl_keys c), c)) (\<lambda>found.
          case found of
            Some kp \<Rightarrow> give kp
          | None \<Rightarrow>
              then_do (cached_config env s) (\<lambda>config.
              then_do (discover_recipient_message_key env (effective_base_url config base_url) recipient) (\<lambda>(k, p).
              then_do (cache k p) (\<lambda>_. give (k, p))))))"

definition send_message ::
  "'n cli_env \<Rightarrow> local_state_dir \<Rightarrow> string \<Rightarrow> string \<Rightarrow> string option \<Rightarrow> string option \<Rightarrow> string option \<Rightarrow>
   bool \<Rightarrow> bool \<Rightarrow> ('n client, message_object sent) step" where
  "send_message env s recipient_peer_id body key_id public_key base_url dry_run as_json =
     (let x = ce_crates env in
      then_do (check_core (peer_id_parse recipient_peer_id)) (\<lambda>recipient.
      then_do (recipient_key env s recipient key_id public_key base_url) (\<lambda>(k, p).
      then_do (build_message_envelope env s recipient body k p) (\<lambda>object.
        if dry_run then give (DryRun object)
        else
          then_do (cached_config env s) (\<lambda>config.
          then_do (relay_request env ''POST'' (effective_base_url config base_url) ''/v1/messages''
                     [(''Content-Type'', ''application/json'')] (json_text x (enc_signed x (enc_message x) object)))
            (\<lambda>response.
          then_do (if rr_status response < 400
                   then append_local_message_log env s ''outbound'' (mep_recipient (obj_payload object)) object False
                   else give ())
            (\<lambda>_. check (map_ok Sent (print_relay_response x response as_json)))))))))"

section \<open>The inbox\<close>

definition sealed_of :: "message_object \<Rightarrow> sealed_private_message" where
  "sealed_of object =
     (let e = mep_encryption (obj_payload object)
      in \<lparr>sm_suite = me_suite e, sm_recipient_key_id = me_recipient_key_id e,
          sm_ephemeral_public_key = me_ephemeral_public_key e, sm_nonce = me_nonce e,
          sm_ciphertext = mep_ciphertext (obj_payload object)\<rparr>)"

definition inbox_cache_path :: "local_state_dir \<Rightarrow> message_object \<Rightarrow> string" where
  "inbox_cache_path s object = join_path (inbox_cache_dir s) (obj_id object @ ''.json'')"

text \<open>The text of a message, opened with the keys of the recipient.\<close>

definition open_message :: "crates \<Rightarrow> message_key_pair \<Rightarrow> message_object \<Rightarrow> string + string" where
  "open_message x message_keys object =
     (let p = obj_payload object;
          aad = message_encryption_aad (obj_id object) (peer_str (mep_sender p)) (peer_str (mep_recipient p))
                  (rfc3339 x (obj_created_at object))
      in and_then (map_err error_text (decrypt_private_message x message_keys (sealed_of object) aad)) (\<lambda>plaintext.
         and_then (map_ok value_of (json_read x plaintext)) (\<lambda>v.
           Ok (case Option.bind (jget v ''body'') as_str of None \<Rightarrow> [] | Some b \<Rightarrow> b))))"

definition inbox_message :: "crates \<Rightarrow> message_object \<Rightarrow> string \<Rightarrow> json" where
  "inbox_message x object body = obj [
     (''id'', JStr (obj_id object)), (''sender'', enc_peer_id (mep_sender (obj_payload object))),
     (''recipient'', enc_peer_id (mep_recipient (obj_payload object))),
     (''created_at'', enc_time x (obj_created_at object)), (''body'', JStr body)]"

text \<open>One turn of the loop over the records: \<^verbatim>\<open>None\<close> for a message that is in the cache.\<close>

definition inbox_record ::
  "'n cli_env \<Rightarrow> local_state_dir \<Rightarrow> identity_file \<Rightarrow> message_key_pair \<Rightarrow> json \<Rightarrow> ('n client, json option) step" where
  "inbox_record env s identity message_keys record =
     (let x = ce_crates env in
      then_do (check (ok_or (serde_error x (json_text x record)) (dec_signed x (dec_message x) record))) (\<lambda>object.
      then_do (check (map_err (\<lambda>_. ''message envelope verification failed for '' @ obj_id object)
                 (verify_message_envelope x object))) (\<lambda>_.
      if mep_recipient (obj_payload object) \<noteq> idf_peer_id identity
      then fail (''message envelope recipient '' @ peer_str (mep_recipient (obj_payload object)) @
             '' does not match local peer '' @ peer_str (idf_peer_id identity))
      else
        (let p = inbox_cache_path s object in
         then_do (\<lambda>c. (Ok (file_exists (cl_inbox c p)), c)) (\<lambda>cached.
           if cached then give None
           else
             then_do (check (open_message x message_keys object)) (\<lambda>body.
             then_do (check_core (ensure_dirs s (ce_dirs env))) (\<lambda>_.
             then_do (\<lambda>c. (let (r, f) = write_plain (ce_write env p 0) object (cl_inbox c p)
                           in (r, c\<lparr>cl_inbox := (cl_inbox c)(p := f)\<rparr>))) (\<lambda>_.
             then_do (append_local_message_log env s ''inbound'' (mep_sender (obj_payload object)) object False) (\<lambda>_.
               give (Some (inbox_message x object body))))))))))) "

fun inbox_records ::
  "'n cli_env \<Rightarrow> local_state_dir \<Rightarrow> identity_file \<Rightarrow> message_key_pair \<Rightarrow> json list \<Rightarrow> ('n client, json list) step" where
  "inbox_records env s identity message_keys [] = give []"
| "inbox_records env s identity message_keys (record # records) =
     then_do (inbox_record env s identity message_keys record) (\<lambda>m.
     then_do (inbox_records env s identity message_keys records) (\<lambda>ms.
       give (case m of None \<Rightarrow> ms | Some v \<Rightarrow> v # ms)))"

definition inbox_path :: "nat \<Rightarrow> string" where
  "inbox_path limit = ''/v1/inbox?limit='' @ show_nat (min (max limit 1) 100)"

text \<open>What \<^verbatim>\<open>aichan inbox --json\<close> prints.\<close>

definition inbox ::
  "'n cli_env \<Rightarrow> local_state_dir \<Rightarrow> nat \<Rightarrow> string option \<Rightarrow> ('n client, json) step" where
  "inbox env s limit base_url =
     (let x = ce_crates env; p = inbox_path limit in
      then_do (cached_identity env s) (\<lambda>identity.
      then_do (check_core (identity_message_key_pair x identity)) (\<lambda>message_keys.
      then_do (check_core (identity_signing_key x identity)) (\<lambda>signing_key.
      then_do (cached_config env s) (\<lambda>config.
      then_do (check_core (sign_request x (request_to_relay ''GET'' p identity (ce_now env 0) (ce_uuid env 0) None)
                 signing_key)) (\<lambda>signature.
      then_do (relay_request env ''GET'' (effective_base_url config base_url) p (signature_headers x signature) [])
        (\<lambda>response.
      if rr_status response \<ge> 400
      then check (map_ok (\<lambda>_. JNull) (print_relay_response x response False))
      else
        then_do (check (map_ok value_of (json_read x (rr_body response)))) (\<lambda>v.
        then_do (inbox_records env s identity message_keys (records_of v)) (\<lambda>messages.
          give (obj [(''count'', jnat (length messages)), (''messages'', JArr messages)]))))))))))"

end
