(* ===== verification/Message_Flow.thy ===== *)
theory Message_Flow
  imports Request_Flow Cli_Messages
begin

text \<open>
  A private message from end to end: the envelope the sender builds, its way through the relay's
  handlers and store, the signed request of the recipient's inbox, and what the recipient reads.
\<close>

text \<open>A \<^verbatim>\<open>Value\<close> read back is the value it was.\<close>

lemma value_of_value: "is_value v \<Longrightarrow> value_of v = v"
proof (induction v rule: value_of.induct)
  case (5 vs)
  then show ?case by (auto simp: list_all_iff intro: map_idI)
next
  case (6 m)
  then have "map (\<lambda>(k, v). (k, value_of v)) m = m" by (force simp: list_all_iff intro: map_idI)
  with 6(2) show ?case by (simp add: obj_def bt_collect_ok)
qed simp_all

section \<open>The envelope a client builds\<close>

lemma envelope_built:
  assumes laws: "base64_law x" "x25519_law x" "hkdf_law x" "aead_law x" "ed25519_law x" "rfc3339_law x" "json_law x"
    and env: "ce_crates env = x" "entropy_ok (ce_entropy env)" "length (ce_random env 0) = 32"
      "length (ce_random env 1) = 12" "four_digit_year (ce_now env 0)"
      "four_digit_year (ce_now env 0 + seconds 604800)"
    and keys: "validate_key_pair x keys = Ok ()"
    and b: "build_message_envelope env s recipient body (kp_key_id keys) (kp_public_key keys) c = (Ok ob, c')"
  shows "obj_id ob = ''msg_'' @ ce_uuid env 0 \<and> obj_created_at ob = ce_now env 0 \<and>
    mep_recipient (obj_payload ob) = recipient \<and> message_codec.object_storable ob \<and>
    mep_expires_at (obj_payload ob) = obj_created_at ob + seconds 604800 \<and>
    mep_ttl_seconds (obj_payload ob) = 604800 \<and>
    verify_message_envelope x ob = Ok (mep_sender (obj_payload ob)) \<and> open_message x keys ob = Ok body \<and>
    (\<exists>i. cl_identity c' = Content i \<and> validate_identity x i = Ok () \<and> mep_sender (obj_payload ob) = idf_peer_id i)"
proof -
  let ?now = "ce_now env 0" and ?id = "''msg_'' @ ce_uuid env 0"
  let ?plain = "json_text x (obj [(''version'', jnat 1), (''body'', JStr body), (''sent_at'', enc_time x ?now)])"
  obtain i c1 where l: "load_identity env s c = (Ok i, c1)"
    using b by (auto simp: build_message_envelope_def then_do_Ok Let_def env(1))
  let ?aad = "message_encryption_aad ?id (peer_str (idf_peer_id i)) (peer_str recipient) (rfc3339 x ?now)"
  obtain sk sealed where sk: "identity_signing_key x i = Ok sk"
      and e: "encrypt_private_message x (ce_random env 0) (ce_random env 1) (kp_public_key keys) (kp_key_id keys)
                ?plain ?aad = Ok sealed"
      and sg: "sign_object x (enc_message x) sk (new_object ''message.envelope'' ?id ?now
         \<lparr>mep_sender = idf_peer_id i, mep_recipient = recipient,
          mep_content_encoding = ''application/aichan+json; version=1'',
          mep_encryption = \<lparr>me_suite = sm_suite sealed, me_recipient_key_id = sm_recipient_key_id sealed,
            me_ephemeral_public_key = sm_ephemeral_public_key sealed, me_nonce = sm_nonce sealed\<rparr>,
          mep_ciphertext = sm_ciphertext sealed, mep_expires_at = ?now + seconds 604800, mep_ttl_seconds = 604800\<rparr>) = Ok ob"
      (is "sign_object x _ sk ?u = Ok ob") and c': "c' = c1"
    using b l by (auto simp: build_message_envelope_def then_do_Ok Let_def env(1))
  from load_identity_Ok [OF _ _ _ env(2) l] laws(1,2,5) env(1)
  have i: "validate_identity x i = Ok ()" "cl_identity c1 = Content i" by auto
  from identity_signs [OF i(1) sk] have k: "length sk = 32" "idf_peer_id i = derive_peer_id x (ed_public x sk)"
    by auto
  have u: "obj_type ?u = ''message.envelope''" "obj_protocol ?u = PROTOCOL_ID"
      "mep_sender (obj_payload ?u) = derive_peer_id x (ed_public x sk)" "message_storable ?u"
    using env(5,6) k(2) by (simp_all add: new_object_def message_storable_def u64_max_def)
  from signed_message_ok [OF laws(1,5) k(1) u] sg
  have ob: "unsigned ob = ?u" "message_codec.object_storable ob" "verify_message_envelope x ob = Ok (idf_peer_id i)"
    using k(2) by auto
  have f: "obj_payload ob = obj_payload ?u" "obj_id ob = ?id" "obj_created_at ob = ?now"
    using unsigned_selectors [of ob] unfolding ob(1) by (simp_all add: new_object_def)
  have "sealed_of ob = sealed" using f(1) by (simp add: sealed_of_def new_object_def)
  with sealed_message_opened [OF laws(1-4) keys env(3,4) e]
  have dec: "decrypt_private_message x keys (sealed_of ob) (message_encryption_aad (obj_id ob)
      (peer_str (mep_sender (obj_payload ob))) (peer_str (mep_recipient (obj_payload ob)))
      (rfc3339 x (obj_created_at ob))) = Ok ?plain"
    using f by (simp add: new_object_def)
  have plain: "json_plain 127 (obj [(''version'', jnat 1), (''body'', JStr body), (''sent_at'', enc_time x ?now)])"
    by (rule json_plain_mono [of 1]) (auto intro!: json_plain_obj simp: enc_time_def)
  have "is_value (obj [(''version'', jnat 1), (''body'', JStr body), (''sent_at'', enc_time x ?now)])"
    by (rule is_value_obj) (auto simp: enc_time_def)
  note v = value_of_value [OF this]
  have "open_message x keys ob = Ok body"
    unfolding open_message_def Let_def dec
    using json_read_text [OF laws(7) plain] v by (simp add: jget_obj)
  then show ?thesis using f ob(2,3) i c' by (auto simp: new_object_def)
qed

section \<open>At the relay\<close>

lemma route_messages [simp]: "route_of ''POST'' ''/v1/messages'' = PostMessageRoute"
  "path (json_post ''/v1/messages'' body) = ''/v1/messages''"
  "route_of ''GET'' ''/v1/inbox'' = InboxRoute"
  by (simp_all add: route_of_def path_def admin_publish_path_def strip_prefix_def)

lemma message_posted:
  assumes laws: "rfc3339_law x" "json_law x" and ob: "message_codec.object_storable ob" "envelope_valid x ob"
    and q: "request = json_post ''/v1/messages'' (json_text x (enc_signed x (enc_message x) ob))"
      "let_through env request s" "env_io env = io_ok"
    and rs: "load (sv_messages s) = Ok rs" "\<forall>e \<in> set rs. sm_id e \<noteq> obj_id ob"
  shows "\<exists>r log s'. handle_request x pages env request s = (r, log, s') \<and> rs_status r = 201 \<and>
    load (sv_messages s') = Ok (rs @ [\<lparr>sm_object = ob, sm_stored_at = env_later env\<rparr>]) \<and>
    sv_rate_buckets s' = snd (check_rate_limit (sv_rate_config s) (env_instant env) request (sv_rate_buckets s)) \<and>
    sv_seen s' = sv_seen s \<and> sv_rate_config s' = sv_rate_config s"
proof -
  obtain b r log s' where d: "dispatch x pages env request (s\<lparr>sv_rate_buckets := b\<rparr>) = (r, log, s')"
      and h: "handle_request x pages env request s = (r, log @ [CompletionLine request r], s')"
      and l: "b = snd (check_rate_limit (sv_rate_config s) (env_instant env) request (sv_rate_buckets s))"
    by (rule let_through_dispatch [OF q(2), of x pages])
  note parsed = message_codec.from_json_signed [OF laws ob(1)]
  have v: "validate_message_envelope x ob = Ok (mep_sender (obj_payload ob))"
    using ob(2) by (simp add: validate_message_envelope_Ok)
  have "message_insert_records (env_later env) ob rs
      = ((), Some (rs @ [\<lparr>sm_object = ob, sm_stored_at = env_later env\<rparr>]))"
    using rs(2) by (auto simp: message_insert_records_def)
  from store_update_ok(2) [where f = "message_insert_records (env_later env) ob", OF rs(1) this]
  obtain d' where d': "message_insert io_ok (env_later env) ob (sv_messages s) = (Ok (), d')"
      "load d' = Ok (rs @ [\<lparr>sm_object = ob, sm_stored_at = env_later env\<rparr>])"
    unfolding message_insert_def by blast
  then have "rs_status r = 201 \<and> s' = s\<lparr>sv_rate_buckets := b, sv_messages := d'\<rparr>"
    using d parsed v q(1,3) by (auto simp: dispatch_file post_message_def post_message_on_def)
  with h l d'(2) show ?thesis by auto
qed

lemma digits_unreserved: "query_escape (show_nat n) = show_nat n"
proof -
  have "list_all is_unreserved (show_nat n)"
    using show_nat_facts [of n] by (auto simp: list_all_iff is_unreserved_def)
  moreover have "concat (map (\<lambda>b. if is_unreserved b then [b]
      else if b = CHR '' '' then ''+'' else CHR ''%'' # hex2_upper b) s) = s" if "list_all is_unreserved s" for s
    using that by (induction s) auto
  ultimately show ?thesis by (simp add: query_escape_def)
qed

lemma inbox_request_params:
  assumes "rq_path_and_query q = inbox_path limit"
  shows "path q = ''/v1/inbox'' \<and> limit_param (request_params q) 50 100 = min (max limit 1) 100"
proof -
  let ?n = "min (max limit 1) 100"
  have e: "inbox_path limit = ''/v1/inbox'' @ CHR ''?'' # build_query [(''limit'', show_nat ?n)]"
  proof -
    have "query_escape ''limit'' = ''limit''" by code_simp
    then show ?thesis by (simp add: inbox_path_def build_query_def digits_unreserved)
  qed
  then have s: "split_once (CHR ''?'') (inbox_path limit) = Some (''/v1/inbox'', build_query [(''limit'', show_nat ?n)])"
    by simp
  have "list_all (\<lambda>c. byte c < 128) (show_nat ?n)"
    using show_nat_facts [of ?n] by (auto simp: list_all_iff is_digit_def in_range_def)
  then have "utf8_valid (show_nat ?n)" by (rule utf8_valid_ascii)
  moreover have "utf8_valid ''limit''" by code_simp
  ultimately have "request_params q = bt_collect [(''limit'', show_nat ?n)]"
    using assms s by (simp add: request_params_def query_def parse_build_query)
  moreover have "parse_usize (show_nat ?n) = Some ?n" by (rule parse_show_nat) (simp add: usize_max_def)
  ultimately show ?thesis
    using assms s by (auto simp: path_def limit_param_def bt_get_collect Let_def)
qed

lemma inbox_answered:
  assumes q: "rq_method q = ''GET''" "rq_path_and_query q = inbox_path limit"
      "signed_by x q sg" "signature_fresh (env_now env) sg (sv_seen s)" "let_through env q s"
    and rs: "load (sv_messages s) = Ok rs"
  shows "\<exists>r log s'. handle_request x pages env q s = (r, log, s') \<and>
    (let records = map sm_object (take (min (max limit 1) 100) (inbox_order (ars_peer_id sg) (env_later env) rs))
     in r = json_response x 200 (obj [(''count'', jnat (length records)),
              (''records'', JArr (map (message_value x) records)), (''next_cursor'', JNull), (''has_more'', JBool False)]))"
proof -
  obtain b r log s' where d: "dispatch x pages env q (s\<lparr>sv_rate_buckets := b\<rparr>) = (r, log, s')"
      and h: "handle_request x pages env q s = (r, log @ [CompletionLine q r], s')"
    by (rule let_through_dispatch [OF q(5), of x pages])
  obtain seen' where a: "authenticate_signed x ''Inbox'' (env_now env) q (sv_seen s) = (Ok sg, seen')"
    using q(3,4) by (auto simp: authenticate_signed_Ok)
  from inbox_request_params [OF q(2)] d a rs q(1) h show ?thesis
    by (auto simp: dispatch_file get_inbox_def get_inbox_on_def message_inbox_def Let_def INBOX_DEFAULT_LIMIT_def INBOX_MAX_LIMIT_def)
qed

section \<open>At the recipient\<close>

text \<open>The recipient's client and the relay see the same envelopes.\<close>

lemma message_value_read:
  "rfc3339_law x \<Longrightarrow> message_codec.object_storable ob \<Longrightarrow> dec_signed x (dec_message x) (message_value x ob) = Some ob"
  by (simp add: message_value_def message_codec.dec_value_signed)

lemma message_value_is_value: "is_value (message_value x ob)"
  by (simp add: message_value_def is_value_value_of)

lemma inbox_body_read:
  assumes "json_law x" "list_all message_codec.object_storable records" "length records < 2 ^ 64"
  shows "map_ok value_of (json_read x (json_text x (obj [(''count'', jnat (length records)),
     (''records'', JArr (map (message_value x) records)), (''next_cursor'', JNull), (''has_more'', JBool False)])))
    = Ok (obj [(''count'', jnat (length records)), (''records'', JArr (map (message_value x) records)),
          (''next_cursor'', JNull), (''has_more'', JBool False)])" (is "map_ok value_of (json_read x (json_text x ?v)) = _")
proof -
  have "\<forall>ob \<in> set records. json_plain 5 (message_value x ob)"
    using assms(2) by (auto simp: message_value_def list_all_iff message_codec.signed_value_plain)
  then have "json_plain (Suc 5) (JArr (map (message_value x) records))"
    unfolding json_plain.simps by (auto simp: list_all_iff)
  then have r: "json_plain 6 (JArr (map (message_value x) records))" by simp
  have "json_plain (Suc 6) ?v" by (rule json_plain_obj) (use r assms(3) in auto)
  then have p: "json_plain 127 ?v" by (rule json_plain_mono) simp
  have "is_value ?v" by (rule is_value_obj) (auto simp: list_all_iff message_value_is_value)
  then show ?thesis using json_read_text [OF assms(1) p] value_of_value by simp
qed

lemma records_of_body:
  "records_of (obj [(''count'', a), (''records'', JArr vs), (''next_cursor'', b), (''has_more'', c)]) = vs"
  by (simp add: records_of_def jget_obj)

text \<open>One record of the answer, new to the recipient, whose writes succeed.\<close>

lemma inbox_record_new:
  assumes x: "ce_crates env = x" "rfc3339_law x"
    and ob: "message_codec.object_storable ob" "verify_message_envelope x ob = Ok p"
      "mep_recipient (obj_payload ob) = idf_peer_id i" "open_message x keys ob = Ok body"
    and io: "ensure_dirs s (ce_dirs env) = Ok ()" "ce_write env (inbox_cache_path s ob) 0 = Written"
      "ce_append env (peer_messages_path s (peer_str (mep_sender (obj_payload ob)))) (obj_id ob) = Appended"
    and new: "cl_inbox c (inbox_cache_path s ob) = Missing"
  shows "\<exists>c'. inbox_record env s i keys (message_value x ob) c = (Ok (Some (inbox_message x ob body)), c') \<and>
    cl_inbox c' = (cl_inbox c)(inbox_cache_path s ob := Content ob)"
  using assms
  by (simp add: inbox_record_def message_value_read then_do_def Let_def append_local_message_log_def)

section \<open>From end to end\<close>

lemma sort_by_empty: "sort_by f xs = [] \<longleftrightarrow> xs = []"
  by (metis length_0_conv length_sort_by)

lemma inbox_order_append:
  assumes "inbox_order p now rs = []" "mep_recipient (sm_payload e) = p" "now < mep_expires_at (sm_payload e)"
  shows "inbox_order p now (rs @ [e]) = [e]"
  using assms by (simp add: inbox_order_def sort_by_empty)

text \<open>
  C5. A private message arrives, and only as it was written. The sender's client seals and signs it for the
  recipient's published key; posted to the relay, it is answered 201; when the recipient, within
  seven days, sends the signed request of the inbox, the relay answers 200, and from the answer the
  recipient's client takes exactly this one message, with the sender's peer id and the text that was
  written (where the recipient has no other message waiting and the local files can be written).
\<close>

theorem message_delivered:
  assumes laws: "base64_law x" "x25519_law x" "hkdf_law x" "aead_law x" "ed25519_law x" "rfc3339_law x" "json_law x"
    and sender: "ce_crates env = x" "entropy_ok (ce_entropy env)" "length (ce_random env 0) = 32"
      "length (ce_random env 1) = 12" "four_digit_year (ce_now env 0)"
      "four_digit_year (ce_now env 0 + seconds 604800)"
    and recipient: "validate_identity x i = Ok ()" "identity_signing_key x i = Ok sk"
      "identity_message_key_pair x i = Ok keys"
    and built: "build_message_envelope env st (idf_peer_id i) body (kp_key_id keys) (kp_public_key keys) c = (Ok ob, c')"
      "length (mep_ciphertext (obj_payload ob)) \<le> 65536"
    and relay: "load (sv_messages s) = Ok rs" "\<forall>e \<in> set rs. sm_id e \<noteq> obj_id ob"
      "inbox_order (idf_peer_id i) (env_later renv2) rs = []" "env_later renv2 < ce_now env 0 + seconds 604800"
    and post: "let_through renv (json_post ''/v1/messages'' (json_text x (enc_signed x (enc_message x) ob))) s"
      "env_io renv = io_ok"
      "handle_request x pages renv (json_post ''/v1/messages'' (json_text x (enc_signed x (enc_message x) ob))) s
         = (r1, log1, s1)"
    and fetch: "four_digit_year now" "list_all is_ascii_hexdigit uuid"
      "sign_request x (request_to_relay ''GET'' (inbox_path limit) i now uuid None) sk = Ok sg"
      "carries url (outgoing ''GET'' url (inbox_path limit) (signature_headers x sg) []) q" "let_through renv2 q s1"
      "env_now renv2 - seconds 300 \<le> now" "now \<le> env_now renv2 + seconds 300"
      "bt_ok (sv_seen s1)" "seen_at (sv_seen s1) (idf_peer_id i) (''nonce_'' @ uuid) = None"
    and client: "ce_crates env2 = x" "ensure_dirs st2 (ce_dirs env2) = Ok ()"
      "ce_write env2 (inbox_cache_path st2 ob) 0 = Written"
      "ce_append env2 (peer_messages_path st2 (peer_str (mep_sender (obj_payload ob)))) (obj_id ob) = Appended"
      "cl_inbox c2 (inbox_cache_path st2 ob) = Missing"
  shows "rs_status r1 = 201 \<and>
    (\<exists>r2 log2 s2 v c2'. handle_request x pages renv2 q s1 = (r2, log2, s2) \<and> rs_status r2 = 200 \<and>
       map_ok value_of (json_read x (rs_body r2)) = Ok v \<and>
       inbox_records env2 st2 i keys (records_of v) c2 = (Ok [inbox_message x ob body], c2') \<and>
       (\<exists>sender. cl_identity c' = Content sender \<and> mep_sender (obj_payload ob) = idf_peer_id sender))"
proof -
  have kv: "validate_key_pair x keys = Ok ()"
    using recipient(3) by (simp add: identity_message_key_pair_Ok)
  note b = envelope_built [OF laws sender kv built(1)]
  have ob: "message_codec.object_storable ob" "envelope_valid x ob" "open_message x keys ob = Ok body"
      "mep_recipient (obj_payload ob) = idf_peer_id i"
    using b built(2) by (simp_all add: envelope_valid_def)
  let ?e = "\<lparr>sm_object = ob, sm_stored_at = env_later renv\<rparr>"
  from message_posted [OF laws(6,7) ob(1,2) refl post(1,2) relay(1,2), of pages] post(3)
  have p: "rs_status r1 = 201" "load (sv_messages s1) = Ok (rs @ [?e])" by auto
  have order: "inbox_order (idf_peer_id i) (env_later renv2) (rs @ [?e]) = [?e]"
    by (rule inbox_order_append) (use relay(3,4) b in auto)
  have "signed_by x q sg \<and> ars_timestamp sg = now \<and> ars_peer_id sg = idf_peer_id i \<and> ars_nonce sg = ''nonce_'' @ uuid"
    using client_signed [OF laws(1,5,6) recipient(1,2) fetch(1-3), of url q] fetch(4)
    by (simp add: idempotency_header_def)
  then have sg: "signed_by x q sg" "ars_peer_id sg = idf_peer_id i" "signature_fresh (env_now renv2) sg (sv_seen s1)"
    using fetch(6-9) mark_nonce_get(1) [OF fetch(8), of "idf_peer_id i" "''nonce_'' @ uuid" "env_now renv2"]
    by (auto simp: signature_fresh_def)
  have q: "rq_method q = ''GET''" "rq_path_and_query q = inbox_path limit"
    using fetch(4) by (simp_all add: carries_def outgoing_def)
  let ?v = "obj [(''count'', jnat 1), (''records'', JArr [message_value x ob]), (''next_cursor'', JNull),
                 (''has_more'', JBool False)]"
  from inbox_answered [OF q sg(1,3) fetch(5) p(2), of pages]
  obtain log2 s2 where a: "handle_request x pages renv2 q s1 = (json_response x 200 ?v, log2, s2)"
    using order sg(2) by (auto simp: Let_def take_Cons')
  have r: "map_ok value_of (json_read x (rs_body (json_response x 200 ?v))) = Ok ?v"
    using inbox_body_read [OF laws(7), of "[ob]"] ob(1) by simp
  obtain c2' where "inbox_record env2 st2 i keys (message_value x ob) c2 = (Ok (Some (inbox_message x ob body)), c2')"
    using inbox_record_new [OF client(1) laws(6) ob(1) _ ob(4,3) client(2-5)] b by blast
  then have "inbox_records env2 st2 i keys (records_of ?v) c2 = (Ok [inbox_message x ob body], c2')"
    by (simp add: records_of_body then_do_def give_def)
  with p(1) a r b show ?thesis by auto
qed

section \<open>An instance\<close>

text \<open>The toy crates with a short text for one value, so that its ciphertext is short.\<close>

definition short_toy :: "json \<Rightarrow> crates" where
  "short_toy v0 = toy\<lparr>json_text := \<lambda>v. if v = v0 then [] else CHR ''0'' # json_text toy v,
     json_read := \<lambda>s. case s of [] \<Rightarrow> Ok v0 | c # r \<Rightarrow> json_read toy r\<rparr>"

lemma short_toy_laws:
  "base64_law (short_toy v)" "digest_law (short_toy v)" "hkdf_law (short_toy v)" "ed25519_law (short_toy v)"
  "x25519_law (short_toy v)" "aead_law (short_toy v)" "rfc3339_law (short_toy v)" "json_law (short_toy v)"
  using toy_laws
  by (simp_all add: short_toy_def base64_law_def digest_law_def hkdf_law_def ed25519_law_def x25519_law_def
      aead_law_def rfc3339_law_def json_law_def del: toy_selectors)

lemma envelope_builds:
  assumes laws: "base64_law x" "x25519_law x" "hkdf_law x" "aead_law x" "ed25519_law x" "rfc3339_law x"
    and env: "ce_crates env = x" "length (ce_random env 0) = 32" "length (ce_random env 1) = 12"
      "four_digit_year (ce_now env 0)" "four_digit_year (ce_now env 0 + seconds 604800)"
    and l: "load_identity env s c = (Ok i, c1)" "validate_identity x i = Ok ()" "identity_signing_key x i = Ok sk"
    and keys: "validate_key_pair x keys = Ok ()"
  shows "\<exists>ob sealed. build_message_envelope env s recipient body (kp_key_id keys) (kp_public_key keys) c = (Ok ob, c1) \<and>
    mep_ciphertext (obj_payload ob) = sm_ciphertext sealed \<and>
    (\<exists>aad. encrypt_private_message x (ce_random env 0) (ce_random env 1) (kp_public_key keys) (kp_key_id keys)
      (json_text x (obj [(''version'', jnat 1), (''body'', JStr body), (''sent_at'', enc_time x (ce_now env 0))])) aad
      = Ok sealed)"
proof -
  let ?now = "ce_now env 0" and ?id = "''msg_'' @ ce_uuid env 0"
  let ?plain = "json_text x (obj [(''version'', jnat 1), (''body'', JStr body), (''sent_at'', enc_time x ?now)])"
  let ?aad = "message_encryption_aad ?id (peer_str (idf_peer_id i)) (peer_str recipient) (rfc3339 x ?now)"
  from sealed_message_opens [OF laws(1-4) keys env(2,3), of ?plain ?aad]
  obtain sealed where e: "encrypt_private_message x (ce_random env 0) (ce_random env 1) (kp_public_key keys)
      (kp_key_id keys) ?plain ?aad = Ok sealed" by blast
  from identity_signs [OF l(2,3)] have k: "length sk = 32" "idf_peer_id i = derive_peer_id x (ed_public x sk)" by auto
  let ?u = "new_object ''message.envelope'' ?id ?now
         \<lparr>mep_sender = idf_peer_id i, mep_recipient = recipient,
          mep_content_encoding = ''application/aichan+json; version=1'',
          mep_encryption = \<lparr>me_suite = sm_suite sealed, me_recipient_key_id = sm_recipient_key_id sealed,
            me_ephemeral_public_key = sm_ephemeral_public_key sealed, me_nonce = sm_nonce sealed\<rparr>,
          mep_ciphertext = sm_ciphertext sealed, mep_expires_at = ?now + seconds 604800, mep_ttl_seconds = 604800\<rparr>"
  have u: "obj_type ?u = ''message.envelope''" "obj_protocol ?u = PROTOCOL_ID"
      "mep_sender (obj_payload ?u) = derive_peer_id x (ed_public x sk)" "message_storable ?u"
    using env(4,5) k(2) by (simp_all add: new_object_def message_storable_def u64_max_def)
  from signed_message_ok [OF laws(1,5) k(1) u] obtain ob where
    ob: "sign_object x (enc_message x) sk ?u = Ok ob" "unsigned ob = ?u" by blast
  have "build_message_envelope env s recipient body (kp_key_id keys) (kp_public_key keys) c = (Ok ob, c1)"
    using l(1,3) e ob(1) env(1) by (simp add: build_message_envelope_def then_do_def check_core_def Let_def)
  moreover have "obj_payload ob = obj_payload ?u"
    using unsigned_selectors(6) [of ob] unfolding ob(2) by (rule sym)
  then have "mep_ciphertext (obj_payload ob) = sm_ciphertext sealed" by (simp add: new_object_def)
  ultimately show ?thesis using e by blast
qed

lemma new_identity_facts:
  assumes laws: "base64_law x" "x25519_law x" "ed25519_law x" and ent: "entropy_ok ent"
  obtains keys where "validate_identity x (new_identity x ent) = Ok ()"
    "identity_signing_key x (new_identity x ent) = Ok (ent_signing_key ent)"
    "identity_message_key_pair x (new_identity x ent) = Ok keys"
proof -
  from new_identity_valid [OF assms]
  have v: "validate_identity x (new_identity x ent) = Ok ()" "message_keys_ok x (new_identity x ent)" by auto
  have "identity_signing_key x (new_identity x ent) = Ok (ent_signing_key ent)"
    using laws ent by (simp add: identity_signing_key_Ok new_identity_def Let_def base64_roundtrip
        entropy_ok_def ed25519_law_def)
  moreover obtain keys where "identity_message_key_pair x (new_identity x ent) = Ok keys"
    using v(2) by (auto simp: message_keys_ok_def is_ok_def split: sum.splits)
  ultimately show ?thesis using that v(1) by blast
qed

definition sample_cli_env :: "crates \<Rightarrow> unit cli_env" where
  "sample_cli_env x = \<lparr>ce_crates = x, ce_relay = (\<lambda>cr n. (Err (Transport []), n)), ce_elapsed_ms = 0,
     ce_dirs = dirs_made, ce_write = (\<lambda>p n. Written), ce_append = (\<lambda>p i. Appended), ce_entropy = sample_entropy,
     ce_raced = Missing, ce_now = (\<lambda>n. sample_now), ce_uuid = (\<lambda>n. ''0a''),
     ce_random = (\<lambda>n. replicate (if n = 0 then 32 else 12) (CHR ''e''))\<rparr>"

definition sample_client :: "unit client" where
  "sample_client = \<lparr>cl_cache = init_state_cache ''/home/a'', cl_identity = Missing, cl_device = Missing,
     cl_memory = Missing, cl_config = Missing, cl_metadata = Missing, cl_keys = Missing,
     cl_inbox = (\<lambda>p. Missing), cl_logs = (\<lambda>p. []), cl_backups = (\<lambda>p. Missing), cl_net = ()\<rparr>"

lemma sample_cli_env_simps [simp]:
  "ce_crates (sample_cli_env x) = x" "ce_dirs (sample_cli_env x) = dirs_made"
  "ce_write (sample_cli_env x) p n = Written" "ce_append (sample_cli_env x) p i = Appended"
  "ce_entropy (sample_cli_env x) = sample_entropy" "ce_raced (sample_cli_env x) = Missing"
  "ce_now (sample_cli_env x) n = sample_now" "ce_uuid (sample_cli_env x) n = ''0a''"
  "length (ce_random (sample_cli_env x) 0) = 32" "length (ce_random (sample_cli_env x) 1) = 12"
  by (simp_all add: sample_cli_env_def)

lemma sample_load:
  "load_identity (sample_cli_env x) ''/home/a'' sample_client
     = (Ok (new_identity x sample_entropy), sample_client\<lparr>cl_identity := Content (new_identity x sample_entropy)\<rparr>)"
  by (simp add: load_identity_def identity_create_or_load_def write_new_identity_def sample_client_def Let_def)

definition sample_text :: json where
  "sample_text = obj [(''version'', jnat 1), (''body'', JStr ''hi''), (''sent_at'', enc_time toy sample_now)]"

lemma sample_sealed_short:
  assumes "encrypt_private_message (short_toy sample_text) e n p k (json_text (short_toy sample_text)
      (obj [(''version'', jnat 1), (''body'', JStr ''hi''), (''sent_at'', enc_time (short_toy sample_text) sample_now)])) aad
      = Ok sealed"
  shows "length (sm_ciphertext sealed) \<le> 65536"
proof -
  have "enc_time (short_toy sample_text) sample_now = enc_time toy sample_now"
    by (simp add: enc_time_def short_toy_def)
  then have "json_text (short_toy sample_text)
      (obj [(''version'', jnat 1), (''body'', JStr ''hi''), (''sent_at'', enc_time (short_toy sample_text) sample_now)]) = []"
    by (simp only: sample_text_def [symmetric]) (simp add: short_toy_def)
  then have "encrypt_private_message (short_toy sample_text) e n p k [] aad = Ok sealed" using assms by (simp only:)
  then show ?thesis
    by (auto simp: encrypt_private_message_def and_then_Ok_iff Let_def short_toy_def toy_def hex_text_def
        hex2_upper_def)
qed

lemma write_then_read:
  assumes "rq_method p = ''POST''" "rq_method q = ''GET''" "1 \<le> read_per_minute config" "1 \<le> write_per_minute config"
  shows "fst (check_rate_limit config now q (snd (check_rate_limit config now p []))) = None"
  using assms
  by (auto simp: check_rate_limit_def rate_check_def bucket_check_def rate_class_for_request_def class_limit_def
      Let_def bt_get_def split: if_splits)

theorem message_delivered_witness:
  "\<exists>x s i keys ob r1 log1 s1 q r2 log2 s2 v c2'.
     handle_request x sample_pages sample_env (json_post ''/v1/messages'' (json_text x (enc_signed x (enc_message x) ob))) s
       = (r1, log1, s1) \<and> rs_status r1 = 201 \<and>
     handle_request x sample_pages sample_env q s1 = (r2, log2, s2) \<and> rs_status r2 = 200 \<and>
     map_ok value_of (json_read x (rs_body r2)) = Ok v \<and>
     inbox_records (sample_cli_env x) ''/home/a'' i keys (records_of v) sample_client
       = (Ok [inbox_message x ob ''hi''], c2')"
proof -
  let ?x = "short_toy sample_text" and ?env = "sample_cli_env (short_toy sample_text)"
  let ?i = "new_identity ?x sample_entropy"
  note laws = short_toy_laws [of sample_text]
  have ent: "entropy_ok sample_entropy" unfolding sample_entropy_def by (rule sample_entropy_ok)
  obtain keys where i: "validate_identity ?x ?i = Ok ()" "identity_signing_key ?x ?i = Ok (ent_signing_key sample_entropy)"
      "identity_message_key_pair ?x ?i = Ok keys"
    by (rule new_identity_facts [OF laws(1,5,4) ent])
  have kv: "validate_key_pair ?x keys = Ok ()" using i(3) by (simp add: identity_message_key_pair_Ok)
  have t: "four_digit_year (ce_now ?env 0)" "four_digit_year (ce_now ?env 0 + seconds 604800)"
    by (simp_all add: four_digit_year_def sample_now_def seconds_def)
  have r: "length (ce_random ?env 0) = 32" "length (ce_random ?env 1) = 12"
    by (rule sample_cli_env_simps)+
  obtain ob sealed c' where b: "build_message_envelope ?env ''/home/a'' (idf_peer_id ?i) ''hi'' (kp_key_id keys)
        (kp_public_key keys) sample_client = (Ok ob, c')"
      and l: "length (mep_ciphertext (obj_payload ob)) \<le> 65536"
    using envelope_builds [OF laws(1,5,3,6,4,7) sample_cli_env_simps(1) r t sample_load i(1,2) kv, of "idf_peer_id ?i" "''hi''"]
      sample_sealed_short by fastforce
  let ?q1 = "json_post ''/v1/messages'' (json_text ?x (enc_signed ?x (enc_message ?x) ob))"
  obtain s where s: "server_with_stores sample_dir ''http://relay'' (limits_for ?q1) 4 AdminDisabled = Ok s"
      "load (sv_messages s) = Ok []" "sv_seen s = []" "sv_rate_buckets s = []" "sv_rate_config s = limits_for ?q1"
    using sample_server [of "''http://relay''" "limits_for ?q1" 4 AdminDisabled] by auto
  note pass = sample_let_through [OF s(1), of sample_env]
  note built = envelope_built [OF laws(1,5,3,6,4,7,8) sample_cli_env_simps(1) _ r t kv b]
  have ob: "message_codec.object_storable ob" "envelope_valid ?x ob"
    using built ent l by (auto simp: envelope_valid_def)
  from message_posted [OF laws(7,8) ob refl pass, of "[]" sample_pages] s(2)
  obtain r1 log1 s1 where p: "handle_request ?x sample_pages sample_env ?q1 s = (r1, log1, s1)"
      "sv_rate_buckets s1 = snd (check_rate_limit (limits_for ?q1) 0 ?q1 [])" "sv_seen s1 = []"
      "sv_rate_config s1 = limits_for ?q1"
    using s(3-5) by auto
  obtain sg where sg: "sign_request ?x (request_to_relay ''GET'' (inbox_path 50) ?i sample_now ''0a'' None)
      (ent_signing_key sample_entropy) = Ok sg"
    using signed_request_ok [OF laws(1,4), of "ent_signing_key sample_entropy"] ent
    by (force simp: request_to_relay_def new_identity_def Let_def entropy_ok_def)
  let ?q2 = "signed_get ?x (inbox_path 50) sg"
  have pass2: "let_through sample_env ?q2 s1"
    using write_then_read [of ?q1 ?q2 "limits_for ?q1" 0]
    by (simp add: let_through_def p(2,4) limits_for_def signed_get_def signature_headers_def)
  have fresh: "bt_ok (sv_seen s1)" "seen_at (sv_seen s1) (idf_peer_id ?i) (''nonce_'' @ ''0a'') = None"
    by (simp_all add: p(3) bt_ok_def seen_at_def bt_get_def)
  have e: "inbox_order (idf_peer_id ?i) (env_later sample_env) [] = []" "env_later sample_env < ce_now ?env 0 + seconds 604800"
      "env_now sample_env - seconds 300 \<le> sample_now" "sample_now \<le> env_now sample_env + seconds 300"
      "four_digit_year sample_now" "list_all is_ascii_hexdigit ''0a''" "\<forall>e \<in> set []. sm_id e \<noteq> obj_id ob"
    by (simp_all add: inbox_order_def seconds_def is_ascii_hexdigit_def is_digit_def in_range_def)
  have c: "ensure_dirs ''/home/a'' (ce_dirs ?env) = Ok ()" "ce_write ?env (inbox_cache_path ''/home/a'' ob) 0 = Written"
      "ce_append ?env (peer_messages_path ''/home/a'' (peer_str (mep_sender (obj_payload ob)))) (obj_id ob) = Appended"
      "cl_inbox sample_client (inbox_cache_path ''/home/a'' ob) = Missing" "entropy_ok (ce_entropy ?env)"
      "env_io sample_env = io_ok"
    using ent by (simp_all add: sample_client_def)
  from message_delivered [OF laws(1,5,3,6,4,7,8) sample_cli_env_simps(1) c(5) r t i b l s(2) e(7,1,2) pass c(6) p(1)
      e(5,6) sg signed_get_carries pass2 e(3,4) fresh sample_cli_env_simps(1) c(1-4)] p(1)
  show ?thesis by blast
qed

end
