(* ===== verification/Token_Stores.thy ===== *)
theory Token_Stores
  imports Stores_Laws Message_Flow
begin

text \<open>
  The two bearer-token stores of the server, hosted backups and activity, as a file or in Firestore:
  a bucket belongs to the token that opened it. The locale states what one operation may do to a bucket,
  its lemma what any run of operations may; the four stores of the server interpret it.
\<close>

section \<open>What a bucket promises\<close>

text \<open>\<open>key\<close> is the id an operation is for and the hash of the token it comes with, \<open>auth\<close> the hash in a bucket.\<close>

locale token_store =
  fixes inv :: "'s \<Rightarrow> bool" and bucket :: "'s \<Rightarrow> (string \<rightharpoonup> 'b)" and auth :: "'b \<Rightarrow> string"
    and key :: "'op \<Rightarrow> string \<times> string" and good :: "'op \<Rightarrow> bool" and step :: "'op \<Rightarrow> 'env \<Rightarrow> 's \<Rightarrow> 's"
  assumes inv_step: "inv s \<Longrightarrow> good a \<Longrightarrow> inv (step a e s)"
    and kept: "inv s \<Longrightarrow> good a \<Longrightarrow> bucket s j = Some b \<Longrightarrow>
      \<exists>b'. bucket (step a e s) j = Some b' \<and> auth b' = auth b \<and> (b' = b \<or> key a = (j, auth b))"
begin

fun run :: "('op \<times> 'env) list \<Rightarrow> 's \<Rightarrow> 's" where
  "run [] s = s"
| "run ((a, e) # ops) s = run ops (step a e s)"

lemma run_owner:
  "inv s \<Longrightarrow> \<forall>(a, e) \<in> set ops. good a \<Longrightarrow> bucket s j = Some b \<Longrightarrow>
   inv (run ops s) \<and> (\<exists>b'. bucket (run ops s) j = Some b' \<and> auth b' = auth b \<and>
     ((\<forall>(a, e) \<in> set ops. key a \<noteq> (j, auth b)) \<longrightarrow> b' = b))"
proof (induction ops arbitrary: s b)
  case Nil
  then show ?case by simp
next
  case (Cons o1 ops)
  obtain a e where o1: "o1 = (a, e)" by (cases o1)
  have good: "good a" using Cons.prems(2) o1 by simp
  obtain b1 where b1: "bucket (step a e s) j = Some b1" "auth b1 = auth b" "b1 = b \<or> key a = (j, auth b)"
    using kept [OF Cons.prems(1) good Cons.prems(3)] by blast
  from Cons.IH [OF inv_step [OF Cons.prems(1) good] _ b1(1)] Cons.prems(2) b1(2,3)
  show ?case by (auto simp: o1)
qed

end

section \<open>Hosted backups\<close>

type_synonym backup_op = "string \<times> string \<times> json \<times> datetime"

definition backup_store_step :: "'n fs_env \<Rightarrow> backup_op \<Rightarrow> io_plan \<Rightarrow> 'n backup_store \<Rightarrow> 'n backup_store" where
  "backup_store_step env = (\<lambda>(i, t, v, now) io st. snd (backup_store_put io env now i t v st))"

definition backup_key :: "crates \<Rightarrow> backup_op \<Rightarrow> string \<times> string" where
  "backup_key x = (\<lambda>(i, t, v, now). (i, backup_auth_hash x t))"

definition backup_op_storable :: "crates \<Rightarrow> backup_op \<Rightarrow> bool" where
  "backup_op_storable x = (\<lambda>(i, t, v, now). four_digit_year now \<and> length (json_text x v) \<le> usize_max \<and>
     value_of v = v \<and> json_plain 125 v)"

definition backup_store_inv :: "'n fs_env \<Rightarrow> ('n \<Rightarrow> documents) \<Rightarrow> 'n backup_store \<Rightarrow> bool" where
  "backup_store_inv env docs st =
     (case st of FileBackups d \<Rightarrow> True
      | FirestoreBackups s \<Rightarrow> collection_ok env docs (stored_backup_bucket_from_firestore_document (fe_crates env))
          bucket_storable ''hosted_backups'' s)"

definition backup_store_bucket :: "'n fs_env \<Rightarrow> ('n \<Rightarrow> documents) \<Rightarrow> 'n backup_store \<Rightarrow> (string \<rightharpoonup> hosted_bucket)" where
  "backup_store_bucket env docs st i =
     (case st of
        FileBackups d \<Rightarrow> (case load d of Inl e \<Rightarrow> None | Inr bs \<Rightarrow> find (\<lambda>b. hb_lookup_id b = i) bs)
      | FirestoreBackups s \<Rightarrow> stored_in (stored_backup_bucket_from_firestore_document (fe_crates env)) (fs_config s)
          ''hosted_backups'' (docs (fs_net s)) i)"

lemma backup_millis_simps [simp]:
  "hb_auth_hash (backup_millis b) = hb_auth_hash b" "bucket_storable b \<Longrightarrow> bucket_storable (backup_millis b)"
  by (simp_all add: backup_millis_def bucket_storable_def)

lemma backup_put_entry_Some:
  assumes "backup_put_entry x i t v now q = (st, Some b')"
  shows "b' = snd (hosted_bucket_put x t v now (case q of Some b \<Rightarrow> b | None \<Rightarrow> hosted_bucket_new i (backup_auth_hash x t) now))"
    "q = Some b \<Longrightarrow> hb_auth_hash b' = hb_auth_hash b \<and> hb_auth_hash b = backup_auth_hash x t"
proof -
  let ?b = "case q of Some b \<Rightarrow> b | None \<Rightarrow> hosted_bucket_new i (backup_auth_hash x t) now"
  have b': "b' = snd (hosted_bucket_put x t v now ?b) \<and> backup_is_stored (fst (hosted_bucket_put x t v now ?b))"
    using assms unfolding backup_put_entry_def Let_def by (auto simp del: bucket_put_keeps split: prod.splits if_splits)
  then show "b' = snd (hosted_bucket_put x t v now ?b)" ..
  show "hb_auth_hash b' = hb_auth_hash b \<and> hb_auth_hash b = backup_auth_hash x t" if "q = Some b"
    using b' that by simp
qed

lemma put_bucket_storable:
  assumes "bucket_storable b" "backup_op_storable x (i, t, v, now)"
  shows "bucket_storable (snd (hosted_bucket_put x t v now b))"
proof -
  have "generation_storable (new_generation x v now)"
    using assms(2) by (simp add: backup_op_storable_def generation_storable_def new_generation_def Let_def)
  then have "\<forall>g \<in> set (hb_generations (snd (hosted_bucket_put x t v now b))). generation_storable g"
    using assms(1) by (auto simp: hosted_bucket_put_def bucket_storable_def Let_def dest!: in_set_takeD)
  with assms show ?thesis
    by (auto simp: bucket_storable_def backup_op_storable_def hosted_bucket_put_def Let_def)
qed

lemma new_bucket_storable: "four_digit_year now \<Longrightarrow> bucket_storable (hosted_bucket_new i h now)"
  by (simp add: bucket_storable_def hosted_bucket_new_def)

lemma backup_bucket_kept:
  assumes "load d = Ok bs" and "find (\<lambda>b. hb_lookup_id b = j) bs = Some b"
  shows "\<exists>bs' b'. load (backup_run x [(i, t, v, now, io)] d) = Ok bs' \<and> find (\<lambda>b. hb_lookup_id b = j) bs' = Some b' \<and>
    hb_auth_hash b' = hb_auth_hash b \<and> (b' = b \<or> j = i \<and> backup_auth_hash x t = hb_auth_hash b)"
  using backups.run_owner [OF assms(1), of j b x "[(i, t, v, now, io)]"] assms(2)
  unfolding backup_run_eq backups.bucket_def by auto

interpretation backup_tokens: token_store "backup_store_inv env docs" "backup_store_bucket env docs" hb_auth_hash
  "backup_key (fe_crates env)" "backup_op_storable (fe_crates env)" "backup_store_step env"
  for env :: "'n fs_env" and docs :: "'n \<Rightarrow> documents"
proof -
  let ?x = "fe_crates env" and ?inv = "backup_store_inv env docs" and ?bucket = "backup_store_bucket env docs"
  have "?inv (backup_store_step env a io st) \<and> (?bucket st j = Some b \<longrightarrow>
      (\<exists>b'. ?bucket (backup_store_step env a io st) j = Some b' \<and> hb_auth_hash b' = hb_auth_hash b \<and>
         (b' = b \<or> backup_key ?x a = (j, hb_auth_hash b))))"
    if inv: "?inv st" and good: "backup_op_storable ?x a" for st :: "'n backup_store" and a io j b
  proof -
    obtain i t v now where a: "a = (i, t, v, now)" by (cases a)
    show ?thesis
    proof (cases st)
      case (FileBackups d)
      let ?d = "snd (backup_put ?x io now i t v d)"
      have "backup_store_step env a io st = FileBackups ?d"
        by (simp add: backup_store_step_def a backup_store_put_def FileBackups)
      moreover have "\<exists>bs' b'. load ?d = Ok bs' \<and> find (\<lambda>b. hb_lookup_id b = j) bs' = Some b' \<and>
          hb_auth_hash b' = hb_auth_hash b \<and> (b' = b \<or> j = i \<and> backup_auth_hash ?x t = hb_auth_hash b)"
        if "load d = Ok bs" "find (\<lambda>b. hb_lookup_id b = j) bs = Some b" for bs
      proof -
        have "load (backup_run ?x [(i, t, v, now, io)] d) = load ?d" by simp
        with backup_bucket_kept [OF that, of ?x i t v now io] show ?thesis by auto
      qed
      ultimately show ?thesis
        by (auto simp: a FileBackups backup_store_inv_def backup_store_bucket_def backup_key_def split: sum.splits)
    next
      case (FirestoreBackups s)
      have c: "collection_ok env docs (stored_backup_bucket_from_firestore_document ?x) bucket_storable ''hosted_backups'' s"
        using inv by (simp add: backup_store_inv_def FirestoreBackups)
      obtain r s' where s': "fs_backup_put env now i t v s = (r, s')" by fastforce
      have ch: "bucket_storable b'" if "pred_option bucket_storable q" "backup_put_entry ?x i t v now q = (w, Some b')" for q w b'
        using backup_put_entry_Some(1) [OF that(2)] that(1) good put_bucket_storable [of _ ?x i t v now]
          new_bucket_storable [of now i] by (cases q) (auto simp: a backup_op_storable_def)
      note e = backup_codec.collection_update [where change = "backup_put_entry ?x i t v now" and i = i,
          OF c refl backup_millis_simps(2) ch s' [unfolded fs_backup_put_def]]
      have st: "backup_store_step env a io st = FirestoreBackups s'"
        by (simp add: backup_store_step_def a backup_store_put_def FirestoreBackups s')
      let ?at = "\<lambda>t :: 'n firestore. stored_in (stored_backup_bucket_from_firestore_document ?x) (fs_config t) ''hosted_backups'' (docs (fs_net t))"
      have "\<exists>b'. ?at s' j = Some b' \<and> hb_auth_hash b' = hb_auth_hash b \<and> (b' = b \<or> j = i \<and> backup_auth_hash ?x t = hb_auth_hash b)"
        if "?at s j = Some b"
        using e(2) [where j = j]
      proof
        assume "?at s' j = ?at s j"
        with that show ?thesis by simp
      next
        assume "j = i \<and> (\<exists>w a. backup_put_entry ?x i t v now (?at s i) = (w, Some a) \<and> ?at s' i = Some (backup_millis a))"
        then obtain w b1 where "j = i" "backup_put_entry ?x i t v now (?at s i) = (w, Some b1)" "?at s' i = Some (backup_millis b1)"
          by blast
        with backup_put_entry_Some(2) [OF this(2), of b] that show ?thesis by simp
      qed
      with e(1) st show ?thesis
        by (auto simp: a FirestoreBackups backup_store_inv_def backup_store_bucket_def backup_key_def)
    qed
  qed
  then show "token_store ?inv ?bucket hb_auth_hash (backup_key ?x) (backup_op_storable ?x) (backup_store_step env)"
    by unfold_locales blast+
qed

fun backup_store_run :: "'n fs_env \<Rightarrow> (backup_op \<times> io_plan) list \<Rightarrow> 'n backup_store \<Rightarrow> 'n backup_store" where
  "backup_store_run env [] st = st"
| "backup_store_run env ((a, io) # ops) st = backup_store_run env ops (backup_store_step env a io st)"

lemma backup_store_run_eq: "backup_store_run env ops st = backup_tokens.run env ops st"
  by (induction env ops st rule: backup_store_run.induct) simp_all

lemma other_token_refused:
  "hb_auth_hash b \<noteq> backup_auth_hash x t \<Longrightarrow> hosted_bucket_latest x t b = ReadUnauthorized"
  "hb_auth_hash b \<noteq> backup_auth_hash x t \<Longrightarrow> hosted_bucket_list x t b = ListUnauthorized"
  by (simp_all add: hosted_bucket_latest_def hosted_bucket_list_def backup_authorize_def)

lemma backup_store_reads:
  fixes docs :: "'n \<Rightarrow> documents"
  assumes inv: "backup_store_inv env docs st" and b: "backup_store_bucket env docs st i = Some b"
  shows "backup_store_latest env i t st = (Ok v, st') \<Longrightarrow> v = hosted_bucket_latest (fe_crates env) t b"
    "backup_store_list env i t st = (Ok w, st'') \<Longrightarrow> w = hosted_bucket_list (fe_crates env) t b"
proof -
  have "(backup_store_latest env i t st = (Ok v, st') \<longrightarrow> v = hosted_bucket_latest (fe_crates env) t b) \<and>
    (backup_store_list env i t st = (Ok w, st'') \<longrightarrow> w = hosted_bucket_list (fe_crates env) t b)"
  proof (cases st)
    case (FileBackups d)
    with b show ?thesis
      by (auto simp: backup_store_bucket_def backup_store_latest_def backup_store_list_def backup_latest_def
          backup_list_def split: sum.splits)
  next
    case (FirestoreBackups s)
    let ?x = "fe_crates env"
    have c: "collection_ok env docs (stored_backup_bucket_from_firestore_document ?x) bucket_storable ''hosted_backups'' s"
      using inv by (simp add: backup_store_inv_def FirestoreBackups)
    have at: "stored_in (stored_backup_bucket_from_firestore_document ?x) (fs_config s) ''hosted_backups'' (docs (fs_net s)) i = Some b"
      using b by (simp add: backup_store_bucket_def FirestoreBackups)
    have read: "\<exists>u. d = Some (b, u)" if "get_backup_bucket env i s = (Ok d, s1)" for d s1
      using backup_codec.collection_read [OF c refl that [unfolded get_backup_bucket_def] at] by (cases d) auto
    show ?thesis
      using read unfolding FirestoreBackups
      by (fastforce simp: backup_store_latest_def backup_store_list_def fs_backup_latest_def fs_backup_list_def
          then_do_Ok apsnd_def map_prod_def split: prod.splits)
  qed
  then show "backup_store_latest env i t st = (Ok v, st') \<Longrightarrow> v = hosted_bucket_latest (fe_crates env) t b"
    "backup_store_list env i t st = (Ok w, st'') \<Longrightarrow> w = hosted_bucket_list (fe_crates env) t b" by blast+
qed

text \<open>
  C14. A hosted backup is its token's, over a file and over Firestore. After any uploads, with whatever
  answers of the disk or the service, a bucket is still there with the hash of the token that opened it,
  unchanged if none of the uploads to it came with that token; and a read or a list of it with another
  token shows nothing of it.
\<close>

theorem backup_store_owner:
  fixes docs :: "'n \<Rightarrow> documents"
  assumes "backup_store_inv env docs st" "\<forall>(a, io) \<in> set ops. backup_op_storable (fe_crates env) a"
    and "backup_store_bucket env docs st j = Some b" "backup_store_run env ops st = st'"
  shows "\<exists>b'. backup_store_bucket env docs st' j = Some b' \<and> hb_auth_hash b' = hb_auth_hash b \<and>
    ((\<forall>((i, t, v, now), io) \<in> set ops. i = j \<longrightarrow> backup_auth_hash (fe_crates env) t \<noteq> hb_auth_hash b) \<longrightarrow> b' = b) \<and>
    (\<forall>t v st''. backup_auth_hash (fe_crates env) t \<noteq> hb_auth_hash b \<longrightarrow>
       (backup_store_latest env j t st' = (Ok v, st'') \<longrightarrow> v = ReadUnauthorized)) \<and>
    (\<forall>t v st''. backup_auth_hash (fe_crates env) t \<noteq> hb_auth_hash b \<longrightarrow>
       (backup_store_list env j t st' = (Ok v, st'') \<longrightarrow> v = ListUnauthorized))"
proof -
  from backup_tokens.run_owner [OF assms(1-3)] assms(4)
  obtain b' where b': "backup_store_inv env docs st'" "backup_store_bucket env docs st' j = Some b'"
      "hb_auth_hash b' = hb_auth_hash b"
      "(\<forall>(a, e) \<in> set ops. backup_key (fe_crates env) a \<noteq> (j, hb_auth_hash b)) \<longrightarrow> b' = b"
    unfolding backup_store_run_eq by blast
  have "b' = b" if "\<forall>((i, t, v, now), io) \<in> set ops. i = j \<longrightarrow> backup_auth_hash (fe_crates env) t \<noteq> hb_auth_hash b"
    using b'(4) that by (auto simp: backup_key_def)
  moreover note backup_store_reads [OF b'(1,2)]
  ultimately show ?thesis
    using b'(2,3) other_token_refused [of b'] by (intro exI [of _ b'] conjI) (blast | metis)+
qed

definition short_service :: "json \<Rightarrow> documents fs_env" where
  "short_service v = (toy_service sample_config)\<lparr>fe_crates := short_toy v\<rparr>"

lemma short_service_simps [simp]:
  "fe_crates (short_service v) = short_toy v" "sha256 (short_toy v) = pad 32" "json_text (short_toy v) v = []"
  by (simp_all add: short_service_def short_toy_def)

theorem backup_store_owner_witness:
  "let env = short_service JNull; b = hosted_bucket_new ''bak_1'' (backup_auth_hash (fe_crates env) ''auth_1'') 0;
       st = FileBackups (backup_disk [b]) in
   backup_store_bucket env toy_document (backup_store_run env [((''bak_1'', ''auth_2'', JNull, 5), io_ok)] st) ''bak_1'' = Some b"
proof -
  let ?env = "short_service JNull"
  let ?b = "hosted_bucket_new ''bak_1'' (backup_auth_hash (fe_crates ?env) ''auth_1'') 0"
  let ?st = "FileBackups (backup_disk [?b])"
  let ?ops = "[((''bak_1'', ''auth_2'', JNull, 5), io_ok)] :: (backup_op \<times> io_plan) list"
  have ne: "backup_auth_hash (fe_crates ?env) ''auth_2'' \<noteq> hb_auth_hash ?b"
    by (simp add: hosted_bucket_new_def backup_auth_hash_def sha256_hex_def pad_def hex2_lower_def hex_lower_def)
  have inv: "backup_store_inv ?env toy_document ?st" by (simp add: backup_store_inv_def)
  have at: "backup_store_bucket ?env toy_document ?st ''bak_1'' = Some ?b"
    by (simp add: backup_store_bucket_def hosted_bucket_new_def)
  have ok: "\<forall>(a, io) \<in> set ?ops. backup_op_storable (fe_crates ?env) a"
    by (simp add: backup_op_storable_def four_digit_year_def seconds_def)
  from backup_store_owner [OF inv ok at refl] ne
  show ?thesis unfolding Let_def by auto
qed

section \<open>Activity\<close>

fun activity_store_step :: "'n fs_env \<Rightarrow> activity_op \<Rightarrow> io_plan \<Rightarrow> 'n activity_store \<Rightarrow> 'n activity_store" where
  "activity_store_step env (PutEvent i t e now) io st = snd (activity_store_put io env now i t e st)"
| "activity_store_step env (ListEvents i t n c now) io st = snd (activity_store_list io env i t n c now st)"

fun activity_key :: "crates \<Rightarrow> activity_op \<Rightarrow> string \<times> string" where
  "activity_key x (PutEvent i t e now) = (i, activity_auth_hash x t)"
| "activity_key x (ListEvents i t n c now) = (i, activity_auth_hash x t)"

fun activity_op_storable :: "crates \<Rightarrow> activity_op \<Rightarrow> bool" where
  "activity_op_storable x (PutEvent i t e now) \<longleftrightarrow> four_digit_year now \<and>
     length (json_text x (enc_activity_event x e)) \<le> usize_max \<and> ae_version e \<le> u8_max \<and>
     four_digit_year (ae_created_at e) \<and> four_digit_year (ae_expires_at e)"
| "activity_op_storable x (ListEvents i t n c now) \<longleftrightarrow> True"

definition activity_store_inv :: "'n fs_env \<Rightarrow> ('n \<Rightarrow> documents) \<Rightarrow> 'n activity_store \<Rightarrow> bool" where
  "activity_store_inv env docs st =
     (case st of FileActivities d \<Rightarrow> True
      | FirestoreActivities s \<Rightarrow> collection_ok env docs (stored_activity_bucket_from_firestore_document (fe_crates env))
          activity_storable ''activity_buckets'' s)"

definition activity_store_bucket :: "'n fs_env \<Rightarrow> ('n \<Rightarrow> documents) \<Rightarrow> 'n activity_store \<Rightarrow> (string \<rightharpoonup> activity_bucket)" where
  "activity_store_bucket env docs st i =
     (case st of
        FileActivities d \<Rightarrow> (case load d of Inl e \<Rightarrow> None | Inr bs \<Rightarrow> find (\<lambda>b. ab_bucket_id b = i) bs)
      | FirestoreActivities s \<Rightarrow> stored_in (stored_activity_bucket_from_firestore_document (fe_crates env)) (fs_config s)
          ''activity_buckets'' (docs (fs_net s)) i)"

lemma activity_millis_simps [simp]:
  "ab_auth_hash (activity_millis b) = ab_auth_hash b" "activity_storable b \<Longrightarrow> activity_storable (activity_millis b)"
  by (simp_all add: activity_millis_def activity_storable_def)

text \<open>What an operation of either store makes of the entry of its bucket.\<close>

fun activity_entry :: "crates \<Rightarrow> activity_op \<Rightarrow> activity_bucket option \<Rightarrow> activity_bucket option" where
  "activity_entry x (PutEvent i t e now) q = snd (activity_put_entry x i t e now q)"
| "activity_entry x (ListEvents i t n c now) q = snd (activity_list_entry x t n c now q)"

lemma activity_put_auth:
  "activity_auth_hash x t \<noteq> ab_auth_hash b \<Longrightarrow> activity_bucket_put x t e now b = (ActivityPutUnauthorized, b)"
  "activity_auth_hash x t \<noteq> ab_auth_hash b \<Longrightarrow> activity_bucket_list x t n c now b = (ActivityListUnauthorized, b)"
  by (simp_all add: activity_bucket_put_def activity_bucket_list_def activity_authorize_def)

lemma activity_list_auth [simp]: "ab_auth_hash (snd (activity_bucket_list x t n c now b)) = ab_auth_hash b"
  by (simp add: activity_bucket_list_def prune_expired_def Let_def)

lemma activity_entry_owner:
  assumes "activity_entry x a (Some b) = Some b'"
  shows "ab_auth_hash b' = ab_auth_hash b \<and> snd (activity_key x a) = ab_auth_hash b"
proof (cases a)
  case (PutEvent i t e now)
  then show ?thesis
    using assms by (cases "activity_bucket_put x t e now b"; cases "activity_auth_hash x t = ab_auth_hash b")
      (auto simp: activity_put_entry_def activity_put_auth activity_is_stored_def split: if_splits
        dest: arg_cong [of _ _ snd, THEN arg_cong [of _ _ ab_auth_hash]])
next
  case (ListEvents i t n c now)
  then show ?thesis
    using assms by (cases "activity_bucket_list x t n c now b"; cases "activity_auth_hash x t = ab_auth_hash b")
      (auto simp: activity_list_entry_def activity_put_auth split: if_splits
        dest: arg_cong [of _ _ snd, THEN arg_cong [of _ _ ab_auth_hash]])
qed

lemma activity_entry_storable:
  assumes "activity_op_storable x a" "pred_option activity_storable q" "activity_entry x a q = Some b'"
  shows "activity_storable b'"
proof (cases a)
  case (PutEvent i t e now)
  let ?b = "case q of Some b \<Rightarrow> b | None \<Rightarrow> activity_bucket_new i (activity_auth_hash x t) now"
  have b': "b' = snd (activity_bucket_put x t e now ?b)"
    using assms(3) PutEvent by (auto simp: activity_put_entry_def Let_def split: prod.splits if_splits)
  have "activity_storable ?b"
    using assms(1,2) PutEvent by (cases q) (simp_all add: activity_storable_def activity_bucket_new_def)
  moreover have "event_storable (stored_event x e now)"
    using assms(1) PutEvent by (simp add: event_storable_def stored_event_def Let_def)
  ultimately show ?thesis
    using assms(1) PutEvent unfolding b'
    by (auto simp: activity_storable_def activity_bucket_put_def prune_expired_def Let_def split: option.splits
        dest!: in_set_dropD)
next
  case (ListEvents i t n c now)
  with assms(2,3) obtain b where "activity_storable b" "b' = snd (activity_bucket_list x t n c now b)"
    by (cases q) (auto simp: activity_list_entry_def split: prod.splits if_splits)
  then show ?thesis
    by (auto simp: activity_storable_def activity_bucket_list_def prune_expired_def Let_def)
qed

lemma activity_file_kept:
  assumes "load d = Ok bs" and "find (\<lambda>b. ab_bucket_id b = j) bs = Some b"
  shows "\<exists>bs' b'. load (activity_step x a io d) = Ok bs' \<and> find (\<lambda>b. ab_bucket_id b = j) bs' = Some b' \<and>
    ab_auth_hash b' = ab_auth_hash b \<and> (b' = b \<or> activity_key x a = (j, ab_auth_hash b))"
proof (cases a)
  case (PutEvent i t e now)
  have "load (activity_step x a io d) = load (activity_puts x [(i, t, e, now, io)] d)" by (simp add: PutEvent)
  with activities.run_owner [OF assms(1), of j b x "[(i, t, e, now, io)]"] assms(2) show ?thesis
    unfolding activity_puts_eq activities.bucket_def PutEvent activity_key.simps by auto
next
  case (ListEvents i t n c now)
  obtain r d' where u: "store_update io (activity_list_records x i t n c now) d = (r, d')" by fastforce
  then have step: "activity_step x a io d = d'" by (simp add: ListEvents activity_list_def)
  from store_update_result [OF u] consider "load d' = load d"
    | st bs' where "activity_list_records x i t n c now bs = (st, Some bs')" "load d' = Ok bs'"
    using assms(1) by fastforce
  then show ?thesis
  proof cases
    case 1
    with assms step show ?thesis by auto
  next
    case 2
    then obtain b0 where b0: "find (\<lambda>b. ab_bucket_id b = i) bs = Some b0"
      "length (ab_events b0) \<noteq> length (ab_events (snd (activity_bucket_list x t n c now b0)))"
      "bs' = update_first (\<lambda>b. ab_bucket_id b = i) (\<lambda>_. snd (activity_bucket_list x t n c now b0)) bs"
      by (auto simp: activity_list_records_def split: option.splits prod.splits if_splits)
    have auth: "activity_auth_hash x t = ab_auth_hash b0"
      using b0(2) by (rule contrapos_np) (simp add: activity_put_auth)
    have id0: "ab_bucket_id b0 = i" using find_Some_mem [OF b0(1)] by auto
    show ?thesis
    proof (cases "j = i")
      case True
      have "find (\<lambda>b. ab_bucket_id b = j) bs' = Some (snd (activity_bucket_list x t n c now b0))"
        unfolding b0(3) True
        using find_update_first [of "\<lambda>b. ab_bucket_id b = i" "\<lambda>_. snd (activity_bucket_list x t n c now b0)" bs] b0(1) id0
        by simp
      with True b0(1) assms(2) auth 2(2) step show ?thesis by (auto simp: ListEvents)
    next
      case False
      then have "find (\<lambda>b. ab_bucket_id b = j) bs' = Some b"
        unfolding b0(3)
        using find_update_first_other [of "\<lambda>b. ab_bucket_id b = i" "\<lambda>b. ab_bucket_id b = j"
            "\<lambda>_. snd (activity_bucket_list x t n c now b0)" bs] assms(2) id0 by simp
      with 2(2) step show ?thesis by auto
    qed
  qed
qed

abbreviation activity_at :: "crates \<Rightarrow> ('n \<Rightarrow> documents) \<Rightarrow> 'n firestore \<Rightarrow> (string \<rightharpoonup> activity_bucket)" where
  "activity_at x docs s \<equiv>
     stored_in (stored_activity_bucket_from_firestore_document x) (fs_config s) ''activity_buckets'' (docs (fs_net s))"

lemma update_activity_effect:
  fixes docs :: "'n \<Rightarrow> documents"
  assumes ok: "collection_ok env docs (stored_activity_bucket_from_firestore_document (fe_crates env))
        activity_storable ''activity_buckets'' s"
    and good: "activity_op_storable (fe_crates env) a"
    and change: "\<And>q. snd (change q) = activity_entry (fe_crates env) a q" "i = fst (activity_key (fe_crates env) a)"
    and run: "update_activity env change i s = (r, s')"
  shows "collection_ok env docs (stored_activity_bucket_from_firestore_document (fe_crates env))
        activity_storable ''activity_buckets'' s'"
    "activity_at (fe_crates env) docs s j = Some b \<Longrightarrow>
     \<exists>b'. activity_at (fe_crates env) docs s' j = Some b' \<and> ab_auth_hash b' = ab_auth_hash b \<and>
       (b' = b \<or> activity_key (fe_crates env) a = (j, ab_auth_hash b))"
proof -
  let ?x = "fe_crates env"
  have ch: "activity_storable b'" if "pred_option activity_storable q" "change q = (w, Some b')" for q w b'
    using activity_entry_storable [OF good that(1), of b'] change(1) [of q] that(2) by simp
  note e = activity_codec.collection_update [where change = change and i = i, OF ok refl activity_millis_simps(2) ch
      run [unfolded update_activity_def]]
  show "collection_ok env docs (stored_activity_bucket_from_firestore_document ?x) activity_storable ''activity_buckets'' s'"
    by (rule e(1))
  show "\<exists>b'. activity_at ?x docs s' j = Some b' \<and> ab_auth_hash b' = ab_auth_hash b \<and>
      (b' = b \<or> activity_key ?x a = (j, ab_auth_hash b))" if b: "activity_at ?x docs s j = Some b"
    using e(2) [where j = j]
  proof
    assume "activity_at ?x docs s' j = activity_at ?x docs s j"
    with b show ?thesis by simp
  next
    assume "j = i \<and> (\<exists>v a. change (activity_at ?x docs s i) = (v, Some a) \<and> activity_at ?x docs s' i = Some (activity_millis a))"
    then obtain v b1 where b1: "j = i" "change (activity_at ?x docs s i) = (v, Some b1)"
      "activity_at ?x docs s' i = Some (activity_millis b1)" by blast
    then have "activity_entry ?x a (Some b) = Some b1" using change(1) [of "Some b"] b by simp
    from activity_entry_owner [OF this] b1 change(2) show ?thesis by (cases "activity_key ?x a") simp
  qed
qed

interpretation activity_tokens: token_store "activity_store_inv env docs" "activity_store_bucket env docs" ab_auth_hash
  "activity_key (fe_crates env)" "activity_op_storable (fe_crates env)" "activity_store_step env"
  for env :: "'n fs_env" and docs :: "'n \<Rightarrow> documents"
proof -
  let ?x = "fe_crates env" and ?inv = "activity_store_inv env docs" and ?bucket = "activity_store_bucket env docs"
  have "?inv (activity_store_step env a io st) \<and> (?bucket st j = Some b \<longrightarrow>
      (\<exists>b'. ?bucket (activity_store_step env a io st) j = Some b' \<and> ab_auth_hash b' = ab_auth_hash b \<and>
         (b' = b \<or> activity_key ?x a = (j, ab_auth_hash b))))"
    if inv: "?inv st" and good: "activity_op_storable ?x a" for st :: "'n activity_store" and a io j b
  proof (cases st)
    case (FileActivities d)
    have "activity_store_step env a io st = FileActivities (activity_step ?x a io d)"
      by (cases a) (simp_all add: FileActivities activity_store_put_def activity_store_list_def)
    with activity_file_kept [of d _ j b ?x a io] show ?thesis
      by (auto simp: FileActivities activity_store_inv_def activity_store_bucket_def split: sum.splits)
  next
    case (FirestoreActivities s)
    have c: "collection_ok env docs (stored_activity_bucket_from_firestore_document ?x) activity_storable ''activity_buckets'' s"
      using inv by (simp add: activity_store_inv_def FirestoreActivities)
    show ?thesis
    proof (cases a)
      case (PutEvent i t e now)
      obtain r s' where s': "update_activity env (activity_put_entry ?x i t e now) i s = (r, s')" by fastforce
      note u = update_activity_effect [OF c good _ _ s', unfolded PutEvent, simplified]
      have "activity_store_step env a io st = FirestoreActivities s'"
        by (simp add: PutEvent activity_store_put_def FirestoreActivities fs_activity_put_def s')
      with u(1) u(2) [of j b] show ?thesis
        by (auto simp: PutEvent FirestoreActivities activity_store_inv_def activity_store_bucket_def)
    next
      case (ListEvents i t n cu now)
      obtain r s' where s': "update_activity env (activity_list_entry ?x t n cu now) i s = (r, s')" by fastforce
      note u = update_activity_effect [OF c good _ _ s', unfolded ListEvents, simplified]
      have "activity_store_step env a io st = FirestoreActivities s'"
        by (simp add: ListEvents activity_store_list_def FirestoreActivities fs_activity_list_def s')
      with u(1) u(2) [of j b] show ?thesis
        by (auto simp: ListEvents FirestoreActivities activity_store_inv_def activity_store_bucket_def)
    qed
  qed
  then show "token_store ?inv ?bucket ab_auth_hash (activity_key ?x) (activity_op_storable ?x) (activity_store_step env)"
    by unfold_locales blast+
qed

fun activity_store_run :: "'n fs_env \<Rightarrow> (activity_op \<times> io_plan) list \<Rightarrow> 'n activity_store \<Rightarrow> 'n activity_store" where
  "activity_store_run env [] st = st"
| "activity_store_run env ((a, io) # ops) st = activity_store_run env ops (activity_store_step env a io st)"

lemma activity_store_run_eq: "activity_store_run env ops st = activity_tokens.run env ops st"
  by (induction env ops st rule: activity_store_run.induct) simp_all

text \<open>A list with another token.\<close>

lemma activity_store_refused:
  fixes docs :: "'n \<Rightarrow> documents"
  assumes inv: "activity_store_inv env docs st" and b: "activity_store_bucket env docs st i = Some b"
    and t: "activity_auth_hash (fe_crates env) t \<noteq> ab_auth_hash b"
    and run: "activity_store_list io env i t n c now st = (Ok v, st')"
  shows "v = ActivityListUnauthorized"
proof (cases st)
  case (FileActivities d)
  with b obtain bs where "load d = Ok bs" "find (\<lambda>b. ab_bucket_id b = i) bs = Some b"
    by (auto simp: activity_store_bucket_def split: sum.splits)
  then have "activity_list (fe_crates env) io i t n c now d = (Ok ActivityListUnauthorized, d)"
    using t by (simp add: activity_list_def store_update_def activity_list_records_def activity_put_auth)
  with run FileActivities show ?thesis by (auto simp: activity_store_list_def)
next
  case (FirestoreActivities s)
  let ?x = "fe_crates env"
  have c: "collection_ok env docs (stored_activity_bucket_from_firestore_document ?x) activity_storable ''activity_buckets'' s"
    using inv by (simp add: activity_store_inv_def FirestoreActivities)
  have at: "activity_at ?x docs s i = Some b" using b by (simp add: activity_store_bucket_def FirestoreActivities)
  obtain s' where s': "update_activity env (activity_list_entry ?x t n c now) i s = (Ok v, s')"
    using run FirestoreActivities by (auto simp: activity_store_list_def fs_activity_list_def apsnd_def map_prod_def
        split: prod.splits)
  from s' [unfolded update_activity_def update_document_def then_do_Ok] obtain d s1 where
    d: "get_document env ''Firestore activity document missing updateTime'' (stored_activity_bucket_from_firestore_document ?x)
        (document_name (fs_config s) ''activity_buckets'' i) s = (Ok d, s1)"
    and rest: "(case activity_list_entry ?x t n c now (map_option fst d) of (r, None) \<Rightarrow> give r
       | (r, Some a) \<Rightarrow> then_do (commit_document env (firestore_document_from_activity_bucket ?x
           (document_name (fs_config s) ''activity_buckets'' i) a) (precondition_of d)) (\<lambda>_. give r)) s1 = (Ok v, s')"
    by blast
  have "map_option fst d = Some b" by (rule activity_codec.collection_read [OF c refl d at])
  with rest t show ?thesis by (simp add: activity_list_entry_def activity_put_auth)
qed

text \<open>
  C15. A device's activity is its token's, over a file and over Firestore. After any uploads and lists, with
  whatever answers of the disk or the service, a bucket is still there with the hash of the token that
  opened it, unchanged if nothing that was asked of it came with that token; and a list of it with another
  token is refused.
\<close>

theorem activity_store_owner:
  fixes docs :: "'n \<Rightarrow> documents"
  assumes "activity_store_inv env docs st" "\<forall>(a, io) \<in> set ops. activity_op_storable (fe_crates env) a"
    and "activity_store_bucket env docs st j = Some b" "activity_store_run env ops st = st'"
  shows "\<exists>b'. activity_store_bucket env docs st' j = Some b' \<and> ab_auth_hash b' = ab_auth_hash b \<and>
    ((\<forall>(a, io) \<in> set ops. activity_key (fe_crates env) a \<noteq> (j, ab_auth_hash b)) \<longrightarrow> b' = b) \<and>
    (\<forall>io t n c now v st''. activity_auth_hash (fe_crates env) t \<noteq> ab_auth_hash b \<longrightarrow>
       (activity_store_list io env j t n c now st' = (Ok v, st'') \<longrightarrow> v = ActivityListUnauthorized))"
proof -
  from activity_tokens.run_owner [OF assms(1-3)] assms(4)
  obtain b' where b': "activity_store_inv env docs st'" "activity_store_bucket env docs st' j = Some b'"
      "ab_auth_hash b' = ab_auth_hash b"
      "(\<forall>(a, e) \<in> set ops. activity_key (fe_crates env) a \<noteq> (j, ab_auth_hash b)) \<longrightarrow> b' = b"
    unfolding activity_store_run_eq by blast
  with activity_store_refused [OF b'(1,2)] show ?thesis by (intro exI [of _ b'] conjI) simp_all
qed

theorem activity_store_owner_witness:
  "let env = short_service JNull; b = activity_bucket_new ''sync_1'' (activity_auth_hash (fe_crates env) ''auth_1'') 0;
       st = FileActivities (activity_disk [b]) in
   activity_store_bucket env toy_document (activity_store_run env [(ListEvents ''sync_1'' ''auth_2'' 10 None 5, io_ok)] st)
     ''sync_1'' = Some b"
proof -
  let ?env = "short_service JNull"
  let ?b = "activity_bucket_new ''sync_1'' (activity_auth_hash (fe_crates ?env) ''auth_1'') 0"
  let ?st = "FileActivities (activity_disk [?b])" and ?ops = "[(ListEvents ''sync_1'' ''auth_2'' 10 None 5, io_ok)]"
  have ne: "activity_auth_hash (fe_crates ?env) ''auth_2'' \<noteq> ab_auth_hash ?b"
    by (simp add: activity_bucket_new_def activity_auth_hash_def sha256_hex_def pad_def hex2_lower_def hex_lower_def)
  have inv: "activity_store_inv ?env toy_document ?st" by (simp add: activity_store_inv_def)
  have at: "activity_store_bucket ?env toy_document ?st ''sync_1'' = Some ?b"
    by (simp add: activity_store_bucket_def activity_bucket_new_def)
  have ok: "\<forall>(a, io) \<in> set ?ops. activity_op_storable (fe_crates ?env) a" by simp
  from activity_store_owner [OF inv ok at refl] ne
  show ?thesis unfolding Let_def by auto
qed

end
