(* ===== verification/Cli_Hints.thy ===== *)
theory Cli_Hints
  imports Cli_State
begin

text \<open>
  \<^verbatim>\<open>aichan init-agent-hints\<close> (\<^verbatim>\<open>crates/aichan/src/main.rs\<close>): a marked block is put into the notes for
  agents of a project, and the private files of the state directory into its \<^verbatim>\<open>.gitignore\<close>.
\<close>

abbreviation nl :: char where "nl \<equiv> CHR 0x0A"

section \<open>The marked block\<close>

definition BEGIN_MARK :: string where "BEGIN_MARK = ''<!-- BEGIN AICHAN -->''"
definition END_MARK :: string where "END_MARK = ''<!-- END AICHAN -->''"

definition marked_block :: "string \<Rightarrow> string" where
  "marked_block body = BEGIN_MARK @ [nl] @ body @ END_MARK @ [nl]"

definition updated_text :: "string \<Rightarrow> string \<Rightarrow> string" where
  "updated_text body existing =
     (let block = marked_block body in
      case (find_sub BEGIN_MARK existing, find_sub END_MARK existing) of
        (Some begin_index, Some end_index) \<Rightarrow>
          take begin_index existing @ block @
          trim_start_matches_char nl (drop (end_index + length END_MARK) existing)
      | _ \<Rightarrow>
          if existing = [] then block
          else existing @ (if ends_with existing [nl] then [] else [nl]) @ [nl] @ block)"

section \<open>Text files\<close>

text \<open>\<open>Garbled e\<close> is a file that is not UTF-8. A write may end in the middle.\<close>

type_synonym text_files = "string \<Rightarrow> string json_file"

datatype text_write = TextWritten | TextRefused string | TextTorn nat string

definition read_text :: "string \<Rightarrow> text_files \<Rightarrow> string + string" where
  "read_text p files =
     (case files p of
        Missing \<Rightarrow> Ok []
      | Unreadable k e \<Rightarrow> Err e
      | Garbled e \<Rightarrow> Err e
      | Content t \<Rightarrow> Ok t)"

definition write_text :: "text_write \<Rightarrow> string \<Rightarrow> string \<Rightarrow> text_files \<Rightarrow> (string + unit) \<times> text_files" where
  "write_text w p t files =
     (case w of
        TextWritten \<Rightarrow> (Ok (), files(p := Content t))
      | TextRefused e \<Rightarrow> (Err e, files)
      | TextTorn n e \<Rightarrow> (Err e, files(p := Content (take n t))))"

definition write_marked_block :: "text_write \<Rightarrow> string \<Rightarrow> string \<Rightarrow> text_files \<Rightarrow> (string + unit) \<times> text_files" where
  "write_marked_block w p body files =
     (case read_text p files of
        Inl e \<Rightarrow> (Err e, files)
      | Inr existing \<Rightarrow> write_text w p (updated_text body existing) files)"

section \<open>The notes\<close>

definition agents_note :: string where
  "agents_note = ''AI Channel startup note'' @ [nl, nl] @
     ''If this project uses AI Channel, check local state with `aichan status`, '' @
     ''sync recent encrypted state with `aichan sync` when network use is appropriate, '' @
     ''read messages with `aichan inbox` when relevant, '' @
     ''and use `aichan upgrade` before relying on newly documented CLI features.'' @ [nl, nl] @
     ''No private keys are stored in this note.'' @ [nl]"

definition claude_note :: string where
  "claude_note = ''AI Channel'' @ [nl, nl] @
     ''Use the same safe startup workflow as AGENTS.md: `aichan status`, `aichan sync`, `aichan inbox`, '' @
     ''and `aichan upgrade` when a newer CLI feature is needed.'' @ [nl]"

definition readme_note :: string where
  "readme_note = ''AI Channel local state'' @ [nl, nl] @
     ''This directory stores local identity, device, memory, cache files, and optional encrypted transcripts. '' @
     ''No private keys are stored in this note.'' @ [nl]"

section \<open>.gitignore\<close>

definition gitignore_entries :: "string list" where
  "gitignore_entries = [''.aichan/identity.json'', ''.aichan/device.json'', ''.aichan/memory.json'',
     ''.aichan/backup.json'', ''.aichan/recipient-key-cache.json'', ''.aichan/inbox-cache/'',
     ''.aichan/peer-messages/'', ''.aichan/transcripts/'']"

definition add_entry :: "string \<Rightarrow> string \<Rightarrow> string" where
  "add_entry gitignore entry =
     (if entry \<in> set (lines gitignore) then gitignore
      else (if \<not> ends_with gitignore [nl] \<and> gitignore \<noteq> [] then gitignore @ [nl] else gitignore) @ entry @ [nl])"

definition updated_gitignore :: "string \<Rightarrow> string" where
  "updated_gitignore gitignore = foldl add_entry gitignore gitignore_entries"

section \<open>The command\<close>

text \<open>The state of the command: the client and the text files; \<open>w\<close> is how the write to each path ends.\<close>

definition on_client :: "('n client, 'a) step \<Rightarrow> ('n client \<times> text_files, 'a) step" where
  "on_client m s = (case s of (c, files) \<Rightarrow> (case m c of (r, c') \<Rightarrow> (r, (c', files))))"

definition on_files :: "(text_files \<Rightarrow> (string + 'a) \<times> text_files) \<Rightarrow> ('n client \<times> text_files, 'a) step" where
  "on_files m s = (case s of (c, files) \<Rightarrow> (case m files of (r, files') \<Rightarrow> (r, (c, files'))))"

definition update_gitignore :: "text_write \<Rightarrow> string \<Rightarrow> text_files \<Rightarrow> (string + unit) \<times> text_files" where
  "update_gitignore w p files =
     (case read_text p files of
        Inl e \<Rightarrow> (Err e, files)
      | Inr gitignore \<Rightarrow> write_text w p (updated_gitignore gitignore) files)"

definition init_agent_hints ::
  "'n cli_env \<Rightarrow> (string \<Rightarrow> text_write) \<Rightarrow> local_state_dir \<Rightarrow> ('n client \<times> text_files, string list) step" where
  "init_agent_hints env w s =
     then_do (on_client (cached_identity env s)) (\<lambda>_.
     then_do (on_client (cached_device env s)) (\<lambda>_.
     then_do (on_client (cached_memory env s)) (\<lambda>_.
     (let agents_path = join_path s ''AGENTS.md''; claude_path = join_path s ''CLAUDE.md'';
          readme_path = join_path (state_root s) ''README.md''; gitignore_path = join_path s ''.gitignore''
      in then_do (on_files (write_marked_block (w agents_path) agents_path agents_note)) (\<lambda>_.
         then_do (on_files (write_marked_block (w claude_path) claude_path claude_note)) (\<lambda>_.
         then_do (on_files (write_marked_block (w readme_path) readme_path readme_note)) (\<lambda>_.
         then_do (on_files (update_gitignore (w gitignore_path) gitignore_path)) (\<lambda>_.
           give [''wrote '' @ agents_path, ''wrote '' @ claude_path, ''wrote '' @ readme_path,
                 ''updated '' @ gitignore_path]))))))))"

section \<open>Finding the marks\<close>

lemma find_sub_first:
  assumes "find_sub p s = Some i"
  shows "s = take i s @ p @ drop (i + length p) s" "find_sub p (take i s) = None \<or> p = []"
proof -
  from find_sub_Some [OF assms] obtain t where t: "drop i s = p @ t" by (auto simp: starts_with_iff)
  then have "t = drop (i + length p) s" by (metis add.commute append_eq_conv_conj drop_drop)
  with t show "s = take i s @ p @ drop (i + length p) s" by (metis append_take_drop_id)
  show "find_sub p (take i s) = None \<or> p = []"
    using assms
  proof (induction s arbitrary: i)
    case Nil
    then show ?case by (simp split: if_splits)
  next
    case (Cons x xs)
    show ?case
    proof (cases "starts_with (x # xs) p")
      case True
      with Cons.prems show ?thesis by simp
    next
      case False
      with Cons.prems obtain j where j: "find_sub p xs = Some j" "i = Suc j" by auto
      have "\<not> starts_with (x # take j xs) p"
      proof
        assume "starts_with (x # take j xs) p"
        then obtain u where "x # take j xs = p @ u" by (auto simp: starts_with_iff)
        then have "x # xs = p @ u @ drop j xs" by (metis append_Cons append_assoc append_take_drop_id)
        with False show False by (simp add: starts_with_iff)
      qed
      with Cons.IH [OF j(1)] j(2) show ?thesis by auto
    qed
  qed
qed

text \<open>A mark begins with a character that does not occur again in it, so that marks do not overlap.\<close>

lemma find_sub_skip:
  assumes p: "p = c # r" "c \<notin> set r" and s: "s = [] \<or> hd s = c" and pre: "find_sub p pre = None"
  shows "find_sub p (pre @ s) = map_option ((+) (length pre)) (find_sub p s)"
  using pre
proof (induction pre)
  case Nil
  then show ?case by (simp add: option.map_ident)
next
  case (Cons x xs)
  then have x: "\<not> starts_with (x # xs) p" "find_sub p xs = None" by (auto split: if_splits)
  have "\<not> starts_with (x # xs @ s) p"
  proof
    assume "starts_with (x # xs @ s) p"
    then obtain t where t: "(x # xs) @ s = p @ t" by (auto simp: starts_with_iff)
    show False
    proof (cases "length p \<le> length (x # xs)")
      case True
      then have "take (length p) ((x # xs) @ s) = take (length p) (x # xs)"
        unfolding take_append by simp
      moreover have "take (length p) ((x # xs) @ s) = p" unfolding t by simp
      ultimately show False using x(1) by (simp add: starts_with_def)
    next
      case False
      define k where "k = length p - length (x # xs)"
      have k: "0 < k" "length p - length (x # xs) = k" using False by (simp_all add: k_def)
      have "take (length p) ((x # xs) @ s) = p" unfolding t by simp
      then have v: "p = (x # xs) @ take k s" unfolding take_append k(2) using False by simp
      moreover have "length p = length (x # xs) + k" using k False by simp
      ultimately have "take k s \<noteq> []" using k(1) by auto
      moreover from this have "s \<noteq> []" "hd (take k s) = hd s" using k(1) by auto
      moreover have "set (take k s) \<subseteq> set r" using v p(1) by auto
      ultimately have "hd s \<in> set r" by (metis hd_in_set subsetD)
      with s p(2) \<open>s \<noteq> []\<close> show False by simp
    qed
  qed
  with Cons.IH [OF x(2)] show ?case by (cases "find_sub p s") auto
qed

lemma marks:
  "BEGIN_MARK = CHR ''<'' # ''!-- BEGIN AICHAN -->''" "CHR ''<'' \<notin> set ''!-- BEGIN AICHAN -->''"
  "END_MARK = CHR ''<'' # ''!-- END AICHAN -->''" "CHR ''<'' \<notin> set ''!-- END AICHAN -->''"
  by (simp_all add: BEGIN_MARK_def END_MARK_def)

lemma find_mark_here [simp]: "find_sub BEGIN_MARK (BEGIN_MARK @ s) = Some 0" "find_sub END_MARK (END_MARK @ s) = Some 0"
proof -
  have "find_sub p (p @ s) = Some 0" if "p \<noteq> []" for p
    using that starts_with_append [of p s] by (cases p) (auto simp del: starts_with_append)
  then show "find_sub BEGIN_MARK (BEGIN_MARK @ s) = Some 0" "find_sub END_MARK (END_MARK @ s) = Some 0"
    by (simp_all add: marks)
qed

lemma find_begin_skip:
  "find_sub BEGIN_MARK pre = None \<Longrightarrow> s = [] \<or> hd s = CHR ''<'' \<Longrightarrow>
   find_sub BEGIN_MARK (pre @ s) = map_option ((+) (length pre)) (find_sub BEGIN_MARK s)"
  by (rule find_sub_skip [OF marks(1,2)])

lemma find_end_skip:
  "find_sub END_MARK pre = None \<Longrightarrow> s = [] \<or> hd s = CHR ''<'' \<Longrightarrow>
   find_sub END_MARK (pre @ s) = map_option ((+) (length pre)) (find_sub END_MARK s)"
  by (rule find_sub_skip [OF marks(3,4)])

text \<open>A text without marks, of its own or of the block's.\<close>

definition unmarked :: "string \<Rightarrow> bool" where
  "unmarked t \<longleftrightarrow> find_sub BEGIN_MARK t = None \<and> find_sub END_MARK t = None"

lemma hd_marks [simp]: "hd (BEGIN_MARK @ s) = CHR ''<''" "hd (END_MARK @ s) = CHR ''<''"
  by (simp_all add: marks)

lemma find_end_in_block:
  assumes "find_sub END_MARK body = None"
  shows "find_sub END_MARK (marked_block body @ post) = Some (length BEGIN_MARK + 1 + length body)"
proof -
  have "find_sub END_MARK (body @ END_MARK @ [nl] @ post) = Some (length body)"
    using find_end_skip [OF assms, of "END_MARK @ [nl] @ post"] by simp
  then show ?thesis
    by (simp add: marked_block_def BEGIN_MARK_def END_MARK_def)
qed

lemma marks_of_block:
  assumes "find_sub BEGIN_MARK pre = None" "find_sub END_MARK pre = None" "find_sub END_MARK body = None"
  shows "find_sub BEGIN_MARK (pre @ marked_block body @ post) = Some (length pre)"
    "find_sub END_MARK (pre @ marked_block body @ post) = Some (length pre + (length BEGIN_MARK + 1 + length body))"
proof -
  have h: "hd (marked_block body @ post) = CHR ''<''" by (simp add: marked_block_def)
  show "find_sub BEGIN_MARK (pre @ marked_block body @ post) = Some (length pre)"
    using find_begin_skip [OF assms(1), of "marked_block body @ post"] h by (simp add: marked_block_def)
  show "find_sub END_MARK (pre @ marked_block body @ post) = Some (length pre + (length BEGIN_MARK + 1 + length body))"
    using find_end_skip [OF assms(2), of "marked_block body @ post"] h find_end_in_block [OF assms(3)] by simp
qed

text \<open>A text that has the block: replaced in place, and the text around it kept.\<close>

lemma updated_block:
  assumes "find_sub BEGIN_MARK pre = None" "find_sub END_MARK pre = None" "find_sub END_MARK body = None"
  shows "updated_text body' (pre @ marked_block body @ post) = pre @ marked_block body' @ trim_start_matches_char nl post"
proof -
  have "drop (length pre + (length BEGIN_MARK + 1 + length body) + length END_MARK) (pre @ marked_block body @ post)
      = nl # post"
    by (simp add: marked_block_def)
  then show ?thesis
    using marks_of_block [OF assms, of post]
    by (simp add: updated_text_def Let_def del: append_assoc)
qed

section \<open>A second run\<close>

lemma find_sub_snoc:
  assumes "find_sub p s = None" "c \<notin> set p"
  shows "find_sub p (s @ [c]) = None"
  unfolding find_sub_None
proof (intro allI notI)
  fix a b assume e: "s @ [c] = a @ p @ b"
  show False
  proof (cases b rule: rev_cases)
    case Nil
    have "p \<noteq> []" using assms(1) by (cases s) auto
    with e Nil have "last p = c" by (metis append_Nil2 last_appendR last_snoc)
    with \<open>p \<noteq> []\<close> assms(2) show False by (metis last_in_set)
  next
    case (snoc b' d)
    with e have s: "s = a @ p @ b'" by simp
    from assms(1) have "s \<noteq> a @ p @ b'" unfolding find_sub_None by simp
    with s show False by simp
  qed
qed

lemma nl_in_no_mark [simp]: "nl \<notin> set BEGIN_MARK" "nl \<notin> set END_MARK"
  by (simp_all add: BEGIN_MARK_def END_MARK_def)

text \<open>What is before the block when it is put into a text without marks.\<close>

definition before_block :: "string \<Rightarrow> string" where
  "before_block t = (if t = [] then [] else t @ (if ends_with t [nl] then [] else [nl]) @ [nl])"

lemma updated_unmarked: "unmarked t \<Longrightarrow> updated_text body t = before_block t @ marked_block body"
  by (simp add: unmarked_def updated_text_def before_block_def Let_def)

lemma unmarked_before: "unmarked t \<Longrightarrow> unmarked (before_block t)"
  using find_sub_snoc [of BEGIN_MARK t nl] find_sub_snoc [of END_MARK t nl]
    find_sub_snoc [of BEGIN_MARK "t @ [nl]" nl] find_sub_snoc [of END_MARK "t @ [nl]" nl]
  by (simp add: unmarked_def before_block_def marks(1,3))

lemma updated_again:
  assumes "unmarked t" "unmarked body"
  shows "updated_text body' (updated_text body t) = updated_text body' t"
  using updated_block [of "before_block t" body body' "[]"] unmarked_before [OF assms(1)] assms
  by (simp add: updated_unmarked) (simp add: unmarked_def)

lemma unmarkedI: "CHR ''<'' \<notin> set t \<Longrightarrow> unmarked t"
  by (auto simp: unmarked_def find_sub_None marks)

lemma notes_unmarked: "unmarked agents_note" "unmarked claude_note" "unmarked readme_note"
  by (rule unmarkedI, simp add: agents_note_def claude_note_def readme_note_def)+

section \<open>Entries of .gitignore\<close>

text \<open>An entry that is a line as it stands.\<close>

definition plain_line :: "string \<Rightarrow> bool" where
  "plain_line e \<longleftrightarrow> e \<noteq> [] \<and> nl \<notin> set e \<and> last e \<noteq> CHR 0x0D"

lemma split_on_apart: "split_on c (a @ c # b) = split_on c a @ split_on c b"
  by (induction a) (auto split: list.split)

lemma drop_cr_plain [simp]: "plain_line e \<Longrightarrow> drop_cr e = e"
  by (simp add: plain_line_def drop_cr_def)

lemma drop_cr_Nil [simp]: "drop_cr [] = []"
  by (simp add: drop_cr_def)

lemma lines_open: "g \<noteq> [] \<Longrightarrow> \<not> ends_with g [nl] \<Longrightarrow> plain_line e \<Longrightarrow> e \<in> set (lines g) \<Longrightarrow> e \<in> set (map drop_cr (split_on nl g))"
proof -
  assume e: "plain_line e" "e \<in> set (lines g)"
  have s: "set (split_on nl g) = insert (last (split_on nl g)) (set (butlast (split_on nl g)))"
    by (metis append_butlast_last_id split_on_nonempty list.simps(15) rotate1.simps(2) set_rotate1)
  from e show ?thesis
    by (auto simp: lines_def Let_def s image_iff split: if_splits)
qed

lemma lines_closed: "lines (h @ [nl]) = map drop_cr (split_on nl h)"
  by (simp add: lines_def split_on_apart butlast_append)

lemma lines_push: "plain_line e \<Longrightarrow> lines (h @ nl # e @ [nl]) = map drop_cr (split_on nl h) @ [e]"
  using lines_closed [of "h @ nl # e"] by (simp add: split_on_apart split_on_none plain_line_def drop_cr_def)

lemma add_entry_lines:
  assumes e: "plain_line e" and l: "plain_line l" "l \<in> set (lines g) \<or> l = e"
  shows "l \<in> set (lines (add_entry g e))"
proof (cases "e \<in> set (lines g)")
  case True
  with l show ?thesis by (auto simp: add_entry_def)
next
  case new: False
  consider "g = []" | h where "g = h @ [nl]" | "g \<noteq> []" "\<not> ends_with g [nl]"
    by (auto simp: ends_with_iff)
  then show ?thesis
  proof cases
    case 1
    with l new have "l = e" by (auto simp: lines_def)
    with 1 new show ?thesis
      using lines_closed [of e] e by (simp add: add_entry_def split_on_none plain_line_def drop_cr_def)
  next
    case 2
    with new have "add_entry g e = h @ nl # e @ [nl]" by (auto simp: add_entry_def ends_with_iff)
    with 2 l lines_push [OF e, of h] show ?thesis by (auto simp: lines_closed)
  next
    case 3
    with new have "add_entry g e = g @ nl # e @ [nl]" by (simp add: add_entry_def)
    with l lines_push [OF e, of g] lines_open [OF 3 l(1)] show ?thesis by auto
  qed
qed

lemma add_entry_present: "e \<in> set (lines g) \<Longrightarrow> add_entry g e = g"
  by (simp add: add_entry_def)

lemma add_entry_prefix: "\<exists>t. add_entry g e = g @ t"
  by (simp add: add_entry_def)

lemma fold_add_entry:
  assumes "\<forall>e \<in> set es. plain_line e"
  shows "plain_line l \<Longrightarrow> l \<in> set (lines g) \<or> l \<in> set es \<Longrightarrow> l \<in> set (lines (foldl add_entry g es))"
    "\<exists>t. foldl add_entry g es = g @ t"
    "set es \<subseteq> set (lines g) \<Longrightarrow> foldl add_entry g es = g"
  using assms
proof (induction es arbitrary: g)
  case (Cons e es)
  { case 1
    then show ?case using Cons(1) [of "add_entry g e"] add_entry_lines [of e l g] by auto
  next
    case 2
    then show ?case using Cons(2) [of "add_entry g e"] add_entry_prefix [of g e] by auto
  next
    case 3
    then show ?case using Cons(3) [of g] by (simp add: add_entry_present)
  }
qed simp_all

lemma entries_plain: "\<forall>e \<in> set gitignore_entries. plain_line e"
  by code_simp

lemma updated_gitignore_lines: "set gitignore_entries \<subseteq> set (lines (updated_gitignore g))"
  using fold_add_entry(1) [OF entries_plain] entries_plain by (auto simp: updated_gitignore_def)

lemma updated_gitignore_again: "updated_gitignore (updated_gitignore g) = updated_gitignore g"
  using fold_add_entry(3) [OF entries_plain] updated_gitignore_lines by (metis updated_gitignore_def)

end
