(* ===== verification/Cli_Backup.thy ===== *)
theory Cli_Backup
  imports Cli_Relay
begin

text \<open>
  \<^verbatim>\<open>aichan backup\<close> (\<^verbatim>\<open>crates/aichan/src/main.rs\<close>): an encrypted backup is written to a file and, on
  request, uploaded; a backup from a file or from the relay is opened with the recovery phrase and put
  in the place of the local state.
\<close>

section \<open>The JSON of a backup\<close>

definition enc_backup_encryption :: "backup_encryption \<Rightarrow> json" where
  "enc_backup_encryption e = JObj [
     (''suite'', JStr (ben_suite e)), (''kdf'', JStr (ben_kdf e)),
     (''salt'', JStr (ben_salt e)), (''nonce'', JStr (ben_nonce e))]"

definition dec_backup_encryption :: "json \<Rightarrow> backup_encryption option" where
  "dec_backup_encryption v = do {
     f \<leftarrow> struct_fields 4 [''suite'', ''kdf'', ''salt'', ''nonce''] v;
     suite \<leftarrow> req f ''suite'' dec_str;
     kdf \<leftarrow> req f ''kdf'' dec_str;
     salt \<leftarrow> req f ''salt'' dec_str;
     nonce \<leftarrow> req f ''nonce'' dec_str;
     Some \<lparr>ben_suite = suite, ben_kdf = kdf, ben_salt = salt, ben_nonce = nonce\<rparr> }"

definition enc_backup_file :: "crates \<Rightarrow> backup_file \<Rightarrow> json" where
  "enc_backup_file x b = JObj [
     (''version'', jnat (bf_version b)), (''created_at'', enc_time x (bf_created_at b)),
     (''encryption'', enc_backup_encryption (bf_encryption b)), (''ciphertext'', JStr (bf_ciphertext b))]"

definition dec_backup_file :: "crates \<Rightarrow> json \<Rightarrow> backup_file option" where
  "dec_backup_file x v = do {
     f \<leftarrow> struct_fields 4 [''version'', ''created_at'', ''encryption'', ''ciphertext''] v;
     version \<leftarrow> req f ''version'' (dec_uint u8_max);
     created_at \<leftarrow> req f ''created_at'' (dec_time x);
     encryption \<leftarrow> req f ''encryption'' dec_backup_encryption;
     ciphertext \<leftarrow> req f ''ciphertext'' dec_str;
     Some \<lparr>bf_version = version, bf_created_at = created_at, bf_encryption = encryption,
           bf_ciphertext = ciphertext\<rparr> }"

record hosted_upload =
  hu_generation_id :: string
  hu_created_at :: datetime
  hu_size_bytes :: nat
  hu_content_sha256 :: string

record hosted_download = hosted_upload +
  hd_backup :: backup_file

definition dec_hosted_upload :: "crates \<Rightarrow> json \<Rightarrow> hosted_upload option" where
  "dec_hosted_upload x v = do {
     f \<leftarrow> struct_fields 4 [''generation_id'', ''created_at'', ''size_bytes'', ''content_sha256''] v;
     generation_id \<leftarrow> req f ''generation_id'' dec_str;
     created_at \<leftarrow> req f ''created_at'' (dec_time x);
     size_bytes \<leftarrow> req f ''size_bytes'' (dec_uint u64_max);
     content_sha256 \<leftarrow> req f ''content_sha256'' dec_str;
     Some \<lparr>hu_generation_id = generation_id, hu_created_at = created_at, hu_size_bytes = size_bytes,
           hu_content_sha256 = content_sha256\<rparr> }"

definition dec_hosted_download :: "crates \<Rightarrow> json \<Rightarrow> hosted_download option" where
  "dec_hosted_download x v = do {
     f \<leftarrow> struct_fields 5 [''generation_id'', ''created_at'', ''size_bytes'', ''content_sha256'', ''backup''] v;
     generation_id \<leftarrow> req f ''generation_id'' dec_str;
     created_at \<leftarrow> req f ''created_at'' (dec_time x);
     size_bytes \<leftarrow> req f ''size_bytes'' (dec_uint u64_max);
     content_sha256 \<leftarrow> req f ''content_sha256'' dec_str;
     backup \<leftarrow> req f ''backup'' (dec_backup_file x);
     Some \<lparr>hu_generation_id = generation_id, hu_created_at = created_at, hu_size_bytes = size_bytes,
           hu_content_sha256 = content_sha256, hd_backup = backup\<rparr> }"

section \<open>Exchange with the relay\<close>

definition upload_hosted_backup ::
  "'n cli_env \<Rightarrow> string \<Rightarrow> hosted_backup_locator \<Rightarrow> backup_file \<Rightarrow> ('n client, hosted_upload) step" where
  "upload_hosted_backup env base_url locator backup =
     (let x = ce_crates env in
      then_do (relay_request env ''PUT'' base_url (''/v1/backups/'' @ loc_backup_lookup_id locator)
                 [(''Content-Type'', ''application/json''), (''Aichan-Backup-Auth'', loc_backup_auth_token locator)]
                 (json_text x (enc_backup_file x backup))) (\<lambda>response.
        if rr_status response \<ge> 400
        then fail (''relay returned HTTP '' @ show_nat (rr_status response) @
               '' while uploading hosted backup: '' @ body_text response)
        else check (map_err (\<lambda>_. ''parse hosted backup upload response'')
               (from_json x (dec_hosted_upload x) (rr_body response)))))"

definition download_hosted_backup ::
  "'n cli_env \<Rightarrow> string \<Rightarrow> hosted_backup_locator \<Rightarrow> ('n client, hosted_download) step" where
  "download_hosted_backup env base_url locator =
     (let x = ce_crates env in
      then_do (relay_request env ''GET'' base_url (''/v1/backups/'' @ loc_backup_lookup_id locator)
                 [(''Aichan-Backup-Auth'', loc_backup_auth_token locator)] []) (\<lambda>response.
        if rr_status response = 404
        then fail ''hosted backup not found for the derived recovery phrase lookup''
        else if rr_status response \<ge> 400
        then fail (''relay returned HTTP '' @ show_nat (rr_status response) @
               '' while downloading hosted backup: '' @ body_text response)
        else check (map_err (\<lambda>_. ''parse hosted backup download response'')
               (from_json x (dec_hosted_download x) (rr_body response)))))"

section \<open>Local files\<close>

definition default_backup_path :: "string + string \<Rightarrow> string \<Rightarrow> string" where
  "default_backup_path cwd uuid =
     join_path (case cwd of Inr p \<Rightarrow> p | Inl _ \<Rightarrow> ''.'') (''aichan-backup-'' @ uuid @ ''.aichan-backup'')"

definition restore_target_has_local_state :: "'n client \<Rightarrow> bool" where
  "restore_target_has_local_state c \<longleftrightarrow>
     file_exists (cl_identity c) \<or> file_exists (cl_device c) \<or> file_exists (cl_memory c) \<or> file_exists (cl_config c)"

definition recovery_phrase_from_args :: "string option \<Rightarrow> (string \<Rightarrow> string option) \<Rightarrow> string + string" where
  "recovery_phrase_from_args v env_var =
     (case v of
        Some p \<Rightarrow> Ok p
      | None \<Rightarrow> ok_or ''missing recovery phrase; set AICHAN_RECOVERY_PHRASE or pass --recovery-phrase''
                  (env_var ''AICHAN_RECOVERY_PHRASE''))"

text \<open>The writes, each as a step; \<open>n\<close> counts the writes of the metadata file in a command.\<close>

definition write_backup :: "'n cli_env \<Rightarrow> string \<Rightarrow> backup_file \<Rightarrow> ('n client, unit) step" where
  "write_backup env p backup c =
     (let (r, f) = write_json p (ce_write env p 0) backup (cl_backups c p)
      in (map_err error_text r, c\<lparr>cl_backups := (cl_backups c)(p := f)\<rparr>))"

definition load_metadata :: "local_state_dir \<Rightarrow> ('n client, backup_metadata) step" where
  "load_metadata s c = (map_err error_text (backup_metadata_load_or_default s (cl_metadata c)), c)"

definition write_metadata :: "'n cli_env \<Rightarrow> local_state_dir \<Rightarrow> nat \<Rightarrow> backup_metadata \<Rightarrow> ('n client, unit) step" where
  "write_metadata env s n m c =
     (let (r, f) = backup_metadata_write s (ce_dirs env) (ce_write env (backup_metadata_path s) n) m (cl_metadata c)
      in (map_err error_text r, c\<lparr>cl_metadata := f\<rparr>))"

definition replace_identity :: "'n cli_env \<Rightarrow> local_state_dir \<Rightarrow> identity_file \<Rightarrow> ('n client, unit) step" where
  "replace_identity env s i c =
     (let (r, f) = identity_write_replace_to (ce_crates env) (identity_path s) (ce_write env (identity_path s) 0) i
                     (cl_identity c)
      in (map_err error_text r, c\<lparr>cl_identity := f\<rparr>))"

definition replace_memory :: "'n cli_env \<Rightarrow> local_state_dir \<Rightarrow> memory_file \<Rightarrow> ('n client, unit) step" where
  "replace_memory env s m c =
     (let (r, f) = write_json (memory_path s) (ce_write env (memory_path s) 0) m (cl_memory c)
      in (map_err error_text r, c\<lparr>cl_memory := f\<rparr>))"

definition replace_config :: "'n cli_env \<Rightarrow> local_state_dir \<Rightarrow> aichan_config option \<Rightarrow> ('n client, unit) step" where
  "replace_config env s g c =
     (case g of
        None \<Rightarrow> (Ok (), c)
      | Some config \<Rightarrow>
        (let (r, f) = write_json (config_path s) (ce_write env (config_path s) 0) config (cl_config c)
         in (map_err error_text r, c\<lparr>cl_config := f\<rparr>)))"

definition replace_device :: "'n cli_env \<Rightarrow> local_state_dir \<Rightarrow> ('n client, device_file) step" where
  "replace_device env s c =
     (let (r, f) = device_create_fresh s (ce_dirs env) (ce_write env (device_path s) 0) (ce_uuid env 0) (ce_now env 0)
                     (cl_device c)
      in (map_err error_text r, c\<lparr>cl_device := f\<rparr>))"

section \<open>Creating a backup\<close>

text \<open>The \<^verbatim>\<open>match\<close> on the upload: what it found, or the text of its error.\<close>

definition try_upload ::
  "'n cli_env \<Rightarrow> local_state_dir \<Rightarrow> string \<Rightarrow> hosted_backup_locator \<Rightarrow> backup_file \<Rightarrow> backup_metadata \<Rightarrow>
   ('n client, string + hosted_upload) step" where
  "try_upload env s base_url locator backup metadata c =
     (case upload_hosted_backup env base_url locator backup c of
        (Inl e, c') \<Rightarrow> (Ok (Err e), c')
      | (Inr upload, c') \<Rightarrow>
          then_do (write_metadata env s 1 (metadata\<lparr>bm_backup_lookup_id := Some (loc_backup_lookup_id locator),
                bm_last_hosted_backup_at := Some (hu_created_at upload),
                bm_last_hosted_generation_id := Some (hu_generation_id upload)\<rparr>))
            (\<lambda>_. give (Ok upload)) c')"

definition hosted_shown :: "crates \<Rightarrow> hosted_backup_locator \<Rightarrow> string + hosted_upload \<Rightarrow> json" where
  "hosted_shown x locator result =
     (case result of
        Inr upload \<Rightarrow> obj [
          (''uploaded'', JBool True), (''backup_lookup_id'', JStr (loc_backup_lookup_id locator)),
          (''generation_id'', JStr (hu_generation_id upload)),
          (''created_at'', JStr (rfc3339 x (hu_created_at upload))),
          (''size_bytes'', jnat (hu_size_bytes upload)), (''content_sha256'', JStr (hu_content_sha256 upload))]
      | Inl e \<Rightarrow> obj [
          (''uploaded'', JBool False), (''backup_lookup_id'', JStr (loc_backup_lookup_id locator)),
          (''upload_error'', JStr e)])"

text \<open>
  \<open>random\<close> 0 is the recovery phrase's, 1 and 2 salt and nonce; \<open>now\<close> 0 is \<^verbatim>\<open>created_at\<close>, 1 is read in the
  encryption. The result is what is printed with \<^verbatim>\<open>--json\<close> and the error with which the command then
  ends when the upload failed.
\<close>

definition backup_create ::
  "'n cli_env \<Rightarrow> string + string \<Rightarrow> local_state_dir \<Rightarrow> string option \<Rightarrow> bool \<Rightarrow> string option \<Rightarrow>
   ('n client, json \<times> string option) step" where
  "backup_create env cwd s output upload base_url =
     (let x = ce_crates env in
      then_do (cached_identity env s) (\<lambda>identity.
      then_do (cached_device env s) (\<lambda>device.
      then_do (cached_memory env s) (\<lambda>memory.
      then_do (cached_config env s) (\<lambda>config.
      (let recovery_phrase = generate_recovery_phrase x (ce_random env 0);
           created_at = ce_now env 0;
           payload = \<lparr>bp_version = 1, bp_peer_id = idf_peer_id identity, bp_source_device_id = dev_device_id device,
             bp_identity = identity, bp_memory = memory, bp_config = Some config, bp_created_at = created_at\<rparr>;
           path_out = (case output of Some p \<Rightarrow> p | None \<Rightarrow> default_backup_path cwd (ce_uuid env 0))
       in then_do (check_core (encrypt_backup x (ce_now env 1) (ce_random env 1) (ce_random env 2) payload
                     recovery_phrase)) (\<lambda>backup.
          then_do (write_backup env path_out backup) (\<lambda>_.
          then_do (load_metadata s) (\<lambda>metadata.
          (let metadata = metadata\<lparr>bm_last_local_backup_at := Some created_at,
                 bm_last_local_backup_path := Some path_out\<rparr>;
               shown = [(''created'', JBool True), (''backup_file'', JStr path_out),
                 (''peer_id'', enc_peer_id (bp_peer_id payload)),
                 (''source_device_id'', JStr (device_str (bp_source_device_id payload))),
                 (''created_at'', enc_time x created_at), (''recovery_phrase'', JStr recovery_phrase)]
           in then_do (write_metadata env s 0 metadata) (\<lambda>_.
              if \<not> upload then give (obj shown, None)
              else
                then_do (check_core (derive_hosted_backup_locator x recovery_phrase)) (\<lambda>locator.
                then_do (try_upload env s (effective_base_url config base_url) locator backup metadata) (\<lambda>result.
                  give (obj (shown @ [(''hosted'', hosted_shown x locator result)]),
                    case result of
                      Inr _ \<Rightarrow> None
                    | Inl e \<Rightarrow> Some (''hosted backup upload failed after writing local backup: '' @ e)))))))))))))))"

section \<open>Restoring one\<close>

text \<open>
  Where the backup comes from: the file named, or the relay. With it what the metadata will name as
  the source, and for the relay the lookup id and what it answered.
\<close>

definition backup_source ::
  "'n cli_env \<Rightarrow> string option \<Rightarrow> string \<Rightarrow> string \<Rightarrow>
   ('n client, backup_file \<times> string \<times> (string \<times> hosted_download) option) step" where
  "backup_source env from_file base_url recovery_phrase =
     (case from_file of
        Some p \<Rightarrow> then_do (\<lambda>c. (map_err error_text (read_backup_file p (cl_backups c p)), c)) (\<lambda>backup.
                    give (backup, p, None))
      | None \<Rightarrow>
          then_do (check_core (derive_hosted_backup_locator (ce_crates env) recovery_phrase)) (\<lambda>locator.
          then_do (download_hosted_backup env base_url locator) (\<lambda>download.
            give (hd_backup download, ''hosted:'' @ hu_generation_id download,
                  Some (loc_backup_lookup_id locator, download)))))"

definition restored_metadata ::
  "backup_metadata \<Rightarrow> datetime \<Rightarrow> string \<Rightarrow> peer_id \<Rightarrow> (string \<times> hosted_download) option \<Rightarrow> backup_metadata" where
  "restored_metadata metadata restored_at source peer_id hosted =
     (let m = metadata\<lparr>bm_last_restore_at := Some restored_at, bm_last_restore_source := Some source,
                bm_last_restored_peer_id := Some peer_id\<rparr>
      in case hosted of
           None \<Rightarrow> m
         | Some (lookup_id, download) \<Rightarrow>
             m\<lparr>bm_backup_lookup_id := Some lookup_id, bm_last_hosted_backup_at := Some (hu_created_at download),
               bm_last_hosted_generation_id := Some (hu_generation_id download)\<rparr>)"

definition restored_shown ::
  "crates \<Rightarrow> backup_payload \<Rightarrow> device_file \<Rightarrow> datetime \<Rightarrow> string option \<Rightarrow> (string \<times> hosted_download) option \<Rightarrow> json" where
  "restored_shown x payload device restored_at from_file hosted =
     obj ([(''restored'', JBool True),
           (''restore_source'', JStr (if from_file = None then ''hosted'' else ''file'')),
           (''peer_id'', enc_peer_id (bp_peer_id payload)),
           (''device_id'', JStr (device_str (dev_device_id device))),
           (''restored_at'', enc_time x restored_at)] @
          (case from_file of None \<Rightarrow> [] | Some p \<Rightarrow> [(''backup_file'', JStr p)]) @
          (case hosted of
             None \<Rightarrow> []
           | Some (_, download) \<Rightarrow> [(''hosted'', obj [
               (''generation_id'', JStr (hu_generation_id download)),
               (''created_at'', JStr (rfc3339 x (hu_created_at download))),
               (''size_bytes'', jnat (hu_size_bytes download)),
               (''content_sha256'', JStr (hu_content_sha256 download))])]))"

definition backup_restore ::
  "'n cli_env \<Rightarrow> (string \<Rightarrow> string option) \<Rightarrow> local_state_dir \<Rightarrow> string option \<Rightarrow> string option \<Rightarrow> bool \<Rightarrow>
   string option \<Rightarrow> ('n client, json) step" where
  "backup_restore env env_var s from_file phrase force base_url c =
     (if restore_target_has_local_state c \<and> \<not> force
      then (Err ''refusing to overwrite existing .aichan state; rerun with --force to restore here'', c)
      else
        then_do (check (recovery_phrase_from_args phrase env_var)) (\<lambda>recovery_phrase.
        then_do (cached_config env s) (\<lambda>config.
        then_do (backup_source env from_file (effective_base_url config base_url) recovery_phrase)
          (\<lambda>(backup, source, hosted).
        then_do (check_core (decrypt_backup (ce_crates env) backup recovery_phrase)) (\<lambda>payload.
        then_do (check_core (ensure_dirs s (ce_dirs env))) (\<lambda>_.
        then_do (replace_identity env s (bp_identity payload)) (\<lambda>_.
        then_do (replace_memory env s (bp_memory payload)) (\<lambda>_.
        then_do (replace_config env s (bp_config payload)) (\<lambda>_.
        then_do (replace_device env s) (\<lambda>device.
        (let restored_at = ce_now env 1
         in then_do (load_metadata s) (\<lambda>metadata.
            then_do (write_metadata env s 0 (restored_metadata metadata restored_at source (bp_peer_id payload) hosted))
              (\<lambda>_. give (restored_shown (ce_crates env) payload device restored_at from_file hosted)))))))))))))  c)"

section \<open>Status\<close>

definition enc_backup_metadata :: "crates \<Rightarrow> backup_metadata \<Rightarrow> json" where
  "enc_backup_metadata x m = JObj ([(''version'', jnat (bm_version m))] @
     skip_none ''last_local_backup_at'' (enc_time x) (bm_last_local_backup_at m) @
     skip_none ''last_local_backup_path'' JStr (bm_last_local_backup_path m) @
     skip_none ''backup_lookup_id'' JStr (bm_backup_lookup_id m) @
     skip_none ''last_hosted_backup_at'' (enc_time x) (bm_last_hosted_backup_at m) @
     skip_none ''last_hosted_generation_id'' JStr (bm_last_hosted_generation_id m) @
     skip_none ''last_restore_at'' (enc_time x) (bm_last_restore_at m) @
     skip_none ''last_restore_source'' JStr (bm_last_restore_source m) @
     skip_none ''last_restored_peer_id'' enc_peer_id (bm_last_restored_peer_id m))"

definition backup_status :: "'n cli_env \<Rightarrow> local_state_dir \<Rightarrow> ('n client, json) step" where
  "backup_status env s =
     then_do (load_metadata s) (\<lambda>metadata.
       give (obj [(''metadata_file'', JStr (backup_metadata_path s)),
                  (''metadata'', value_of (enc_backup_metadata (ce_crates env) metadata))]))"

end
