(* ===== verification/Backup_Flow.thy ===== *)
theory Backup_Flow
  imports Message_Flow Cli_Backup
begin

text \<open>
  Backups from end to end: what \<^verbatim>\<open>aichan backup create\<close> writes, \<^verbatim>\<open>aichan backup restore\<close> puts back on
  another machine, from the file or through the relay, with the recovery phrase that was shown and
  nothing else.
\<close>

section \<open>What the steps of a command leave\<close>

lemma cached_identity_first:
  assumes laws: "base64_law (ce_crates env)" "x25519_law (ce_crates env)" "ed25519_law (ce_crates env)"
      "entropy_ok (ce_entropy env)"
    and "cs_identity (cl_cache c) = None" "cached_identity env s c = (Ok i, c')"
  shows "validate_identity (ce_crates env) i = Ok () \<and>
    c' = c\<lparr>cl_identity := Content i, cl_cache := (cl_cache c)\<lparr>cs_identity := Some i\<rparr>\<rparr>"
proof -
  obtain c1 where "load_identity env s c = (Ok i, c1)" "c' = c1\<lparr>cl_cache := (cl_cache c1)\<lparr>cs_identity := Some i\<rparr>\<rparr>"
    using assms(5,6) by (auto simp: cached_identity_def split: bool.splits prod.splits sum.splits)
  with load_identity_Ok [OF laws this(1)] show ?thesis by simp
qed

lemma cached_device_first:
  assumes "cs_device (cl_cache c) = None" "cached_device env s c = (Ok d, c')"
  shows "\<exists>f. c' = c\<lparr>cl_device := f, cl_cache := (cl_cache c)\<lparr>cs_device := Some d\<rparr>\<rparr>"
  using assms by (auto simp: cached_device_def split: bool.splits prod.splits sum.splits)

lemma memory_loaded: "memory_create_or_load s mk w now f = (Ok m, f') \<Longrightarrow> f' = Content m"
  by (auto simp: memory_create_or_load_def read_memory_def and_then_Ok_iff read_json_Ok map_ok_Ok_iff Let_def
      dest: write_json_Ok split: if_splits sum.splits prod.splits)

lemma cached_memory_first:
  assumes "cs_memory (cl_cache c) = None" "cached_memory env s c = (Ok m, c')"
  shows "c' = c\<lparr>cl_memory := Content m, cl_cache := (cl_cache c)\<lparr>cs_memory := Some m\<rparr>\<rparr>"
  using assms by (auto simp: cached_memory_def dest: memory_loaded split: bool.splits prod.splits sum.splits)

lemma cached_config_first:
  assumes "cs_config (cl_cache c) = None" "cached_config env s c = (Ok g, c')"
  shows "config_load_or_default s (cl_config c) = Ok g \<and> c' = c\<lparr>cl_cache := (cl_cache c)\<lparr>cs_config := Some g\<rparr>\<rparr>"
  using assms by (auto simp: cached_config_def split: bool.splits sum.splits)

lemma relay_request_keeps: "relay_request env verb url p hs body c = (r, c') \<Longrightarrow> \<exists>net. c' = c\<lparr>cl_net := net\<rparr>"
  by (auto simp: relay_request_def Let_def split: if_splits prod.splits sum.splits) (metis client.surjective client.update_convs(11))

lemma upload_keeps: "upload_hosted_backup env url l b c = (r, c') \<Longrightarrow> \<exists>net. c' = c\<lparr>cl_net := net\<rparr>"
  using relay_request_keeps
  by (fastforce simp: upload_hosted_backup_def then_do_def Let_def fail_def check_def
      split: prod.splits sum.splits if_splits)

lemma write_metadata_keeps: "write_metadata env s n m c = (r, c') \<Longrightarrow> \<exists>f. c' = c\<lparr>cl_metadata := f\<rparr>"
  by (auto simp: write_metadata_def split: prod.splits)

text \<open>The files a backup is made from, and where it is.\<close>

definition same_files :: "'n client \<Rightarrow> 'n client \<Rightarrow> bool" where
  "same_files c c' \<longleftrightarrow> cl_identity c' = cl_identity c \<and> cl_memory c' = cl_memory c \<and> cl_config c' = cl_config c \<and>
     cl_backups c' = cl_backups c"

lemma try_upload_keeps: "try_upload env s url l b m c = (r, c') \<Longrightarrow> same_files c c'"
  by (auto simp: try_upload_def then_do_def give_def same_files_def
      dest!: upload_keeps write_metadata_keeps split: prod.splits sum.splits)

lemma jget_last: "jget (obj (kvs @ [(k, v)])) k = Some v"
  by (simp add: jget_obj)

lemma metadata_steps_keep:
  "load_metadata s c = (r, c') \<Longrightarrow> c' = c" "write_metadata env s n md c = (r', c'') \<Longrightarrow> same_files c c''"
  by (auto simp: load_metadata_def same_files_def dest: write_metadata_keeps)

text \<open>The steps of a creation that ends with output.\<close>

lemma backup_create_steps:
  assumes "backup_create env cwd s (Some out) upload url c = (Ok (shown, w), c1)"
  obtains i a1 d a2 m a3 g a4 b a5 where
    "cached_identity env s c = (Ok i, a1)" "cached_device env s a1 = (Ok d, a2)" "cached_memory env s a2 = (Ok m, a3)"
    "cached_config env s a3 = (Ok g, a4)"
    "encrypt_backup (ce_crates env) (ce_now env 1) (ce_random env 1) (ce_random env 2)
       \<lparr>bp_version = 1, bp_peer_id = idf_peer_id i, bp_source_device_id = dev_device_id d, bp_identity = i,
        bp_memory = m, bp_config = Some g, bp_created_at = ce_now env 0\<rparr>
       (generate_recovery_phrase (ce_crates env) (ce_random env 0)) = Ok b"
    "write_backup env out b a4 = (Ok (), a5)" "same_files a5 c1"
    "jget shown ''recovery_phrase'' = Some (JStr (generate_recovery_phrase (ce_crates env) (ce_random env 0)))"
proof -
  note def = backup_create_def then_do_Ok Let_def
  obtain i a1 where i: "cached_identity env s c = (Ok i, a1)" using assms by (auto simp: def)
  obtain d a2 where d: "cached_device env s a1 = (Ok d, a2)" using assms i by (auto simp: def)
  obtain m a3 where m: "cached_memory env s a2 = (Ok m, a3)" using assms i d by (auto simp: def)
  obtain g a4 where g: "cached_config env s a3 = (Ok g, a4)" using assms i d m by (auto simp: def)
  obtain b a5 where b: "encrypt_backup (ce_crates env) (ce_now env 1) (ce_random env 1) (ce_random env 2)
       \<lparr>bp_version = 1, bp_peer_id = idf_peer_id i, bp_source_device_id = dev_device_id d, bp_identity = i,
        bp_memory = m, bp_config = Some g, bp_created_at = ce_now env 0\<rparr>
       (generate_recovery_phrase (ce_crates env) (ce_random env 0)) = Ok b"
      and w: "write_backup env out b a4 = (Ok (), a5)"
    using assms i d m g by (auto simp: def)
  obtain md a6 a7 where md: "load_metadata s a5 = (Ok md, a6)"
      "write_metadata env s 0 (md\<lparr>bm_last_local_backup_at := Some (ce_now env 0), bm_last_local_backup_path := Some out\<rparr>) a6
         = (Ok (), a7)"
    using assms i d m g b w by (auto simp: def)
  have keep: "same_files a5 a7" using metadata_steps_keep(1) [OF md(1)] metadata_steps_keep(2) [OF md(2)] by simp
  show ?thesis
  proof (rule that [OF i d m g b w])
    show "jget shown ''recovery_phrase'' = Some (JStr (generate_recovery_phrase (ce_crates env) (ce_random env 0)))"
      using assms i d m g b w md by (auto simp: def jget_obj split: if_splits)
    show "same_files a5 c1"
    proof (cases upload)
      case False
      then show ?thesis using assms i d m g b w md keep by (auto simp: def)
    next
      case True
      then obtain l r where "try_upload env s (effective_base_url g url) l b
          (md\<lparr>bm_last_local_backup_at := Some (ce_now env 0), bm_last_local_backup_path := Some out\<rparr>) a7 = (Ok r, c1)"
        using assms i d m g b w md by (auto simp: def)
      from try_upload_keeps [OF this] keep show ?thesis by (simp add: same_files_def)
    qed
  qed
qed

text \<open>A backup that was created: what it holds, where it is, and that the phrase was shown.\<close>

lemma backup_created:
  assumes laws: "base64_law (ce_crates env)" "x25519_law (ce_crates env)" "ed25519_law (ce_crates env)"
      "entropy_ok (ce_entropy env)"
    and c: "cl_cache c = init_state_cache s" "backup_create env cwd s (Some out) upload url c = (Ok (shown, w), c1)"
  obtains i d m g b where "cl_identity c1 = Content i" "validate_identity (ce_crates env) i = Ok ()"
    "cl_memory c1 = Content m" "config_load_or_default s (cl_config c1) = Ok g" "cl_backups c1 out = Content b"
    "encrypt_backup (ce_crates env) (ce_now env 1) (ce_random env 1) (ce_random env 2)
       \<lparr>bp_version = 1, bp_peer_id = idf_peer_id i, bp_source_device_id = d, bp_identity = i, bp_memory = m,
        bp_config = Some g, bp_created_at = ce_now env 0\<rparr>
       (generate_recovery_phrase (ce_crates env) (ce_random env 0)) = Ok b"
    "jget shown ''recovery_phrase'' = Some (JStr (generate_recovery_phrase (ce_crates env) (ce_random env 0)))"
proof (rule backup_create_steps [OF c(2)])
  fix i a1 d a2 m a3 g a4 b a5
  assume i: "cached_identity env s c = (Ok i, a1)" and d: "cached_device env s a1 = (Ok d, a2)"
    and m: "cached_memory env s a2 = (Ok m, a3)" and g: "cached_config env s a3 = (Ok g, a4)"
    and b: "encrypt_backup (ce_crates env) (ce_now env 1) (ce_random env 1) (ce_random env 2)
       \<lparr>bp_version = 1, bp_peer_id = idf_peer_id i, bp_source_device_id = dev_device_id d, bp_identity = i,
        bp_memory = m, bp_config = Some g, bp_created_at = ce_now env 0\<rparr>
       (generate_recovery_phrase (ce_crates env) (ce_random env 0)) = Ok b"
    and w: "write_backup env out b a4 = (Ok (), a5)" and kept: "same_files a5 c1"
    and shown: "jget shown ''recovery_phrase'' = Some (JStr (generate_recovery_phrase (ce_crates env) (ce_random env 0)))"
  have none: "cs_identity (cl_cache c) = None" "cs_device (cl_cache c) = None" "cs_memory (cl_cache c) = None"
      "cs_config (cl_cache c) = None" using c(1) by (simp_all add: init_state_cache_def)
  note I = cached_identity_first [OF laws none(1) i]
  then have n1: "cs_device (cl_cache a1) = None" "cs_memory (cl_cache a1) = None" "cs_config (cl_cache a1) = None"
    using none by simp_all
  obtain f where a2: "a2 = a1\<lparr>cl_device := f, cl_cache := (cl_cache a1)\<lparr>cs_device := Some d\<rparr>\<rparr>"
    using cached_device_first [OF n1(1) d] by blast
  then have n2: "cs_memory (cl_cache a2) = None" "cs_config (cl_cache a2) = None" using n1 by simp_all
  note M = cached_memory_first [OF n2(1) m]
  then have n3: "cs_config (cl_cache a3) = None" using n2 by simp
  note G = cached_config_first [OF n3 g]
  have a4: "cl_identity a4 = Content i" "cl_memory a4 = Content m" "config_load_or_default s (cl_config a4) = Ok g"
    using I a2 M G by simp_all
  from w have "cl_backups a5 out = Content b" "cl_identity a5 = cl_identity a4" "cl_memory a5 = cl_memory a4"
      "cl_config a5 = cl_config a4"
    by (auto simp: write_backup_def map_err_Ok_iff dest: write_json_Ok split: prod.splits)
  with kept a4 have "cl_identity c1 = Content i" "cl_memory c1 = Content m"
      "config_load_or_default s (cl_config c1) = Ok g" "cl_backups c1 out = Content b"
    by (simp_all add: same_files_def)
  then show ?thesis using that [of i m g b "dev_device_id d"] I b shown by blast
qed

section \<open>Restoring\<close>

lemma backup_source_keeps:
  assumes "backup_source env from_file url phrase c = (Ok r, c')"
  shows "\<exists>net. c' = c\<lparr>cl_net := net\<rparr>"
proof (cases from_file)
  case None
  then obtain l d where "download_hosted_backup env url l c = (Ok d, c')"
    using assms by (auto simp: backup_source_def then_do_Ok)
  then obtain resp where "relay_request env ''GET'' url (''/v1/backups/'' @ loc_backup_lookup_id l)
      [(''Aichan-Backup-Auth'', loc_backup_auth_token l)] [] c = (Ok resp, c')"
    by (auto simp: download_hosted_backup_def then_do_Ok Let_def split: if_splits)
  then show ?thesis by (rule relay_request_keeps)
next
  case (Some p)
  then have "c' = c" using assms by (auto simp: backup_source_def then_do_Ok)
  then have "c' = c\<lparr>cl_net := cl_net c\<rparr>" by simp
  then show ?thesis by blast
qed

text \<open>A restore on a machine without state, where the directories and files can be made.\<close>

lemma restore_succeeds:
  assumes x: "ce_crates env = x" and c: "cl_cache c = init_state_cache s" "\<not> restore_target_has_local_state c"
      "cl_metadata c = Missing"
    and io: "ensure_dirs s (ce_dirs env) = Ok ()" "\<forall>p n. ce_write env p n = Written"
    and b: "backup_source env from_file (effective_base_url \<lparr>cfg_base_url = None\<rparr> url) phrase
        (c\<lparr>cl_cache := (cl_cache c)\<lparr>cs_config := Some \<lparr>cfg_base_url = None\<rparr>\<rparr>\<rparr>) = (Ok (b, source, hosted), c1)"
      "decrypt_backup x b phrase = Ok p" "validate_identity x (bp_identity p) = Ok ()"
  shows "\<exists>v c'. backup_restore env env_var s from_file (Some phrase) force url c = (Ok v, c') \<and>
    cl_identity c' = Content (bp_identity p) \<and> cl_memory c' = Content (bp_memory p) \<and>
    cl_config c' = (case bp_config p of None \<Rightarrow> Missing | Some g \<Rightarrow> Content g) \<and>
    cl_device c' = Content (fresh_device (ce_uuid env 0) (ce_now env 0))"
proof -
  obtain net where c1: "c1 = c\<lparr>cl_cache := (cl_cache c)\<lparr>cs_config := Some \<lparr>cfg_base_url = None\<rparr>\<rparr>, cl_net := net\<rparr>"
    using backup_source_keeps [OF b(1)] by auto
  have m: "cl_identity c = Missing" "cl_device c = Missing" "cl_memory c = Missing" "cl_config c = Missing"
    using c(2) by (simp_all add: restore_target_has_local_state_def file_exists_def)
  have g: "cached_config env s c = (Ok \<lparr>cfg_base_url = None\<rparr>,
      c\<lparr>cl_cache := (cl_cache c)\<lparr>cs_config := Some \<lparr>cfg_base_url = None\<rparr>\<rparr>\<rparr>)"
    using c(1) m(4) by (simp add: cached_config_def config_load_or_default_def init_state_cache_def split: bool.splits)
  have md: "load_metadata s c' = (Ok default_backup_metadata, c')" if "cl_metadata c' = Missing" for c' :: "'a client"
    using that by (simp add: load_metadata_def backup_metadata_load_or_default_def)
  have w: "write_metadata env s n md c' = (Ok (), c'\<lparr>cl_metadata := Content md\<rparr>)" for n md and c' :: "'a client"
    using io by (simp add: write_metadata_def backup_metadata_write_def)
  have i: "replace_identity env s (bp_identity p) c' = (Ok (), c'\<lparr>cl_identity := Content (bp_identity p)\<rparr>)"
      "replace_memory env s (bp_memory p) c' = (Ok (), c'\<lparr>cl_memory := Content (bp_memory p)\<rparr>)"
      "replace_config env s (bp_config p) c'
         = (Ok (), case bp_config p of None \<Rightarrow> c' | Some g \<Rightarrow> c'\<lparr>cl_config := Content g\<rparr>)"
      "replace_device env s c' = (Ok (fresh_device (ce_uuid env 0) (ce_now env 0)),
         c'\<lparr>cl_device := Content (fresh_device (ce_uuid env 0) (ce_now env 0))\<rparr>)" for c' :: "'a client"
    using io b(3) x
    by (simp_all add: replace_identity_def identity_write_replace_to_def replace_memory_def replace_config_def
        replace_device_def device_create_fresh_def Let_def split: option.splits)
  show ?thesis
    unfolding backup_restore_def using c(2) b(2) x io(1)
    by (simp add: recovery_phrase_from_args_def then_do_def g b(1) c1 check_def check_core_def i)
      (cases "bp_config p"; simp add: then_do_def md w c(3) m(4) Let_def)
qed

text \<open>What JSON can hold of a client's files: years of four digits, numbers within the width of their type.\<close>

definition files_storable :: "'n client \<Rightarrow> bool" where
  "files_storable c \<longleftrightarrow>
     (case cl_identity c of Content i \<Rightarrow> four_digit_year (idf_created_at i) | _ \<Rightarrow> True) \<and>
     (case cl_memory c of Content m \<Rightarrow> memory_storable m | _ \<Rightarrow> True)"

text \<open>
  C7. A backup brings an agent back: when \<^verbatim>\<open>aichan backup create\<close> has shown a recovery phrase, with or without an
  upload, then \<^verbatim>\<open>aichan backup restore\<close> of its file with this phrase, on a machine without state, leaves
  there the same identity, memory and configuration as on the first machine, and a device of its own.
\<close>

theorem backup_restores:
  assumes laws: "base64_law x" "x25519_law x" "ed25519_law x" "hkdf_law x" "aead_law x" "rfc3339_law x" "json_law x"
    and env: "ce_crates env = x" "entropy_ok (ce_entropy env)" "length (ce_random env 1) = 16"
      "length (ce_random env 2) = 12" "four_digit_year (ce_now env 0)"
    and create: "cl_cache c = init_state_cache s" "backup_create env cwd s (Some out) upload url c = (Ok (shown, w), c1)"
      "files_storable c1" "jget shown ''recovery_phrase'' = Some (JStr phrase)"
    and machine: "ce_crates env2 = x" "cl_cache c2 = init_state_cache s2" "\<not> restore_target_has_local_state c2"
      "cl_metadata c2 = Missing" "cl_backups c2 p2 = cl_backups c1 out"
      "ensure_dirs s2 (ce_dirs env2) = Ok ()" "\<forall>p n. ce_write env2 p n = Written"
  shows "\<exists>v c3 g. backup_restore env2 env_var s2 (Some p2) (Some phrase) force url2 c2 = (Ok v, c3) \<and>
    cl_identity c3 = cl_identity c1 \<and> cl_memory c3 = cl_memory c1 \<and>
    config_load_or_default s (cl_config c1) = Ok g \<and> cl_config c3 = Content g \<and>
    cl_device c3 = Content (fresh_device (ce_uuid env2 0) (ce_now env2 0))"
proof -
  have laws': "base64_law (ce_crates env)" "x25519_law (ce_crates env)" "ed25519_law (ce_crates env)"
    using laws(1-3) env(1) by simp_all
  obtain i d m g b where i: "cl_identity c1 = Content i" "validate_identity (ce_crates env) i = Ok ()"
    and m: "cl_memory c1 = Content m" and g: "config_load_or_default s (cl_config c1) = Ok g"
    and b: "cl_backups c1 out = Content b" and enc: "encrypt_backup (ce_crates env) (ce_now env 1) (ce_random env 1)
       (ce_random env 2) \<lparr>bp_version = 1, bp_peer_id = idf_peer_id i, bp_source_device_id = d, bp_identity = i,
        bp_memory = m, bp_config = Some g, bp_created_at = ce_now env 0\<rparr>
       (generate_recovery_phrase (ce_crates env) (ce_random env 0)) = Ok b" (is "encrypt_backup _ _ _ _ ?p _ = _")
    and ph: "jget shown ''recovery_phrase'' = Some (JStr (generate_recovery_phrase (ce_crates env) (ce_random env 0)))"
    by (rule backup_created [OF laws' env(2) create(1,2)])
  have phrase: "phrase = generate_recovery_phrase x (ce_random env 0)" using ph create(4) env(1) by simp
  have "idf_version i = 1" using i(2) by (simp add: validate_identity_Ok)
  then have st: "payload_storable ?p"
    using create(3) i(1) m env(5) by (simp add: payload_storable_def files_storable_def u8_max_def)
  have enc': "encrypt_backup x (ce_now env 1) (ce_random env 1) (ce_random env 2) ?p phrase = Ok b"
    using enc phrase env(1) by simp
  have dec: "decrypt_backup x b phrase = Ok ?p"
    by (rule sealed_backup_opens [OF laws(1,5-7) st env(3,4) enc'])
  have "read_backup_file p2 (cl_backups c2 p2) = Ok b"
    using machine(5) b sealed_backup_valid [OF enc'] by (simp add: read_backup_file_def and_then_Ok_iff read_json_Ok)
  then have src: "backup_source env2 (Some p2) u phrase c' = (Ok (b, p2, None), c')"
    if "cl_backups c' = cl_backups c2" for u c'
    using that by (simp add: backup_source_def then_do_def)
  have "validate_identity x (bp_identity ?p) = Ok ()" using i(2) env(1) by simp
  from restore_succeeds [OF machine(1-4,6,7) src dec this, of env_var force url2] i(1) m g show ?thesis by auto
qed

end
