(* ===== verification/Hosted_Flow.thy ===== *)
theory Hosted_Flow
  imports Backup_Flow
begin

text \<open>
  A hosted backup from end to end: the client's upload and download against the relay's handlers and
  its store of backups.
\<close>

section \<open>The relay behind the client\<close>

text \<open>The request the relay reads of one the client makes, and an exchange with the relay.\<close>

definition http_of :: "string \<Rightarrow> cli_request \<Rightarrow> http_request" where
  "http_of base_url cr =
     with_headers (cr_headers cr)
       ((http_request_new (cr_method cr) (drop (length (trim_end_slash base_url)) (cr_url cr)))\<lparr>rq_body := cr_body cr\<rparr>)"

definition relay_of ::
  "crates \<Rightarrow> static_pages \<Rightarrow> string \<Rightarrow> request_env \<Rightarrow> cli_request \<Rightarrow> server_state \<Rightarrow>
   (call_error + relay_response) \<times> server_state" where
  "relay_of x pages base_url renv cr s =
     (let (r, log, s') = handle_request x pages renv (http_of base_url cr) s
      in (Ok \<lparr>rr_status = rs_status r, rr_body = rs_body r\<rparr>, s'))"

lemma relayed:
  assumes "ce_relay env = relay_of x pages url renv" "verb \<in> {''GET'', ''POST'', ''PUT'', ''DELETE''}"
    and "handle_request x pages renv (http_of url (outgoing verb url p hs body)) (cl_net c) = (r, log, s')"
  shows "relay_request env verb url p hs body c
    = (Ok \<lparr>rr_status = rs_status r, rr_body = rs_body r\<rparr>, c\<lparr>cl_net := s'\<rparr>)"
  using assms by (intro relay_request_outgoing) (simp_all add: relay_of_def)

lemma http_of_outgoing:
  assumes "to_ascii_uppercase verb = verb"
  shows "rq_method (http_of url (outgoing verb url p hs body)) = verb"
    "rq_path_and_query (http_of url (outgoing verb url p hs body)) = p"
    "rq_body (http_of url (outgoing verb url p hs body)) = body"
proof -
  have "rq_method (with_headers hs r) = rq_method r \<and> rq_path_and_query (with_headers hs r) = rq_path_and_query r \<and>
      rq_body (with_headers hs r) = rq_body r" for r
    by (induction hs arbitrary: r) auto
  then show "rq_method (http_of url (outgoing verb url p hs body)) = verb"
    "rq_path_and_query (http_of url (outgoing verb url p hs body)) = p"
    "rq_body (http_of url (outgoing verb url p hs body)) = body"
    using assms by (simp_all add: http_of_def outgoing_def) (simp_all add: http_request_new_def)
qed

lemma backup_header:
  "header (http_of url (outgoing verb url p (hs @ [(''Aichan-Backup-Auth'', t)]) body)) ''Aichan-Backup-Auth'' = Some t"
  by (simp add: http_of_def outgoing_def with_headers_def header_with_header)

section \<open>Where a hosted backup is\<close>

lemma locator_facts:
  assumes laws: "base64_law x" "base64_size_law x" "hkdf_law x"
    and l: "derive_hosted_backup_locator x phrase = Ok l"
  shows "list_all id_byte (loc_backup_lookup_id l)" "length (loc_backup_lookup_id l) \<le> 96" "loc_backup_lookup_id l \<noteq> []"
    "CHR ''/'' \<notin> set (loc_backup_lookup_id l)" "CHR ''?'' \<notin> set (loc_backup_lookup_id l)"
    "trim (loc_backup_auth_token l) = loc_backup_auth_token l" "12 \<le> length (loc_backup_auth_token l)"
proof -
  obtain a b where i: "loc_backup_lookup_id l = ''bak_'' @ b64_encode x a" "length a = 24"
    and t: "loc_backup_auth_token l = ''auth_'' @ b64_encode x b" "length b = 32"
  proof -
    obtain a b where ab: "hkdf_expand x ''aichan.backup.v1'' phrase ''aichan.backup.v1.lookup_id'' 24 = Some a"
        "hkdf_expand x ''aichan.backup.v1'' phrase ''aichan.backup.v1.auth_token'' 32 = Some b"
        "loc_backup_lookup_id l = ''bak_'' @ b64_encode x a" "loc_backup_auth_token l = ''auth_'' @ b64_encode x b"
      using l by (auto simp: derive_hosted_backup_locator_def and_then_Ok_iff ok_or_Ok_iff)
    have n: "length okm = n" if "hkdf_expand x s k i n = Some okm" "n \<le> 8160" for s k i n okm
      using hkdf_expand_ok [OF laws(3) that(2)] that(1) by (metis option.inject)
    have "length a = 24" "length b = 32" using n [OF ab(1)] n [OF ab(2)] by simp_all
    with ab(3,4) that show ?thesis by blast
  qed
  have alpha: "list_all b64_alphabet (b64_encode x c)" for c using laws(1) by (simp add: base64_law_def)
  have id: "list_all id_byte (loc_backup_lookup_id l)"
    using alpha [of a] i(1)
    by (auto simp: list_all_iff b64_alphabet_def id_byte_def is_ascii_lower_def in_range_def)
  then show "list_all id_byte (loc_backup_lookup_id l)" .
  have "\<not> id_byte (CHR ''/'')" "\<not> id_byte (CHR ''?'')"
    by (simp_all add: id_byte_def is_ascii_lower_def is_ascii_upper_def is_digit_def in_range_def)
  with id show "CHR ''/'' \<notin> set (loc_backup_lookup_id l)" "CHR ''?'' \<notin> set (loc_backup_lookup_id l)"
    by (auto simp: list_all_iff)
  have "length (b64_encode x a) \<le> 2 * length a" "length b \<le> length (b64_encode x b)"
    using laws(2) by (simp_all add: base64_size_law_def)
  then show "length (loc_backup_lookup_id l) \<le> 96" "12 \<le> length (loc_backup_auth_token l)"
    by (simp_all add: i t)
  show "loc_backup_lookup_id l \<noteq> []" by (simp add: i(1))
  have "list_all (in_range 33 126) (loc_backup_auth_token l)"
    using alpha [of b] t(1)
    by (auto simp: list_all_iff b64_alphabet_def is_ascii_lower_def is_ascii_upper_def is_digit_def in_range_def)
  then show "trim (loc_backup_auth_token l) = loc_backup_auth_token l" by (rule trim_graphic)
qed

lemma route_put_backup: "backup_lookup_path p = Some i \<Longrightarrow> route_of ''PUT'' p = PutBackupRoute i"
  by (simp add: route_of_def)

lemma route_get_backup:
  assumes "backup_lookup_path p = Some i" "backup_generations_path p = None"
  shows "route_of ''GET'' p = GetBackupRoute i False"
proof -
  have "starts_with p ''/v1/backups/''"
    using assms(1) by (auto simp: backup_lookup_path_def starts_with_iff strip_prefix_Some split: option.splits if_splits)
  then have "p \<notin> {''/health'', ''/.well-known/aichan'', ''/agent'', ''/agent.json'', ''/install.sh'',
      ''/favicon.ico'', ''/'', ''/v1/stats'', ''/v1/publish/search'', ''/v1/discover'', ''/v1/inbox'', ''/v1/activity''}"
    by (auto simp: starts_with_iff)
  with assms show ?thesis by (simp add: route_of_def)
qed

lemma backup_paths:
  assumes "i \<noteq> []" "CHR ''/'' \<notin> set i"
  shows "backup_lookup_path (''/v1/backups/'' @ i) = Some i" "backup_generations_path (''/v1/backups/'' @ i) = None"
proof -
  show "backup_lookup_path (''/v1/backups/'' @ i) = Some i"
    unfolding backup_lookup_path_def strip_prefix_append using assms by simp
  have "strip_suffix i ''/generations'' = None"
  proof (cases "strip_suffix i ''/generations''")
    case (Some t)
    then have "set i = set t \<union> set ''/generations''" by (simp add: strip_suffix_Some)
    with assms(2) show ?thesis by simp
  qed
  then show "backup_generations_path (''/v1/backups/'' @ i) = None"
    unfolding backup_generations_path_def strip_prefix_append by simp
qed

section \<open>What is stored\<close>

lemma backup_file_plain:
  assumes "bf_version b \<le> u8_max"
  shows "json_plain 3 (enc_backup_file x b)"
proof (rule json_plain_mono)
  have "bf_version b < 2 ^ 64" using assms by (simp add: u8_max_def)
  then show "json_plain (Suc (Suc 0)) (enc_backup_file x b)"
    by (simp add: enc_backup_file_def enc_backup_encryption_def)
qed simp

lemma backup_file_decodes:
  assumes "rfc3339_law x" "bf_version b \<le> u8_max" "four_digit_year (bf_created_at b)"
  shows "dec_backup_file x (value_of (enc_backup_file x b)) = Some b"
  using assms
  by (simp add: dec_backup_file_def enc_backup_file_def dec_backup_encryption_def enc_backup_encryption_def
      value_of_JObj struct_fields_obj field_defs serde)

definition public_name :: "string \<Rightarrow> bool" where
  "public_name k \<longleftrightarrow> to_ascii_lowercase k \<notin> set private_names"

lemma public_names_obj:
  assumes "\<forall>(k, v) \<in> set kvs. public_name k \<and> (\<forall>k'. has_key k' v \<longrightarrow> public_name k')"
  shows "\<forall>k. has_key k (obj kvs) \<longrightarrow> public_name k"
  using assms set_bt_collect_subset [of kvs] by (fastforce simp: obj_def has_key_simps)

lemma backup_names_public:
  "public_name ''version''" "public_name ''created_at''" "public_name ''encryption''" "public_name ''ciphertext''"
  "public_name ''suite''" "public_name ''kdf''" "public_name ''salt''" "public_name ''nonce''"
  by code_simp+

lemma backup_package_ok:
  assumes "list_all b64_alphabet (bf_ciphertext b)" "bf_ciphertext b \<noteq> []" "length (bf_ciphertext b) \<le> 65536"
  shows "package_ok (value_of (enc_backup_file x b))"
proof -
  let ?e = "obj [(''suite'', JStr (ben_suite (bf_encryption b))), (''kdf'', JStr (ben_kdf (bf_encryption b))),
       (''salt'', JStr (ben_salt (bf_encryption b))), (''nonce'', JStr (ben_nonce (bf_encryption b)))]"
  let ?kvs = "[(''version'', jnat (bf_version b)), (''created_at'', enc_time x (bf_created_at b)),
     (''encryption'', ?e), (''ciphertext'', JStr (bf_ciphertext b))]"
  have v: "value_of (enc_backup_file x b) = obj ?kvs"
    by (simp add: enc_backup_file_def enc_backup_encryption_def value_of_JObj)
  have "list_all (in_range 33 126) (bf_ciphertext b)"
    using assms(1)
    by (auto simp: list_all_iff b64_alphabet_def is_ascii_lower_def is_ascii_upper_def is_digit_def in_range_def)
  then have t: "trim (bf_ciphertext b) = bf_ciphertext b" by (rule trim_graphic)
  have c: "bt_get (bt_collect ?kvs) ''ciphertext'' = Some (JStr (bf_ciphertext b))" by (simp add: bt_get_collect)
  have "\<forall>k. has_key k ?e \<longrightarrow> public_name k"
    by (rule public_names_obj) (simp add: backup_names_public has_key_simps)
  then have "\<forall>k. has_key k (obj ?kvs) \<longrightarrow> public_name k"
    by (intro public_names_obj) (simp add: backup_names_public has_key_simps enc_time_def)
  then show ?thesis
    unfolding v package_ok_def using c t assms(2,3) by (auto simp: obj_def public_name_def)
qed

section \<open>At the relay\<close>

lemma backup_uploaded:
  assumes laws: "json_law x" and l: "backup_checked x request i = Ok t" "path request = ''/v1/backups/'' @ i"
      "i \<noteq> []" "CHR ''/'' \<notin> set i"
    and q: "rq_method request = ''PUT''" "rq_body request = json_text x (enc_backup_file x b)"
      "let_through renv request s" "env_io renv = io_ok"
    and b: "bf_version b \<le> u8_max" "package_ok (value_of (enc_backup_file x b))"
    and rs: "load (sv_backups s) = Ok bs" "backups_ok bs"
      "\<forall>b \<in> set bs. hb_lookup_id b = i \<longrightarrow> hb_auth_hash b = backup_auth_hash x t \<and>
         (\<forall>g \<in> set (hb_generations b). hg_created_at g < env_later renv)"
  shows "\<exists>log s'. handle_request x pages renv request s = (json_response x 201 (obj [
       (''stored'', JBool True), (''lookup_id'', JStr i),
       (''generation_id'', JStr (hg_generation_id (new_generation x (value_of (enc_backup_file x b)) (env_later renv)))),
       (''created_at'', enc_time x (env_later renv)),
       (''size_bytes'', jnat (length (json_text x (value_of (enc_backup_file x b))))),
       (''content_sha256'', JStr (hg_content_sha256 (new_generation x (value_of (enc_backup_file x b)) (env_later renv))))]),
       log, s') \<and>
     backup_latest x i t (sv_backups s') = Ok (BackupFound (new_generation x (value_of (enc_backup_file x b)) (env_later renv))) \<and>
     sv_rate_config s' = sv_rate_config s \<and>
     sv_rate_buckets s' = snd (check_rate_limit (sv_rate_config s) (env_instant renv) request (sv_rate_buckets s))"
proof -
  let ?v = "value_of (enc_backup_file x b)" and ?now = "env_later renv"
  obtain bk r log s' where d: "dispatch x pages renv request (s\<lparr>sv_rate_buckets := bk\<rparr>) = (r, log, s')"
      and h: "handle_request x pages renv request s = (r, log @ [CompletionLine request r], s')"
      and bk: "bk = snd (check_rate_limit (sv_rate_config s) (env_instant renv) request (sv_rate_buckets s))"
    by (rule let_through_dispatch [OF q(3), of x pages])
  have "json_plain 127 (enc_backup_file x b)" by (rule json_plain_mono [OF backup_file_plain [OF b(1)]]) simp
  then have parsed: "parse_hosted_backup_package x (rq_body request) = Ok ?v"
    using b(2) q(2) laws by (simp add: parse_package_Ok json_read_text)
  obtain d' where put: "backup_put x io_ok ?now i t ?v (sv_backups s) = (Ok (BackupStored (new_generation x ?v ?now)), d')"
    using backup_put_stores [OF rs] by blast
  from stored_then_latest [OF rs(2,1) _ put] rs(3) have latest: "backup_latest x i t d' = Ok (BackupFound (new_generation x ?v ?now))"
    by blast
  have size: "hg_size_bytes (new_generation x ?v ?now) = length (json_text x ?v)"
    by (simp add: new_generation_def Let_def)
  have route: "route_of (rq_method request) (path request) = PutBackupRoute i"
    unfolding q(1) l(2) by (rule route_put_backup [OF backup_paths(1) [OF l(3,4)]])
  from d route l(1) parsed put q(4) latest h bk size show ?thesis
    by (auto simp: dispatch_file put_hosted_backup_def put_hosted_backup_on_def)
qed

definition backup_answer :: "crates \<Rightarrow> string \<Rightarrow> hosted_generation \<Rightarrow> json" where
  "backup_answer x i g = obj [
     (''lookup_id'', JStr i), (''generation_id'', JStr (hg_generation_id g)),
     (''created_at'', enc_time x (hg_created_at g)), (''size_bytes'', jnat (hg_size_bytes g)),
     (''content_sha256'', JStr (hg_content_sha256 g)), (''backup'', hg_backup g)]"

lemma backup_downloaded:
  assumes l: "backup_checked x request i = Ok t" "path request = ''/v1/backups/'' @ i" "i \<noteq> []" "CHR ''/'' \<notin> set i"
    and q: "rq_method request = ''GET''" "let_through renv request s"
    and g: "backup_latest x i t (sv_backups s) = Ok (BackupFound g)"
  shows "\<exists>log s'. handle_request x pages renv request s = (json_response x 200 (backup_answer x i g), log, s')"
proof -
  obtain bk r log s' where d: "dispatch x pages renv request (s\<lparr>sv_rate_buckets := bk\<rparr>) = (r, log, s')"
      and h: "handle_request x pages renv request s = (r, log @ [CompletionLine request r], s')"
    by (rule let_through_dispatch [OF q(2), of x pages])
  have route: "route_of (rq_method request) (path request) = GetBackupRoute i False"
    unfolding q(1) l(2) by (rule route_get_backup [OF backup_paths [OF l(3,4)]])
  from d route l(1) g h show ?thesis
    by (auto simp: dispatch_file get_hosted_backup_def get_hosted_backup_on_def backup_answer_def)
qed

section \<open>What the client reads of the answers\<close>

lemma upload_answer_read:
  assumes "json_law x" "rfc3339_law x" "four_digit_year t" "n \<le> u64_max"
  shows "from_json x (dec_hosted_upload x) (json_text x (obj [(''stored'', JBool True), (''lookup_id'', JStr i),
      (''generation_id'', JStr gid), (''created_at'', enc_time x t), (''size_bytes'', jnat n), (''content_sha256'', JStr h)]))
    = Ok \<lparr>hu_generation_id = gid, hu_created_at = t, hu_size_bytes = n, hu_content_sha256 = h\<rparr>"
proof (rule from_json_text [OF assms(1)])
  let ?v = "obj [(''stored'', JBool True), (''lookup_id'', JStr i), (''generation_id'', JStr gid),
      (''created_at'', enc_time x t), (''size_bytes'', jnat n), (''content_sha256'', JStr h)]"
  have "json_plain (Suc 0) ?v" by (rule json_plain_obj) (use assms(4) in \<open>auto simp: u64_max_def\<close>)
  then show "json_plain 127 ?v" by (rule json_plain_mono) simp
  show "dec_hosted_upload x ?v
      = Some \<lparr>hu_generation_id = gid, hu_created_at = t, hu_size_bytes = n, hu_content_sha256 = h\<rparr>"
    using assms by (simp add: dec_hosted_upload_def struct_fields_obj field_defs serde)
qed

lemma download_answer_read:
  assumes laws: "json_law x" "rfc3339_law x"
    and g: "four_digit_year (hg_created_at g)" "hg_size_bytes g \<le> u64_max" "hg_backup g = value_of (enc_backup_file x b)"
    and b: "bf_version b \<le> u8_max" "four_digit_year (bf_created_at b)"
  shows "from_json x (dec_hosted_download x) (json_text x (backup_answer x i g))
    = Ok \<lparr>hu_generation_id = hg_generation_id g, hu_created_at = hg_created_at g, hu_size_bytes = hg_size_bytes g,
         hu_content_sha256 = hg_content_sha256 g, hd_backup = b\<rparr>"
proof (rule from_json_text [OF laws(1)])
  have "json_plain (Suc 3) (backup_answer x i g)"
    unfolding backup_answer_def
    by (rule json_plain_obj)
      (use g(2,3) json_plain_value_of [OF backup_file_plain [OF b(1)]] in \<open>auto simp: u64_max_def\<close>)
  then show "json_plain 127 (backup_answer x i g)" by (rule json_plain_mono) simp
  show "dec_hosted_download x (backup_answer x i g)
    = Some \<lparr>hu_generation_id = hg_generation_id g, hu_created_at = hg_created_at g, hu_size_bytes = hg_size_bytes g,
         hu_content_sha256 = hg_content_sha256 g, hd_backup = b\<rparr>"
    using laws g backup_file_decodes [OF laws(2) b]
    by (simp add: dec_hosted_download_def backup_answer_def struct_fields_obj field_defs serde)
qed

section \<open>From end to end\<close>

definition put_backup_request :: "crates \<Rightarrow> string \<Rightarrow> hosted_backup_locator \<Rightarrow> backup_file \<Rightarrow> http_request" where
  "put_backup_request x url l b = http_of url (outgoing ''PUT'' url (''/v1/backups/'' @ loc_backup_lookup_id l)
     [(''Content-Type'', ''application/json''), (''Aichan-Backup-Auth'', loc_backup_auth_token l)]
     (json_text x (enc_backup_file x b)))"

definition get_backup_request :: "string \<Rightarrow> hosted_backup_locator \<Rightarrow> http_request" where
  "get_backup_request url l = http_of url (outgoing ''GET'' url (''/v1/backups/'' @ loc_backup_lookup_id l)
     [(''Aichan-Backup-Auth'', loc_backup_auth_token l)] [])"

lemma upper_verbs: "to_ascii_uppercase ''PUT'' = ''PUT''" "to_ascii_uppercase ''GET'' = ''GET''"
  by code_simp+

text \<open>Both requests pass the checks on the lookup id and the token, and reach their routes.\<close>

lemma backup_requests:
  assumes "base64_law x" "base64_size_law x" "hkdf_law x" and l: "derive_hosted_backup_locator x phrase = Ok l"
  shows "backup_checked x (put_backup_request x url l b) (loc_backup_lookup_id l) = Ok (loc_backup_auth_token l)"
    "backup_checked x (get_backup_request url l) (loc_backup_lookup_id l) = Ok (loc_backup_auth_token l)"
    "path (put_backup_request x url l b) = ''/v1/backups/'' @ loc_backup_lookup_id l"
    "path (get_backup_request url l) = ''/v1/backups/'' @ loc_backup_lookup_id l"
proof -
  note f = locator_facts [OF assms(1-3) l]
  have h: "header (put_backup_request x url l b) ''Aichan-Backup-Auth'' = Some (loc_backup_auth_token l)"
      "header (get_backup_request url l) ''Aichan-Backup-Auth'' = Some (loc_backup_auth_token l)"
    using backup_header [of url "''PUT''" _ "[(''Content-Type'', ''application/json'')]"]
      backup_header [of url "''GET''" _ "[]"]
    by (simp_all add: put_backup_request_def get_backup_request_def)
  with f show "backup_checked x (put_backup_request x url l b) (loc_backup_lookup_id l) = Ok (loc_backup_auth_token l)"
      "backup_checked x (get_backup_request url l) (loc_backup_lookup_id l) = Ok (loc_backup_auth_token l)"
    by (simp_all add: backup_checked_Ok)
  have "CHR ''?'' \<notin> set (''/v1/backups/'' @ loc_backup_lookup_id l)" using f(5) by simp
  then have "split_once (CHR ''?'') (''/v1/backups/'' @ loc_backup_lookup_id l) = None"
    unfolding split_once_None .
  then show "path (put_backup_request x url l b) = ''/v1/backups/'' @ loc_backup_lookup_id l"
      "path (get_backup_request url l) = ''/v1/backups/'' @ loc_backup_lookup_id l"
    unfolding path_def put_backup_request_def get_backup_request_def http_of_outgoing(2) [OF upper_verbs(1)]
      http_of_outgoing(2) [OF upper_verbs(2)] by simp_all
qed

text \<open>The upload: what the client reads, and what the relay then has.\<close>

lemma hosted_upload_done:
  assumes laws: "base64_law x" "base64_size_law x" "hkdf_law x" "rfc3339_law x" "json_law x"
    and b: "bf_version b \<le> u8_max" "package_ok (value_of (enc_backup_file x b))"
      "length (json_text x (value_of (enc_backup_file x b))) \<le> u64_max"
    and l: "derive_hosted_backup_locator x phrase = Ok l"
    and relay: "load (sv_backups (cl_net c)) = Ok bs" "backups_ok bs"
      "\<forall>h \<in> set bs. hb_lookup_id h = loc_backup_lookup_id l \<longrightarrow>
         hb_auth_hash h = backup_auth_hash x (loc_backup_auth_token l) \<and>
         (\<forall>g \<in> set (hb_generations h). hg_created_at g < env_later renv)"
    and upload: "ce_crates env = x" "ce_relay env = relay_of x pages url renv" "env_io renv = io_ok"
      "four_digit_year (env_later renv)" "let_through renv (put_backup_request x url l b) (cl_net c)"
      "upload_hosted_backup env url l b c = (r, c1)"
  shows "(\<exists>u. r = Ok u \<and> hu_generation_id u
      = hg_generation_id (new_generation x (value_of (enc_backup_file x b)) (env_later renv))) \<and>
    backup_latest x (loc_backup_lookup_id l) (loc_backup_auth_token l) (sv_backups (cl_net c1))
      = Ok (BackupFound (new_generation x (value_of (enc_backup_file x b)) (env_later renv))) \<and>
    sv_rate_config (cl_net c1) = sv_rate_config (cl_net c) \<and>
    sv_rate_buckets (cl_net c1) = snd (check_rate_limit (sv_rate_config (cl_net c)) (env_instant renv)
      (put_backup_request x url l b) (sv_rate_buckets (cl_net c)))"
proof -
  let ?v = "value_of (enc_backup_file x b)"
  let ?g = "new_generation x ?v (env_later renv)"
  note f = locator_facts [OF laws(1-3) l] and rq = backup_requests [OF laws(1-3) l]
  have put: "rq_method (put_backup_request x url l b) = ''PUT''"
      "rq_body (put_backup_request x url l b) = json_text x (enc_backup_file x b)"
    unfolding put_backup_request_def by (simp_all only: http_of_outgoing [OF upper_verbs(1)])
  obtain log s' where up: "handle_request x pages renv (put_backup_request x url l b) (cl_net c)
      = (json_response x 201 (obj [(''stored'', JBool True), (''lookup_id'', JStr (loc_backup_lookup_id l)),
          (''generation_id'', JStr (hg_generation_id ?g)), (''created_at'', enc_time x (env_later renv)),
          (''size_bytes'', jnat (length (json_text x ?v))), (''content_sha256'', JStr (hg_content_sha256 ?g))]), log, s')"
      and stored: "backup_latest x (loc_backup_lookup_id l) (loc_backup_auth_token l) (sv_backups s') = Ok (BackupFound ?g)"
      and rates: "sv_rate_config s' = sv_rate_config (cl_net c)" "sv_rate_buckets s' = snd (check_rate_limit
        (sv_rate_config (cl_net c)) (env_instant renv) (put_backup_request x url l b) (sv_rate_buckets (cl_net c)))"
    using backup_uploaded [OF laws(5) rq(1,3) f(3,4) put upload(5,3) b(1,2) relay, of pages] by blast
  have "r = Ok \<lparr>hu_generation_id = hg_generation_id ?g, hu_created_at = env_later renv,
      hu_size_bytes = length (json_text x ?v), hu_content_sha256 = hg_content_sha256 ?g\<rparr>" "cl_net c1 = s'"
    using upload(6) relayed [OF upload(2) _ up [unfolded put_backup_request_def]]
      upload_answer_read [OF laws(5,4) upload(4) b(3)] upload(1)
    by (auto simp: upload_hosted_backup_def then_do_def check_def)
  with stored rates show ?thesis by simp
qed

text \<open>
  C6. The recovery phrase is enough: a backup that the client seals and uploads (with a lookup id and a token
  derived from the phrase) is stored by the relay; from then on a client that has nothing but the
  phrase derives the same id and token, downloads exactly this backup, and opens it to what was
  sealed (where the relay lets the requests through, its disk works, and its clock has not gone
  back behind the generations that are there).
\<close>

theorem hosted_backup_recovered:
  assumes laws: "base64_law x" "base64_size_law x" "hkdf_law x" "aead_law x" "rfc3339_law x" "json_law x"
    and seal: "encrypt_backup x t salt nonce p phrase = Ok b" "payload_storable p" "length salt = 16"
      "length nonce = 12" "four_digit_year t" "bf_ciphertext b \<noteq> []" "length (bf_ciphertext b) \<le> 65536"
      "length (json_text x (value_of (enc_backup_file x b))) \<le> u64_max"
    and l: "derive_hosted_backup_locator x phrase = Ok l"
    and relay: "load (sv_backups (cl_net c)) = Ok bs" "backups_ok bs"
      "\<forall>h \<in> set bs. hb_lookup_id h = loc_backup_lookup_id l \<longrightarrow>
         hb_auth_hash h = backup_auth_hash x (loc_backup_auth_token l) \<and>
         (\<forall>g \<in> set (hb_generations h). hg_created_at g < env_later renv)"
    and upload: "ce_crates env = x" "ce_relay env = relay_of x pages url renv" "env_io renv = io_ok"
      "four_digit_year (env_later renv)" "let_through renv (put_backup_request x url l b) (cl_net c)"
      "upload_hosted_backup env url l b c = (r, c1)"
    and download: "ce_crates env2 = x" "ce_relay env2 = relay_of x pages2 url2 renv2" "cl_net c2 = cl_net c1"
      "let_through renv2 (get_backup_request url2 l) (cl_net c1)"
  shows "\<exists>u d c3. r = Ok u \<and> download_hosted_backup env2 url2 l c2 = (Ok d, c3) \<and>
    hu_generation_id d = hu_generation_id u \<and> hd_backup d = b \<and> decrypt_backup x (hd_backup d) phrase = Ok p"
proof -
  let ?v = "value_of (enc_backup_file x b)"
  let ?g = "new_generation x ?v (env_later renv)"
  note f = locator_facts [OF laws(1-3) l] and rq = backup_requests [OF laws(1-3) l]
  from seal(1) obtain ct where "bf_version b = 1" "bf_created_at b = t" "bf_ciphertext b = b64_encode x ct"
    by (auto simp: encrypt_backup_Ok)
  then have bf: "bf_version b \<le> u8_max" "four_digit_year (bf_created_at b)" "list_all b64_alphabet (bf_ciphertext b)"
    using seal(5) laws(1) by (simp_all add: u8_max_def base64_law_def)
  note up = hosted_upload_done [OF laws(1-3,5,6) bf(1) backup_package_ok [OF bf(3) seal(6,7)] seal(8) l relay upload]
  have get: "rq_method (get_backup_request url2 l) = ''GET''"
    unfolding get_backup_request_def by (simp only: http_of_outgoing [OF upper_verbs(2)])
  obtain log2 s2 where down: "handle_request x pages2 renv2 (get_backup_request url2 l) (cl_net c2)
      = (json_response x 200 (backup_answer x (loc_backup_lookup_id l) ?g), log2, s2)"
    using backup_downloaded [OF rq(2,4) f(3,4) get download(4)] up download(3) by metis
  have gs: "four_digit_year (hg_created_at ?g)" "hg_size_bytes ?g \<le> u64_max" "hg_backup ?g = ?v"
    using upload(4) seal(8) by simp_all (simp add: new_generation_def Let_def)
  have "download_hosted_backup env2 url2 l c2 = (Ok \<lparr>hu_generation_id = hg_generation_id ?g,
      hu_created_at = hg_created_at ?g, hu_size_bytes = hg_size_bytes ?g, hu_content_sha256 = hg_content_sha256 ?g,
      hd_backup = b\<rparr>, c2\<lparr>cl_net := s2\<rparr>)"
    using relayed [OF download(2) _ down [unfolded get_backup_request_def]] download(1)
      download_answer_read [OF laws(6,5) gs bf(1,2)]
    by (simp add: download_hosted_backup_def then_do_def check_def)
  with up sealed_backup_opens [OF laws(1,4-6) seal(2-4,1)] show ?thesis by auto
qed

end
