(* ===== verification/Backup_Samples.thy ===== *)
theory Backup_Samples
  imports Hosted_Flow
begin

text \<open>
  Instances of the theorems on backups: a first agent on a fresh machine, its backup in a file, and its
  backup at a fresh relay.
\<close>

section \<open>A backup in a file\<close>

definition sample_backup_env :: "unit cli_env" where
  "sample_backup_env = (sample_cli_env toy)\<lparr>ce_random := (\<lambda>n. replicate (if n = 1 then 16 else 12) (CHR ''e''))\<rparr>"

lemma sample_backup_env_simps [simp]:
  "ce_crates sample_backup_env = toy" "ce_dirs sample_backup_env = dirs_made"
  "ce_write sample_backup_env p n = Written" "ce_entropy sample_backup_env = sample_entropy"
  "ce_now sample_backup_env n = sample_now" "ce_uuid sample_backup_env n = ''0a''"
  "ce_raced sample_backup_env = Missing" "length (ce_random sample_backup_env 1) = 16"
  "length (ce_random sample_backup_env 2) = 12"
  by (simp_all add: sample_backup_env_def)

abbreviation sample_file_payload :: backup_payload where
  "sample_file_payload \<equiv>
     (let i = new_identity toy sample_entropy; d = fresh_device ''0a'' sample_now in
      \<lparr>bp_version = 1, bp_peer_id = idf_peer_id i, bp_source_device_id = dev_device_id d, bp_identity = i,
       bp_memory = default_memory sample_now, bp_config = Some \<lparr>cfg_base_url = None\<rparr>, bp_created_at = sample_now\<rparr>)"

lemma sample_file_payload_valid: "validate_backup_payload toy sample_file_payload = Ok ()"
  using sample_identity_valid
  by (simp add: validate_backup_payload_Ok Let_def default_memory_def)

lemma sample_create:
  obtains shown c1 where
    "backup_create sample_backup_env (Ok ''/home/a'') ''/home/a'' (Some ''b'') False None sample_client = (Ok (shown, None), c1)"
    "cl_identity c1 = Content (new_identity toy sample_entropy)" "cl_memory c1 = Content (default_memory sample_now)"
    "jget shown ''recovery_phrase'' = Some (JStr (generate_recovery_phrase toy (ce_random sample_backup_env 0)))"
proof -
  let ?e = sample_backup_env and ?i = "new_identity toy sample_entropy" and ?d = "fresh_device ''0a'' sample_now"
  let ?m = "default_memory sample_now" and ?g = "\<lparr>cfg_base_url = None\<rparr>"
  let ?c1 = "sample_client\<lparr>cl_identity := Content ?i, cl_cache := (init_state_cache ''/home/a'')\<lparr>cs_identity := Some ?i\<rparr>\<rparr>"
  let ?c2 = "?c1\<lparr>cl_device := Content ?d, cl_cache := (cl_cache ?c1)\<lparr>cs_device := Some ?d\<rparr>\<rparr>"
  let ?c3 = "?c2\<lparr>cl_memory := Content ?m, cl_cache := (cl_cache ?c2)\<lparr>cs_memory := Some ?m\<rparr>\<rparr>"
  let ?c4 = "?c3\<lparr>cl_cache := (cl_cache ?c3)\<lparr>cs_config := Some ?g\<rparr>\<rparr>"
  have l: "load_identity ?e ''/home/a'' sample_client = (Ok ?i, sample_client\<lparr>cl_identity := Content ?i\<rparr>)"
    by (simp add: load_identity_def identity_create_or_load_def write_new_identity_def sample_client_def Let_def)
  have i: "cached_identity ?e ''/home/a'' sample_client = (Ok ?i, ?c1)"
    using l by (simp add: cached_identity_def sample_client_def init_state_cache_def)
  have d: "cached_device ?e ''/home/a'' ?c1 = (Ok ?d, ?c2)"
    by (simp add: cached_device_def device_create_or_load_def device_create_fresh_def sample_client_def
        init_state_cache_def sample_entropy_def Let_def)
  have m: "cached_memory ?e ''/home/a'' ?c2 = (Ok ?m, ?c3)"
    by (simp add: cached_memory_def memory_create_or_load_def sample_client_def init_state_cache_def
        sample_entropy_def Let_def)
  have g: "cached_config ?e ''/home/a'' ?c3 = (Ok ?g, ?c4)"
    by (simp add: cached_config_def config_load_or_default_def sample_client_def init_state_cache_def)
  obtain b where b: "encrypt_backup toy sample_now (ce_random ?e 1) (ce_random ?e 2) sample_file_payload
      (generate_recovery_phrase toy (ce_random ?e 0)) = Ok b"
    using backup_sealed [OF toy_laws(3,6) sample_file_payload_valid] by blast
  show ?thesis
  proof (rule that)
    show "backup_create ?e (Ok ''/home/a'') ''/home/a'' (Some ''b'') False None sample_client = (Ok (obj [
        (''created'', JBool True), (''backup_file'', JStr ''b''), (''peer_id'', enc_peer_id (idf_peer_id ?i)),
        (''source_device_id'', JStr (device_str (dev_device_id ?d))), (''created_at'', enc_time toy sample_now),
        (''recovery_phrase'', JStr (generate_recovery_phrase toy (ce_random ?e 0)))], None),
      ?c4\<lparr>cl_backups := (cl_backups ?c4)(''b'' := Content b),
          cl_metadata := Content (default_backup_metadata\<lparr>bm_last_local_backup_at := Some sample_now,
            bm_last_local_backup_path := Some ''b''\<rparr>)\<rparr>)"
      unfolding backup_create_def then_do_def i Let_def
      using d m g b [unfolded Let_def]
      by (simp add: then_do_def check_core_def write_backup_def load_metadata_def write_metadata_def
          backup_metadata_load_or_default_def backup_metadata_write_def sample_client_def)
  qed (simp_all add: jget_obj)
qed

theorem backup_restores_witness:
  "\<exists>shown c1 phrase v c3.
     backup_create sample_backup_env (Ok ''/home/a'') ''/home/a'' (Some ''b'') False None sample_client = (Ok (shown, None), c1) \<and>
     backup_restore sample_backup_env (\<lambda>n. None) ''/home/b'' (Some ''b'') (Some phrase) False None
       (sample_client\<lparr>cl_cache := init_state_cache ''/home/b'', cl_backups := cl_backups c1\<rparr>) = (Ok v, c3) \<and>
     cl_identity c3 = Content (new_identity toy sample_entropy)"
proof (rule sample_create)
  fix shown c1
  assume c: "backup_create sample_backup_env (Ok ''/home/a'') ''/home/a'' (Some ''b'') False None sample_client = (Ok (shown, None), c1)"
    "cl_identity c1 = Content (new_identity toy sample_entropy)" "cl_memory c1 = Content (default_memory sample_now)"
    "jget shown ''recovery_phrase'' = Some (JStr (generate_recovery_phrase toy (ce_random sample_backup_env 0)))"
  let ?c2 = "sample_client\<lparr>cl_cache := init_state_cache ''/home/b'', cl_backups := cl_backups c1\<rparr>"
  have ent: "entropy_ok (ce_entropy sample_backup_env)" using sample_entropy_ok by (simp add: sample_entropy_def)
  have init: "cl_cache sample_client = init_state_cache ''/home/a''" by (simp add: sample_client_def)
  have st: "files_storable c1"
    using c(2,3) by (simp add: files_storable_def new_identity_def Let_def sample_entropy_def memory_storable_def
        default_memory_def default_sync_def u8_max_def)
  have t: "four_digit_year (ce_now sample_backup_env 0)" by simp
  have m: "cl_cache ?c2 = init_state_cache ''/home/b''" "\<not> restore_target_has_local_state ?c2" "cl_metadata ?c2 = Missing"
      "cl_backups ?c2 ''b'' = cl_backups c1 ''b''" "ensure_dirs ''/home/b'' (ce_dirs sample_backup_env) = Ok ()"
      "\<forall>p n. ce_write sample_backup_env p n = Written"
    by (simp_all add: sample_client_def restore_target_has_local_state_def)
  from backup_restores [OF toy_laws(1,5,4,3,6,7,8) sample_backup_env_simps(1) ent sample_backup_env_simps(8,9) t init c(1) st c(4)
      sample_backup_env_simps(1) m, of "\<lambda>n. None" False None] c(1,2)
  show ?thesis by auto
qed

section \<open>A hosted backup\<close>

text \<open>The toy crates with short texts for two values.\<close>

definition brief_toy :: "json \<Rightarrow> json \<Rightarrow> crates" where
  "brief_toy v0 v1 = toy\<lparr>json_text := \<lambda>v. if v = v0 then ''0'' else if v = v1 then ''1'' else CHR ''2'' # json_text toy v,
     json_read := \<lambda>s. if s = ''0'' then Ok v0 else if s = ''1'' then Ok v1 else json_read toy (tl s)\<rparr>"

lemma brief_toy_laws:
  "base64_law (brief_toy v w)" "base64_size_law (brief_toy v w)" "hkdf_law (brief_toy v w)"
  "aead_law (brief_toy v w)" "rfc3339_law (brief_toy v w)" "json_law (brief_toy v w)"
  "x25519_law (brief_toy v w)" "ed25519_law (brief_toy v w)"
  using toy_laws toy_base64_size
  by (simp_all add: brief_toy_def base64_law_def base64_size_law_def hkdf_law_def ed25519_law_def
      x25519_law_def aead_law_def rfc3339_law_def json_law_def del: toy_selectors)

lemma brief_toy_fields:
  "b64_encode (brief_toy v w) = hex_text" "datetime_json (brief_toy v w) = show_time"
  "json_text (brief_toy v w) v = ''0''" "length (json_text (brief_toy v w) w) = 1"
  "aead_seal (brief_toy v w) k n a m = Some (CHR ''#'' # m)"
  by (simp_all add: brief_toy_def) (simp add: toy_def)

definition brief_payload :: backup_payload where
  "brief_payload = sample_file_payload"

lemma brief_identity: "new_identity (brief_toy v w) sample_entropy = new_identity toy sample_entropy"
  by (simp add: new_identity_def brief_toy_def generate_message_keys_def derive_peer_id_def Let_def)

lemma brief_payload_facts:
  "validate_backup_payload (brief_toy v w) brief_payload = Ok ()" "payload_storable brief_payload"
proof -
  have ent: "entropy_ok sample_entropy" using sample_entropy_ok by (simp add: sample_entropy_def)
  obtain keys where k: "validate_identity (brief_toy v w) (new_identity (brief_toy v w) sample_entropy) = Ok ()"
    "identity_signing_key (brief_toy v w) (new_identity (brief_toy v w) sample_entropy) = Ok (ent_signing_key sample_entropy)"
    "identity_message_key_pair (brief_toy v w) (new_identity (brief_toy v w) sample_entropy) = Ok keys"
    by (rule new_identity_facts [OF brief_toy_laws(1,7,8) ent])
  then show "validate_backup_payload (brief_toy v w) brief_payload = Ok ()"
    unfolding brief_identity
    by (auto simp: validate_backup_payload_Ok brief_payload_def Let_def default_memory_def message_keys_ok_def is_ok_def)
  show "payload_storable brief_payload"
    by (simp add: brief_payload_def payload_storable_def Let_def new_identity_def sample_entropy_def
        memory_storable_def default_memory_def default_sync_def u8_max_def)
qed

lemma enc_time_cong: "datetime_json x = datetime_json y \<Longrightarrow> enc_time x = enc_time y"
  by (simp add: enc_time_def fun_eq_iff)

lemma enc_backup_payload_brief: "enc_backup_payload (brief_toy v w) brief_payload = enc_backup_payload toy brief_payload"
proof -
  have t: "enc_time (brief_toy v w) = enc_time toy" by (rule enc_time_cong) (simp add: brief_toy_fields)
  show ?thesis
    by (simp add: enc_backup_payload_def enc_identity_def enc_memory_def enc_sync_def t brief_payload_def Let_def
        default_memory_def)
qed

definition brief_backup :: backup_file where
  "brief_backup = \<lparr>bf_version = 1, bf_created_at = sample_now,
     bf_encryption = \<lparr>ben_suite = BACKUP_ENCRYPTION_SUITE, ben_kdf = BACKUP_KDF,
       ben_salt = hex_text (replicate 16 (CHR ''s'')), ben_nonce = hex_text (replicate 12 (CHR ''n''))\<rparr>,
     bf_ciphertext = hex_text ''#0''\<rparr>"

definition brief :: crates where
  "brief = brief_toy (enc_backup_payload toy brief_payload) (value_of (enc_backup_file toy brief_backup))"

lemmas brief_laws = brief_toy_laws [of "enc_backup_payload toy brief_payload" "value_of (enc_backup_file toy brief_backup)",
    folded brief_def]

lemma brief_sealed:
  "encrypt_backup brief sample_now (replicate 16 (CHR ''s'')) (replicate 12 (CHR ''n'')) brief_payload
     (generate_recovery_phrase brief (replicate 24 (CHR ''r''))) = Ok brief_backup"
proof -
  let ?phrase = "generate_recovery_phrase brief (replicate 24 (CHR ''r''))"
  obtain key where "hkdf_expand brief (replicate 16 (CHR ''s'')) ?phrase ''aichan backup encryption v1'' 32 = Some key"
    using hkdf_expand_ok [OF brief_laws(3), of 32] by force
  then have "derive_backup_key brief ?phrase (replicate 16 (CHR ''s'')) = Ok key" by (simp add: derive_backup_key_def)
  then show ?thesis
    using brief_payload_facts(1)
    by (simp add: encrypt_backup_Ok brief_def enc_backup_payload_brief brief_toy_fields brief_backup_def)
qed

lemma enc_backup_file_brief: "enc_backup_file brief b = enc_backup_file toy b"
  using enc_time_cong [of brief toy] by (simp add: enc_backup_file_def brief_def brief_toy_fields)

definition client_at :: "'n \<Rightarrow> 'n client" where
  "client_at net = \<lparr>cl_cache = init_state_cache ''/home/a'', cl_identity = Missing, cl_device = Missing,
     cl_memory = Missing, cl_config = Missing, cl_metadata = Missing, cl_keys = Missing,
     cl_inbox = (\<lambda>p. Missing), cl_logs = (\<lambda>p. []), cl_backups = (\<lambda>p. Missing), cl_net = net\<rparr>"

definition relay_env :: "server_state cli_env" where
  "relay_env = \<lparr>ce_crates = brief, ce_relay = relay_of brief sample_pages ''http://relay'' sample_env, ce_elapsed_ms = 0,
     ce_dirs = dirs_made, ce_write = (\<lambda>p n. Written), ce_append = (\<lambda>p i. Appended), ce_entropy = sample_entropy,
     ce_raced = Missing, ce_now = (\<lambda>n. sample_now), ce_uuid = (\<lambda>n. ''0a''), ce_random = (\<lambda>n. [])\<rparr>"

lemma put_then_get:
  assumes "rq_method p = ''PUT''" "rq_method q = ''GET''" "1 \<le> read_per_minute config" "1 \<le> write_per_minute config"
  shows "fst (check_rate_limit config now q (snd (check_rate_limit config now p []))) = None"
  using assms
  by (auto simp: check_rate_limit_def rate_check_def bucket_check_def rate_class_for_request_def class_limit_def
      Let_def bt_get_def split: if_splits)

theorem hosted_backup_recovered_witness:
  "\<exists>s l u d c1 c3. derive_hosted_backup_locator brief (generate_recovery_phrase brief (replicate 24 (CHR ''r''))) = Ok l \<and>
     upload_hosted_backup relay_env ''http://relay'' l brief_backup (client_at s) = (Ok u, c1) \<and>
     download_hosted_backup relay_env ''http://relay'' l (client_at (cl_net c1)) = (Ok d, c3) \<and>
     decrypt_backup brief (hd_backup d) (generate_recovery_phrase brief (replicate 24 (CHR ''r''))) = Ok brief_payload"
proof -
  let ?phrase = "generate_recovery_phrase brief (replicate 24 (CHR ''r''))" and ?url = "''http://relay''"
  obtain a b where "hkdf_expand brief ''aichan.backup.v1'' ?phrase ''aichan.backup.v1.lookup_id'' 24 = Some a"
      "hkdf_expand brief ''aichan.backup.v1'' ?phrase ''aichan.backup.v1.auth_token'' 32 = Some b"
    using hkdf_expand_ok [OF brief_laws(3), of 24] hkdf_expand_ok [OF brief_laws(3), of 32] by auto metis
  then obtain l where l: "derive_hosted_backup_locator brief ?phrase = Ok l"
    by (simp add: derive_hosted_backup_locator_def)
  let ?q = "put_backup_request brief ?url l brief_backup"
  obtain s where s: "server_with_stores sample_dir ?url (limits_for ?q) 4 AdminDisabled = Ok s"
      "load (sv_backups s) = Ok []" "sv_rate_buckets s = []" "sv_rate_config s = limits_for ?q"
    using sample_server [of ?url "limits_for ?q" 4 AdminDisabled] by auto
  have net: "load (sv_backups (cl_net (client_at s))) = Ok []" "backups_ok []"
      "\<forall>h \<in> set []. hb_lookup_id h = loc_backup_lookup_id l \<longrightarrow>
         hb_auth_hash h = backup_auth_hash brief (loc_backup_auth_token l) \<and>
         (\<forall>g \<in> set (hb_generations h). hg_created_at g < env_later sample_env)"
    using s(2) by (simp_all add: client_at_def backups_ok_def)
  have env: "ce_crates relay_env = brief" "ce_relay relay_env = relay_of brief sample_pages ?url sample_env"
      "env_io sample_env = io_ok" "four_digit_year (env_later sample_env)"
      "let_through sample_env ?q (cl_net (client_at s))"
    using sample_let_through [OF s(1)] by (simp_all add: relay_env_def client_at_def)
  obtain r c1 where up: "upload_hosted_backup relay_env ?url l brief_backup (client_at s) = (r, c1)" by fastforce
  have b: "bf_version brief_backup \<le> u8_max" "list_all b64_alphabet (bf_ciphertext brief_backup)"
      "bf_ciphertext brief_backup \<noteq> []" "length (bf_ciphertext brief_backup) \<le> 65536"
      "length (json_text brief (value_of (enc_backup_file brief brief_backup))) \<le> u64_max"
  proof -
    show "length (json_text brief (value_of (enc_backup_file brief brief_backup))) \<le> u64_max"
      unfolding enc_backup_file_brief unfolding brief_def brief_toy_fields by (simp add: u64_max_def)
  qed (use hex_text_alphabet [of "''#0''"] in \<open>simp_all add: brief_backup_def u8_max_def hex_text_def hex2_upper_def\<close>)
  note fin = hosted_upload_done [OF brief_laws(1-3,5,6) b(1) backup_package_ok [OF b(2-4)] b(5) l net env up]
  let ?g = "get_backup_request ?url l"
  have m: "rq_method ?q = ''PUT''" "rq_method ?g = ''GET''" "rq_body ?g = []"
    unfolding put_backup_request_def get_backup_request_def
    by (simp_all only: http_of_outgoing [OF upper_verbs(1)] http_of_outgoing [OF upper_verbs(2)])
  have pass: "let_through sample_env ?g (cl_net c1)"
    using fin put_then_get [OF m(1,2), of "limits_for ?q" 0] s(3,4) m(3)
    by (simp add: let_through_def limits_for_def client_at_def)
  have len: "length (replicate 16 (CHR ''s'')) = 16" "length (replicate 12 (CHR ''n'')) = 12" by simp_all
  have c2: "cl_net (client_at (cl_net c1)) = cl_net c1" by (simp add: client_at_def)
  from hosted_backup_recovered [OF brief_laws(1-6) brief_sealed brief_payload_facts(2) len four_digit_sample_now b(3-5) l
      net env up env(1,2) c2 pass] l up
  show ?thesis by blast
qed

end
