(* ===== verification/Hints_Laws.thy ===== *)
theory Hints_Laws
  imports Cli_Hints Backup_Samples
begin

text \<open>
  What \<^verbatim>\<open>aichan init-agent-hints\<close> leaves in a project: the blocks, the ignored files, everything that was
  there before; and what a text with stray marks becomes.
\<close>

section \<open>The command\<close>

abbreviation agents_path :: "local_state_dir \<Rightarrow> string" where "agents_path s \<equiv> join_path s ''AGENTS.md''"
abbreviation claude_path :: "local_state_dir \<Rightarrow> string" where "claude_path s \<equiv> join_path s ''CLAUDE.md''"
abbreviation readme_path :: "local_state_dir \<Rightarrow> string" where "readme_path s \<equiv> join_path (state_root s) ''README.md''"
abbreviation gitignore_path :: "local_state_dir \<Rightarrow> string" where "gitignore_path s \<equiv> join_path s ''.gitignore''"

lemma join_path_relative:
  assumes "\<not> starts_with q ''/''" "\<not> starts_with q' ''/''"
  shows "join_path p q = join_path p q' \<longleftrightarrow> q = q'"
  using assms by (simp add: join_path_def)

lemma readme_path_flat: "readme_path s = join_path s ''.aichan/README.md''"
proof -
  have "\<not> ends_with (t @ ''.aichan'') ''/''" for t by (simp add: ends_with_def)
  from this [of s] this [of "s @ ''/''"] show ?thesis by (simp add: state_root_def join_path_def)
qed

lemma hint_paths_distinct: "distinct [agents_path s, claude_path s, readme_path s, gitignore_path s]"
  unfolding readme_path_flat by (simp add: join_path_relative)

text \<open>The text of a file, empty for one that does not exist.\<close>

definition text_at :: "string \<Rightarrow> text_files \<Rightarrow> string" where
  "text_at p files = (case files p of Content t \<Rightarrow> t | _ \<Rightarrow> [])"

lemma read_text_Ok: "read_text p files = Ok t \<Longrightarrow> t = text_at p files"
  by (auto simp: read_text_def text_at_def split: json_file.splits)

lemma write_text_Ok: "write_text w p t files = (Ok (), files') \<longleftrightarrow> w = TextWritten \<and> files' = files(p := Content t)"
  by (auto simp: write_text_def split: text_write.splits)

lemma write_marked_block_Ok:
  "write_marked_block w p body files = (Ok (), files') \<Longrightarrow> files' = files(p := Content (updated_text body (text_at p files)))"
  by (auto simp: write_marked_block_def write_text_Ok dest: read_text_Ok split: sum.splits)

lemma update_gitignore_Ok:
  "update_gitignore w p files = (Ok (), files') \<Longrightarrow> files' = files(p := Content (updated_gitignore (text_at p files)))"
  by (auto simp: update_gitignore_def write_text_Ok dest: read_text_Ok split: sum.splits)

lemma on_client_Ok [simp]: "on_client m (c, f) = (Ok a, (c', f')) \<longleftrightarrow> m c = (Ok a, c') \<and> f' = f"
  by (auto simp: on_client_def split: prod.splits)

lemma on_files_Ok [simp]: "on_files m (c, f) = (Ok a, (c', f')) \<longleftrightarrow> m f = (Ok a, f') \<and> c' = c"
  by (auto simp: on_files_def split: prod.splits)

definition hints_written :: "local_state_dir \<Rightarrow> text_files \<Rightarrow> text_files" where
  "hints_written s files = files(
     agents_path s := Content (updated_text agents_note (text_at (agents_path s) files)),
     claude_path s := Content (updated_text claude_note (text_at (claude_path s) files)),
     readme_path s := Content (updated_text readme_note (text_at (readme_path s) files)),
     gitignore_path s := Content (updated_gitignore (text_at (gitignore_path s) files)))"

lemma text_at_upd [simp]: "text_at p (files(q := Content t)) = (if p = q then t else text_at p files)"
  by (simp add: text_at_def)

lemma init_agent_hints_writes:
  assumes "init_agent_hints env w s (c, files) = (Ok out, (c', files'))"
  shows "files' = hints_written s files"
  using assms hint_paths_distinct [of s]
  by (auto simp: init_agent_hints_def Let_def then_do_Ok hints_written_def dest!: write_marked_block_Ok update_gitignore_Ok)

lemma hints_written_at:
  "text_at (agents_path s) (hints_written s files) = updated_text agents_note (text_at (agents_path s) files)"
  "text_at (claude_path s) (hints_written s files) = updated_text claude_note (text_at (claude_path s) files)"
  "text_at (readme_path s) (hints_written s files) = updated_text readme_note (text_at (readme_path s) files)"
  "text_at (gitignore_path s) (hints_written s files) = updated_gitignore (text_at (gitignore_path s) files)"
  using hint_paths_distinct [of s] by (simp_all add: hints_written_def)

lemma hints_written_again:
  assumes "unmarked (text_at (agents_path s) files)" "unmarked (text_at (claude_path s) files)"
    "unmarked (text_at (readme_path s) files)"
  shows "hints_written s (hints_written s files) = hints_written s files"
  by (subst hints_written_def)
    (simp add: hints_written_at updated_again notes_unmarked updated_gitignore_again assms,
     simp add: hints_written_def)


definition cached_client :: "local_state_dir \<Rightarrow> unit client" where
  "cached_client s = sample_client\<lparr>cl_cache :=
     \<lparr>cs_identity = Some (new_identity toy sample_entropy), cs_device = Some (fresh_device ''0a'' sample_now),
      cs_memory = Some (default_memory sample_now), cs_config = None, cs_state_root = state_root s\<rparr>\<rparr>"


section \<open>Stray marks\<close>

text \<open>
  A text that quotes the begin mark and has no end mark: the first run appends the block, the second
  one replaces everything from the quoted mark on, and what was written after it is lost.
\<close>

lemma stray_mark_loses_text:
  assumes t: "t = before @ BEGIN_MARK @ after" "unmarked before" "find_sub END_MARK t = None"
    and body: "unmarked body"
  shows "updated_text body t = before_block t @ marked_block body"
    "updated_text body (updated_text body t) = before @ marked_block body"
proof -
  have ne: "t \<noteq> []" using t(1) by (simp add: marks)
  show first: "updated_text body t = before_block t @ marked_block body"
    using t(3) ne by (simp add: updated_text_def before_block_def Let_def split: option.split)
  have e: "find_sub END_MARK (before_block t) = None"
    using find_sub_snoc [OF t(3), of nl] find_sub_snoc [of END_MARK "t @ [nl]" nl] ne by (simp add: before_block_def)
  have "find_sub END_MARK (before_block t @ marked_block body) =
      Some (length (before_block t) + (length BEGIN_MARK + 1 + length body))"
    using find_end_skip [OF e, of "marked_block body"] find_end_in_block [of body "[]"] body
    by (simp add: unmarked_def) (simp add: marked_block_def)
  moreover obtain post where b: "before_block t @ marked_block body = before @ BEGIN_MARK @ post"
  proof
    have "before_block t = (before @ BEGIN_MARK @ after) @ (if ends_with t [nl] then [] else [nl]) @ [nl]"
      using ne t(1) unfolding before_block_def by simp
    then show "before_block t @ marked_block body =
        before @ BEGIN_MARK @ after @ (if ends_with t [nl] then [] else [nl]) @ [nl] @ marked_block body" by simp
  qed
  have "find_sub BEGIN_MARK (before @ BEGIN_MARK @ post) = Some (length before)"
    using find_begin_skip [of before "BEGIN_MARK @ post"] t(2) by (simp add: unmarked_def)
  moreover have "drop (length (before_block t) + (length BEGIN_MARK + 1 + length body) + length END_MARK)
      (before_block t @ marked_block body) = [nl]"
    by (simp add: marked_block_def)
  ultimately show "updated_text body (updated_text body t) = before @ marked_block body"
    unfolding first by (simp add: updated_text_def Let_def b)
qed

end
