(* ===== verification/Cli_Sync.thy ===== *)
theory Cli_Sync
  imports Cli_Relay
begin

text \<open>
  \<^verbatim>\<open>aichan sync\<close> (\<^verbatim>\<open>crates/aichan/src/main.rs\<close>): the encrypted snapshot of the memory is uploaded, a page
  of the bucket's events is downloaded, and the snapshots of other devices are merged into the memory.
\<close>

section \<open>Merging\<close>

text \<open>
  The two loops over peers and over interactions are one function of the key and the time of an entry:
  an entry that is newer replaces the first of its key, one of a new key is appended. The flag is
  \<^verbatim>\<open>changed\<close>.
\<close>

fun merge_entries :: "('a \<Rightarrow> string) \<Rightarrow> ('a \<Rightarrow> datetime) \<Rightarrow> 'a list \<Rightarrow> bool \<times> 'a list \<Rightarrow> bool \<times> 'a list" where
  "merge_entries key time [] (changed, locals) = (changed, locals)"
| "merge_entries key time (remote # remotes) (changed, locals) =
     merge_entries key time remotes
       (case find (\<lambda>entry. key entry = key remote) locals of
          Some entry \<Rightarrow>
            (if time remote > time entry
             then (True, update_first (\<lambda>entry. key entry = key remote) (\<lambda>_. remote) locals)
             else (changed, locals))
        | None \<Rightarrow> (True, locals @ [remote]))"

fun merge_tags :: "string list \<Rightarrow> bool \<times> string list \<Rightarrow> bool \<times> string list" where
  "merge_tags [] (changed, locals) = (changed, locals)"
| "merge_tags (tag # tags) (changed, locals) =
     merge_tags tags (if tag \<in> set locals then (changed, locals) else (True, locals @ [tag]))"

definition merge_memory_snapshot :: "memory_file \<Rightarrow> memory_file \<Rightarrow> bool \<times> memory_file" where
  "merge_memory_snapshot l r =
     (let newer = mem_updated_at r > mem_updated_at l;
          (changed, profile) = (if newer \<and> mem_profile l \<noteq> mem_profile r then (True, mem_profile r)
                                else (False, mem_profile l));
          (changed, tags) = merge_tags (mem_common_tags r) (changed, mem_common_tags l);
          (changed, peers) = merge_entries peer_peer_id peer_last_seen_at (mem_discovered_peers r)
                               (changed, mem_discovered_peers l);
          (changed, interactions) = merge_entries inter_peer_id inter_updated_at (mem_interactions r)
                               (changed, mem_interactions l)
      in (changed,
          l\<lparr>mem_profile := profile, mem_common_tags := dedup (sort tags), mem_discovered_peers := peers,
            mem_interactions := interactions,
            mem_updated_at := (if changed \<and> newer then mem_updated_at r else mem_updated_at l)\<rparr>))"

section \<open>Exchange with the relay\<close>

record activity_upload_response =
  aur_event_id :: string
  aur_stored :: bool

record activity_list_response =
  alr_events :: "activity_event list"
  alr_next_cursor :: "string option"

definition dec_upload_response :: "json \<Rightarrow> activity_upload_response option" where
  "dec_upload_response v = do {
     f \<leftarrow> struct_fields 2 [''event_id'', ''stored''] v;
     event_id \<leftarrow> req f ''event_id'' dec_str;
     stored \<leftarrow> req f ''stored'' dec_bool;
     Some \<lparr>aur_event_id = event_id, aur_stored = stored\<rparr> }"

definition dec_list_response :: "crates \<Rightarrow> json \<Rightarrow> activity_list_response option" where
  "dec_list_response x v = do {
     f \<leftarrow> struct_fields 2 [''events'', ''next_cursor''] v;
     events \<leftarrow> req f ''events'' (dec_list (dec_activity_event x));
     next_cursor \<leftarrow> opt_field f ''next_cursor'' dec_str;
     Some \<lparr>alr_events = events, alr_next_cursor = next_cursor\<rparr> }"

definition upload_activity_event ::
  "'n cli_env \<Rightarrow> string \<Rightarrow> activity_locator \<Rightarrow> activity_event \<Rightarrow> ('n client, activity_upload_response) step" where
  "upload_activity_event env base_url locator event =
     (let x = ce_crates env in
      then_do (relay_request env ''POST'' base_url ''/v1/activity''
                 [(''Content-Type'', ''application/json''), (''Aichan-Activity-Bucket'', act_bucket_id locator),
                  (''Aichan-Activity-Auth'', act_auth_token locator)]
                 (json_text x (enc_activity_event x event))) (\<lambda>response.
        if rr_status response \<ge> 400
        then fail (''relay returned HTTP '' @ show_nat (rr_status response) @
               '' while uploading activity event: '' @ body_text response)
        else check (map_err (\<lambda>_. ''parse activity upload response'')
               (from_json x dec_upload_response (rr_body response)))))"

definition activity_list_path :: "activity_locator \<Rightarrow> string option \<Rightarrow> nat \<Rightarrow> string" where
  "activity_list_path locator cursor limit =
     ''/v1/activity?bucket='' @ query_escape (act_bucket_id locator) @ ''&limit='' @ show_nat limit @
     (case cursor of None \<Rightarrow> [] | Some c \<Rightarrow> ''&cursor='' @ query_escape c)"

definition download_activity_events ::
  "'n cli_env \<Rightarrow> string \<Rightarrow> activity_locator \<Rightarrow> string option \<Rightarrow> nat \<Rightarrow> ('n client, activity_list_response) step" where
  "download_activity_events env base_url locator cursor limit =
     (let x = ce_crates env in
      then_do (relay_request env ''GET'' base_url (activity_list_path locator cursor limit)
                 [(''Aichan-Activity-Auth'', act_auth_token locator)] []) (\<lambda>response.
        if rr_status response \<ge> 400
        then fail (''relay returned HTTP '' @ show_nat (rr_status response) @
               '' while downloading activity events: '' @ body_text response)
        else check (map_err (\<lambda>_. ''parse activity list response'')
               (from_json x (dec_list_response x) (rr_body response)))))"

text \<open>The loop over the events of the page: how many were applied, how many were the device's own.\<close>

fun apply_events ::
  "crates \<Rightarrow> identity_file \<Rightarrow> device_id \<Rightarrow> activity_event list \<Rightarrow> memory_file \<Rightarrow>
   aichan_error + nat \<times> nat \<times> memory_file" where
  "apply_events x identity device [] memory = Ok (0, 0, memory)"
| "apply_events x identity device (event # events) memory =
     (if ae_source_device_id event = device
      then map_ok (\<lambda>(applied, skipped, m). (applied, Suc skipped, m)) (apply_events x identity device events memory)
      else and_then (decrypt_activity_snapshot x identity event) (\<lambda>payload.
        let (changed, memory') = merge_memory_snapshot memory (ap_memory payload)
        in map_ok (\<lambda>(applied, skipped, m). (if changed then Suc applied else applied, skipped, m))
             (apply_events x identity device events memory')))"

section \<open>The command\<close>

definition set_synced :: "datetime \<Rightarrow> string option \<Rightarrow> memory_file \<Rightarrow> memory_file" where
  "set_synced synced_at cursor m =
     m\<lparr>mem_sync := (mem_sync m)\<lparr>sync_last_sync_at := Some synced_at, sync_activity_cursor := cursor\<rparr>\<rparr>"

text \<open>\<open>now\<close> 0 is read for the warning, 1 in the encryption of the snapshot, 2 after the merge.\<close>

definition sync_activity :: "'n cli_env \<Rightarrow> local_state_dir \<Rightarrow> nat \<Rightarrow> string option \<Rightarrow> ('n client, json) step" where
  "sync_activity env s limit base_url =
     (let x = ce_crates env in
      then_do (cached_identity env s) (\<lambda>identity.
      then_do (cached_device env s) (\<lambda>device.
      then_do (cached_memory env s) (\<lambda>memory.
      then_do (cached_config env s) (\<lambda>config.
      then_do (check_core (derive_activity_locator x identity)) (\<lambda>locator.
      (let url = effective_base_url config base_url;
           warning_before = sync_window_warning x (sync_last_sync_at (mem_sync memory)) (ce_now env 0)
       in then_do (check_core (encrypt_activity_snapshot x (ce_now env 1) (ce_uuid env 0) (ce_random env 0)
                     (ce_random env 1) identity (dev_device_id device) memory)) (\<lambda>event.
          then_do (upload_activity_event env url locator event) (\<lambda>upload.
          then_do (download_activity_events env url locator (sync_activity_cursor (mem_sync memory))
                     (min (max limit 1) 500)) (\<lambda>page.
          then_do (check_core (apply_events x identity (dev_device_id device) (alr_events page) memory))
            (\<lambda>(applied, skipped_self, merged).
          (let synced_at = ce_now env 2; memory' = set_synced synced_at (alr_next_cursor page) merged
           in then_do (\<lambda>c. (let (r, f) = write_json (memory_path s) (ce_write env (memory_path s) 1) memory' (cl_memory c)
                            in (map_err error_text r, c\<lparr>cl_memory := f\<rparr>))) (\<lambda>_.
              then_do (\<lambda>c. (Ok (), c\<lparr>cl_cache := update_memory_in_cache s memory' (cl_cache c)\<rparr>)) (\<lambda>_.
              give (obj [
                (''synced'', JBool True), (''uploaded'', JBool (aur_stored upload)),
                (''uploaded_event_id'', JStr (aur_event_id upload)), (''pulled'', jnat (length (alr_events page))),
                (''applied'', jnat applied), (''skipped_self'', jnat skipped_self),
                (''next_cursor'', jopt JStr (alr_next_cursor page)), (''last_sync_at'', enc_time x synced_at),
                (''sync_warning_before'', jopt (\<lambda>w. w) warning_before)])))))))))))))))"

end
