(* ===== verification/Sync_Laws.thy ===== *)
theory Sync_Laws
  imports Cli_Sync
begin

text \<open>
  What merging the memory of another device does: each entry becomes the latest of its key, the tags
  the union of both; merging the same snapshot again changes nothing.
\<close>

section \<open>Entries by key\<close>

text \<open>The specification of a merge at one key: of what was there and what comes, the latest, the earlier one on a tie.\<close>

definition later :: "('a \<Rightarrow> datetime) \<Rightarrow> 'a option \<Rightarrow> 'a \<Rightarrow> 'a option" where
  "later time a r = (case a of None \<Rightarrow> Some r | Some l \<Rightarrow> if time r > time l then Some r else Some l)"

definition entry_at :: "('a \<Rightarrow> string) \<Rightarrow> 'a list \<Rightarrow> (string \<rightharpoonup> 'a)" where
  "entry_at key xs k = find (\<lambda>e. key e = k) xs"

lemma find_keyed_append:
  "entry_at key (xs @ [r]) k = (case entry_at key xs k of None \<Rightarrow> if key r = k then Some r else None | Some e \<Rightarrow> Some e)"
  by (simp add: entry_at_def find_append split: option.splits)

lemma entry_at_update:
  assumes "key r = i"
  shows "entry_at key (update_first (\<lambda>e. key e = i) (\<lambda>_. r) xs) k
    = (if k = i then map_option (\<lambda>_. r) (entry_at key xs i) else entry_at key xs k)"
  using assms by (induction xs) (auto simp: entry_at_def)

lemma merge_entries_at:
  "entry_at key (snd (merge_entries key time rs (changed, ls))) k
     = foldl (later time) (entry_at key ls k) (filter (\<lambda>r. key r = k) rs)"
proof (induction rs arbitrary: changed ls)
  case Nil
  then show ?case by simp
next
  case (Cons r rs)
  show ?case
  proof (cases "entry_at key ls (key r)")
    case None
    have "later time None r = Some r" by (simp add: later_def)
    with None show ?thesis
      by (cases "key r = k") (simp_all add: Cons.IH find_keyed_append entry_at_def [symmetric] split: option.split)
  next
    case (Some e)
    have u: "entry_at key (update_first (\<lambda>e. key e = key r) (\<lambda>_. r) ls) k
        = (if k = key r then Some r else entry_at key ls k)" for k
      using Some by (simp add: entry_at_update)
    have "later time (Some e) r = (if time r > time e then Some r else Some e)" by (simp add: later_def)
    with Some u [of k] show ?thesis
      by (cases "key r = k") (auto simp: Cons.IH entry_at_def [symmetric])
  qed
qed

lemma later_grows: "\<exists>e. foldl (later time) (Some a) rs = Some e \<and> time a \<le> time e \<and> (\<forall>r \<in> set rs. time r \<le> time e)"
proof (induction rs arbitrary: a)
  case Nil
  then show ?case by simp
next
  case (Cons r rs)
  obtain b where b: "later time (Some a) r = Some b" "time a \<le> time b" "time r \<le> time b"
    by (cases "time a < time r") (auto simp: later_def)
  from Cons.IH [of b] b show ?case by (auto intro: order_trans)
qed

lemma merge_entries_settled:
  assumes "\<forall>r \<in> set rs. \<exists>e. entry_at key ls (key r) = Some e \<and> time r \<le> time e"
  shows "merge_entries key time rs (changed, ls) = (changed, ls)"
  using assms by (induction rs) (force simp: entry_at_def)+

lemma merge_entries_covers:
  assumes "r \<in> set rs"
  shows "\<exists>e. entry_at key (snd (merge_entries key time rs (changed, ls))) (key r) = Some e \<and> time r \<le> time e"
proof -
  let ?f = "filter (\<lambda>r'. key r' = key r) rs"
  obtain a rest where f: "foldl (later time) (entry_at key ls (key r)) ?f = foldl (later time) (Some a) rest"
      "r = a \<and> set rest \<subseteq> set rs \<or> r \<in> set rest"
  proof (cases "entry_at key ls (key r)")
    case None
    have "r \<in> set ?f" using assms by simp
    then obtain b bs where "?f = b # bs" by (cases ?f) auto
    moreover from this have "set bs \<subseteq> set rs" using filter_is_subset [of "\<lambda>r'. key r' = key r" rs] by auto
    ultimately show ?thesis
      using None \<open>r \<in> set ?f\<close> by (intro that [of b bs]) (auto simp: later_def)
  next
    case (Some a)
    with that [of a ?f] assms show ?thesis by simp
  qed
  then show ?thesis
    using later_grows [of time a rest] by (auto simp: merge_entries_at)
qed

lemma merge_entries_again:
  "merge_entries key time rs (False, snd (merge_entries key time rs (changed, ls)))
     = (False, snd (merge_entries key time rs (changed, ls)))"
  by (rule merge_entries_settled) (intro ballI merge_entries_covers)

section \<open>Tags\<close>

lemma set_merge_tags: "set (snd (merge_tags ts (changed, ls))) = set ls \<union> set ts"
  by (induction ts arbitrary: changed ls) (auto simp: insert_absorb)

lemma merge_tags_settled: "set ts \<subseteq> set ls \<Longrightarrow> merge_tags ts (changed, ls) = (changed, ls)"
  by (induction ts) auto

lemma distinct_remdups_sorted: "sorted xs \<Longrightarrow> distinct (remdups_adj xs)" for xs :: "'a::linorder list"
  by (induction xs rule: remdups_adj.induct) (auto dest: order.antisym)

lemma dedup_sort: "set (dedup (sort ts)) = set ts" "sorted (dedup (sort ts))" "distinct (dedup (sort ts))"
  for ts :: "string list"
proof -
  show "set (dedup (sort ts)) = set ts" by (simp add: dedup_def)
  have s: "sorted (sort ts)" by simp
  then show "sorted (dedup (sort ts))" by (simp add: dedup_def sorted_remdups_adj)
  from s show "distinct (dedup (sort ts))"
    unfolding dedup_def by (rule distinct_remdups_sorted)
qed

lemma dedup_sort_again: "dedup (sort (dedup (sort ts))) = dedup (sort ts)" for ts :: "string list"
  using dedup_sort(2,3) [of ts] by (simp add: sorted_sort_id dedup_def remdups_adj_distinct)

section \<open>Snapshots\<close>

lemma snd_merge_entries:
  "snd (merge_entries key time rs (c, ls)) = snd (merge_entries key time rs (False, ls))"
proof (induction rs arbitrary: c ls)
  case (Cons r rs)
  show ?case
    by (cases "find (\<lambda>entry. key entry = key r) ls") (auto intro: Cons.IH trans [OF Cons.IH Cons.IH [symmetric]])
qed simp

lemma snd_merge_tags: "snd (merge_tags ts (c, ls)) = snd (merge_tags ts (False, ls))"
proof (induction ts arbitrary: c ls)
  case (Cons t ts)
  show ?case by (auto intro: Cons.IH trans [OF Cons.IH Cons.IH [symmetric]])
qed simp

lemma flag_merge_entries: "c \<Longrightarrow> fst (merge_entries key time rs (c, ls))"
proof (induction rs arbitrary: c ls)
  case (Cons r rs)
  then show ?case by (cases "find (\<lambda>entry. key entry = key r) ls") auto
qed simp

lemma flag_merge_tags: "c \<Longrightarrow> fst (merge_tags ts (c, ls))"
  by (induction ts arbitrary: c ls) auto

lemma merge_snapshot_parts:
  assumes "merge_memory_snapshot l r = (changed, m)"
  shows "mem_profile m = (if mem_updated_at r > mem_updated_at l then mem_profile r else mem_profile l)"
    "mem_common_tags m = dedup (sort (snd (merge_tags (mem_common_tags r) (False, mem_common_tags l))))"
    "mem_discovered_peers m = snd (merge_entries peer_peer_id peer_last_seen_at (mem_discovered_peers r)
       (False, mem_discovered_peers l))"
    "mem_interactions m = snd (merge_entries inter_peer_id inter_updated_at (mem_interactions r)
       (False, mem_interactions l))"
    "mem_updated_at m = (if changed \<and> mem_updated_at r > mem_updated_at l then mem_updated_at r else mem_updated_at l)"
    "mem_updated_at r > mem_updated_at l \<and> mem_profile l \<noteq> mem_profile r \<longrightarrow> changed"
    "mem_sync m = mem_sync l" "mem_version m = mem_version l"
proof -
  let ?new = "mem_updated_at r > mem_updated_at l"
  let ?c = "?new \<and> mem_profile l \<noteq> mem_profile r"
  obtain c1 t where t: "merge_tags (mem_common_tags r) (?c, mem_common_tags l) = (c1, t)" by fastforce
  obtain c2 p where p: "merge_entries peer_peer_id peer_last_seen_at (mem_discovered_peers r) (c1, mem_discovered_peers l) = (c2, p)"
    by fastforce
  obtain c3 i where i: "merge_entries inter_peer_id inter_updated_at (mem_interactions r) (c2, mem_interactions l) = (c3, i)"
    by fastforce
  have m: "changed = c3" "m = l\<lparr>mem_profile := (if ?c then mem_profile r else mem_profile l),
      mem_common_tags := dedup (sort t), mem_discovered_peers := p, mem_interactions := i,
      mem_updated_at := (if c3 \<and> ?new then mem_updated_at r else mem_updated_at l)\<rparr>"
    using assms t p i by (auto simp: merge_memory_snapshot_def Let_def split: if_splits)
  have "?c \<longrightarrow> c3"
    using flag_merge_tags [of ?c "mem_common_tags r" "mem_common_tags l"] t
      flag_merge_entries [of c1 peer_peer_id peer_last_seen_at "mem_discovered_peers r" "mem_discovered_peers l"] p
      flag_merge_entries [of c2 inter_peer_id inter_updated_at "mem_interactions r" "mem_interactions l"] i by auto
  then show "?c \<longrightarrow> changed" using m(1) by simp
  show "mem_profile m = (if ?new then mem_profile r else mem_profile l)"
      "mem_updated_at m = (if changed \<and> ?new then mem_updated_at r else mem_updated_at l)"
      "mem_sync m = mem_sync l" "mem_version m = mem_version l"
    unfolding m by simp_all
  show "mem_common_tags m = dedup (sort (snd (merge_tags (mem_common_tags r) (False, mem_common_tags l))))"
    using m(2) snd_merge_tags [of "mem_common_tags r" ?c "mem_common_tags l"] t by simp
  show "mem_discovered_peers m = snd (merge_entries peer_peer_id peer_last_seen_at (mem_discovered_peers r)
       (False, mem_discovered_peers l))"
    using m(2) snd_merge_entries [of peer_peer_id peer_last_seen_at "mem_discovered_peers r" c1 "mem_discovered_peers l"] p by simp
  show "mem_interactions m = snd (merge_entries inter_peer_id inter_updated_at (mem_interactions r)
       (False, mem_interactions l))"
    using m(2) snd_merge_entries [of inter_peer_id inter_updated_at "mem_interactions r" c2 "mem_interactions l"] i by simp
qed

lemma merge_snapshot_again:
  assumes "merge_memory_snapshot l r = (changed, m)"
  shows "merge_memory_snapshot m r = (False, m)"
proof -
  note m = merge_snapshot_parts [OF assms]
  have "set (mem_common_tags r) \<subseteq> set (mem_common_tags m)"
    by (simp add: m(2) dedup_sort(1) set_merge_tags)
  then have t: "merge_tags (mem_common_tags r) (False, mem_common_tags m) = (False, mem_common_tags m)"
    by (rule merge_tags_settled)
  have s: "dedup (sort (mem_common_tags m)) = mem_common_tags m" by (simp add: m(2) dedup_sort_again)
  have p: "merge_entries peer_peer_id peer_last_seen_at (mem_discovered_peers r) (False, mem_discovered_peers m)
      = (False, mem_discovered_peers m)" unfolding m(3) by (rule merge_entries_again)
  have i: "merge_entries inter_peer_id inter_updated_at (mem_interactions r) (False, mem_interactions m)
      = (False, mem_interactions m)" unfolding m(4) by (rule merge_entries_again)
  have c: "\<not> (mem_updated_at r > mem_updated_at m \<and> mem_profile m \<noteq> mem_profile r)"
    using m(1,5,6) by (auto split: if_splits)
  have "fst (merge_memory_snapshot m r) = False \<and> snd (merge_memory_snapshot m r) = m"
    unfolding merge_memory_snapshot_def Let_def if_not_P [OF c] using c by (simp add: t p i s)
  then show ?thesis by (simp add: prod_eq_iff)
qed

text \<open>
  C20. Merging a device's snapshot: afterwards every tag of either side is there once, in order; for every
  peer id the entry is the most recent of all that either side has, with ties for the local one, and so
  for interactions; the sync position stays the device's own; and merging the same snapshot again
  reports no change and changes nothing.
\<close>

theorem merge_latest_wins:
  assumes "merge_memory_snapshot l r = (changed, m)"
  shows "set (mem_common_tags m) = set (mem_common_tags l) \<union> set (mem_common_tags r) \<and>
    sorted (mem_common_tags m) \<and> distinct (mem_common_tags m) \<and>
    entry_at peer_peer_id (mem_discovered_peers m) = (\<lambda>k. foldl (later peer_last_seen_at)
      (entry_at peer_peer_id (mem_discovered_peers l) k)
      (filter (\<lambda>p. peer_peer_id p = k) (mem_discovered_peers r))) \<and>
    entry_at inter_peer_id (mem_interactions m) = (\<lambda>k. foldl (later inter_updated_at)
      (entry_at inter_peer_id (mem_interactions l) k)
      (filter (\<lambda>i. inter_peer_id i = k) (mem_interactions r))) \<and>
    mem_sync m = mem_sync l \<and> merge_memory_snapshot m r = (False, m)"
proof (intro conjI)
  note m = merge_snapshot_parts [OF assms]
  show "set (mem_common_tags m) = set (mem_common_tags l) \<union> set (mem_common_tags r)"
      "sorted (mem_common_tags m)" "distinct (mem_common_tags m)"
    unfolding m(2) by (simp_all add: dedup_sort set_merge_tags)
  show "entry_at peer_peer_id (mem_discovered_peers m) = (\<lambda>k. foldl (later peer_last_seen_at)
      (entry_at peer_peer_id (mem_discovered_peers l) k)
      (filter (\<lambda>p. peer_peer_id p = k) (mem_discovered_peers r)))"
    unfolding m(3) by (rule ext) (rule merge_entries_at)
  show "entry_at inter_peer_id (mem_interactions m) = (\<lambda>k. foldl (later inter_updated_at)
      (entry_at inter_peer_id (mem_interactions l) k)
      (filter (\<lambda>i. inter_peer_id i = k) (mem_interactions r)))"
    unfolding m(4) by (rule ext) (rule merge_entries_at)
  show "mem_sync m = mem_sync l" by (rule m(7))
  show "merge_memory_snapshot m r = (False, m)" by (rule merge_snapshot_again [OF assms])
qed

text \<open>
  Two devices that exchange their memories need not agree afterwards: with equal \<^verbatim>\<open>updated_at\<close> each
  keeps its own profile, however often they merge.
\<close>

theorem merge_keeps_apart:
  assumes "mem_updated_at a = mem_updated_at b" and "mem_profile a \<noteq> mem_profile b"
  shows "mem_profile (snd (merge_memory_snapshot a b)) \<noteq> mem_profile (snd (merge_memory_snapshot b a)) \<and>
    mem_updated_at (snd (merge_memory_snapshot a b)) = mem_updated_at (snd (merge_memory_snapshot b a))"
proof -
  have tie: "mem_profile (snd (merge_memory_snapshot l r)) = mem_profile l \<and>
      mem_updated_at (snd (merge_memory_snapshot l r)) = mem_updated_at l" if "mem_updated_at r = mem_updated_at l" for l r
    using merge_snapshot_parts(1,5) [OF prod.collapse [symmetric], of l r] that by simp
  show ?thesis unfolding tie [OF assms(1) [symmetric], THEN conjunct1] tie [OF assms(1), THEN conjunct1]
      tie [OF assms(1) [symmetric], THEN conjunct2] tie [OF assms(1), THEN conjunct2]
    using assms by simp
qed

definition sample_memory :: "string \<Rightarrow> datetime \<Rightarrow> memory_file" where
  "sample_memory tag t = (default_memory t)\<lparr>mem_common_tags := [tag],
     mem_profile := default_profile\<lparr>prof_nickname := Some tag\<rparr>,
     mem_discovered_peers := [\<lparr>peer_peer_id = ''peer_a'', peer_tags = [tag], peer_body_preview = None,
       peer_last_seen_at = t\<rparr>]\<rparr>"

theorem merge_latest_wins_witness:
  "\<exists>changed m. merge_memory_snapshot (sample_memory ''rust'' 1) (sample_memory ''go'' 2) = (changed, m) \<and>
     set (mem_common_tags m) = {''rust'', ''go''} \<and> merge_memory_snapshot m (sample_memory ''go'' 2) = (False, m) \<and>
     entry_at peer_peer_id (mem_discovered_peers m) ''peer_a''
       = Some (hd (mem_discovered_peers (sample_memory ''go'' 2)))"
proof -
  let ?l = "sample_memory ''rust'' 1" and ?r = "sample_memory ''go'' 2"
  note w = merge_latest_wins [OF prod.collapse [symmetric], of ?l ?r]
  have p: "mem_discovered_peers (sample_memory t n) = [\<lparr>peer_peer_id = ''peer_a'', peer_tags = [t],
      peer_body_preview = None, peer_last_seen_at = n\<rparr>]" "mem_common_tags (sample_memory t n) = [t]" for t n
    by (simp_all add: sample_memory_def)
  have "entry_at peer_peer_id (mem_discovered_peers (snd (merge_memory_snapshot ?l ?r))) ''peer_a''
      = Some (hd (mem_discovered_peers ?r))"
    unfolding w [THEN conjunct2, THEN conjunct2, THEN conjunct2, THEN conjunct1]
    by (simp add: p entry_at_def later_def)
  moreover have "set (mem_common_tags (snd (merge_memory_snapshot ?l ?r))) = {''rust'', ''go''}"
    unfolding w [THEN conjunct1] by (simp add: p insert_commute)
  ultimately show ?thesis
    using w [THEN conjunct2, THEN conjunct2, THEN conjunct2, THEN conjunct2, THEN conjunct2, THEN conjunct2] prod.collapse
    by metis
qed

theorem merge_keeps_apart_witness:
  "mem_profile (snd (merge_memory_snapshot (sample_memory ''rust'' 1) (sample_memory ''go'' 1)))
   \<noteq> mem_profile (snd (merge_memory_snapshot (sample_memory ''go'' 1) (sample_memory ''rust'' 1)))"
  using merge_keeps_apart [of "sample_memory ''rust'' 1" "sample_memory ''go'' 1"]
  by (simp add: sample_memory_def default_memory_def default_profile_def)

end
