(* ===== verification/Cli_Upgrade.thy ===== *)
theory Cli_Upgrade
  imports Cli_Hints Cli_Relay
begin

text \<open>
  \<^verbatim>\<open>aichan upgrade\<close> (\<^verbatim>\<open>crates/aichan/src/main.rs\<close>): replaces the running executable by that of the
  latest release, or runs \<^verbatim>\<open>cargo install\<close>. The state is the files of the machine; the releases of
  GitHub, \<^verbatim>\<open>tar\<close>, \<^verbatim>\<open>cargo\<close> and the outcome of every file operation are the environment.
\<close>

section \<open>The machine and what surrounds the command\<close>

datatype disk_node = Regular bytes nat | Directory

type_synonym machine = "string \<Rightarrow> disk_node option"

text \<open>\<^verbatim>\<open>std::process::Output\<close>; the code is missing for a process that a signal ended.\<close>

record process_output =
  po_code :: "int option"
  po_status :: string
  po_stdout :: bytes
  po_stderr :: bytes

definition po_success :: "process_output \<Rightarrow> bool" where
  "po_success out \<longleftrightarrow> po_code out = Some 0"

datatype get_outcome = GotBody bytes | GotStatus nat bytes | GetTransport string | GetBodyUnread string

text \<open>
  \<open>ue_version\<close> is \<^verbatim>\<open>CARGO_PKG_VERSION\<close>. The fields from \<open>ue_mkdir\<close> on say how the file operations end; \<open>ue_kept\<close>
  holds of the paths that the removal of the temporary directory leaves.
\<close>

record upgrade_env =
  ue_crates :: crates
  ue_version :: string
  ue_os :: string
  ue_arch :: string
  ue_get :: "string \<Rightarrow> get_outcome"
  ue_tar_list :: "bytes \<Rightarrow> string + process_output"
  ue_tar_extract :: "bytes \<Rightarrow> string \<Rightarrow> machine \<Rightarrow> (string + process_output) \<times> machine"
  ue_cargo :: "string list \<Rightarrow> machine \<Rightarrow> (string + process_output) \<times> machine"
  ue_temp_dir :: string
  ue_process_id :: nat
  ue_uuid :: "nat \<Rightarrow> string"
  ue_current_exe :: "string + string"
  ue_mkdir :: "string option"
  ue_write_archive :: text_write
  ue_copy :: text_write
  ue_stat :: "string option"
  ue_chmod :: "string option"
  ue_rename :: "string option"
  ue_kept :: "string \<Rightarrow> bool"

section \<open>Arguments and plans\<close>

definition PROJECT_REPO_URL :: string where "PROJECT_REPO_URL = ''https://github.com/aftershower/AI_channel''"
definition PROJECT_REPO_SLUG :: string where "PROJECT_REPO_SLUG = ''aftershower/AI_channel''"
definition GITHUB_API_BASE_URL :: string where "GITHUB_API_BASE_URL = ''https://api.github.com''"
definition UPGRADE_OUTPUT_TAIL_LINES :: nat where "UPGRADE_OUTPUT_TAIL_LINES = 24"

datatype upgrade_source = AutoSource | ReleaseSource | CargoSource

record upgrade_args =
  ua_git :: string
  ua_source :: upgrade_source
  ua_branch :: "string option"
  ua_rev :: "string option"
  ua_dry_run :: bool
  ua_verbose :: bool

fun source_name :: "upgrade_source \<Rightarrow> string" where
  "source_name AutoSource = ''auto''"
| "source_name ReleaseSource = ''release''"
| "source_name CargoSource = ''cargo''"

definition should_try_release_upgrade :: "upgrade_args \<Rightarrow> bool" where
  "should_try_release_upgrade args \<longleftrightarrow>
     (ua_source args = AutoSource \<or> ua_source args = ReleaseSource) \<and> ua_git args = PROJECT_REPO_URL \<and>
     ua_branch args = None \<and> ua_rev args = None"

definition upgrade_strategy_name :: "upgrade_args \<Rightarrow> string" where
  "upgrade_strategy_name args =
     (case ua_source args of
        AutoSource \<Rightarrow> (if should_try_release_upgrade args then ''release_then_cargo'' else ''cargo'')
      | ReleaseSource \<Rightarrow> ''release''
      | CargoSource \<Rightarrow> ''cargo'')"

definition upgrade_command_parts :: "upgrade_args \<Rightarrow> string list" where
  "upgrade_command_parts args =
     [''cargo'', ''install'', ''--git'', ua_git args] @
     (case ua_branch args of None \<Rightarrow> [] | Some branch \<Rightarrow> [''--branch'', branch]) @
     (case ua_rev args of None \<Rightarrow> [] | Some revision \<Rightarrow> [''--rev'', revision]) @
     [''aichan'', ''--locked'', ''--force'']"

definition latest_release_api_url :: string where
  "latest_release_api_url = GITHUB_API_BASE_URL @ ''/repos/'' @ PROJECT_REPO_SLUG @ ''/releases/latest''"

definition release_asset_name_for :: "string \<Rightarrow> string \<Rightarrow> string \<Rightarrow> string option" where
  "release_asset_name_for version os arch =
     map_option (\<lambda>target. ''aichan-'' @ version @ ''-'' @ target @ ''.tar.gz'')
       (if os = ''macos'' \<and> arch = ''aarch64'' then Some ''aarch64-apple-darwin''
        else if os = ''macos'' \<and> arch = ''x86_64'' then Some ''x86_64-apple-darwin''
        else if os = ''linux'' \<and> arch = ''x86_64'' then Some ''x86_64-unknown-linux-gnu''
        else None)"

definition current_platform_release_asset_name :: "upgrade_env \<Rightarrow> string \<Rightarrow> string option" where
  "current_platform_release_asset_name env version = release_asset_name_for version (ue_os env) (ue_arch env)"

definition release_upgrade_plan :: "upgrade_env \<Rightarrow> string \<Rightarrow> json" where
  "release_upgrade_plan env current_version = obj [
     (''repo'', JStr PROJECT_REPO_SLUG),
     (''latest_api_url'', JStr latest_release_api_url),
     (''asset_name'', jopt JStr (current_platform_release_asset_name env current_version)),
     (''checksum_asset'', JStr ''SHA256SUMS''),
     (''attestation'', JStr ''GitHub artifact attestation available for manual verification''),
     (''provenance_verified_by_cli'', JBool False)]"

section \<open>Versions and checksums\<close>

definition parse_release_version :: "string \<Rightarrow> (nat \<times> nat \<times> nat) option" where
  "parse_release_version version =
     (let clean = trim_start_matches_char (CHR ''v'') (trim version) in
      case split_on (CHR ''.'') clean of
        [a, b, c] \<Rightarrow>
          (case (parse_uint u64_max a, parse_uint u64_max b, parse_uint u64_max c) of
             (Some major, Some minor, Some patch) \<Rightarrow> Some (major, minor, patch)
           | _ \<Rightarrow> None)
      | _ \<Rightarrow> None)"

definition cmp_version :: "nat \<times> nat \<times> nat \<Rightarrow> nat \<times> nat \<times> nat \<Rightarrow> ordering" where
  "cmp_version v w = (case (v, w) of ((a, b, c), (a', b', c')) \<Rightarrow>
     then_with (cmp a a') (then_with (cmp b b') (cmp c c')))"

definition release_version_order :: "string \<Rightarrow> string \<Rightarrow> ordering option" where
  "release_version_order release_tag current_version =
     (case (parse_release_version release_tag, parse_release_version current_version) of
        (Some release, Some current) \<Rightarrow> Some (cmp_version release current)
      | _ \<Rightarrow> None)"

definition checksum_of_line :: "string \<Rightarrow> string \<Rightarrow> string option" where
  "checksum_of_line asset_name line =
     (case split_whitespace line of
        checksum # field # _ \<Rightarrow>
          (if trim_start_matches_char (CHR ''*'') field = asset_name \<and> length checksum = 64 \<and>
              list_all is_ascii_hexdigit checksum
           then Some (to_ascii_lowercase checksum) else None)
      | _ \<Rightarrow> None)"

fun find_map :: "('a \<Rightarrow> 'b option) \<Rightarrow> 'a list \<Rightarrow> 'b option" where
  "find_map f [] = None"
| "find_map f (x # xs) = (case f x of Some y \<Rightarrow> Some y | None \<Rightarrow> find_map f xs)"

definition checksum_from_sha256sums :: "string \<Rightarrow> string \<Rightarrow> string option" where
  "checksum_from_sha256sums sums asset_name = find_map (checksum_of_line asset_name) (lines sums)"

section \<open>Entries of an archive\<close>

text \<open>\<^verbatim>\<open>Path::components\<close> on Unix, where there are no prefixes.\<close>

datatype path_component = RootDir | CurDir | ParentDir | Normal string

definition path_components :: "string \<Rightarrow> path_component list" where
  "path_components p =
     (let pieces = split_on (CHR ''/'') p in
      (if starts_with p ''/'' then [RootDir] else if hd pieces = ''.'' then [CurDir] else []) @
      map (\<lambda>piece. if piece = ''..'' then ParentDir else Normal piece)
        (filter (\<lambda>piece. piece \<noteq> [] \<and> piece \<noteq> ''.'') pieces))"

fun entry_components_safe :: "bool \<Rightarrow> path_component list \<Rightarrow> bool" where
  "entry_components_safe has_normal_component [] = has_normal_component"
| "entry_components_safe has_normal_component (Normal _ # cs) = entry_components_safe True cs"
| "entry_components_safe has_normal_component (CurDir # cs) = entry_components_safe has_normal_component cs"
| "entry_components_safe has_normal_component (ParentDir # cs) = False"
| "entry_components_safe has_normal_component (RootDir # cs) = False"

definition release_archive_entry_is_safe :: "string \<Rightarrow> bool" where
  "release_archive_entry_is_safe entry =
     (if trim entry = [] then False
      else if starts_with entry ''/'' then False
      else entry_components_safe False (path_components entry))"

text \<open>\<^verbatim>\<open>text_tail\<close>: the last lines of an output.\<close>

definition text_tail :: "bytes \<Rightarrow> nat \<Rightarrow> string" where
  "text_tail b max_lines = (let ls = lines (utf8_lossy b) in join_on nl (drop (length ls - max_lines) ls))"

text \<open>
  How \<^verbatim>\<open>{:?}\<close> writes a string: quoted, with its quotes, backslashes and control characters escaped. Letters beyond
  ASCII stand for themselves; those that Rust does not take for printable are not told apart here.
\<close>

definition hex_digits :: "nat \<Rightarrow> string" where
  "hex_digits n = (if n < 16 then [hex_lower n] else [hex_lower (n div 16), hex_lower (n mod 16)])"

definition debug_char :: "char \<Rightarrow> string" where
  "debug_char c =
     (if c = CHR 0x22 then [CHR 0x5C, c] else if c = CHR 0x5C then [c, c]
      else if c = CHR 0x09 then [CHR 0x5C, CHR ''t''] else if c = CHR 0x0A then [CHR 0x5C, CHR ''n'']
      else if c = CHR 0x0D then [CHR 0x5C, CHR ''r''] else if c = CHR 0x00 then [CHR 0x5C, CHR ''0'']
      else if byte c < 32 \<or> byte c = 127 then CHR 0x5C # ''u{'' @ hex_digits (byte c) @ ''}''
      else [c])"

definition debug_text :: "string \<Rightarrow> string" where
  "debug_text s = [CHR 0x22] @ concat (map debug_char s) @ [CHR 0x22]"

section \<open>Downloads\<close>

definition github_get_bytes :: "upgrade_env \<Rightarrow> string \<Rightarrow> string \<Rightarrow> string + bytes" where
  "github_get_bytes env url description =
     (case ue_get env url of
        GotBody body \<Rightarrow> Ok body
      | GetBodyUnread e \<Rightarrow> Err (''read '' @ description @ '': '' @ url)
      | GotStatus status body \<Rightarrow>
          Err (description @ '' returned HTTP '' @ show_nat status @ '': '' @ take_chars 200 (utf8_lossy body))
      | GetTransport e \<Rightarrow> Err (description @ '': '' @ url))"

record github_asset =
  gha_name :: string
  gha_browser_download_url :: string

record github_release =
  ghr_tag_name :: string
  ghr_assets :: "github_asset list"

definition dec_github_asset :: "json \<Rightarrow> github_asset option" where
  "dec_github_asset v =
     (case struct_fields 2 [''name'', ''browser_download_url''] v of None \<Rightarrow> None | Some f \<Rightarrow>
     (case (req f ''name'' dec_str, req f ''browser_download_url'' dec_str) of
        (Some name, Some url) \<Rightarrow> Some \<lparr>gha_name = name, gha_browser_download_url = url\<rparr>
      | _ \<Rightarrow> None))"

definition dec_github_release :: "json \<Rightarrow> github_release option" where
  "dec_github_release v =
     (case struct_fields 2 [''tag_name'', ''assets''] v of None \<Rightarrow> None | Some f \<Rightarrow>
     (case (req f ''tag_name'' dec_str, req f ''assets'' (dec_list dec_github_asset)) of
        (Some tag, Some assets) \<Rightarrow> Some \<lparr>ghr_tag_name = tag, ghr_assets = assets\<rparr>
      | _ \<Rightarrow> None))"

definition fetch_latest_release :: "upgrade_env \<Rightarrow> string + github_release" where
  "fetch_latest_release env =
     and_then (github_get_bytes env latest_release_api_url ''fetch latest GitHub release'') (\<lambda>body.
       map_err (\<lambda>e. ''parse latest GitHub release'') (from_json (ue_crates env) dec_github_release body))"

section \<open>Files\<close>

text \<open>\<^verbatim>\<open>with_file_name\<close> of a path that ends in a file name.\<close>

definition with_file_name :: "string \<Rightarrow> string \<Rightarrow> string" where
  "with_file_name p n = rev (dropWhile (\<lambda>c. c \<noteq> CHR ''/'') (rev p)) @ n"

definition node_bytes :: "disk_node option \<Rightarrow> bytes" where
  "node_bytes n = (case n of Some (Regular b _) \<Rightarrow> b | _ \<Rightarrow> [])"

text \<open>The modes 0755 and 0644, the second of a file that is written under the usual umask.\<close>

definition executable_mode :: nat where "executable_mode = 493"
definition plain_mode :: nat where "plain_mode = 420"

definition write_node :: "text_write \<Rightarrow> string \<Rightarrow> bytes \<Rightarrow> nat \<Rightarrow> string \<Rightarrow> (machine, unit) step" where
  "write_node w p b mode context m =
     (case w of
        TextWritten \<Rightarrow> (Ok (), m(p \<mapsto> Regular b mode))
      | TextRefused e \<Rightarrow> (Err context, m)
      | TextTorn n e \<Rightarrow> (Err context, m(p \<mapsto> Regular (take n b) mode)))"

definition upgrade_temp_path :: "upgrade_env \<Rightarrow> string" where
  "upgrade_temp_path env =
     join_path (ue_temp_dir env) (''aichan-upgrade-'' @ show_nat (ue_process_id env) @ ''-'' @ ue_uuid env 0)"

definition create_upgrade_temp_dir :: "upgrade_env \<Rightarrow> (machine, string) step" where
  "create_upgrade_temp_dir env m =
     (let p = upgrade_temp_path env
      in case ue_mkdir env of
           Some e \<Rightarrow> (Err (''create '' @ p), m)
         | None \<Rightarrow> (Ok p, m(p \<mapsto> Directory)))"

definition validate_release_archive_entries :: "upgrade_env \<Rightarrow> string \<Rightarrow> (machine, unit) step" where
  "validate_release_archive_entries env archive_path m =
     (case ue_tar_list env (node_bytes (m archive_path)) of
        Inl e \<Rightarrow> (Err ''list release archive with tar'', m)
      | Inr out \<Rightarrow>
        (if \<not> po_success out
         then (Err (''list release archive failed with status '' @ po_status out @ '': '' @
                    trim (text_tail (po_stderr out) UPGRADE_OUTPUT_TAIL_LINES)), m)
         else case find (\<lambda>entry. \<not> release_archive_entry_is_safe entry) (lines (utf8_lossy (po_stdout out))) of
           Some entry \<Rightarrow> (Err (''release archive contains unsafe path '' @ debug_text entry), m)
         | None \<Rightarrow> (Ok (), m)))"

definition extract_release_archive :: "upgrade_env \<Rightarrow> string \<Rightarrow> string \<Rightarrow> (machine, unit) step" where
  "extract_release_archive env archive_path destination =
     then_do (validate_release_archive_entries env archive_path) (\<lambda>_ m.
       (case ue_tar_extract env (node_bytes (m archive_path)) destination m of
          (Inl e, m') \<Rightarrow> (Err ''extract release archive with tar'', m')
        | (Inr out, m') \<Rightarrow>
          (if \<not> po_success out
           then (Err (''extract release archive failed with status '' @ po_status out @ '': '' @
                      trim (text_tail (po_stderr out) UPGRADE_OUTPUT_TAIL_LINES)), m')
           else (Ok (), m'))))"

definition mark_executable :: "upgrade_env \<Rightarrow> string \<Rightarrow> (machine, unit) step" where
  "mark_executable env p m =
     (case (ue_stat env, ue_chmod env) of
        (Some e, _) \<Rightarrow> (Err (''stat '' @ p), m)
      | (None, Some e) \<Rightarrow> (Err (''chmod executable '' @ p), m)
      | (None, None) \<Rightarrow>
          (Ok (), m(p := (case m p of Some (Regular b mode) \<Rightarrow> Some (Regular b executable_mode) | n \<Rightarrow> n))))"

definition copy_node :: "upgrade_env \<Rightarrow> string \<Rightarrow> string \<Rightarrow> (machine, unit) step" where
  "copy_node env source target m =
     (let context = ''copy release binary from '' @ source @ '' to '' @ target in
      case m source of
        Some (Regular b mode) \<Rightarrow> write_node (ue_copy env) target b mode context m
      | _ \<Rightarrow> (Err context, m))"

definition rename_node :: "upgrade_env \<Rightarrow> string \<Rightarrow> string \<Rightarrow> (machine, unit) step" where
  "rename_node env source target m =
     (case ue_rename env of
        Some e \<Rightarrow> (Err (''replace '' @ target @ '' with verified release binary''), m)
      | None \<Rightarrow> (Ok (), (m(source := None))(target := m source)))"

definition upgrade_install_path :: "upgrade_env \<Rightarrow> string \<Rightarrow> string" where
  "upgrade_install_path env current_exe =
     with_file_name current_exe (''.aichan-upgrade-'' @ show_nat (ue_process_id env) @ ''-'' @ ue_uuid env 1)"

definition install_release_binary :: "upgrade_env \<Rightarrow> string \<Rightarrow> (machine, string) step" where
  "install_release_binary env extracted_binary =
     then_do (check (map_err (\<lambda>e. ''locate current aichan executable'') (ue_current_exe env))) (\<lambda>current_exe.
     (let install_tmp = upgrade_install_path env current_exe in
      then_do (copy_node env extracted_binary install_tmp) (\<lambda>_.
      then_do (mark_executable env install_tmp) (\<lambda>_.
      then_do (rename_node env install_tmp current_exe) (\<lambda>_.
        give current_exe)))))"

definition below :: "string \<Rightarrow> string \<Rightarrow> bool" where
  "below directory p \<longleftrightarrow> p = directory \<or> starts_with p (directory @ ''/'')"

definition remove_dir_all :: "upgrade_env \<Rightarrow> string \<Rightarrow> machine \<Rightarrow> machine" where
  "remove_dir_all env directory m = (\<lambda>p. if below directory p \<and> \<not> ue_kept env p then None else m p)"

section \<open>An upgrade from a release\<close>

record release_upgrade_outcome =
  ruo_upgraded :: bool
  ruo_source :: string
  ruo_current_version :: string
  ruo_latest_version :: string
  ruo_asset_name :: "string option"
  ruo_checksum :: "string option"
  ruo_installed_path :: "string option"
  ruo_message :: string

text \<open>The download of the archive and its checksum, up to the comparison.\<close>

definition verified_archive :: "upgrade_env \<Rightarrow> github_release \<Rightarrow> string \<Rightarrow> string + (bytes \<times> string)" where
  "verified_archive env release asset_name =
     and_then (ok_or (''latest release does not include '' @ asset_name)
                (find (\<lambda>asset. gha_name asset = asset_name) (ghr_assets release))) (\<lambda>archive_asset.
     and_then (ok_or ''latest release does not include SHA256SUMS''
                (find (\<lambda>asset. gha_name asset = ''SHA256SUMS'') (ghr_assets release))) (\<lambda>checksum_asset.
     and_then (github_get_bytes env (gha_browser_download_url archive_asset)
                (''download release asset '' @ asset_name)) (\<lambda>archive_bytes.
     and_then (github_get_bytes env (gha_browser_download_url checksum_asset)
                ''download release SHA256SUMS'') (\<lambda>sums_bytes.
     and_then (if utf8_valid sums_bytes then Ok sums_bytes else Err ''release SHA256SUMS is not UTF-8'') (\<lambda>sums_text.
     and_then (ok_or (''SHA256SUMS does not contain '' @ asset_name)
                (checksum_from_sha256sums sums_text asset_name)) (\<lambda>expected_checksum.
     (let actual_checksum = sha256_hex (ue_crates env) archive_bytes in
      if actual_checksum \<noteq> expected_checksum
      then Err (''checksum mismatch for '' @ asset_name @ '': expected '' @ expected_checksum @ '', got '' @ actual_checksum)
      else Ok (archive_bytes, actual_checksum))))))))"

definition unpack_archive :: "upgrade_env \<Rightarrow> string \<Rightarrow> bytes \<Rightarrow> (machine, string) step" where
  "unpack_archive env asset_name archive_bytes =
     then_do (create_upgrade_temp_dir env) (\<lambda>temp_dir.
     (let archive_path = join_path temp_dir asset_name; extracted_binary = join_path temp_dir ''aichan'' in
      then_do (write_node (ue_write_archive env) archive_path archive_bytes plain_mode (''write '' @ archive_path)) (\<lambda>_.
      then_do (extract_release_archive env archive_path temp_dir) (\<lambda>_ m.
        if m extracted_binary = None
        then (Err (''release archive did not contain an aichan binary at '' @ extracted_binary), m)
        else (Ok extracted_binary, m)))))"

definition install_archive :: "upgrade_env \<Rightarrow> string \<Rightarrow> bytes \<Rightarrow> (machine, string) step" where
  "install_archive env asset_name archive_bytes =
     then_do (unpack_archive env asset_name archive_bytes) (\<lambda>extracted_binary.
     then_do (install_release_binary env extracted_binary) (\<lambda>installed_path m.
       (Ok installed_path, remove_dir_all env (upgrade_temp_path env) m)))"

definition upgrade_from_release :: "upgrade_env \<Rightarrow> (machine, release_upgrade_outcome) step" where
  "upgrade_from_release env =
     then_do (check (fetch_latest_release env)) (\<lambda>release.
     (let current_version = ue_version env;
          latest_version = trim_start_matches_char (CHR ''v'') (ghr_tag_name release) in
      if release_version_order (ghr_tag_name release) current_version \<noteq> Some Greater
      then give \<lparr>ruo_upgraded = False, ruo_source = ''release'', ruo_current_version = current_version,
             ruo_latest_version = latest_version, ruo_asset_name = None, ruo_checksum = None,
             ruo_installed_path = None, ruo_message = ''aichan is already up to date''\<rparr>
      else
        then_do (check (ok_or ''release upgrade is not supported on this platform yet''
                    (current_platform_release_asset_name env latest_version))) (\<lambda>asset_name.
        then_do (check (verified_archive env release asset_name)) (\<lambda>(archive_bytes, actual_checksum).
        then_do (install_archive env asset_name archive_bytes) (\<lambda>installed_path.
          give \<lparr>ruo_upgraded = True, ruo_source = ''release'', ruo_current_version = current_version,
             ruo_latest_version = latest_version, ruo_asset_name = Some asset_name,
             ruo_checksum = Some actual_checksum, ruo_installed_path = Some installed_path,
             ruo_message = ''aichan upgrade completed''\<rparr>)))))"

section \<open>The command\<close>

datatype upgrade_shown = UpgradeJson json | UpgradeLines "string list"

definition print_release_upgrade_outcome :: "release_upgrade_outcome \<Rightarrow> bool \<Rightarrow> upgrade_shown" where
  "print_release_upgrade_outcome outcome as_json =
     (if as_json then UpgradeJson (obj [
        (''upgraded'', JBool (ruo_upgraded outcome)), (''dry_run'', JBool False),
        (''source'', JStr (ruo_source outcome)), (''current_version'', JStr (ruo_current_version outcome)),
        (''latest_version'', JStr (ruo_latest_version outcome)), (''asset_name'', jopt JStr (ruo_asset_name outcome)),
        (''checksum_sha256'', jopt JStr (ruo_checksum outcome)),
        (''installed_path'', jopt JStr (ruo_installed_path outcome)), (''message'', JStr (ruo_message outcome))])
      else UpgradeLines (
        [''current_version: '' @ ruo_current_version outcome, ''latest_version: '' @ ruo_latest_version outcome,
         ''source: '' @ ruo_source outcome] @
        (case ruo_asset_name outcome of None \<Rightarrow> [] | Some asset_name \<Rightarrow> [''asset: '' @ asset_name]) @
        (if ruo_checksum outcome \<noteq> None then [''checksum: verified''] else []) @
        (case ruo_installed_path outcome of None \<Rightarrow> [] | Some p \<Rightarrow> [''installed: '' @ p]) @
        [ruo_message outcome]))"

record cargo_upgrade_outcome =
  cuo_success :: bool
  cuo_status_code :: "int option"
  cuo_stdout_tail :: string
  cuo_stderr_tail :: string

text \<open>With \<open>verbose\<close> the output of cargo goes to the terminal. What goes to the standard error is not modelled.\<close>

definition run_cargo_upgrade :: "upgrade_env \<Rightarrow> string list \<Rightarrow> bool \<Rightarrow> (machine, cargo_upgrade_outcome) step" where
  "run_cargo_upgrade env command verbose m =
     (case ue_cargo env command m of
        (Inl e, m') \<Rightarrow> (Err ''run aichan upgrade command'', m')
      | (Inr out, m') \<Rightarrow>
        (if \<not> po_success out then (Err (''aichan upgrade failed with status '' @ po_status out), m')
         else if verbose then (Ok \<lparr>cuo_success = True, cuo_status_code = po_code out, cuo_stdout_tail = [], cuo_stderr_tail = []\<rparr>, m')
         else (Ok \<lparr>cuo_success = True, cuo_status_code = po_code out,
                 cuo_stdout_tail = text_tail (po_stdout out) UPGRADE_OUTPUT_TAIL_LINES,
                 cuo_stderr_tail = text_tail (po_stderr out) UPGRADE_OUTPUT_TAIL_LINES\<rparr>, m')))"

definition upgrade_dry_run :: "upgrade_env \<Rightarrow> upgrade_args \<Rightarrow> bool \<Rightarrow> upgrade_shown" where
  "upgrade_dry_run env args as_json =
     (let fallback_command = upgrade_command_parts args;
          release_plan = (if should_try_release_upgrade args then Some (release_upgrade_plan env (ue_version env)) else None) in
      if as_json then UpgradeJson (obj [
        (''upgraded'', JBool False), (''dry_run'', JBool True), (''current_version'', JStr (ue_version env)),
        (''strategy'', JStr (upgrade_strategy_name args)), (''source'', JStr (source_name (ua_source args))),
        (''release'', jopt (\<lambda>plan. plan) release_plan), (''fallback_command'', enc_strs fallback_command)])
      else UpgradeLines (
        [''current_version: '' @ ue_version env, ''dry_run: true'', ''strategy: '' @ upgrade_strategy_name args] @
        (case Option.bind (Option.bind release_plan (\<lambda>plan. jget plan ''asset_name'')) as_str of
           None \<Rightarrow> [] | Some asset_name \<Rightarrow> [''release_asset: '' @ asset_name]) @
        [''fallback_command: '' @ join_on (CHR '' '') fallback_command]))"

definition cargo_shown :: "upgrade_env \<Rightarrow> upgrade_args \<Rightarrow> string option \<Rightarrow> cargo_upgrade_outcome \<Rightarrow> bool \<Rightarrow> upgrade_shown" where
  "cargo_shown env args release_fallback_error cargo as_json =
     (if as_json then UpgradeJson (obj [
        (''upgraded'', JBool (cuo_success cargo)), (''dry_run'', JBool False),
        (''current_version'', JStr (ue_version env)), (''source'', JStr ''cargo''),
        (''fallback_reason'', jopt JStr release_fallback_error),
        (''command'', enc_strs (upgrade_command_parts args)),
        (''status_code'', jopt (\<lambda>c. JNum (if c < 0 then NegInt c else PosInt (nat c))) (cuo_status_code cargo)),
        (''stdout_tail'', JStr (cuo_stdout_tail cargo)), (''stderr_tail'', JStr (cuo_stderr_tail cargo))])
      else UpgradeLines (
        [''current_version: '' @ ue_version env] @
        (case release_fallback_error of None \<Rightarrow> [] | Some reason \<Rightarrow> [''release: unavailable ('' @ reason @ '')'']) @
        [''source: cargo'', ''aichan upgrade completed'']))"

definition upgrade :: "upgrade_env \<Rightarrow> upgrade_args \<Rightarrow> bool \<Rightarrow> (machine, upgrade_shown) step" where
  "upgrade env args as_json m =
     (let cargo = (\<lambda>release_fallback_error.
            then_do (run_cargo_upgrade env (upgrade_command_parts args) (ua_verbose args)) (\<lambda>outcome.
              give (cargo_shown env args release_fallback_error outcome as_json))) in
      if ua_dry_run args then (Ok (upgrade_dry_run env args as_json), m)
      else if should_try_release_upgrade args then
        (case upgrade_from_release env m of
           (Inr outcome, m') \<Rightarrow> (Ok (print_release_upgrade_outcome outcome as_json), m')
         | (Inl e, m') \<Rightarrow>
           (if ua_source args = ReleaseSource then (Err ''release upgrade failed'', m') else cargo (Some e) m'))
      else cargo None m)"

end
