(* ===== verification/Upgrade_Laws.thy ===== *)
theory Upgrade_Laws
  imports Cli_Upgrade
begin

text \<open>
  What an upgrade may do to a machine: the executable is replaced only by one that came out of an archive
  with the published checksum, of a release that is newer, none of whose entries leaves the temporary directory;
  every other file outside of that directory stays. Versions and checksum files are read back as written.
\<close>

section \<open>Versions\<close>

definition version_text :: "nat \<times> nat \<times> nat \<Rightarrow> string" where
  "version_text v = (case v of (a, b, c) \<Rightarrow> show_nat a @ ''.'' @ show_nat b @ ''.'' @ show_nat c)"

lemma digits_graphic: "list_all is_digit s \<Longrightarrow> list_all (in_range 33 126) s"
  by (auto simp: list_all_iff is_digit_def in_range_def)

lemma digits_dotless: "list_all is_digit s \<Longrightarrow> CHR ''.'' \<notin> set s"
  by (auto simp: list_all_iff is_digit_def in_range_def)

lemma version_text_graphic: "list_all (in_range 33 126) (version_text v)"
  using show_nat_facts by (cases v) (simp add: version_text_def digits_graphic, simp add: in_range_def)

lemma split_version: "split_on (CHR ''.'') (version_text (a, b, c)) = [show_nat a, show_nat b, show_nat c]"
  using show_nat_facts digits_dotless by (simp add: version_text_def split_on_none)

lemma no_leading_v: "trim_start_matches_char (CHR ''v'') (version_text v) = version_text v"
proof -
  obtain a b c where v: "v = (a, b, c)" by (cases v)
  obtain d r where d: "show_nat a = d # r" "is_digit d" using show_nat_head by blast
  then have "d \<noteq> CHR ''v''" by (auto simp: is_digit_def in_range_def)
  then show ?thesis by (simp add: version_text_def v d(1))
qed

lemma parse_version_text:
  assumes "a \<le> u64_max" "b \<le> u64_max" "c \<le> u64_max"
  shows "parse_release_version (version_text (a, b, c)) = Some (a, b, c)"
    "parse_release_version (CHR ''v'' # version_text (a, b, c)) = Some (a, b, c)"
proof -
  have "list_all (in_range 33 126) (CHR ''v'' # version_text (a, b, c))"
    using version_text_graphic by (simp add: in_range_def)
  then have t: "trim (CHR ''v'' # version_text (a, b, c)) = CHR ''v'' # version_text (a, b, c)"
    by (rule trim_graphic)
  have t': "trim (version_text (a, b, c)) = version_text (a, b, c)"
    by (rule trim_graphic [OF version_text_graphic])
  show "parse_release_version (version_text (a, b, c)) = Some (a, b, c)"
    "parse_release_version (CHR ''v'' # version_text (a, b, c)) = Some (a, b, c)"
    by (simp_all add: parse_release_version_def t t' no_leading_v split_version parse_show_nat assms)
qed

lemma release_newer_iff:
  assumes "a \<le> u64_max" "b \<le> u64_max" "c \<le> u64_max" "a' \<le> u64_max" "b' \<le> u64_max" "c' \<le> u64_max"
  shows "release_version_order (CHR ''v'' # version_text (a, b, c)) (version_text (a', b', c')) = Some Greater \<longleftrightarrow>
    a' < a \<or> a = a' \<and> (b' < b \<or> b = b' \<and> c' < c)"
  by (auto simp: release_version_order_def parse_version_text assms cmp_version_def)

section \<open>Checksum files\<close>

lemma split_ws_word:
  "list_all (in_range 33 126) w \<Longrightarrow> split_ws_aux acc (w @ s) = split_ws_aux (rev w @ acc) s"
proof (induction w arbitrary: acc)
  case (Cons c w)
  then have "split_ws_aux acc (c # w @ s) = split_ws_aux (c # acc) (w @ s)"
    by (subst split_ws_aux.simps) (simp add: strip_space_graphic)
  with Cons show ?case by simp
qed simp

lemma split_ws_space:
  "split_ws_aux acc (CHR '' '' # s) = (if acc = [] then split_ws_aux [] s else rev acc # split_ws_aux [] s)"
  "split_ws_aux acc [] = (if acc = [] then [] else [rev acc])"
  by (subst split_ws_aux.simps, simp add: strip_space_def is_ascii_space_def)+

text \<open>A line of a checksum file, as \<^verbatim>\<open>sha256sum\<close> writes it.\<close>

definition sums_line :: "string \<times> string \<Rightarrow> string" where
  "sums_line e = fst e @ ''  '' @ snd e"

definition sums_entry :: "string \<times> string \<Rightarrow> bool" where
  "sums_entry e \<longleftrightarrow> length (fst e) = 64 \<and> list_all is_ascii_hexdigit (fst e) \<and>
     snd e \<noteq> [] \<and> list_all (in_range 33 126) (snd e) \<and> hd (snd e) \<noteq> CHR ''*''"

lemma checksum_of_sums_line:
  assumes "sums_entry e"
  shows "checksum_of_line n (sums_line e) = (if snd e = n then Some (to_ascii_lowercase (fst e)) else None)"
proof -
  have g: "list_all (in_range 33 126) (fst e)" "fst e \<noteq> []"
    using assms by (auto simp: sums_entry_def list_all_iff is_ascii_hexdigit_def is_digit_def in_range_def)
  have "split_whitespace (sums_line e) = [fst e, snd e]"
    using assms g split_ws_word [OF g(1), of "[]"] split_ws_word [of "snd e" "[]" "[]"]
    by (simp add: split_whitespace_def sums_line_def split_ws_space sums_entry_def)
  moreover have "trim_start_matches_char (CHR ''*'') (snd e) = snd e"
    using assms by (cases "snd e") (simp_all add: sums_entry_def)
  ultimately show ?thesis using assms by (simp add: checksum_of_line_def sums_entry_def)
qed

lemma checksum_of_sums:
  assumes "\<forall>e \<in> set es. sums_entry e"
  shows "find_map (checksum_of_line n) (map sums_line es) =
    map_option to_ascii_lowercase (map_of (map (\<lambda>(h, k). (k, h)) es) n)"
  using assms by (induction es) (auto simp: checksum_of_sums_line)

lemma lines_of_sums:
  assumes "\<forall>e \<in> set es. sums_entry e"
  shows "lines (concat (map (\<lambda>e. sums_line e @ [nl]) es)) = map sums_line es"
proof -
  have l: "nl \<notin> set (sums_line e)" "drop_cr (sums_line e) = sums_line e" if "sums_entry e" for e
    using that by (auto simp: sums_line_def sums_entry_def drop_cr_def list_all_iff is_ascii_hexdigit_def
        is_digit_def in_range_def dest!: last_in_set)
  have "split_on nl (concat (map (\<lambda>e. sums_line e @ [nl]) es)) = map sums_line es @ [[]]"
    using assms by (induction es) (simp_all add: l(1))
  then show ?thesis using assms l(2) by (simp add: lines_def)
qed

lemma checksum_from_written:
  assumes "\<forall>e \<in> set es. sums_entry e"
  shows "checksum_from_sha256sums (concat (map (\<lambda>e. sums_line e @ [nl]) es)) n =
    map_option to_ascii_lowercase (map_of (map (\<lambda>(h, k). (k, h)) es) n)"
  by (simp add: checksum_from_sha256sums_def lines_of_sums assms checksum_of_sums)

section \<open>Entries stay in the directory\<close>

text \<open>Where an entry is put, component by component, in a directory.\<close>

definition parent_path :: "string \<Rightarrow> string" where
  "parent_path p = rev (drop 1 (dropWhile (\<lambda>c. c \<noteq> CHR ''/'') (rev p)))"

fun enter :: "string \<Rightarrow> path_component \<Rightarrow> string" where
  "enter p RootDir = []"
| "enter p CurDir = p"
| "enter p ParentDir = parent_path p"
| "enter p (Normal piece) = p @ ''/'' @ piece"

definition resolve :: "string \<Rightarrow> path_component list \<Rightarrow> string" where
  "resolve directory cs = foldl enter directory cs"

lemma below_enter: "below d p \<Longrightarrow> below d (p @ ''/'' @ q)"
  by (auto simp: below_def starts_with_iff)

lemma safe_components_below:
  "entry_components_safe b cs \<Longrightarrow> below d p \<Longrightarrow> below d (resolve p (take n cs))"
proof (induction b cs arbitrary: p n rule: entry_components_safe.induct)
  case (2 b piece cs)
  then show ?case using below_enter [of d p piece] by (cases n) (simp_all add: resolve_def)
next
  case (3 b cs)
  then show ?case by (cases n) (simp_all add: resolve_def)
qed (simp_all add: resolve_def)

lemma safe_entry_below:
  assumes "release_archive_entry_is_safe entry"
  shows "below d (resolve d (take n (path_components entry)))"
  using assms safe_components_below [of False "path_components entry" d d n]
  by (simp add: release_archive_entry_is_safe_def below_def split: if_splits)

section \<open>What stays\<close>

text \<open>
  tar writes what it lists, each entry in the directory it is told to extract to; and a UUID is
  32 hexadecimal digits.
\<close>

definition tar_law :: "upgrade_env \<Rightarrow> bool" where
  "tar_law env \<longleftrightarrow> (\<forall>archive directory m r m' p. ue_tar_extract env archive directory m = (r, m') \<longrightarrow> m' p \<noteq> m p \<longrightarrow>
     (\<exists>out entry n. ue_tar_list env archive = Ok out \<and> entry \<in> set (lines (utf8_lossy (po_stdout out))) \<and>
        p = resolve directory (take n (path_components entry))))"

definition uuid_law :: "upgrade_env \<Rightarrow> bool" where
  "uuid_law env \<longleftrightarrow> (\<forall>n. length (ue_uuid env n) = 32 \<and> list_all is_ascii_hexdigit (ue_uuid env n))"

definition keeps :: "(string \<Rightarrow> bool) \<Rightarrow> (machine, 'a) step \<Rightarrow> bool" where
  "keeps P s \<longleftrightarrow> (\<forall>m r m' p. s m = (r, m') \<longrightarrow> P p \<longrightarrow> m' p = m p)"

lemma keepsI: "(\<And>m r m' p. s m = (r, m') \<Longrightarrow> P p \<Longrightarrow> m' p = m p) \<Longrightarrow> keeps P s"
  by (simp add: keeps_def)

lemma keepsD: "keeps P s \<Longrightarrow> s m = (r, m') \<Longrightarrow> P p \<Longrightarrow> m' p = m p"
  by (simp add: keeps_def)

lemma keeps_then_do:
  assumes "keeps P s" "\<And>m a m1. s m = (Ok a, m1) \<Longrightarrow> keeps P (f a)"
  shows "keeps P (then_do s f)"
proof (rule keepsI)
  fix m r m' p
  assume run: "then_do s f m = (r, m')" and p: "P p"
  obtain r1 m1 where s: "s m = (r1, m1)" by fastforce
  have m1: "m1 p = m p" by (rule keepsD [OF assms(1) s p])
  show "m' p = m p"
  proof (cases r1)
    case (Inl e)
    with run s m1 show ?thesis by (simp add: then_do_def)
  next
    case (Inr a)
    with s have k: "keeps P (f a)" by (intro assms(2)) simp
    from run s Inr have "f a m1 = (r, m')" by (simp add: then_do_def)
    from keepsD [OF k this p] m1 show ?thesis by simp
  qed
qed

lemma keeps_simple [simp]: "keeps P (give a)" "keeps P (fail e)" "keeps P (check r)"
  by (simp_all add: keeps_def give_def fail_def)

lemma keeps_write_node: "\<not> P p \<Longrightarrow> keeps P (write_node w p b mode context)"
  by (rule keepsI) (auto simp: write_node_def split: text_write.splits)

lemma keeps_create_temp: "keeps (\<lambda>p. \<not> below (upgrade_temp_path env) p) (create_upgrade_temp_dir env)"
  by (rule keepsI) (auto simp: create_upgrade_temp_dir_def Let_def below_def split: option.splits)

lemma create_temp_Ok: "create_upgrade_temp_dir env m = (Ok d, m') \<Longrightarrow> d = upgrade_temp_path env"
  by (auto simp: create_upgrade_temp_dir_def Let_def split: option.splits)

lemma validate_Ok:
  "validate_release_archive_entries env archive_path m = (Ok (), m') \<longleftrightarrow>
     m' = m \<and> (\<exists>out. ue_tar_list env (node_bytes (m archive_path)) = Ok out \<and> po_success out \<and>
       (\<forall>entry \<in> set (lines (utf8_lossy (po_stdout out))). release_archive_entry_is_safe entry))"
  by (auto simp: validate_release_archive_entries_def find_None_iff find_Some_iff split: sum.splits option.splits)

lemma validate_state: "validate_release_archive_entries env archive_path m = (r, m') \<Longrightarrow> m' = m"
  by (auto simp: validate_release_archive_entries_def split: sum.splits option.splits if_splits)

lemma keeps_extract:
  assumes "tar_law env"
  shows "keeps (\<lambda>p. \<not> below d p) (extract_release_archive env archive_path d)"
proof (rule keepsI)
  fix m r m' p
  assume run: "extract_release_archive env archive_path d m = (r, m')" and p: "\<not> below d p"
  show "m' p = m p"
  proof (cases "validate_release_archive_entries env archive_path m")
    case (Pair v m1)
    then have m1: "m1 = m" by (rule validate_state)
    show ?thesis
    proof (cases v)
      case (Inl e)
      with run Pair m1 show ?thesis by (simp add: extract_release_archive_def then_do_def)
    next
      case (Inr u)
      with Pair m1 obtain out where out: "ue_tar_list env (node_bytes (m archive_path)) = Ok out"
        "\<forall>entry \<in> set (lines (utf8_lossy (po_stdout out))). release_archive_entry_is_safe entry"
        by (auto simp: validate_Ok)
      obtain r2 where x: "ue_tar_extract env (node_bytes (m archive_path)) d m = (r2, m')"
        using run Pair Inr m1 by (auto simp: extract_release_archive_def then_do_def split: prod.splits sum.splits if_splits)
      show ?thesis
      proof (rule ccontr)
        assume "m' p \<noteq> m p"
        with assms x out(1) obtain entry n where "entry \<in> set (lines (utf8_lossy (po_stdout out)))"
          "p = resolve d (take n (path_components entry))"
          unfolding tar_law_def by fastforce
        with out(2) p show False using safe_entry_below by blast
      qed
    qed
  qed
qed

section \<open>The executable\<close>

text \<open>
  A binary that came out of an archive: what tar has put under the name of the program, after a
  listing with nothing unsafe in it.
\<close>

definition came_out_of :: "upgrade_env \<Rightarrow> bytes \<Rightarrow> bytes \<Rightarrow> bool" where
  "came_out_of env archive binary \<longleftrightarrow>
     (\<exists>m1 listing out m2 mode.
        ue_tar_list env archive = Ok listing \<and> po_success listing \<and>
        (\<forall>entry \<in> set (lines (utf8_lossy (po_stdout listing))). release_archive_entry_is_safe entry) \<and>
        ue_tar_extract env archive (upgrade_temp_path env) m1 = (Ok out, m2) \<and> po_success out \<and>
        m2 (join_path (upgrade_temp_path env) ''aichan'') = Some (Regular binary mode))"

lemma temp_child:
  assumes "uuid_law env" "\<not> starts_with q ''/''"
  shows "join_path (upgrade_temp_path env) q = upgrade_temp_path env @ ''/'' @ q"
    "below (upgrade_temp_path env) (join_path (upgrade_temp_path env) q)"
proof -
  obtain u where u: "ue_uuid env 0 = u" "length u = 32" "list_all is_ascii_hexdigit u"
    using assms(1) by (auto simp: uuid_law_def)
  then have ne: "u \<noteq> []" by auto
  have "\<not> is_ascii_hexdigit (CHR ''/'')" by (simp add: is_ascii_hexdigit_def is_digit_def in_range_def)
  with u(3) ne have "last u \<noteq> CHR ''/''" by (metis last_in_set list_all_iff)
  with ne
  have "\<not> ends_with (t @ u) ''/''" for t
    by (cases u rule: rev_cases) (auto simp: ends_with_iff)
  from this [of "ue_temp_dir env @ ''/aichan-upgrade-'' @ show_nat (ue_process_id env) @ ''-''"]
    this [of "ue_temp_dir env @ ''aichan-upgrade-'' @ show_nat (ue_process_id env) @ ''-''"]
  have "\<not> ends_with (upgrade_temp_path env) ''/''"
    by (simp add: upgrade_temp_path_def u(1) join_path_def [of "ue_temp_dir env"])
  moreover have "upgrade_temp_path env \<noteq> []"
    by (simp add: upgrade_temp_path_def join_path_def)
  ultimately show e: "join_path (upgrade_temp_path env) q = upgrade_temp_path env @ ''/'' @ q"
    using assms(2) by (simp add: join_path_def)
  show "below (upgrade_temp_path env) (join_path (upgrade_temp_path env) q)"
    unfolding e by (simp add: below_def starts_with_iff)
qed

lemma copy_Ok:
  "copy_node env source target m = (Ok (), m') \<longleftrightarrow>
     (\<exists>b mode. m source = Some (Regular b mode) \<and> m' = m(target \<mapsto> Regular b mode) \<and> ue_copy env = TextWritten)"
  by (auto simp: copy_node_def write_node_def Let_def split: option.splits disk_node.splits text_write.splits)

lemma keeps_copy: "\<not> P target \<Longrightarrow> keeps P (copy_node env source target)"
  by (rule keepsI) (auto simp: copy_node_def write_node_def Let_def split: option.splits disk_node.splits text_write.splits)

lemma keeps_chmod: "\<not> P p \<Longrightarrow> keeps P (mark_executable env p)"
  by (rule keepsI) (auto simp: mark_executable_def split: option.splits prod.splits)

lemma install_binary:
  assumes run: "install_release_binary env source m = (r, m')" and exe: "ue_current_exe env = Ok exe"
    and other: "upgrade_install_path env exe \<noteq> exe"
  shows "p \<noteq> exe \<Longrightarrow> p \<noteq> upgrade_install_path env exe \<Longrightarrow> m' p = m p"
    "(\<exists>e. r = Err e) \<and> m' exe = m exe \<or>
     r = Ok exe \<and> (\<exists>b mode. m source = Some (Regular b mode) \<and> m' exe = Some (Regular b executable_mode))"
proof -
  let ?tmp = "upgrade_install_path env exe"
  let ?front = "then_do (copy_node env source ?tmp) (\<lambda>_. mark_executable env ?tmp)"
  have split: "install_release_binary env source m =
      then_do ?front (\<lambda>_. then_do (rename_node env ?tmp exe) (\<lambda>_. give exe)) m"
    by (simp add: install_release_binary_def exe Let_def) (simp add: then_do_def split: prod.split sum.split)
  have keep: "keeps (\<lambda>p. p \<noteq> ?tmp) ?front"
    by (rule keeps_then_do) (simp_all add: keeps_copy keeps_chmod)
  obtain r1 m1 where front: "?front m = (r1, m1)" by fastforce
  have m1: "p \<noteq> ?tmp \<Longrightarrow> m1 p = m p" for p by (rule keepsD [OF keep front])
  have two: "m' = m1 \<and> (\<exists>e. r = Err e) \<or> r1 = Ok () \<and> r = Ok exe \<and> m' = (m1(?tmp := None))(exe := m1 ?tmp)"
    using run front by (auto simp: split then_do_def rename_node_def give_def split: sum.splits option.splits)
  show "p \<noteq> exe \<Longrightarrow> p \<noteq> ?tmp \<Longrightarrow> m' p = m p" using two m1 by auto
  show "(\<exists>e. r = Err e) \<and> m' exe = m exe \<or>
     r = Ok exe \<and> (\<exists>b mode. m source = Some (Regular b mode) \<and> m' exe = Some (Regular b executable_mode))"
  proof (cases "r1 = Ok () \<and> r = Ok exe \<and> m' = (m1(?tmp := None))(exe := m1 ?tmp)")
    case True
    then obtain m0 b mode where "m source = Some (Regular b mode)" "m0 = m(?tmp \<mapsto> Regular b mode)"
      "mark_executable env ?tmp m0 = (Ok (), m1)"
      using front by (auto simp: then_do_Ok copy_Ok)
    then show ?thesis using True by (auto simp: mark_executable_def split: option.splits)
  next
    case False
    with two other m1 [of exe] show ?thesis by auto
  qed
qed

section \<open>The upgrade\<close>

text \<open>What an upgrade has found out before it touches the machine.\<close>

definition verified_release :: "upgrade_env \<Rightarrow> bytes \<Rightarrow> bool" where
  "verified_release env archive \<longleftrightarrow>
     (\<exists>release asset_name url sums_url sums.
        fetch_latest_release env = Ok release \<and>
        release_version_order (ghr_tag_name release) (ue_version env) = Some Greater \<and>
        \<lparr>gha_name = asset_name, gha_browser_download_url = url\<rparr> \<in> set (ghr_assets release) \<and>
        \<lparr>gha_name = ''SHA256SUMS'', gha_browser_download_url = sums_url\<rparr> \<in> set (ghr_assets release) \<and>
        ue_get env url = GotBody archive \<and> ue_get env sums_url = GotBody sums \<and>
        checksum_from_sha256sums sums asset_name = Some (sha256_hex (ue_crates env) archive))"

lemma github_get_Ok: "github_get_bytes env url description = Ok b \<longleftrightarrow> ue_get env url = GotBody b"
  by (auto simp: github_get_bytes_def split: get_outcome.splits)

lemma find_asset:
  "find (\<lambda>asset. gha_name asset = n) assets = Some a \<Longrightarrow>
   \<lparr>gha_name = n, gha_browser_download_url = gha_browser_download_url a\<rparr> \<in> set assets"
  by (auto simp: find_Some_iff) (metis github_asset.surjective nth_mem old.unit.exhaust)

lemma verified_archive_Ok:
  assumes "verified_archive env release asset_name = Ok (archive, checksum)"
    "fetch_latest_release env = Ok release"
    "release_version_order (ghr_tag_name release) (ue_version env) = Some Greater"
  shows "verified_release env archive" "checksum = sha256_hex (ue_crates env) archive"
proof -
  from assms(1) obtain a c sums where a: "find (\<lambda>asset. gha_name asset = asset_name) (ghr_assets release) = Some a"
    and c: "find (\<lambda>asset. gha_name asset = ''SHA256SUMS'') (ghr_assets release) = Some c"
    and got: "ue_get env (gha_browser_download_url a) = GotBody archive"
      "ue_get env (gha_browser_download_url c) = GotBody sums"
    and sum: "checksum_from_sha256sums sums asset_name = Some (sha256_hex (ue_crates env) archive)"
    and eq: "checksum = sha256_hex (ue_crates env) archive"
    unfolding verified_archive_def
    by (auto simp: result_simps github_get_Ok Let_def split: if_splits)
  show "verified_release env archive"
    unfolding verified_release_def using assms(2,3) find_asset [OF a] find_asset [OF c] got sum by blast
  show "checksum = sha256_hex (ue_crates env) archive" by (rule eq)
qed

lemma keeps_unpack:
  assumes "tar_law env" "uuid_law env" "\<not> starts_with asset_name ''/''"
  shows "keeps (\<lambda>p. \<not> below (upgrade_temp_path env) p) (unpack_archive env asset_name archive)"
  unfolding unpack_archive_def Let_def
proof (rule keeps_then_do [OF keeps_create_temp])
  fix m d m1
  assume "create_upgrade_temp_dir env m = (Ok d, m1)"
  then have d: "d = upgrade_temp_path env" by (rule create_temp_Ok)
  have "keeps P (\<lambda>m. if m (join_path d ''aichan'') = None then (Err e, m) else (Ok q, m))" for P e and q :: string
    by (rule keepsI) (auto split: if_splits)
  then show "keeps (\<lambda>p. \<not> below (upgrade_temp_path env) p)
      (then_do (write_node (ue_write_archive env) (join_path d asset_name) archive plain_mode (''write '' @ join_path d asset_name)) (\<lambda>_.
       then_do (extract_release_archive env (join_path d asset_name) d) (\<lambda>_ m.
         if m (join_path d ''aichan'') = None
         then (Err (''release archive did not contain an aichan binary at '' @ join_path d ''aichan''), m)
         else (Ok (join_path d ''aichan''), m))))"
    unfolding d by (intro keeps_then_do keeps_write_node keeps_extract assms) (simp_all add: temp_child(2) assms)
qed

lemma unpack_Ok:
  assumes "unpack_archive env asset_name archive m = (Ok extracted, m2)"
  shows "extracted = join_path (upgrade_temp_path env) ''aichan''"
    "m2 extracted = Some (Regular binary mode) \<Longrightarrow> came_out_of env archive binary"
proof -
  let ?d = "upgrade_temp_path env"
  from assms obtain m0 m1 where w: "write_node (ue_write_archive env) (join_path ?d asset_name) archive plain_mode
        (''write '' @ join_path ?d asset_name) m0 = (Ok (), m1)"
    and x: "extract_release_archive env (join_path ?d asset_name) ?d m1 = (Ok (), m2)"
    and e: "extracted = join_path ?d ''aichan''"
    unfolding unpack_archive_def Let_def
    by (auto simp: then_do_Ok dest!: create_temp_Ok split: if_splits)
  show "extracted = join_path ?d ''aichan''" by (rule e)
  from w have b: "node_bytes (m1 (join_path ?d asset_name)) = archive"
    by (auto simp: write_node_def node_bytes_def split: text_write.splits)
  from x obtain listing out where l: "ue_tar_list env archive = Ok listing" "po_success listing"
      "\<forall>entry \<in> set (lines (utf8_lossy (po_stdout listing))). release_archive_entry_is_safe entry"
    and o: "ue_tar_extract env archive ?d m1 = (Ok out, m2)" "po_success out"
    by (auto simp: extract_release_archive_def then_do_Ok validate_Ok b split: prod.splits sum.splits if_splits)
  assume "m2 extracted = Some (Regular binary mode)"
  with l o show "came_out_of env archive binary" unfolding came_out_of_def e by blast
qed

lemma install_archive_effect:
  assumes run: "install_archive env asset_name archive m = (r, m')"
    and laws: "tar_law env" "uuid_law env" "\<not> starts_with asset_name ''/''"
    and exe: "ue_current_exe env = Ok exe" "upgrade_install_path env exe \<noteq> exe"
      "\<not> below (upgrade_temp_path env) exe"
  shows "p \<noteq> exe \<Longrightarrow> p \<noteq> upgrade_install_path env exe \<Longrightarrow> \<not> below (upgrade_temp_path env) p \<Longrightarrow> m' p = m p"
    "(\<exists>e. r = Err e) \<and> m' exe = m exe \<or>
     r = Ok exe \<and> (\<exists>binary. came_out_of env archive binary \<and> m' exe = Some (Regular binary executable_mode))"
proof -
  let ?d = "upgrade_temp_path env"
  obtain r1 m1 where u: "unpack_archive env asset_name archive m = (r1, m1)" by fastforce
  have k: "\<not> below ?d p \<Longrightarrow> m1 p = m p" for p by (rule keepsD [OF keeps_unpack [OF laws] u])
  have "(p \<noteq> exe \<longrightarrow> p \<noteq> upgrade_install_path env exe \<longrightarrow> \<not> below ?d p \<longrightarrow> m' p = m p) \<and>
    ((\<exists>e. r = Err e) \<and> m' exe = m exe \<or>
     r = Ok exe \<and> (\<exists>binary. came_out_of env archive binary \<and> m' exe = Some (Regular binary executable_mode)))" for p
  proof (cases r1)
    case (Inl e)
    with run u k exe(3) show ?thesis by (auto simp: install_archive_def then_do_def)
  next
    case (Inr extracted)
    obtain r2 m2 where i: "install_release_binary env extracted m1 = (r2, m2)" by fastforce
    note b = install_binary [OF i exe(1,2)]
    have "m' = (if is_ok r2 then remove_dir_all env ?d m2 else m2)" "r = r2"
      using run u Inr i by (auto simp: install_archive_def then_do_def is_ok_def split: sum.splits)
    then have m': "\<not> below ?d p \<Longrightarrow> m' p = m2 p" "r = r2" for p by (simp_all add: remove_dir_all_def)
    with b k exe(3) unpack_Ok(2) [OF u [unfolded Inr]] show ?thesis by auto
  qed
  then show "p \<noteq> exe \<Longrightarrow> p \<noteq> upgrade_install_path env exe \<Longrightarrow> \<not> below ?d p \<Longrightarrow> m' p = m p"
    "(\<exists>e. r = Err e) \<and> m' exe = m exe \<or>
     r = Ok exe \<and> (\<exists>binary. came_out_of env archive binary \<and> m' exe = Some (Regular binary executable_mode))"
    by blast+
qed

lemma asset_name_relative: "release_asset_name_for version os arch = Some n \<Longrightarrow> \<not> starts_with n ''/''"
  by (auto simp: release_asset_name_for_def)

lemma upgrade_from_release_effect:
  assumes run: "upgrade_from_release env m = (r, m')" and laws: "tar_law env" "uuid_law env"
    and exe: "ue_current_exe env = Ok exe" "upgrade_install_path env exe \<noteq> exe"
      "\<not> below (upgrade_temp_path env) exe"
  shows "p \<noteq> exe \<Longrightarrow> p \<noteq> upgrade_install_path env exe \<Longrightarrow> \<not> below (upgrade_temp_path env) p \<Longrightarrow> m' p = m p"
    "m' exe = m exe \<or>
     (\<exists>archive binary outcome. verified_release env archive \<and> came_out_of env archive binary \<and>
        m' exe = Some (Regular binary executable_mode) \<and> r = Ok outcome \<and> ruo_upgraded outcome)"
proof -
  consider (none) "m' = m"
    | (some) release asset_name archive checksum r1 where "fetch_latest_release env = Ok release"
        "release_version_order (ghr_tag_name release) (ue_version env) = Some Greater"
        "verified_archive env release asset_name = Ok (archive, checksum)" "\<not> starts_with asset_name ''/''"
        "install_archive env asset_name archive m = (r1, m')" "is_ok r1 \<longrightarrow> (\<exists>outcome. r = Ok outcome \<and> ruo_upgraded outcome)"
  proof -
    show ?thesis
      using run unfolding upgrade_from_release_def then_do_def Let_def
      by (auto simp: current_platform_release_asset_name_def result_simps fail_def check_def give_def
          intro: that(1) split: sum.splits prod.splits if_splits)
        (rule that(2), assumption, assumption, assumption, erule asset_name_relative, assumption, simp add: is_ok_def)+
  qed
  then have "(p \<noteq> exe \<longrightarrow> p \<noteq> upgrade_install_path env exe \<longrightarrow> \<not> below (upgrade_temp_path env) p \<longrightarrow> m' p = m p) \<and>
    (m' exe = m exe \<or>
     (\<exists>archive binary outcome. verified_release env archive \<and> came_out_of env archive binary \<and>
        m' exe = Some (Regular binary executable_mode) \<and> r = Ok outcome \<and> ruo_upgraded outcome))" for p
  proof cases
    case none
    then show ?thesis by simp
  next
    case some
    from install_archive_effect [OF some(5) laws some(4) exe] verified_archive_Ok(1) [OF some(3,1,2)] some(6)
    show ?thesis by (auto simp: is_ok_def split: sum.splits)
  qed
  then show "p \<noteq> exe \<Longrightarrow> p \<noteq> upgrade_install_path env exe \<Longrightarrow> \<not> below (upgrade_temp_path env) p \<Longrightarrow> m' p = m p"
    "m' exe = m exe \<or>
     (\<exists>archive binary outcome. verified_release env archive \<and> came_out_of env archive binary \<and>
        m' exe = Some (Regular binary executable_mode) \<and> r = Ok outcome \<and> ruo_upgraded outcome)"
    by blast+
qed

text \<open>
  C21. An upgrade from a release: whatever the downloads, \<^verbatim>\<open>tar\<close> and the file operations do, the
  executable is afterwards what it was, or a complete and executable copy of a binary that came out of an archive
  whose SHA-256 the release's SHA256SUMS gives for it, of a release newer than the running
  version, and none of whose entries leaves the temporary directory. All other files stay, but
  for the temporary directory and the copy beside the executable.
\<close>

theorem upgrade_installs_only_verified:
  assumes run: "upgrade env args as_json m = (r, m')"
    and source: "ua_source args = ReleaseSource" "should_try_release_upgrade args"
    and laws: "tar_law env" "uuid_law env"
    and exe: "ue_current_exe env = Ok exe" "upgrade_install_path env exe \<noteq> exe"
      "\<not> below (upgrade_temp_path env) exe"
  shows "(\<forall>p. p \<noteq> exe \<longrightarrow> p \<noteq> upgrade_install_path env exe \<longrightarrow> \<not> below (upgrade_temp_path env) p \<longrightarrow> m' p = m p) \<and>
    (m' exe = m exe \<or>
     (\<exists>archive binary. verified_release env archive \<and> came_out_of env archive binary \<and>
        m' exe = Some (Regular binary executable_mode)))"
proof (cases "ua_dry_run args")
  case True
  with run show ?thesis by (simp add: upgrade_def Let_def)
next
  case False
  obtain r1 m1 where u: "upgrade_from_release env m = (r1, m1)" by fastforce
  with run source False have "m' = m1" by (auto simp: upgrade_def Let_def split: sum.splits)
  with upgrade_from_release_effect [OF u laws exe] show ?thesis by blast
qed

text \<open>An upgrade from 0.3.7 to 0.4.0 on Linux.\<close>

definition sample_release :: json where
  "sample_release = JObj [(''tag_name'', JStr ''v0.4.0''), (''assets'', JArr [
     JObj [(''name'', JStr ''aichan-0.4.0-x86_64-unknown-linux-gnu.tar.gz''), (''browser_download_url'', JStr ''u'')],
     JObj [(''name'', JStr ''SHA256SUMS''), (''browser_download_url'', JStr ''s'')]])]"

definition sample_sum :: "string \<times> string" where
  "sample_sum = (concat (replicate 32 ''61''), ''aichan-0.4.0-x86_64-unknown-linux-gnu.tar.gz'')"

definition sample_upgrade_env :: upgrade_env where
  "sample_upgrade_env =
     \<lparr>ue_crates = toy\<lparr>sha256 := (\<lambda>b. replicate 32 (CHR ''a'')), json_read := (\<lambda>b. Ok sample_release)\<rparr>,
      ue_version = ''0.3.7'', ue_os = ''linux'', ue_arch = ''x86_64'',
      ue_get = (\<lambda>url. if url = ''s''
         then GotBody (concat (map (\<lambda>e. sums_line e @ [nl]) [sample_sum])) else GotBody ''b''),
      ue_tar_list = (\<lambda>b. Ok \<lparr>po_code = Some 0, po_status = [], po_stdout = ''aichan'', po_stderr = []\<rparr>),
      ue_tar_extract = (\<lambda>b d m. (Ok \<lparr>po_code = Some 0, po_status = [], po_stdout = [], po_stderr = []\<rparr>,
         m(d @ ''/aichan'' \<mapsto> Regular ''new'' 420))),
      ue_cargo = (\<lambda>command m. (Err [], m)), ue_temp_dir = ''/tmp'', ue_process_id = 7,
      ue_uuid = (\<lambda>n. replicate 32 (CHR ''0'')), ue_current_exe = Ok ''/bin/aichan'', ue_mkdir = None,
      ue_write_archive = TextWritten, ue_copy = TextWritten, ue_stat = None, ue_chmod = None, ue_rename = None,
      ue_kept = (\<lambda>p. False)\<rparr>"

lemma sample_upgrade_fields [simp]:
  "ue_current_exe sample_upgrade_env = Ok ''/bin/aichan''" "ue_uuid sample_upgrade_env n = replicate 32 (CHR ''0'')"
  "ue_tar_extract sample_upgrade_env b d m =
     (Ok \<lparr>po_code = Some 0, po_status = [], po_stdout = [], po_stderr = []\<rparr>, m(d @ ''/aichan'' \<mapsto> Regular ''new'' 420))"
  "ue_tar_list sample_upgrade_env b = Ok \<lparr>po_code = Some 0, po_status = [], po_stdout = ''aichan'', po_stderr = []\<rparr>"
  by (simp_all add: sample_upgrade_env_def)

definition sample_upgrade_args :: upgrade_args where
  "sample_upgrade_args = \<lparr>ua_git = PROJECT_REPO_URL, ua_source = ReleaseSource, ua_branch = None, ua_rev = None,
     ua_dry_run = False, ua_verbose = False\<rparr>"

lemma sample_tar_law: "tar_law sample_upgrade_env"
proof -
  have "lines (utf8_lossy ''aichan'') = [''aichan'']" "path_components ''aichan'' = [Normal ''aichan'']"
    by code_simp+
  then have "p = d @ ''/aichan'' \<Longrightarrow>
      \<exists>entry n. entry \<in> set (lines (utf8_lossy ''aichan'')) \<and> p = resolve d (take n (path_components entry))" for p d
    by (intro exI [of _ "''aichan''"] exI [of _ 1]) (simp add: resolve_def)
  then show ?thesis unfolding tar_law_def by (auto split: if_splits)
qed

lemma sample_upgrade_laws:
  "tar_law sample_upgrade_env" "uuid_law sample_upgrade_env" "\<not> below (upgrade_temp_path sample_upgrade_env) ''/bin/aichan''"
  "upgrade_install_path sample_upgrade_env ''/bin/aichan'' \<noteq> ''/bin/aichan''"
proof -
  show "tar_law sample_upgrade_env" by (rule sample_tar_law)
  have "list_all is_ascii_hexdigit (replicate 32 (CHR ''0''))" by code_simp
  then show "uuid_law sample_upgrade_env" by (simp add: uuid_law_def)
  show "\<not> below (upgrade_temp_path sample_upgrade_env) ''/bin/aichan''"
    by (simp add: below_def upgrade_temp_path_def join_path_def sample_upgrade_env_def ends_with_def)
  show "upgrade_install_path sample_upgrade_env ''/bin/aichan'' \<noteq> ''/bin/aichan''"
    by (simp add: upgrade_install_path_def with_file_name_def)
qed

lemma sample_installs:
  "\<exists>m'. install_archive sample_upgrade_env (snd sample_sum) ''b'' m = (Ok ''/bin/aichan'', m') \<and>
     m' ''/bin/aichan'' = Some (Regular ''new'' executable_mode)"
proof -
  let ?d = "upgrade_temp_path sample_upgrade_env"
  have child: "join_path ?d (snd sample_sum) = ?d @ ''/'' @ snd sample_sum" "join_path ?d ''aichan'' = ?d @ ''/aichan''"
    using temp_child(1) [OF sample_upgrade_laws(2), of "snd sample_sum"] temp_child(1) [OF sample_upgrade_laws(2), of "''aichan''"]
    by (simp_all add: sample_sum_def)
  have safe: "lines (utf8_lossy ''aichan'') = [''aichan'']" "release_archive_entry_is_safe ''aichan''"
    by code_simp+
  have env: "ue_mkdir sample_upgrade_env = None" "ue_write_archive sample_upgrade_env = TextWritten"
    "ue_copy sample_upgrade_env = TextWritten" "ue_stat sample_upgrade_env = None" "ue_chmod sample_upgrade_env = None"
    "ue_rename sample_upgrade_env = None"
    by (simp_all add: sample_upgrade_env_def)
  have other: "?d @ ''/aichan'' \<noteq> ''/bin/aichan''" "\<not> below ?d ''/bin/aichan''"
    using sample_upgrade_laws(3) by (auto simp: below_def starts_with_iff)
  obtain m2 where u: "unpack_archive sample_upgrade_env (snd sample_sum) ''b'' m = (Ok (?d @ ''/aichan''), m2)"
    "m2 (?d @ ''/aichan'') = Some (Regular ''new'' 420)"
    by (simp add: unpack_archive_def create_upgrade_temp_dir_def then_do_def env Let_def child write_node_def
        extract_release_archive_def validate_release_archive_entries_def po_success_def safe)
  have i: "\<exists>m3. install_release_binary sample_upgrade_env (?d @ ''/aichan'') m2 = (Ok ''/bin/aichan'', m3) \<and>
      m3 ''/bin/aichan'' = Some (Regular ''new'' executable_mode)"
    using u(2) sample_upgrade_laws(4)
    by (simp add: install_release_binary_def then_do_def Let_def copy_node_def write_node_def env mark_executable_def
        rename_node_def)
  with u other show ?thesis by (auto simp: install_archive_def then_do_def remove_dir_all_def)
qed

lemma sample_fetch:
  "fetch_latest_release sample_upgrade_env = Ok
     \<lparr>ghr_tag_name = ''v0.4.0'', ghr_assets =
        [\<lparr>gha_name = snd sample_sum, gha_browser_download_url = ''u''\<rparr>, \<lparr>gha_name = ''SHA256SUMS'', gha_browser_download_url = ''s''\<rparr>]\<rparr>"
proof -
  have "dec_github_release sample_release = Some
     \<lparr>ghr_tag_name = ''v0.4.0'', ghr_assets =
        [\<lparr>gha_name = snd sample_sum, gha_browser_download_url = ''u''\<rparr>, \<lparr>gha_name = ''SHA256SUMS'', gha_browser_download_url = ''s''\<rparr>]\<rparr>"
    by code_simp
  then show ?thesis
    by (simp add: fetch_latest_release_def github_get_bytes_def from_json_def sample_upgrade_env_def
        latest_release_api_url_def GITHUB_API_BASE_URL_def)
qed

lemma sample_verified:
  "verified_archive sample_upgrade_env
     \<lparr>ghr_tag_name = ''v0.4.0'', ghr_assets =
        [\<lparr>gha_name = snd sample_sum, gha_browser_download_url = ''u''\<rparr>, \<lparr>gha_name = ''SHA256SUMS'', gha_browser_download_url = ''s''\<rparr>]\<rparr>
     (snd sample_sum) = Ok (''b'', concat (replicate 32 ''61''))"
proof -
  have e: "sums_entry sample_sum" by code_simp
  have h: "sha256_hex (ue_crates sample_upgrade_env) ''b'' = concat (replicate 32 ''61'')"
  proof -
    have "hex2_lower (CHR ''a'') = ''61''" by code_simp
    then show ?thesis by (simp add: sample_upgrade_env_def sha256_hex_def)
  qed
  have l: "to_ascii_lowercase (concat (replicate 32 ''61'')) = concat (replicate 32 ''61'')" by code_simp
  have c: "checksum_from_sha256sums (concat (map (\<lambda>e. sums_line e @ [nl]) [sample_sum])) (snd sample_sum)
      = Some (concat (replicate 32 ''61''))"
    using checksum_from_written [of "[sample_sum]" "snd sample_sum"] e l by (simp add: sample_sum_def)
  have v: "utf8_valid (concat (map (\<lambda>e. sums_line e @ [nl]) [sample_sum]))"
    by (rule utf8_valid_ascii) code_simp
  have n: "snd sample_sum \<noteq> ''SHA256SUMS''" by (simp add: sample_sum_def)
  have g: "ue_get sample_upgrade_env ''u'' = GotBody ''b''"
    "ue_get sample_upgrade_env ''s'' = GotBody (concat (map (\<lambda>e. sums_line e @ [nl]) [sample_sum]))"
    by (simp_all add: sample_upgrade_env_def)
  show ?thesis
    using n by (simp add: verified_archive_def github_get_bytes_def g c v h ok_or_def and_then_def Let_def
        del: concat.simps list.map)
qed

lemma sample_upgrade_runs:
  "\<exists>shown m'. upgrade sample_upgrade_env sample_upgrade_args True m = (Ok shown, m') \<and>
     m' ''/bin/aichan'' = Some (Regular ''new'' executable_mode)"
proof -
  have "version_text (0, 4, 0) = ''0.4.0''" "version_text (0, 3, 7) = ''0.3.7''" by code_simp+
  then have order: "release_version_order ''v0.4.0'' (ue_version sample_upgrade_env) = Some Greater"
    using release_newer_iff [of 0 4 0 0 3 7] by (simp add: sample_upgrade_env_def u64_max_def)
  have platform: "current_platform_release_asset_name sample_upgrade_env (trim_start_matches_char (CHR ''v'') ''v0.4.0'') =
      Some (snd sample_sum)"
    by (simp add: current_platform_release_asset_name_def release_asset_name_for_def sample_upgrade_env_def sample_sum_def)
  obtain m' where i: "install_archive sample_upgrade_env (snd sample_sum) ''b'' m = (Ok ''/bin/aichan'', m')"
    "m' ''/bin/aichan'' = Some (Regular ''new'' executable_mode)"
    using sample_installs by blast
  have "\<exists>outcome. upgrade_from_release sample_upgrade_env m = (Ok outcome, m')"
    using i(1) order platform
    by (simp add: upgrade_from_release_def sample_fetch sample_verified Let_def ok_or_def) (simp add: then_do_def)
  with i(2) show ?thesis
    by (auto simp: upgrade_def sample_upgrade_args_def should_try_release_upgrade_def Let_def)
qed

theorem upgrade_installs_only_verified_witness:
  "\<exists>shown m'. upgrade sample_upgrade_env sample_upgrade_args True (\<lambda>p. Some (Regular ''old'' 493)) = (Ok shown, m') \<and>
     m' ''/bin/other'' = Some (Regular ''old'' 493) \<and> m' ''/bin/aichan'' = Some (Regular ''new'' executable_mode) \<and>
     (\<exists>archive binary. verified_release sample_upgrade_env archive \<and> came_out_of sample_upgrade_env archive binary \<and>
        m' ''/bin/aichan'' = Some (Regular binary executable_mode))"
proof -
  let ?m = "\<lambda>p. Some (Regular ''old'' 493) :: disk_node option"
  obtain shown m' where run: "upgrade sample_upgrade_env sample_upgrade_args True ?m = (Ok shown, m')"
    "m' ''/bin/aichan'' = Some (Regular ''new'' executable_mode)"
    using sample_upgrade_runs by blast
  have a: "ua_source sample_upgrade_args = ReleaseSource" "should_try_release_upgrade sample_upgrade_args"
    by (simp_all add: sample_upgrade_args_def should_try_release_upgrade_def)
  have o: "''/bin/other'' \<noteq> upgrade_install_path sample_upgrade_env ''/bin/aichan''"
      "\<not> below (upgrade_temp_path sample_upgrade_env) ''/bin/other''"
    by (simp_all add: upgrade_install_path_def with_file_name_def below_def upgrade_temp_path_def join_path_def
        sample_upgrade_env_def ends_with_def)
  note u = upgrade_installs_only_verified [OF run(1) a sample_upgrade_laws(1,2) sample_upgrade_fields(1) sample_upgrade_laws(4,3)]
  have "m' ''/bin/other'' = Some (Regular ''old'' 493)" using u o by simp
  moreover have "m' ''/bin/aichan'' \<noteq> ?m ''/bin/aichan''" using run(2) by simp
  ultimately show ?thesis using u run by blast
qed

section \<open>Where cargo is run\<close>

text \<open>
  In automatic mode every failure of the release leads to cargo, one that shows a wrong checksum not
  less than one that shows no network; and with another branch or repository the release is not
  tried even if it was asked for.
\<close>

lemma checksum_mismatch_runs_cargo:
  assumes "fetch_latest_release env = Ok release"
    "release_version_order (ghr_tag_name release) (ue_version env) = Some Greater"
    "current_platform_release_asset_name env (trim_start_matches_char (CHR ''v'') (ghr_tag_name release)) = Some asset_name"
    "verified_archive env release asset_name = Err e"
    "ua_source args = AutoSource" "should_try_release_upgrade args" "\<not> ua_dry_run args"
  shows "upgrade env args as_json m =
    then_do (run_cargo_upgrade env (upgrade_command_parts args) (ua_verbose args)) (\<lambda>outcome.
      give (cargo_shown env args (Some e) outcome as_json)) m"
proof -
  have "upgrade_from_release env m = (Err e, m)"
    using assms(1-4) by (simp add: upgrade_from_release_def Let_def ok_or_def)
  with assms(5-7) show ?thesis by (simp add: upgrade_def Let_def)
qed

lemma release_source_runs_cargo:
  assumes "ua_source args = ReleaseSource" "ua_branch args = Some branch" "\<not> ua_dry_run args"
  shows "upgrade_strategy_name args = ''release''"
    "upgrade env args as_json m =
      then_do (run_cargo_upgrade env (upgrade_command_parts args) (ua_verbose args)) (\<lambda>outcome.
        give (cargo_shown env args None outcome as_json)) m"
  using assms by (simp_all add: upgrade_strategy_name_def upgrade_def should_try_release_upgrade_def Let_def)

end
