(* ===== verification/Cli_Main.thy ===== *)
theory Cli_Main
  imports Cli_Messages Cli_Sync Cli_Backup Cli_Hints Cli_Upgrade Cli_Laws
begin

text \<open>
  The command line of \<^verbatim>\<open>aichan\<close> and its \<^verbatim>\<open>main\<close> (\<^verbatim>\<open>crates/aichan/src/main.rs\<close>): the commands with their
  arguments as clap delivers them, which state directory a command works on, and one run of the program
  as a step from world to world. The parsing of the arguments itself is clap's.
\<close>

section \<open>The command line\<close>

record publish_args =
  pua_body :: string
  pua_tags :: "string list"
  pua_base_url :: "string option"
  pua_dry_run :: bool

record publish_search_args =
  psa_tag :: "string option"
  psa_limit :: nat
  psa_base_url :: "string option"

record discover_args =
  dia_tags :: "string list"
  dia_limit :: nat
  dia_seed :: "string option"
  dia_base_url :: "string option"

record publish_delete_args =
  pda_publish_id :: string
  pda_base_url :: "string option"

record send_args =
  sea_recipient_peer_id :: string
  sea_body :: string
  sea_recipient_key_id :: "string option"
  sea_recipient_public_key :: "string option"
  sea_base_url :: "string option"
  sea_dry_run :: bool

record inbox_args =
  ina_limit :: nat
  ina_base_url :: "string option"

record sync_args =
  sya_limit :: nat
  sya_base_url :: "string option"

record backup_create_args =
  bca_output :: "string option"
  bca_upload :: bool
  bca_base_url :: "string option"

record backup_restore_args =
  bra_file :: "string option"
  bra_recovery_phrase :: "string option"
  bra_force :: bool
  bra_base_url :: "string option"

datatype backup_command = CreateBackup backup_create_args | RestoreBackup backup_restore_args | BackupStatus

datatype command =
    ShowIdentity
  | ShowStatus
  | InitAgentHints
  | PublishRecord publish_args
  | PublishSearch publish_search_args
  | Discover discover_args
  | PublishDelete publish_delete_args
  | SendMessage send_args
  | ReadInbox inbox_args
  | SyncActivity sync_args
  | BackupCmd backup_command
  | Upgrade upgrade_args

record cli =
  cli_project_dir :: "string option"
  cli_json :: bool
  cli_timeout_seconds :: "nat option"
  cli_command :: "command option"

definition DEFAULT_RELAY_REQUEST_TIMEOUT_SECS :: nat where "DEFAULT_RELAY_REQUEST_TIMEOUT_SECS = 30"
definition MIN_RELAY_TIMEOUT_SECS :: nat where "MIN_RELAY_TIMEOUT_SECS = 1"
definition MAX_RELAY_TIMEOUT_SECS :: nat where "MAX_RELAY_TIMEOUT_SECS = 120"

definition relay_timeout_secs :: "nat option \<Rightarrow> nat" where
  "relay_timeout_secs timeout_seconds =
     (let t = (case timeout_seconds of Some t \<Rightarrow> t | None \<Rightarrow> DEFAULT_RELAY_REQUEST_TIMEOUT_SECS)
      in if t < MIN_RELAY_TIMEOUT_SECS then MIN_RELAY_TIMEOUT_SECS
         else if t > MAX_RELAY_TIMEOUT_SECS then MAX_RELAY_TIMEOUT_SECS else t)"

section \<open>The world of a run\<close>

text \<open>
  The files of each state directory, and what all runs share: the backup files, the text files of
  projects, the machine that \<^verbatim>\<open>aichan upgrade\<close> works on, and the relay with the network.
\<close>

record 'n cli_world =
  cw_dirs :: "local_state_dir \<Rightarrow> 'n client"
  cw_backups :: "string \<Rightarrow> backup_file json_file"
  cw_texts :: text_files
  cw_machine :: machine
  cw_net :: 'n

text \<open>
  What a process finds: its environment variables and working directory, which files exist, how writes of
  text files end; the environments of its commands, which depend on the timeout that it gives its exchanges.
\<close>

record 'n process =
  pr_vars :: "string \<Rightarrow> string option"
  pr_cwd :: "string + string"
  pr_exists :: "string \<Rightarrow> bool"
  pr_text_write :: "string \<Rightarrow> text_write"
  pr_cli_env :: "nat \<Rightarrow> 'n cli_env"
  pr_upgrade_env :: "nat \<Rightarrow> upgrade_env"

text \<open>What a run prints, or the lines of \<^verbatim>\<open>init-agent-hints\<close>.\<close>

datatype printed =
    PrintedJson json
  | PrintedShown shown
  | PrintedRecord "publish_object sent"
  | PrintedMessage "message_object sent"
  | PrintedBackup json "string option"
  | PrintedLines "string list"
  | PrintedUpgrade upgrade_shown

section \<open>One command\<close>

text \<open>What a command touches: the client with its state directory, the text files, or the machine.\<close>

type_synonym 'n surroundings = "'n client \<times> text_files \<times> machine"

definition in_client :: "('n client, 'a) step \<Rightarrow> ('a \<Rightarrow> printed) \<Rightarrow> ('n surroundings, printed) step" where
  "in_client m show_it = (\<lambda>(c, texts, mach). case m c of (r, c') \<Rightarrow> (map_ok show_it r, (c', texts, mach)))"

definition in_texts :: "('n client \<times> text_files, 'a) step \<Rightarrow> ('a \<Rightarrow> printed) \<Rightarrow> ('n surroundings, printed) step" where
  "in_texts m show_it = (\<lambda>(c, texts, mach).
     case m (c, texts) of (r, (c', texts')) \<Rightarrow> (map_ok show_it r, (c', texts', mach)))"

definition in_machine :: "(machine, 'a) step \<Rightarrow> ('a \<Rightarrow> printed) \<Rightarrow> ('n surroundings, printed) step" where
  "in_machine m show_it = (\<lambda>(c, texts, mach). case m mach of (r, mach') \<Rightarrow> (map_ok show_it r, (c, texts, mach')))"

definition backup_cmd ::
  "'n process \<Rightarrow> 'n cli_env \<Rightarrow> local_state_dir \<Rightarrow> backup_command \<Rightarrow> ('n surroundings, printed) step" where
  "backup_cmd p env s cmd =
     (case cmd of
        CreateBackup a \<Rightarrow>
          in_client (backup_create env (pr_cwd p) s (bca_output a) (bca_upload a) (bca_base_url a))
            (\<lambda>(shown, failed). PrintedBackup shown failed)
      | RestoreBackup a \<Rightarrow>
          in_client (backup_restore env (pr_vars p) s (bra_file a) (bra_recovery_phrase a) (bra_force a)
                       (bra_base_url a)) PrintedJson
      | BackupStatus \<Rightarrow> in_client (backup_status env s) PrintedJson)"

definition run_command ::
  "'n process \<Rightarrow> nat \<Rightarrow> local_state_dir \<Rightarrow> bool \<Rightarrow> command \<Rightarrow> ('n surroundings, printed) step" where
  "run_command p timeout_secs s as_json cmd =
     (let env = pr_cli_env p timeout_secs in
      case cmd of
        ShowIdentity \<Rightarrow> in_client (print_identity env s) PrintedJson
      | ShowStatus \<Rightarrow> in_client (print_status env s) PrintedJson
      | InitAgentHints \<Rightarrow> in_texts (init_agent_hints env (pr_text_write p) s) PrintedLines
      | PublishRecord a \<Rightarrow>
          in_client (publish env s (pua_body a) (pua_tags a) (pua_base_url a) (pua_dry_run a) as_json) PrintedRecord
      | PublishSearch a \<Rightarrow>
          in_client (publish_search_command env s (psa_tag a) (psa_limit a) (psa_base_url a) as_json) PrintedShown
      | Discover a \<Rightarrow>
          in_client (discover env s (dia_tags a) (dia_limit a) (dia_seed a) (dia_base_url a) as_json) PrintedShown
      | PublishDelete a \<Rightarrow>
          in_client (publish_delete env s (pda_publish_id a) (pda_base_url a) as_json) PrintedShown
      | SendMessage a \<Rightarrow>
          in_client (send_message env s (sea_recipient_peer_id a) (sea_body a) (sea_recipient_key_id a)
                       (sea_recipient_public_key a) (sea_base_url a) (sea_dry_run a) as_json) PrintedMessage
      | ReadInbox a \<Rightarrow> in_client (inbox env s (ina_limit a) (ina_base_url a)) PrintedJson
      | SyncActivity a \<Rightarrow> in_client (sync_activity env s (sya_limit a) (sya_base_url a)) PrintedJson
      | BackupCmd b \<Rightarrow> backup_cmd p env s b
      | Upgrade args \<Rightarrow> in_machine (upgrade (pr_upgrade_env p timeout_secs) args as_json) PrintedUpgrade)"

section \<open>One run\<close>

definition cli_state_dir :: "'n process \<Rightarrow> string option \<Rightarrow> command \<Rightarrow> string + local_state_dir" where
  "cli_state_dir p project_dir cmd =
     (case cmd of
        InitAgentHints \<Rightarrow> project_state_dir (pr_cwd p) project_dir
      | _ \<Rightarrow> default_state_dir (pr_vars p) (pr_cwd p) (pr_exists p) project_dir)"

text \<open>A run works on the files of its directory, with an empty cache, and on what all runs share.\<close>

definition open_dir :: "'n cli_world \<Rightarrow> local_state_dir \<Rightarrow> 'n client" where
  "open_dir w s = (cw_dirs w s)\<lparr>cl_cache := init_state_cache s, cl_backups := cw_backups w, cl_net := cw_net w\<rparr>"

definition main :: "'n process \<Rightarrow> cli \<Rightarrow> ('n cli_world, printed) step" where
  "main p cli w =
     (let cmd = (case cli_command cli of Some c \<Rightarrow> c | None \<Rightarrow> ShowIdentity) in
      case cli_state_dir p (cli_project_dir cli) cmd of
        Inl e \<Rightarrow> (Err e, w)
      | Inr s \<Rightarrow>
          (case run_command p (relay_timeout_secs (cli_timeout_seconds cli)) s (cli_json cli) cmd
                  (open_dir w s, cw_texts w, cw_machine w) of
             (r, (c, texts, m)) \<Rightarrow>
               (r, w\<lparr>cw_dirs := (cw_dirs w)(s := c), cw_backups := cl_backups c, cw_texts := texts, cw_machine := m,
                    cw_net := cl_net c\<rparr>)))"

end
