(* ===== verification/Cli_Session.thy ===== *)
theory Cli_Session
  imports Cli_Main Message_Flow Upgrade_Laws
begin

text \<open>
  What a user may rely on from run to run of \<^verbatim>\<open>aichan\<close>: an identity, once it is in a state directory, stays
  the one of that directory. The command steps are put together from a few that touch the identity file
  or the cache of it; what they keep is kept by every command that is composed of them.
\<close>

section \<open>Steps that keep a property of the state\<close>

definition preserves :: "('s \<Rightarrow> bool) \<Rightarrow> ('s, 'a) step \<Rightarrow> bool" where
  "preserves P m \<longleftrightarrow> (\<forall>s r s'. P s \<longrightarrow> m s = (r, s') \<longrightarrow> P s')"

named_theorems preserved

lemma preservesI: "(\<And>s r s'. P s \<Longrightarrow> m s = (r, s') \<Longrightarrow> P s') \<Longrightarrow> preserves P m"
  by (simp add: preserves_def)

lemma preservesD: "preserves P m \<Longrightarrow> P s \<Longrightarrow> m s = (r, s') \<Longrightarrow> P s'"
  by (simp add: preserves_def)

lemma preserves_simple [simp, preserved]:
  "preserves P (give a)" "preserves P (fail e)" "preserves P (check r)" "preserves P (check_core q)"
  by (auto simp: preserves_def check_core_def)

lemma preserves_then_do [preserved]:
  assumes "preserves P m" "\<And>a. preserves P (f a)"
  shows "preserves P (then_do m f)"
proof (rule preservesI)
  fix s r s' assume s: "P s" and run: "then_do m f s = (r, s')"
  obtain q s1 where q: "m s = (q, s1)" by fastforce
  have s1: "P s1" by (rule preservesD [OF assms(1) s q])
  show "P s'"
    using run q s1 preservesD [OF assms(2) s1] by (cases q) (auto simp: then_do_def)
qed

lemma preserves_if [preserved]: "preserves P m \<Longrightarrow> preserves P n \<Longrightarrow> preserves P (if b then m else n)"
  by simp

lemma preserves_quiet [preserved]: "preserves P (\<lambda>c. (g c, c))"
  by (simp add: preserves_def)

section \<open>The identity of a state directory\<close>

text \<open>The identity file holds \<open>i\<close>, and so does the cache if it holds one.\<close>

definition identity_is :: "identity_file \<Rightarrow> 'n client \<Rightarrow> bool" where
  "identity_is i c \<longleftrightarrow> cl_identity c = Content i \<and> cs_identity (cl_cache c) \<in> {None, Some i}"

definition identity_ready :: "crates \<Rightarrow> identity_file \<Rightarrow> bool" where
  "identity_ready x i \<longleftrightarrow> validate_identity x i = Ok () \<and> message_keys_ok x i"

lemma create_or_load_ready:
  "identity_ready x i \<Longrightarrow> identity_create_or_load x s mk w ent raced (Content i) = (Ok i, Content i)"
  by (simp add: identity_ready_def identity_create_or_load_def read_identity_def read_json_def
      ensure_message_key_pair_def message_keys_ok_def Let_def)

lemma load_identity_ready:
  assumes "identity_ready (ce_crates env) i" "identity_is i c"
  shows "load_identity env s c = (Ok i, c)"
proof -
  have "c\<lparr>cl_identity := Content i\<rparr> = c" using assms(2) by (simp add: identity_is_def)
  then show ?thesis using assms by (simp add: load_identity_def identity_is_def create_or_load_ready)
qed

lemma preserves_load_identity [preserved]:
  "identity_ready (ce_crates env) i \<Longrightarrow> preserves (identity_is i) (load_identity env s)"
  by (rule preservesI) (simp add: load_identity_ready)

lemma preserves_cached_identity [preserved]:
  fixes env :: "'n cli_env"
  assumes "identity_ready (ce_crates env) i"
  shows "preserves (identity_is i) (cached_identity env s)"
proof (rule preservesI)
  fix c :: "'n client" and r c' assume c: "identity_is i c" and run: "cached_identity env s c = (r, c')"
  note l = load_identity_ready [OF assms c, of s]
  from run consider "c' = c" | "c' = c\<lparr>cl_cache := (cl_cache c)\<lparr>cs_identity := Some i\<rparr>\<rparr>"
    by (auto simp: cached_identity_def l split: bool.splits option.splits)
  then show "identity_is i c'" by cases (use c in \<open>simp_all add: identity_is_def\<close>)
qed

lemma preserves_files [preserved]:
  "preserves (identity_is i) (cached_device env s)" "preserves (identity_is i) (cached_memory env s)"
  "preserves (identity_is i) (cached_config env s)"
  "preserves (identity_is i) (relay_request env verb url p hs b)"
  "preserves (identity_is i) (write_backup env q backup)" "preserves (identity_is i) (load_metadata s)"
  "preserves (identity_is i) (write_metadata env s n m)"
  "preserves (identity_is i) (append_local_message_log env s d peer ob st)"
  "preserves (identity_is i) (cache_recipient_message_key env s t peer k p)"
  by (auto simp: preserves_def identity_is_def cached_device_def cached_memory_def cached_config_def relay_request_def
      write_backup_def load_metadata_def write_metadata_def append_local_message_log_def
      cache_recipient_message_key_def Let_def
      split: bool.splits option.splits prod.splits sum.splits if_splits append_outcome.splits)

lemma preserves_updates [preserved]:
  "preserves (identity_is i) (\<lambda>c. (let (r, f) = g c in (h r, c\<lparr>cl_memory := f\<rparr>)))"
  "preserves (identity_is i) (\<lambda>c. (let (r, f) = g' c in (r, c\<lparr>cl_inbox := (cl_inbox c)(q := f)\<rparr>)))"
  "preserves (identity_is i) (\<lambda>c. (Ok (), c\<lparr>cl_cache := update_memory_in_cache s m (cl_cache c)\<rparr>))"
  by (auto simp: preserves_def identity_is_def update_memory_in_cache_def split: prod.splits)

section \<open>Every command but a restore\<close>

lemma preserves_when: "(\<And>a. b = Some a \<Longrightarrow> preserves P (f a)) \<Longrightarrow> (b = None \<Longrightarrow> preserves P m) \<Longrightarrow>
    preserves P (case b of None \<Rightarrow> m | Some a \<Rightarrow> f a)"
  by (cases b) simp_all

lemma preserves_pair: "(\<And>a b. preserves P (f a b)) \<Longrightarrow> preserves P (case q of (a, b) \<Rightarrow> f a b)"
  by (cases q) simp

lemmas preserves_intros = preserved preserves_when preserves_pair

lemma preserves_small_commands:
  assumes "identity_ready (ce_crates env) i"
  shows "preserves (identity_is i) (print_identity env s)" "preserves (identity_is i) (print_status env s)"
    "preserves (identity_is i) (publish_search_command env s tag n url j)"
    "preserves (identity_is i) (discover env s tags n seed url j)"
    "preserves (identity_is i) (publish_delete env s pid url j)"
    "preserves (identity_is i) (backup_status env s)"
    "preserves (identity_is i) (build_publish_record env s body tags)"
    "preserves (identity_is i) (build_message_envelope env s to body k p)"
  unfolding print_identity_def print_status_def publish_search_command_def discover_def publish_delete_def
    backup_status_def build_publish_record_def build_message_envelope_def Let_def
  by (intro preserves_intros assms)+

lemma preserves_publish:
  "identity_ready (ce_crates env) i \<Longrightarrow> preserves (identity_is i) (publish env s body tags url dry j)"
  unfolding publish_def Let_def by (intro preserves_intros preserves_small_commands)

lemma preserves_send:
  assumes "identity_ready (ce_crates env) i"
  shows "preserves (identity_is i) (send_message env s to body k p url dry j)"
proof -
  have "preserves (identity_is i) (discover_recipient_message_key env u to)" for u to
    unfolding discover_recipient_message_key_def by (intro preserves_intros)
  then have "preserves (identity_is i) (recipient_key env s to k p url)" for to
    unfolding recipient_key_def Let_def
    by (auto split: option.split intro!: preserves_intros)
  then show ?thesis
    unfolding send_message_def Let_def by (intro preserves_intros preserves_small_commands assms)
qed

lemma preserves_inbox:
  assumes "identity_ready (ce_crates env) i"
  shows "preserves (identity_is i) (inbox env s n url)"
proof -
  have "preserves (identity_is i) (inbox_record env s me keys v)" for me keys v
    unfolding inbox_record_def Let_def by (intro preserves_intros preserves_updates [unfolded Let_def])
  then have "preserves (identity_is i) (inbox_records env s me keys vs)" for me keys vs
    by (induction vs) (simp_all add: preserves_then_do)
  then show ?thesis unfolding inbox_def Let_def by (intro preserves_intros assms)
qed

lemma preserves_sync:
  assumes "identity_ready (ce_crates env) i"
  shows "preserves (identity_is i) (sync_activity env s n url)"
proof -
  have "preserves (identity_is i) (upload_activity_event env u l e)"
    "preserves (identity_is i) (download_activity_events env u l cu m)" for u l e cu m
    unfolding upload_activity_event_def download_activity_events_def Let_def by (intro preserves_intros)+
  then show ?thesis
    unfolding sync_activity_def Let_def
    by (intro preserves_intros preserves_updates [unfolded Let_def] assms)
qed

lemma preserves_backup_create:
  assumes "identity_ready (ce_crates env) i"
  shows "preserves (identity_is i) (backup_create env cwd s out up url)"
proof -
  have up: "preserves (identity_is i) (upload_hosted_backup env u l b)" for u l b
    unfolding upload_hosted_backup_def Let_def by (intro preserves_intros)
  have "preserves (identity_is i) (try_upload env s u l b m)" for u l b m
  proof (rule preservesI)
    fix c r c' assume c: "identity_is i c" and run: "try_upload env s u l b m c = (r, c')"
    obtain q c1 where q: "upload_hosted_backup env u l b c = (q, c1)" by fastforce
    have c1: "identity_is i c1" by (rule preservesD [OF up c q])
    have "preserves (identity_is i) (then_do (write_metadata env s n m') (\<lambda>_. give (Ok v)))" for n m' v
      by (intro preserves_intros)
    from preservesD [OF this c1] run q c1 show "identity_is i c'"
      by (cases q) (auto simp: try_upload_def)
  qed
  then show ?thesis unfolding backup_create_def Let_def by (intro preserves_intros assms)
qed

text \<open>A restore without \<^verbatim>\<open>--force\<close> does not touch a directory that has an identity.\<close>

lemma preserves_refused_restore: "preserves (identity_is i) (backup_restore env vars s from phrase False url)"
  by (rule preservesI)
    (auto simp: backup_restore_def restore_target_has_local_state_def identity_is_def file_exists_def)

lemma preserves_on_client: "preserves P m \<Longrightarrow> preserves (\<lambda>(c, files). P c) (on_client m)"
  unfolding preserves_def on_client_def by (fastforce split: prod.splits)

lemma preserves_on_files: "preserves (\<lambda>(c, files). P c) (on_files m)"
  unfolding preserves_def on_files_def by (auto split: prod.splits)

lemma preserves_hints:
  "identity_ready (ce_crates env) i \<Longrightarrow> preserves (\<lambda>(c, files). identity_is i c) (init_agent_hints env w s)"
  unfolding init_agent_hints_def Let_def
  by (intro preserves_intros preserves_on_client preserves_on_files)

section \<open>From run to run\<close>

definition forces_restore :: "command \<Rightarrow> bool" where
  "forces_restore cmd \<longleftrightarrow> (\<exists>a. cmd = BackupCmd (RestoreBackup a) \<and> bra_force a)"

lemma preserves_in:
  "preserves P m \<Longrightarrow> preserves (\<lambda>(c, texts, mach). P c) (in_client m f)"
  "preserves (\<lambda>(c, texts). P c) n \<Longrightarrow> preserves (\<lambda>(c, texts, mach). P c) (in_texts n g)"
  "preserves (\<lambda>(c, texts, mach). P c) (in_machine k h)"
  unfolding preserves_def in_client_def in_texts_def in_machine_def by (fastforce split: prod.splits)+

lemma preserves_run_command:
  assumes "identity_ready (ce_crates (pr_cli_env p t)) i" "\<not> forces_restore cmd"
  shows "preserves (\<lambda>(c, texts, mach). identity_is i c) (run_command p t s j cmd)"
proof (cases cmd)
  case (BackupCmd b)
  have "preserves (\<lambda>(c, texts, mach). identity_is i c) (backup_cmd p (pr_cli_env p t) s b)"
  proof (cases b)
    case (RestoreBackup a)
    then have "bra_force a = False" using assms(2) BackupCmd by (simp add: forces_restore_def)
    then show ?thesis
      using RestoreBackup preserves_in(1) [OF preserves_refused_restore] by (simp add: backup_cmd_def)
  qed (simp_all add: backup_cmd_def preserves_in(1) preserves_backup_create preserves_small_commands assms(1))
  with BackupCmd show ?thesis by (simp add: run_command_def)
qed (simp_all add: run_command_def preserves_in preserves_small_commands preserves_publish preserves_send preserves_inbox
    preserves_sync preserves_hints assms(1))

fun cli_runs :: "('n process \<times> cli) list \<Rightarrow> 'n cli_world \<Rightarrow> 'n cli_world" where
  "cli_runs [] w = w"
| "cli_runs ((p, cli) # runs) w = cli_runs runs (snd (main p cli w))"

abbreviation cli_cmd :: "cli \<Rightarrow> command" where
  "cli_cmd cli \<equiv> (case cli_command cli of Some c \<Rightarrow> c | None \<Rightarrow> ShowIdentity)"

lemma main_keeps_identity:
  assumes i: "\<forall>t. identity_ready (ce_crates (pr_cli_env p t)) i" and d: "cl_identity (cw_dirs w d) = Content i"
    and f: "forces_restore (cli_cmd cli) \<longrightarrow> cli_state_dir p (cli_project_dir cli) (cli_cmd cli) \<noteq> Ok d"
  shows "cl_identity (cw_dirs (snd (main p cli w)) d) = Content i"
proof (cases "cli_state_dir p (cli_project_dir cli) (cli_cmd cli)")
  case (Inl e)
  with d show ?thesis by (simp add: main_def Let_def)
next
  case (Inr s)
  let ?t = "relay_timeout_secs (cli_timeout_seconds cli)"
  obtain r c texts m where run: "run_command p ?t s (cli_json cli) (cli_cmd cli) (open_dir w s, cw_texts w, cw_machine w)
      = (r, (c, texts, m))" by (metis prod.exhaust)
  then have dirs: "cw_dirs (snd (main p cli w)) = (cw_dirs w)(s := c)" using Inr by (simp add: main_def Let_def)
  show ?thesis
  proof (cases "s = d")
    case False
    with dirs d show ?thesis by simp
  next
    case True
    have "preserves (\<lambda>(c, texts, mach). identity_is i c) (run_command p ?t s (cli_json cli) (cli_cmd cli))"
      using f Inr True by (intro preserves_run_command i [rule_format]) simp
    moreover have "identity_is i (open_dir w s)"
      using d True by (simp add: identity_is_def open_dir_def init_state_cache_def)
    ultimately have "identity_is i c" using run by (auto dest: preservesD)
    with dirs True show ?thesis by (simp add: identity_is_def)
  qed
qed

text \<open>
  C18. An identity survives. Whatever commands are run, in whatever order, whatever the relay answers and
  however the writes end, the identity file of a state directory stays as it is, except by a restore that
  is forced upon that directory.
\<close>

theorem identity_survives:
  assumes "\<forall>(p, cli) \<in> set runs. \<forall>t. identity_ready (ce_crates (pr_cli_env p t)) i"
    and "\<forall>(p, cli) \<in> set runs. forces_restore (cli_cmd cli) \<longrightarrow>
           cli_state_dir p (cli_project_dir cli) (cli_cmd cli) \<noteq> Ok d"
    and "cl_identity (cw_dirs w d) = Content i"
  shows "cl_identity (cw_dirs (cli_runs runs w) d) = Content i"
  using assms
proof (induction runs w rule: cli_runs.induct)
  case (2 p cli runs w)
  have "cl_identity (cw_dirs (snd (main p cli w)) d) = Content i"
    by (rule main_keeps_identity) (use "2.prems" in auto)
  with "2.IH" "2.prems" show ?case by simp
qed simp

definition sample_process :: "unit process" where
  "sample_process = \<lparr>pr_vars = (\<lambda>v. if v = ''HOME'' then Some ''/home/a'' else None), pr_cwd = Ok ''/work'', pr_exists = (\<lambda>p. True),
     pr_text_write = (\<lambda>p. TextWritten), pr_cli_env = (\<lambda>t. sample_cli_env toy), pr_upgrade_env = (\<lambda>t. sample_upgrade_env)\<rparr>"

definition sample_world :: "unit cli_world" where
  "sample_world = \<lparr>cw_dirs = (\<lambda>d. sample_client\<lparr>cl_identity := Content (new_identity toy sample_entropy)\<rparr>),
     cw_backups = (\<lambda>p. Missing), cw_texts = (\<lambda>p. Missing), cw_machine = (\<lambda>p. None), cw_net = ()\<rparr>"

definition sample_restore :: cli where
  "sample_restore = \<lparr>cli_project_dir = None, cli_json = True, cli_timeout_seconds = Some 600,
     cli_command = Some (BackupCmd (RestoreBackup \<lparr>bra_file = Some ''b'', bra_recovery_phrase = Some ''r'',
        bra_force = False, bra_base_url = None\<rparr>))\<rparr>"

definition sample_status :: cli where
  "sample_status = \<lparr>cli_project_dir = None, cli_json = True, cli_timeout_seconds = None, cli_command = None\<rparr>"

theorem identity_survives_witness:
  "cl_identity (cw_dirs (cli_runs [(sample_process, sample_restore), (sample_process, sample_status)] sample_world) ''/home/a'')
     = Content (new_identity toy sample_entropy)"
proof (rule identity_survives)
  have e: "entropy_ok sample_entropy" unfolding sample_entropy_def by (rule sample_entropy_ok)
  have "identity_ready toy (new_identity toy sample_entropy)"
    using new_identity_valid [OF toy_laws(1,5,4) e] by (simp add: identity_ready_def)
  then show "\<forall>(p, cli) \<in> set [(sample_process, sample_restore), (sample_process, sample_status)].
      \<forall>t. identity_ready (ce_crates (pr_cli_env p t)) (new_identity toy sample_entropy)"
    by (simp add: sample_process_def)
  show "\<forall>(p, cli) \<in> set [(sample_process, sample_restore), (sample_process, sample_status)].
      forces_restore (cli_cmd cli) \<longrightarrow> cli_state_dir p (cli_project_dir cli) (cli_cmd cli) \<noteq> Ok ''/home/a''"
    by (simp add: sample_restore_def sample_status_def forces_restore_def)
  show "cl_identity (cw_dirs sample_world ''/home/a'') = Content (new_identity toy sample_entropy)"
    by (simp add: sample_world_def)
qed

text \<open>The timeout of every exchange is between one second and two minutes.\<close>

lemma relay_timeout_bounds: "1 \<le> relay_timeout_secs t \<and> relay_timeout_secs t \<le> 120"
  by (simp add: relay_timeout_secs_def Let_def MIN_RELAY_TIMEOUT_SECS_def MAX_RELAY_TIMEOUT_SECS_def)

end
